(* ===== verification/Prelude.thy ===== *)
theory Prelude
  imports Complex_Main "HOL-Library.AList" "HOL-Library.Word" "HOL-Library.List_Lexorder" "HOL-Library.Char_ord"
begin

text \<open>
  Shared vocabulary of the development: the value types the Go program is built from
  (UUIDs, times, strings), Go maps as association lists, SQL tables as lists of rows, and
  the collections of rewrite rules the component theories extend.

  A Go \<open>map[K]V\<close> is an association list with distinct keys (\<open>gomap_wf\<close>). Lookup is
  \<open>map_of\<close>, assignment \<open>AList.update\<close>, \<open>delete\<close> is \<open>AList.delete\<close> and \<open>len\<close> is
  \<open>length\<close>. The order of the list is one of the orders a Go \<open>range\<close> may use.

  A SQL table is the list of its rows; \<open>UPDATE .. WHERE\<close> is \<open>sql_update\<close>,
  \<open>DELETE .. WHERE\<close> is \<open>sql_delete\<close>, \<open>ORDER BY k LIMIT 1\<close> is \<open>least_by k\<close>.
\<close>

section \<open>Value types\<close>

type_synonym uuid = "128 word"
  \<comment> \<open>\<open>model.UUID\<close>, an array of sixteen bytes\<close>

type_synonym time = int
  \<comment> \<open>\<open>time.Time\<close>, in nanoseconds since the Unix epoch\<close>

type_synonym duration = int
  \<comment> \<open>\<open>time.Duration\<close>, in nanoseconds\<close>

definition second :: duration where "second = 1000000000"

definition minute :: duration where "minute = 60 * second"

definition hour :: duration where "hour = 60 * minute"

definition unix :: "time \<Rightarrow> int" where
  "unix t = t div second"
  \<comment> \<open>\<open>t.Unix()\<close>: whole seconds\<close>

definition unix_milli :: "time \<Rightarrow> int" where
  "unix_milli t = t div 1000000"

named_theorems time_defs \<open>the durations, unfolded to nanoseconds\<close>

declare second_def [time_defs] minute_def [time_defs] hour_def [time_defs]

lemma second_pos [simp]: "0 < second"
  by (simp add: second_def)

lemma minute_pos [simp]: "0 < minute"
  by (simp add: time_defs)

lemma unix_mono: "s \<le> t \<Longrightarrow> unix s \<le> unix t"
  by (simp add: unix_def zdiv_mono1)

section \<open>Go maps\<close>

type_synonym ('k, 'v) gomap = "('k \<times> 'v) list"

definition gomap_wf :: "('k, 'v) gomap \<Rightarrow> bool" where
  "gomap_wf m \<longleftrightarrow> distinct (map fst m)"

named_theorems gomap_simps \<open>lookup after an operation on a Go map\<close>

lemma gomap_wf_Nil [simp, intro]: "gomap_wf []"
  by (simp add: gomap_wf_def)

lemma gomap_wf_update [simp, intro]: "gomap_wf m \<Longrightarrow> gomap_wf (AList.update k v m)"
  by (simp add: gomap_wf_def distinct_update)

lemma gomap_wf_delete [simp, intro]: "gomap_wf m \<Longrightarrow> gomap_wf (AList.delete k m)"
  by (simp add: gomap_wf_def distinct_delete)

lemma gomap_wf_filter [simp, intro]: "gomap_wf m \<Longrightarrow> gomap_wf (filter P m)"
  by (simp add: gomap_wf_def distinct_map_filter)

lemma gomap_update [gomap_simps]: "map_of (AList.update k v m) = (map_of m)(k \<mapsto> v)"
  by (simp add: update_conv')

lemma gomap_delete [gomap_simps]: "map_of (AList.delete k m) = (map_of m)(k := None)"
  by (simp add: delete_conv')

lemma gomap_in_set: "gomap_wf m \<Longrightarrow> (k, v) \<in> set m \<longleftrightarrow> map_of m k = Some v"
  by (simp add: gomap_wf_def)

lemma gomap_filter:
  assumes "gomap_wf m"
  shows "map_of (filter P m) k = (case map_of m k of None \<Rightarrow> None | Some v \<Rightarrow> if P (k, v) then Some v else None)"
proof -
  have wf: "gomap_wf (filter P m)" using assms by simp
  show ?thesis
  proof (cases "map_of m k")
    case None
    then have "map_of (filter P m) k = None" by (auto simp: map_of_eq_None_iff)
    then show ?thesis using None by (simp only: option.case)
  next
    case (Some v)
    then have mem: "(k, v) \<in> set m" using assms by (simp add: gomap_in_set)
    show ?thesis
    proof (cases "P (k, v)")
      case True
      then have "(k, v) \<in> set (filter P m)" using mem by simp
      then have "map_of (filter P m) k = Some v" by (simp only: gomap_in_set [OF wf])
      then show ?thesis using Some True by simp
    next
      case False
      have "k \<notin> fst ` set (filter P m)"
      proof
        assume "k \<in> fst ` set (filter P m)"
        then obtain w where "(k, w) \<in> set m" "P (k, w)" by auto
        moreover from this have "map_of m k = Some w" by (simp only: gomap_in_set [OF assms])
        ultimately show False using Some False by simp
      qed
      then have "map_of (filter P m) k = None" by (metis map_of_eq_None_iff)
      then show ?thesis using Some False by (simp only: option.case if_False)
    qed
  qed
qed

lemma map_of_map_snd: "map_of (map (\<lambda>(k, v). (k, f k v)) m) k = map_option (f k) (map_of m k)"
  by (induction m) auto

section \<open>SQL tables\<close>

definition sql_update :: "('r \<Rightarrow> bool) \<Rightarrow> ('r \<Rightarrow> 'r) \<Rightarrow> 'r list \<Rightarrow> 'r list" where
  "sql_update P f rows = map (\<lambda>r. if P r then f r else r) rows"

definition sql_delete :: "('r \<Rightarrow> bool) \<Rightarrow> 'r list \<Rightarrow> 'r list" where
  "sql_delete P rows = filter (\<lambda>r. \<not> P r) rows"

definition sql_count :: "('r \<Rightarrow> bool) \<Rightarrow> 'r list \<Rightarrow> nat" where
  "sql_count P rows = length (filter P rows)"

fun least_by :: "('r \<Rightarrow> 'k::linorder) \<Rightarrow> 'r list \<Rightarrow> 'r option" where
  "least_by k [] = None"
| "least_by k (r # rows) =
     (case least_by k rows of None \<Rightarrow> Some r | Some s \<Rightarrow> if k r \<le> k s then Some r else Some s)"

lemma least_by_None [simp]: "least_by k rows = None \<longleftrightarrow> rows = []"
  by (cases rows) (auto split: option.splits)

lemma least_by_in: "least_by k rows = Some r \<Longrightarrow> r \<in> set rows"
  by (induction rows arbitrary: r) (auto split: option.splits if_splits)

lemma least_by_least: "least_by k rows = Some r \<Longrightarrow> s \<in> set rows \<Longrightarrow> k r \<le> k s"
proof (induction rows arbitrary: r s)
  case Nil
  then show ?case by simp
next
  case (Cons a rows)
  show ?case
  proof (cases "least_by k rows")
    case None
    then show ?thesis using Cons.prems by auto
  next
    case (Some t)
    then show ?thesis using Cons.prems Cons.IH[OF Some]
      by (auto split: if_splits intro: order_trans)
  qed
qed

lemma sql_update_set: "r \<in> set (sql_update P f rows) \<longleftrightarrow>
    (\<exists>s \<in> set rows. r = (if P s then f s else s))"
  by (auto simp: sql_update_def)

lemma sql_update_length [simp]: "length (sql_update P f rows) = length rows"
  by (simp add: sql_update_def)

lemma sql_update_Nil [simp]: "sql_update P f [] = []"
  by (simp add: sql_update_def)

lemma sql_update_Cons [simp]:
  "sql_update P f (r # rows) = (if P r then f r else r) # sql_update P f rows"
  by (simp add: sql_update_def)

lemma sql_update_key: "(\<And>r. P r \<Longrightarrow> key (f r) = key r) \<Longrightarrow>
    map key (sql_update P f rows) = map key rows"
  by (simp add: sql_update_def)

lemma sql_update_id: "(\<And>r. r \<in> set rows \<Longrightarrow> \<not> P r) \<Longrightarrow> sql_update P f rows = rows"
  by (induction rows) auto

lemma sql_delete_set [simp]: "set (sql_delete P rows) = {r \<in> set rows. \<not> P r}"
  by (simp add: sql_delete_def)

lemma sql_delete_Nil [simp]: "sql_delete P [] = []"
  by (simp add: sql_delete_def)

lemma sql_delete_Cons [simp]:
  "sql_delete P (r # rows) = (if P r then sql_delete P rows else r # sql_delete P rows)"
  by (simp add: sql_delete_def)

lemma sql_delete_distinct: "distinct (map key rows) \<Longrightarrow> distinct (map key (sql_delete P rows))"
  by (simp add: sql_delete_def distinct_map_filter)

lemma find_key_Some:
  "find (\<lambda>r. key r = k) rows = Some r \<Longrightarrow> r \<in> set rows \<and> key r = k"
  by (auto simp: find_Some_iff)

lemma find_key_unique:
  assumes "distinct (map key rows)" and "r \<in> set rows"
  shows "find (\<lambda>s. key s = key r) rows = Some r"
  using assms by (induction rows) (auto simp: rev_image_eqI)

lemma find_key_update:
  assumes "\<And>r. P r \<Longrightarrow> key (f r) = key r"
  shows "find (\<lambda>r. key r = k) (sql_update P f rows)
       = map_option (\<lambda>r. if P r then f r else r) (find (\<lambda>r. key r = k) rows)"
  using assms by (induction rows) auto

lemma sql_count_update_same: "(\<And>r. r \<in> set rows \<Longrightarrow> Q (if P r then f r else r) = Q r) \<Longrightarrow>
    sql_count Q (sql_update P f rows) = sql_count Q rows"
  by (induction rows) (auto simp: sql_count_def)

end
