(* ===== verification/Model.thy ===== *)
theory Model
  imports Prelude
begin

text \<open>
  The domain types of \<open>gateway/internal/model/types.go\<close>: its string enumerations, the
  structs stored in the database or carried by tunnel frames, and the constants of the
  tunnel protocol.

  A Go enumeration is a named string type, so any string can occur in it (a device may report
  an unknown status). It becomes a datatype with one constructor per declared constant and,
  where values arrive from outside, a last constructor for every other string. \<open>T_str\<close> is the
  string the constant stands for and \<open>T_of\<close> reads a string back. A struct becomes a record
  whose fields carry a short prefix, since record fields are global in HOL.

  \<open>env\<close> is the outside world a handler reads: the clock (one reading per handler), and the
  source of fresh UUIDs together with \<open>uuid.UUID.String\<close>, both from the package
  \<open>github.com/google/uuid\<close> and therefore parameters. Every record of state extends \<open>env\<close>.
\<close>

section \<open>Enumerations\<close>

datatype UserRole = RoleAdmin | RoleUser | UserRoleOther string

fun UserRole_str :: "UserRole \<Rightarrow> string" where
  "UserRole_str RoleAdmin = ''admin''"
| "UserRole_str RoleUser = ''user''"
| "UserRole_str (UserRoleOther s) = s"

definition UserRole_of :: "string \<Rightarrow> UserRole" where
  "UserRole_of s =
    (if s = ''admin'' then RoleAdmin
     else if s = ''user'' then RoleUser
     else UserRoleOther s)"

datatype UserTier = TierFree | TierPro | TierEnterprise | UserTierOther string

fun UserTier_str :: "UserTier \<Rightarrow> string" where
  "UserTier_str TierFree = ''free''"
| "UserTier_str TierPro = ''pro''"
| "UserTier_str TierEnterprise = ''enterprise''"
| "UserTier_str (UserTierOther s) = s"

definition UserTier_of :: "string \<Rightarrow> UserTier" where
  "UserTier_of s =
    (if s = ''free'' then TierFree
     else if s = ''pro'' then TierPro
     else if s = ''enterprise'' then TierEnterprise
     else UserTierOther s)"

datatype JobStatus = JobPending | JobQueued | JobDispatched | JobRunning | JobSucceeded | JobFailed
    | JobCancelled | JobStatusOther string

fun JobStatus_str :: "JobStatus \<Rightarrow> string" where
  "JobStatus_str JobPending = ''pending''"
| "JobStatus_str JobQueued = ''queued''"
| "JobStatus_str JobDispatched = ''dispatched''"
| "JobStatus_str JobRunning = ''running''"
| "JobStatus_str JobSucceeded = ''succeeded''"
| "JobStatus_str JobFailed = ''failed''"
| "JobStatus_str JobCancelled = ''cancelled''"
| "JobStatus_str (JobStatusOther s) = s"

definition JobStatus_of :: "string \<Rightarrow> JobStatus" where
  "JobStatus_of s =
    (if s = ''pending'' then JobPending
     else if s = ''queued'' then JobQueued
     else if s = ''dispatched'' then JobDispatched
     else if s = ''running'' then JobRunning
     else if s = ''succeeded'' then JobSucceeded
     else if s = ''failed'' then JobFailed
     else if s = ''cancelled'' then JobCancelled
     else JobStatusOther s)"

datatype DeviceStatus = DeviceEnrolled | DeviceOnline | DeviceOffline

fun DeviceStatus_str :: "DeviceStatus \<Rightarrow> string" where
  "DeviceStatus_str DeviceEnrolled = ''enrolled''"
| "DeviceStatus_str DeviceOnline = ''online''"
| "DeviceStatus_str DeviceOffline = ''offline''"

datatype AgentStatus = AgentCreating | AgentIdle | AgentBusy | AgentUnhealthy | AgentFailed | AgentRemoved
    | AgentStatusOther string

fun AgentStatus_str :: "AgentStatus \<Rightarrow> string" where
  "AgentStatus_str AgentCreating = ''creating''"
| "AgentStatus_str AgentIdle = ''idle''"
| "AgentStatus_str AgentBusy = ''busy''"
| "AgentStatus_str AgentUnhealthy = ''unhealthy''"
| "AgentStatus_str AgentFailed = ''failed''"
| "AgentStatus_str AgentRemoved = ''removed''"
| "AgentStatus_str (AgentStatusOther s) = s"

definition AgentStatus_of :: "string \<Rightarrow> AgentStatus" where
  "AgentStatus_of s =
    (if s = ''creating'' then AgentCreating
     else if s = ''idle'' then AgentIdle
     else if s = ''busy'' then AgentBusy
     else if s = ''unhealthy'' then AgentUnhealthy
     else if s = ''failed'' then AgentFailed
     else if s = ''removed'' then AgentRemoved
     else AgentStatusOther s)"

datatype SkillInstallStatus = SkillInstalling | SkillInstalled | SkillDisabled | SkillUpdating | SkillDeleting
    | SkillError | SkillPending | SkillInstallStatusOther string

fun SkillInstallStatus_str :: "SkillInstallStatus \<Rightarrow> string" where
  "SkillInstallStatus_str SkillInstalling = ''installing''"
| "SkillInstallStatus_str SkillInstalled = ''installed''"
| "SkillInstallStatus_str SkillDisabled = ''disabled''"
| "SkillInstallStatus_str SkillUpdating = ''updating''"
| "SkillInstallStatus_str SkillDeleting = ''deleting''"
| "SkillInstallStatus_str SkillError = ''error''"
| "SkillInstallStatus_str SkillPending = ''pending''"
| "SkillInstallStatus_str (SkillInstallStatusOther s) = s"

definition SkillInstallStatus_of :: "string \<Rightarrow> SkillInstallStatus" where
  "SkillInstallStatus_of s =
    (if s = ''installing'' then SkillInstalling
     else if s = ''installed'' then SkillInstalled
     else if s = ''disabled'' then SkillDisabled
     else if s = ''updating'' then SkillUpdating
     else if s = ''deleting'' then SkillDeleting
     else if s = ''error'' then SkillError
     else if s = ''pending'' then SkillPending
     else SkillInstallStatusOther s)"

datatype FileStatus = FileStagedCloud | FileStagedDevice | FilePurged | FileStatusError
    | FileStatusOther string

fun FileStatus_str :: "FileStatus \<Rightarrow> string" where
  "FileStatus_str FileStagedCloud = ''staged_cloud''"
| "FileStatus_str FileStagedDevice = ''staged_device''"
| "FileStatus_str FilePurged = ''purged''"
| "FileStatus_str FileStatusError = ''error''"
| "FileStatus_str (FileStatusOther s) = s"

definition FileStatus_of :: "string \<Rightarrow> FileStatus" where
  "FileStatus_of s =
    (if s = ''staged_cloud'' then FileStagedCloud
     else if s = ''staged_device'' then FileStagedDevice
     else if s = ''purged'' then FilePurged
     else if s = ''error'' then FileStatusError
     else FileStatusOther s)"

datatype SkillScope = SkillScopeDevice | SkillScopeAgent | SkillScopeOther string

fun SkillScope_str :: "SkillScope \<Rightarrow> string" where
  "SkillScope_str SkillScopeDevice = ''device''"
| "SkillScope_str SkillScopeAgent = ''agent''"
| "SkillScope_str (SkillScopeOther s) = s"

definition SkillScope_of :: "string \<Rightarrow> SkillScope" where
  "SkillScope_of s =
    (if s = ''device'' then SkillScopeDevice
     else if s = ''agent'' then SkillScopeAgent
     else SkillScopeOther s)"

datatype FrameType = FrameHello | FrameHelloAck | FramePing | FramePong | FrameAck | FrameError
    | FrameStateSync | FrameJobDispatch | FrameJobCancel | FrameJobQuery
    | FrameJobAccepted | FrameJobProgress | FrameJobResult | FrameJobRejected
    | FrameAgentCreate | FrameAgentAction | FrameAgentStatusReq | FrameAgentStatus
    | FrameSkillDispatchBegin | FrameSkillChunk | FrameSkillDispatchEnd
    | FrameSkillAction | FrameSkillState | FrameSkillSync | FrameFilePushBegin
    | FrameFileChunk | FrameFilePushEnd | FrameFileAck | FrameSkillDispatchAck
    | FrameFilePurged | FrameFilePullBegin | FrameFilePullChunk | FrameFilePullEnd
    | FrameFilePullAck | FrameSkillRetry | FrameVNCOpen | FrameVNCOpened | FrameVNCClose
    | FrameCredPush | FrameCredPushAck | FrameCredCapture | FrameCredCaptureAck
    | FrameJobLoginRequired | FrameOther string

fun FrameType_str :: "FrameType \<Rightarrow> string" where
  "FrameType_str FrameHello = ''HELLO''"
| "FrameType_str FrameHelloAck = ''HELLO_ACK''"
| "FrameType_str FramePing = ''PING''"
| "FrameType_str FramePong = ''PONG''"
| "FrameType_str FrameAck = ''ACK''"
| "FrameType_str FrameError = ''ERROR''"
| "FrameType_str FrameStateSync = ''STATE_SYNC''"
| "FrameType_str FrameJobDispatch = ''JOB_DISPATCH''"
| "FrameType_str FrameJobCancel = ''JOB_CANCEL''"
| "FrameType_str FrameJobQuery = ''JOB_QUERY''"
| "FrameType_str FrameJobAccepted = ''JOB_ACCEPTED''"
| "FrameType_str FrameJobProgress = ''JOB_PROGRESS''"
| "FrameType_str FrameJobResult = ''JOB_RESULT''"
| "FrameType_str FrameJobRejected = ''JOB_REJECTED''"
| "FrameType_str FrameAgentCreate = ''AGENT_CREATE''"
| "FrameType_str FrameAgentAction = ''AGENT_ACTION''"
| "FrameType_str FrameAgentStatusReq = ''AGENT_STATUS_REQ''"
| "FrameType_str FrameAgentStatus = ''AGENT_STATUS''"
| "FrameType_str FrameSkillDispatchBegin = ''SKILL_DISPATCH_BEGIN''"
| "FrameType_str FrameSkillChunk = ''SKILL_CHUNK''"
| "FrameType_str FrameSkillDispatchEnd = ''SKILL_DISPATCH_END''"
| "FrameType_str FrameSkillAction = ''SKILL_ACTION''"
| "FrameType_str FrameSkillState = ''SKILL_STATE''"
| "FrameType_str FrameSkillSync = ''SKILL_SYNC''"
| "FrameType_str FrameFilePushBegin = ''FILE_PUSH_BEGIN''"
| "FrameType_str FrameFileChunk = ''FILE_CHUNK''"
| "FrameType_str FrameFilePushEnd = ''FILE_PUSH_END''"
| "FrameType_str FrameFileAck = ''FILE_ACK''"
| "FrameType_str FrameSkillDispatchAck = ''SKILL_DISPATCH_ACK''"
| "FrameType_str FrameFilePurged = ''FILE_PURGED''"
| "FrameType_str FrameFilePullBegin = ''FILE_PULL_BEGIN''"
| "FrameType_str FrameFilePullChunk = ''FILE_PULL_CHUNK''"
| "FrameType_str FrameFilePullEnd = ''FILE_PULL_END''"
| "FrameType_str FrameFilePullAck = ''FILE_PULL_ACK''"
| "FrameType_str FrameSkillRetry = ''SKILL_RETRY''"
| "FrameType_str FrameVNCOpen = ''VNC_OPEN''"
| "FrameType_str FrameVNCOpened = ''VNC_OPENED''"
| "FrameType_str FrameVNCClose = ''VNC_CLOSE''"
| "FrameType_str FrameCredPush = ''CRED_PUSH''"
| "FrameType_str FrameCredPushAck = ''CRED_PUSH_ACK''"
| "FrameType_str FrameCredCapture = ''CRED_CAPTURE''"
| "FrameType_str FrameCredCaptureAck = ''CRED_CAPTURE_ACK''"
| "FrameType_str FrameJobLoginRequired = ''JOB_LOGIN_REQUIRED''"
| "FrameType_str (FrameOther s) = s"

definition FrameType_of :: "string \<Rightarrow> FrameType" where
  "FrameType_of s =
    (if s = ''HELLO'' then FrameHello
     else if s = ''HELLO_ACK'' then FrameHelloAck
     else if s = ''PING'' then FramePing
     else if s = ''PONG'' then FramePong
     else if s = ''ACK'' then FrameAck
     else if s = ''ERROR'' then FrameError
     else if s = ''STATE_SYNC'' then FrameStateSync
     else if s = ''JOB_DISPATCH'' then FrameJobDispatch
     else if s = ''JOB_CANCEL'' then FrameJobCancel
     else if s = ''JOB_QUERY'' then FrameJobQuery
     else if s = ''JOB_ACCEPTED'' then FrameJobAccepted
     else if s = ''JOB_PROGRESS'' then FrameJobProgress
     else if s = ''JOB_RESULT'' then FrameJobResult
     else if s = ''JOB_REJECTED'' then FrameJobRejected
     else if s = ''AGENT_CREATE'' then FrameAgentCreate
     else if s = ''AGENT_ACTION'' then FrameAgentAction
     else if s = ''AGENT_STATUS_REQ'' then FrameAgentStatusReq
     else if s = ''AGENT_STATUS'' then FrameAgentStatus
     else if s = ''SKILL_DISPATCH_BEGIN'' then FrameSkillDispatchBegin
     else if s = ''SKILL_CHUNK'' then FrameSkillChunk
     else if s = ''SKILL_DISPATCH_END'' then FrameSkillDispatchEnd
     else if s = ''SKILL_ACTION'' then FrameSkillAction
     else if s = ''SKILL_STATE'' then FrameSkillState
     else if s = ''SKILL_SYNC'' then FrameSkillSync
     else if s = ''FILE_PUSH_BEGIN'' then FrameFilePushBegin
     else if s = ''FILE_CHUNK'' then FrameFileChunk
     else if s = ''FILE_PUSH_END'' then FrameFilePushEnd
     else if s = ''FILE_ACK'' then FrameFileAck
     else if s = ''SKILL_DISPATCH_ACK'' then FrameSkillDispatchAck
     else if s = ''FILE_PURGED'' then FrameFilePurged
     else if s = ''FILE_PULL_BEGIN'' then FrameFilePullBegin
     else if s = ''FILE_PULL_CHUNK'' then FrameFilePullChunk
     else if s = ''FILE_PULL_END'' then FrameFilePullEnd
     else if s = ''FILE_PULL_ACK'' then FrameFilePullAck
     else if s = ''SKILL_RETRY'' then FrameSkillRetry
     else if s = ''VNC_OPEN'' then FrameVNCOpen
     else if s = ''VNC_OPENED'' then FrameVNCOpened
     else if s = ''VNC_CLOSE'' then FrameVNCClose
     else if s = ''CRED_PUSH'' then FrameCredPush
     else if s = ''CRED_PUSH_ACK'' then FrameCredPushAck
     else if s = ''CRED_CAPTURE'' then FrameCredCapture
     else if s = ''CRED_CAPTURE_ACK'' then FrameCredCaptureAck
     else if s = ''JOB_LOGIN_REQUIRED'' then FrameJobLoginRequired
     else FrameOther s)"

section \<open>Operations on the enumerations\<close>

definition UserRole_IsValid :: "UserRole \<Rightarrow> bool" where
  "UserRole_IsValid r \<longleftrightarrow> r = RoleAdmin \<or> r = RoleUser"

fun TierPriority :: "UserTier \<Rightarrow> int" where
  "TierPriority TierEnterprise = 0"
| "TierPriority TierPro = 1"
| "TierPriority _ = 2"

definition ValidUserTiers :: "UserTier list" where
  "ValidUserTiers = [TierFree, TierPro, TierEnterprise]"

definition IsTerminal :: "JobStatus \<Rightarrow> bool" where
  "IsTerminal s \<longleftrightarrow> s = JobSucceeded \<or> s = JobFailed \<or> s = JobCancelled"

definition IsActive :: "JobStatus \<Rightarrow> bool" where
  "IsActive s \<longleftrightarrow> s = JobPending \<or> s = JobQueued \<or> s = JobDispatched \<or> s = JobRunning"

section \<open>Structs\<close>

record AgentLimits =
  lim_cpu :: int
  lim_mem_mb :: int
  lim_disk_mb :: int

record Agent =
  a_id :: uuid
  a_device_id :: uuid
  a_user_id :: "uuid option"
  a_name :: string
  a_description :: string
  a_image :: string
  a_port :: int
  a_tags :: "string list"
  a_status :: AgentStatus
  a_job_id :: "uuid option"
  a_limits :: "AgentLimits option"
  a_allocated_at :: "time option"
  a_created_at :: time
  a_updated_at :: time

record Job =
  j_id :: uuid
  j_user_id :: uuid
  j_user_tier :: UserTier
  j_agent_id :: "uuid option"
  j_device_id :: "uuid option"
  j_channel :: string
  j_command :: string
  j_params :: "string option"
  j_skill_id :: "uuid option"
  j_status :: JobStatus
  j_percent :: "int option"
  j_progress_message :: "string option"
  j_result :: "string option"
  j_error_code :: "string option"
  j_error_message :: "string option"
  j_queued_at :: "time option"
  j_queue_expires_at :: "time option"
  j_submitted_at :: time
  j_started_at :: "time option"
  j_finished_at :: "time option"
  j_created_at :: time
  j_updated_at :: time
  j_queue_position :: "int option"
  j_estimated_wait_seconds :: "int option"

record HelloAgent =
  ha_agent_id :: uuid
  ha_container_id :: string
  ha_name :: string
  ha_status :: AgentStatus
  ha_port :: int
  ha_tags :: "string list"

record HelloResources =
  hr_cpu_count :: int
  hr_memory_mb :: int
  hr_disk_mb :: int

record HelloPayload =
  hello_device_id :: uuid
  hello_agent_version :: string
  hello_platform :: string
  hello_agent_count :: int
  hello_agents :: "HelloAgent list"
  hello_capabilities :: "string list"
  hello_resources :: HelloResources

record HelloAckConfig =
  hac_heartbeat_s :: int
  hac_max_frame_bytes :: int

record HelloAckPayload =
  hack_server_time :: int
  hack_session_id :: string
  hack_config :: HelloAckConfig

record JobDispatchPayload =
  jd_job_id :: uuid
  jd_user_id :: uuid
  jd_agent_id :: uuid
  jd_command :: string
  jd_params :: string
  jd_skill_id :: "uuid option"
  jd_file_ids :: "uuid list"
  jd_credential_ids :: "uuid list"
  jd_submitted_at :: int

record JobProgressPayload =
  jp_job_id :: uuid
  jp_event_seq :: int
  jp_status :: JobStatus
  jp_percent :: int
  jp_message :: string

record JobResultPayload =
  jres_job_id :: uuid
  jres_status :: JobStatus
  jres_result :: "string option"
  jres_error_msg :: "string option"

record JobRejectedPayload =
  jrej_job_id :: uuid
  jrej_reason :: string

record AgentCreatePayload =
  ac_agent_id :: uuid
  ac_image :: string
  ac_tags :: "string list"
  ac_limits :: AgentLimits
  ac_env :: "string list"

record AgentActionPayload =
  aa_agent_id :: uuid
  aa_action :: string

record AgentStatusPayload =
  as_agent_id :: uuid
  as_status :: AgentStatus
  as_container_id :: "string option"
  as_cpu_percent :: "real option"
  as_memory_mb :: "int option"

record SkillStatePayload =
  ss_skill_id :: uuid
  ss_skill_version_id :: uuid
  ss_scope :: SkillScope
  ss_status :: SkillInstallStatus
  ss_agent_id :: "uuid option"
  ss_error :: "string option"

record FileAckPayload =
  fa_file_id :: uuid
  fa_status :: FileStatus
  fa_error :: "string option"

record FilePullBeginPayload =
  fpb_file_id :: uuid
  fpb_job_id :: uuid
  fpb_name :: string
  fpb_size :: int
  fpb_sha256 :: string
  fpb_total_chunks :: int

record FilePullChunkPayload =
  fpc_file_id :: uuid
  fpc_chunk_index :: int
  fpc_data :: string

record FilePullEndPayload =
  fpe_file_id :: uuid

record StateSyncJob =
  ssj_job_id :: uuid
  ssj_agent_id :: uuid
  ssj_status :: JobStatus

record StateSyncAgent =
  ssa_agent_id :: uuid
  ssa_container_id :: string
  ssa_status :: AgentStatus
  ssa_job_id :: "uuid option"

record StateSyncPayload =
  sync_jobs :: "StateSyncJob list"
  sync_agents :: "StateSyncAgent list"

record VNCOpenedPayload =
  vo_session_id :: uuid
  vo_status :: string
  vo_rfb_password :: string
  vo_error :: string

record CredPushAckPayload =
  cpa_job_id :: uuid
  cpa_credential_id :: uuid
  cpa_status :: string
  cpa_error :: string

record CredCapturePayload =
  cc_session_id :: uuid
  cc_job_id :: uuid
  cc_agent_id :: uuid
  cc_origin :: string
  cc_storage_state :: string
  cc_storage_state_encoding :: string
  cc_sha256 :: string
  cc_label :: string

record CredCaptureAckPayload =
  cca_credential_id :: uuid
  cca_session_id :: uuid
  cca_status :: string
  cca_error :: string

record JobLoginRequiredPayload =
  jlr_job_id :: uuid
  jlr_event_seq :: int
  jlr_origin :: string
  jlr_label :: string
  jlr_login_kind :: string

record WSEvent =
  ws_type :: string
  ws_topic :: string
  ws_payload :: string

record PoolStats =
  ps_total_agents :: int
  ps_idle_agents :: int
  ps_busy_agents :: int
  ps_online_devices :: int

section \<open>Stored entities and the payloads of frames to the device\<close>

datatype UserStatus = UserActive | UserDisabled | UserStatusOther string

datatype VNCSessionStatus = VNCSessionPending | VNCSessionReady | VNCSessionActive | VNCSessionClosed
    | VNCSessionError | VNCSessionStatusOther string

datatype AgentSkillStatus = AgentSkillEnabled | AgentSkillDisabled | AgentSkillStatusOther string

fun AgentSkillStatus_str :: "AgentSkillStatus \<Rightarrow> string" where
  "AgentSkillStatus_str AgentSkillEnabled = ''enabled''"
| "AgentSkillStatus_str AgentSkillDisabled = ''disabled''"
| "AgentSkillStatus_str (AgentSkillStatusOther s) = s"

datatype SkillVisibility = VisibilityPublic | VisibilityRestricted | SkillVisibilityOther string

datatype SkillCatalogStatus = SkillActive | SkillDeprecated | SkillCatalogStatusOther string

datatype PrincipalType = PrincipalUser | PrincipalOrg | PrincipalTypeOther string

datatype SkillAction = SkillActionInstall | SkillActionEnable | SkillActionDisable | SkillActionUpdate
    | SkillActionDelete | SkillActionOther string

record VNCSession =
  v_id :: uuid
  v_job_id :: uuid
  v_user_id :: uuid
  v_device_id :: uuid
  v_agent_id :: uuid
  v_session_token_hash :: string
  v_rfb_password :: "string option"
  v_status :: VNCSessionStatus
  v_gateway_node :: "string option"
  v_idle_ttl_secs :: int
  v_max_ttl_secs :: int
  v_last_active_at :: "time option"
  v_token_expires_at :: "time option"
  v_started_at :: "time option"
  v_close_reason :: "string option"
  v_created_at :: time
  v_ended_at :: "time option"

record BrowserCredential =
  bc_id :: uuid
  bc_user_id :: uuid
  bc_label :: string
  bc_origin :: string
  bc_storage_state_enc :: "8 word list"
  bc_nonce :: "8 word list"
  bc_auth_tag :: "8 word list"
  bc_key_id :: string
  bc_sha256 :: string
  bc_last_used_at :: "time option"
  bc_created_at :: time
  bc_updated_at :: time

record VNCOpenPayload =
  vop_session_id :: uuid
  vop_agent_id :: uuid
  vop_job_id :: uuid
  vop_relay_url :: string
  vop_session_token :: string
  vop_ttl_secs :: int

record VNCClosePayload =
  vcp_session_id :: uuid
  vcp_reason :: string

record CredPushPayload =
  cp_job_id :: uuid
  cp_credential_id :: uuid
  cp_agent_id :: uuid
  cp_origin :: string
  cp_storage_state :: string
  cp_sha256 :: string

record File =
  f_id :: uuid
  f_user_id :: uuid
  f_name :: string
  f_size :: int
  f_mime :: string
  f_sha256 :: string
  f_storage_uri :: string
  f_status :: FileStatus
  f_created_at :: time
  f_purged_at :: "time option"

record FilePushBeginPayload =
  fpsh_file_id :: uuid
  fpsh_job_id :: uuid
  fpsh_file_name :: string
  fpsh_size_bytes :: int
  fpsh_total_chunks :: int
  fpsh_sha256 :: string

record FileChunkPayload =
  fch_file_id :: uuid
  fch_chunk_index :: int
  fch_data :: string

record FilePushEndPayload =
  fpend_file_id :: uuid

record FilePullAckPayload =
  fpa_file_id :: uuid
  fpa_status :: string
  fpa_error :: string
  fpa_chunk_index :: int

record Skill =
  sk_id :: uuid
  sk_key :: string
  sk_name :: string
  sk_description :: string
  sk_visibility :: SkillVisibility
  sk_latest_version :: string
  sk_status :: SkillCatalogStatus
  sk_created_at :: time
  sk_updated_at :: time

record SkillVersion =
  sv_id :: uuid
  sv_skill_id :: uuid
  sv_version :: string
  sv_manifest :: string
  sv_artifact_uri :: string
  sv_sha256 :: string
  sv_size :: "int option"
  sv_created_at :: time

record DeviceSkill =
  ds_device_id :: uuid
  ds_skill_id :: uuid
  ds_version :: string
  ds_status :: SkillInstallStatus
  ds_installed_by :: "uuid option"
  ds_error_message :: "string option"
  ds_updated_at :: time

record AgentSkill =
  ask_agent_id :: uuid
  ask_skill_id :: uuid
  ask_status :: AgentSkillStatus
  ask_selected_by :: "uuid option"
  ask_updated_at :: time

record SkillGrant =
  sg_skill_id :: uuid
  sg_principal_type :: PrincipalType
  sg_principal_id :: uuid
  sg_granted_by :: uuid
  sg_created_at :: time

record SkillDispatchBeginPayload =
  sdb_skill_id :: uuid
  sdb_skill_version_id :: uuid
  sdb_version :: string
  sdb_total_chunks :: int
  sdb_total_bytes :: int
  sdb_sha256 :: string

record SkillChunkPayload =
  sch_skill_id :: uuid
  sch_skill_version_id :: uuid
  sch_chunk_index :: int
  sch_data :: string

record SkillDispatchEndPayload =
  sde_skill_id :: uuid
  sde_skill_version_id :: uuid

record SkillActionPayload =
  sa_scope :: SkillScope
  sa_action :: SkillAction
  sa_skill_id :: uuid
  sa_version :: "string option"
  sa_agent_id :: "uuid option"

record SkillRetryPayload =
  sr_skill_id :: uuid
  sr_agent_ids :: "uuid list"
  sr_version :: "string option"

record SkillSyncPayload =
  ssp_device_skills :: "DeviceSkill list"
  ssp_agent_skills :: "AgentSkill list"

record SkillWithLatestVersion =
  swl_skill :: Skill
  swl_latest_version :: "SkillVersion option"

record SkillRolloutAgentEntry =
  ra_agent_id :: uuid
  ra_agent_name :: string
  ra_device_id :: uuid
  ra_status :: SkillInstallStatus
  ra_error :: "string option"

record VNCStatusResponse =
  vsr_session_id :: "uuid option"
  vsr_status :: VNCSessionStatus
  vsr_rfb_password :: "string option"
  vsr_ws_url :: "string option"
  vsr_ttl_secs :: "int option"

record VNCOpenResponse =
  vor_session_id :: uuid
  vor_ws_url :: string
  vor_rfb_password :: string
  vor_ttl_secs :: int

record CredentialResponse =
  cr_id :: uuid
  cr_label :: string
  cr_origin :: string
  cr_sha256_hex :: string
  cr_last_used_at :: "time option"
  cr_created_at :: time
  cr_updated_at :: time

definition CredentialResponseFrom :: "BrowserCredential \<Rightarrow> CredentialResponse" where
  "CredentialResponseFrom bc = \<lparr>cr_id = bc_id bc, cr_label = bc_label bc, cr_origin = bc_origin bc,
     cr_sha256_hex = bc_sha256 bc, cr_last_used_at = bc_last_used_at bc, cr_created_at = bc_created_at bc,
     cr_updated_at = bc_updated_at bc\<rparr>"

record User =
  u_id :: uuid
  u_email :: string
  u_username :: string
  u_password_hash :: string
  u_status :: UserStatus
  u_role :: UserRole
  u_tier :: UserTier
  u_org_id :: "uuid option"
  u_created_at :: time
  u_updated_at :: time

record Organization =
  o_id :: uuid
  o_name :: string
  o_description :: string
  o_created_by :: uuid
  o_created_at :: time
  o_updated_at :: time

record RefreshToken =
  rt_id :: uuid
  rt_user_id :: uuid
  rt_token_hash :: string
  rt_expires_at :: time
  rt_revoked_at :: "time option"
  rt_user_agent :: string
  rt_ip :: string
  rt_created_at :: time
  rt_family :: string

section \<open>Frames\<close>

definition FrameVersion :: int where "FrameVersion = 1"

definition HelloTimeout :: duration where "HelloTimeout = 10 * second"

definition AckRetransmitBase :: duration where "AckRetransmitBase = 1 * second"

definition AckRetransmitMaxRetries :: nat where "AckRetransmitMaxRetries = 3"

definition FrameMaxSize :: int where "FrameMaxSize = 2 ^ 20"

text \<open>
  A frame's payload is a \<open>json.RawMessage\<close>. A frame read from the wire carries the raw text
  (\<open>PRaw\<close>), decoded by the handler with \<open>json.Unmarshal\<close>; a frame the gateway builds carries
  the struct that \<open>NewFrame\<close> marshals. \<open>PNone\<close> is the absent payload and \<open>PUnsupported\<close>
  stands for a Go value that \<open>json.Marshal\<close> rejects.
\<close>

datatype payload =
    PRaw string
  | PNone
  | PUnsupported
  | PHelloAck HelloAckPayload
  | PJobDispatch JobDispatchPayload
  | PAgentCreate AgentCreatePayload
  | PAgentAction AgentActionPayload
  | PVNCOpen VNCOpenPayload
  | PVNCClose VNCClosePayload
  | PCredPush CredPushPayload
  | PCredCapture CredCapturePayload
  | PCredCaptureAck CredCaptureAckPayload
  | PFilePushBegin FilePushBeginPayload
  | PFileChunk FileChunkPayload
  | PFilePushEnd FilePushEndPayload
  | PFilePullAck FilePullAckPayload
  | PSkillDispatchBegin SkillDispatchBeginPayload
  | PSkillChunk SkillChunkPayload
  | PSkillDispatchEnd SkillDispatchEndPayload
  | PSkillAction SkillActionPayload
  | PSkillRetry SkillRetryPayload
  | PSkillSync SkillSyncPayload

record Frame =
  fr_version :: int
  fr_type :: FrameType
  fr_msg_id :: string
  fr_ack_id :: "string option"
  fr_ts :: int
  fr_payload :: payload

section \<open>Errors\<close>

text \<open>The \<open>error\<close> values the modelled code returns, one constructor per message.\<close>

datatype err =
    EDb                        \<comment> \<open>the database call failed\<close>
  | EForeignKey                \<comment> \<open>a foreign key constraint was violated\<close>
  | EUnique                    \<comment> \<open>a unique constraint was violated\<close>
  | ENoRows                    \<comment> \<open>\<open>pgx.ErrNoRows\<close>\<close>
  | EOffline uuid              \<comment> \<open>device is offline on this node\<close>
  | EConnClosed uuid           \<comment> \<open>device connection closed\<close>
  | EOutboundFull uuid         \<comment> \<open>device outbound queue full\<close>
  | EQueueFull                 \<comment> \<open>\<open>ErrQueueFull\<close>\<close>
  | EAgentNotFound             \<comment> \<open>\<open>ErrAgentNotFound\<close>\<close>
  | EActiveJob uuid JobStatus  \<comment> \<open>agent has active job\<close>
  | EDecode                    \<comment> \<open>\<open>json.Unmarshal\<close> failed\<close>
  | EMarshal                   \<comment> \<open>\<open>json.Marshal\<close> failed\<close>
  | ENoHandler FrameType       \<comment> \<open>no handler registered for frame type\<close>
  | EFrameTooLarge int         \<comment> \<open>frame exceeds max size\<close>
  | EVersion int               \<comment> \<open>unsupported frame version\<close>
  | ETypeRequired              \<comment> \<open>frame type is required\<close>
  | EMsgIDRequired             \<comment> \<open>\<open>msg_id\<close> is required\<close>
  | ESessionNotFound uuid      \<comment> \<open>VNC session not found\<close>
  | EWrongUser                 \<comment> \<open>session belongs to different user\<close>
  | EBrowserConnected          \<comment> \<open>browser already connected\<close>
  | EDeviceConnected           \<comment> \<open>device already connected\<close>
  | EBadSessionToken           \<comment> \<open>invalid session token\<close>
  | ESessionError string       \<comment> \<open>VNC session error\<close>
  | ESessionTimeout            \<comment> \<open>VNC session timed out waiting for ready\<close>
  | EHandler string            \<comment> \<open>any other error of a callback\<close>

section \<open>The environment\<close>

record env =
  wall_clock :: time
  uuid_seq :: "nat \<Rightarrow> uuid"
  uuid_pos :: nat
  uuid_str :: "uuid \<Rightarrow> string"

definition NewUUID :: "'a env_scheme \<Rightarrow> uuid \<times> 'a env_scheme" where
  "NewUUID w = (uuid_seq w (uuid_pos w), w\<lparr>uuid_pos := Suc (uuid_pos w)\<rparr>)"

lemma NewUUID_simps [simp]:
  "fst (NewUUID w) = uuid_seq w (uuid_pos w)"
  "wall_clock (snd (NewUUID w)) = wall_clock w"
  "uuid_seq (snd (NewUUID w)) = uuid_seq w"
  "uuid_pos (snd (NewUUID w)) = Suc (uuid_pos w)"
  "uuid_str (snd (NewUUID w)) = uuid_str w"
  by (simp_all add: NewUUID_def)

section \<open>Facts about the enumerations\<close>

lemma UserTier_str_of [simp]: "UserTier_str (UserTier_of s) = s"
  by (simp add: UserTier_of_def)

lemma UserRole_str_of [simp]: "UserRole_str (UserRole_of s) = s"
  by (simp add: UserRole_of_def)

lemma AgentStatus_str_of [simp]: "AgentStatus_str (AgentStatus_of s) = s"
  by (simp add: AgentStatus_of_def)

lemma FileStatus_str_of [simp]: "FileStatus_str (FileStatus_of s) = s"
  by (simp add: FileStatus_of_def)

lemma SkillScope_str_of [simp]: "SkillScope_str (SkillScope_of s) = s"
  by (simp add: SkillScope_of_def)

lemma SkillInstallStatus_str_of [simp]: "SkillInstallStatus_str (SkillInstallStatus_of s) = s"
  by (simp add: SkillInstallStatus_of_def)

lemma JobStatus_str_of [simp]: "JobStatus_str (JobStatus_of s) = s"
  by (simp add: JobStatus_of_def)

lemma FrameType_str_of [simp]: "FrameType_str (FrameType_of s) = s"
  by (simp add: FrameType_of_def)

lemma FrameType_str_known:
  "FrameType_of (FrameType_str t) = t \<or> (\<exists>s. t = FrameOther s)"
  by (cases t) (simp_all add: FrameType_of_def)

lemma JobStatus_str_known:
  "JobStatus_of (JobStatus_str t) = t \<or> (\<exists>s. t = JobStatusOther s)"
  by (cases t) (simp_all add: JobStatus_of_def)

lemma not_terminal_active: "IsTerminal s \<Longrightarrow> \<not> IsActive s"
  by (auto simp: IsTerminal_def IsActive_def)

lemma JobStatus_partition: "IsTerminal s \<or> IsActive s \<or> (\<exists>t. s = JobStatusOther t)"
  by (cases s) (simp_all add: IsTerminal_def IsActive_def)

text \<open>
  The queue order the database uses is the text order of the tier's name.
\<close>

lemma tier_text_order:
  "UserTier_str TierEnterprise < UserTier_str TierFree"
  "UserTier_str TierFree < UserTier_str TierPro"
  by simp_all

end
