(* ===== verification/Registry.thy ===== *)
theory Registry
  imports Model
begin

text \<open>
  \<open>gateway/internal/tunnel/registry.go\<close>: the two implementations of the interface
  \<open>tunnel.Registry\<close> (\<open>hub.go\<close>), which records the gateway node that owns each device's
  tunnel. The in-memory one is a map of entries; the Redis one keeps two simulated Redis
  structures, which \<open>Close\<close> sets to \<open>nil\<close> (\<open>None\<close> here): reading or deleting from a nil Go
  map is harmless, writing to it panics, so the writing operations return an option.

  The locale \<open>node_registry\<close> is the contract the hub relies on. Both implementations are
  interpretations of it, so they agree with one abstract routing table on every sequence of
  operations. Scores of the Redis sorted set are \<open>float64\<close> in the source; they hold Unix
  seconds, which a \<open>float64\<close> represents exactly below \<open>2 ^ 53\<close>, and are integers here.
\<close>

section \<open>InMemoryRegistry\<close>

record deviceEntry =
  NodeID :: string
  LastSeen :: int

type_synonym InMemoryRegistry = "(uuid, deviceEntry) gomap"

definition NewInMemoryRegistry :: InMemoryRegistry where
  "NewInMemoryRegistry = []"

definition IM_Register :: "InMemoryRegistry \<Rightarrow> uuid \<Rightarrow> string \<Rightarrow> InMemoryRegistry" where
  "IM_Register r d n = AList.update d \<lparr>NodeID = n, LastSeen = 0\<rparr> r"

definition IM_Unregister :: "InMemoryRegistry \<Rightarrow> uuid \<Rightarrow> InMemoryRegistry" where
  "IM_Unregister r d = AList.delete d r"

definition IM_GetNode :: "InMemoryRegistry \<Rightarrow> uuid \<Rightarrow> string" where
  "IM_GetNode r d = (case map_of r d of Some e \<Rightarrow> NodeID e | None \<Rightarrow> '''')"

definition IM_IsOnline :: "InMemoryRegistry \<Rightarrow> uuid \<Rightarrow> bool" where
  "IM_IsOnline r d \<longleftrightarrow> map_of r d \<noteq> None"

definition IM_Count :: "InMemoryRegistry \<Rightarrow> nat" where
  "IM_Count r = length r"

definition IM_List :: "(uuid \<Rightarrow> string) \<Rightarrow> InMemoryRegistry \<Rightarrow> uuid list" where
  "IM_List u r = sort_key u (map fst r)"

definition IM_Touch :: "InMemoryRegistry \<Rightarrow> uuid \<Rightarrow> int \<Rightarrow> InMemoryRegistry" where
  "IM_Touch r d ts = (case map_of r d of
     Some e \<Rightarrow> AList.update d (e\<lparr>LastSeen := ts\<rparr>) r | None \<Rightarrow> r)"

definition IM_GetStale :: "InMemoryRegistry \<Rightarrow> int \<Rightarrow> uuid list" where
  "IM_GetStale r threshold =
     map fst (filter (\<lambda>(d, e). 0 < LastSeen e \<and> LastSeen e < threshold) r)"

definition IM_Close :: "InMemoryRegistry \<Rightarrow> InMemoryRegistry" where
  "IM_Close r = r"

section \<open>RedisRegistry\<close>

record RedisRegistry =
  rdata :: "(string, string) gomap option"
  zsets :: "(string, (string, int) gomap) gomap option"

definition NewRedisRegistry :: RedisRegistry where
  "NewRedisRegistry = \<lparr>rdata = Some [], zsets = Some []\<rparr>"

definition nodeKey :: "(uuid \<Rightarrow> string) \<Rightarrow> uuid \<Rightarrow> string" where
  "nodeKey u d = ''iagent:device:'' @ u d @ '':node''"

definition heartbeatZSet :: string where
  "heartbeatZSet = ''iagent:devices:heartbeat''"

text \<open>
  \<open>rget m k\<close> reads a possibly nil map; \<open>heartbeats r\<close> is \<open>r.zsets[heartbeatZSet]\<close>, the
  nil map when absent.
\<close>

definition rget :: "('k, 'v) gomap option \<Rightarrow> 'k \<Rightarrow> 'v option" where
  "rget m k = (case m of None \<Rightarrow> None | Some m' \<Rightarrow> map_of m' k)"

definition heartbeats :: "RedisRegistry \<Rightarrow> (string, int) gomap" where
  "heartbeats r = (case rget (zsets r) heartbeatZSet of None \<Rightarrow> [] | Some z \<Rightarrow> z)"

definition zadd :: "RedisRegistry \<Rightarrow> string \<Rightarrow> int \<Rightarrow> RedisRegistry option" where
  "zadd r member score = (case zsets r of
     None \<Rightarrow> None
   | Some z \<Rightarrow> Some (r\<lparr>zsets := Some (AList.update heartbeatZSet
                        (AList.update member score (heartbeats r)) z)\<rparr>))"

definition R_Register ::
  "(uuid \<Rightarrow> string) \<Rightarrow> RedisRegistry \<Rightarrow> uuid \<Rightarrow> string \<Rightarrow> int \<Rightarrow> RedisRegistry option" where
  "R_Register u r d n timeNow = (case rdata r of
     None \<Rightarrow> None
   | Some m \<Rightarrow> zadd (r\<lparr>rdata := Some (AList.update (nodeKey u d) n m)\<rparr>) (u d) timeNow)"

definition R_Unregister :: "(uuid \<Rightarrow> string) \<Rightarrow> RedisRegistry \<Rightarrow> uuid \<Rightarrow> RedisRegistry" where
  "R_Unregister u r d = r\<lparr>
     rdata := map_option (AList.delete (nodeKey u d)) (rdata r),
     zsets := map_option (\<lambda>z. case map_of z heartbeatZSet of
         None \<Rightarrow> z
       | Some hb \<Rightarrow> AList.update heartbeatZSet (AList.delete (u d) hb) z) (zsets r)\<rparr>"

definition R_GetNode :: "(uuid \<Rightarrow> string) \<Rightarrow> RedisRegistry \<Rightarrow> uuid \<Rightarrow> string" where
  "R_GetNode u r d = (case rget (rdata r) (nodeKey u d) of Some n \<Rightarrow> n | None \<Rightarrow> '''')"

definition R_IsOnline :: "(uuid \<Rightarrow> string) \<Rightarrow> RedisRegistry \<Rightarrow> uuid \<Rightarrow> bool" where
  "R_IsOnline u r d \<longleftrightarrow> rget (rdata r) (nodeKey u d) \<noteq> None"

definition R_Count :: "RedisRegistry \<Rightarrow> nat" where
  "R_Count r = length (heartbeats r)"

definition R_List :: "(uuid \<Rightarrow> string) \<Rightarrow> (string \<Rightarrow> uuid option) \<Rightarrow> RedisRegistry \<Rightarrow> uuid list" where
  "R_List u parse r = sort_key u (List.map_filter (parse \<circ> fst) (heartbeats r))"

definition R_Touch :: "(uuid \<Rightarrow> string) \<Rightarrow> RedisRegistry \<Rightarrow> uuid \<Rightarrow> int \<Rightarrow> RedisRegistry option" where
  "R_Touch u r d ts = zadd r (u d) ts"

definition R_GetStale :: "(string \<Rightarrow> uuid option) \<Rightarrow> RedisRegistry \<Rightarrow> int \<Rightarrow> uuid list" where
  "R_GetStale parse r threshold =
     List.map_filter (\<lambda>(s, score). if 0 < score \<and> score < threshold then parse s else None)
       (heartbeats r)"

definition R_Close :: "RedisRegistry \<Rightarrow> RedisRegistry" where
  "R_Close r = r\<lparr>rdata := None, zsets := None\<rparr>"

section \<open>The contract of the hub\<close>

text \<open>A routing table and what a sequence of operations makes of it.\<close>

type_synonym routes = "uuid \<Rightarrow> string option"

datatype reg_op = OpRegister uuid string int | OpUnregister uuid | OpTouch uuid int

fun spec_op :: "reg_op \<Rightarrow> routes \<Rightarrow> routes" where
  "spec_op (OpRegister d n ts) t = t(d \<mapsto> n)"
| "spec_op (OpUnregister d) t = t(d := None)"
| "spec_op (OpTouch d ts) t = t"

fun spec_run :: "reg_op list \<Rightarrow> routes \<Rightarrow> routes" where
  "spec_run [] t = t"
| "spec_run (x # xs) t = spec_run xs (spec_op x t)"

fun run_ops :: "('s \<Rightarrow> uuid \<Rightarrow> string \<Rightarrow> int \<Rightarrow> 's option) \<Rightarrow> ('s \<Rightarrow> uuid \<Rightarrow> 's) \<Rightarrow>
    ('s \<Rightarrow> uuid \<Rightarrow> int \<Rightarrow> 's option) \<Rightarrow> reg_op list \<Rightarrow> 's \<Rightarrow> 's option" where
  "run_ops reg unreg touch [] s = Some s"
| "run_ops reg unreg touch (OpRegister d n ts # xs) s =
     (case reg s d n ts of None \<Rightarrow> None | Some t \<Rightarrow> run_ops reg unreg touch xs t)"
| "run_ops reg unreg touch (OpUnregister d # xs) s = run_ops reg unreg touch xs (unreg s d)"
| "run_ops reg unreg touch (OpTouch d ts # xs) s =
     (case touch s d ts of None \<Rightarrow> None | Some t \<Rightarrow> run_ops reg unreg touch xs t)"

locale node_registry =
  fixes invar :: "'s \<Rightarrow> bool"
    and empty :: "'s"
    and reg :: "'s \<Rightarrow> uuid \<Rightarrow> string \<Rightarrow> int \<Rightarrow> 's option"
    and unreg :: "'s \<Rightarrow> uuid \<Rightarrow> 's"
    and touch :: "'s \<Rightarrow> uuid \<Rightarrow> int \<Rightarrow> 's option"
    and node :: "'s \<Rightarrow> uuid \<Rightarrow> string"
    and online :: "'s \<Rightarrow> uuid \<Rightarrow> bool"
  assumes invar_empty: "invar empty"
    and empty_offline: "\<not> online empty d"
    and reg_works: "invar s \<Longrightarrow> reg s d n ts \<noteq> None"
    and reg_invar: "invar s \<Longrightarrow> reg s d n ts = Some t \<Longrightarrow> invar t"
    and reg_online: "invar s \<Longrightarrow> reg s d n ts = Some t \<Longrightarrow> online t e \<longleftrightarrow> e = d \<or> online s e"
    and reg_node: "invar s \<Longrightarrow> reg s d n ts = Some t \<Longrightarrow> node t e = (if e = d then n else node s e)"
    and unreg_invar: "invar s \<Longrightarrow> invar (unreg s d)"
    and unreg_online: "invar s \<Longrightarrow> online (unreg s d) e \<longleftrightarrow> e \<noteq> d \<and> online s e"
    and unreg_node: "invar s \<Longrightarrow> e \<noteq> d \<Longrightarrow> node (unreg s d) e = node s e"
    and touch_works: "invar s \<Longrightarrow> touch s d ts \<noteq> None"
    and touch_invar: "invar s \<Longrightarrow> touch s d ts = Some t \<Longrightarrow> invar t"
    and touch_online: "invar s \<Longrightarrow> touch s d ts = Some t \<Longrightarrow> online t e = online s e"
    and touch_node: "invar s \<Longrightarrow> touch s d ts = Some t \<Longrightarrow> node t e = node s e"
    and offline_node: "invar s \<Longrightarrow> \<not> online s d \<Longrightarrow> node s d = ''''"
begin

definition routing :: "'s \<Rightarrow> routes" where
  "routing s d = (if online s d then Some (node s d) else None)"

lemma routing_reg: "invar s \<Longrightarrow> reg s d n ts = Some t \<Longrightarrow> routing t = (routing s)(d \<mapsto> n)"
  by (rule ext) (simp add: routing_def reg_online reg_node)

lemma routing_unreg: "invar s \<Longrightarrow> routing (unreg s d) = (routing s)(d := None)"
  by (rule ext) (simp add: routing_def unreg_online unreg_node)

lemma routing_touch: "invar s \<Longrightarrow> touch s d ts = Some t \<Longrightarrow> routing t = routing s"
  by (rule ext) (simp add: routing_def touch_online touch_node)

lemma routing_empty: "routing empty = Map.empty"
  by (rule ext) (simp add: routing_def empty_offline)

lemma online_routing: "online s d \<longleftrightarrow> routing s d \<noteq> None"
  by (simp add: routing_def)

lemma node_routing: "invar s \<Longrightarrow> node s d = (case routing s d of None \<Rightarrow> '''' | Some n \<Rightarrow> n)"
  by (simp add: routing_def offline_node)

lemma run_refines:
  "invar s \<Longrightarrow> \<exists>t. run_ops reg unreg touch xs s = Some t \<and> invar t
     \<and> routing t = spec_run xs (routing s)"
proof (induction xs arbitrary: s)
  case Nil
  then show ?case by simp
next
  case (Cons x xs)
  show ?case
  proof (cases x)
    case (OpRegister d n ts)
    obtain t where t: "reg s d n ts = Some t" using reg_works [OF Cons.prems] by blast
    show ?thesis
      using Cons.IH [OF reg_invar [OF Cons.prems t]]
      by (simp only: routing_reg [OF Cons.prems t] OpRegister t run_ops.simps spec_run.simps
          spec_op.simps option.case)
  next
    case (OpUnregister d)
    show ?thesis
      using Cons.IH [OF unreg_invar [OF Cons.prems]]
      by (simp only: routing_unreg [OF Cons.prems] OpUnregister run_ops.simps spec_run.simps
          spec_op.simps)
  next
    case (OpTouch d ts)
    obtain t where t: "touch s d ts = Some t" using touch_works [OF Cons.prems] by blast
    show ?thesis
      using Cons.IH [OF touch_invar [OF Cons.prems t]]
      by (simp only: routing_touch [OF Cons.prems t] OpTouch t run_ops.simps spec_run.simps
          spec_op.simps option.case)
  qed
qed

lemma run_from_empty:
  "\<exists>t. run_ops reg unreg touch xs empty = Some t
     \<and> (\<forall>d. online t d \<longleftrightarrow> spec_run xs Map.empty d \<noteq> None)
     \<and> (\<forall>d. node t d = (case spec_run xs Map.empty d of None \<Rightarrow> '''' | Some n \<Rightarrow> n))"
proof -
  obtain t where "run_ops reg unreg touch xs empty = Some t" "invar t"
      "routing t = spec_run xs Map.empty"
    using run_refines [OF invar_empty, of xs] routing_empty by auto
  then show ?thesis using online_routing node_routing by auto
qed

end

section \<open>The in-memory registry meets the contract\<close>

lemmas IM_defs = NewInMemoryRegistry_def IM_Register_def IM_Unregister_def IM_GetNode_def
  IM_IsOnline_def IM_Touch_def

interpretation im: node_registry gomap_wf NewInMemoryRegistry
    "\<lambda>r d n ts. Some (IM_Register r d n)" IM_Unregister "\<lambda>r d ts. Some (IM_Touch r d ts)"
    IM_GetNode IM_IsOnline
  by unfold_locales (auto simp: IM_defs gomap_simps split: option.splits if_splits)

lemma IM_touched_keys: "gomap_wf r \<Longrightarrow> map fst (IM_Touch r d ts) = map fst r"
  by (force simp: IM_Touch_def update_keys map_of_eq_None_iff split: option.splits
      dest: map_of_SomeD)

lemma IM_GetStale_iff:
  assumes "gomap_wf r"
  shows "d \<in> set (IM_GetStale r th) \<longleftrightarrow>
    (\<exists>e. map_of r d = Some e \<and> 0 < LastSeen e \<and> LastSeen e < th)"
  using assms by (auto simp: IM_GetStale_def gomap_in_set [symmetric] image_iff)

section \<open>The Redis registry meets the contract\<close>

definition R_open :: "RedisRegistry \<Rightarrow> bool" where
  "R_open r \<longleftrightarrow> rdata r \<noteq> None \<and> zsets r \<noteq> None"

text \<open>
  The keys and members are built with \<open>UUID.String\<close> and read back with \<open>ParseUUID\<close>, of the
  package \<open>google/uuid\<close>; the registry relies on their round trip.
\<close>

locale uuid_text =
  fixes u :: "uuid \<Rightarrow> string"
    and parse :: "string \<Rightarrow> uuid option"
  assumes parse_string: "parse (u d) = Some d"
begin

lemma string_eq: "u d = u e \<longleftrightarrow> d = e"
  by (metis parse_string option.inject)

lemma nodeKey_eq: "nodeKey u d = nodeKey u e \<longleftrightarrow> d = e"
  by (simp add: nodeKey_def string_eq)

end

lemmas R_defs = NewRedisRegistry_def R_Register_def R_Unregister_def R_GetNode_def
  R_IsOnline_def R_Touch_def R_open_def zadd_def rget_def

sublocale uuid_text \<subseteq> rd: node_registry R_open NewRedisRegistry "R_Register u" "R_Unregister u"
    "R_Touch u" "R_GetNode u" "R_IsOnline u"
  by unfold_locales
    (auto simp: R_defs gomap_simps nodeKey_eq split: option.splits if_splits)

context uuid_text
begin

lemma redis_run:
  "\<exists>r. run_ops (R_Register u) (R_Unregister u) (R_Touch u) xs NewRedisRegistry = Some r
    \<and> (\<forall>d. R_IsOnline u r d \<longleftrightarrow> spec_run xs Map.empty d \<noteq> None)
    \<and> (\<forall>d. R_GetNode u r d = (case spec_run xs Map.empty d of None \<Rightarrow> '''' | Some n \<Rightarrow> n))"
  by (rule rd.run_from_empty)

end

text \<open>
  A text form that meets the assumption: the bits of the UUID, one character each.
\<close>

definition bit_text :: "uuid \<Rightarrow> string" where
  "bit_text d = map (\<lambda>i. if bit d i then CHR ''1'' else CHR ''0'') [0..<128]"

definition bit_parse :: "string \<Rightarrow> uuid option" where
  "bit_parse s = (if length s = 128 then
     Some (horner_sum of_bool 2 (map (\<lambda>c. c = CHR ''1'') s)) else None)"

lemma bit_parse_text: "bit_parse (bit_text d) = Some d"
proof -
  have bits: "map (\<lambda>c. c = CHR ''1'') (bit_text d) = map (bit d) [0..<128]"
    by (simp add: bit_text_def)
  have len: "length (bit_text d) = 128" by (simp add: bit_text_def)
  show ?thesis
    unfolding bit_parse_def bits using len
    by (simp add: horner_sum_bit_eq_take_bit take_bit_word_eq_self)
qed

interpretation bits: uuid_text bit_text bit_parse
  by unfold_locales (rule bit_parse_text)

section \<open>Properties\<close>

abbreviation IM_run :: "reg_op list \<Rightarrow> InMemoryRegistry option" where
  "IM_run xs \<equiv> run_ops (\<lambda>r d n ts. Some (IM_Register r d n)) IM_Unregister
     (\<lambda>r d ts. Some (IM_Touch r d ts)) xs NewInMemoryRegistry"

abbreviation R_run :: "(uuid \<Rightarrow> string) \<Rightarrow> reg_op list \<Rightarrow> RedisRegistry option" where
  "R_run u xs \<equiv> run_ops (R_Register u) (R_Unregister u) (R_Touch u) xs NewRedisRegistry"



text \<open>
  A heartbeat of a device that is not registered makes the Redis registry count
  it and list it although it is not online, while the in-memory registry ignores the
  heartbeat.
\<close>

theorem redis_phantom:
  assumes "\<And>d. parse (u d) = Some d"
  shows "\<exists>r. R_Touch u NewRedisRegistry d ts = Some r \<and> R_Count r = 1
    \<and> R_List u parse r = [d] \<and> \<not> R_IsOnline u r d
    \<and> IM_Touch NewInMemoryRegistry d ts = NewInMemoryRegistry"
  using assms by (simp add: R_defs R_Count_def R_List_def heartbeats_def IM_defs
      List.map_filter_def)

theorem redis_phantom_witness:
  "\<exists>r. R_Touch bit_text NewRedisRegistry 7 100 = Some r \<and> R_Count r = 1
    \<and> R_List bit_text bit_parse r = [7] \<and> \<not> R_IsOnline bit_text r 7"
  using redis_phantom [where u = bit_text and parse = bit_parse, OF bit_parse_text, of 7 100]
  by blast

text \<open>
  A device that only ever registered, with no heartbeat since, is never
  reported stale by the in-memory registry, whatever the threshold; registering again clears the
  heartbeats received before.
\<close>

theorem stale_needs_heartbeat:
  assumes "gomap_wf r"
  shows "d \<notin> set (IM_GetStale (IM_Register r d n) th)"
  using assms by (simp add: IM_Register_def IM_GetStale_iff gomap_simps)

theorem stale_needs_heartbeat_witness:
  "7 \<notin> set (IM_GetStale (IM_Register [(7, \<lparr>NodeID = ''n'', LastSeen = 3\<rparr>)] 7 ''n'') 50)"
  using stale_needs_heartbeat [of "[(7, \<lparr>NodeID = ''n'', LastSeen = 3\<rparr>)]" 7 "''n''" 50]
  by (simp add: gomap_wf_def)

end
