(* ===== verification/AckTracker.thy ===== *)
theory AckTracker
  imports Model
begin

text \<open>
  \<open>AckTracker\<close> of \<open>gateway/internal/tunnel/device_conn.go\<close>: the frames waiting for an
  acknowledgement, their retransmission with the back-off 1s, 2s, 4s and their removal after
  three retries, and the tick of \<open>StartRetransmitter\<close>, which puts the frames to retransmit into
  the bounded outbound channel. A channel is the list of the frames in it.

  The tick treats every entry on its own: \<open>entry_tick\<close> says what it does to one frame, and
  \<open>RetransmitReady_refines\<close> that the loop over the map does just that to each.
\<close>

section \<open>The tracker\<close>

record TrackedFrame =
  tf_MsgID :: string
  tf_Frame :: Frame
  tf_SentAt :: time
  tf_Retries :: nat

type_synonym AckTracker = "(string, TrackedFrame) gomap"

definition NewAckTracker :: AckTracker where
  "NewAckTracker = []"

definition AT_Track :: "time \<Rightarrow> AckTracker \<Rightarrow> Frame \<Rightarrow> AckTracker" where
  "AT_Track timeNow t frame = AList.update (fr_msg_id frame)
     \<lparr>tf_MsgID = fr_msg_id frame, tf_Frame = frame, tf_SentAt = timeNow, tf_Retries = 0\<rparr> t"

definition AT_Remove :: "AckTracker \<Rightarrow> string \<Rightarrow> AckTracker" where
  "AT_Remove t msgID = AList.delete msgID t"

definition AT_Pending :: "AckTracker \<Rightarrow> TrackedFrame list" where
  "AT_Pending t = map snd t"

text \<open>The loop of \<open>RetransmitReady\<close>: the updated map, the frames to retry, the failed ones.\<close>

fun RetransmitReady ::
  "time \<Rightarrow> AckTracker \<Rightarrow> AckTracker \<times> TrackedFrame list \<times> TrackedFrame list" where
  "RetransmitReady timeNow [] = ([], [], [])"
| "RetransmitReady timeNow ((k, f) # t) =
     (let (t', retry, failed) = RetransmitReady timeNow t in
      if AckRetransmitMaxRetries \<le> tf_Retries f then ((k, f) # t', retry, f # failed)
      else
        let backoff = AckRetransmitBase * 2 ^ tf_Retries f in
        if backoff \<le> timeNow - tf_SentAt f then
          let g = f\<lparr>tf_Retries := Suc (tf_Retries f), tf_SentAt := timeNow\<rparr>
          in ((k, g) # t', g # retry, failed)
        else ((k, f) # t', retry, failed))"

definition AT_RemoveFailed :: "AckTracker \<Rightarrow> string list \<Rightarrow> AckTracker" where
  "AT_RemoveFailed t msgIDs = foldl (\<lambda>t i. AList.delete i t) t msgIDs"

section \<open>The retransmitter\<close>

definition outbound_cap :: nat where
  "outbound_cap = 256"

text \<open>\<open>select { case c.outbound <- frame: default: }\<close>\<close>

definition try_send :: "Frame list \<Rightarrow> Frame \<Rightarrow> Frame list option" where
  "try_send q f = (if length q < outbound_cap then Some (q @ [f]) else None)"

definition send_or_drop :: "Frame list \<Rightarrow> Frame \<Rightarrow> Frame list" where
  "send_or_drop q f = (case try_send q f of Some q' \<Rightarrow> q' | None \<Rightarrow> q)"

definition retransmit_tick :: "time \<Rightarrow> AckTracker \<times> Frame list \<Rightarrow> AckTracker \<times> Frame list" where
  "retransmit_tick timeNow = (\<lambda>(acks, outbound).
     let (acks1, retry, failed) = RetransmitReady timeNow acks;
         outbound1 = foldl (\<lambda>q f. send_or_drop q (tf_Frame f)) outbound retry;
         acks2 = (if failed \<noteq> [] then AT_RemoveFailed acks1 (map tf_MsgID failed) else acks1)
     in (acks2, outbound1))"

section \<open>What a tick does to one frame\<close>

definition entry_failed :: "TrackedFrame \<Rightarrow> bool" where
  "entry_failed f \<longleftrightarrow> 3 \<le> tf_Retries f"

definition entry_due :: "time \<Rightarrow> TrackedFrame \<Rightarrow> bool" where
  "entry_due now f \<longleftrightarrow> tf_Retries f < 3 \<and> second * 2 ^ tf_Retries f \<le> now - tf_SentAt f"

definition entry_tick :: "time \<Rightarrow> TrackedFrame \<Rightarrow> TrackedFrame" where
  "entry_tick now f = (if entry_due now f
     then f\<lparr>tf_Retries := Suc (tf_Retries f), tf_SentAt := now\<rparr> else f)"

text \<open>Every frame is stored under its own message id.\<close>

definition tracker_wf :: "AckTracker \<Rightarrow> bool" where
  "tracker_wf t \<longleftrightarrow> gomap_wf t \<and> (\<forall>(k, f) \<in> set t. tf_MsgID f = k \<and> fr_msg_id (tf_Frame f) = k)"

section \<open>Lemmas\<close>

lemmas retry_consts = AckRetransmitBase_def AckRetransmitMaxRetries_def

theorem RetransmitReady_refines:
  "RetransmitReady now t = (map (\<lambda>(k, f). (k, entry_tick now f)) t,
     map (entry_tick now) (filter (entry_due now) (map snd t)),
     filter entry_failed (map snd t))"
proof (induction t)
  case Nil
  then show ?case by simp
next
  case (Cons kf t)
  obtain k f where kf: "kf = (k, f)" by (cases kf)
  show ?case
    using Cons.IH by (auto simp: kf Let_def retry_consts entry_tick_def entry_due_def
        entry_failed_def)
qed

lemma entry_tick_id [simp]: "tf_MsgID (entry_tick now f) = tf_MsgID f"
    "tf_Frame (entry_tick now f) = tf_Frame f"
  by (simp_all add: entry_tick_def)

lemma RemoveFailed_map_of:
  "map_of (AT_RemoveFailed t ids) k = (if k \<in> set ids then None else map_of t k)"
  by (induction ids arbitrary: t) (auto simp: AT_RemoveFailed_def gomap_simps)

lemma RemoveFailed_wf: "gomap_wf t \<Longrightarrow> gomap_wf (AT_RemoveFailed t ids)"
  by (induction ids arbitrary: t) (auto simp: AT_RemoveFailed_def)

lemma try_send_length: "try_send q f = Some q' \<Longrightarrow> length q' \<le> outbound_cap"
  by (auto simp: try_send_def split: if_splits)

lemma send_or_drop_length: "length q \<le> outbound_cap \<Longrightarrow> length (send_or_drop q f) \<le> outbound_cap"
  by (simp add: send_or_drop_def try_send_def)

lemma foldl_send_length:
  "length q \<le> outbound_cap \<Longrightarrow> length (foldl (\<lambda>q f. send_or_drop q (g f)) q fs) \<le> outbound_cap"
  by (induction fs arbitrary: q) (simp_all add: send_or_drop_length)

lemma tracker_wf_lookup:
  "tracker_wf t \<Longrightarrow> map_of t k = Some f \<Longrightarrow> tf_MsgID f = k \<and> fr_msg_id (tf_Frame f) = k"
  by (auto simp: tracker_wf_def dest: map_of_SomeD)

lemma tracker_wf_iff:
  "tracker_wf t \<longleftrightarrow> gomap_wf t \<and>
    (\<forall>k f. map_of t k = Some f \<longrightarrow> tf_MsgID f = k \<and> fr_msg_id (tf_Frame f) = k)"
  by (auto simp: tracker_wf_def gomap_in_set dest: map_of_SomeD)

lemma tracker_wf_Track: "tracker_wf t \<Longrightarrow> tracker_wf (AT_Track now t f)"
  by (auto simp: tracker_wf_iff AT_Track_def gomap_simps)

lemma tracker_wf_Remove: "tracker_wf t \<Longrightarrow> tracker_wf (AT_Remove t i)"
  by (auto simp: tracker_wf_iff AT_Remove_def gomap_simps)

lemma fst_retransmit_tick:
  "fst (retransmit_tick now (t, q)) =
     AT_RemoveFailed (map (\<lambda>(k, f). (k, entry_tick now f)) t)
       (map tf_MsgID (filter entry_failed (map snd t)))"
  by (simp add: retransmit_tick_def RetransmitReady_refines Let_def)
    (simp add: AT_RemoveFailed_def)

lemma tracked_image:
  assumes "tracker_wf t"
  shows "k \<in> tf_MsgID ` {f \<in> snd ` set t. P f} \<longleftrightarrow> (\<exists>f. map_of t k = Some f \<and> P f)"
proof
  assume "k \<in> tf_MsgID ` {f \<in> snd ` set t. P f}"
  then obtain j f where jf: "(j, f) \<in> set t" "P f" "tf_MsgID f = k" by auto
  then have "map_of t j = Some f" using assms by (simp add: tracker_wf_def gomap_in_set [symmetric])
  moreover have "j = k" using jf assms by (auto simp: tracker_wf_def)
  ultimately show "\<exists>f. map_of t k = Some f \<and> P f" using jf by blast
next
  assume "\<exists>f. map_of t k = Some f \<and> P f"
  then obtain f where "(k, f) \<in> set t" "P f" "tf_MsgID f = k"
    using tracker_wf_lookup [OF assms] by (blast dest: map_of_SomeD)
  then show "k \<in> tf_MsgID ` {f \<in> snd ` set t. P f}" by force
qed

lemma tick_lookup:
  assumes "tracker_wf t"
  shows "map_of (fst (retransmit_tick now (t, q))) k = (case map_of t k of None \<Rightarrow> None
     | Some f \<Rightarrow> if entry_failed f then None else Some (entry_tick now f))"
proof -
  show ?thesis
    using tracked_image [OF assms, of k entry_failed]
    by (auto simp: fst_retransmit_tick RemoveFailed_map_of map_of_map_snd split: option.splits)
qed

lemma tick_wf: "tracker_wf t \<Longrightarrow> tracker_wf (fst (retransmit_tick now (t, q)))"
proof -
  assume wf: "tracker_wf t"
  have "gomap_wf (fst (retransmit_tick now (t, q)))"
    unfolding fst_retransmit_tick
    by (rule RemoveFailed_wf) (use wf in \<open>simp add: tracker_wf_def gomap_wf_def comp_def split_def\<close>)
  moreover have "tf_MsgID f = k \<and> fr_msg_id (tf_Frame f) = k"
    if "map_of (fst (retransmit_tick now (t, q))) k = Some f" for k f
    using that tracker_wf_lookup [OF wf, of k]
    by (auto simp: tick_lookup [OF wf] split: option.splits if_splits)
  ultimately show ?thesis by (simp add: tracker_wf_iff)
qed

section \<open>Runs of the retransmitter\<close>

fun run_ticks :: "time list \<Rightarrow> AckTracker \<times> Frame list \<Rightarrow> AckTracker \<times> Frame list" where
  "run_ticks [] s = s"
| "run_ticks (n # ns) s = run_ticks ns (retransmit_tick n s)"

text \<open>How often the frame with message id \<open>k\<close> is retransmitted.\<close>

definition retried_at :: "time \<Rightarrow> AckTracker \<Rightarrow> string \<Rightarrow> bool" where
  "retried_at now t k \<longleftrightarrow> k \<in> set (map tf_MsgID (fst (snd (RetransmitReady now t))))"

fun retries_of :: "string \<Rightarrow> time list \<Rightarrow> AckTracker \<times> Frame list \<Rightarrow> nat" where
  "retries_of k [] s = 0"
| "retries_of k (n # ns) s =
     (if retried_at n (fst s) k then 1 else 0) + retries_of k ns (retransmit_tick n s)"

lemma retried_at_iff:
  assumes "tracker_wf t"
  shows "retried_at now t k \<longleftrightarrow> (\<exists>f. map_of t k = Some f \<and> entry_due now f)"
  using tracked_image [OF assms, of k "entry_due now"]
  by (auto simp: retried_at_def RetransmitReady_refines image_image)

lemma retries_of_None:
  "tracker_wf t \<Longrightarrow> map_of t k = None \<Longrightarrow> retries_of k ns (t, q) = 0"
proof (induction ns arbitrary: t q)
  case Nil
  then show ?case by simp
next
  case (Cons n ns)
  obtain t' q' where s: "retransmit_tick n (t, q) = (t', q')" by fastforce
  have "tracker_wf t'" using tick_wf [OF Cons.prems(1), of n q] s by simp
  moreover have "map_of t' k = None" using tick_lookup [OF Cons.prems(1), of n q k] Cons.prems s
    by simp
  ultimately show ?case using Cons s by (simp add: retried_at_iff)
qed

lemma retries_of_bound:
  "tracker_wf t \<Longrightarrow> map_of t k = Some f \<Longrightarrow> retries_of k ns (t, q) \<le> 3 - tf_Retries f"
proof (induction ns arbitrary: t q f)
  case Nil
  then show ?case by simp
next
  case (Cons n ns)
  obtain t' q' where s: "retransmit_tick n (t, q) = (t', q')" by fastforce
  have wf: "tracker_wf t'" using tick_wf [OF Cons.prems(1), of n q] s by simp
  have look: "map_of t' k = (if entry_failed f then None else Some (entry_tick n f))"
    using tick_lookup [OF Cons.prems(1), of n q k] Cons.prems s by simp
  show ?case
  proof (cases "entry_failed f")
    case True
    then show ?thesis using look retries_of_None [OF wf] Cons.prems s
      by (simp add: retried_at_iff entry_due_def entry_failed_def)
  next
    case False
    have "retries_of k ns (t', q') \<le> 3 - tf_Retries (entry_tick n f)"
      using Cons.IH [OF wf] look False by simp
    then show ?thesis using Cons.prems s
      by (auto simp: retried_at_iff entry_tick_def entry_due_def)
  qed
qed

section \<open>The outbound channel during a run\<close>

abbreviation copies :: "string \<Rightarrow> Frame list \<Rightarrow> nat" where
  "copies k q \<equiv> length (filter (\<lambda>f. fr_msg_id f = k) q)"

lemma copies_send_or_drop:
  "copies k (send_or_drop q f) \<le> copies k q + (if fr_msg_id f = k then 1 else 0)"
  by (simp add: send_or_drop_def try_send_def)

lemma copies_foldl:
  "copies k (foldl (\<lambda>q f. send_or_drop q (tf_Frame f)) q fs)
     \<le> copies k q + length (filter (\<lambda>f. fr_msg_id (tf_Frame f) = k) fs)"
proof (induction fs arbitrary: q)
  case Nil
  then show ?case by simp
next
  case (Cons f fs)
  show ?case
    using Cons.IH [of "send_or_drop q (tf_Frame f)"] copies_send_or_drop [of k q "tf_Frame f"]
    by auto
qed

lemma due_count:
  "tracker_wf t \<Longrightarrow> length (filter (\<lambda>f. fr_msg_id (tf_Frame f) = k \<and> entry_due now f) (map snd t))
    = (case map_of t k of None \<Rightarrow> 0 | Some f \<Rightarrow> if entry_due now f then 1 else 0)"
proof (induction t)
  case Nil
  then show ?case by simp
next
  case (Cons jf t)
  obtain j f where jf: "jf = (j, f)" by (cases jf)
  have wf: "tracker_wf t" and f: "fr_msg_id (tf_Frame f) = j" and j: "map_of t j = None"
    using Cons.prems by (auto simp: jf tracker_wf_def gomap_wf_def map_of_eq_None_iff)
  show ?case
    using Cons.IH [OF wf] f j by (cases "k = j") (simp_all add: jf)
qed

lemma due_once:
  assumes "tracker_wf t"
  shows "length (filter (\<lambda>f. fr_msg_id (tf_Frame f) = k)
      (map (entry_tick now) (filter (entry_due now) (map snd t))))
    = (if retried_at now t k then 1 else 0)"
proof -
  have "filter (\<lambda>f. fr_msg_id (tf_Frame f) = k)
      (map (entry_tick now) (filter (entry_due now) (map snd t)))
    = map (entry_tick now)
        (filter (\<lambda>f. fr_msg_id (tf_Frame f) = k \<and> entry_due now f) (map snd t))"
    by (induction t) auto
  then show ?thesis
    using due_count [OF assms, of k now]
    by (cases "map_of t k") (simp_all add: retried_at_iff [OF assms])
qed

lemma copies_tick:
  assumes "tracker_wf t"
  shows "copies k (snd (retransmit_tick now (t, q)))
    \<le> copies k q + (if retried_at now t k then 1 else 0)"
  using copies_foldl [of k q "map (entry_tick now) (filter (entry_due now) (map snd t))"]
  by (simp only: retransmit_tick_def RetransmitReady_refines Let_def case_prod_conv snd_conv
      due_once [OF assms])

lemma copies_run:
  "tracker_wf t \<Longrightarrow> copies k (snd (run_ticks ns (t, q))) \<le> copies k q + retries_of k ns (t, q)"
proof (induction ns arbitrary: t q)
  case Nil
  then show ?case by simp
next
  case (Cons n ns)
  obtain t' q' where s: "retransmit_tick n (t, q) = (t', q')" by fastforce
  have wf: "tracker_wf t'" using tick_wf [OF Cons.prems, of n q] s by simp
  show ?case
    using Cons.IH [OF wf, of q'] copies_tick [OF Cons.prems, of k n q] s by simp
qed

text \<open>One frame through a run, without the rest of the map.\<close>

fun entry_run :: "time list \<Rightarrow> TrackedFrame option \<Rightarrow> TrackedFrame option \<times> nat" where
  "entry_run [] e = (e, 0)"
| "entry_run (n # ns) None = (None, 0)"
| "entry_run (n # ns) (Some f) =
     (let (e, c) = entry_run ns (if entry_failed f then None else Some (entry_tick n f))
      in (e, (if entry_due n f then 1 else 0) + c))"

lemma entry_run_None [simp]: "entry_run ns None = (None, 0)"
  by (cases ns) simp_all

lemma run_entry:
  "tracker_wf t \<Longrightarrow>
     (map_of (fst (run_ticks ns (t, q))) k, retries_of k ns (t, q)) = entry_run ns (map_of t k)"
proof (induction ns arbitrary: t q)
  case Nil
  then show ?case by simp
next
  case (Cons n ns)
  obtain t' q' where s: "retransmit_tick n (t, q) = (t', q')" by fastforce
  have wf: "tracker_wf t'" using tick_wf [OF Cons.prems, of n q] s by simp
  have look: "map_of t' k = (case map_of t k of None \<Rightarrow> None
     | Some f \<Rightarrow> if entry_failed f then None else Some (entry_tick n f))"
    using tick_lookup [OF Cons.prems, of n q k] s by simp
  show ?case
    using Cons.IH [OF wf, of q', symmetric] s look
    by (simp add: retried_at_iff [OF Cons.prems] split: option.splits)
qed

lemma lookup_Track [simp]:
  "map_of (AT_Track now t f) (fr_msg_id f) =
     Some \<lparr>tf_MsgID = fr_msg_id f, tf_Frame = f, tf_SentAt = now, tf_Retries = 0\<rparr>"
  by (simp add: AT_Track_def gomap_simps)

lemma lookup_Track_other [simp]:
  "k \<noteq> fr_msg_id f \<Longrightarrow> map_of (AT_Track now t f) k = map_of t k"
  by (simp add: AT_Track_def gomap_simps)

section \<open>Properties\<close>

definition sample_frame :: "string \<Rightarrow> Frame" where
  "sample_frame k = \<lparr>fr_version = 1, fr_type = FrameJobDispatch, fr_msg_id = k, fr_ack_id = None,
     fr_ts = 0, fr_payload = PNone\<rparr>"

text \<open>
  C7 (retransmit_at_most_three): however often and whenever the retransmitter ticks, a frame that was
  just tracked is put into the outbound channel at most three more times.
\<close>

theorem retransmit_at_most_three:
  assumes "tracker_wf t"
  shows "copies (fr_msg_id f) (snd (run_ticks ticks (AT_Track now t f, q)))
    \<le> copies (fr_msg_id f) q + 3"
  using copies_run [where ns = ticks and k = "fr_msg_id f" and q = q,
      OF tracker_wf_Track [OF assms, of now f]]
    retries_of_bound [where ns = ticks and q = q,
      OF tracker_wf_Track [OF assms, of now f] lookup_Track]
  by simp

theorem retransmit_at_most_three_witness:
  "copies ''m'' (snd (run_ticks [second, 3 * second, 7 * second, 99 * second]
     (AT_Track 0 NewAckTracker (sample_frame ''m''), []))) \<le> 3"
  using retransmit_at_most_three [of NewAckTracker "sample_frame ''m''"
      "[second, 3 * second, 7 * second, 99 * second]" 0 "[]"]
  by (simp add: NewAckTracker_def tracker_wf_def sample_frame_def)



text \<open>
  Once the acknowledgement of a frame was handled no later tick puts it
  into the outbound channel again.
\<close>

theorem ack_stops_retransmission:
  assumes "tracker_wf t"
  shows "copies k (snd (run_ticks ticks (AT_Remove t k, q))) \<le> copies k q"
  using copies_run [OF tracker_wf_Remove [OF assms], of k ticks k q]
    retries_of_None [OF tracker_wf_Remove [OF assms], of k k ticks q]
  by (simp add: AT_Remove_def gomap_simps)

theorem ack_stops_retransmission_witness:
  "copies ''m'' (snd (run_ticks [second, 5 * second]
     (AT_Remove (AT_Track 0 NewAckTracker (sample_frame ''m'')) ''m'', []))) = 0"
  using ack_stops_retransmission [of "AT_Track 0 NewAckTracker (sample_frame ''m'')" "''m''"
      "[second, 5 * second]" "[]"] tracker_wf_Track [of NewAckTracker 0 "sample_frame ''m''"]
  by (simp add: NewAckTracker_def tracker_wf_def)

end
