(* ===== verification/Tunnel.thy ===== *)
theory Tunnel
  imports Registry AckTracker
begin

text \<open>
  The device tunnel: \<open>DeviceConn\<close> of \<open>gateway/internal/tunnel/device_conn.go\<close> and \<open>Hub\<close> of
  \<open>hub.go\<close>. The two refer to each other, so they share one state: the hub record holds the
  connections, which other parts of the program name by pointer (\<open>conn_id\<close>), and extends the
  environment (clock, UUID source). The record is extensible; the rest of the gateway's state
  (tables, broker) extends it, and the operations here are polymorphic in that extension.

  Goroutine loops are modelled by their body: one read, one select branch, one tick. A
  \<open>websocket.Conn\<close> is third-party: of it the model keeps whether it is there, the frames
  written, the last close code, and a script of write outcomes (\<open>True\<close>: the write fails; no
  entry: it succeeds). \<open>c.done\<close> is closed exactly when \<open>closed\<close> is set.

  \<open>h.mu\<close> is held across calls in \<open>CloseDevice\<close> and \<open>CloseAll\<close> only; \<open>hb_mu\<close> says so. Go
  mutexes are not reentrant, so \<open>Close\<close> and \<open>Unregister\<close> return an option: \<open>None\<close> is blocking
  forever. The callbacks of \<open>HubConfig\<close> are functions on the whole state.
\<close>

section \<open>State\<close>

record DeviceConn =
  dc_deviceID :: uuid
  dc_ws :: bool
  dc_hub :: bool
  dc_outbound :: "Frame list"
  dc_acks :: AckTracker
  dc_lastSeen :: int
  dc_closed :: bool
  dc_helloReceived :: bool
  dc_processed :: "(string, int) gomap"
  dc_frameCount :: int
  dc_frameLastTS :: int
  dc_tokenHash :: string
  dc_pingFailures :: nat
  dc_wire :: "Frame list"
  dc_closeCode :: "int option"
  dc_wfail :: "bool list"

type_synonym conn_id = nat

record PendingAck =
  pa_MsgID :: string
  pa_SentAt :: time
  pa_Retries :: int
  pa_MaxRetries :: int
  pa_Frame :: Frame

record Hub = env +
  hb_registry :: InMemoryRegistry
  hb_nodeID :: string
  hb_mu :: bool
  hb_devices :: "(uuid, conn_id) gomap"
  hb_conn :: "conn_id \<Rightarrow> DeviceConn"
  hb_next :: conn_id
  hb_pending :: "(string, PendingAck) gomap"
  hb_heartbeatMissThreshold :: duration

type_synonym ('p, 'h) handler = "uuid \<Rightarrow> 'p \<Rightarrow> 'h \<Rightarrow> err option \<times> 'h"

record 'h HubConfig =
  OnHello :: "(HelloPayload, 'h) handler option"
  OnJobProgress :: "(JobProgressPayload, 'h) handler option"
  OnJobResult :: "(JobResultPayload, 'h) handler option"
  OnJobAccepted :: "(uuid, 'h) handler option"
  OnJobRejected :: "(JobRejectedPayload, 'h) handler option"
  OnAgentStatus :: "(AgentStatusPayload, 'h) handler option"
  OnStateSync :: "(StateSyncPayload, 'h) handler option"
  OnSkillState :: "(SkillStatePayload, 'h) handler option"
  OnFileAck :: "(FileAckPayload, 'h) handler option"
  OnVNCOpened :: "(VNCOpenedPayload, 'h) handler option"
  OnVNCClose :: "(payload, 'h) handler option"
  OnCredCapture :: "(CredCapturePayload, 'h) handler option"
  OnCredPushAck :: "(CredPushAckPayload, 'h) handler option"
  OnCredCaptureAck :: "(CredCaptureAckPayload, 'h) handler option"
  OnSkillDispatchAck :: "(payload, 'h) handler option"
  OnFilePurged :: "(payload, 'h) handler option"
  OnFilePullBegin :: "(FilePullBeginPayload, 'h) handler option"
  OnFilePullChunk :: "(FilePullChunkPayload, 'h) handler option"
  OnFilePullEnd :: "(FilePullEndPayload, 'h) handler option"
  OnJobLoginRequired :: "(JobLoginRequiredPayload, 'h) handler option"
  OnDisconnect :: "(unit, 'h) handler option"

text \<open>
  \<open>json.Unmarshal\<close> for each payload type: the text of the message to the struct, \<open>None\<close> an
  error.
\<close>

record decoders =
  d_Frame :: "string \<Rightarrow> Frame option"
  d_Hello :: "string \<Rightarrow> HelloPayload option"
  d_JobProgress :: "string \<Rightarrow> JobProgressPayload option"
  d_JobResult :: "string \<Rightarrow> JobResultPayload option"
  d_JobAccepted :: "string \<Rightarrow> uuid option"
  d_JobRejected :: "string \<Rightarrow> JobRejectedPayload option"
  d_AgentStatus :: "string \<Rightarrow> AgentStatusPayload option"
  d_StateSync :: "string \<Rightarrow> StateSyncPayload option"
  d_SkillState :: "string \<Rightarrow> SkillStatePayload option"
  d_FileAck :: "string \<Rightarrow> FileAckPayload option"
  d_VNCOpened :: "string \<Rightarrow> VNCOpenedPayload option"
  d_CredPushAck :: "string \<Rightarrow> CredPushAckPayload option"
  d_CredCapture :: "string \<Rightarrow> CredCapturePayload option"
  d_CredCaptureAck :: "string \<Rightarrow> CredCaptureAckPayload option"
  d_FilePullBegin :: "string \<Rightarrow> FilePullBeginPayload option"
  d_FilePullChunk :: "string \<Rightarrow> FilePullChunkPayload option"
  d_FilePullEnd :: "string \<Rightarrow> FilePullEndPayload option"
  d_JobLoginRequired :: "string \<Rightarrow> JobLoginRequiredPayload option"

definition unmarshal :: "(string \<Rightarrow> 'p option) \<Rightarrow> payload \<Rightarrow> 'p option" where
  "unmarshal dec p = (case p of PRaw s \<Rightarrow> dec s | _ \<Rightarrow> None)"

abbreviation upd_conn ::
  "conn_id \<Rightarrow> (DeviceConn \<Rightarrow> DeviceConn) \<Rightarrow> 'a Hub_scheme \<Rightarrow> 'a Hub_scheme" where
  "upd_conn c f h \<equiv> h\<lparr>hb_conn := (hb_conn h)(c := f (hb_conn h c))\<rparr>"

text \<open>
  \<open>NewHub\<close> sets up the hub's fields; the registry is the in-memory one, as in \<open>main.go\<close>. The
  handlers are the argument \<open>cfg\<close> of the operations.
\<close>

definition NewHub :: "string \<Rightarrow> duration \<Rightarrow> 'a Hub_scheme \<Rightarrow> 'a Hub_scheme" where
  "NewHub nodeID missThreshold h =
     (let (n, h1) = (if nodeID = [] then
            let (u, h0) = NewUUID h in (''node-'' @ take 8 (uuid_str h u), h0) else (nodeID, h))
      in h1\<lparr>hb_registry := NewInMemoryRegistry, hb_nodeID := n, hb_mu := False, hb_devices := [],
            hb_pending := [], hb_heartbeatMissThreshold := missThreshold\<rparr>)"

section \<open>Connections\<close>

definition NewDeviceConn :: "uuid \<Rightarrow> bool \<Rightarrow> 'a Hub_scheme \<Rightarrow> conn_id \<times> 'a Hub_scheme" where
  "NewDeviceConn deviceID ws h = (hb_next h,
     h\<lparr>hb_next := Suc (hb_next h),
       hb_conn := (hb_conn h)(hb_next h :=
         \<lparr>dc_deviceID = deviceID, dc_ws = ws, dc_hub = False, dc_outbound = [],
          dc_acks = NewAckTracker, dc_lastSeen = unix (wall_clock h), dc_closed = False,
          dc_helloReceived = False, dc_processed = [], dc_frameCount = 0,
          dc_frameLastTS = unix (wall_clock h), dc_tokenHash = '''', dc_pingFailures = 0,
          dc_wire = [], dc_closeCode = None, dc_wfail = []\<rparr>)\<rparr>)"

definition SetTokenHash :: "conn_id \<Rightarrow> string \<Rightarrow> 'a Hub_scheme \<Rightarrow> 'a Hub_scheme" where
  "SetTokenHash c hash h = upd_conn c (\<lambda>d. d\<lparr>dc_tokenHash := hash\<rparr>) h"

definition conn_touch :: "conn_id \<Rightarrow> 'a Hub_scheme \<Rightarrow> 'a Hub_scheme" where
  "conn_touch c h = upd_conn c (\<lambda>d. d\<lparr>dc_lastSeen := unix (wall_clock h)\<rparr>) h"

text \<open>
  \<open>ws.WriteMessage\<close>: fails on a closed connection or when the script says so; the result says
  whether it succeeded.
\<close>

definition ws_write :: "conn_id \<Rightarrow> Frame \<Rightarrow> 'a Hub_scheme \<Rightarrow> bool \<times> 'a Hub_scheme" where
  "ws_write c f h = (let d = hb_conn h c in
     if dc_closed d then (False, h)
     else case dc_wfail d of
       True # w \<Rightarrow> (False, upd_conn c (\<lambda>d. d\<lparr>dc_wfail := w\<rparr>) h)
     | False # w \<Rightarrow> (True, upd_conn c (\<lambda>d. d\<lparr>dc_wfail := w, dc_wire := dc_wire d @ [f]\<rparr>) h)
     | [] \<Rightarrow> (True, upd_conn c (\<lambda>d. d\<lparr>dc_wire := dc_wire d @ [f]\<rparr>) h))"

definition conn_Send :: "conn_id \<Rightarrow> Frame \<Rightarrow> 'a Hub_scheme \<Rightarrow> err option \<times> 'a Hub_scheme" where
  "conn_Send c frame h = (case try_send (dc_outbound (hb_conn h c)) frame of
     Some q \<Rightarrow> (None, upd_conn c (\<lambda>d. d\<lparr>dc_outbound := q\<rparr>) h)
   | None \<Rightarrow> (Some EQueueFull, h))"

definition checkRateLimit :: "conn_id \<Rightarrow> 'a Hub_scheme \<Rightarrow> bool \<times> 'a Hub_scheme" where
  "checkRateLimit c h = (let now = unix (wall_clock h); d = hb_conn h c in
     if now \<noteq> dc_frameLastTS d
     then (True, upd_conn c (\<lambda>d. d\<lparr>dc_frameLastTS := now, dc_frameCount := 0\<rparr>) h)
     else let count = dc_frameCount d + 1
          in (count \<le> 500, upd_conn c (\<lambda>d. d\<lparr>dc_frameCount := count\<rparr>) h))"

section \<open>Frame handlers of the hub\<close>

definition call_handler ::
  "('p, 'h) handler option \<Rightarrow> uuid \<Rightarrow> 'p \<Rightarrow> 'h \<Rightarrow> err option \<times> 'h" where
  "call_handler f d p h = (case f of Some g \<Rightarrow> g d p h | None \<Rightarrow> (None, h))"

definition HandleJobProgress where
  "HandleJobProgress cfg = call_handler (OnJobProgress cfg)"

definition HandleJobResult where
  "HandleJobResult cfg = call_handler (OnJobResult cfg)"

definition HandleJobAccepted where
  "HandleJobAccepted cfg = call_handler (OnJobAccepted cfg)"

definition HandleJobRejected where
  "HandleJobRejected cfg = call_handler (OnJobRejected cfg)"

definition HandleAgentStatus where
  "HandleAgentStatus cfg = call_handler (OnAgentStatus cfg)"

definition HandleStateSync where
  "HandleStateSync cfg = call_handler (OnStateSync cfg)"

definition HandleSkillState where
  "HandleSkillState cfg = call_handler (OnSkillState cfg)"

definition HandleFileAck where
  "HandleFileAck cfg = call_handler (OnFileAck cfg)"

definition HandleVNCOpened where
  "HandleVNCOpened cfg = call_handler (OnVNCOpened cfg)"

definition HandleCredPushAck where
  "HandleCredPushAck cfg = call_handler (OnCredPushAck cfg)"

definition HandleCredCaptureAck where
  "HandleCredCaptureAck cfg = call_handler (OnCredCaptureAck cfg)"

definition HandleCredCapture where
  "HandleCredCapture cfg = call_handler (OnCredCapture cfg)"

definition HandleVNCClose where
  "HandleVNCClose cfg = call_handler (OnVNCClose cfg)"

definition HandleSkillDispatchAck where
  "HandleSkillDispatchAck cfg = call_handler (OnSkillDispatchAck cfg)"

definition HandleFilePurged where
  "HandleFilePurged cfg = call_handler (OnFilePurged cfg)"

text \<open>Decode, then call: \<open>if err := json.Unmarshal(..); err != nil { return err }\<close>.\<close>

definition decode_then :: "(string \<Rightarrow> 'p option) \<Rightarrow> (uuid \<Rightarrow> 'p \<Rightarrow> 'h \<Rightarrow> err option \<times> 'h) \<Rightarrow>
    uuid \<Rightarrow> payload \<Rightarrow> 'h \<Rightarrow> err option \<times> 'h" where
  "decode_then dec f d p h = (case unmarshal dec p of None \<Rightarrow> (Some EDecode, h) | Some x \<Rightarrow> f d x h)"

definition HandleFilePullBegin where
  "HandleFilePullBegin D cfg = decode_then (d_FilePullBegin D) (call_handler (OnFilePullBegin cfg))"

definition HandleFilePullChunk where
  "HandleFilePullChunk D cfg = decode_then (d_FilePullChunk D) (call_handler (OnFilePullChunk cfg))"

definition HandleFilePullEnd where
  "HandleFilePullEnd D cfg = decode_then (d_FilePullEnd D) (call_handler (OnFilePullEnd cfg))"

definition HandleJobLoginRequired where
  "HandleJobLoginRequired D cfg =
     decode_then (d_JobLoginRequired D) (call_handler (OnJobLoginRequired cfg))"

definition TrackPending :: "PendingAck \<Rightarrow> 'a Hub_scheme \<Rightarrow> 'a Hub_scheme" where
  "TrackPending ack h = h\<lparr>hb_pending := AList.update (pa_MsgID ack) ack (hb_pending h)\<rparr>"

definition RemovePending :: "string \<Rightarrow> 'a Hub_scheme \<Rightarrow> 'a Hub_scheme" where
  "RemovePending msgID h = h\<lparr>hb_pending := AList.delete msgID (hb_pending h)\<rparr>"

definition PendingCount :: "'a Hub_scheme \<Rightarrow> nat" where
  "PendingCount h = length (hb_pending h)"

section \<open>Inbound frames\<close>

definition sendPong :: "conn_id \<Rightarrow> 'a Hub_scheme \<Rightarrow> err option \<times> 'a Hub_scheme" where
  "sendPong c h = (if \<not> dc_ws (hb_conn h c) then (None, h) else
     let (u, h1) = NewUUID h;
         frame = \<lparr>fr_version = FrameVersion, fr_type = FramePong, fr_msg_id = uuid_str h u,
                  fr_ack_id = None, fr_ts = unix_milli (wall_clock h), fr_payload = PNone\<rparr>;
         (ok, h2) = ws_write c frame h1
     in (if ok then None else Some (EHandler ''write failed''), h2))"

definition ack_frame :: "string \<Rightarrow> uuid \<Rightarrow> 'a Hub_scheme \<Rightarrow> Frame" where
  "ack_frame msgID u h = \<lparr>fr_version = FrameVersion, fr_type = FrameAck, fr_msg_id = uuid_str h u,
     fr_ack_id = Some msgID, fr_ts = unix_milli (wall_clock h), fr_payload = PNone\<rparr>"

definition sendAck :: "conn_id \<Rightarrow> string \<Rightarrow> 'a Hub_scheme \<Rightarrow> 'a Hub_scheme" where
  "sendAck c msgID h = (if \<not> dc_ws (hb_conn h c) then h else
     let (u, h1) = NewUUID h in snd (ws_write c (ack_frame msgID u h) h1))"

text \<open>
  The \<open>switch\<close> of \<open>handleFrame\<close>. A branch that calls the hub does so only when the connection
  belongs to one (\<open>with_hub\<close>); decoding comes first in the branches that decode themselves. The
  \<open>switch\<close> is split in two: \<open>late_switch\<close> has its last branches and the default.
\<close>

definition with_hub :: "conn_id \<Rightarrow> (uuid \<Rightarrow> 'p \<Rightarrow> 'a Hub_scheme \<Rightarrow> err option \<times> 'a Hub_scheme) \<Rightarrow>
    uuid \<Rightarrow> 'p \<Rightarrow> 'a Hub_scheme \<Rightarrow> err option \<times> 'a Hub_scheme" where
  "with_hub c f d p h = (if dc_hub (hb_conn h c) then f d p h else (None, h))"

definition late_switch :: "decoders \<Rightarrow> 'a Hub_scheme HubConfig \<Rightarrow> conn_id \<Rightarrow> Frame \<Rightarrow>
    'a Hub_scheme \<Rightarrow> err option \<times> 'a Hub_scheme" where
  "late_switch D cfg c frame h =
    (let d = dc_deviceID (hb_conn h c); p = fr_payload frame in
     case fr_type frame of
       FrameJobLoginRequired \<Rightarrow> with_hub c (HandleJobLoginRequired D cfg) d p h
     | FrameVNCOpened \<Rightarrow> decode_then (d_VNCOpened D) (with_hub c (HandleVNCOpened cfg)) d p h
     | FrameCredPushAck \<Rightarrow> decode_then (d_CredPushAck D) (with_hub c (HandleCredPushAck cfg)) d p h
     | FrameCredCapture \<Rightarrow> decode_then (d_CredCapture D) (with_hub c (HandleCredCapture cfg)) d p h
     | FrameVNCClose \<Rightarrow> with_hub c (HandleVNCClose cfg) d p h
     | FrameSkillDispatchAck \<Rightarrow> with_hub c (HandleSkillDispatchAck cfg) d p h
     | FrameFilePurged \<Rightarrow> with_hub c (HandleFilePurged cfg) d p h
     | FrameCredCaptureAck \<Rightarrow>
         decode_then (d_CredCaptureAck D) (with_hub c (HandleCredCaptureAck cfg)) d p h
     | _ \<Rightarrow> (None, h))"

definition frame_switch :: "decoders \<Rightarrow> 'a Hub_scheme HubConfig \<Rightarrow> conn_id \<Rightarrow> Frame \<Rightarrow>
    'a Hub_scheme \<Rightarrow> err option \<times> 'a Hub_scheme" where
  "frame_switch D cfg c frame h =
    (let d = dc_deviceID (hb_conn h c); p = fr_payload frame in
     case fr_type frame of
       FrameHello \<Rightarrow> (None, sendAck c (fr_msg_id frame) h)
     | FramePing \<Rightarrow> sendPong c h
     | FramePong \<Rightarrow> (None, conn_touch c h)
     | FrameAck \<Rightarrow>
         (let ackID = (case fr_ack_id frame of Some a \<Rightarrow> a | None \<Rightarrow> '''');
              h1 = upd_conn c (\<lambda>x. x\<lparr>dc_acks := AT_Remove (dc_acks x) ackID\<rparr>) h
          in (None, if dc_hub (hb_conn h c) then RemovePending ackID h1 else h1))
     | FrameJobProgress \<Rightarrow> decode_then (d_JobProgress D) (with_hub c (HandleJobProgress cfg)) d p h
     | FrameJobResult \<Rightarrow> decode_then (d_JobResult D) (with_hub c (HandleJobResult cfg)) d p h
     | FrameJobAccepted \<Rightarrow> decode_then (d_JobAccepted D) (with_hub c (HandleJobAccepted cfg)) d p h
     | FrameJobRejected \<Rightarrow> decode_then (d_JobRejected D) (with_hub c (HandleJobRejected cfg)) d p h
     | FrameAgentStatus \<Rightarrow> decode_then (d_AgentStatus D) (with_hub c (HandleAgentStatus cfg)) d p h
     | FrameStateSync \<Rightarrow> decode_then (d_StateSync D) (with_hub c (HandleStateSync cfg)) d p h
     | FrameSkillState \<Rightarrow> decode_then (d_SkillState D) (with_hub c (HandleSkillState cfg)) d p h
     | FrameFileAck \<Rightarrow> decode_then (d_FileAck D) (with_hub c (HandleFileAck cfg)) d p h
     | FrameFilePullBegin \<Rightarrow> with_hub c (HandleFilePullBegin D cfg) d p h
     | FrameFilePullChunk \<Rightarrow> with_hub c (HandleFilePullChunk D cfg) d p h
     | FrameFilePullEnd \<Rightarrow> with_hub c (HandleFilePullEnd D cfg) d p h
     | _ \<Rightarrow> late_switch D cfg c frame h)"

text \<open>
  \<open>handleFrame\<close>: deduplication by message id, then the switch, then the deferred acknowledgement,
  which is sent whether or not the switch returned an error.
\<close>

definition is_control :: "FrameType \<Rightarrow> bool" where
  "is_control t \<longleftrightarrow> t = FrameAck \<or> t = FramePing \<or> t = FramePong"

definition handleFrame :: "decoders \<Rightarrow> 'a Hub_scheme HubConfig \<Rightarrow> conn_id \<Rightarrow> Frame \<Rightarrow>
    'a Hub_scheme \<Rightarrow> err option \<times> 'a Hub_scheme" where
  "handleFrame D cfg c frame h =
    (let t = fr_type frame; m = fr_msg_id frame in
     if \<not> is_control t \<and> map_of (dc_processed (hb_conn h c)) m \<noteq> None
     then (None, sendAck c m h)
     else
       let h1 = (if is_control t then h else upd_conn c
                  (\<lambda>x. x\<lparr>dc_processed := AList.update m (unix (wall_clock h)) (dc_processed x)\<rparr>) h);
           (e, h2) = frame_switch D cfg c frame h1
       in (e, if is_control t \<or> t = FrameHello then h2 else sendAck c m h2))"

section \<open>Closing, registering, sending\<close>

definition hub_Unregister :: "'a Hub_scheme HubConfig \<Rightarrow> uuid \<Rightarrow> conn_id \<Rightarrow> 'a Hub_scheme \<Rightarrow>
    'a Hub_scheme option" where
  "hub_Unregister cfg deviceID conn h = (if hb_mu h then None else
     let h1 = (if map_of (hb_devices h) deviceID = Some conn
               then h\<lparr>hb_devices := AList.delete deviceID (hb_devices h)\<rparr> else h);
         h2 = h1\<lparr>hb_registry := IM_Unregister (hb_registry h1) deviceID\<rparr>
     in Some (snd (call_handler (OnDisconnect cfg) deviceID () h2)))"

text \<open>
  \<open>Close\<close>: the first call wins the compare-and-swap; it closes the socket with the code, then
  unregisters.
\<close>

definition conn_Close :: "'a Hub_scheme HubConfig \<Rightarrow> conn_id \<Rightarrow> int \<Rightarrow> 'a Hub_scheme \<Rightarrow>
    'a Hub_scheme option" where
  "conn_Close cfg c code h = (if dc_closed (hb_conn h c) then Some h else
     let h1 = upd_conn c (\<lambda>x. x\<lparr>dc_closed := True,
                dc_closeCode := (if dc_ws x then Some code else dc_closeCode x)\<rparr>) h
     in if dc_hub (hb_conn h c) then hub_Unregister cfg (dc_deviceID (hb_conn h c)) c h1
        else Some h1)"

definition migrate_frame :: "conn_id \<Rightarrow> 'a Hub_scheme \<Rightarrow> TrackedFrame \<Rightarrow> 'a Hub_scheme" where
  "migrate_frame conn h tf = upd_conn conn (\<lambda>x. x\<lparr>
     dc_acks := AT_Track (wall_clock h) (dc_acks x) (tf_Frame tf),
     dc_outbound := send_or_drop (dc_outbound x) (tf_Frame tf)\<rparr>) h"

definition hub_Register :: "'a Hub_scheme HubConfig \<Rightarrow> conn_id \<Rightarrow> 'a Hub_scheme \<Rightarrow>
    'a Hub_scheme option" where
  "hub_Register cfg conn h = (if hb_mu h then None else
     let dev = dc_deviceID (hb_conn h conn);
         supersede = map_of (hb_devices h) dev;
         h1 = upd_conn conn (\<lambda>x. x\<lparr>dc_hub := True\<rparr>) h;
         h2 = h1\<lparr>hb_devices := AList.update dev conn (hb_devices h1)\<rparr>;
         closed = (case supersede of
             None \<Rightarrow> Some h2
           | Some old \<Rightarrow> conn_Close cfg old 4002
               (foldl (migrate_frame conn) h2 (AT_Pending (dc_acks (hb_conn h2 old)))))
     in case closed of None \<Rightarrow> None
        | Some h3 \<Rightarrow> Some (h3\<lparr>hb_registry := IM_Register (hb_registry h3) dev (hb_nodeID h3)\<rparr>))"

definition GetConnection :: "uuid \<Rightarrow> 'a Hub_scheme \<Rightarrow> conn_id option" where
  "GetConnection deviceID h = map_of (hb_devices h) deviceID"

definition hub_IsOnline :: "uuid \<Rightarrow> 'a Hub_scheme \<Rightarrow> bool" where
  "hub_IsOnline deviceID h \<longleftrightarrow> GetConnection deviceID h \<noteq> None"

definition SendFrame :: "uuid \<Rightarrow> Frame \<Rightarrow> 'a Hub_scheme \<Rightarrow> err option \<times> 'a Hub_scheme" where
  "SendFrame deviceID frame h = (case map_of (hb_devices h) deviceID of
     None \<Rightarrow> (Some (EOffline deviceID), h)
   | Some c \<Rightarrow>
       if dc_closed (hb_conn h c) then (Some (EConnClosed deviceID), h)
       else
         let h1 = (if fr_type frame \<noteq> FrameAck
                   then upd_conn c (\<lambda>x. x\<lparr>dc_acks := AT_Track (wall_clock h) (dc_acks x) frame\<rparr>) h
                   else h)
         in case try_send (dc_outbound (hb_conn h1 c)) frame of
              Some q \<Rightarrow> (None, upd_conn c (\<lambda>x. x\<lparr>dc_outbound := q\<rparr>) h1)
            | None \<Rightarrow> (Some (EOutboundFull deviceID), h1))"

definition OnlineCount :: "'a Hub_scheme \<Rightarrow> nat" where
  "OnlineCount h = length (hb_devices h)"

definition hub_Touch :: "uuid \<Rightarrow> 'a Hub_scheme \<Rightarrow> 'a Hub_scheme" where
  "hub_Touch deviceID h =
     h\<lparr>hb_registry := IM_Touch (hb_registry h) deviceID (unix (wall_clock h))\<rparr>"

text \<open>\<open>checkLiveness\<close>: the stale devices in turn; a block in one blocks the loop.\<close>

fun close_stale :: "'a Hub_scheme HubConfig \<Rightarrow> uuid list \<Rightarrow> 'a Hub_scheme \<Rightarrow> 'a Hub_scheme option"
  where
  "close_stale cfg [] h = Some h"
| "close_stale cfg (d # ds) h = (case map_of (hb_devices h) d of
     None \<Rightarrow> close_stale cfg ds h
   | Some c \<Rightarrow> (case conn_Close cfg c 4001 h of None \<Rightarrow> None | Some h1 \<Rightarrow> close_stale cfg ds h1))"

definition checkLiveness :: "'a Hub_scheme HubConfig \<Rightarrow> 'a Hub_scheme \<Rightarrow> 'a Hub_scheme option" where
  "checkLiveness cfg h =
     (let threshold = unix (wall_clock h) - hb_heartbeatMissThreshold h div second
      in close_stale cfg (IM_GetStale (hb_registry h) threshold) h)"

definition CloseDevice :: "'a Hub_scheme HubConfig \<Rightarrow> uuid \<Rightarrow> int \<Rightarrow> 'a Hub_scheme \<Rightarrow>
    'a Hub_scheme option" where
  "CloseDevice cfg deviceID code h = (if hb_mu h then None else
     let h1 = h\<lparr>hb_mu := True\<rparr> in
     case (case map_of (hb_devices h1) deviceID of
             Some conn \<Rightarrow> conn_Close cfg conn code h1 | None \<Rightarrow> Some h1) of
       None \<Rightarrow> None
     | Some h2 \<Rightarrow> Some (h2\<lparr>hb_mu := False\<rparr>))"

fun close_conns :: "'a Hub_scheme HubConfig \<Rightarrow> conn_id list \<Rightarrow> int \<Rightarrow> 'a Hub_scheme \<Rightarrow>
    'a Hub_scheme option" where
  "close_conns cfg [] code h = Some h"
| "close_conns cfg (c # cs) code h =
     (case conn_Close cfg c code h of None \<Rightarrow> None | Some h1 \<Rightarrow> close_conns cfg cs code h1)"

definition CloseAll :: "'a Hub_scheme HubConfig \<Rightarrow> 'a Hub_scheme \<Rightarrow> 'a Hub_scheme option" where
  "CloseAll cfg h = (if hb_mu h then None else
     let h1 = h\<lparr>hb_mu := True\<rparr> in
     case close_conns cfg (map snd (hb_devices h1)) 1001 h1 of
       None \<Rightarrow> None
     | Some h2 \<Rightarrow> Some (h2\<lparr>hb_devices := [], hb_registry := IM_Close (hb_registry h2),
                           hb_mu := False\<rparr>))"

section \<open>The pumps\<close>

definition handleHello :: "decoders \<Rightarrow> 'a Hub_scheme HubConfig \<Rightarrow> conn_id \<Rightarrow> Frame \<Rightarrow>
    'a Hub_scheme \<Rightarrow> 'a Hub_scheme" where
  "handleHello D cfg c frame h = (case unmarshal (d_Hello D) (fr_payload frame) of
     None \<Rightarrow> h
   | Some p \<Rightarrow>
       let h1 = upd_conn c (\<lambda>x. x\<lparr>dc_helloReceived := True\<rparr>) h;
           h2 = snd (with_hub c (call_handler (OnHello cfg)) (dc_deviceID (hb_conn h1 c)) p h1);
           (u, h3) = NewUUID h2;
           (sid, h4) = NewUUID h3;
           ack = \<lparr>fr_version = FrameVersion, fr_type = FrameHelloAck, fr_msg_id = uuid_str h4 u,
             fr_ack_id = None, fr_ts = unix_milli (wall_clock h4),
             fr_payload = PHelloAck \<lparr>hack_server_time = unix_milli (wall_clock h4),
               hack_session_id = uuid_str h4 sid,
               hack_config = \<lparr>hac_heartbeat_s = 15, hac_max_frame_bytes = FrameMaxSize\<rparr>\<rparr>\<rparr>
       in upd_conn c (\<lambda>x. x\<lparr>dc_outbound := send_or_drop (dc_outbound x) ack\<rparr>) h4)"

text \<open>
  One round of the read loop: \<open>Some (True, h)\<close> goes round again, \<open>Some (False, h)\<close> has returned,
  with the deferred \<open>Close\<close> done.
\<close>

datatype read_event = ReadError | Message string

definition stop_pump :: "'a Hub_scheme HubConfig \<Rightarrow> conn_id \<Rightarrow> int \<Rightarrow> 'a Hub_scheme \<Rightarrow>
    (bool \<times> 'a Hub_scheme) option" where
  "stop_pump cfg c code h = (case conn_Close cfg c code h of None \<Rightarrow> None
     | Some h1 \<Rightarrow> map_option (Pair False) (conn_Close cfg c 1000 h1))"

definition read_step :: "decoders \<Rightarrow> 'a Hub_scheme HubConfig \<Rightarrow> conn_id \<Rightarrow> read_event \<Rightarrow>
    'a Hub_scheme \<Rightarrow> (bool \<times> 'a Hub_scheme) option" where
  "read_step D cfg c ev h = (case ev of
     ReadError \<Rightarrow> map_option (Pair False) (conn_Close cfg c 1000 h)
   | Message msg \<Rightarrow>
       let h1 = conn_touch c h in
       if FrameMaxSize < int (length msg) then stop_pump cfg c 4004 h1
       else case d_Frame D msg of
         None \<Rightarrow> stop_pump cfg c 4004 h1
       | Some frame \<Rightarrow>
           if fr_version frame \<noteq> FrameVersion then stop_pump cfg c 4004 h1
           else
             let h2 = (if fr_type frame = FrameHello \<and> \<not> dc_helloReceived (hb_conn h1 c)
                       then handleHello D cfg c frame
                              (upd_conn c (\<lambda>x. x\<lparr>dc_helloReceived := True\<rparr>) h1)
                       else h1)
             in Some (True, snd (handleFrame D cfg c frame h2)))"

text \<open>The timer of the read pump fires after \<open>HelloTimeout\<close> unless a HELLO was received.\<close>

definition hello_timeout :: "'a Hub_scheme HubConfig \<Rightarrow> conn_id \<Rightarrow> 'a Hub_scheme \<Rightarrow>
    'a Hub_scheme option" where
  "hello_timeout cfg c h = (if dc_helloReceived (hb_conn h c) \<or> dc_closed (hb_conn h c) then Some h
     else conn_Close cfg c 4003 h)"

text \<open>
  One round of the write loop: the ping ticker or a frame from the outbound channel. The counter
  \<open>pingFailures\<close> is local to the pump. \<open>json.Marshal\<close> of a frame fails only for a payload that
  cannot be marshalled, and then the frame is skipped.
\<close>

datatype write_event = PingTick bool | TakeFrame

definition write_step :: "'a Hub_scheme HubConfig \<Rightarrow> conn_id \<Rightarrow> write_event \<Rightarrow> 'a Hub_scheme \<Rightarrow>
    (bool \<times> 'a Hub_scheme) option" where
  "write_step cfg c ev h = (case ev of
     PingTick fails \<Rightarrow>
       if fails \<or> dc_closed (hb_conn h c) then
         let h1 = upd_conn c (\<lambda>x. x\<lparr>dc_pingFailures := Suc (dc_pingFailures x)\<rparr>) h
         in if 2 \<le> dc_pingFailures (hb_conn h1 c)
            then map_option (Pair False) (conn_Close cfg c 1000 h1) else Some (True, h1)
       else Some (True, upd_conn c (\<lambda>x. x\<lparr>dc_pingFailures := 0\<rparr>) h)
   | TakeFrame \<Rightarrow> (case dc_outbound (hb_conn h c) of
       [] \<Rightarrow> Some (True, h)
     | frame # rest \<Rightarrow>
         let h1 = upd_conn c (\<lambda>x. x\<lparr>dc_outbound := rest\<rparr>) h in
         if fr_payload frame = PUnsupported then Some (True, h1)
         else let (ok, h2) = ws_write c frame h1 in
           if ok then Some (True, upd_conn c (\<lambda>x. x\<lparr>dc_pingFailures := 0\<rparr>) h2)
           else map_option (Pair False) (conn_Close cfg c 1000 h2)))"

text \<open>The ticks of the retransmitter, the dedup pruner and the token watcher.\<close>

definition retransmitter_tick :: "conn_id \<Rightarrow> 'a Hub_scheme \<Rightarrow> 'a Hub_scheme" where
  "retransmitter_tick c h = (if dc_closed (hb_conn h c) then h else
     upd_conn c (\<lambda>x. let (a, q) = retransmit_tick (wall_clock h) (dc_acks x, dc_outbound x)
       in x\<lparr>dc_acks := a, dc_outbound := q\<rparr>) h)"

definition dedup_maxAge :: int where
  "dedup_maxAge = 5 * 60"

definition dedup_prune :: "conn_id \<Rightarrow> 'a Hub_scheme \<Rightarrow> 'a Hub_scheme" where
  "dedup_prune c h = (if dc_closed (hb_conn h c) then h else
     let cutoff = unix (wall_clock h) - dedup_maxAge
     in upd_conn c (\<lambda>x. x\<lparr>dc_processed := filter (\<lambda>(k, ts). \<not> ts < cutoff) (dc_processed x)\<rparr>) h)"

type_synonym TokenVerifier = "uuid \<Rightarrow> string \<Rightarrow> bool"

definition token_watch :: "'a Hub_scheme HubConfig \<Rightarrow> TokenVerifier option \<Rightarrow> conn_id \<Rightarrow>
    'a Hub_scheme \<Rightarrow> 'a Hub_scheme option" where
  "token_watch cfg verifier c h = (case verifier of None \<Rightarrow> Some h
     | Some valid \<Rightarrow>
         if dc_closed (hb_conn h c) \<or> valid (dc_deviceID (hb_conn h c)) (dc_tokenHash (hb_conn h c))
         then Some h else conn_Close cfg c 4005 h)"

end
