(* ===== verification/TunnelProps.thy ===== *)
theory TunnelProps
  imports Tunnel
begin

text \<open>
  What the tunnel promises. The hub's callbacks are the client's code: the locale
  \<open>callbacks\<close> states what the tunnel relies on of them, a relation \<open>keep\<close> between the states before
  and after that every callback respects, and carries it through the frame switch and the pumps.
  It is used with \<open>hub_inv\<close>, the invariant of the hub, and with \<open>remembers\<close>, which says that no
  message id is forgotten.
\<close>

section \<open>The callbacks\<close>

definition keeps :: "('h \<Rightarrow> 'h \<Rightarrow> bool) \<Rightarrow> ('p, 'h) handler option \<Rightarrow> bool" where
  "keeps R f \<longleftrightarrow> (case f of None \<Rightarrow> True | Some g \<Rightarrow> \<forall>d p h. R h (snd (g d p h)))"

definition cfg_keeps :: "('h \<Rightarrow> 'h \<Rightarrow> bool) \<Rightarrow> 'h HubConfig \<Rightarrow> bool" where
  "cfg_keeps R cfg \<longleftrightarrow> keeps R (OnHello cfg) \<and> keeps R (OnJobProgress cfg)
     \<and> keeps R (OnJobResult cfg) \<and> keeps R (OnJobAccepted cfg) \<and> keeps R (OnJobRejected cfg)
     \<and> keeps R (OnAgentStatus cfg) \<and> keeps R (OnStateSync cfg) \<and> keeps R (OnSkillState cfg)
     \<and> keeps R (OnFileAck cfg) \<and> keeps R (OnVNCOpened cfg) \<and> keeps R (OnVNCClose cfg)
     \<and> keeps R (OnCredCapture cfg) \<and> keeps R (OnCredPushAck cfg)
     \<and> keeps R (OnCredCaptureAck cfg) \<and> keeps R (OnSkillDispatchAck cfg)
     \<and> keeps R (OnFilePurged cfg) \<and> keeps R (OnFilePullBegin cfg)
     \<and> keeps R (OnFilePullChunk cfg) \<and> keeps R (OnFilePullEnd cfg)
     \<and> keeps R (OnJobLoginRequired cfg) \<and> keeps R (OnDisconnect cfg)"

definition no_handlers :: "'h HubConfig" where
  "no_handlers = \<lparr>OnHello = None, OnJobProgress = None, OnJobResult = None, OnJobAccepted = None,
     OnJobRejected = None, OnAgentStatus = None, OnStateSync = None, OnSkillState = None,
     OnFileAck = None, OnVNCOpened = None, OnVNCClose = None, OnCredCapture = None,
     OnCredPushAck = None, OnCredCaptureAck = None, OnSkillDispatchAck = None, OnFilePurged = None,
     OnFilePullBegin = None, OnFilePullChunk = None, OnFilePullEnd = None,
     OnJobLoginRequired = None, OnDisconnect = None\<rparr>"

lemma keeps_call: "keeps R f \<Longrightarrow> (\<And>h. R h h) \<Longrightarrow> R h (snd (call_handler f d p h))"
  by (simp add: keeps_def call_handler_def split: option.splits)

lemma cfg_keeps_none [simp]: "cfg_keeps R no_handlers"
  by (simp add: cfg_keeps_def no_handlers_def keeps_def)

lemma keeps_decode: "(\<And>x. R h (snd (f d x h))) \<Longrightarrow> R h h \<Longrightarrow> R h (snd (decode_then dec f d p h))"
  by (simp add: decode_then_def split: option.splits)

lemma keeps_with_hub: "R h (snd (f d p h)) \<Longrightarrow> R h h \<Longrightarrow> R h (snd (with_hub c f d p h))"
  by (simp add: with_hub_def)

lemmas Handle_defs = HandleJobProgress_def HandleJobResult_def HandleJobAccepted_def
  HandleJobRejected_def HandleAgentStatus_def HandleStateSync_def HandleSkillState_def
  HandleFileAck_def HandleVNCOpened_def HandleCredPushAck_def HandleCredCaptureAck_def
  HandleCredCapture_def HandleVNCClose_def HandleSkillDispatchAck_def HandleFilePurged_def
  HandleFilePullBegin_def HandleFilePullChunk_def HandleFilePullEnd_def
  HandleJobLoginRequired_def

locale callbacks =
  fixes cfg :: "'a Hub_scheme HubConfig"
    and keep :: "'a Hub_scheme \<Rightarrow> 'a Hub_scheme \<Rightarrow> bool"
  assumes keep_refl: "keep h h"
    and keep_trans: "keep h h' \<Longrightarrow> keep h' h'' \<Longrightarrow> keep h h''"
    and keep_cfg: "cfg_keeps keep cfg"
    and keep_ack: "keep h (sendAck c m h)"
    and keep_pong: "keep h (snd (sendPong c h))"
    and keep_touch: "keep h (conn_touch c h)"
    and keep_remove: "keep h (RemovePending m h)"
    and keep_acked: "keep h (upd_conn c (\<lambda>x. x\<lparr>dc_acks := AT_Remove (dc_acks x) m\<rparr>) h)"
begin

lemma handler_keeps:
  "keep h (snd (call_handler (OnHello cfg) d p1 h))"
  "keep h (snd (call_handler (OnJobProgress cfg) d p2 h))"
  "keep h (snd (call_handler (OnJobResult cfg) d p3 h))"
  "keep h (snd (call_handler (OnJobAccepted cfg) d p4 h))"
  "keep h (snd (call_handler (OnJobRejected cfg) d p5 h))"
  "keep h (snd (call_handler (OnAgentStatus cfg) d p6 h))"
  "keep h (snd (call_handler (OnStateSync cfg) d p7 h))"
  "keep h (snd (call_handler (OnSkillState cfg) d p8 h))"
  "keep h (snd (call_handler (OnFileAck cfg) d p9 h))"
  "keep h (snd (call_handler (OnVNCOpened cfg) d p10 h))"
  "keep h (snd (call_handler (OnVNCClose cfg) d p11 h))"
  "keep h (snd (call_handler (OnCredCapture cfg) d p12 h))"
  "keep h (snd (call_handler (OnCredPushAck cfg) d p13 h))"
  "keep h (snd (call_handler (OnCredCaptureAck cfg) d p14 h))"
  "keep h (snd (call_handler (OnSkillDispatchAck cfg) d p15 h))"
  "keep h (snd (call_handler (OnFilePurged cfg) d p16 h))"
  "keep h (snd (call_handler (OnFilePullBegin cfg) d p17 h))"
  "keep h (snd (call_handler (OnFilePullChunk cfg) d p18 h))"
  "keep h (snd (call_handler (OnFilePullEnd cfg) d p19 h))"
  "keep h (snd (call_handler (OnJobLoginRequired cfg) d p20 h))"
  "keep h (snd (call_handler (OnDisconnect cfg) d p21 h))"
  using keep_cfg unfolding cfg_keeps_def by (blast intro: keeps_call keep_refl)+

lemma late_switch_keeps: "keep h (snd (late_switch D cfg c frame h))"
  by (cases "fr_type frame")
    (simp_all add: late_switch_def Let_def Handle_defs keep_refl keeps_decode keeps_with_hub
      handler_keeps)

lemma frame_switch_keeps: "keep h (snd (frame_switch D cfg c frame h))"
  using keep_acked keep_trans [OF keep_acked keep_remove]
  by (cases "fr_type frame")
    (auto simp: frame_switch_def Let_def Handle_defs keep_refl keeps_decode keeps_with_hub
      handler_keeps late_switch_keeps keep_ack keep_pong keep_touch)

lemma switch_ack_keeps:
  "keep h (snd (frame_switch D cfg c frame h))"
  "keep h (sendAck c m (snd (frame_switch D cfg c frame h)))"
  by (blast intro: keep_trans frame_switch_keeps keep_ack)+

end

section \<open>The invariant of the hub\<close>

definition conn_wf :: "DeviceConn \<Rightarrow> bool" where
  "conn_wf x \<longleftrightarrow> tracker_wf (dc_acks x) \<and> gomap_wf (dc_processed x)
     \<and> length (dc_outbound x) \<le> outbound_cap"

text \<open>
  Every connection is well formed, and the map of devices leads from a device to a connection of
  that device which was handed out before and belongs to the hub.
\<close>

definition hub_inv :: "'a Hub_scheme \<Rightarrow> bool" where
  "hub_inv h \<longleftrightarrow> gomap_wf (hb_devices h) \<and> gomap_wf (hb_registry h)
     \<and> (\<forall>c. conn_wf (hb_conn h c))
     \<and> (\<forall>d c. map_of (hb_devices h) d = Some c \<longrightarrow>
          c < hb_next h \<and> dc_deviceID (hb_conn h c) = d \<and> dc_hub (hb_conn h c))"

definition inv_kept :: "'a Hub_scheme \<Rightarrow> 'a Hub_scheme \<Rightarrow> bool" where
  "inv_kept h h' \<longleftrightarrow> (hub_inv h \<longrightarrow> hub_inv h')"

definition remembers :: "'a Hub_scheme \<Rightarrow> 'a Hub_scheme \<Rightarrow> bool" where
  "remembers h h' \<longleftrightarrow> (\<forall>c m. map_of (dc_processed (hb_conn h c)) m \<noteq> None \<longrightarrow>
     map_of (dc_processed (hb_conn h' c)) m \<noteq> None)"

lemma hub_inv_set:
  assumes "hub_inv h" "conn_wf x" and "dc_deviceID x = dc_deviceID (hb_conn h c)"
    and "dc_hub (hb_conn h c) \<Longrightarrow> dc_hub x"
    and "g = hb_conn h"
  shows "hub_inv (h\<lparr>hb_conn := g(c := x)\<rparr>)"
  using assms by (auto simp: hub_inv_def)

lemma hub_inv_wf: "hub_inv h \<Longrightarrow> conn_wf (hb_conn h c)"
  by (simp add: hub_inv_def)

lemma hub_inv_other [simp]:
  "hub_inv (h\<lparr>hb_mu := b\<rparr>) = hub_inv h"
  "hub_inv (h\<lparr>hb_pending := q\<rparr>) = hub_inv h"
  "hub_inv (h\<lparr>wall_clock := t\<rparr>) = hub_inv h"
  "hub_inv (snd (NewUUID h)) = hub_inv h"
  by (simp_all add: hub_inv_def NewUUID_def)

text \<open>Writing to the socket touches only the wire of the connection and the UUID source.\<close>

lemma ws_write_frame [simp]:
  "dc_deviceID (hb_conn (snd (ws_write c f h)) c') = dc_deviceID (hb_conn h c')"
  "dc_ws (hb_conn (snd (ws_write c f h)) c') = dc_ws (hb_conn h c')"
  "dc_hub (hb_conn (snd (ws_write c f h)) c') = dc_hub (hb_conn h c')"
  "dc_outbound (hb_conn (snd (ws_write c f h)) c') = dc_outbound (hb_conn h c')"
  "dc_acks (hb_conn (snd (ws_write c f h)) c') = dc_acks (hb_conn h c')"
  "dc_closed (hb_conn (snd (ws_write c f h)) c') = dc_closed (hb_conn h c')"
  "dc_closeCode (hb_conn (snd (ws_write c f h)) c') = dc_closeCode (hb_conn h c')"
  "dc_processed (hb_conn (snd (ws_write c f h)) c') = dc_processed (hb_conn h c')"
  "dc_helloReceived (hb_conn (snd (ws_write c f h)) c') = dc_helloReceived (hb_conn h c')"
  "hb_devices (snd (ws_write c f h)) = hb_devices h"
  "hb_registry (snd (ws_write c f h)) = hb_registry h"
  "hb_mu (snd (ws_write c f h)) = hb_mu h"
  "hb_nodeID (snd (ws_write c f h)) = hb_nodeID h"
  "hb_next (snd (ws_write c f h)) = hb_next h"
  "hb_pending (snd (ws_write c f h)) = hb_pending h"
  "wall_clock (snd (ws_write c f h)) = wall_clock h"
  by (auto simp: ws_write_def Let_def split: list.splits bool.splits)

lemma NewUUID_hub [simp]:
  "hb_conn (snd (NewUUID h)) = hb_conn h"
  "hb_devices (snd (NewUUID h)) = hb_devices h"
  "hb_registry (snd (NewUUID h)) = hb_registry h"
  "hb_mu (snd (NewUUID h)) = hb_mu h"
  "hb_nodeID (snd (NewUUID h)) = hb_nodeID h"
  "hb_next (snd (NewUUID h)) = hb_next h"
  "hb_pending (snd (NewUUID h)) = hb_pending h"
  by (simp_all add: NewUUID_def)

lemma sendAck_frame [simp]:
  "dc_deviceID (hb_conn (sendAck c m h) c') = dc_deviceID (hb_conn h c')"
  "dc_ws (hb_conn (sendAck c m h) c') = dc_ws (hb_conn h c')"
  "dc_hub (hb_conn (sendAck c m h) c') = dc_hub (hb_conn h c')"
  "dc_outbound (hb_conn (sendAck c m h) c') = dc_outbound (hb_conn h c')"
  "dc_acks (hb_conn (sendAck c m h) c') = dc_acks (hb_conn h c')"
  "dc_closed (hb_conn (sendAck c m h) c') = dc_closed (hb_conn h c')"
  "dc_closeCode (hb_conn (sendAck c m h) c') = dc_closeCode (hb_conn h c')"
  "dc_processed (hb_conn (sendAck c m h) c') = dc_processed (hb_conn h c')"
  "dc_helloReceived (hb_conn (sendAck c m h) c') = dc_helloReceived (hb_conn h c')"
  "hb_devices (sendAck c m h) = hb_devices h"
  "hb_registry (sendAck c m h) = hb_registry h"
  "hb_mu (sendAck c m h) = hb_mu h"
  "hb_nodeID (sendAck c m h) = hb_nodeID h"
  "hb_next (sendAck c m h) = hb_next h"
  "hb_pending (sendAck c m h) = hb_pending h"
  "wall_clock (sendAck c m h) = wall_clock h"
  by (simp_all add: sendAck_def split_def Let_def)

lemma sendPong_frame [simp]:
  "dc_deviceID (hb_conn (snd (sendPong c h)) c') = dc_deviceID (hb_conn h c')"
  "dc_ws (hb_conn (snd (sendPong c h)) c') = dc_ws (hb_conn h c')"
  "dc_hub (hb_conn (snd (sendPong c h)) c') = dc_hub (hb_conn h c')"
  "dc_outbound (hb_conn (snd (sendPong c h)) c') = dc_outbound (hb_conn h c')"
  "dc_acks (hb_conn (snd (sendPong c h)) c') = dc_acks (hb_conn h c')"
  "dc_closed (hb_conn (snd (sendPong c h)) c') = dc_closed (hb_conn h c')"
  "dc_closeCode (hb_conn (snd (sendPong c h)) c') = dc_closeCode (hb_conn h c')"
  "dc_processed (hb_conn (snd (sendPong c h)) c') = dc_processed (hb_conn h c')"
  "dc_helloReceived (hb_conn (snd (sendPong c h)) c') = dc_helloReceived (hb_conn h c')"
  "hb_devices (snd (sendPong c h)) = hb_devices h"
  "hb_registry (snd (sendPong c h)) = hb_registry h"
  "hb_mu (snd (sendPong c h)) = hb_mu h"
  "hb_nodeID (snd (sendPong c h)) = hb_nodeID h"
  "hb_next (snd (sendPong c h)) = hb_next h"
  "hb_pending (snd (sendPong c h)) = hb_pending h"
  "wall_clock (snd (sendPong c h)) = wall_clock h"
  by (simp_all add: sendPong_def split_def Let_def)

lemma hub_inv_wire [simp]:
  "hub_inv (snd (ws_write c f h)) = hub_inv h"
  "hub_inv (sendAck c m h) = hub_inv h"
  "hub_inv (snd (sendPong c h)) = hub_inv h"
  by (simp_all add: hub_inv_def conn_wf_def)

lemma hub_inv_ops:
  "hub_inv h \<Longrightarrow> hub_inv (conn_touch c h)"
  "hub_inv h \<Longrightarrow> hub_inv (RemovePending m h)"
  "hub_inv h \<Longrightarrow> hub_inv (TrackPending a h)"
  "hub_inv h \<Longrightarrow> hub_inv (upd_conn c (\<lambda>x. x\<lparr>dc_acks := AT_Remove (dc_acks x) m\<rparr>) h)"
  by (auto simp: hub_inv_def conn_wf_def conn_touch_def RemovePending_def TrackPending_def
      tracker_wf_Remove)

lemma remembers_ops:
  "remembers h h"
  "remembers h (sendAck c m h)"
  "remembers h (snd (sendPong c h))"
  "remembers h (conn_touch c h)"
  "remembers h (RemovePending m h)"
  "remembers h (upd_conn c (\<lambda>x. x\<lparr>dc_acks := AT_Remove (dc_acks x) m\<rparr>) h)"
  by (simp_all add: remembers_def conn_touch_def RemovePending_def)

lemma remembers_trans: "remembers h h' \<Longrightarrow> remembers h' h'' \<Longrightarrow> remembers h h''"
  by (simp add: remembers_def)

locale hub_client =
  fixes cfg :: "'a Hub_scheme HubConfig"
  assumes client_inv: "cfg_keeps inv_kept cfg"
    and client_remembers: "cfg_keeps remembers cfg"

sublocale hub_client \<subseteq> inv: callbacks cfg inv_kept
  by unfold_locales (auto simp: inv_kept_def client_inv hub_inv_ops)

section \<open>Every operation keeps the invariant\<close>

lemma send_or_drop_wf: "length q \<le> outbound_cap \<Longrightarrow> length (send_or_drop q f) \<le> outbound_cap"
  by (rule send_or_drop_length)

lemma hub_inv_NewDeviceConn: "hub_inv h \<Longrightarrow> hub_inv (snd (NewDeviceConn d ws h))"
  by (auto simp: hub_inv_def NewDeviceConn_def conn_wf_def NewAckTracker_def tracker_wf_def
      less_Suc_eq)

lemma hub_inv_SetTokenHash: "hub_inv h \<Longrightarrow> hub_inv (SetTokenHash c t h)"
  by (simp add: hub_inv_def SetTokenHash_def conn_wf_def)

lemma hub_inv_Touch: "hub_inv h \<Longrightarrow> hub_inv (hub_Touch d h)"
  by (auto simp: hub_inv_def hub_Touch_def IM_Touch_def split: option.splits)

lemma conn_wf_simps:
  "conn_wf x \<Longrightarrow> length q \<le> outbound_cap \<Longrightarrow> conn_wf (x\<lparr>dc_outbound := q\<rparr>)"
  "conn_wf x \<Longrightarrow> conn_wf (x\<lparr>dc_acks := AT_Track t (dc_acks x) f\<rparr>)"
  "conn_wf (x\<lparr>dc_helloReceived := b\<rparr>) = conn_wf x"
  "conn_wf (x\<lparr>dc_pingFailures := n\<rparr>) = conn_wf x"
  "conn_wf x \<Longrightarrow> conn_wf (x\<lparr>dc_processed := AList.update m i (dc_processed x)\<rparr>)"
  by (simp_all add: conn_wf_def tracker_wf_Track)

lemma conn_wf_outbound: "conn_wf x \<Longrightarrow> length (dc_outbound x) \<le> outbound_cap"
  by (simp add: conn_wf_def)

lemma hub_inv_conn_Send: "hub_inv h \<Longrightarrow> hub_inv (snd (conn_Send c f h))"
  by (auto simp: conn_Send_def try_send_length conn_wf_simps hub_inv_wf intro!: hub_inv_set
      split: option.splits)

lemma hub_inv_SendFrame: "hub_inv h \<Longrightarrow> hub_inv (snd (SendFrame d f h))"
  by (auto simp: SendFrame_def Let_def conn_wf_simps hub_inv_wf try_send_length
      intro!: hub_inv_set split: option.splits)

lemma hub_inv_migrate: "hub_inv h \<Longrightarrow> hub_inv (migrate_frame c h tf)"
  by (auto simp: migrate_frame_def conn_wf_simps hub_inv_wf conn_wf_outbound send_or_drop_length
      intro!: hub_inv_set)

lemma hub_inv_migrates: "hub_inv h \<Longrightarrow> hub_inv (foldl (migrate_frame c) h tfs)"
  by (induction tfs arbitrary: h) (simp_all add: hub_inv_migrate)

lemma tick_outbound_length:
  "length q \<le> outbound_cap \<Longrightarrow> length (snd (retransmit_tick now (t, q))) \<le> outbound_cap"
  by (simp add: retransmit_tick_def Let_def split_def foldl_send_length)

lemma hub_inv_retransmit:
  assumes "hub_inv h"
  shows "hub_inv (retransmitter_tick c h)"
proof -
  obtain a q where t: "retransmit_tick (wall_clock h) (dc_acks (hb_conn h c), dc_outbound (hb_conn h c))
    = (a, q)" by fastforce
  have wf: "conn_wf (hb_conn h c)" using assms by (rule hub_inv_wf)
  have "tracker_wf a" using tick_wf [of "dc_acks (hb_conn h c)"] wf t
    by (metis conn_wf_def fst_conv)
  moreover have "length q \<le> outbound_cap"
    using tick_outbound_length [of "dc_outbound (hb_conn h c)"] wf t
    by (metis conn_wf_def snd_conv)
  ultimately show ?thesis using assms wf
    by (auto simp: retransmitter_tick_def t conn_wf_def intro!: hub_inv_set)
qed

lemma hub_inv_prune: "hub_inv h \<Longrightarrow> hub_inv (dedup_prune c h)"
  by (auto simp: dedup_prune_def hub_inv_def conn_wf_def)

lemma hub_inv_hello [simp]:
  "hub_inv h \<Longrightarrow> hub_inv (upd_conn c (\<lambda>x. x\<lparr>dc_helloReceived := b\<rparr>) h)"
  "hub_inv h \<Longrightarrow> hub_inv (upd_conn c (\<lambda>x. x\<lparr>dc_pingFailures := n\<rparr>) h)"
  "hub_inv h \<Longrightarrow> hub_inv (upd_conn c (\<lambda>x. x\<lparr>dc_processed := AList.update m i (dc_processed x)\<rparr>) h)"
  by (auto simp: conn_wf_simps hub_inv_wf intro!: hub_inv_set)

lemma hub_inv_drop:
  "hub_inv h \<Longrightarrow>
     hub_inv (upd_conn c (\<lambda>x. x\<lparr>dc_outbound := send_or_drop (dc_outbound x) f\<rparr>) h)"
  by (auto simp: conn_wf_simps hub_inv_wf conn_wf_outbound send_or_drop_length intro!: hub_inv_set)

context hub_client
begin

lemma hub_inv_handler:
  "hub_inv h \<Longrightarrow> hub_inv (snd (call_handler (OnHello cfg) d p h))"
  "hub_inv h \<Longrightarrow> hub_inv (snd (call_handler (OnDisconnect cfg) d u h))"
  using inv.handler_keeps by (simp_all add: inv_kept_def)

lemma hub_inv_handleFrame: "hub_inv h \<Longrightarrow> hub_inv (snd (handleFrame D cfg c f h))"
  using inv.frame_switch_keeps [where D = D and c = c and frame = f]
  by (auto simp: handleFrame_def Let_def split_def inv_kept_def)

lemma hub_inv_handleHello:
  assumes "hub_inv h"
  shows "hub_inv (handleHello D cfg c f h)"
proof (cases "unmarshal (d_Hello D) (fr_payload f)")
  case None
  then show ?thesis using assms by (simp add: handleHello_def)
next
  case (Some p)
  let ?h1 = "upd_conn c (\<lambda>x. x\<lparr>dc_helloReceived := True\<rparr>) h"
  let ?h2 = "snd (with_hub c (call_handler (OnHello cfg)) (dc_deviceID (hb_conn ?h1 c)) p ?h1)"
  have "hub_inv ?h1" using assms by simp
  then have "hub_inv ?h2" unfolding with_hub_def using hub_inv_handler(1) by simp
  then have "hub_inv (snd (NewUUID (snd (NewUUID ?h2))))" by simp
  then show ?thesis
    unfolding handleHello_def Some option.case Let_def split_def by (rule hub_inv_drop)
qed

lemma hub_inv_Unregister: "hub_inv h \<Longrightarrow> hub_Unregister cfg d c h = Some h' \<Longrightarrow> hub_inv h'"
  by (auto simp: hub_Unregister_def Let_def IM_Unregister_def gomap_simps hub_inv_def [of "h\<lparr>hb_registry := r\<rparr>" for r]
      split: if_splits intro!: hub_inv_handler) (auto simp: hub_inv_def gomap_simps IM_Unregister_def)

lemma hub_inv_Close:
  assumes "hub_inv h" "conn_Close cfg c code h = Some h'"
  shows "hub_inv h'"
proof -
  have "hub_inv (upd_conn c (\<lambda>x. x\<lparr>dc_closed := True,
      dc_closeCode := (if dc_ws x then Some code else dc_closeCode x)\<rparr>) h)"
    using assms(1) by (auto simp: conn_wf_def hub_inv_def)
  then show ?thesis using assms hub_inv_Unregister
    by (auto simp only: conn_Close_def Let_def option.inject split: if_splits)
qed

lemma hub_inv_Register:
  assumes inv: "hub_inv h" and c: "c < hb_next h" and reg: "hub_Register cfg c h = Some h'"
  shows "hub_inv h'"
proof -
  let ?h2 = "(upd_conn c (\<lambda>x. x\<lparr>dc_hub := True\<rparr>) h)
      \<lparr>hb_devices := AList.update (dc_deviceID (hb_conn h c)) c (hb_devices h)\<rparr>"
  have h2: "hub_inv ?h2"
    using inv c by (auto simp: hub_inv_def conn_wf_def gomap_simps)
  have registered: "hub_inv h3 \<Longrightarrow> hub_inv (h3\<lparr>hb_registry := IM_Register (hb_registry h3) d n\<rparr>)" for h3 d n
    by (simp add: hub_inv_def IM_Register_def)
  show ?thesis
    using reg registered h2 hub_inv_Close [OF hub_inv_migrates [OF h2]]
    by (auto simp: hub_Register_def Let_def split: if_splits option.splits)
qed

lemma hub_inv_close_stale: "hub_inv h \<Longrightarrow> close_stale cfg ds h = Some h' \<Longrightarrow> hub_inv h'"
  by (induction ds arbitrary: h) (auto split: option.splits dest: hub_inv_Close)

lemma hub_inv_checkLiveness: "hub_inv h \<Longrightarrow> checkLiveness cfg h = Some h' \<Longrightarrow> hub_inv h'"
  by (simp add: checkLiveness_def Let_def hub_inv_close_stale)

lemma hub_inv_close_conns: "hub_inv h \<Longrightarrow> close_conns cfg cs code h = Some h' \<Longrightarrow> hub_inv h'"
  by (induction cs arbitrary: h) (auto split: option.splits dest: hub_inv_Close)

lemma hub_inv_CloseDevice: "hub_inv h \<Longrightarrow> CloseDevice cfg d code h = Some h' \<Longrightarrow> hub_inv h'"
  using hub_inv_Close [of "h\<lparr>hb_mu := True\<rparr>"]
  by (auto simp: CloseDevice_def Let_def split: if_splits option.splits)

lemma hub_inv_CloseAll: "hub_inv h \<Longrightarrow> CloseAll cfg h = Some h' \<Longrightarrow> hub_inv h'"
proof -
  assume h: "hub_inv h" and c: "CloseAll cfg h = Some h'"
  have "hub_inv g \<Longrightarrow> hub_inv (g\<lparr>hb_devices := [], hb_registry := IM_Close (hb_registry g),
      hb_mu := False\<rparr>)" for g
    by (simp add: hub_inv_def IM_Close_def)
  moreover obtain g where g: "close_conns cfg (map snd (hb_devices h)) 1001 (h\<lparr>hb_mu := True\<rparr>) = Some g"
      and h': "h' = g\<lparr>hb_devices := [], hb_registry := IM_Close (hb_registry g), hb_mu := False\<rparr>"
    using c by (auto simp: CloseAll_def Let_def split: if_splits option.splits)
  moreover have "hub_inv g" using hub_inv_close_conns [OF _ g] h by simp
  ultimately show "hub_inv h'" by blast
qed

lemma hub_inv_stop: "hub_inv h \<Longrightarrow> stop_pump cfg c code h = Some (b, h') \<Longrightarrow> hub_inv h'"
  by (auto simp: stop_pump_def split: option.splits) (blast intro: hub_inv_Close)

lemma hub_inv_read:
  assumes "hub_inv h" "read_step D cfg c ev h = Some (b, h')"
  shows "hub_inv h'"
proof (cases ev)
  case ReadError
  then show ?thesis using assms by (auto simp: read_step_def dest: hub_inv_Close)
next
  case (Message msg)
  have t: "hub_inv (conn_touch c h)" using assms(1) by (rule hub_inv_ops)
  then have f1: "hub_inv (snd (handleFrame D cfg c f (conn_touch c h)))" for f
    by (rule hub_inv_handleFrame)
  have f2: "hub_inv (snd (handleFrame D cfg c f (handleHello D cfg c f
      (upd_conn c (\<lambda>x. x\<lparr>dc_helloReceived := True\<rparr>) (conn_touch c h)))))" for f
    using t by (intro hub_inv_handleFrame hub_inv_handleHello hub_inv_hello)
  show ?thesis using assms(2) f1 f2 hub_inv_stop [OF t] Message
    by (auto simp only: read_step_def Let_def read_event.case option.inject Pair_inject
        split: if_split_asm option.splits)
qed

lemma hub_inv_write:
  assumes "hub_inv h" "write_step cfg c ev h = Some (b, h')"
  shows "hub_inv h'"
proof (cases ev)
  case (PingTick fails)
  have p: "hub_inv (upd_conn c (\<lambda>x. x\<lparr>dc_pingFailures := n\<rparr>) h)" for n
    using assms(1) by (rule hub_inv_hello)
  show ?thesis using assms(2) p hub_inv_Close [OF p] PingTick
    by (auto simp: write_step_def Let_def split: if_splits)
next
  case TakeFrame
  show ?thesis
  proof (cases "dc_outbound (hb_conn h c)")
    case Nil
    then show ?thesis using assms TakeFrame by (simp add: write_step_def)
  next
    case (Cons f q)
    let ?w = "ws_write c f (upd_conn c (\<lambda>x. x\<lparr>dc_outbound := q\<rparr>) h)"
    have q: "hub_inv (upd_conn c (\<lambda>x. x\<lparr>dc_outbound := q\<rparr>) h)"
      using assms(1) conn_wf_outbound [OF hub_inv_wf [OF assms(1)], of c] Cons
      by (auto simp: conn_wf_simps hub_inv_wf intro!: hub_inv_set)
    then have w: "hub_inv (snd ?w)" by simp
    have p: "hub_inv (upd_conn c (\<lambda>x. x\<lparr>dc_pingFailures := 0\<rparr>) (snd ?w))"
      using w by (rule hub_inv_hello)
    show ?thesis using assms(2) q p hub_inv_Close [OF w] TakeFrame Cons
      by (auto simp only: write_step_def write_event.case list.case Let_def split_def option.inject
          fst_conv snd_conv option.map Pair_inject map_option_eq_Some split: if_splits)
  qed
qed

lemma hub_inv_hello_timeout: "hub_inv h \<Longrightarrow> hello_timeout cfg c h = Some h' \<Longrightarrow> hub_inv h'"
  by (auto simp: hello_timeout_def dest: hub_inv_Close split: if_splits)

lemma hub_inv_token: "hub_inv h \<Longrightarrow> token_watch cfg v c h = Some h' \<Longrightarrow> hub_inv h'"
  by (auto simp: token_watch_def dest: hub_inv_Close split: if_splits option.splits)

end

section \<open>The hub as a step system\<close>

text \<open>
  What can happen to a hub: frames arrive, are sent and written, timers fire, connections come
  and go, time passes. \<open>traffic\<close> is every step but a new connection and the dedup pruner.
\<close>

inductive traffic :: "decoders \<Rightarrow> 'a Hub_scheme HubConfig \<Rightarrow> 'a Hub_scheme \<Rightarrow> 'a Hub_scheme \<Rightarrow> bool"
  for D cfg where
  register: "c < hb_next h \<Longrightarrow> hub_Register cfg c h = Some h' \<Longrightarrow> traffic D cfg h h'"
| close: "conn_Close cfg c code h = Some h' \<Longrightarrow> traffic D cfg h h'"
| unregister: "hub_Unregister cfg d c h = Some h' \<Longrightarrow> traffic D cfg h h'"
| send: "traffic D cfg h (snd (SendFrame d f h))"
| enqueue: "traffic D cfg h (snd (conn_Send c f h))"
| read: "read_step D cfg c ev h = Some (b, h') \<Longrightarrow> traffic D cfg h h'"
| hello: "hello_timeout cfg c h = Some h' \<Longrightarrow> traffic D cfg h h'"
| writes: "write_step cfg c we h = Some (b, h') \<Longrightarrow> traffic D cfg h h'"
| retransmit: "traffic D cfg h (retransmitter_tick c h)"
| token: "token_watch cfg v c h = Some h' \<Longrightarrow> traffic D cfg h h'"
| set_token: "traffic D cfg h (SetTokenHash c t h)"
| touch: "traffic D cfg h (hub_Touch d h)"
| track: "traffic D cfg h (TrackPending a h)"
| untrack: "traffic D cfg h (RemovePending m h)"
| liveness: "checkLiveness cfg h = Some h' \<Longrightarrow> traffic D cfg h h'"
| close_device: "CloseDevice cfg d code h = Some h' \<Longrightarrow> traffic D cfg h h'"
| close_all: "CloseAll cfg h = Some h' \<Longrightarrow> traffic D cfg h h'"
| clock: "traffic D cfg h (h\<lparr>wall_clock := t\<rparr>)"

inductive hub_run :: "decoders \<Rightarrow> 'a Hub_scheme HubConfig \<Rightarrow> 'a Hub_scheme \<Rightarrow> 'a Hub_scheme \<Rightarrow> bool"
  for D cfg where
  start: "hub_run D cfg h h"
| traffic: "hub_run D cfg h h1 \<Longrightarrow> traffic D cfg h1 h2 \<Longrightarrow> hub_run D cfg h h2"
| connect: "hub_run D cfg h h1 \<Longrightarrow> hub_run D cfg h (snd (NewDeviceConn d ws h1))"
| prune: "hub_run D cfg h h1 \<Longrightarrow> hub_run D cfg h (dedup_prune c h1)"

context hub_client
begin

lemma hub_inv_traffic: "traffic D cfg h h' \<Longrightarrow> hub_inv h \<Longrightarrow> hub_inv h'"
proof (induction rule: traffic.induct)
  case (clock h t)
  then show ?case by simp
qed (blast intro: hub_inv_Register hub_inv_Close hub_inv_Unregister hub_inv_SendFrame
      hub_inv_conn_Send hub_inv_read hub_inv_hello_timeout hub_inv_write hub_inv_retransmit
      hub_inv_token hub_inv_SetTokenHash hub_inv_Touch hub_inv_ops hub_inv_checkLiveness
      hub_inv_CloseDevice hub_inv_CloseAll)+

lemma hub_inv_run: "hub_run D cfg h h' \<Longrightarrow> hub_inv h \<Longrightarrow> hub_inv h'"
  by (induction rule: hub_run.induct)
    (auto intro: hub_inv_traffic hub_inv_NewDeviceConn hub_inv_prune)

end

section \<open>No message id is forgotten but by the pruner\<close>

lemma remembers_refl [simp]: "remembers h h"
  by (simp add: remembers_def)

lemma remembers_eq: "(\<And>c. dc_processed (hb_conn h' c) = dc_processed (hb_conn h c)) \<Longrightarrow> remembers h h'"
  by (simp add: remembers_def)

lemma remembers_same_conns: "hb_conn h' = hb_conn h \<Longrightarrow> remembers h h'"
  by (simp add: remembers_def)

lemma processed_migrates:
  "dc_processed (hb_conn (foldl (migrate_frame c) h tfs) i) = dc_processed (hb_conn h i)"
  by (induction tfs arbitrary: h) (simp_all add: migrate_frame_def)

text \<open>
  A relation the callbacks respect and which holds between states that differ in the hub's fields only, without
  forgetting a message id, holds along all traffic. What the rest of the state promises is carried through the
  tunnel by this, and so is the memory of the message ids itself.
\<close>

lemma quiet_ops:
  "Hub.more (sendAck c m h) = Hub.more h"
  "Hub.more (snd (sendPong c h)) = Hub.more h"
  "Hub.more (conn_touch c h) = Hub.more h"
  "Hub.more (RemovePending m h) = Hub.more h"
  "Hub.more (snd (ws_write c f h)) = Hub.more h"
  "Hub.more (snd (NewUUID h)) = Hub.more h"
  "Hub.more (foldl (migrate_frame c) h tfs) = Hub.more h"
proof -
  show w: "Hub.more (snd (ws_write c f h)) = Hub.more h" for f c and h :: "'a Hub_scheme"
    by (auto simp: ws_write_def Let_def split: list.splits bool.splits)
  show u: "Hub.more (snd (NewUUID h)) = Hub.more h" for h :: "'a Hub_scheme" by (simp add: NewUUID_def)
  show "Hub.more (foldl (migrate_frame c) h tfs) = Hub.more h"
    by (induction tfs arbitrary: h) (simp_all add: migrate_frame_def)
  show "Hub.more (sendAck c m h) = Hub.more h" by (simp add: sendAck_def split_def Let_def w u)
  show "Hub.more (snd (sendPong c h)) = Hub.more h" by (simp add: sendPong_def split_def Let_def w u)
qed (simp_all add: conn_touch_def RemovePending_def)

locale quiet_client =
  fixes cfg :: "'a Hub_scheme HubConfig"
    and keep :: "'a Hub_scheme \<Rightarrow> 'a Hub_scheme \<Rightarrow> bool"
  assumes keep_quiet: "remembers h h' \<Longrightarrow> Hub.more h' = Hub.more h \<Longrightarrow> keep h h'"
    and keep_trans: "keep h h' \<Longrightarrow> keep h' h'' \<Longrightarrow> keep h h''"
    and keep_callbacks: "cfg_keeps keep cfg"

sublocale quiet_client \<subseteq> q: callbacks cfg keep
  by unfold_locales (auto simp: quiet_ops remembers_ops keep_callbacks intro: keep_quiet keep_trans)

context quiet_client
begin

lemma keep_refl [simp]: "keep h h"
  by (rule keep_quiet) simp_all

lemma keep_eq: "(\<And>c. dc_processed (hb_conn h' c) = dc_processed (hb_conn h c)) \<Longrightarrow> Hub.more h' = Hub.more h \<Longrightarrow> keep h h'"
  by (intro keep_quiet remembers_eq)

lemma keep_same_conns: "hb_conn h' = hb_conn h \<Longrightarrow> Hub.more h' = Hub.more h \<Longrightarrow> keep h h'"
  by (intro keep_quiet remembers_same_conns)

lemma keep_ops:
  "keep h (sendAck c m h)" "keep h (conn_touch c h)" "keep h (RemovePending m h)"
  by (rule q.keep_ack q.keep_touch q.keep_remove)+

lemma keep_handler:
  "keep h (snd (call_handler (OnHello cfg) d p h))"
  "keep h (snd (call_handler (OnDisconnect cfg) d u h))"
  by (rule q.handler_keeps)+

lemma keep_handleFrame: "keep h (snd (handleFrame D cfg c f h))"
proof -
  have p: "keep h (upd_conn c (\<lambda>x. x\<lparr>dc_processed := AList.update m i (dc_processed x)\<rparr>) h)"
    for m i
    by (rule keep_quiet) (simp_all add: remembers_def gomap_simps)
  show ?thesis
    using q.switch_ack_keeps(1) [of h D c f]
      keep_trans [OF p q.switch_ack_keeps(1)] keep_trans [OF p q.switch_ack_keeps(2)]
    by (auto simp: handleFrame_def Let_def split_def keep_ops)
qed

lemma keep_handleHello: "keep h (handleHello D cfg c f h)"
proof (cases "unmarshal (d_Hello D) (fr_payload f)")
  case None
  then show ?thesis by (simp add: handleHello_def)
next
  case (Some p)
  let ?h1 = "upd_conn c (\<lambda>x. x\<lparr>dc_helloReceived := True\<rparr>) h"
  let ?h2 = "snd (with_hub c (call_handler (OnHello cfg)) (dc_deviceID (hb_conn ?h1 c)) p ?h1)"
  have "keep h ?h1" by (rule keep_eq; simp add: quiet_ops)
  moreover have "keep ?h1 ?h2" unfolding with_hub_def using keep_handler(1) by simp
  moreover have "keep ?h2 (upd_conn c (\<lambda>x. x\<lparr>dc_outbound := send_or_drop (dc_outbound x) a\<rparr>)
      (snd (NewUUID (snd (NewUUID ?h2)))))" for a
    by (rule keep_eq; simp add: quiet_ops)
  ultimately show ?thesis
    unfolding handleHello_def Some option.case Let_def split_def
    by (blast intro: keep_trans)
qed

lemma keep_Unregister: "hub_Unregister cfg d c h = Some h' \<Longrightarrow> keep h h'"
  by (auto simp: hub_Unregister_def Let_def split: if_splits
      intro!: keep_trans [OF keep_same_conns keep_handler(2)])

lemma keep_Close:
  assumes "conn_Close cfg c code h = Some h'"
  shows "keep h h'"
proof -
  have "keep h (upd_conn c (\<lambda>x. x\<lparr>dc_closed := True,
      dc_closeCode := (if dc_ws x then Some code else dc_closeCode x)\<rparr>) h)"
    by (rule keep_eq; simp add: quiet_ops)
  then show ?thesis using assms keep_trans [OF _ keep_Unregister]
    by (auto simp only: conn_Close_def Let_def option.inject split: if_splits intro: keep_refl)
qed

lemma keep_Register: "hub_Register cfg c h = Some h' \<Longrightarrow> keep h h'"
proof -
  assume reg: "hub_Register cfg c h = Some h'"
  let ?h2 = "(upd_conn c (\<lambda>x. x\<lparr>dc_hub := True\<rparr>) h)
      \<lparr>hb_devices := AList.update (dc_deviceID (hb_conn h c)) c (hb_devices h)\<rparr>"
  have m: "keep h (foldl (migrate_frame c) ?h2 tfs)" for tfs
    by (rule keep_eq; simp add: quiet_ops processed_migrates)
  have r: "keep h h3 \<Longrightarrow> keep h (h3\<lparr>hb_registry := x\<rparr>)" for h3 x
    by (erule keep_trans) (rule keep_same_conns; simp)
  have z: "keep h ?h2" by (rule keep_eq; simp add: quiet_ops)
  show "keep h h'"
    using reg z r keep_trans [OF m keep_Close]
    by (auto simp: hub_Register_def Let_def split: if_splits option.splits)
qed

lemma keep_close_stale: "close_stale cfg ds h = Some h' \<Longrightarrow> keep h h'"
  by (induction ds arbitrary: h)
    (auto split: option.splits dest: keep_Close intro: keep_trans)

lemma keep_close_conns: "close_conns cfg cs code h = Some h' \<Longrightarrow> keep h h'"
  by (induction cs arbitrary: h)
    (auto split: option.splits dest: keep_Close intro: keep_trans)

lemma keep_mu:
  "keep (h\<lparr>hb_mu := b\<rparr>) h' \<Longrightarrow> keep h h'" "keep h h' \<Longrightarrow> keep h (h'\<lparr>hb_mu := b\<rparr>)"
  "keep h h' \<Longrightarrow> keep h (h'\<lparr>hb_devices := ds, hb_registry := r, hb_mu := b\<rparr>)"
  using keep_trans keep_same_conns [of "h\<lparr>hb_mu := b\<rparr>" h] keep_same_conns [of _ h'] by auto

lemma keep_CloseDevice: "CloseDevice cfg d code h = Some h' \<Longrightarrow> keep h h'"
  using keep_Close [of _ code "h\<lparr>hb_mu := True\<rparr>"]
  by (auto simp: CloseDevice_def Let_def intro: keep_mu keep_refl split: if_splits option.splits)

lemma keep_CloseAll: "CloseAll cfg h = Some h' \<Longrightarrow> keep h h'"
  using keep_close_conns [of _ 1001 "h\<lparr>hb_mu := True\<rparr>"]
  by (auto simp: CloseAll_def Let_def intro: keep_mu keep_refl split: if_splits option.splits)

lemma keep_stop: "stop_pump cfg c code h = Some (b, h') \<Longrightarrow> keep h h'"
  by (auto simp: stop_pump_def split: option.splits)
    (blast intro: keep_Close keep_trans)

lemma keep_read:
  assumes "read_step D cfg c ev h = Some (b, h')"
  shows "keep h h'"
proof (cases ev)
  case ReadError
  then show ?thesis using assms by (auto simp: read_step_def dest: keep_Close)
next
  case (Message msg)
  have t: "keep h (conn_touch c h)" by (rule keep_ops)
  have f1: "keep h (snd (handleFrame D cfg c f (conn_touch c h)))" for f
    using t keep_handleFrame by (rule keep_trans)
  have "keep h (upd_conn c (\<lambda>x. x\<lparr>dc_helloReceived := True\<rparr>) (conn_touch c h))"
    by (rule keep_eq; simp add: conn_touch_def)
  then have f2: "keep h (snd (handleFrame D cfg c f (handleHello D cfg c f
      (upd_conn c (\<lambda>x. x\<lparr>dc_helloReceived := True\<rparr>) (conn_touch c h)))))" for f
    by (blast intro: keep_trans keep_handleHello keep_handleFrame)
  show ?thesis using assms f1 f2 keep_trans [OF t keep_stop] Message
    by (auto simp only: read_step_def Let_def read_event.case option.inject Pair_inject
        split: if_split_asm option.splits)
qed

lemma keep_write:
  assumes "write_step cfg c ev h = Some (b, h')"
  shows "keep h h'"
proof (cases ev)
  case (PingTick fails)
  have p: "keep h (upd_conn c (\<lambda>x. x\<lparr>dc_pingFailures := n\<rparr>) h)" for n
    by (rule keep_eq; simp add: quiet_ops)
  show ?thesis using assms p keep_trans [OF p keep_Close] PingTick
    by (auto simp: write_step_def Let_def split: if_splits)
next
  case TakeFrame
  show ?thesis
  proof (cases "dc_outbound (hb_conn h c)")
    case Nil
    then show ?thesis using assms TakeFrame by (simp add: write_step_def)
  next
    case (Cons f q)
    let ?w = "ws_write c f (upd_conn c (\<lambda>x. x\<lparr>dc_outbound := q\<rparr>) h)"
    have q: "keep h (upd_conn c (\<lambda>x. x\<lparr>dc_outbound := q\<rparr>) h)"
      and w: "keep h (snd ?w)"
      and p: "keep h (upd_conn c (\<lambda>x. x\<lparr>dc_pingFailures := 0\<rparr>) (snd ?w))"
      by (rule keep_eq; simp add: quiet_ops)+
    show ?thesis using assms q p keep_trans [OF w keep_Close] TakeFrame Cons
      by (auto simp only: write_step_def write_event.case list.case Let_def split_def option.inject
          fst_conv snd_conv option.map Pair_inject map_option_eq_Some split: if_splits)
  qed
qed

lemma keep_misc:
  "hello_timeout cfg c h = Some h' \<Longrightarrow> keep h h'"
  "token_watch cfg v c h = Some h' \<Longrightarrow> keep h h'"
  "checkLiveness cfg h = Some h' \<Longrightarrow> keep h h'"
  by (auto simp: hello_timeout_def token_watch_def checkLiveness_def Let_def
      dest: keep_Close keep_close_stale split: if_splits option.splits)

lemma keep_frames:
  "keep h (snd (SendFrame d f h))"
  "keep h (snd (conn_Send c f h))"
  "keep h (retransmitter_tick c h)"
  "keep h (SetTokenHash c t h)"
  "keep h (hub_Touch d h)"
  "keep h (TrackPending a h)"
  "keep h (h\<lparr>wall_clock := now\<rparr>)"
  by (auto intro!: keep_eq simp: SendFrame_def conn_Send_def retransmitter_tick_def
      SetTokenHash_def hub_Touch_def TrackPending_def Let_def split_def split: option.splits)

lemma keep_traffic: "traffic D cfg h h' \<Longrightarrow> keep h h'"
  by (induction rule: traffic.induct)
    (blast intro: keep_Register keep_Close keep_Unregister keep_read
      keep_write keep_misc keep_frames keep_CloseDevice keep_CloseAll
      keep_ops)+

lemma keep_rtranclp: "(traffic D cfg)\<^sup>*\<^sup>* h h' \<Longrightarrow> keep h h'"
  by (induction rule: rtranclp.induct) (auto intro: keep_traffic keep_trans)

end

sublocale hub_client \<subseteq> mem: quiet_client cfg remembers
  by unfold_locales (auto simp: client_remembers intro: remembers_trans)

context hub_client
begin

lemma quiet: "quiet_client cfg remembers"
  by unfold_locales

lemma processed_after_handleFrame:
  assumes "\<not> is_control (fr_type f)"
  shows "map_of (dc_processed (hb_conn (snd (handleFrame D cfg c f h)) c)) (fr_msg_id f) \<noteq> None"
proof (cases "map_of (dc_processed (hb_conn h c)) (fr_msg_id f)")
  case None
  let ?h1 = "upd_conn c (\<lambda>x. x\<lparr>dc_processed :=
      AList.update (fr_msg_id f) (unix (wall_clock h)) (dc_processed x)\<rparr>) h"
  have "map_of (dc_processed (hb_conn ?h1 c)) (fr_msg_id f) \<noteq> None"
    by (simp add: gomap_simps)
  then have "map_of (dc_processed (hb_conn (snd (frame_switch D cfg c f ?h1)) c)) (fr_msg_id f) \<noteq> None"
    using mem.q.frame_switch_keeps [of ?h1 D c f]
    unfolding remembers_def by blast
  then show ?thesis using assms None
    by (simp add: handleFrame_def Let_def split_def is_control_def)
next
  case (Some i)
  then show ?thesis using assms by (simp add: handleFrame_def Let_def)
qed

end

section \<open>A sample hub\<close>

definition sample_conn :: "uuid \<Rightarrow> DeviceConn" where
  "sample_conn d = \<lparr>dc_deviceID = d, dc_ws = True, dc_hub = True, dc_outbound = [], dc_acks = [],
     dc_lastSeen = 0, dc_closed = False, dc_helloReceived = False, dc_processed = [],
     dc_frameCount = 0, dc_frameLastTS = 0, dc_tokenHash = [], dc_pingFailures = 0, dc_wire = [],
     dc_closeCode = None, dc_wfail = []\<rparr>"

definition sample_hub :: Hub where
  "sample_hub = \<lparr>wall_clock = 0, uuid_seq = of_nat, uuid_pos = 0, uuid_str = bit_text,
     hb_registry = [(7, \<lparr>NodeID = ''n'', LastSeen = 0\<rparr>)], hb_nodeID = ''n'', hb_mu = False,
     hb_devices = [(7, 0)], hb_conn = (\<lambda>_. sample_conn 7), hb_next = 2, hb_pending = [],
     hb_heartbeatMissThreshold = 45 * second\<rparr>"

definition sample_decoders :: decoders where
  "sample_decoders = \<lparr>d_Frame = (\<lambda>_. None), d_Hello = (\<lambda>_. None), d_JobProgress = (\<lambda>_.
     None), d_JobResult = (\<lambda>_. Some \<lparr>jres_job_id = 5, jres_status =
     JobSucceeded, jres_result = None, jres_error_msg = None\<rparr>), d_JobAccepted = (\<lambda>_. None),
     d_JobRejected = (\<lambda>_. None), d_AgentStatus = (\<lambda>_. None), d_StateSync =
     (\<lambda>_. None), d_SkillState = (\<lambda>_. None), d_FileAck = (\<lambda>_. None),
     d_VNCOpened = (\<lambda>_. None), d_CredPushAck = (\<lambda>_. None), d_CredCapture =
     (\<lambda>_. None), d_CredCaptureAck = (\<lambda>_. None), d_FilePullBegin = (\<lambda>_.
     None), d_FilePullChunk = (\<lambda>_. None), d_FilePullEnd = (\<lambda>_. None),
     d_JobLoginRequired = (\<lambda>_. None)\<rparr>"

lemma sample_hub_inv [simp]: "hub_inv sample_hub"
  by (simp add: hub_inv_def sample_hub_def conn_wf_def sample_conn_def gomap_wf_def
      tracker_wf_def outbound_cap_def)

section \<open>Properties\<close>

text \<open>
  C30 (hub_invariant): in every run of the hub, whatever frames arrive and whatever connections come,
  are superseded and go, each connection's outbound channel holds at most 256 frames, its tracker
  files every frame under its own message id, and the device map leads to a connection of that
  very device, provided the callbacks keep this invariant.
\<close>

theorem hub_invariant:
  assumes "cfg_keeps inv_kept cfg" "cfg_keeps remembers cfg"
    and "hub_run D cfg (NewHub n t h) h'" "\<forall>c. conn_wf (hb_conn h c)"
  shows "hub_inv h'"
proof -
  have "hub_inv (NewHub n t h)"
    using assms(4) by (simp add: hub_inv_def NewHub_def NewInMemoryRegistry_def Let_def split_def)
  then show ?thesis
    using hub_client.hub_inv_run [OF hub_client.intro [OF assms(1,2)] assms(3)] by blast
qed

theorem hub_invariant_witness:
  "hub_inv (snd (NewDeviceConn 7 True (NewHub ''n'' second sample_hub)))"
proof (rule hub_invariant [OF cfg_keeps_none cfg_keeps_none])
  show "hub_run D no_handlers (NewHub ''n'' second sample_hub)
      (snd (NewDeviceConn 7 True (NewHub ''n'' second sample_hub)))" for D
    by (intro hub_run.connect hub_run.start)
  show "\<forall>c. conn_wf (hb_conn sample_hub c)"
    using sample_hub_inv by (simp add: hub_inv_def)
qed



text \<open>
  When the callback of a JOB_RESULT frame fails (the database is down), the
  frame is acknowledged all the same, so the device stops retransmitting it, and should it be sent
  again it is only acknowledged: no callback sees it again.
\<close>

theorem failed_result_acked:
  assumes "fr_type f = FrameJobResult" "unmarshal (d_JobResult D) (fr_payload f) = Some p"
    and "OnJobResult cfg = Some (\<lambda>d p s. (Some e, s))"
    and "dc_ws (hb_conn h c)" "dc_hub (hb_conn h c)" "\<not> dc_closed (hb_conn h c)"
    and "dc_wfail (hb_conn h c) = []" "map_of (dc_processed (hb_conn h c)) (fr_msg_id f) = None"
  shows "\<exists>h' a. handleFrame D cfg c f h = (Some e, h')
    \<and> dc_wire (hb_conn h' c) = dc_wire (hb_conn h c) @ [a]
    \<and> fr_type a = FrameAck \<and> fr_ack_id a = Some (fr_msg_id f)
    \<and> (\<forall>cfg'. handleFrame D cfg' c f h' = (None, sendAck c (fr_msg_id f) h'))"
  using assms
  by (auto simp: handleFrame_def is_control_def frame_switch_def Let_def decode_then_def
      with_hub_def HandleJobResult_def call_handler_def sendAck_def ws_write_def ack_frame_def
      NewUUID_def gomap_simps)

theorem failed_result_acked_witness:
  "fst (handleFrame sample_decoders (no_handlers\<lparr>OnJobResult := Some (\<lambda>d p s. (Some EDb, s))\<rparr>) 0
     ((sample_frame ''m'')\<lparr>fr_type := FrameJobResult, fr_payload := PRaw ''x''\<rparr>) sample_hub) = Some EDb"
  using failed_result_acked [of "(sample_frame ''m'')\<lparr>fr_type := FrameJobResult, fr_payload := PRaw ''x''\<rparr>"
      sample_decoders _ "no_handlers\<lparr>OnJobResult := Some (\<lambda>d p s. (Some EDb, s))\<rparr>" EDb sample_hub 0]
  by (auto simp: sample_frame_def sample_hub_def sample_conn_def sample_decoders_def unmarshal_def)

lemma close_conns_blocked:
  "hb_mu h \<Longrightarrow> c \<in> set cs \<Longrightarrow> \<not> dc_closed (hb_conn h c) \<Longrightarrow> dc_hub (hb_conn h c)
    \<Longrightarrow> (\<And>c. c \<in> set cs \<Longrightarrow> dc_hub (hb_conn h c)) \<Longrightarrow> close_conns cfg cs code h = None"
proof (induction cs)
  case Nil
  then show ?case by simp
next
  case (Cons a cs)
  then show ?case
    by (cases "dc_closed (hb_conn h a)")
      (auto simp: conn_Close_def hub_Unregister_def Let_def split: option.splits)
qed

lemma close_blocked:
  assumes "hub_inv h" "map_of (hb_devices h) d = Some c" "\<not> dc_closed (hb_conn h c)"
  shows "CloseDevice cfg d code h = None \<and> CloseAll cfg h = None"
proof -
  have hub: "dc_hub (hb_conn h i)" if "i \<in> set (map snd (hb_devices h))" for i
    using that assms(1) by (auto simp: hub_inv_def gomap_in_set)
  have c: "c \<in> set (map snd (hb_devices h))" using map_of_SomeD [OF assms(2)] by force
  have "close_conns cfg (map snd (hb_devices h)) 1001 (h\<lparr>hb_mu := True\<rparr>) = None"
    by (rule close_conns_blocked [OF _ c]) (use assms(3) hub c in simp_all)
  then show ?thesis
    using assms hub [OF c]
    by (simp add: CloseDevice_def CloseAll_def Let_def conn_Close_def hub_Unregister_def)
qed

text \<open>
  C36 (close_device_deadlock): \<open>CloseDevice\<close> on a device with an open connection and \<open>CloseAll\<close> with one
  such device connected never return: they hold \<open>h.mu\<close> while \<open>Close\<close> unregisters the connection,
  which locks \<open>h.mu\<close> again.
\<close>

theorem close_device_deadlock:
  assumes "hub_inv h" "map_of (hb_devices h) d = Some c" "\<not> dc_closed (hb_conn h c)"
  shows "CloseDevice cfg d code h = None \<and> CloseAll cfg h = None"
  using assms by (rule close_blocked)

theorem close_device_deadlock_witness:
  "CloseDevice no_handlers 7 4005 sample_hub = None \<and> CloseAll no_handlers sample_hub = None"
  using close_device_deadlock [OF sample_hub_inv, of 7 0 no_handlers 4005]
  by (simp add: sample_hub_def sample_conn_def)

text \<open>
  When the close of a connection that was already replaced unregisters late, the
  hub keeps the new connection but the registry loses the device, which is connected.
\<close>

theorem stale_unregister:
  assumes "map_of (hb_devices h) d = Some new" "old \<noteq> new" "\<not> hb_mu h"
    and "OnDisconnect cfg = None \<or> (\<exists>g. OnDisconnect cfg = Some g \<and>
      (\<forall>d u s. hb_devices (snd (g d u s)) = hb_devices s \<and> hb_registry (snd (g d u s)) = hb_registry s))"
  shows "\<exists>h'. hub_Unregister cfg d old h = Some h' \<and> GetConnection d h' = Some new
    \<and> \<not> IM_IsOnline (hb_registry h') d"
  using assms
  by (auto simp: hub_Unregister_def call_handler_def GetConnection_def IM_Unregister_def
      IM_IsOnline_def gomap_simps Let_def)

theorem stale_unregister_witness:
  "\<exists>h'. hub_Unregister no_handlers 7 1 sample_hub = Some h' \<and> GetConnection 7 h' = Some 0
    \<and> \<not> IM_IsOnline (hb_registry h') 7"
  using stale_unregister [of sample_hub 7 0 1 no_handlers]
  by (simp add: sample_hub_def no_handlers_def)

lemma gomap_all_update:
  "\<forall>(k, v) \<in> set m. P v \<Longrightarrow> P x \<Longrightarrow> \<forall>(k, v) \<in> set (AList.update j x m). P v"
  by (induction m) auto

lemma no_touch_no_heartbeat:
  "\<forall>(d, e) \<in> set r. LastSeen e = 0 \<Longrightarrow> \<forall>d ts. OpTouch d ts \<notin> set xs \<Longrightarrow>
     run_ops (\<lambda>r d n ts. Some (IM_Register r d n)) IM_Unregister
       (\<lambda>r d ts. Some (IM_Touch r d ts)) xs r = Some r' \<Longrightarrow> \<forall>(d, e) \<in> set r'. LastSeen e = 0"
proof (induction xs arbitrary: r)
  case Nil
  then show ?case by simp
next
  case (Cons x xs)
  have reg: "\<forall>(d, e) \<in> set (IM_Register r d n). LastSeen e = 0" for d n
    unfolding IM_Register_def by (rule gomap_all_update) (use Cons.prems(1) in auto)
  have unreg: "\<forall>(d, e) \<in> set (IM_Unregister r d). LastSeen e = 0" for d
    using Cons.prems(1) by (auto simp: IM_Unregister_def AList.delete_eq)
  show ?case
    using Cons.IH [OF reg] Cons.IH [OF unreg] Cons.prems by (cases x) auto
qed

text \<open>
  As long as nothing but registrations and unregistrations wrote the
  registry (no caller of \<open>Hub.Touch\<close> exists in the program) the liveness checker closes no
  connection, however long the devices have been silent.
\<close>

theorem liveness_never_fires:
  assumes "IM_run xs = Some (hb_registry h)" "\<forall>d ts. OpTouch d ts \<notin> set xs"
  shows "checkLiveness cfg h = Some h"
proof -
  have "\<forall>(d, e) \<in> set (hb_registry h). LastSeen e = 0"
    using no_touch_no_heartbeat [OF _ assms(2,1)] by (simp add: NewInMemoryRegistry_def)
  then have "IM_GetStale (hb_registry h) th = []" for th
    by (auto simp: IM_GetStale_def filter_empty_conv)
  then show ?thesis by (simp add: checkLiveness_def)
qed

theorem liveness_never_fires_witness:
  "checkLiveness no_handlers (sample_hub\<lparr>wall_clock := 1000 * hour\<rparr>)
     = Some (sample_hub\<lparr>wall_clock := 1000 * hour\<rparr>)"
  using liveness_never_fires [of "[OpRegister 7 ''n'' 0]" "sample_hub\<lparr>wall_clock := 1000 * hour\<rparr>"]
  by (simp add: sample_hub_def IM_defs)

lemma migrates_acks:
  assumes "tracker_wf t"
  shows "map_of t m = Some tf \<Longrightarrow>
    \<exists>g. map_of (dc_acks (hb_conn (foldl (migrate_frame c) h (map snd t)) c)) m = Some g
      \<and> tf_Frame g = tf_Frame tf \<and> tf_Retries g = 0"
  using assms
proof (induction t rule: rev_induct)
  case Nil
  then show ?case by simp
next
  case (snoc x t)
  obtain k f where x: "x = (k, f)" by (cases x)
  have wf: "tracker_wf t" and k: "fr_msg_id (tf_Frame f) = k" "map_of t k = None"
    using snoc.prems by (auto simp: x tracker_wf_def gomap_wf_def map_of_eq_None_iff)
  show ?case
    using snoc.IH [OF _ wf] snoc.prems(1) k
    by (cases "m = k") (auto simp: x migrate_frame_def AT_Track_def gomap_simps map_add_def
        split: option.splits)
qed

lemma migrates_other:
  "i \<noteq> c \<Longrightarrow> hb_conn (foldl (migrate_frame c) h tfs) i = hb_conn h i"
  "hb_devices (foldl (migrate_frame c) h tfs) = hb_devices h"
  "hb_mu (foldl (migrate_frame c) h tfs) = hb_mu h"
  by (induction tfs arbitrary: h) (simp_all add: migrate_frame_def)

text \<open>
  Registering a second connection of a device makes it the device's
  connection, closes the old one with code 4002, leaves the device registered, and carries every
  frame not yet acknowledged over to the new connection, with a fresh retransmission budget.
\<close>

theorem supersede_migrates:
  assumes "hub_inv h" "\<not> hb_mu h" "dc_deviceID (hb_conn h c) = d"
    and "map_of (hb_devices h) d = Some old" "old \<noteq> c" "\<not> dc_closed (hb_conn h old)"
    and "dc_ws (hb_conn h old)"
    and "OnDisconnect cfg = None \<or> (\<exists>g. OnDisconnect cfg = Some g \<and> (\<forall>d u s.
      hb_conn (snd (g d u s)) = hb_conn s \<and> hb_devices (snd (g d u s)) = hb_devices s))"
  shows "\<exists>h'. hub_Register cfg c h = Some h' \<and> GetConnection d h' = Some c
    \<and> dc_closed (hb_conn h' old) \<and> dc_closeCode (hb_conn h' old) = Some 4002
    \<and> IM_IsOnline (hb_registry h') d
    \<and> (\<forall>m tf. map_of (dc_acks (hb_conn h old)) m = Some tf \<longrightarrow>
         (\<exists>g. map_of (dc_acks (hb_conn h' c)) m = Some g
            \<and> tf_Frame g = tf_Frame tf \<and> tf_Retries g = 0))"
proof -
  let ?t = "dc_acks (hb_conn h old)"
  let ?h2 = "(upd_conn c (\<lambda>x. x\<lparr>dc_hub := True\<rparr>) h)\<lparr>hb_devices := AList.update d c (hb_devices h)\<rparr>"
  let ?h3 = "foldl (migrate_frame c) ?h2 (map snd ?t)"
  have wf: "tracker_wf ?t" using hub_inv_wf [OF assms(1)] by (simp add: conn_wf_def)
  have old: "dc_hub (hb_conn h old)" "dc_deviceID (hb_conn h old) = d"
    using assms(1,4) by (auto simp: hub_inv_def)
  have c3: "hb_conn ?h3 old = hb_conn h old" "hb_devices ?h3 = AList.update d c (hb_devices h)"
      "\<not> hb_mu ?h3"
    using assms(2,5) by (simp_all add: migrates_other)
  obtain h4 where h4: "conn_Close cfg old 4002 ?h3 = Some h4" "hb_devices h4 = hb_devices ?h3"
      "hb_conn h4 = (hb_conn ?h3)(old := (hb_conn h old)\<lparr>dc_closed := True, dc_closeCode := Some 4002\<rparr>)"
    using assms(5-8) old c3
    by (auto simp: conn_Close_def hub_Unregister_def call_handler_def Let_def gomap_simps)
  have "hub_Register cfg c h =
      Some (h4\<lparr>hb_registry := IM_Register (hb_registry h4) d (hb_nodeID h4)\<rparr>)"
    using assms(2-5) h4(1) by (simp add: hub_Register_def AT_Pending_def Let_def)
  then show ?thesis
    using h4(2,3) c3 assms(5) migrates_acks [OF wf]
    by (auto simp: GetConnection_def gomap_simps IM_IsOnline_def IM_Register_def)
qed

theorem supersede_migrates_witness:
  "\<exists>h'. hub_Register no_handlers 1 sample_hub = Some h' \<and> GetConnection 7 h' = Some 1
    \<and> dc_closeCode (hb_conn h' 0) = Some 4002"
  using supersede_migrates [OF sample_hub_inv, of 1 7 0 no_handlers]
  by (auto simp: sample_hub_def sample_conn_def no_handlers_def)

text \<open>
  \<open>SendFrame\<close> tracks the frame before it finds the outbound channel
  full, so a frame whose sending was reported as failed is nevertheless put into the channel by
  the retransmitter one second later, once there is room.
\<close>

theorem send_error_still_delivers:
  assumes "map_of (hb_devices h) d = Some c" "\<not> dc_closed (hb_conn h c)" "dc_acks (hb_conn h c) = []"
    and "length (dc_outbound (hb_conn h c)) = outbound_cap" "fr_type f \<noteq> FrameAck"
    and "dc_wfail (hb_conn h c) = []"
  shows "\<exists>h1 h2. SendFrame d f h = (Some (EOutboundFull d), h1)
    \<and> write_step cfg c TakeFrame h1 = Some (True, h2)
    \<and> f \<in> set (dc_outbound (hb_conn
         (retransmitter_tick c (h2\<lparr>wall_clock := wall_clock h + second\<rparr>)) c))"
proof -
  obtain a q where q: "dc_outbound (hb_conn h c) = a # q" "length q < outbound_cap"
    using assms(4) by (cases "dc_outbound (hb_conn h c)") (auto simp: outbound_cap_def)
  have tick: "f \<in> set (snd (retransmit_tick (t + second) (AT_Track t [] f, q)))" for t
    using q(2) by (simp add: retransmit_tick_def RetransmitReady_refines AT_Track_def Let_def
        entry_due_def entry_tick_def send_or_drop_def try_send_def)
  have full: "try_send (dc_outbound (hb_conn h c)) f = None" using assms(4) by (simp add: try_send_def)
  show ?thesis
    using assms(1-3,5,6) full q tick [of "wall_clock h"]
    by (cases "fr_payload a = PUnsupported")
      (auto simp: SendFrame_def write_step_def retransmitter_tick_def ws_write_def Let_def
        split_def)
qed

theorem send_error_still_delivers_witness:
  "fst (SendFrame 7 (sample_frame ''m'') (upd_conn 0 (\<lambda>x. x\<lparr>dc_outbound :=
      replicate 256 (sample_frame ''k'')\<rparr>) sample_hub)) = Some (EOutboundFull 7)"
  using send_error_still_delivers [of "upd_conn 0 (\<lambda>x. x\<lparr>dc_outbound :=
      replicate 256 (sample_frame ''k'')\<rparr>) sample_hub" 7 0 "sample_frame ''m''" no_handlers]
  by (auto simp: sample_hub_def sample_conn_def outbound_cap_def sample_frame_def)

text \<open>
  A message above one megabyte, one that is no frame or one of another protocol
  version ends the read loop with close code 4004 and calls no frame callback.
\<close>

theorem bad_frame_closes:
  assumes "FrameMaxSize < int (length msg) \<or> d_Frame D msg = None
      \<or> (\<exists>f. d_Frame D msg = Some f \<and> fr_version f \<noteq> FrameVersion)"
    and "\<not> dc_closed (hb_conn h c)" "dc_ws (hb_conn h c)" "\<not> hb_mu h"
    and "OnDisconnect cfg = None"
  shows "\<exists>h'. read_step D cfg c (Message msg) h = Some (False, h') \<and> dc_closed (hb_conn h' c)
    \<and> dc_closeCode (hb_conn h' c) = Some 4004
    \<and> (\<forall>i. dc_processed (hb_conn h' i) = dc_processed (hb_conn h i))"
proof -
  have "read_step D cfg c (Message msg) h = stop_pump cfg c 4004 (conn_touch c h)"
    using assms(1) by (auto simp: read_step_def Let_def)
  moreover have "\<exists>h'. conn_Close cfg c 4004 (conn_touch c h) = Some h' \<and> dc_closed (hb_conn h' c)
      \<and> dc_closeCode (hb_conn h' c) = Some 4004
      \<and> (\<forall>i. dc_processed (hb_conn h' i) = dc_processed (hb_conn h i))"
    using assms(2-5)
    by (auto simp: conn_Close_def hub_Unregister_def call_handler_def conn_touch_def Let_def)
  moreover have "dc_closed (hb_conn g c) \<Longrightarrow> conn_Close cfg c 1000 g = Some g" for g
    by (simp add: conn_Close_def)
  ultimately show ?thesis by (auto simp: stop_pump_def)
qed

theorem bad_frame_closes_witness:
  "\<exists>h'. read_step sample_decoders no_handlers 0 (Message ''junk'') sample_hub = Some (False, h')
    \<and> dc_closeCode (hb_conn h' 0) = Some 4004"
  using bad_frame_closes [of "''junk''" sample_decoders sample_hub 0 no_handlers]
  by (auto simp: sample_hub_def sample_conn_def sample_decoders_def no_handlers_def)

text \<open>Rounds of the write pump that take a frame.\<close>

fun write_frames :: "nat \<Rightarrow> 'a Hub_scheme HubConfig \<Rightarrow> conn_id \<Rightarrow> 'a Hub_scheme \<Rightarrow>
    (bool \<times> 'a Hub_scheme) option" where
  "write_frames 0 cfg c h = Some (True, h)"
| "write_frames (Suc n) cfg c h = (case write_step cfg c TakeFrame h of
     Some (True, h1) \<Rightarrow> write_frames n cfg c h1 | r \<Rightarrow> r)"

text \<open>
  As long as the socket accepts writes, the write pump puts the frames of the
  outbound channel on the wire in order, none lost and none twice.
\<close>

theorem writes_in_order:
  assumes "\<not> dc_closed (hb_conn h c)" "dc_wfail (hb_conn h c) = []"
    and "n \<le> length (dc_outbound (hb_conn h c))"
    and "\<forall>f \<in> set (dc_outbound (hb_conn h c)). fr_payload f \<noteq> PUnsupported"
  shows "\<exists>h'. write_frames n cfg c h = Some (True, h')
    \<and> dc_wire (hb_conn h' c) = dc_wire (hb_conn h c) @ take n (dc_outbound (hb_conn h c))
    \<and> dc_outbound (hb_conn h' c) = drop n (dc_outbound (hb_conn h c))"
  using assms
proof (induction n arbitrary: h)
  case 0
  then show ?case by simp
next
  case (Suc n)
  obtain f q where q: "dc_outbound (hb_conn h c) = f # q"
    using Suc.prems(3) by (cases "dc_outbound (hb_conn h c)") auto
  let ?h1 = "upd_conn c (\<lambda>x. x\<lparr>dc_outbound := q, dc_wire := dc_wire x @ [f], dc_pingFailures := 0\<rparr>) h"
  have "write_step cfg c TakeFrame h = Some (True, ?h1)"
    using Suc.prems q by (simp add: write_step_def ws_write_def Let_def)
  moreover have "\<exists>h'. write_frames n cfg c ?h1 = Some (True, h')
      \<and> dc_wire (hb_conn h' c) = dc_wire (hb_conn ?h1 c) @ take n (dc_outbound (hb_conn ?h1 c))
      \<and> dc_outbound (hb_conn h' c) = drop n (dc_outbound (hb_conn ?h1 c))"
    by (rule Suc.IH) (use Suc.prems q in auto)
  ultimately show ?case using q by auto
qed

theorem writes_in_order_witness:
  "\<exists>h'. write_frames 1 no_handlers 0 (upd_conn 0 (\<lambda>x. x\<lparr>dc_outbound :=
      [sample_frame ''a'', sample_frame ''b'']\<rparr>) sample_hub) = Some (True, h')
    \<and> dc_wire (hb_conn h' 0) = [sample_frame ''a'']"
  using writes_in_order [of "upd_conn 0 (\<lambda>x. x\<lparr>dc_outbound :=
      [sample_frame ''a'', sample_frame ''b'']\<rparr>) sample_hub" 0 1 no_handlers]
  by (auto simp: sample_hub_def sample_conn_def sample_frame_def)

end
