(* ===== verification/Router.thy ===== *)
theory Router
  imports TunnelProps
begin

text \<open>
  The frame codec of \<open>gateway/internal/tunnel/codec.go\<close> and the table-driven router of
  \<open>router.go\<close>, a second way from a frame to the hub's callbacks beside the switch of
  \<open>handleFrame\<close>: \<open>router_agrees\<close> shows that the two do the same.

  Of \<open>encoding/json\<close> the codec uses a pair of functions, \<open>marshal\<close> (\<open>None\<close>: error) and the
  decoder \<open>decode\<close>; their round trip is a named hypothesis where it is used.
\<close>

section \<open>Codec\<close>

definition EncodeFrame :: "(Frame \<Rightarrow> string option) \<Rightarrow> Frame \<Rightarrow> err + string" where
  "EncodeFrame marshal frame = (case marshal frame of
     None \<Rightarrow> Inl EMarshal
   | Some data \<Rightarrow> if FrameMaxSize < int (length data) then Inl (EFrameTooLarge (int (length data)))
                 else Inr data)"

definition ValidateEnvelope :: "Frame \<Rightarrow> err option" where
  "ValidateEnvelope frame =
     (if fr_version frame \<noteq> FrameVersion then Some (EVersion (fr_version frame))
      else if fr_type frame = FrameOther '''' then Some ETypeRequired
      else if fr_msg_id frame = '''' then Some EMsgIDRequired
      else None)"

definition DecodeFrame :: "(string \<Rightarrow> Frame option) \<Rightarrow> string \<Rightarrow> err + Frame" where
  "DecodeFrame decode data =
     (if FrameMaxSize < int (length data) then Inl (EFrameTooLarge (int (length data)))
      else case decode data of
        None \<Rightarrow> Inl EDecode
      | Some frame \<Rightarrow> (case ValidateEnvelope frame of Some e \<Rightarrow> Inl e | None \<Rightarrow> Inr frame))"

definition NewFrame :: "FrameType \<Rightarrow> payload \<Rightarrow> 'a env_scheme \<Rightarrow> (err + Frame) \<times> 'a env_scheme" where
  "NewFrame t p w = (if p = PUnsupported then (Inl EMarshal, w) else
     let (u, w1) = NewUUID w in
     (Inr \<lparr>fr_version = FrameVersion, fr_type = t, fr_msg_id = uuid_str w u, fr_ack_id = None,
           fr_ts = unix_milli (wall_clock w), fr_payload = p\<rparr>, w1))"

definition NewFrameWithTS ::
  "FrameType \<Rightarrow> payload \<Rightarrow> int \<Rightarrow> 'a env_scheme \<Rightarrow> (err + Frame) \<times> 'a env_scheme" where
  "NewFrameWithTS t p ts w = (case NewFrame t p w of
     (Inl e, w1) \<Rightarrow> (Inl e, w1) | (Inr f, w1) \<Rightarrow> (Inr (f\<lparr>fr_ts := ts\<rparr>), w1))"

section \<open>Router\<close>

type_synonym 'h FrameHandler = "uuid \<Rightarrow> payload \<Rightarrow> 'h \<Rightarrow> err option \<times> 'h"

type_synonym 'h Router = "(FrameType, 'h FrameHandler) gomap"

definition NewRouter :: "'h Router" where
  "NewRouter = []"

definition Router_Register :: "FrameType \<Rightarrow> 'h FrameHandler \<Rightarrow> 'h Router \<Rightarrow> 'h Router" where
  "Router_Register t f r = AList.update t f r"

definition Dispatch :: "'h Router \<Rightarrow> uuid \<Rightarrow> Frame \<Rightarrow> 'h \<Rightarrow> err option \<times> 'h" where
  "Dispatch r d frame h = (case map_of r (fr_type frame) of
     None \<Rightarrow> (Some (ENoHandler (fr_type frame)), h)
   | Some f \<Rightarrow> f d (fr_payload frame) h)"

definition RegisterAll :: "decoders \<Rightarrow> 'h HubConfig \<Rightarrow> 'h Router \<Rightarrow> 'h Router" where
  "RegisterAll D cfg r = foldl (\<lambda>r (t, f). Router_Register t f r) r
    [(FrameJobProgress, decode_then (d_JobProgress D) (HandleJobProgress cfg)),
     (FrameJobResult, decode_then (d_JobResult D) (HandleJobResult cfg)),
     (FrameJobAccepted, decode_then (d_JobAccepted D) (HandleJobAccepted cfg)),
     (FrameJobRejected, decode_then (d_JobRejected D) (HandleJobRejected cfg)),
     (FrameAgentStatus, decode_then (d_AgentStatus D) (HandleAgentStatus cfg)),
     (FrameStateSync, decode_then (d_StateSync D) (HandleStateSync cfg)),
     (FrameSkillState, decode_then (d_SkillState D) (HandleSkillState cfg)),
     (FrameFileAck, decode_then (d_FileAck D) (HandleFileAck cfg)),
     (FrameVNCOpened, decode_then (d_VNCOpened D) (HandleVNCOpened cfg)),
     (FrameCredPushAck, decode_then (d_CredPushAck D) (HandleCredPushAck cfg)),
     (FrameCredCaptureAck, decode_then (d_CredCaptureAck D) (HandleCredCaptureAck cfg)),
     (FrameCredCapture, decode_then (d_CredCapture D) (HandleCredCapture cfg)),
     (FrameVNCClose, HandleVNCClose cfg),
     (FrameSkillDispatchAck, HandleSkillDispatchAck cfg),
     (FrameFilePurged, HandleFilePurged cfg),
     (FrameFilePullBegin, HandleFilePullBegin D cfg),
     (FrameFilePullChunk, HandleFilePullChunk D cfg),
     (FrameFilePullEnd, HandleFilePullEnd D cfg),
     (FrameJobLoginRequired, HandleJobLoginRequired D cfg)]"

section \<open>Properties\<close>

definition routed_types :: "FrameType list" where
  "routed_types = [FrameJobProgress, FrameJobResult, FrameJobAccepted, FrameJobRejected,
     FrameAgentStatus, FrameStateSync, FrameSkillState, FrameFileAck, FrameVNCOpened,
     FrameCredPushAck, FrameCredCaptureAck, FrameCredCapture, FrameVNCClose, FrameSkillDispatchAck,
     FrameFilePurged, FrameFilePullBegin, FrameFilePullChunk, FrameFilePullEnd,
     FrameJobLoginRequired]"

lemma map_of_registers:
  "map_of (foldl (\<lambda>r (t, f). Router_Register t f r) r xs) = map_of r ++ map_of (rev xs)"
  by (induction xs arbitrary: r)
    (auto simp: Router_Register_def gomap_simps map_add_def fun_eq_iff split: option.splits)

lemma RegisterAll_keys: "t \<notin> set routed_types \<Longrightarrow> map_of (RegisterAll D cfg r) t = map_of r t"
  unfolding RegisterAll_def map_of_registers
  by (simp add: routed_types_def map_add_def)

lemma with_hub_live:
  "dc_hub (hb_conn h c) \<Longrightarrow> with_hub c g d p h = g d p h"
  "dc_hub (hb_conn h c) \<Longrightarrow> decode_then dec (with_hub c f) e q h = decode_then dec f e q h"
  by (simp_all add: with_hub_def decode_then_def split: option.splits)

lemma RegisterAll_agrees:
  assumes "dc_hub (hb_conn h c)" "fr_type f \<in> set routed_types"
  shows "Dispatch (RegisterAll D cfg r) (dc_deviceID (hb_conn h c)) f h = frame_switch D cfg c f h"
  unfolding Dispatch_def RegisterAll_def map_of_registers
  using assms
  by (cases "fr_type f") (simp_all add: routed_types_def map_add_def frame_switch_def
      late_switch_def Let_def with_hub_live)

text \<open>
  For every frame type \<open>RegisterAll\<close> knows, dispatching through the router does
  what the switch of \<open>handleFrame\<close> does; every type it does not know (on a new router) is
  refused and the state left alone, where the switch ignores the frame or handles it itself.
\<close>

theorem router_agrees:
  assumes "dc_hub (hb_conn h c)" "d = dc_deviceID (hb_conn h c)"
  shows "Dispatch (RegisterAll D cfg NewRouter) d f h =
    (if fr_type f \<in> set routed_types then frame_switch D cfg c f h
     else (Some (ENoHandler (fr_type f)), h))"
proof (cases "fr_type f \<in> set routed_types")
  case True
  then show ?thesis using RegisterAll_agrees [OF assms(1)] by (simp only: assms(2) if_True)
next
  case False
  have "map_of (RegisterAll D cfg NewRouter) (fr_type f) = None"
    using RegisterAll_keys [OF False, of D cfg NewRouter] by (simp add: NewRouter_def)
  then show ?thesis using False by (simp only: Dispatch_def option.case if_False)
qed

theorem router_agrees_witness:
  "Dispatch (RegisterAll sample_decoders no_handlers NewRouter) 7 (sample_frame ''m'') sample_hub
   = (Some (ENoHandler FrameJobDispatch), sample_hub)"
proof -
  have a: "dc_hub (hb_conn sample_hub 0)" "7 = dc_deviceID (hb_conn sample_hub 0)"
    by (simp_all add: sample_hub_def sample_conn_def)
  have t: "fr_type (sample_frame ''m'') = FrameJobDispatch" by (simp add: sample_frame_def)
  have "FrameJobDispatch \<notin> set routed_types" by (simp add: routed_types_def)
  then show ?thesis using router_agrees [OF a, of sample_decoders no_handlers "sample_frame ''m''"]
    by (simp only: t if_False)
qed

text \<open>
  When \<open>json\<close> decodes what it encoded, decoding an encoded frame gives the frame
  back, except for the frames \<open>EncodeFrame\<close> lets pass although \<open>DecodeFrame\<close> refuses them: those of
  another version, with an empty type or an empty message id.
\<close>

theorem codec_roundtrip:
  assumes "\<And>f s. marshal f = Some s \<Longrightarrow> decode s = Some f" "EncodeFrame marshal f = Inr s"
  shows "DecodeFrame decode s = (if fr_version f = FrameVersion \<and> fr_type f \<noteq> FrameOther ''''
      \<and> fr_msg_id f \<noteq> '''' then Inr f else Inl (the (ValidateEnvelope f)))"
  using assms(2) assms(1) [of f s]
  by (auto simp: EncodeFrame_def DecodeFrame_def ValidateEnvelope_def split: option.splits if_splits)

theorem codec_roundtrip_witness:
  "DecodeFrame (\<lambda>s. if s = ''x'' then Some (sample_frame ''m'') else None) ''x''
     = Inr (sample_frame ''m'')"
proof -
  have enc: "EncodeFrame (\<lambda>f. if f = sample_frame ''m'' then Some ''x'' else None) (sample_frame ''m'')
      = Inr ''x''" by (simp add: EncodeFrame_def FrameMaxSize_def)
  have ok: "fr_version (sample_frame ''m'') = FrameVersion" "fr_type (sample_frame ''m'') \<noteq> FrameOther ''''"
      "fr_msg_id (sample_frame ''m'') \<noteq> ''''"
    by (simp_all add: sample_frame_def FrameVersion_def)
  have "DecodeFrame (\<lambda>s. if s = ''x'' then Some (sample_frame ''m'') else None) ''x'' =
     (if fr_version (sample_frame ''m'') = FrameVersion \<and> fr_type (sample_frame ''m'') \<noteq> FrameOther ''''
      \<and> fr_msg_id (sample_frame ''m'') \<noteq> '''' then Inr (sample_frame ''m'')
      else Inl (the (ValidateEnvelope (sample_frame ''m''))))"
    by (rule codec_roundtrip [OF _ enc]) (simp split: if_splits)
  then show ?thesis using ok by simp
qed

end
