(* ===== verification/Store.thy ===== *)
theory Store
  imports Tunnel "HOL-Library.Product_Lexorder"
begin

text \<open>
  The PostgreSQL stores of jobs, agents and devices (\<open>gateway/internal/store/jobs.go\<close>,
  \<open>agents.go\<close>, \<open>devices.go\<close>). The database is third-party; what the statements do is their SQL,
  read on tables that are lists of rows. A statement is atomic. Every call consumes one entry of
  the script \<open>faults\<close>, \<open>True\<close> meaning that the call fails and changes nothing (an empty script
  fails no call). The constraints of \<open>migrations/001_initial_schema.up.sql\<close> between the three
  tables are checked: primary keys, \<open>UNIQUE (device_id, port)\<close>, \<open>UNIQUE (operator_id, name)\<close> and the foreign keys between
  agents, jobs and devices; a reference to another table can fail through the script.

  \<open>db_inv\<close> states the constraints; every operation of the stores keeps it.
\<close>

section \<open>Tables\<close>

record DeviceResources =
  res_cpu_count :: int
  res_mem_mb :: int
  res_disk_mb :: int

record Device =
  d_id :: uuid
  d_operator_id :: uuid
  d_name :: string
  d_description :: string
  d_platform :: string
  d_status :: DeviceStatus
  d_token_hash :: string
  d_token_rotated_at :: "time option"
  d_last_seen_at :: "time option"
  d_resources :: "DeviceResources option"
  d_created_at :: time
  d_updated_at :: time

record Gateway = Hub +
  agents_tab :: "Agent list"
  jobs_tab :: "Job list"
  devices_tab :: "Device list"
  faults :: "bool list"

type_synonym ('r, 'h) query = "'h \<Rightarrow> (err + 'r) \<times> 'h"

type_synonym 'h exec = "'h \<Rightarrow> err option \<times> 'h"

definition db_query :: "('a Gateway_scheme \<Rightarrow> 'r) \<Rightarrow> ('r, 'a Gateway_scheme) query" where
  "db_query q g = (case faults g of
     True # fs \<Rightarrow> (Inl EDb, g\<lparr>faults := fs\<rparr>)
   | False # fs \<Rightarrow> (Inr (q g), g\<lparr>faults := fs\<rparr>)
   | [] \<Rightarrow> (Inr (q g), g))"

definition db_exec :: "'a Gateway_scheme exec \<Rightarrow> 'a Gateway_scheme exec" where
  "db_exec f g = (case faults g of
     True # fs \<Rightarrow> (Some EDb, g\<lparr>faults := fs\<rparr>)
   | False # fs \<Rightarrow> f (g\<lparr>faults := fs\<rparr>)
   | [] \<Rightarrow> f g)"

abbreviation upd_jobs :: "(Job \<Rightarrow> bool) \<Rightarrow> (Job \<Rightarrow> Job) \<Rightarrow> 'a Gateway_scheme exec" where
  "upd_jobs P f \<equiv> db_exec (\<lambda>g. (None, g\<lparr>jobs_tab := sql_update P f (jobs_tab g)\<rparr>))"

abbreviation upd_agents :: "(Agent \<Rightarrow> bool) \<Rightarrow> (Agent \<Rightarrow> Agent) \<Rightarrow> 'a Gateway_scheme exec" where
  "upd_agents P f \<equiv> db_exec (\<lambda>g. (None, g\<lparr>agents_tab := sql_update P f (agents_tab g)\<rparr>))"

abbreviation upd_devices :: "(Device \<Rightarrow> bool) \<Rightarrow> (Device \<Rightarrow> Device) \<Rightarrow> 'a Gateway_scheme exec" where
  "upd_devices P f \<equiv> db_exec (\<lambda>g. (None, g\<lparr>devices_tab := sql_update P f (devices_tab g)\<rparr>))"

text \<open>The foreign keys.\<close>

definition has_agent :: "uuid \<Rightarrow> 'a Gateway_scheme \<Rightarrow> bool" where
  "has_agent i g \<longleftrightarrow> i \<in> a_id ` set (agents_tab g)"

definition has_job :: "uuid \<Rightarrow> 'a Gateway_scheme \<Rightarrow> bool" where
  "has_job i g \<longleftrightarrow> i \<in> j_id ` set (jobs_tab g)"

definition has_device :: "uuid \<Rightarrow> 'a Gateway_scheme \<Rightarrow> bool" where
  "has_device i g \<longleftrightarrow> i \<in> d_id ` set (devices_tab g)"

section \<open>JobStore\<close>

definition J_Create :: "Job \<Rightarrow> 'a Gateway_scheme \<Rightarrow> err option \<times> Job \<times> 'a Gateway_scheme" where
  "J_Create j0 g0 =
     (let (u, g1) = NewUUID g0; now = wall_clock g1;
          j = j0\<lparr>j_id := u, j_created_at := now, j_updated_at := now, j_submitted_at := now\<rparr>;
          row = j\<lparr>j_percent := Some 0, j_progress_message := None, j_result := None,
                  j_error_message := None, j_started_at := None, j_finished_at := None,
                  j_queue_position := None, j_estimated_wait_seconds := None\<rparr>;
          (e, g2) = db_exec (\<lambda>g.
            if has_job u g then (Some EUnique, g)
            else if (\<exists>a. j_agent_id j = Some a \<and> \<not> has_agent a g)
                  \<or> (\<exists>d. j_device_id j = Some d \<and> \<not> has_device d g) then (Some EForeignKey, g)
            else (None, g\<lparr>jobs_tab := jobs_tab g @ [row]\<rparr>)) g1
      in (e, j, g2))"

definition J_GetByID :: "uuid \<Rightarrow> (Job option, 'a Gateway_scheme) query" where
  "J_GetByID i = db_query (\<lambda>g. find (\<lambda>j. j_id j = i) (jobs_tab g))"

definition J_UpdateStatus :: "uuid \<Rightarrow> JobStatus \<Rightarrow> 'a Gateway_scheme exec" where
  "J_UpdateStatus i status g = (let now = wall_clock g in
     upd_jobs (\<lambda>j. j_id j = i) (\<lambda>j. j\<lparr>j_status := status,
       j_finished_at := (if IsTerminal status then Some now else j_finished_at j),
       j_queue_expires_at := (if status = JobQueued then Some (now + hour) else j_queue_expires_at j),
       j_updated_at := now\<rparr>) g)"

definition J_UpdateProgress :: "uuid \<Rightarrow> int \<Rightarrow> string \<Rightarrow> JobStatus \<Rightarrow> 'a Gateway_scheme exec" where
  "J_UpdateProgress i percent message status g = (let now = wall_clock g in
     upd_jobs (\<lambda>j. j_id j = i) (\<lambda>j. j\<lparr>j_percent := Some percent, j_progress_message := Some message,
       j_status := (if \<not> IsTerminal status then status else j_status j), j_updated_at := now\<rparr>) g)"

definition J_UpdateResult :: "uuid \<Rightarrow> JobStatus \<Rightarrow> string option \<Rightarrow> 'a Gateway_scheme exec" where
  "J_UpdateResult i status result g = (let now = wall_clock g in
     upd_jobs (\<lambda>j. j_id j = i) (\<lambda>j. j\<lparr>j_status := status, j_result := result,
       j_finished_at := Some now, j_updated_at := now\<rparr>) g)"

definition J_SetAgent :: "uuid \<Rightarrow> uuid \<Rightarrow> uuid \<Rightarrow> 'a Gateway_scheme exec" where
  "J_SetAgent i agentID deviceID g = (let now = wall_clock g in
     db_exec (\<lambda>g. if has_job i g \<and> (\<not> has_agent agentID g \<or> \<not> has_device deviceID g)
       then (Some EForeignKey, g)
       else (None, g\<lparr>jobs_tab := sql_update (\<lambda>j. j_id j = i) (\<lambda>j. j\<lparr>j_agent_id := Some agentID,
          j_device_id := Some deviceID, j_status := JobDispatched, j_started_at := Some now,
          j_updated_at := now\<rparr>) (jobs_tab g)\<rparr>)) g)"

definition J_ClearAgent :: "uuid \<Rightarrow> 'a Gateway_scheme exec" where
  "J_ClearAgent i = upd_jobs (\<lambda>j. j_id j = i) (\<lambda>j. j\<lparr>j_agent_id := None, j_device_id := None\<rparr>)"

definition J_Cancel :: "uuid \<Rightarrow> uuid \<Rightarrow> 'a Gateway_scheme exec" where
  "J_Cancel i userID g = (let now = wall_clock g;
       P = (\<lambda>j. j_id j = i \<and> j_user_id j = userID \<and> \<not> IsTerminal (j_status j)) in
     db_exec (\<lambda>g. (if sql_count P (jobs_tab g) = 0 then Some ENoRows else None,
       g\<lparr>jobs_tab := sql_update P (\<lambda>j. j\<lparr>j_status := JobCancelled, j_finished_at := Some now,
           j_updated_at := now\<rparr>) (jobs_tab g)\<rparr>)) g)"

text \<open>
  \<open>DequeueNext\<close> orders by the text of the tier, then by creation; among equals the first row
  stands for the one PostgreSQL happens to return. \<open>FOR UPDATE SKIP LOCKED\<close> locks the row for the
  length of the statement only, no transaction being open.
\<close>

definition J_DequeueNext :: "(Job option, 'a Gateway_scheme) query" where
  "J_DequeueNext g = (let now = wall_clock g in
     db_query (\<lambda>g. least_by (\<lambda>j. (UserTier_str (j_user_tier j), j_created_at j))
       (filter (\<lambda>j. j_status j = JobQueued \<and>
          (case j_queue_expires_at j of None \<Rightarrow> False | Some t \<Rightarrow> now < t)) (jobs_tab g))) g)"

definition queue_timed_out :: "time \<Rightarrow> Job \<Rightarrow> bool" where
  "queue_timed_out now j \<longleftrightarrow> j_status j = JobQueued \<and>
     (case j_queue_expires_at j of None \<Rightarrow> False | Some t \<Rightarrow> t \<le> now)"

definition fail_job :: "string \<Rightarrow> time \<Rightarrow> Job \<Rightarrow> Job" where
  "fail_job code now j = j\<lparr>j_status := JobFailed, j_error_code := Some code,
     j_error_message := Some code, j_finished_at := Some now, j_updated_at := now\<rparr>"

definition J_ExpireQueued :: "'a Gateway_scheme exec" where
  "J_ExpireQueued g = (let now = wall_clock g in
     upd_jobs (queue_timed_out now) (fail_job ''QUEUE_TIMEOUT'' now) g)"

definition dispatch_timed_out :: "duration \<Rightarrow> time \<Rightarrow> Job \<Rightarrow> bool" where
  "dispatch_timed_out timeout now j \<longleftrightarrow> j_status j = JobDispatched \<and>
     (case j_started_at j of None \<Rightarrow> False | Some t \<Rightarrow> t \<le> now - timeout)"

definition J_ExpireDispatched :: "duration \<Rightarrow> 'a Gateway_scheme exec" where
  "J_ExpireDispatched timeout g = (let now = wall_clock g in
     upd_jobs (dispatch_timed_out timeout now) (fail_job ''DISPATCH_TIMEOUT'' now) g)"

definition J_CountQueuedByUser :: "uuid \<Rightarrow> (nat, 'a Gateway_scheme) query" where
  "J_CountQueuedByUser userID =
     db_query (\<lambda>g. sql_count (\<lambda>j. j_user_id j = userID \<and> j_status j = JobQueued) (jobs_tab g))"

definition J_GetQueuePosition :: "uuid \<Rightarrow> (nat, 'a Gateway_scheme) query" where
  "J_GetQueuePosition i = db_query (\<lambda>g. case find (\<lambda>j. j_id j = i) (jobs_tab g) of
     None \<Rightarrow> 0
   | Some k \<Rightarrow> sql_count (\<lambda>j. j_status j = JobQueued \<and> j_created_at j \<le> j_created_at k) (jobs_tab g))"

text \<open>
  A page of rows, newest first: \<open>limit + 1\<close> rows are fetched to see whether a next page exists,
  whose cursor is the last row shown. A cursor row that is gone makes the page empty, a comparison
  with NULL being unknown.
\<close>

definition page_of :: "('r \<Rightarrow> uuid) \<Rightarrow> ('r \<Rightarrow> time) \<Rightarrow> 'r list \<Rightarrow> 'r list \<Rightarrow> uuid option \<Rightarrow> int \<Rightarrow>
    'r list \<times> uuid option" where
  "page_of key created tab rows cursor limit0 =
     (let limit = nat (if limit0 \<le> 0 then 50 else limit0);
          older = (case cursor of
              None \<Rightarrow> rows
            | Some c \<Rightarrow> (case find (\<lambda>r. key r = c) tab of
                None \<Rightarrow> [] | Some k \<Rightarrow> filter (\<lambda>r. created r < created k) rows));
          fetched = take (limit + 1) (rev (sort_key created older))
      in if limit < length fetched
         then (take limit fetched, Some (key (fetched ! (limit - 1)))) else (fetched, None))"

definition J_ListByUser :: "uuid \<Rightarrow> uuid option \<Rightarrow> int \<Rightarrow>
    (Job list \<times> uuid option, 'a Gateway_scheme) query" where
  "J_ListByUser userID cursor limit = db_query (\<lambda>g. page_of j_id j_created_at (jobs_tab g)
     (filter (\<lambda>j. j_user_id j = userID) (jobs_tab g)) cursor limit)"

definition J_ListByAgent :: "uuid \<Rightarrow> (Job list, 'a Gateway_scheme) query" where
  "J_ListByAgent agentID = db_query (\<lambda>g. sort_key j_created_at
     (filter (\<lambda>j. j_agent_id j = Some agentID) (jobs_tab g)))"

section \<open>AgentStore\<close>

definition defaultLimits :: AgentLimits where
  "defaultLimits = \<lparr>lim_cpu = 2, lim_mem_mb = 4096, lim_disk_mb = 10240\<rparr>"

definition A_Create :: "Agent \<Rightarrow> 'a Gateway_scheme \<Rightarrow> err option \<times> Agent \<times> 'a Gateway_scheme" where
  "A_Create a0 g0 =
     (let (i, g1) = (if a_id a0 = 0 then NewUUID g0 else (a_id a0, g0)); now = wall_clock g1;
          a = a0\<lparr>a_id := i, a_created_at := now, a_updated_at := now,
                 a_limits := (case a_limits a0 of None \<Rightarrow> Some defaultLimits | l \<Rightarrow> l)\<rparr>;
          (e, g2) = db_exec (\<lambda>g.
            if has_agent i g \<or> (\<exists>b \<in> set (agents_tab g).
                 a_device_id b = a_device_id a \<and> a_port b = a_port a) then (Some EUnique, g)
            else if \<not> has_device (a_device_id a) g
                  \<or> (\<exists>j. a_job_id a = Some j \<and> \<not> has_job j g) then (Some EForeignKey, g)
            else (None, g\<lparr>agents_tab := agents_tab g @ [a\<lparr>a_allocated_at := None\<rparr>]\<rparr>)) g1
      in (e, a, g2))"

definition A_GetByID :: "uuid \<Rightarrow> (Agent option, 'a Gateway_scheme) query" where
  "A_GetByID i = db_query (\<lambda>g. find (\<lambda>a. a_id a = i) (agents_tab g))"

definition A_FindIdle :: "(Agent option, 'a Gateway_scheme) query" where
  "A_FindIdle = db_query (\<lambda>g. least_by a_created_at
     (filter (\<lambda>a. a_status a = AgentIdle \<and> a_user_id a = None) (agents_tab g)))"

definition A_Allocate :: "uuid \<Rightarrow> uuid \<Rightarrow> uuid \<Rightarrow> 'a Gateway_scheme exec" where
  "A_Allocate agentID userID jobID g = (let now = wall_clock g in
     db_exec (\<lambda>g. if has_agent agentID g \<and> \<not> has_job jobID g then (Some EForeignKey, g)
       else (None, g\<lparr>agents_tab := sql_update (\<lambda>a. a_id a = agentID) (\<lambda>a. a\<lparr>a_status := AgentBusy,
          a_user_id := Some userID, a_job_id := Some jobID, a_allocated_at := Some now,
          a_updated_at := now\<rparr>) (agents_tab g)\<rparr>)) g)"

definition A_Release :: "uuid \<Rightarrow> 'a Gateway_scheme exec" where
  "A_Release agentID g = (let now = wall_clock g in
     upd_agents (\<lambda>a. a_id a = agentID) (\<lambda>a. a\<lparr>a_status := AgentIdle, a_user_id := None,
       a_job_id := None, a_allocated_at := None, a_updated_at := now\<rparr>) g)"

definition A_UpdateStatus :: "uuid \<Rightarrow> AgentStatus \<Rightarrow> 'a Gateway_scheme exec" where
  "A_UpdateStatus agentID status g = (let now = wall_clock g in
     upd_agents (\<lambda>a. a_id a = agentID) (\<lambda>a. a\<lparr>a_status := status, a_updated_at := now\<rparr>) g)"

definition A_UpdateName :: "uuid \<Rightarrow> string \<Rightarrow> 'a Gateway_scheme exec" where
  "A_UpdateName agentID name g = (let now = wall_clock g in
     upd_agents (\<lambda>a. a_id a = agentID) (\<lambda>a. a\<lparr>a_name := name, a_updated_at := now\<rparr>) g)"

definition A_UpdateContainerID :: "uuid \<Rightarrow> string \<Rightarrow> 'a Gateway_scheme exec" where
  "A_UpdateContainerID agentID containerID g = (None, g)"

definition A_ListByDevice :: "uuid \<Rightarrow> (Agent list, 'a Gateway_scheme) query" where
  "A_ListByDevice deviceID = db_query (\<lambda>g. sort_key a_created_at
     (filter (\<lambda>a. a_device_id a = deviceID) (agents_tab g)))"

definition A_ListAll :: "uuid option \<Rightarrow> int \<Rightarrow> (Agent list \<times> uuid option, 'a Gateway_scheme) query"
  where
  "A_ListAll cursor limit =
     db_query (\<lambda>g. page_of a_id a_created_at (agents_tab g) (agents_tab g) cursor limit)"

definition A_ListByUser :: "uuid \<Rightarrow> (Agent list, 'a Gateway_scheme) query" where
  "A_ListByUser userID = db_query (\<lambda>g. sort_key a_created_at
     (filter (\<lambda>a. a_user_id a = Some userID \<and> a_status a = AgentBusy) (agents_tab g)))"

definition A_IdleCount :: "(nat, 'a Gateway_scheme) query" where
  "A_IdleCount = db_query (\<lambda>g. sql_count (\<lambda>a. a_status a = AgentIdle) (agents_tab g))"

definition A_CountByDevice :: "uuid \<Rightarrow> (nat, 'a Gateway_scheme) query" where
  "A_CountByDevice deviceID = db_query (\<lambda>g. sql_count (\<lambda>a. a_device_id a = deviceID \<and>
     a_status a \<noteq> AgentFailed \<and> a_status a \<noteq> AgentStatusOther ''drained'') (agents_tab g))"

definition A_Delete :: "uuid \<Rightarrow> 'a Gateway_scheme exec" where
  "A_Delete agentID = db_exec (\<lambda>g.
     if has_agent agentID g \<and> (\<exists>j \<in> set (jobs_tab g). j_agent_id j = Some agentID)
     then (Some EForeignKey, g)
     else (None, g\<lparr>agents_tab := sql_delete (\<lambda>a. a_id a = agentID) (agents_tab g)\<rparr>))"

section \<open>DeviceStore\<close>

definition ErrNotFound :: err where
  "ErrNotFound = EHandler ''store: not found''"

definition D_Create :: "Device \<Rightarrow> 'a Gateway_scheme \<Rightarrow> err option \<times> Device \<times> 'a Gateway_scheme" where
  "D_Create d0 g0 =
     (let (u, g1) = NewUUID g0; now = wall_clock g1;
          d = d0\<lparr>d_id := u, d_created_at := now, d_updated_at := now\<rparr>;
          (e, g2) = db_exec (\<lambda>g. if has_device u g \<or> (\<exists>b \<in> set (devices_tab g).
                 d_operator_id b = d_operator_id d \<and> d_name b = d_name d) then (Some EUnique, g)
            else (None, g\<lparr>devices_tab := devices_tab g @ [d\<lparr>d_last_seen_at := None\<rparr>]\<rparr>)) g1
      in (e, d, g2))"

definition D_GetByID :: "uuid \<Rightarrow> (Device option, 'a Gateway_scheme) query" where
  "D_GetByID i = db_query (\<lambda>g. find (\<lambda>d. d_id d = i) (devices_tab g))"

definition D_UpdateToken :: "uuid \<Rightarrow> string \<Rightarrow> 'a Gateway_scheme exec" where
  "D_UpdateToken i hash g = (let now = wall_clock g in
     upd_devices (\<lambda>d. d_id d = i) (\<lambda>d. d\<lparr>d_token_hash := hash, d_token_rotated_at := Some now\<rparr>) g)"

definition D_Update :: "Device \<Rightarrow> 'a Gateway_scheme exec" where
  "D_Update x g = (let now = wall_clock g;
       tab = (\<lambda>g. sql_update (\<lambda>d. d_id d = d_id x) (\<lambda>d. d\<lparr>d_name := d_name x,
                d_description := d_description x, d_updated_at := now\<rparr>) (devices_tab g)) in
     db_exec (\<lambda>g. if distinct (map (\<lambda>d. (d_operator_id d, d_name d)) (tab g))
       then (None, g\<lparr>devices_tab := tab g\<rparr>) else (Some EUnique, g)) g)"

definition D_UpdateStatus :: "uuid \<Rightarrow> DeviceStatus \<Rightarrow> 'a Gateway_scheme exec" where
  "D_UpdateStatus i status g = (let now = wall_clock g in
     if status = DeviceOnline
     then upd_devices (\<lambda>d. d_id d = i) (\<lambda>d. d\<lparr>d_status := status, d_last_seen_at := Some now\<rparr>) g
     else upd_devices (\<lambda>d. d_id d = i) (\<lambda>d. d\<lparr>d_status := status\<rparr>) g)"

definition D_UpdatePlatform :: "uuid \<Rightarrow> string \<Rightarrow> 'a Gateway_scheme exec" where
  "D_UpdatePlatform i platform = upd_devices (\<lambda>d. d_id d = i) (\<lambda>d. d\<lparr>d_platform := platform\<rparr>)"

definition D_List :: "uuid option \<Rightarrow> int \<Rightarrow> (Device list \<times> uuid option, 'a Gateway_scheme) query"
  where
  "D_List cursor limit =
     db_query (\<lambda>g. page_of d_id d_created_at (devices_tab g) (devices_tab g) cursor limit)"

definition D_ListAll :: "(Device list, 'a Gateway_scheme) query" where
  "D_ListAll = db_query (\<lambda>g. sort_key d_created_at (devices_tab g))"

definition D_GetEnrolledDevice :: "string \<Rightarrow> (Device option, 'a Gateway_scheme) query" where
  "D_GetEnrolledDevice code =
     db_query (\<lambda>g. find (\<lambda>d. d_token_hash d = code \<and> d_status d = DeviceEnrolled) (devices_tab g))"

definition D_GetByTokenHash :: "string \<Rightarrow> (Device, 'a Gateway_scheme) query" where
  "D_GetByTokenHash hash g =
     (case db_query (\<lambda>g. find (\<lambda>d. d_token_hash d = hash) (devices_tab g)) g of
        (Inl e, g1) \<Rightarrow> (Inl e, g1)
      | (Inr None, g1) \<Rightarrow> (Inl ErrNotFound, g1)
      | (Inr (Some d), g1) \<Rightarrow> (Inr d, g1))"

definition D_Delete :: "uuid \<Rightarrow> 'a Gateway_scheme exec" where
  "D_Delete i = db_exec (\<lambda>g.
     if has_device i g \<and> ((\<exists>a \<in> set (agents_tab g). a_device_id a = i)
          \<or> (\<exists>j \<in> set (jobs_tab g). j_device_id j = Some i))
     then (Some EForeignKey, g)
     else (None, g\<lparr>devices_tab := sql_delete (\<lambda>d. d_id d = i) (devices_tab g)\<rparr>))"

section \<open>The constraints hold\<close>

definition db_inv :: "'a Gateway_scheme \<Rightarrow> bool" where
  "db_inv g \<longleftrightarrow> distinct (map j_id (jobs_tab g)) \<and> distinct (map a_id (agents_tab g))
     \<and> distinct (map d_id (devices_tab g))
     \<and> distinct (map (\<lambda>a. (a_device_id a, a_port a)) (agents_tab g))
     \<and> distinct (map (\<lambda>d. (d_operator_id d, d_name d)) (devices_tab g))
     \<and> (\<forall>j \<in> set (jobs_tab g). \<forall>a. j_agent_id j = Some a \<longrightarrow> has_agent a g)
     \<and> (\<forall>j \<in> set (jobs_tab g). \<forall>d. j_device_id j = Some d \<longrightarrow> has_device d g)
     \<and> (\<forall>a \<in> set (agents_tab g). has_device (a_device_id a) g)
     \<and> (\<forall>a \<in> set (agents_tab g). \<forall>j. a_job_id a = Some j \<longrightarrow> has_job j g)"

named_theorems db_intros \<open>an operation keeps the constraints\<close>

lemma db_inv_faults [simp]: "db_inv (g\<lparr>faults := fs\<rparr>) = db_inv g"
  by (simp add: db_inv_def has_agent_def has_job_def has_device_def)

lemma db_inv_uuid [simp]: "db_inv (snd (NewUUID g)) = db_inv g"
  by (simp add: db_inv_def has_agent_def has_job_def has_device_def NewUUID_def)

lemma db_exec_inv:
  assumes "db_inv g" "\<And>g. db_inv g \<Longrightarrow> db_inv (snd (f g))"
  shows "db_inv (snd (db_exec f g))"
  using assms by (simp add: db_exec_def split: list.splits bool.splits)

lemma db_query_inv [db_intros]: "db_inv g \<Longrightarrow> db_inv (snd (db_query q g))"
  by (simp add: db_query_def split: list.splits bool.splits)

lemma map_update_key: "(\<And>r. key (f r) = key r) \<Longrightarrow> map key (sql_update P f rows) = map key rows"
  by (simp add: sql_update_def)

lemma image_update_key: "(\<And>r. key (f r) = key r) \<Longrightarrow> key ` set (sql_update P f rows) = key ` set rows"
  by (metis map_update_key set_map)

lemma jobs_update_inv:
  assumes "db_inv g" and id: "\<And>j. j_id (f j) = j_id j"
    and "\<And>j a. j \<in> set (jobs_tab g) \<Longrightarrow> P j \<Longrightarrow> j_agent_id (f j) = Some a \<Longrightarrow>
      j_agent_id j = Some a \<or> has_agent a g"
    and "\<And>j d. j \<in> set (jobs_tab g) \<Longrightarrow> P j \<Longrightarrow> j_device_id (f j) = Some d \<Longrightarrow>
      j_device_id j = Some d \<or> has_device d g"
  shows "db_inv (g\<lparr>jobs_tab := sql_update P f (jobs_tab g)\<rparr>)"
  using assms(1,3,4) map_update_key [of j_id f P "jobs_tab g", OF id]
    image_update_key [of j_id f P "jobs_tab g", OF id]
  by (auto simp: db_inv_def has_agent_def has_job_def has_device_def sql_update_set
      split: if_splits; blast)

lemma agents_update_inv:
  assumes "db_inv g" and id: "\<And>a. a_id (f a) = a_id a"
    and slot: "\<And>a. a_device_id (f a) = a_device_id a \<and> a_port (f a) = a_port a"
    and "\<And>a j. a \<in> set (agents_tab g) \<Longrightarrow> P a \<Longrightarrow> a_job_id (f a) = Some j \<Longrightarrow>
      a_job_id a = Some j \<or> has_job j g"
  shows "db_inv (g\<lparr>agents_tab := sql_update P f (agents_tab g)\<rparr>)"
  using assms(1,3,4) map_update_key [of a_id f P "agents_tab g", OF id]
    image_update_key [of a_id f P "agents_tab g", OF id]
    map_update_key [of "\<lambda>a. (a_device_id a, a_port a)" f P "agents_tab g"]
  by (auto simp: db_inv_def has_agent_def has_job_def has_device_def sql_update_set
      split: if_splits; blast)

lemma devices_update_inv:
  assumes "db_inv g" and id: "\<And>d. d_id (f d) = d_id d"
    and "distinct (map (\<lambda>d. (d_operator_id d, d_name d)) (sql_update P f (devices_tab g)))"
  shows "db_inv (g\<lparr>devices_tab := sql_update P f (devices_tab g)\<rparr>)"
  using assms(1,3) map_update_key [of d_id f P "devices_tab g", OF id]
    image_update_key [of d_id f P "devices_tab g", OF id]
  by (auto simp: db_inv_def has_agent_def has_job_def has_device_def)

lemma job_exec_inv [db_intros]:
  "db_inv g \<Longrightarrow> db_inv (snd (J_UpdateStatus i s g))"
  "db_inv g \<Longrightarrow> db_inv (snd (J_UpdateProgress i p m s g))"
  "db_inv g \<Longrightarrow> db_inv (snd (J_UpdateResult i s r g))"
  "db_inv g \<Longrightarrow> db_inv (snd (J_ClearAgent i g))"
  "db_inv g \<Longrightarrow> db_inv (snd (J_Cancel i u g))"
  "db_inv g \<Longrightarrow> db_inv (snd (J_ExpireQueued g))"
  "db_inv g \<Longrightarrow> db_inv (snd (J_ExpireDispatched d g))"
  unfolding J_UpdateStatus_def J_UpdateProgress_def J_UpdateResult_def J_ClearAgent_def J_Cancel_def
    J_ExpireQueued_def J_ExpireDispatched_def Let_def
  by (auto intro!: db_exec_inv jobs_update_inv simp: fail_job_def)

lemma J_SetAgent_inv [db_intros]: "db_inv g \<Longrightarrow> db_inv (snd (J_SetAgent i a d g))"
  unfolding J_SetAgent_def Let_def
  by (erule db_exec_inv) (auto intro!: jobs_update_inv simp: has_job_def)

lemma J_Create_inv [db_intros]: "db_inv g \<Longrightarrow> db_inv (snd (snd (J_Create j g)))"
proof -
  assume "db_inv g"
  then have "db_inv (snd (NewUUID g))" by simp
  then show ?thesis
    unfolding J_Create_def Let_def split_def snd_conv
    by (rule db_exec_inv) (auto simp: db_inv_def has_job_def has_agent_def has_device_def)
qed

lemma agent_exec_inv [db_intros]:
  "db_inv g \<Longrightarrow> db_inv (snd (A_Release i g))"
  "db_inv g \<Longrightarrow> db_inv (snd (A_UpdateStatus i s g))"
  "db_inv g \<Longrightarrow> db_inv (snd (A_UpdateName i n g))"
  unfolding A_Release_def A_UpdateStatus_def A_UpdateName_def Let_def
  by (auto intro!: db_exec_inv agents_update_inv)

lemma A_Allocate_inv [db_intros]: "db_inv g \<Longrightarrow> db_inv (snd (A_Allocate i u j g))"
  unfolding A_Allocate_def Let_def
  by (erule db_exec_inv) (auto intro!: agents_update_inv simp: has_agent_def)

lemma A_Create_inv [db_intros]: "db_inv g \<Longrightarrow> db_inv (snd (snd (A_Create a g)))"
proof -
  assume "db_inv g"
  then have "db_inv (snd (if a_id a = 0 then NewUUID g else (a_id a, g)))" by simp
  then show ?thesis
    unfolding A_Create_def Let_def split_def snd_conv
    by (rule db_exec_inv) (force simp: db_inv_def has_job_def has_agent_def has_device_def)
qed

lemma A_Delete_inv [db_intros]: "db_inv g \<Longrightarrow> db_inv (snd (A_Delete i g))"
  unfolding A_Delete_def
proof (erule db_exec_inv)
  fix g :: "'a Gateway_scheme" assume g: "db_inv g"
  have "\<forall>j \<in> set (jobs_tab g). j_agent_id j \<noteq> Some i \<Longrightarrow>
      db_inv (g\<lparr>agents_tab := sql_delete (\<lambda>a. a_id a = i) (agents_tab g)\<rparr>)"
    using g by (auto simp: db_inv_def has_job_def has_agent_def has_device_def sql_delete_distinct image_iff)
      metis+
  moreover have "\<not> has_agent i g \<Longrightarrow> \<forall>j \<in> set (jobs_tab g). j_agent_id j \<noteq> Some i"
    using g by (auto simp: db_inv_def)
  ultimately show "db_inv (snd (if has_agent i g \<and> (\<exists>j \<in> set (jobs_tab g). j_agent_id j = Some i)
      then (Some EForeignKey, g)
      else (None, g\<lparr>agents_tab := sql_delete (\<lambda>a. a_id a = i) (agents_tab g)\<rparr>)))"
    using g by auto
qed

lemma D_exec_inv [db_intros]:
  "db_inv g \<Longrightarrow> db_inv (snd (D_UpdateToken i t g))"
  "db_inv g \<Longrightarrow> db_inv (snd (D_UpdateStatus i s g))"
  "db_inv g \<Longrightarrow> db_inv (snd (D_UpdatePlatform i p g))"
proof -
  have same: "db_inv g \<Longrightarrow> (\<And>d. d_id (f d) = d_id d \<and> d_operator_id (f d) = d_operator_id d
      \<and> d_name (f d) = d_name d) \<Longrightarrow> db_inv (g\<lparr>devices_tab := sql_update P f (devices_tab g)\<rparr>)"
    for f P and g :: "'a Gateway_scheme"
    using map_update_key [of "\<lambda>d. (d_operator_id d, d_name d)" f P "devices_tab g"]
    by (intro devices_update_inv) (simp_all add: db_inv_def)
  show "db_inv g \<Longrightarrow> db_inv (snd (D_UpdateToken i t g))"
    "db_inv g \<Longrightarrow> db_inv (snd (D_UpdateStatus i s g))"
    "db_inv g \<Longrightarrow> db_inv (snd (D_UpdatePlatform i p g))"
    unfolding D_UpdateToken_def D_UpdateStatus_def D_UpdatePlatform_def Let_def
    by (auto intro!: db_exec_inv same)
qed

lemma D_Update_inv [db_intros]: "db_inv g \<Longrightarrow> db_inv (snd (D_Update d g))"
  unfolding D_Update_def Let_def
  by (erule db_exec_inv) (auto intro!: devices_update_inv)

lemma D_Create_inv [db_intros]: "db_inv g \<Longrightarrow> db_inv (snd (snd (D_Create d g)))"
proof -
  assume "db_inv g"
  then have "db_inv (snd (NewUUID g))" by simp
  then show ?thesis
    unfolding D_Create_def Let_def split_def snd_conv
    by (rule db_exec_inv) (force simp: db_inv_def has_job_def has_agent_def has_device_def)
qed

lemma D_Delete_inv [db_intros]: "db_inv g \<Longrightarrow> db_inv (snd (D_Delete i g))"
  unfolding D_Delete_def
proof (erule db_exec_inv)
  fix g :: "'a Gateway_scheme" assume g: "db_inv g"
  have d: "(\<forall>a \<in> set (agents_tab g). a_device_id a \<noteq> i) \<Longrightarrow>
      (\<forall>j \<in> set (jobs_tab g). j_device_id j \<noteq> Some i) \<Longrightarrow>
      db_inv (g\<lparr>devices_tab := sql_delete (\<lambda>d. d_id d = i) (devices_tab g)\<rparr>)"
    using g by (auto simp: db_inv_def has_job_def has_agent_def has_device_def sql_delete_distinct image_iff)
      metis+
  have "\<not> has_device i g \<Longrightarrow> (\<forall>a \<in> set (agents_tab g). a_device_id a \<noteq> i) \<and>
      (\<forall>j \<in> set (jobs_tab g). j_device_id j \<noteq> Some i)"
    using g by (auto simp: db_inv_def)
  then show "db_inv (snd (if has_device i g \<and> ((\<exists>a \<in> set (agents_tab g). a_device_id a = i)
          \<or> (\<exists>j \<in> set (jobs_tab g). j_device_id j = Some i)) then (Some EForeignKey, g)
      else (None, g\<lparr>devices_tab := sql_delete (\<lambda>d. d_id d = i) (devices_tab g)\<rparr>)))"
    using g d by auto
qed

end
