(* ===== verification/Pool.thy ===== *)
theory Pool
  imports Store Router
begin

text \<open>
  \<open>gateway/internal/pool/allocator.go\<close>: the agent pool and the job queue. The allocator works on
  the tables and the hub; its state adds \<open>pl_wakeups\<close>, the number of goroutines
  \<open>go a.dequeueNext(..)\<close> started and not yet run. The hooks \<open>SetDispatchDeps\<close> installs are functions
  on the whole state; an error of the two listers is ignored by the code, so they return a list.

  The loop of \<open>dequeueNext\<close> may run forever (\<open>dequeue_livelock\<close>), so it takes fuel and returns
  \<open>None\<close> when the fuel runs out.
\<close>

section \<open>State\<close>

record PoolState = Gateway +
  pl_wakeups :: nat

record 'h Allocator =
  al_files :: "(uuid \<Rightarrow> 'h \<Rightarrow> uuid list \<times> 'h) option"
  al_credIDs :: "(uuid \<Rightarrow> 'h \<Rightarrow> uuid list \<times> 'h) option"
  al_pushCredentials :: "(uuid \<Rightarrow> uuid \<Rightarrow> uuid \<Rightarrow> 'h \<Rightarrow> err option \<times> 'h) option"
  al_queueTTL :: duration
  al_dispatchTimeout :: duration
  al_maxQueue :: int

definition NewAllocator :: "duration \<Rightarrow> int \<Rightarrow> 'h Allocator" where
  "NewAllocator queueTTL maxQueuePerUser = \<lparr>al_files = None, al_credIDs = None,
     al_pushCredentials = None, al_queueTTL = queueTTL, al_dispatchTimeout = 5 * minute,
     al_maxQueue = maxQueuePerUser\<rparr>"

definition SetDispatchDeps where
  "SetDispatchDeps files credIDs push al =
     al\<lparr>al_files := Some files, al_credIDs := Some credIDs, al_pushCredentials := Some push\<rparr>"

type_synonym 'a pool = "'a PoolState_scheme"

section \<open>Allocate and Release\<close>

text \<open>The result is the agent, if any, with the job as the code leaves it.\<close>

definition Allocate :: "'a pool Allocator \<Rightarrow> Job \<Rightarrow> 'a pool \<Rightarrow>
    (err + Agent option) \<times> Job \<times> 'a pool" where
  "Allocate al job g =
    (let (cap, g1) = (if 0 < al_maxQueue al then
        (case J_CountQueuedByUser (j_user_id job) g of
           (Inl e, g') \<Rightarrow> (Some e, g')
         | (Inr count, g') \<Rightarrow> (if al_maxQueue al \<le> int count then Some EQueueFull else None, g'))
        else (None, g)) in
     case cap of Some e \<Rightarrow> (Inl e, job, g1) | None \<Rightarrow>
     case A_FindIdle g1 of
       (Inl e, g2) \<Rightarrow> (Inl e, job, g2)
     | (Inr None, g2) \<Rightarrow>
         let now = wall_clock g2;
             job1 = job\<lparr>j_queued_at := Some now, j_queue_expires_at := Some (now + al_queueTTL al),
                        j_status := JobQueued\<rparr>
         in (case J_GetQueuePosition (j_id job) g2 of
               (Inl e, g3) \<Rightarrow> (Inr None, job1, g3)
             | (Inr pos, g3) \<Rightarrow> (Inr None, job1\<lparr>j_queue_position := Some (int pos)\<rparr>, g3))
     | (Inr (Some agent), g2) \<Rightarrow>
         (case A_Allocate (a_id agent) (j_user_id job) (j_id job) g2 of
            (Some e, g3) \<Rightarrow> (Inl e, job, g3)
          | (None, g3) \<Rightarrow>
              (Inr (Some (agent\<lparr>a_status := AgentBusy, a_user_id := Some (j_user_id job),
                                a_job_id := Some (j_id job)\<rparr>)),
               job\<lparr>j_agent_id := Some (a_id agent), j_device_id := Some (a_device_id agent),
                   j_status := JobDispatched\<rparr>, g3)))"

definition Release :: "uuid \<Rightarrow> 'a pool exec" where
  "Release agentID g = (case A_Release agentID g of
     (Some e, g1) \<Rightarrow> (Some e, g1)
   | (None, g1) \<Rightarrow> (None, g1\<lparr>pl_wakeups := Suc (pl_wakeups g1)\<rparr>))"

definition ForceRelease :: "uuid \<Rightarrow> 'a pool exec" where
  "ForceRelease agentID = Release agentID"

section \<open>Dispatch\<close>

definition hook_list :: "(uuid \<Rightarrow> 'h \<Rightarrow> uuid list \<times> 'h) option \<Rightarrow> uuid \<Rightarrow> 'h \<Rightarrow> uuid list \<times> 'h" where
  "hook_list f i h = (case f of None \<Rightarrow> ([], h) | Some f \<Rightarrow> f i h)"

definition push_hook :: "'a pool Allocator \<Rightarrow> Job \<Rightarrow> Agent \<Rightarrow> 'a pool \<Rightarrow> 'a pool" where
  "push_hook al job agent g = (case al_pushCredentials al of None \<Rightarrow> g
     | Some f \<Rightarrow> snd (f (j_id job) (a_id agent) (a_device_id agent) g))"

definition dispatch_payload :: "Job \<Rightarrow> Agent \<Rightarrow> uuid list \<Rightarrow> uuid list \<Rightarrow> JobDispatchPayload" where
  "dispatch_payload job agent fileIDs credIDs =
     \<lparr>jd_job_id = j_id job, jd_user_id = j_user_id job, jd_agent_id = a_id agent,
      jd_command = j_command job, jd_params = (case j_params job of None \<Rightarrow> [] | Some p \<Rightarrow> p),
      jd_skill_id = j_skill_id job,
      jd_file_ids = fileIDs, jd_credential_ids = credIDs,
      jd_submitted_at = unix_milli (j_submitted_at job)\<rparr>"

definition dispatchJob :: "'a pool Allocator \<Rightarrow> Job \<Rightarrow> Agent \<Rightarrow> 'a pool exec" where
  "dispatchJob al job agent g =
     (let (fileIDs, g1) = hook_list (al_files al) (j_id job) g;
          (credIDs, g2) = hook_list (al_credIDs al) (j_id job) g1
      in case NewFrame FrameJobDispatch
                (PJobDispatch (dispatch_payload job agent fileIDs credIDs)) g2 of
           (Inl e, g3) \<Rightarrow> (Some e, g3)
         | (Inr frame, g3) \<Rightarrow>
             (case SendFrame (a_device_id agent) frame g3 of
                (Some e, g4) \<Rightarrow> (Some e, g4)
              | (None, g4) \<Rightarrow> (None, push_hook al job agent g4)))"

definition expireStale :: "'a pool Allocator \<Rightarrow> 'a pool \<Rightarrow> 'a pool" where
  "expireStale al g = snd (J_ExpireDispatched (al_dispatchTimeout al) (snd (J_ExpireQueued g)))"

definition requeue :: "Job \<Rightarrow> Agent \<Rightarrow> 'a pool \<Rightarrow> 'a pool" where
  "requeue job agent g = snd (J_UpdateStatus (j_id job) JobQueued
     (snd (J_ClearAgent (j_id job) (snd (A_Release (a_id agent) g)))))"

text \<open>One round of the loop; the first component says whether it goes round again.\<close>

definition dequeue_round :: "'a pool Allocator \<Rightarrow> 'a pool \<Rightarrow> bool \<times> 'a pool" where
  "dequeue_round al g =
    (case J_DequeueNext g of (Inl e, g1) \<Rightarrow> (False, g1) | (Inr None, g1) \<Rightarrow> (False, g1)
     | (Inr (Some job), g1) \<Rightarrow>
    (case A_FindIdle g1 of (Inl e, g2) \<Rightarrow> (False, g2) | (Inr None, g2) \<Rightarrow> (False, g2)
     | (Inr (Some agent), g2) \<Rightarrow>
    (case A_Allocate (a_id agent) (j_user_id job) (j_id job) g2 of (Some e, g3) \<Rightarrow> (False, g3)
     | (None, g3) \<Rightarrow>
    (case J_SetAgent (j_id job) (a_id agent) (a_device_id agent) g3 of (Some e, g4) \<Rightarrow> (False, g4)
     | (None, g4) \<Rightarrow>
    (case dispatchJob al job agent g4 of
       (Some e, g5) \<Rightarrow> (True, requeue job agent g5)
     | (None, g5) \<Rightarrow> (True, g5))))))"

fun dequeue_loop :: "'a pool Allocator \<Rightarrow> nat \<Rightarrow> 'a pool \<Rightarrow> 'a pool option" where
  "dequeue_loop al 0 g = None"
| "dequeue_loop al (Suc n) g =
     (let (again, g1) = dequeue_round al g in if again then dequeue_loop al n g1 else Some g1)"

definition dequeueNext :: "'a pool Allocator \<Rightarrow> nat \<Rightarrow> 'a pool \<Rightarrow> 'a pool option" where
  "dequeueNext al fuel g = dequeue_loop al fuel (expireStale al g)"

text \<open>One of the goroutines waiting to run \<open>dequeueNext\<close> does so.\<close>

definition run_wakeup :: "'a pool Allocator \<Rightarrow> nat \<Rightarrow> 'a pool \<Rightarrow> 'a pool option" where
  "run_wakeup al fuel g = (if pl_wakeups g = 0 then Some g
     else dequeueNext al fuel (g\<lparr>pl_wakeups := pl_wakeups g - 1\<rparr>))"

section \<open>The pool of a device\<close>

definition new_agent :: "uuid \<Rightarrow> uuid \<Rightarrow> nat \<Rightarrow> (uuid \<Rightarrow> string) \<Rightarrow> Agent" where
  "new_agent agentID deviceID i str =
     \<lparr>a_id = agentID, a_device_id = deviceID, a_user_id = None,
      a_name = ''agent-'' @ take 8 (str agentID), a_description = '''',
      a_image = ''iagent/agent:dev'', a_port = int i + 42000,
      a_tags = [''opencode'', ''camoufox''], a_status = AgentCreating, a_job_id = None,
      a_limits = Some defaultLimits, a_allocated_at = None, a_created_at = 0, a_updated_at = 0\<rparr>"

text \<open>The loop \<open>for i := currentCount; i < desiredSize; i++\<close> with \<open>n\<close> rounds to go.\<close>

fun ensure_loop :: "uuid \<Rightarrow> nat \<Rightarrow> nat \<Rightarrow> 'a pool exec" where
  "ensure_loop deviceID i 0 g = (None, g)"
| "ensure_loop deviceID i (Suc n) g =
    (let (agentID, g1) = NewUUID g in
     case A_Create (new_agent agentID deviceID i (uuid_str g1)) g1 of
       (Some e, _, g2) \<Rightarrow> (Some e, g2)
     | (None, agent, g2) \<Rightarrow>
        (case NewFrame FrameAgentCreate (PAgentCreate \<lparr>ac_agent_id = agentID,
               ac_image = ''iagent/agent:dev'', ac_tags = [''opencode'', ''camoufox''],
               ac_limits = defaultLimits, ac_env = []\<rparr>) g2 of
           (Inl e, g3) \<Rightarrow> (Some e, g3)
         | (Inr frame, g3) \<Rightarrow> ensure_loop deviceID (Suc i) n (snd (SendFrame deviceID frame g3))))"

definition EnsurePoolSize :: "uuid \<Rightarrow> nat \<Rightarrow> 'a pool exec" where
  "EnsurePoolSize deviceID desiredSize g = (case A_CountByDevice deviceID g of
     (Inl e, g1) \<Rightarrow> (Some e, g1)
   | (Inr currentCount, g1) \<Rightarrow> ensure_loop deviceID currentCount (desiredSize - currentCount) g1)"

fun redispatch_jobs :: "'a pool Allocator \<Rightarrow> Agent \<Rightarrow> Job list \<Rightarrow> 'a pool \<Rightarrow> 'a pool" where
  "redispatch_jobs al agent [] g = g"
| "redispatch_jobs al agent (job # jobs) g =
    (let redispatchAfter = 15 * second in
     if j_status job \<noteq> JobDispatched then redispatch_jobs al agent jobs g
     else case j_started_at job of None \<Rightarrow> redispatch_jobs al agent jobs g
     | Some t \<Rightarrow>
        if wall_clock g - t < redispatchAfter then redispatch_jobs al agent jobs g
        else (case dispatchJob al job agent g of
            (Some e, g1) \<Rightarrow> redispatch_jobs al agent jobs g1
          | (None, g1) \<Rightarrow> redispatch_jobs al agent jobs (push_hook al job agent g1)))"

fun redispatchLostJobs :: "'a pool Allocator \<Rightarrow> Agent list \<Rightarrow> 'a pool \<Rightarrow> 'a pool" where
  "redispatchLostJobs al [] g = g"
| "redispatchLostJobs al (agent # agents) g = (case J_ListByAgent (a_id agent) g of
     (Inl e, g1) \<Rightarrow> redispatchLostJobs al agents g1
   | (Inr activeJobs, g1) \<Rightarrow> redispatchLostJobs al agents (redispatch_jobs al agent activeJobs g1))"

fun promote_agents :: "Agent list \<Rightarrow> HelloAgent list \<Rightarrow> 'a pool \<Rightarrow> 'a pool" where
  "promote_agents dbAgents [] g = g"
| "promote_agents dbAgents (ha # has) g =
    (case find (\<lambda>a. a_id a = ha_agent_id ha) dbAgents of
       Some da \<Rightarrow> promote_agents dbAgents has
         (if a_status da = AgentCreating then snd (A_UpdateStatus (ha_agent_id ha) AgentIdle g) else g)
     | None \<Rightarrow> promote_agents dbAgents has g)"

definition gracePeriod :: duration where
  "gracePeriod = 2 * minute"

text \<open>The deletion loop; the result counts the agents deleted.\<close>

fun delete_stale :: "uuid list \<Rightarrow> time \<Rightarrow> Agent list \<Rightarrow> 'a pool \<Rightarrow> nat \<times> 'a pool" where
  "delete_stale helloIDs cutoff [] g = (0, g)"
| "delete_stale helloIDs cutoff (da # das) g =
    (if a_id da \<notin> set helloIDs \<and>
        (a_status da = AgentCreating \<and> a_created_at da < cutoff \<or> a_status da = AgentIdle)
     then (case A_Delete (a_id da) g of
         (Some e, g1) \<Rightarrow> delete_stale helloIDs cutoff das g1
       | (None, g1) \<Rightarrow> (let (n, g2) = delete_stale helloIDs cutoff das g1 in (Suc n, g2)))
     else delete_stale helloIDs cutoff das g)"

definition ReconcilePool :: "'a pool Allocator \<Rightarrow> uuid \<Rightarrow> HelloAgent list \<Rightarrow> 'a pool exec" where
  "ReconcilePool al deviceID helloAgents g = (case A_ListByDevice deviceID g of
     (Inl e, g1) \<Rightarrow> (Some e, g1)
   | (Inr dbAgents, g1) \<Rightarrow>
      (let g2 = promote_agents dbAgents helloAgents g1;
           (deleted, g3) = delete_stale (map ha_agent_id helloAgents)
                             (wall_clock g2 - gracePeriod) dbAgents g2
       in if 0 < deleted then EnsurePoolSize deviceID (max 1 (length dbAgents)) g3
          else
            let (remaining, g4) = (case A_CountByDevice deviceID g3 of
                    (Inl e, g') \<Rightarrow> (0, g') | (Inr n, g') \<Rightarrow> (n, g'));
                g5 = (if remaining = 0 then snd (EnsurePoolSize deviceID 1 g4) else g4);
                g6 = g5\<lparr>pl_wakeups := Suc (pl_wakeups g5)\<rparr>
            in (None, redispatchLostJobs al dbAgents g6)))"

section \<open>Draining\<close>

fun clear_agents :: "Job list \<Rightarrow> 'a pool \<Rightarrow> 'a pool" where
  "clear_agents [] g = g"
| "clear_agents (j # js) g = clear_agents js (snd (J_ClearAgent (j_id j) g))"

definition nullTerminalJobsForAgent :: "uuid \<Rightarrow> 'a pool exec" where
  "nullTerminalJobsForAgent agentID g = (case J_ListByAgent agentID g of
     (Inl e, g1) \<Rightarrow> (Some e, g1)
   | (Inr jobs, g1) \<Rightarrow> (case find (\<lambda>j. \<not> IsTerminal (j_status j)) jobs of
        Some j \<Rightarrow> (Some (EActiveJob (j_id j) (j_status j)), g1)
      | None \<Rightarrow> (None, clear_agents jobs g1)))"

definition DrainAgent :: "uuid \<Rightarrow> 'a pool exec" where
  "DrainAgent agentID g = (case A_GetByID agentID g of
     (Inl e, g1) \<Rightarrow> (Some e, g1)
   | (Inr None, g1) \<Rightarrow> (Some EAgentNotFound, g1)
   | (Inr (Some agent), g1) \<Rightarrow>
      (let (f, g2) = NewFrame FrameAgentAction
             (PAgentAction \<lparr>aa_agent_id = agentID, aa_action = ''drain''\<rparr>) g1;
           g3 = (case f of Inl e \<Rightarrow> g2 | Inr frame \<Rightarrow> snd (SendFrame (a_device_id agent) frame g2))
       in if a_status agent = AgentIdle \<or> a_status agent = AgentFailed then
            (case A_Delete agentID g3 of
               (None, g4) \<Rightarrow> (None, g4)
             | (Some _, g4) \<Rightarrow> (case nullTerminalJobsForAgent agentID g4 of
                  (Some e, g5) \<Rightarrow> (Some e, g5)
                | (None, g5) \<Rightarrow> A_Delete agentID g5))
          else A_UpdateStatus agentID AgentFailed g3))"

definition Stats :: "(PoolStats, 'a pool) query" where
  "Stats g = (case A_IdleCount g of
     (Inl e, g1) \<Rightarrow> (Inl e, g1)
   | (Inr idle, g1) \<Rightarrow> (Inr \<lparr>ps_total_agents = 0, ps_idle_agents = int idle, ps_busy_agents = 0,
        ps_online_devices = int (OnlineCount g1)\<rparr>, g1))"

end
