(* ===== verification/PoolInv.thy ===== *)
theory PoolInv
  imports Pool
begin

text \<open>
  What holds through every operation of the allocator. The locale \<open>store_keeps\<close> is a property of the state
  the database calls and the tunnel keep, \<open>pool_hooks\<close> adds the hooks installed by \<open>SetDispatchDeps\<close>. The
  constraints of the tables are such a property (\<open>pool_keeps_constraints\<close>).
\<close>

section \<open>The tunnel leaves the tables alone\<close>

lemma SendFrame_tables [simp]:
  "jobs_tab (snd (SendFrame d f g)) = jobs_tab g"
  "agents_tab (snd (SendFrame d f g)) = agents_tab g"
  "devices_tab (snd (SendFrame d f g)) = devices_tab g"
  "faults (snd (SendFrame d f g)) = faults g"
  "wall_clock (snd (SendFrame d f g)) = wall_clock g"
  "hb_devices (snd (SendFrame d f g)) = hb_devices g"
  by (simp_all add: SendFrame_def Let_def split: option.splits)

lemma NewFrame_tables [simp]:
  "jobs_tab (snd (NewFrame t p g)) = jobs_tab g"
  "agents_tab (snd (NewFrame t p g)) = agents_tab g"
  "devices_tab (snd (NewFrame t p g)) = devices_tab g"
  "faults (snd (NewFrame t p g)) = faults g"
  "wall_clock (snd (NewFrame t p g)) = wall_clock g"
  "hb_devices (snd (NewFrame t p g)) = hb_devices g"
  "hb_conn (snd (NewFrame t p g)) = hb_conn g"
  by (simp_all add: NewFrame_def NewUUID_def Let_def)

lemma db_inv_same_tables:
  "jobs_tab g' = jobs_tab g \<Longrightarrow> agents_tab g' = agents_tab g \<Longrightarrow> devices_tab g' = devices_tab g \<Longrightarrow>
     db_inv g' = db_inv g"
  by (simp add: db_inv_def has_agent_def has_job_def has_device_def)

lemma db_inv_frames [simp]:
  "db_inv (snd (SendFrame d f g)) = db_inv g"
  "db_inv (snd (NewFrame t p g)) = db_inv g"
  by (rule db_inv_same_tables; simp)+

lemma db_inv_wakeups [simp]: "db_inv (g\<lparr>pl_wakeups := n\<rparr>) = db_inv g"
  by (rule db_inv_same_tables) simp_all

section \<open>What holds through every operation\<close>

text \<open>
  A property of the state that the database calls, a fresh id, a frame sent and a goroutine started keep.
  The locale lists the writing calls; the reading ones consume an entry of the script of faults only.
\<close>

locale store_keeps =
  fixes P :: "'a pool \<Rightarrow> bool"
  assumes keeps_faults: "P g \<Longrightarrow> P (g\<lparr>faults := fs\<rparr>)"
    and keeps_uuid: "P g \<Longrightarrow> P (snd (NewUUID g))"
    and keeps_send: "P g \<Longrightarrow> P (snd (SendFrame d f g))"
    and keeps_wakeups: "P g \<Longrightarrow> P (g\<lparr>pl_wakeups := n\<rparr>)"
    and keeps_J_Create: "P g \<Longrightarrow> P (snd (snd (J_Create j g)))"
    and keeps_J_UpdateStatus: "P g \<Longrightarrow> P (snd (J_UpdateStatus i js g))"
    and keeps_J_UpdateProgress: "P g \<Longrightarrow> P (snd (J_UpdateProgress i pc m js g))"
    and keeps_J_UpdateResult: "P g \<Longrightarrow> P (snd (J_UpdateResult i js r g))"
    and keeps_J_SetAgent: "P g \<Longrightarrow> P (snd (J_SetAgent i a dv g))"
    and keeps_J_ClearAgent: "P g \<Longrightarrow> P (snd (J_ClearAgent i g))"
    and keeps_J_Cancel: "P g \<Longrightarrow> P (snd (J_Cancel i u g))"
    and keeps_J_ExpireQueued: "P g \<Longrightarrow> P (snd (J_ExpireQueued g))"
    and keeps_J_ExpireDispatched: "P g \<Longrightarrow> P (snd (J_ExpireDispatched t g))"
    and keeps_A_Create: "P g \<Longrightarrow> P (snd (snd (A_Create ag g)))"
    and keeps_A_Allocate: "P g \<Longrightarrow> P (snd (A_Allocate i u jb g))"
    and keeps_A_Release: "P g \<Longrightarrow> P (snd (A_Release i g))"
    and keeps_A_UpdateStatus: "P g \<Longrightarrow> P (snd (A_UpdateStatus i as g))"
    and keeps_A_UpdateName: "P g \<Longrightarrow> P (snd (A_UpdateName i nm g))"
    and keeps_A_Delete: "P g \<Longrightarrow> P (snd (A_Delete i g))"
    and keeps_D_Create: "P g \<Longrightarrow> P (snd (snd (D_Create dev g)))"
    and keeps_D_UpdateStatus: "P g \<Longrightarrow> P (snd (D_UpdateStatus i ds g))"
    and keeps_D_UpdatePlatform: "P g \<Longrightarrow> P (snd (D_UpdatePlatform i nm g))"
    and keeps_D_Delete: "P g \<Longrightarrow> P (snd (D_Delete i g))"
begin

lemma keeps_query: "P g \<Longrightarrow> P (snd (db_query q g))"
  by (simp add: db_query_def keeps_faults split: list.splits bool.splits)

lemma keeps_NewFrame: "P g \<Longrightarrow> P (snd (NewFrame t p g))"
  by (simp add: NewFrame_def Let_def split_def keeps_uuid)

lemmas keeps = keeps_faults keeps_uuid keeps_send keeps_wakeups keeps_J_Create keeps_J_UpdateStatus
  keeps_J_UpdateProgress keeps_J_UpdateResult keeps_J_SetAgent keeps_J_ClearAgent keeps_J_Cancel
  keeps_J_ExpireQueued keeps_J_ExpireDispatched keeps_A_Create keeps_A_Allocate keeps_A_Release
  keeps_A_UpdateStatus keeps_A_UpdateName keeps_A_Delete keeps_D_Create keeps_D_UpdateStatus
  keeps_D_UpdatePlatform keeps_D_Delete keeps_NewFrame

lemma keeps_queries:
  "P g \<Longrightarrow> P (snd (J_DequeueNext g))" "P g \<Longrightarrow> P (snd (A_FindIdle g))"
  "P g \<Longrightarrow> P (snd (J_CountQueuedByUser u g))" "P g \<Longrightarrow> P (snd (J_GetQueuePosition u g))"
  "P g \<Longrightarrow> P (snd (A_CountByDevice u g))" "P g \<Longrightarrow> P (snd (A_ListByDevice u g))"
  "P g \<Longrightarrow> P (snd (J_ListByAgent u g))" "P g \<Longrightarrow> P (snd (A_GetByID u g))"
  "P g \<Longrightarrow> P (snd (J_GetByID u g))" "P g \<Longrightarrow> P (snd (A_IdleCount g))"
  by (simp_all add: J_DequeueNext_def A_FindIdle_def J_CountQueuedByUser_def J_GetQueuePosition_def
      A_CountByDevice_def A_ListByDevice_def J_ListByAgent_def A_GetByID_def J_GetByID_def
      A_IdleCount_def Let_def keeps_query)

text \<open>
  Stepping through a case analysis on the result of an operation: the property holds of the
  state after it, and the branches go on from there.
\<close>

lemma keep_case:
  "P (snd m) \<Longrightarrow> (\<And>r s. P s \<Longrightarrow> P (snd (k r s))) \<Longrightarrow> P (snd (case_prod k m))"
  by (cases m) simp

lemma keep_case_state:
  "P (snd m) \<Longrightarrow> (\<And>r s. P s \<Longrightarrow> P (k r s)) \<Longrightarrow> P (case_prod k m)"
  by (cases m) simp

lemma keep_case2:
  "P (snd m) \<Longrightarrow> (\<And>r s. P s \<Longrightarrow> P (snd (snd (k r s)))) \<Longrightarrow> P (snd (snd (case_prod k m)))"
  by (cases m) simp

lemma keep_case3:
  "P (snd (snd m)) \<Longrightarrow> (\<And>r a s. P s \<Longrightarrow> P (snd (k r (a, s)))) \<Longrightarrow> P (snd (case_prod k m))"
  by (cases m) auto

lemmas keep_cases = keep_case keep_case_state keep_case2

end

text \<open>
  The hooks \<open>SetDispatchDeps\<close> installs are the client's: they must keep the property.
\<close>

definition hook_keeps :: "('a pool \<Rightarrow> bool) \<Rightarrow> 'a pool Allocator \<Rightarrow> bool" where
  "hook_keeps P al \<longleftrightarrow>
     (\<forall>f i g. al_files al = Some f \<longrightarrow> P g \<longrightarrow> P (snd (f i g)))
   \<and> (\<forall>f i g. al_credIDs al = Some f \<longrightarrow> P g \<longrightarrow> P (snd (f i g)))
   \<and> (\<forall>f i j k g. al_pushCredentials al = Some f \<longrightarrow> P g \<longrightarrow> P (snd (f i j k g)))"

locale pool_hooks = store_keeps P for P :: "'a pool \<Rightarrow> bool" +
  fixes al :: "'a pool Allocator"
  assumes hooks_inv: "hook_keeps P al"
begin

lemma hook_list_inv:
  "P g \<Longrightarrow> P (snd (hook_list (al_files al) i g))"
  "P g \<Longrightarrow> P (snd (hook_list (al_credIDs al) i g))"
  using hooks_inv by (auto simp: hook_keeps_def hook_list_def split: option.splits)

lemma push_hook_inv: "P g \<Longrightarrow> P (push_hook al job agent g)"
  using hooks_inv by (auto simp: hook_keeps_def push_hook_def split: option.splits)

lemma dispatchJob_inv: "P g \<Longrightarrow> P (snd (dispatchJob al job agent g))"
  unfolding dispatchJob_def Let_def
  by (auto intro!: keep_cases hook_list_inv push_hook_inv keeps split: sum.splits option.splits)

lemma requeue_inv: "P g \<Longrightarrow> P (requeue job agent g)"
  by (simp add: requeue_def keeps keeps_queries)

lemma expireStale_inv: "P g \<Longrightarrow> P (expireStale al g)"
  by (simp add: expireStale_def keeps keeps_queries)

lemma dequeue_round_inv: "P g \<Longrightarrow> P (snd (dequeue_round al g))"
  unfolding dequeue_round_def
  by (auto intro!: keep_cases keeps keeps_queries dispatchJob_inv requeue_inv split: sum.splits option.splits)

lemma dequeue_loop_inv: "P g \<Longrightarrow> dequeue_loop al n g = Some g' \<Longrightarrow> P g'"
proof (induction n arbitrary: g)
  case 0
  then show ?case by simp
next
  case (Suc n)
  then show ?case
    using dequeue_round_inv [OF Suc.prems(1)] by (auto simp: Let_def split_def split: if_splits)
qed

lemma dequeueNext_inv: "P g \<Longrightarrow> dequeueNext al n g = Some g' \<Longrightarrow> P g'"
  unfolding dequeueNext_def by (rule dequeue_loop_inv [OF expireStale_inv])

lemma run_wakeup_inv: "P g \<Longrightarrow> run_wakeup al n g = Some g' \<Longrightarrow> P g'"
  by (auto simp: run_wakeup_def split: if_splits intro: dequeueNext_inv [OF keeps_wakeups])

lemma Release_inv: "P g \<Longrightarrow> P (snd (Release i g))"
  unfolding Release_def by (auto intro!: keep_cases keeps keeps_queries split: option.splits)

lemma Allocate_inv: "P g \<Longrightarrow> P (snd (snd (Allocate al job g)))"
  unfolding Allocate_def Let_def
  by (auto intro!: keep_cases keeps keeps_queries split: sum.splits option.splits)

lemma ensure_loop_inv: "P g \<Longrightarrow> P (snd (ensure_loop d i n g))"
  by (induction n arbitrary: i g)
    (auto simp: Let_def keeps_send intro!: keep_case3 keep_cases keeps keeps_queries split: sum.splits option.splits)

lemma EnsurePoolSize_inv: "P g \<Longrightarrow> P (snd (EnsurePoolSize d n g))"
  unfolding EnsurePoolSize_def
  by (auto intro!: keep_cases keeps keeps_queries ensure_loop_inv split: sum.splits)

lemma redispatch_jobs_inv: "P g \<Longrightarrow> P (redispatch_jobs al agent jobs g)"
  by (induction jobs arbitrary: g)
    (auto simp: Let_def push_hook_inv intro!: keep_cases dispatchJob_inv split: option.splits)

lemma redispatch_inv: "P g \<Longrightarrow> P (redispatchLostJobs al agents g)"
  by (induction agents arbitrary: g)
    (auto simp: redispatch_jobs_inv intro!: keep_cases keeps keeps_queries split: sum.splits)

lemma promote_inv: "P g \<Longrightarrow> P (promote_agents das has g)"
  by (induction has arbitrary: g) (auto simp: keeps keeps_queries split: option.splits)

lemma delete_stale_inv: "P g \<Longrightarrow> P (snd (delete_stale ids t das g))"
proof (induction das arbitrary: g)
  case Nil
  then show ?case by simp
next
  case (Cons a das)
  have d: "P (snd (A_Delete (a_id a) g))" using Cons.prems by (rule keeps_A_Delete)
  show ?case
    unfolding delete_stale.simps Let_def
    by (split if_split, intro conjI impI keep_case d)
      (simp_all add: Cons split: option.splits prod.splits, metis Cons.IH snd_conv)
qed

lemma ReconcilePool_inv: "P g \<Longrightarrow> P (snd (ReconcilePool al d has g))"
  unfolding ReconcilePool_def Let_def
  by (auto intro!: keep_cases keeps keeps_queries promote_inv delete_stale_inv EnsurePoolSize_inv redispatch_inv
      split: sum.splits)

lemma clear_agents_inv: "P g \<Longrightarrow> P (clear_agents js g)"
  by (induction js arbitrary: g) (auto simp: keeps keeps_queries)

lemma nullTerminal_inv: "P g \<Longrightarrow> P (snd (nullTerminalJobsForAgent i g))"
  unfolding nullTerminalJobsForAgent_def
  by (auto intro!: keep_cases keeps keeps_queries clear_agents_inv split: sum.splits option.splits)

lemma DrainAgent_inv: "P g \<Longrightarrow> P (snd (DrainAgent i g))"
  unfolding DrainAgent_def Let_def
  by (auto intro!: keep_cases keeps keeps_queries nullTerminal_inv split: sum.splits option.splits)

lemma Stats_inv: "P g \<Longrightarrow> P (snd (Stats g))"
  unfolding Stats_def by (auto intro!: keep_cases keeps keeps_queries split: sum.splits)

end

section \<open>The constraints\<close>

text \<open>The keys of the tables are such a property; an allocator without hooks needs nothing more.\<close>

interpretation db: store_keeps db_inv
  by unfold_locales (simp_all add: db_intros)

lemma db_hooks: "hook_keeps db_inv al \<Longrightarrow> pool_hooks db_inv al"
  by unfold_locales

interpretation fresh: pool_hooks db_inv "NewAllocator ttl n" for ttl n
  by unfold_locales (simp add: hook_keeps_def NewAllocator_def)

section \<open>The pool as a step system\<close>

inductive pool_step :: "'a pool Allocator \<Rightarrow> 'a pool \<Rightarrow> 'a pool \<Rightarrow> bool" for al where
  submit: "pool_step al g (snd (snd (J_Create job g)))"
| allocate: "pool_step al g (snd (snd (Allocate al job g)))"
| release: "pool_step al g (snd (Release i g))"
| wakeup: "run_wakeup al n g = Some g' \<Longrightarrow> pool_step al g g'"
| expire: "pool_step al g (expireStale al g)"
| ensure: "pool_step al g (snd (EnsurePoolSize d n g))"
| reconcile: "pool_step al g (snd (ReconcilePool al d has g))"
| drain: "pool_step al g (snd (DrainAgent i g))"
| stats: "pool_step al g (snd (Stats g))"
| status: "pool_step al g (snd (J_UpdateStatus i s g))"
| progress: "pool_step al g (snd (J_UpdateProgress i pc m s g))"
| outcome: "pool_step al g (snd (J_UpdateResult i s r g))"
| cancel: "pool_step al g (snd (J_Cancel i u g))"
| agent_status: "pool_step al g (snd (A_UpdateStatus i as g))"
| agent_name: "pool_step al g (snd (A_UpdateName i name g))"
| device: "pool_step al g (snd (snd (D_Create dv g)))"
| device_status: "pool_step al g (snd (D_UpdateStatus i ds g))"
| device_delete: "pool_step al g (snd (D_Delete i g))"
| frame: "pool_step al g (snd (SendFrame d f g))"
| time: "pool_step al g (g\<lparr>wall_clock := t\<rparr>)"

context pool_hooks
begin

lemma pool_step_inv:
  assumes time: "\<And>g t. P g \<Longrightarrow> P (g\<lparr>wall_clock := t\<rparr>)"
  shows "pool_step al g g' \<Longrightarrow> P g \<Longrightarrow> P g'"
proof (induction rule: pool_step.induct)
  case (wakeup n g g')
  then show ?case by (rule run_wakeup_inv [rotated])
next
  case (time g t)
  then show ?case using assms by blast
qed (intro keeps Allocate_inv Release_inv expireStale_inv EnsurePoolSize_inv ReconcilePool_inv
      DrainAgent_inv Stats_inv; assumption)+

lemma pool_run_inv:
  assumes "\<And>g t. P g \<Longrightarrow> P (g\<lparr>wall_clock := t\<rparr>)"
  shows "(pool_step al)\<^sup>*\<^sup>* g g' \<Longrightarrow> P g \<Longrightarrow> P g'"
  by (induction rule: rtranclp.induct) (auto intro: pool_step_inv [OF assms])

end

section \<open>Properties\<close>

definition sample_pool :: PoolState where
  "sample_pool = \<lparr>wall_clock = 100 * hour, uuid_seq = (\<lambda>n. of_nat n + 1000), uuid_pos = 0,
     uuid_str = bit_text, hb_registry = [], hb_nodeID = ''n'', hb_mu = False, hb_devices = [],
     hb_conn = (\<lambda>_. sample_conn 7), hb_next = 1, hb_pending = [],
     hb_heartbeatMissThreshold = 45 * second, agents_tab = [], jobs_tab = [], devices_tab = [],
     faults = [], pl_wakeups = 0\<rparr>"

text \<open>
  Whatever sequence of allocations, releases, wake-ups, reconciliations,
  drains, job and device updates runs, and whichever database calls fail in between, the primary
  and foreign keys between jobs, agents and devices and the uniqueness of a device's ports hold,
  provided the hooks keep them.
\<close>

theorem pool_keeps_constraints:
  assumes "hook_keeps db_inv al" "(pool_step al)\<^sup>*\<^sup>* g g'" "db_inv g"
  shows "db_inv g'"
proof -
  have "db_inv (k\<lparr>wall_clock := t\<rparr>)" if "db_inv k" for k :: "'a pool" and t
    using that by (simp add: db_inv_def has_agent_def has_job_def has_device_def)
  then show ?thesis using pool_hooks.pool_run_inv [OF db_hooks [OF assms(1)], of g g'] assms(2,3) by blast
qed

theorem pool_keeps_constraints_witness:
  "db_inv (snd (EnsurePoolSize 7 2 sample_pool))"
proof (rule pool_keeps_constraints [where g = sample_pool and al = "NewAllocator hour 5"])
  show "hook_keeps db_inv (NewAllocator hour 5 :: PoolState Allocator)"
    by (simp add: hook_keeps_def NewAllocator_def)
  show "(pool_step (NewAllocator hour 5))\<^sup>*\<^sup>* sample_pool (snd (EnsurePoolSize 7 2 sample_pool))"
    by (rule r_into_rtranclp) (rule pool_step.ensure)
  show "db_inv sample_pool"
    by (simp add: db_inv_def sample_pool_def)
qed

end
