(* ===== verification/PoolProps.thy ===== *)
theory PoolProps
  imports PoolInv
begin

text \<open>
  The behaviour of the allocator: what \<open>Allocate\<close> does on each path, when the queue is drained
  (\<open>dequeue_drains\<close>) and when the loop never ends (\<open>dequeue_livelock\<close>), and the paths on which an
  agent or a job is left behind.
\<close>

section \<open>Calls that do not fail\<close>

lemma db_exec_ok: "faults g = [] \<Longrightarrow> db_exec f g = f g"
  by (simp add: db_exec_def)

lemma db_query_ok: "faults g = [] \<Longrightarrow> db_query q g = (Inr (q g), g)"
  by (simp add: db_query_def)

lemmas db_ok = db_exec_ok db_query_ok

definition queued_of :: "uuid \<Rightarrow> 'a pool \<Rightarrow> nat" where
  "queued_of u g = sql_count (\<lambda>j. j_user_id j = u \<and> j_status j = JobQueued) (jobs_tab g)"

definition idle_agents :: "'a pool \<Rightarrow> Agent list" where
  "idle_agents g = filter (\<lambda>a. a_status a = AgentIdle \<and> a_user_id a = None) (agents_tab g)"

definition dequeuable :: "'a pool \<Rightarrow> Job list" where
  "dequeuable g = filter (\<lambda>j. j_status j = JobQueued \<and>
     (case j_queue_expires_at j of None \<Rightarrow> False | Some t \<Rightarrow> wall_clock g < t)) (jobs_tab g)"

lemma FindIdle_ok: "faults g = [] \<Longrightarrow> A_FindIdle g = (Inr (least_by a_created_at (idle_agents g)), g)"
  by (simp add: A_FindIdle_def db_ok idle_agents_def)

lemma DequeueNext_ok: "faults g = [] \<Longrightarrow> J_DequeueNext g =
    (Inr (least_by (\<lambda>j. (UserTier_str (j_user_tier j), j_created_at j)) (dequeuable g)), g)"
  by (simp add: J_DequeueNext_def db_ok dequeuable_def Let_def)

definition sample_agent :: "uuid \<Rightarrow> uuid \<Rightarrow> Agent" where
  "sample_agent i d = \<lparr>a_id = i, a_device_id = d, a_user_id = None, a_name = ''a'',
     a_description = '''', a_image = ''img'', a_port = 42000, a_tags = [], a_status = AgentIdle,
     a_job_id = None, a_limits = Some defaultLimits, a_allocated_at = None, a_created_at = 1,
     a_updated_at = 1\<rparr>"

definition sample_job :: "uuid \<Rightarrow> JobStatus \<Rightarrow> Job" where
  "sample_job i s = \<lparr>j_id = i, j_user_id = 9, j_user_tier = TierFree, j_agent_id = None,
     j_device_id = None, j_channel = ''web'', j_command = ''run'', j_params = None, j_skill_id = None,
     j_status = s, j_percent = Some 0, j_progress_message = None, j_result = None,
     j_error_code = None, j_error_message = None, j_queued_at = Some 0,
     j_queue_expires_at = Some (200 * hour), j_submitted_at = 0, j_started_at = None,
     j_finished_at = None, j_created_at = 1, j_updated_at = 1, j_queue_position = None,
     j_estimated_wait_seconds = None\<rparr>"

definition sample_device :: "uuid \<Rightarrow> Device" where
  "sample_device i = \<lparr>d_id = i, d_operator_id = 9, d_name = ''dev'', d_description = '''',
     d_platform = ''linux'', d_status = DeviceOffline, d_token_hash = ''h'',
     d_token_rotated_at = None, d_last_seen_at = None, d_resources = None, d_created_at = 0,
     d_updated_at = 0\<rparr>"

text \<open>A pool with device 7, its idle agent 3 and the queued job 5; the device is not connected.\<close>

definition offline_pool :: PoolState where
  "offline_pool = sample_pool\<lparr>agents_tab := [sample_agent 3 7], jobs_tab := [sample_job 5 JobQueued],
     devices_tab := [sample_device 7]\<rparr>"

lemmas samples = offline_pool_def sample_pool_def sample_agent_def sample_job_def sample_device_def

section \<open>Allocate\<close>

definition capped :: "'a pool Allocator \<Rightarrow> uuid \<Rightarrow> 'a pool \<Rightarrow> bool" where
  "capped al u g \<longleftrightarrow> 0 < al_maxQueue al \<and> al_maxQueue al \<le> int (queued_of u g)"

definition taken :: "uuid \<Rightarrow> uuid \<Rightarrow> time \<Rightarrow> Agent \<Rightarrow> Agent" where
  "taken u j now a = a\<lparr>a_status := AgentBusy, a_user_id := Some u, a_job_id := Some j,
     a_allocated_at := Some now, a_updated_at := now\<rparr>"

lemma A_Allocate_ok: "faults g = [] \<Longrightarrow> has_job j g \<Longrightarrow> A_Allocate i u j g =
    (None, g\<lparr>agents_tab := sql_update (\<lambda>a. a_id a = i) (taken u j (wall_clock g)) (agents_tab g)\<rparr>)"
  by (simp add: A_Allocate_def db_ok Let_def taken_def [abs_def])

lemma Count_ok: "faults g = [] \<Longrightarrow> J_CountQueuedByUser u g = (Inr (queued_of u g), g)"
  by (simp add: J_CountQueuedByUser_def queued_of_def db_ok)

lemma Position_ok: "faults g = [] \<Longrightarrow> \<exists>n. J_GetQueuePosition i g = (Inr n, g)"
  by (simp add: J_GetQueuePosition_def db_ok)

lemma Allocate_capped:
  "faults g = [] \<Longrightarrow> capped al (j_user_id job) g \<Longrightarrow> Allocate al job g = (Inl EQueueFull, job, g)"
  by (simp add: Allocate_def Count_ok capped_def)

lemma Allocate_none:
  assumes "faults g = []" "\<not> capped al (j_user_id job) g" "idle_agents g = []"
  shows "\<exists>job'. Allocate al job g = (Inr None, job', g) \<and> j_status job' = JobQueued
    \<and> j_queue_expires_at job' = Some (wall_clock g + al_queueTTL al)"
  using assms Position_ok [OF assms(1), of "j_id job"]
  by (auto simp: Allocate_def Count_ok capped_def FindIdle_ok Let_def)

lemma Allocate_some:
  assumes "faults g = []" "\<not> capped al (j_user_id job) g" "has_job (j_id job) g"
    and "least_by a_created_at (idle_agents g) = Some a"
  shows "Allocate al job g =
    (Inr (Some (a\<lparr>a_status := AgentBusy, a_user_id := Some (j_user_id job), a_job_id := Some (j_id job)\<rparr>)),
     job\<lparr>j_agent_id := Some (a_id a), j_device_id := Some (a_device_id a), j_status := JobDispatched\<rparr>,
     g\<lparr>agents_tab := sql_update (\<lambda>b. a_id b = a_id a)
        (taken (j_user_id job) (j_id job) (wall_clock g)) (agents_tab g)\<rparr>)"
  using assms by (auto simp: Allocate_def Count_ok capped_def FindIdle_ok A_Allocate_ok)

text \<open>
  With a database that answers, \<open>Allocate\<close> refuses a user whose queued jobs
  reached the cap and changes nothing; without an idle agent it marks the job queued, to expire after
  the configured time, and changes no table; otherwise it takes the oldest idle agent, which
  is busy with the job afterwards, and marks the job dispatched to that agent.
\<close>

theorem allocate_paths:
  assumes "faults g = []" "has_job (j_id job) g"
  shows "if 0 < al_maxQueue al \<and> al_maxQueue al \<le> int (queued_of (j_user_id job) g)
    then Allocate al job g = (Inl EQueueFull, job, g)
    else if idle_agents g = []
    then \<exists>job'. Allocate al job g = (Inr None, job', g) \<and> j_status job' = JobQueued
       \<and> j_queue_expires_at job' = Some (wall_clock g + al_queueTTL al)
    else \<exists>a a' job' g'. a \<in> set (idle_agents g)
       \<and> (\<forall>b \<in> set (idle_agents g). a_created_at a \<le> a_created_at b)
       \<and> Allocate al job g = (Inr (Some a'), job', g') \<and> a_id a' = a_id a
       \<and> j_status job' = JobDispatched \<and> j_agent_id job' = Some (a_id a)
       \<and> j_device_id job' = Some (a_device_id a)
       \<and> (\<forall>b \<in> set (agents_tab g'). a_id b = a_id a \<longrightarrow>
            a_status b = AgentBusy \<and> a_job_id b = Some (j_id job))
       \<and> a_id a \<notin> a_id ` set (idle_agents g') \<and> jobs_tab g' = jobs_tab g"
proof (cases "capped al (j_user_id job) g")
  case True
  then show ?thesis using Allocate_capped [OF assms(1) True] by (simp add: capped_def)
next
  case False
  show ?thesis
  proof (cases "least_by a_created_at (idle_agents g)")
    case None
    then show ?thesis using False Allocate_none [OF assms(1) False] by (auto simp: capped_def)
  next
    case (Some a)
    let ?g' = "g\<lparr>agents_tab := sql_update (\<lambda>b. a_id b = a_id a)
        (taken (j_user_id job) (j_id job) (wall_clock g)) (agents_tab g)\<rparr>"
    have a: "a \<in> set (idle_agents g)" "\<forall>b \<in> set (idle_agents g). a_created_at a \<le> a_created_at b"
      using Some by (auto dest: least_by_in least_by_least)
    have busy: "\<forall>b \<in> set (agents_tab ?g'). a_id b = a_id a \<longrightarrow>
        a_status b = AgentBusy \<and> a_job_id b = Some (j_id job)"
      by (auto simp: sql_update_set taken_def)
    have gone: "a_id a \<notin> a_id ` set (idle_agents ?g')"
    proof
      assume "a_id a \<in> a_id ` set (idle_agents ?g')"
      then obtain b where "b \<in> set (agents_tab ?g')" "a_id b = a_id a" "a_status b = AgentIdle"
        unfolding idle_agents_def by auto
      then show False using busy by auto
    qed
    have "idle_agents g \<noteq> []" using a(1) by auto
    then show ?thesis
      unfolding capped_def [symmetric] if_not_P [OF False]
      by (simp only: if_False)
        (rule exI [of _ a], intro exI conjI, rule a, rule a, rule Allocate_some [OF assms(1) False assms(2) Some],
          simp_all add: busy gone)
  qed
qed

theorem allocate_paths_witness:
  "\<exists>a' job' g'. Allocate (NewAllocator hour 5) (sample_job 5 JobPending) offline_pool
     = (Inr (Some a'), job', g') \<and> a_id a' = 3 \<and> j_status job' = JobDispatched"
  using allocate_paths [of offline_pool "sample_job 5 JobPending" "NewAllocator hour 5"]
  by (auto simp: samples has_job_def queued_of_def sql_count_def NewAllocator_def idle_agents_def
      split: if_splits)

section \<open>The dequeue loop\<close>

text \<open>The tables once job \<open>j\<close> was given to agent \<open>a\<close>.\<close>

definition assigned :: "Job \<Rightarrow> Agent \<Rightarrow> 'a pool \<Rightarrow> 'a pool" where
  "assigned j a g = g\<lparr>
     agents_tab := sql_update (\<lambda>b. a_id b = a_id a) (taken (j_user_id j) (j_id j) (wall_clock g))
       (agents_tab g),
     jobs_tab := sql_update (\<lambda>k. j_id k = j_id j) (\<lambda>k. k\<lparr>j_agent_id := Some (a_id a),
       j_device_id := Some (a_device_id a), j_status := JobDispatched,
       j_started_at := Some (wall_clock g), j_updated_at := wall_clock g\<rparr>) (jobs_tab g)\<rparr>"

abbreviation next_job :: "'a pool \<Rightarrow> Job option" where
  "next_job g \<equiv> least_by (\<lambda>j. (UserTier_str (j_user_tier j), j_created_at j)) (dequeuable g)"

abbreviation next_agent :: "'a pool \<Rightarrow> Agent option" where
  "next_agent g \<equiv> least_by a_created_at (idle_agents g)"

lemma next_job_in: "next_job g = Some j \<Longrightarrow> j \<in> set (jobs_tab g) \<and> j \<in> set (dequeuable g)"
  using least_by_in [of _ "dequeuable g" j] by (auto simp: dequeuable_def)

lemma next_agent_in: "next_agent g = Some a \<Longrightarrow> a \<in> set (agents_tab g) \<and> a \<in> set (idle_agents g)"
  using least_by_in [of _ "idle_agents g" a] by (auto simp: idle_agents_def)

lemma round_stops:
  "faults g = [] \<Longrightarrow> dequeuable g = [] \<or> idle_agents g = [] \<Longrightarrow> dequeue_round al g = (False, g)"
  by (cases "next_job g") (auto simp: dequeue_round_def DequeueNext_ok FindIdle_ok)

lemma round_assigns:
  assumes "faults g = []" "db_inv g" "next_job g = Some j" "next_agent g = Some a"
  shows "dequeue_round al g = (case dispatchJob al j a (assigned j a g) of
       (Some e, g5) \<Rightarrow> (True, requeue j a g5) | (None, g5) \<Rightarrow> (True, g5))"
proof -
  have j: "has_job (j_id j) g" using next_job_in [OF assms(3)] by (auto simp: has_job_def)
  have a: "has_device (a_device_id a) g" "a_id a \<in> a_id ` set (agents_tab g)"
    using next_agent_in [OF assms(4)] assms(2) by (auto simp: db_inv_def)
  let ?g3 = "g\<lparr>agents_tab := sql_update (\<lambda>b. a_id b = a_id a)
      (taken (j_user_id j) (j_id j) (wall_clock g)) (agents_tab g)\<rparr>"
  have "has_agent (a_id a) ?g3" "has_device (a_device_id a) ?g3"
    using a image_update_key [of a_id "taken (j_user_id j) (j_id j) (wall_clock g)"]
    by (simp_all add: has_agent_def has_device_def taken_def)
  then have "J_SetAgent (j_id j) (a_id a) (a_device_id a) ?g3 = (None, assigned j a g)"
    using assms(1) by (simp add: J_SetAgent_def db_ok Let_def assigned_def)
  then show ?thesis
    using assms j by (simp add: dequeue_round_def DequeueNext_ok FindIdle_ok A_Allocate_ok)
qed

text \<open>Hooks that only read.\<close>

definition quiet :: "'a pool Allocator \<Rightarrow> bool" where
  "quiet al \<longleftrightarrow> (\<forall>f i g. al_files al = Some f \<longrightarrow> snd (f i g) = g)
     \<and> (\<forall>f i g. al_credIDs al = Some f \<longrightarrow> snd (f i g) = g)"

lemma hook_quiet:
  "quiet al \<Longrightarrow> snd (hook_list (al_files al) i g) = g"
  "quiet al \<Longrightarrow> snd (hook_list (al_credIDs al) i g) = g"
  by (auto simp: quiet_def hook_list_def split: option.splits)

text \<open>The frame a dispatch sends.\<close>

definition dispatch_frame :: "'a pool Allocator \<Rightarrow> Job \<Rightarrow> Agent \<Rightarrow> 'a pool \<Rightarrow> Frame" where
  "dispatch_frame al j a g = \<lparr>fr_version = FrameVersion, fr_type = FrameJobDispatch,
     fr_msg_id = uuid_str g (uuid_seq g (uuid_pos g)), fr_ack_id = None,
     fr_ts = unix_milli (wall_clock g),
     fr_payload = PJobDispatch (dispatch_payload j a (fst (hook_list (al_files al) (j_id j) g))
       (fst (hook_list (al_credIDs al) (j_id j) g)))\<rparr>"

lemma dispatchJob_quiet:
  assumes "quiet al"
  shows "dispatchJob al j a g =
    (case SendFrame (a_device_id a) (dispatch_frame al j a g) (g\<lparr>uuid_pos := Suc (uuid_pos g)\<rparr>) of
       (Some e, g4) \<Rightarrow> (Some e, g4) | (None, g4) \<Rightarrow> (None, push_hook al j a g4))"
proof -
  obtain fs where f: "hook_list (al_files al) (j_id j) g = (fs, g)"
    using hook_quiet(1) [OF assms] by (metis prod.collapse)
  obtain cs where c: "hook_list (al_credIDs al) (j_id j) g = (cs, g)"
    using hook_quiet(2) [OF assms] by (metis prod.collapse)
  show ?thesis
    by (simp add: dispatchJob_def f c NewFrame_def NewUUID_def dispatch_frame_def Let_def)
qed

lemma dispatch_offline:
  "quiet al \<Longrightarrow> map_of (hb_devices g) (a_device_id a) = None \<Longrightarrow>
     dispatchJob al j a g = (Some (EOffline (a_device_id a)), g\<lparr>uuid_pos := Suc (uuid_pos g)\<rparr>)"
  by (simp add: dispatchJob_quiet SendFrame_def)

lemma requeue_ok:
  assumes "faults g = []"
  shows "requeue j a g = g\<lparr>
     agents_tab := sql_update (\<lambda>b. a_id b = a_id a) (\<lambda>b. b\<lparr>a_status := AgentIdle, a_user_id := None,
       a_job_id := None, a_allocated_at := None, a_updated_at := wall_clock g\<rparr>) (agents_tab g),
     jobs_tab := sql_update (\<lambda>k. j_id k = j_id j) (\<lambda>k. k\<lparr>j_status := JobQueued,
         j_queue_expires_at := Some (wall_clock g + hour), j_updated_at := wall_clock g\<rparr>)
       (sql_update (\<lambda>k. j_id k = j_id j) (\<lambda>k. k\<lparr>j_agent_id := None, j_device_id := None\<rparr>)
         (jobs_tab g))\<rparr>"
  using assms by (simp add: requeue_def A_Release_def J_ClearAgent_def J_UpdateStatus_def db_ok
      Let_def IsTerminal_def)

subsection \<open>The loop never ends\<close>

text \<open>A job waits, an agent is idle, and no idle agent's device is connected.\<close>

definition stuck :: "'a pool \<Rightarrow> bool" where
  "stuck g \<longleftrightarrow> faults g = [] \<and> db_inv g \<and> idle_agents g \<noteq> [] \<and> dequeuable g \<noteq> []
     \<and> (\<forall>a \<in> set (idle_agents g). map_of (hb_devices g) (a_device_id a) = None)"

lemma least_by_Some: "rows \<noteq> [] \<Longrightarrow> \<exists>r. least_by k rows = Some r"
  using least_by_None [of k rows] by (cases "least_by k rows") auto

definition failed_round :: "Job \<Rightarrow> Agent \<Rightarrow> 'a pool \<Rightarrow> 'a pool" where
  "failed_round j a g = requeue j a ((assigned j a g)\<lparr>uuid_pos := Suc (uuid_pos g)\<rparr>)"

lemma failed_round_frame:
  assumes "faults g = []"
  shows "faults (failed_round j a g) = []" "hb_devices (failed_round j a g) = hb_devices g"
    "agents_tab (failed_round j a g) = sql_update (\<lambda>b. a_id b = a_id a)
       (\<lambda>b. b\<lparr>a_status := AgentIdle, a_user_id := None, a_job_id := None, a_allocated_at := None,
          a_updated_at := wall_clock g\<rparr>) (agents_tab g)"
    "jobs_tab (failed_round j a g) = sql_update (\<lambda>k. j_id k = j_id j)
       (\<lambda>k. k\<lparr>j_agent_id := None, j_device_id := None, j_status := JobQueued,
          j_started_at := Some (wall_clock g), j_queue_expires_at := Some (wall_clock g + hour),
          j_updated_at := wall_clock g\<rparr>) (jobs_tab g)"
    "wall_clock (failed_round j a g) = wall_clock g"
  using assms by (simp_all add: failed_round_def requeue_ok assigned_def sql_update_def o_def taken_def)

lemma sql_update_mem: "r \<in> set rows \<Longrightarrow> P r \<Longrightarrow> f r \<in> set (sql_update P f rows)"
  by (auto simp: sql_update_set)

lemma stuck_round:
  assumes "stuck g" "quiet al" "hook_keeps db_inv al"
  shows "\<exists>g'. dequeue_round al g = (True, g') \<and> stuck g'"
proof -
  from assms(1) have g: "faults g = []" "db_inv g" "idle_agents g \<noteq> []" "dequeuable g \<noteq> []"
    and off: "\<And>a. a \<in> set (idle_agents g) \<Longrightarrow> map_of (hb_devices g) (a_device_id a) = None"
    by (auto simp: stuck_def)
  obtain j a where ja: "next_job g = Some j" "next_agent g = Some a"
    using g(3,4) least_by_Some by metis
  have j: "j \<in> set (jobs_tab g)" and a: "a \<in> set (agents_tab g)" "a \<in> set (idle_agents g)"
    using next_job_in [OF ja(1)] next_agent_in [OF ja(2)] by auto
  let ?g' = "failed_round j a g"
  have "hb_devices (assigned j a g) = hb_devices g" "uuid_pos (assigned j a g) = uuid_pos g"
    by (simp_all add: assigned_def)
  then have r: "dequeue_round al g = (True, ?g')"
    using round_assigns [OF g(1,2) ja, of al] dispatch_offline [OF assms(2), of "assigned j a g" a j]
      off [OF a(2)] by (simp add: failed_round_def)
  have inv: "db_inv ?g'"
    using pool_hooks.dequeue_round_inv [OF db_hooks [OF assms(3)] g(2)] r by simp
  have "\<exists>b \<in> set (agents_tab ?g'). a_status b = AgentIdle \<and> a_user_id b = None"
    unfolding failed_round_frame(3) [OF g(1)] by (rule bexI [OF _ sql_update_mem [OF a(1)]]) simp_all
  then have idle: "idle_agents ?g' \<noteq> []" by (auto simp: idle_agents_def filter_empty_conv)
  have "\<exists>k \<in> set (jobs_tab ?g'). j_status k = JobQueued \<and> j_queue_expires_at k = Some (wall_clock g + hour)"
    unfolding failed_round_frame(4) [OF g(1)] by (rule bexI [OF _ sql_update_mem [OF j]]) simp_all
  then have queue: "dequeuable ?g' \<noteq> []"
    by (fastforce simp: dequeuable_def filter_empty_conv failed_round_frame [OF g(1)] time_defs)
  have "map_of (hb_devices ?g') (a_device_id b) = None" if "b \<in> set (idle_agents ?g')" for b
  proof -
    from that obtain c where c: "c \<in> set (agents_tab g)" "a_device_id b = a_device_id c"
      "a_id c = a_id a \<or> c \<in> set (idle_agents g)"
      by (auto simp: idle_agents_def failed_round_frame [OF g(1)] sql_update_set split: if_splits)
    have "a_id c = a_id a \<Longrightarrow> c = a"
      using c(1) a(1) g(2) by (auto simp: db_inv_def distinct_map dest: inj_onD)
    then have "c \<in> set (idle_agents g)" using c(3) a(2) by auto
    then show ?thesis using off c(2) failed_round_frame(2) [OF g(1)] by simp
  qed
  then show ?thesis using r inv idle queue failed_round_frame(1) [OF g(1)] by (auto simp: stuck_def)
qed

lemma stuck_loops: "stuck g \<Longrightarrow> quiet al \<Longrightarrow> hook_keeps db_inv al \<Longrightarrow> dequeue_loop al n g = None"
proof (induction n arbitrary: g)
  case (Suc n)
  then show ?case using stuck_round [OF Suc.prems] by auto
qed simp



subsection \<open>The loop drains the queue\<close>

lemma length_filter_update:
  assumes "distinct (map key rows)" "r \<in> set rows" "Q r" "\<And>s. \<not> Q (f s)"
  shows "length (filter Q rows) = Suc (length (filter Q (sql_update (\<lambda>s. key s = key r) f rows)))"
  using assms
proof (induction rows)
  case (Cons a rows)
  show ?case
  proof (cases "a = r")
    case True
    then have "sql_update (\<lambda>s. key s = key r) f rows = rows"
      using Cons.prems(1) by (auto intro!: sql_update_id simp: rev_image_eqI)
    then show ?thesis using True Cons.prems by simp
  next
    case False
    then have "r \<in> set rows" "key a \<noteq> key r" using Cons.prems by (auto simp: rev_image_eqI)
    then show ?thesis using Cons by simp
  qed
qed simp

text \<open>Every idle agent's device is connected and its channel has room for \<open>n\<close> more frames.\<close>

definition ready :: "nat \<Rightarrow> 'a pool \<Rightarrow> bool" where
  "ready n g \<longleftrightarrow> (\<forall>a \<in> set (idle_agents g). \<exists>c. map_of (hb_devices g) (a_device_id a) = Some c
     \<and> \<not> dc_closed (hb_conn g c) \<and> length (dc_outbound (hb_conn g c)) + n \<le> 256)"

text \<open>No hook changes the state.\<close>

definition silent :: "'a pool Allocator \<Rightarrow> bool" where
  "silent al \<longleftrightarrow> quiet al \<and> (\<forall>f i j k g. al_pushCredentials al = Some f \<longrightarrow> snd (f i j k g) = g)"

lemma silent_push: "silent al \<Longrightarrow> push_hook al j a g = g"
  by (auto simp: silent_def push_hook_def split: option.splits)

lemma SendFrame_room:
  assumes "map_of (hb_devices h) d = Some c" "\<not> dc_closed (hb_conn h c)"
    and "length (dc_outbound (hb_conn h c)) < 256"
  shows "fst (SendFrame d f h) = None"
    and "dc_closed (hb_conn (snd (SendFrame d f h)) c') = dc_closed (hb_conn h c')"
    and "length (dc_outbound (hb_conn (snd (SendFrame d f h)) c')) \<le> Suc (length (dc_outbound (hb_conn h c')))"
  using assms by (auto simp: SendFrame_def try_send_def outbound_cap_def Let_def)

lemma ready_round:
  assumes "faults g = []" "db_inv g" "silent al" "hook_keeps db_inv al" "ready (Suc n) g"
    and "dequeuable g \<noteq> []" "idle_agents g \<noteq> []"
  shows "\<exists>g'. dequeue_round al g = (True, g') \<and> faults g' = [] \<and> db_inv g' \<and> ready n g'
    \<and> length (dequeuable g) = Suc (length (dequeuable g'))
    \<and> length (idle_agents g) = Suc (length (idle_agents g'))"
proof -
  obtain j a where ja: "next_job g = Some j" "next_agent g = Some a"
    using assms(6,7) least_by_Some by metis
  have j: "j \<in> set (jobs_tab g)" "j \<in> set (dequeuable g)"
    and a: "a \<in> set (agents_tab g)" "a \<in> set (idle_agents g)"
    using next_job_in [OF ja(1)] next_agent_in [OF ja(2)] by auto
  let ?h = "(assigned j a g)\<lparr>uuid_pos := Suc (uuid_pos g)\<rparr>"
  let ?f = "dispatch_frame al j a (assigned j a g)"
  let ?g' = "snd (SendFrame (a_device_id a) ?f ?h)"
  from a(2) assms(5) obtain c where c: "map_of (hb_devices ?h) (a_device_id a) = Some c"
    "\<not> dc_closed (hb_conn ?h c)" "length (dc_outbound (hb_conn ?h c)) < 256"
    by (auto simp: ready_def assigned_def)
  have q: "quiet al" using assms(3) by (simp add: silent_def)
  have "uuid_pos (assigned j a g) = uuid_pos g" by (simp add: assigned_def)
  then have "dispatchJob al j a (assigned j a g) = (None, ?g')"
    using SendFrame_room(1) [OF c, of ?f]
    by (cases "SendFrame (a_device_id a) ?f ?h") (simp add: dispatchJob_quiet [OF q] silent_push [OF assms(3)])
  then have r: "dequeue_round al g = (True, ?g')"
    using round_assigns [OF assms(1,2) ja, of al] by simp
  have inv: "db_inv ?g'"
    using pool_hooks.dequeue_round_inv [OF db_hooks [OF assms(4)] assms(2)] r by simp
  have wc: "wall_clock ?g' = wall_clock g" by (simp add: assigned_def)
  have jobs: "dequeuable ?g' = filter (\<lambda>j. j_status j = JobQueued \<and>
      (case j_queue_expires_at j of None \<Rightarrow> False | Some t \<Rightarrow> wall_clock g < t)) (jobs_tab (assigned j a g))"
    and idle: "idle_agents ?g' = idle_agents (assigned j a g)"
    unfolding dequeuable_def idle_agents_def wc by simp_all
  have "length (dequeuable g) = Suc (length (dequeuable ?g'))"
    unfolding jobs unfolding dequeuable_def assigned_def
    using j assms(2) by (simp, intro length_filter_update) (auto simp: db_inv_def dequeuable_def)
  moreover have "length (idle_agents g) = Suc (length (idle_agents ?g'))"
    unfolding idle unfolding idle_agents_def assigned_def
    using a assms(2) by (simp, intro length_filter_update) (auto simp: db_inv_def idle_agents_def taken_def)
  moreover have "set (idle_agents ?g') \<subseteq> set (idle_agents g)"
    unfolding idle by (auto simp: idle_agents_def assigned_def sql_update_set taken_def split: if_splits)
  then have "ready n ?g'"
    unfolding ready_def
  proof (intro ballI)
    fix b assume "b \<in> set (idle_agents ?g')"
    then have "b \<in> set (idle_agents g)" using \<open>set (idle_agents ?g') \<subseteq> set (idle_agents g)\<close> by auto
    then obtain c' where c': "map_of (hb_devices g) (a_device_id b) = Some c'"
      "\<not> dc_closed (hb_conn g c')" "length (dc_outbound (hb_conn g c')) + Suc n \<le> 256"
      using assms(5) by (auto simp: ready_def)
    have "hb_conn ?h c' = hb_conn g c'" "hb_devices ?g' = hb_devices g" by (simp_all add: assigned_def)
    then show "\<exists>c. map_of (hb_devices ?g') (a_device_id b) = Some c
        \<and> \<not> dc_closed (hb_conn ?g' c) \<and> length (dc_outbound (hb_conn ?g' c)) + n \<le> 256"
      using c' SendFrame_room(2,3) [OF c, of ?f c'] by (intro exI [of _ c']) auto
  qed
  ultimately show ?thesis
    using r inv assms(1) by (intro exI [of _ ?g']) (simp add: assigned_def)
qed

lemma ready_drains:
  assumes "faults g = []" "db_inv g" "silent al" "hook_keeps db_inv al" "ready n g"
    and "length (dequeuable g) = n"
  shows "\<exists>g'. dequeue_loop al (Suc n) g = Some g'
    \<and> length (dequeuable g') = length (dequeuable g) - length (idle_agents g)
    \<and> length (idle_agents g') = length (idle_agents g) - length (dequeuable g)"
  using assms
proof (induction n arbitrary: g)
  case 0
  then show ?case by (simp add: round_stops)
next
  case (Suc n)
  show ?case
  proof (cases "idle_agents g = []")
    case True
    then show ?thesis using Suc.prems(1) by (subst dequeue_loop.simps) (simp add: round_stops)
  next
    case False
    have "dequeuable g \<noteq> []" using Suc.prems(6) by auto
    from ready_round [OF Suc.prems(1-5) this False] obtain g1 where
      g1: "dequeue_round al g = (True, g1)" "faults g1 = []" "db_inv g1" "ready n g1"
        "length (dequeuable g) = Suc (length (dequeuable g1))"
        "length (idle_agents g) = Suc (length (idle_agents g1))" by auto
    have "length (dequeuable g1) = n" using g1(5) Suc.prems(6) by simp
    from Suc.IH [OF g1(2,3) Suc.prems(3,4) g1(4) this] obtain g' where
      "dequeue_loop al (Suc n) g1 = Some g'"
      "length (dequeuable g') = length (dequeuable g1) - length (idle_agents g1)"
      "length (idle_agents g') = length (idle_agents g1) - length (dequeuable g1)" by auto
    then show ?thesis using g1 by (subst dequeue_loop.simps) simp
  qed
qed


text \<open>The same pool with the device connected.\<close>

definition online_pool :: PoolState where
  "online_pool = offline_pool\<lparr>hb_devices := [(7, 0)]\<rparr>"


section \<open>The order of the queue\<close>

text \<open>
  \<open>DequeueNext\<close> chooses a waiting job of an enterprise user if there is
  one, and the oldest of a tier, but takes a free user's job before a pro user's, whatever their age: it orders by the text of the
  tier, against \<open>TierPriority\<close>, which puts pro before free.
\<close>

theorem dequeue_order:
  assumes "fst (J_DequeueNext g) = Inr (Some j)" "k \<in> set (dequeuable g)"
  shows "j \<in> set (dequeuable g)
    \<and> (j_user_tier k = TierEnterprise \<and> j_user_tier j \<in> set ValidUserTiers \<longrightarrow> j_user_tier j = TierEnterprise)
    \<and> (j_user_tier j = j_user_tier k \<longrightarrow> j_created_at j \<le> j_created_at k)
    \<and> (j_user_tier k = TierFree \<longrightarrow> j_user_tier j \<noteq> TierPro)
    \<and> TierPriority TierPro < TierPriority TierFree"
proof -
  have n: "next_job g = Some j"
    using assms(1) by (auto simp: J_DequeueNext_def db_query_def dequeuable_def Let_def
        split: list.splits bool.splits)
  have "UserTier_str (j_user_tier j) < UserTier_str (j_user_tier k) \<or>
      UserTier_str (j_user_tier j) = UserTier_str (j_user_tier k) \<and> j_created_at j \<le> j_created_at k"
    using least_by_least [OF n assms(2)] by (auto simp: less_eq_prod_simp)
  then show ?thesis
    using next_job_in [OF n] by (auto simp: ValidUserTiers_def)
qed

theorem dequeue_order_witness:
  "j_user_tier ((sample_job 5 JobQueued)\<lparr>j_created_at := 4\<rparr>) \<noteq> TierPro"
proof -
  let ?j = "(sample_job 5 JobQueued)\<lparr>j_created_at := 4\<rparr>"
  let ?k = "(sample_job 6 JobQueued)\<lparr>j_created_at := 7\<rparr>"
  let ?p = "(sample_job 8 JobQueued)\<lparr>j_created_at := 1, j_user_tier := TierPro\<rparr>"
  have "?j \<in> set (dequeuable (offline_pool\<lparr>jobs_tab := [?p, ?k, ?j]\<rparr>))
    \<and> (j_user_tier ?k = TierEnterprise \<and> j_user_tier ?j \<in> set ValidUserTiers \<longrightarrow> j_user_tier ?j = TierEnterprise)
    \<and> (j_user_tier ?j = j_user_tier ?k \<longrightarrow> j_created_at ?j \<le> j_created_at ?k)
    \<and> (j_user_tier ?k = TierFree \<longrightarrow> j_user_tier ?j \<noteq> TierPro)
    \<and> TierPriority TierPro < TierPriority TierFree"
    by (rule dequeue_order [of "offline_pool\<lparr>jobs_tab := [?p, ?k, ?j]\<rparr>"])
      (simp_all add: J_DequeueNext_def db_query_def samples dequeuable_def time_defs)
  then show ?thesis by (simp add: sample_job_def)
qed

section \<open>What is left behind\<close>

text \<open>The rows the loop does not touch.\<close>

definition kept :: "'a pool \<Rightarrow> 'a pool \<Rightarrow> bool" where
  "kept g g' \<longleftrightarrow> (\<forall>a \<in> set (agents_tab g). a_status a \<noteq> AgentIdle \<longrightarrow> a \<in> set (agents_tab g'))
     \<and> (\<forall>j \<in> set (jobs_tab g). j_status j \<noteq> JobQueued \<longrightarrow> j \<in> set (jobs_tab g'))"

lemma kept_refl: "kept g g"
  by (simp add: kept_def)

lemma kept_trans: "kept g h \<Longrightarrow> kept h k \<Longrightarrow> kept g k"
  by (auto simp: kept_def)

lemma kept_by_key:
  assumes "db_inv g" "j \<in> set (jobs_tab g)" "j_status j = JobQueued"
    and "a \<in> set (agents_tab g)" "a_status a = AgentIdle"
    and "agents_tab g' = sql_update (\<lambda>b. a_id b = a_id a) f (agents_tab g)"
    and "jobs_tab g' = sql_update (\<lambda>k. j_id k = j_id j) h (jobs_tab g)"
  shows "kept g g'"
proof -
  have "k = j" if "k \<in> set (jobs_tab g)" "j_id k = j_id j" for k
    using that assms(1,2) by (auto simp: db_inv_def distinct_map dest: inj_onD)
  moreover have "b = a" if "b \<in> set (agents_tab g)" "a_id b = a_id a" for b
    using that assms(1,4) by (auto simp: db_inv_def distinct_map dest: inj_onD)
  ultimately show ?thesis
    using assms(3,5) unfolding kept_def assms(6,7) sql_update_set by metis
qed

lemma round_kept:
  assumes "faults g = []" "db_inv g" "silent al"
  shows "kept g (snd (dequeue_round al g)) \<and> faults (snd (dequeue_round al g)) = []"
proof (cases "dequeuable g = [] \<or> idle_agents g = []")
  case True
  then show ?thesis using round_stops [OF assms(1)] assms(1) by (simp add: kept_refl)
next
  case False
  then obtain j a where ja: "next_job g = Some j" "next_agent g = Some a"
    using least_by_Some by metis
  have m: "j \<in> set (jobs_tab g)" "j_status j = JobQueued" "a \<in> set (agents_tab g)" "a_status a = AgentIdle"
    using next_job_in [OF ja(1)] next_agent_in [OF ja(2)] by (auto simp: dequeuable_def idle_agents_def)
  have q: "quiet al" using assms(3) by (simp add: silent_def)
  let ?s = "SendFrame (a_device_id a) (dispatch_frame al j a (assigned j a g))
      ((assigned j a g)\<lparr>uuid_pos := Suc (uuid_pos (assigned j a g))\<rparr>)"
  have "snd (dequeue_round al g) = snd ?s \<or> snd (dequeue_round al g) = requeue j a (snd ?s)"
    using round_assigns [OF assms(1,2) ja, of al]
    by (auto simp: dispatchJob_quiet [OF q] silent_push [OF assms(3)] split: option.splits prod.splits)
  then show ?thesis
  proof
    assume e: "snd (dequeue_round al g) = snd ?s"
    show ?thesis unfolding e
      using assms(1) by (intro conjI kept_by_key [OF assms(2) m]) (simp_all add: assigned_def)
  next
    assume e: "snd (dequeue_round al g) = requeue j a (snd ?s)"
    have "faults (snd ?s) = []" using assms(1) by (simp add: assigned_def)
    then show ?thesis unfolding e requeue_ok [OF \<open>faults (snd ?s) = []\<close>]
      by (intro conjI kept_by_key [OF assms(2) m, where
            f = "\<lambda>b. b\<lparr>a_status := AgentIdle, a_user_id := None, a_job_id := None,
              a_allocated_at := None, a_updated_at := wall_clock g\<rparr>" and
            h = "\<lambda>k. k\<lparr>j_started_at := Some (wall_clock g), j_agent_id := None, j_device_id := None,
              j_status := JobQueued, j_queue_expires_at := Some (wall_clock g + hour),
              j_updated_at := wall_clock g\<rparr>"])
        (simp_all add: assigned_def sql_update_def o_def taken_def)
  qed
qed

lemma loop_kept:
  "faults g = [] \<Longrightarrow> db_inv g \<Longrightarrow> silent al \<Longrightarrow> hook_keeps db_inv al \<Longrightarrow>
     dequeue_loop al n g = Some g' \<Longrightarrow> kept g g'"
proof (induction n arbitrary: g)
  case 0
  then show ?case by simp
next
  case (Suc n)
  obtain b h where r: "dequeue_round al g = (b, h)" by (cases "dequeue_round al g")
  have k: "kept g h" "faults h = []" using round_kept [OF Suc.prems(1-3)] r by auto
  have "db_inv h" using pool_hooks.dequeue_round_inv [OF db_hooks [OF Suc.prems(4)] Suc.prems(2)] r
    by (metis snd_conv)
  then show ?case
    using Suc.IH [OF k(2) _ Suc.prems(3,4)] Suc.prems(5) r k(1) by (auto split: if_splits intro: kept_trans)
qed

lemma expireStale_ok:
  assumes "faults g = []"
  shows "expireStale al g = g\<lparr>jobs_tab := sql_update (dispatch_timed_out (al_dispatchTimeout al) (wall_clock g))
     (fail_job ''DISPATCH_TIMEOUT'' (wall_clock g))
     (sql_update (queue_timed_out (wall_clock g)) (fail_job ''QUEUE_TIMEOUT'' (wall_clock g)) (jobs_tab g))\<rparr>"
  using assms by (simp add: expireStale_def J_ExpireQueued_def J_ExpireDispatched_def db_ok Let_def)

text \<open>
  When a dispatched job gets no answer from its device in the
  time allowed, \<open>dequeueNext\<close> marks it failed but its agent stays busy with it through that run of the
  loop: no agent is released, and the capacity is lost until someone releases it by hand.
\<close>

theorem dispatch_expiry_leaks_agent:
  assumes "faults g = []" "db_inv g" "silent al" "hook_keeps db_inv al"
    and "j \<in> set (jobs_tab g)" "dispatch_timed_out (al_dispatchTimeout al) (wall_clock g) j"
    and "a \<in> set (agents_tab g)" "a_status a = AgentBusy"
    and "dequeueNext al n g = Some g'"
  shows "fail_job ''DISPATCH_TIMEOUT'' (wall_clock g) j \<in> set (jobs_tab g') \<and> a \<in> set (agents_tab g')"
proof -
  let ?h = "expireStale al g"
  have "\<not> queue_timed_out (wall_clock g) j"
    using assms(6) by (simp add: queue_timed_out_def dispatch_timed_out_def)
  then have "j \<in> set (sql_update (queue_timed_out (wall_clock g)) (fail_job ''QUEUE_TIMEOUT'' (wall_clock g)) (jobs_tab g))"
    using assms(5) by (auto simp: sql_update_set intro!: bexI [of _ j])
  from sql_update_mem [OF this] have j: "fail_job ''DISPATCH_TIMEOUT'' (wall_clock g) j \<in> set (jobs_tab ?h)"
    using assms(6) unfolding expireStale_ok [OF assms(1)] by simp
  have "kept ?h g'"
  proof (rule loop_kept [OF _ _ assms(3,4)])
    show "faults ?h = []" using assms(1) by (simp add: expireStale_ok)
    show "db_inv ?h" by (rule pool_hooks.expireStale_inv [OF db_hooks [OF assms(4)] assms(2)])
    show "dequeue_loop al n ?h = Some g'" using assms(9) by (simp add: dequeueNext_def)
  qed
  moreover have "a \<in> set (agents_tab ?h)" using assms(7) by (simp add: expireStale_ok [OF assms(1)])
  ultimately show ?thesis using j assms(8) by (auto simp: kept_def fail_job_def)
qed

definition expired_pool :: PoolState where
  "expired_pool = offline_pool\<lparr>
     agents_tab := [(sample_agent 3 7)\<lparr>a_status := AgentBusy, a_user_id := Some 9, a_job_id := Some 5\<rparr>],
     jobs_tab := [(sample_job 5 JobDispatched)\<lparr>j_agent_id := Some 3, j_device_id := Some 7,
       j_started_at := Some 0\<rparr>]\<rparr>"

theorem dispatch_expiry_leaks_agent_witness:
  "\<exists>g'. dequeueNext (NewAllocator hour 5) 1 expired_pool = Some g' \<and> idle_agents g' = []
     \<and> (\<exists>j \<in> set (jobs_tab g'). j_status j = JobFailed)
     \<and> (\<exists>a \<in> set (agents_tab g'). a_status a = AgentBusy \<and> a_job_id a = Some 5)"
proof -
  let ?al = "NewAllocator hour 5 :: PoolState Allocator"
  have f: "faults expired_pool = []" by (simp add: expired_pool_def samples)
  have e: "dequeuable (expireStale ?al expired_pool) = []" "idle_agents (expireStale ?al expired_pool) = []"
    unfolding expireStale_ok [OF f]
    by (simp_all add: expired_pool_def samples dequeuable_def idle_agents_def dispatch_timed_out_def
        queue_timed_out_def fail_job_def NewAllocator_def time_defs)
  let ?g' = "expireStale ?al expired_pool"
  have "dequeue_round ?al ?g' = (False, ?g')"
    using e by (intro round_stops) (simp_all add: expireStale_ok [OF f] f)
  then have r: "dequeueNext ?al 1 expired_pool = Some ?g'" by (simp add: dequeueNext_def)
  let ?j = "(sample_job 5 JobDispatched)\<lparr>j_agent_id := Some 3, j_device_id := Some 7, j_started_at := Some 0\<rparr>"
  let ?a = "(sample_agent 3 7)\<lparr>a_status := AgentBusy, a_user_id := Some 9, a_job_id := Some 5\<rparr>"
  have "fail_job ''DISPATCH_TIMEOUT'' (wall_clock expired_pool) ?j \<in> set (jobs_tab ?g') \<and> ?a \<in> set (agents_tab ?g')"
    by (rule dispatch_expiry_leaks_agent [OF f _ _ _ _ _ _ _ r])
      (simp_all add: expired_pool_def samples db_inv_def has_job_def has_agent_def has_device_def
        NewAllocator_def quiet_def silent_def hook_keeps_def dispatch_timed_out_def time_defs)
  then show ?thesis
    using r e(2) by (intro exI [of _ ?g'] conjI) (auto simp: fail_job_def intro!: bexI)
qed

lemma find_agent_in: "find (\<lambda>a. a_id a = i) rows = Some a \<Longrightarrow> a \<in> set rows \<and> a_id a = i"
  by (auto simp: find_Some_iff)

lemma A_GetByID_ok: "faults g = [] \<Longrightarrow> A_GetByID i g = (Inr (find (\<lambda>a. a_id a = i) (agents_tab g)), g)"
  by (simp add: A_GetByID_def db_ok)

lemma A_UpdateStatus_ok: "faults g = [] \<Longrightarrow> A_UpdateStatus i s g = (None,
    g\<lparr>agents_tab := sql_update (\<lambda>a. a_id a = i) (\<lambda>a. a\<lparr>a_status := s, a_updated_at := wall_clock g\<rparr>) (agents_tab g)\<rparr>)"
  by (simp add: A_UpdateStatus_def db_ok Let_def)

lemma DrainAgent_busy:
  assumes "faults g = []" "find (\<lambda>a. a_id a = i) (agents_tab g) = Some a" "a_status a = AgentBusy"
  shows "fst (DrainAgent i g) = None" "faults (snd (DrainAgent i g)) = []"
    "wall_clock (snd (DrainAgent i g)) = wall_clock g"
    "agents_tab (snd (DrainAgent i g)) = sql_update (\<lambda>a. a_id a = i)
       (\<lambda>a. a\<lparr>a_status := AgentFailed, a_updated_at := wall_clock g\<rparr>) (agents_tab g)"
  using assms
  by (simp_all add: DrainAgent_def A_GetByID_ok Let_def split_def A_UpdateStatus_ok split: sum.splits)

text \<open>
  Draining a busy agent marks it failed, to be removed, as the comment
  says, after its job; but the release at the end of the job makes it idle again and open for the next
  allocation, whatever its status was: a drained agent is back in service.
\<close>

theorem drained_agent_revives:
  assumes "faults g = []" "find (\<lambda>a. a_id a = i) (agents_tab g) = Some a" "a_status a = AgentBusy"
    and "g1 = snd (DrainAgent i g)" "g2 = snd (Release i g1)"
  shows "(\<forall>b \<in> set (agents_tab g1). a_id b = i \<longrightarrow> a_status b = AgentFailed)
    \<and> i \<in> a_id ` set (idle_agents g2)
    \<and> (\<exists>b. fst (A_FindIdle g2) = Inr (Some b)) \<and> pl_wakeups g2 = Suc (pl_wakeups g1)"
proof -
  have i: "a \<in> set (agents_tab g)" "a_id a = i" using find_agent_in [OF assms(2)] by auto
  have t1: "agents_tab g1 = sql_update (\<lambda>a. a_id a = i)
       (\<lambda>a. a\<lparr>a_status := AgentFailed, a_updated_at := wall_clock g\<rparr>) (agents_tab g)" "faults g1 = []"
    using DrainAgent_busy [OF assms(1-3)] assms(4) by simp_all
  define r where "r = (\<lambda>b :: Agent. b\<lparr>a_status := AgentIdle, a_user_id := None, a_job_id := None,
      a_allocated_at := None, a_updated_at := wall_clock g1\<rparr>)"
  have g2: "g2 = g1\<lparr>agents_tab := sql_update (\<lambda>b. a_id b = i) r (agents_tab g1), pl_wakeups := Suc (pl_wakeups g1)\<rparr>"
    using assms(5) t1(2) by (simp add: Release_def A_Release_def db_ok Let_def r_def)
  let ?b = "a\<lparr>a_status := AgentFailed, a_updated_at := wall_clock g\<rparr>"
  have "?b \<in> set (agents_tab g1)" unfolding t1(1) using i by (intro sql_update_mem) simp_all
  then have "r ?b \<in> set (agents_tab g2)" unfolding g2 using i(2) by (simp add: sql_update_mem)
  then have "r ?b \<in> set (idle_agents g2)" by (simp add: idle_agents_def r_def)
  then have "a_id (r ?b) \<in> a_id ` set (idle_agents g2)" by (rule imageI)
  then have "i \<in> a_id ` set (idle_agents g2)" using i(2) by (simp add: r_def)
  moreover from this have "idle_agents g2 \<noteq> []" by auto
  moreover have "faults g2 = []" by (simp add: g2 t1(2))
  ultimately show ?thesis
    using t1(1) least_by_Some [of "idle_agents g2" a_created_at]
    by (auto simp: FindIdle_ok sql_update_set g2)
qed

theorem drained_agent_revives_witness:
  "3 \<in> a_id ` set (idle_agents (snd (Release 3 (snd (DrainAgent 3 expired_pool)))))"
  using drained_agent_revives [of expired_pool 3 _ "snd (DrainAgent 3 expired_pool)", OF _ _ _ refl refl]
  by (simp add: expired_pool_def samples)

definition live_count :: "uuid \<Rightarrow> 'a pool \<Rightarrow> nat" where
  "live_count d g = sql_count (\<lambda>a. a_device_id a = d \<and> a_status a \<noteq> AgentFailed
     \<and> a_status a \<noteq> AgentStatusOther ''drained'') (agents_tab g)"

lemma CountByDevice_ok: "faults g = [] \<Longrightarrow> A_CountByDevice d g = (Inr (live_count d g), g)"
  by (simp add: A_CountByDevice_def db_ok live_count_def)

text \<open>
  When the pool of a device holds \<open>n\<close> agents not failed, too few, and some
  agent has the port 42000 + \<open>n\<close> (as it may once an agent with a lower port failed or was deleted),
  \<open>EnsurePoolSize\<close> fails with a uniqueness error, adds no agent and sends nothing; so does every
  later call, and the pool never grows back.
\<close>

theorem port_collision:
  assumes "faults g = []" "n = live_count d g" "n < wanted" "uuid_seq g (uuid_pos g) \<noteq> 0"
    and "b \<in> set (agents_tab g)" "a_device_id b = d" "a_port b = int n + 42000"
  shows "EnsurePoolSize d wanted g = (Some EUnique, g\<lparr>uuid_pos := Suc (uuid_pos g)\<rparr>)"
proof -
  have m: "wanted - n = Suc (wanted - Suc n)" using assms(3) by simp
  let ?i = "uuid_seq g (uuid_pos g)"
  let ?g1 = "g\<lparr>uuid_pos := Suc (uuid_pos g)\<rparr>"
  have "\<exists>c \<in> set (agents_tab ?g1). a_device_id c = d \<and> a_port c = int n + 42000" using assms(5-7) by auto
  then have "\<exists>x. A_Create (new_agent ?i d n (uuid_str ?g1)) ?g1 = (Some EUnique, x, ?g1)"
    using assms(1,4) by (simp add: A_Create_def new_agent_def Let_def db_ok)
  then show ?thesis
    using assms(1) m by (auto simp: EnsurePoolSize_def CountByDevice_ok assms(2) [symmetric] NewUUID_def Let_def)
qed

definition failed_pool :: PoolState where
  "failed_pool = sample_pool\<lparr>devices_tab := [sample_device 7],
     agents_tab := [(sample_agent 3 7)\<lparr>a_status := AgentFailed\<rparr>, (sample_agent 4 7)\<lparr>a_port := 42001\<rparr>]\<rparr>"

theorem port_collision_witness:
  "db_inv failed_pool \<and> fst (EnsurePoolSize 7 2 failed_pool) = Some EUnique"
proof
  show "db_inv failed_pool"
    by (simp add: failed_pool_def samples db_inv_def has_device_def)
  have "EnsurePoolSize 7 2 failed_pool = (Some EUnique, failed_pool\<lparr>uuid_pos := Suc (uuid_pos failed_pool)\<rparr>)"
    by (rule port_collision [where n = 1 and b = "(sample_agent 4 7)\<lparr>a_port := 42001\<rparr>"])
      (simp_all add: failed_pool_def samples live_count_def sql_count_def)
  then show "fst (EnsurePoolSize 7 2 failed_pool) = Some EUnique" by simp
qed

end
