(* ===== verification/PubSub.thy ===== *)
theory PubSub
  imports Model
begin

text \<open>
  \<open>gateway/internal/pubsub/pubsub.go\<close> and its client, the message loop of
  \<open>gateway/internal/httpapi/ws_handler.go\<close>.

  A Go channel is an object of its own, shared by the map of subscriptions and the goroutine that
  reads it, so channels live in a store: \<open>br_chan\<close> maps their numbers to buffer and closed flag.
  Sending on a closed channel and closing it twice panic; an operation that would do so returns \<open>None\<close>,
  and \<open>broker_never_panics\<close> shows that none does.
\<close>

section \<open>Broker\<close>

type_synonym chan_id = nat

record Subscriber =
  sb_UserID :: uuid
  sb_Ch :: chan_id

record event_chan =
  ch_buf :: "WSEvent list"
  ch_closed :: bool

definition sub_chan_cap :: nat where
  "sub_chan_cap = 64"

type_synonym topic_subs = "(string, Subscriber) gomap"

record Broker =
  br_subs :: "(string, topic_subs) gomap"
  br_chan :: "chan_id \<Rightarrow> event_chan"
  br_next :: chan_id

definition NewBroker :: Broker where
  "NewBroker = \<lparr>br_subs = [], br_chan = (\<lambda>_. \<lparr>ch_buf = [], ch_closed = False\<rparr>), br_next = 0\<rparr>"

abbreviation topic_of :: "Broker \<Rightarrow> string \<Rightarrow> topic_subs" where
  "topic_of b topic \<equiv> (case map_of (br_subs b) topic of None \<Rightarrow> [] | Some s \<Rightarrow> s)"

definition Subscribe :: "Broker \<Rightarrow> string \<Rightarrow> string \<Rightarrow> uuid \<Rightarrow> Subscriber \<times> Broker" where
  "Subscribe b topic subscriberID userID =
     (let sub = \<lparr>sb_UserID = userID, sb_Ch = br_next b\<rparr> in
      (sub, b\<lparr>br_subs := AList.update topic (AList.update subscriberID sub (topic_of b topic)) (br_subs b),
              br_chan := (br_chan b)(br_next b := \<lparr>ch_buf = [], ch_closed = False\<rparr>),
              br_next := Suc (br_next b)\<rparr>))"

definition close_chan :: "chan_id \<Rightarrow> Broker \<Rightarrow> Broker option" where
  "close_chan c b = (if ch_closed (br_chan b c) then None
     else Some (b\<lparr>br_chan := (br_chan b)(c := (br_chan b c)\<lparr>ch_closed := True\<rparr>)\<rparr>))"

text \<open>The body both ways of unsubscribing run on one topic of the map.\<close>

definition drop_sub :: "string \<Rightarrow> topic_subs \<Rightarrow> string \<Rightarrow> Broker \<Rightarrow> Broker option" where
  "drop_sub topic subs subscriberID b =
     (case map_of subs subscriberID of
        None \<Rightarrow> Some (if subs = [] then b\<lparr>br_subs := AList.delete topic (br_subs b)\<rparr> else b)
      | Some sub \<Rightarrow> (case close_chan (sb_Ch sub) b of None \<Rightarrow> None
         | Some b1 \<Rightarrow> (let subs1 = AList.delete subscriberID subs in
             Some (b1\<lparr>br_subs := (if subs1 = [] then AList.delete topic (br_subs b1)
                                  else AList.update topic subs1 (br_subs b1))\<rparr>))))"

definition Unsubscribe :: "Broker \<Rightarrow> string \<Rightarrow> string \<Rightarrow> Broker option" where
  "Unsubscribe b topic subscriberID = (case map_of (br_subs b) topic of
     None \<Rightarrow> Some b | Some subs \<Rightarrow> drop_sub topic subs subscriberID b)"

fun drop_subs :: "(string \<times> topic_subs) list \<Rightarrow> string \<Rightarrow> Broker \<Rightarrow> Broker option" where
  "drop_subs [] subscriberID b = Some b"
| "drop_subs ((topic, subs) # rest) subscriberID b =
     (case drop_sub topic subs subscriberID b of None \<Rightarrow> None
      | Some b1 \<Rightarrow> drop_subs rest subscriberID b1)"

definition UnsubscribeAll :: "Broker \<Rightarrow> string \<Rightarrow> Broker option" where
  "UnsubscribeAll b subscriberID = drop_subs (br_subs b) subscriberID b"

text \<open>The non-blocking send: dropped when the buffer is full.\<close>

definition offer :: "WSEvent \<Rightarrow> chan_id \<Rightarrow> Broker \<Rightarrow> Broker option" where
  "offer event c b = (if ch_closed (br_chan b c) then None
     else Some (b\<lparr>br_chan := (br_chan b)(c := (br_chan b c)\<lparr>ch_buf :=
        (if length (ch_buf (br_chan b c)) < sub_chan_cap then ch_buf (br_chan b c) @ [event]
         else ch_buf (br_chan b c))\<rparr>)\<rparr>))"

fun offer_all :: "WSEvent \<Rightarrow> chan_id list \<Rightarrow> Broker \<Rightarrow> Broker option" where
  "offer_all event [] b = Some b"
| "offer_all event (c # cs) b = (case offer event c b of None \<Rightarrow> None | Some b1 \<Rightarrow> offer_all event cs b1)"

definition Publish :: "Broker \<Rightarrow> string \<Rightarrow> WSEvent \<Rightarrow> Broker option" where
  "Publish b topic event = (case map_of (br_subs b) topic of None \<Rightarrow> Some b
     | Some subs \<Rightarrow> offer_all event (map (sb_Ch \<circ> snd) subs) b)"

definition PublishScoped :: "Broker \<Rightarrow> string \<Rightarrow> uuid \<Rightarrow> WSEvent \<Rightarrow> Broker option" where
  "PublishScoped b topic userID event = (case map_of (br_subs b) topic of None \<Rightarrow> Some b
     | Some subs \<Rightarrow> offer_all event
         (map (sb_Ch \<circ> snd) (filter (\<lambda>(_, sub). sb_UserID sub = userID) subs)) b)"

text \<open>
  A receive by the reader of a channel: \<open>None\<close> when it blocks, otherwise the event, or nothing
  when the channel is closed and empty, which ends the reader's loop.
\<close>

definition receive :: "chan_id \<Rightarrow> Broker \<Rightarrow> (WSEvent option \<times> Broker) option" where
  "receive c b = (case ch_buf (br_chan b c) of
     ev # evs \<Rightarrow> Some (Some ev, b\<lparr>br_chan := (br_chan b)(c := (br_chan b c)\<lparr>ch_buf := evs\<rparr>)\<rparr>)
   | [] \<Rightarrow> if ch_closed (br_chan b c) then Some (None, b) else None)"

definition JobTopic :: "(uuid \<Rightarrow> string) \<Rightarrow> uuid \<Rightarrow> string" where
  "JobTopic str jobID = ''job:'' @ str jobID"

definition AgentTopic :: "(uuid \<Rightarrow> string) \<Rightarrow> uuid \<Rightarrow> string" where
  "AgentTopic str agentID = ''agent:'' @ str agentID"

definition DeviceTopic :: "(uuid \<Rightarrow> string) \<Rightarrow> uuid \<Rightarrow> string" where
  "DeviceTopic str deviceID = ''device:'' @ str deviceID"

definition SkillTopic :: "(uuid \<Rightarrow> string) \<Rightarrow> uuid \<Rightarrow> string" where
  "SkillTopic str skillID = ''skill:'' @ str skillID"

section \<open>The message loop of a browser connection\<close>

text \<open>
  A client message after \<open>json.Unmarshal\<close> into a map: the value of \<open>type\<close> (empty when it is no
  string), \<open>topics\<close> when it is an array, with \<open>None\<close> for an element that is no string, and
  \<open>topic\<close> when it is a string.
\<close>

record ws_msg =
  wm_type :: string
  wm_topics :: "string option list option"
  wm_topic :: "string option"

record ws_session =
  wss_subscriberID :: string
  wss_userID :: uuid
  wss_count :: int
  wss_max :: int
  wss_active :: "(string, chan_id) gomap"

definition ws_open :: "(uuid \<Rightarrow> string) \<Rightarrow> uuid \<Rightarrow> uuid \<Rightarrow> int \<Rightarrow> Broker \<Rightarrow> ws_session \<times> Broker" where
  "ws_open str userID fresh maxSubs b =
     (let subscriberID = str userID @ ''-'' @ take 8 (str fresh);
          (jobSub, b1) = Subscribe b (JobTopic str userID) subscriberID userID
      in (\<lparr>wss_subscriberID = subscriberID, wss_userID = userID, wss_count = 1, wss_max = maxSubs,
           wss_active = [(''_init'', sb_Ch jobSub)]\<rparr>, b1))"

definition ws_add :: "string \<Rightarrow> ws_session \<Rightarrow> Broker \<Rightarrow> ws_session \<times> Broker" where
  "ws_add topic s b =
     (let (sub, b1) = Subscribe b topic (wss_subscriberID s) (wss_userID s)
      in (s\<lparr>wss_count := wss_count s + 1, wss_active := AList.update topic (sb_Ch sub) (wss_active s)\<rparr>, b1))"

fun ws_add_topics :: "string option list \<Rightarrow> ws_session \<Rightarrow> Broker \<Rightarrow> ws_session \<times> Broker" where
  "ws_add_topics [] s b = (s, b)"
| "ws_add_topics (t # ts) s b = (case t of
     None \<Rightarrow> ws_add_topics ts s b
   | Some topic \<Rightarrow>
       if topic = [] then ws_add_topics ts s b
       else if wss_count s \<ge> wss_max s then (s, b)
       else (let (s1, b1) = ws_add topic s b in ws_add_topics ts s1 b1))"

definition ws_remove :: "string \<Rightarrow> ws_session \<Rightarrow> Broker \<Rightarrow> (ws_session \<times> Broker) option" where
  "ws_remove topic s b = map_option (Pair (s\<lparr>wss_count := wss_count s - 1\<rparr>))
     (Unsubscribe b topic (wss_subscriberID s))"

fun ws_remove_topics :: "string option list \<Rightarrow> ws_session \<Rightarrow> Broker \<Rightarrow> (ws_session \<times> Broker) option" where
  "ws_remove_topics [] s b = Some (s, b)"
| "ws_remove_topics (t # ts) s b = (case t of
     None \<Rightarrow> ws_remove_topics ts s b
   | Some topic \<Rightarrow>
       if topic = [] then ws_remove_topics ts s b
       else (case ws_remove topic s b of None \<Rightarrow> None | Some (s1, b1) \<Rightarrow> ws_remove_topics ts s1 b1))"

definition ws_handle :: "ws_msg \<Rightarrow> ws_session \<Rightarrow> Broker \<Rightarrow> (ws_session \<times> Broker) option" where
  "ws_handle m s b =
     (if wm_type m = ''subscribe'' then
        (let (s1, b1) = (case wm_topics m of None \<Rightarrow> (s, b) | Some ts \<Rightarrow> ws_add_topics ts s b)
         in case wm_topic m of
              Some topic \<Rightarrow> Some (if topic \<noteq> [] \<and> wss_count s1 < wss_max s1 then ws_add topic s1 b1 else (s1, b1))
            | None \<Rightarrow> Some (s1, b1))
      else if wm_type m = ''unsubscribe'' then
        (case (case wm_topics m of None \<Rightarrow> Some (s, b) | Some ts \<Rightarrow> ws_remove_topics ts s b) of
           None \<Rightarrow> None
         | Some (s1, b1) \<Rightarrow> (case wm_topic m of
              Some topic \<Rightarrow> if topic \<noteq> [] then ws_remove topic s1 b1 else Some (s1, b1)
            | None \<Rightarrow> Some (s1, b1)))
      else Some (s, b))"

definition ws_close :: "ws_session \<Rightarrow> Broker \<Rightarrow> Broker option" where
  "ws_close s b = UnsubscribeAll b (wss_subscriberID s)"

section \<open>The subscriptions as a map\<close>

definition sub_at :: "Broker \<Rightarrow> string \<Rightarrow> string \<Rightarrow> Subscriber option" where
  "sub_at b topic sid = (case map_of (br_subs b) topic of None \<Rightarrow> None | Some m \<Rightarrow> map_of m sid)"

definition broker_inv :: "Broker \<Rightarrow> bool" where
  "broker_inv b \<longleftrightarrow> gomap_wf (br_subs b) \<and> (\<forall>(t, m) \<in> set (br_subs b). gomap_wf m \<and> m \<noteq> [])
     \<and> (\<forall>t s x. sub_at b t s = Some x \<longrightarrow> sb_Ch x < br_next b \<and> \<not> ch_closed (br_chan b (sb_Ch x)))
     \<and> (\<forall>t s x t' s' x'. sub_at b t s = Some x \<longrightarrow> sub_at b t' s' = Some x' \<longrightarrow> sb_Ch x = sb_Ch x' \<longrightarrow>
          t = t' \<and> s = s')
     \<and> (\<forall>c. length (ch_buf (br_chan b c)) \<le> sub_chan_cap)"

lemma inv_topic: "broker_inv b \<Longrightarrow> map_of (br_subs b) t = Some m \<Longrightarrow> gomap_wf m \<and> m \<noteq> []"
  unfolding broker_inv_def by (auto dest: map_of_SomeD)

lemma inv_open: "broker_inv b \<Longrightarrow> sub_at b t s = Some x \<Longrightarrow>
    sb_Ch x < br_next b \<and> \<not> ch_closed (br_chan b (sb_Ch x))"
  unfolding broker_inv_def by blast

lemma inv_inj: "broker_inv b \<Longrightarrow> sub_at b t s = Some x \<Longrightarrow> sub_at b t' s' = Some x' \<Longrightarrow>
    sb_Ch x = sb_Ch x' \<Longrightarrow> t = t' \<and> s = s'"
  unfolding broker_inv_def by blast

lemma in_topic: "map_of (br_subs b) t = Some m \<Longrightarrow> map_of m s = Some x \<Longrightarrow> sub_at b t s = Some x"
  by (simp add: sub_at_def)

lemma update_nonempty [simp]: "AList.update k v m \<noteq> []"
  by (cases m) auto

lemma in_set_update: "(k', v') \<in> set (AList.update k v m) \<Longrightarrow> (k', v') = (k, v) \<or> (k', v') \<in> set m"
  by (induction m) (auto split: if_splits)

lemma in_set_delete: "x \<in> set (AList.delete k m) \<Longrightarrow> x \<in> set m"
  by (auto simp: AList.delete_eq)

lemma sub_at_Subscribe:
  "sub_at (snd (Subscribe b t s u)) t' s' = (if t' = t \<and> s' = s then Some (fst (Subscribe b t s u)) else sub_at b t' s')"
  by (auto simp: Subscribe_def sub_at_def Let_def gomap_simps split: option.splits)

lemma NewBroker_inv: "broker_inv NewBroker"
  by (simp add: broker_inv_def NewBroker_def sub_at_def)

lemma Subscribe_inv:
  assumes "broker_inv b"
  shows "broker_inv (snd (Subscribe b t s u))"
proof -
  let ?b = "snd (Subscribe b t s u)"
  have f: "br_next ?b = Suc (br_next b)" "br_chan ?b = (br_chan b)(br_next b := \<lparr>ch_buf = [], ch_closed = False\<rparr>)"
    "sb_Ch (fst (Subscribe b t s u)) = br_next b"
    "br_subs ?b = AList.update t (AList.update s (fst (Subscribe b t s u)) (topic_of b t)) (br_subs b)"
    by (simp_all add: Subscribe_def Let_def)
  have wf: "gomap_wf (topic_of b t)" using inv_topic [OF assms, of t] by (auto split: option.splits)
  show ?thesis
    unfolding broker_inv_def
  proof (intro conjI)
    show "gomap_wf (br_subs ?b)" using assms by (simp add: f(4) broker_inv_def)
    show "\<forall>(t, m) \<in> set (br_subs ?b). gomap_wf m \<and> m \<noteq> []"
      using wf assms unfolding f(4) broker_inv_def by (auto dest!: in_set_update)
    show "\<forall>t' s' x. sub_at ?b t' s' = Some x \<longrightarrow> sb_Ch x < br_next ?b \<and> \<not> ch_closed (br_chan ?b (sb_Ch x))"
      by (auto simp: sub_at_Subscribe f split: if_splits dest: inv_open [OF assms])
    have fresh: "sub_at b t' s' = Some x \<Longrightarrow> sb_Ch x \<noteq> br_next b" for t' s' x
      by (auto dest: inv_open [OF assms])
    show "\<forall>t1 s1 x t2 s2 y. sub_at ?b t1 s1 = Some x \<longrightarrow> sub_at ?b t2 s2 = Some y \<longrightarrow> sb_Ch x = sb_Ch y \<longrightarrow>
        t1 = t2 \<and> s1 = s2"
      using fresh inv_inj [OF assms] unfolding sub_at_Subscribe by (metis f(3) option.inject)
    show "\<forall>c. length (ch_buf (br_chan ?b c)) \<le> sub_chan_cap"
      using assms by (simp add: f(2) broker_inv_def)
  qed
qed

lemma drop_sub_ok:
  assumes "broker_inv b" "map_of (br_subs b) t = Some m"
  shows "\<exists>b'. drop_sub t m s b = Some b' \<and> broker_inv b' \<and> br_next b' = br_next b
    \<and> sub_at b' = (\<lambda>t' s'. if t' = t \<and> s' = s then None else sub_at b t' s')
    \<and> (\<forall>t'. t' \<noteq> t \<longrightarrow> map_of (br_subs b') t' = map_of (br_subs b) t')
    \<and> (\<forall>c. ch_buf (br_chan b' c) = ch_buf (br_chan b c))
    \<and> (\<forall>c. ch_closed (br_chan b' c) = (ch_closed (br_chan b c) \<or> (\<exists>x. sub_at b t s = Some x \<and> sb_Ch x = c)))"
proof (cases "map_of m s")
  case None
  then have "drop_sub t m s b = Some b" using inv_topic [OF assms] by (simp add: drop_sub_def)
  moreover have "sub_at b t s = None" using None assms(2) by (simp add: sub_at_def)
  ultimately show ?thesis using assms(1) by (auto simp: fun_eq_iff)
next
  case (Some x)
  have m: "gomap_wf m" using inv_topic [OF assms] by simp
  have x: "sub_at b t s = Some x" by (rule in_topic [OF assms(2) Some])
  have op: "\<not> ch_closed (br_chan b (sb_Ch x))" using inv_open [OF assms(1) x] by simp
  define m' where "m' = AList.delete s m"
  define b' where "b' = b\<lparr>br_chan := (br_chan b)(sb_Ch x := (br_chan b (sb_Ch x))\<lparr>ch_closed := True\<rparr>),
    br_subs := (if m' = [] then AList.delete t (br_subs b) else AList.update t m' (br_subs b))\<rparr>"
  have r: "drop_sub t m s b = Some b'"
    using Some op by (simp add: drop_sub_def close_chan_def m'_def b'_def Let_def)
  have nx: "br_next b' = br_next b" by (simp add: b'_def)
  have ch: "br_chan b' = (br_chan b)(sb_Ch x := (br_chan b (sb_Ch x))\<lparr>ch_closed := True\<rparr>)"
    by (simp add: b'_def)
  have m'_map: "map_of m' = (map_of m)(s := None)" by (simp add: m'_def gomap_simps)
  have at: "sub_at b' = (\<lambda>t' s'. if t' = t \<and> s' = s then None else sub_at b t' s')"
  proof (intro ext)
    fix t' s'
    have "m' = [] \<Longrightarrow> s' \<noteq> s \<Longrightarrow> map_of m s' = None" using m'_map by (metis fun_upd_other map_of.simps(1))
    then show "sub_at b' t' s' = (if t' = t \<and> s' = s then None else sub_at b t' s')"
      using assms(2) m'_map by (auto simp: sub_at_def b'_def gomap_simps)
  qed
  have "broker_inv b'"
    unfolding broker_inv_def
  proof (intro conjI)
    show "gomap_wf (br_subs b')" using assms(1) by (simp add: b'_def broker_inv_def)
    have "\<forall>(t, m) \<in> set (br_subs b). gomap_wf m \<and> m \<noteq> []" using assms(1) by (simp add: broker_inv_def)
    then show "\<forall>(t, m) \<in> set (br_subs b'). gomap_wf m \<and> m \<noteq> []"
      using m by (auto simp: b'_def m'_def dest!: in_set_update in_set_delete)
    have ne: "sb_Ch y \<noteq> sb_Ch x" if "sub_at b t' s' = Some y" "\<not> (t' = t \<and> s' = s)" for t' s' y
      using inv_inj [OF assms(1) that(1) x] that(2) by auto
    show "\<forall>t' s' y. sub_at b' t' s' = Some y \<longrightarrow> sb_Ch y < br_next b' \<and> \<not> ch_closed (br_chan b' (sb_Ch y))"
      using ne by (auto simp: at nx ch split: if_splits dest: inv_open [OF assms(1)])
    show "\<forall>t1 s1 y t2 s2 z. sub_at b' t1 s1 = Some y \<longrightarrow> sub_at b' t2 s2 = Some z \<longrightarrow> sb_Ch y = sb_Ch z \<longrightarrow>
        t1 = t2 \<and> s1 = s2"
      unfolding at using inv_inj [OF assms(1)] by (metis option.distinct(1))
    show "\<forall>c. length (ch_buf (br_chan b' c)) \<le> sub_chan_cap" using assms(1) by (simp add: ch broker_inv_def)
  qed
  then show ?thesis
    using r at x by (intro exI [of _ b']) (auto simp: b'_def gomap_simps)
qed

definition closes_only :: "chan_id set \<Rightarrow> Broker \<Rightarrow> Broker \<Rightarrow> bool" where
  "closes_only C b b' \<longleftrightarrow> br_next b' = br_next b \<and> (\<forall>c. ch_buf (br_chan b' c) = ch_buf (br_chan b c))
     \<and> (\<forall>c. ch_closed (br_chan b' c) = (ch_closed (br_chan b c) \<or> c \<in> C))"

lemma closes_only_trans: "closes_only C b b1 \<Longrightarrow> closes_only D b1 b2 \<Longrightarrow> closes_only (C \<union> D) b b2"
  by (auto simp: closes_only_def)

lemma Unsubscribe_ok:
  assumes "broker_inv b"
  shows "\<exists>b'. Unsubscribe b t s = Some b' \<and> broker_inv b'
    \<and> sub_at b' = (\<lambda>t' s'. if t' = t \<and> s' = s then None else sub_at b t' s')
    \<and> closes_only {c. \<exists>x. sub_at b t s = Some x \<and> sb_Ch x = c} b b'"
proof (cases "map_of (br_subs b) t")
  case None
  then show ?thesis using assms by (auto simp: Unsubscribe_def sub_at_def closes_only_def fun_eq_iff)
next
  case (Some m)
  from drop_sub_ok [OF assms Some, of s] show ?thesis using Some by (auto simp: Unsubscribe_def closes_only_def)
qed

lemma drop_subs_ok:
  "broker_inv b \<Longrightarrow> distinct (map fst rest) \<Longrightarrow> \<forall>(t, m) \<in> set rest. map_of (br_subs b) t = Some m \<Longrightarrow>
   \<exists>b'. drop_subs rest s b = Some b' \<and> broker_inv b'
     \<and> sub_at b' = (\<lambda>t' s'. if t' \<in> fst ` set rest \<and> s' = s then None else sub_at b t' s')
     \<and> closes_only {c. \<exists>t x. sub_at b t s = Some x \<and> sb_Ch x = c \<and> t \<in> fst ` set rest} b b'"
proof (induction rest arbitrary: b)
  case Nil
  then show ?case by (auto simp: closes_only_def fun_eq_iff)
next
  case (Cons tm rest)
  obtain t m where tm: "tm = (t, m)" by (cases tm)
  have "map_of (br_subs b) t = Some m" using Cons.prems(3) tm by auto
  from drop_sub_ok [OF Cons.prems(1) this, of s] obtain b1 where
    b1: "drop_sub t m s b = Some b1" "broker_inv b1" "br_next b1 = br_next b"
      "sub_at b1 = (\<lambda>t' s'. if t' = t \<and> s' = s then None else sub_at b t' s')"
      "\<forall>t'. t' \<noteq> t \<longrightarrow> map_of (br_subs b1) t' = map_of (br_subs b) t'"
      "\<forall>c. ch_buf (br_chan b1 c) = ch_buf (br_chan b c)"
      "\<forall>c. ch_closed (br_chan b1 c) = (ch_closed (br_chan b c) \<or> (\<exists>x. sub_at b t s = Some x \<and> sb_Ch x = c))"
    by blast
  have notin: "t \<notin> fst ` set rest" using Cons.prems(2) tm by simp
  have "map_of (br_subs b1) t' = Some m'" if "(t', m') \<in> set rest" for t' m'
  proof -
    have "t' \<noteq> t" using that notin by force
    then show ?thesis using that b1(5) Cons.prems(3) by auto
  qed
  then have "\<forall>(t, m) \<in> set rest. map_of (br_subs b1) t = Some m" by auto
  from Cons.IH [OF b1(2) _ this] Cons.prems(2) obtain b' where
    b': "drop_subs rest s b1 = Some b'" "broker_inv b'"
      "sub_at b' = (\<lambda>t' s'. if t' \<in> fst ` set rest \<and> s' = s then None else sub_at b1 t' s')"
      "closes_only {c. \<exists>t x. sub_at b1 t s = Some x \<and> sb_Ch x = c \<and> t \<in> fst ` set rest} b1 b'"
    by auto
  have "drop_subs (tm # rest) s b = Some b'" using b1(1) b'(1) tm by simp
  moreover have "sub_at b' = (\<lambda>t' s'. if t' \<in> fst ` set (tm # rest) \<and> s' = s then None else sub_at b t' s')"
    using b'(3) b1(4) tm by (auto simp: fun_eq_iff)
  moreover have eq: "{c. \<exists>x. sub_at b t s = Some x \<and> sb_Ch x = c}
      \<union> {c. \<exists>t x. sub_at b1 t s = Some x \<and> sb_Ch x = c \<and> t \<in> fst ` set rest}
      = {c. \<exists>t x. sub_at b t s = Some x \<and> sb_Ch x = c \<and> t \<in> fst ` set (tm # rest)}" (is "?l = ?r")
  proof (rule set_eqI)
    fix c
    have "sub_at b1 u s = (if u = t then None else sub_at b u s)" for u by (simp add: b1(4))
    then show "c \<in> ?l \<longleftrightarrow> c \<in> ?r"
      using notin unfolding tm mem_Collect_eq Un_iff fst_conv list.set image_insert insert_iff
      by (metis option.distinct(1))
  qed
  moreover have c1: "closes_only {c. \<exists>x. sub_at b t s = Some x \<and> sb_Ch x = c} b b1"
    using b1(3,6,7) by (simp add: closes_only_def)
  have "closes_only {c. \<exists>t x. sub_at b t s = Some x \<and> sb_Ch x = c \<and> t \<in> fst ` set (tm # rest)} b b'"
    using closes_only_trans [OF c1 b'(4)] unfolding eq .
  ultimately show ?case using b'(2) by blast
qed

lemma UnsubscribeAll_ok:
  assumes "broker_inv b"
  shows "\<exists>b'. UnsubscribeAll b s = Some b' \<and> broker_inv b'
    \<and> sub_at b' = (\<lambda>t' s'. if s' = s then None else sub_at b t' s')
    \<and> closes_only {c. \<exists>t x. sub_at b t s = Some x \<and> sb_Ch x = c} b b'"
proof -
  have wf: "gomap_wf (br_subs b)" using assms by (simp add: broker_inv_def)
  have "\<forall>(t, m) \<in> set (br_subs b). map_of (br_subs b) t = Some m" using wf by (auto simp: gomap_in_set)
  from drop_subs_ok [OF assms _ this, of s] wf obtain b' where
    b': "drop_subs (br_subs b) s b = Some b'" "broker_inv b'"
     "sub_at b' = (\<lambda>t' s'. if t' \<in> fst ` set (br_subs b) \<and> s' = s then None else sub_at b t' s')"
     "closes_only {c. \<exists>t x. sub_at b t s = Some x \<and> sb_Ch x = c \<and> t \<in> fst ` set (br_subs b)} b b'"
    unfolding gomap_wf_def by auto
  have dom: "sub_at b t s' = Some x \<Longrightarrow> t \<in> fst ` set (br_subs b)" for t s' x
    by (auto simp: sub_at_def dom_map_of_conv_image_fst [symmetric] split: option.splits)
  then have "sub_at b' = (\<lambda>t' s'. if s' = s then None else sub_at b t' s')"
    unfolding b'(3) by (auto simp: fun_eq_iff) (metis not_None_eq)
  moreover have "{c. \<exists>t x. sub_at b t s = Some x \<and> sb_Ch x = c \<and> t \<in> fst ` set (br_subs b)}
      = {c. \<exists>t x. sub_at b t s = Some x \<and> sb_Ch x = c}" using dom by metis
  ultimately show ?thesis using b' by (auto simp: UnsubscribeAll_def)
qed

text \<open>What a send leaves in a buffer.\<close>

definition offered :: "WSEvent \<Rightarrow> WSEvent list \<Rightarrow> WSEvent list" where
  "offered e q = (if length q < sub_chan_cap then q @ [e] else q)"

lemma offer_all_ok:
  "distinct cs \<Longrightarrow> \<forall>c \<in> set cs. \<not> ch_closed (br_chan b c) \<Longrightarrow>
   \<exists>b'. offer_all e cs b = Some b' \<and> br_subs b' = br_subs b \<and> br_next b' = br_next b
     \<and> (\<forall>c. br_chan b' c = (if c \<in> set cs then (br_chan b c)\<lparr>ch_buf := offered e (ch_buf (br_chan b c))\<rparr>
                             else br_chan b c))"
proof (induction cs arbitrary: b)
  case (Cons c cs)
  let ?b = "b\<lparr>br_chan := (br_chan b)(c := (br_chan b c)\<lparr>ch_buf := offered e (ch_buf (br_chan b c))\<rparr>)\<rparr>"
  have o: "offer e c b = Some ?b" using Cons.prems by (simp add: offer_def offered_def cong: if_cong)
  have "\<forall>c \<in> set cs. \<not> ch_closed (br_chan ?b c)" using Cons.prems by auto
  from Cons.IH [OF _ this] Cons.prems(1) show ?case
    unfolding offer_all.simps o by auto
qed simp

lemma topic_chans:
  assumes "broker_inv b" "map_of (br_subs b) t = Some m"
  shows "distinct (map (sb_Ch \<circ> snd) (filter P m))"
    and "c \<in> set (map (sb_Ch \<circ> snd) (filter P m)) \<longleftrightarrow>
      (\<exists>s x. sub_at b t s = Some x \<and> P (s, x) \<and> sb_Ch x = c)"
proof -
  have wf: "gomap_wf m" using inv_topic [OF assms] by simp
  have at: "(s, x) \<in> set m \<longleftrightarrow> sub_at b t s = Some x" for s x
    using assms(2) gomap_in_set [OF wf] by (simp add: sub_at_def)
  have "inj_on (sb_Ch \<circ> snd) (set m)"
    using inv_inj [OF assms(1)] by (auto simp: inj_on_def at) (metis option.inject)+
  then have "inj_on (sb_Ch \<circ> snd) (set (filter P m))" by (rule inj_on_subset) auto
  moreover have "distinct m" using wf by (simp add: gomap_wf_def distinct_map)
  ultimately show "distinct (map (sb_Ch \<circ> snd) (filter P m))" by (simp add: distinct_map)
  show "c \<in> set (map (sb_Ch \<circ> snd) (filter P m)) \<longleftrightarrow> (\<exists>s x. sub_at b t s = Some x \<and> P (s, x) \<and> sb_Ch x = c)"
    using at by force
qed

lemma inv_same_subs:
  assumes "broker_inv b" "br_subs b' = br_subs b" "br_next b' = br_next b"
    and "\<And>c. ch_closed (br_chan b' c) = ch_closed (br_chan b c)"
    and "\<And>c. length (ch_buf (br_chan b' c)) \<le> sub_chan_cap"
  shows "broker_inv b' \<and> sub_at b' = sub_at b"
  using assms by (simp add: broker_inv_def sub_at_def fun_eq_iff)

lemma offer_topic_ok:
  assumes "broker_inv b"
  shows "\<exists>b'. (case map_of (br_subs b) t of None \<Rightarrow> Some b
      | Some subs \<Rightarrow> offer_all e (map (sb_Ch \<circ> snd) (filter P subs)) b) = Some b'
    \<and> broker_inv b' \<and> sub_at b' = sub_at b \<and> br_next b' = br_next b
    \<and> (\<forall>c. br_chan b' c = (if \<exists>s x. sub_at b t s = Some x \<and> P (s, x) \<and> sb_Ch x = c
         then (br_chan b c)\<lparr>ch_buf := offered e (ch_buf (br_chan b c))\<rparr> else br_chan b c))"
proof (cases "map_of (br_subs b) t")
  case None
  then show ?thesis using assms by (simp add: sub_at_def)
next
  case (Some m)
  let ?cs = "map (sb_Ch \<circ> snd) (filter P m)"
  note cs = topic_chans [OF assms Some, where P = P]
  have "\<forall>c \<in> set ?cs. \<not> ch_closed (br_chan b c)" unfolding Ball_def cs(2) by (auto dest: inv_open [OF assms])
  from offer_all_ok [OF cs(1) this, of e] obtain b' where
    b': "offer_all e ?cs b = Some b'" "br_subs b' = br_subs b" "br_next b' = br_next b"
     "\<forall>c. br_chan b' c = (if c \<in> set ?cs then (br_chan b c)\<lparr>ch_buf := offered e (ch_buf (br_chan b c))\<rparr>
                           else br_chan b c)" by blast
  have "length (ch_buf (br_chan b c)) \<le> sub_chan_cap" for c using assms by (simp add: broker_inv_def)
  then have "broker_inv b' \<and> sub_at b' = sub_at b"
    using b' by (intro inv_same_subs [OF assms]) (auto simp: offered_def)
  then show ?thesis using b'(1,3,4) Some unfolding cs(2) by auto
qed

lemma Publish_ok:
  assumes "broker_inv b"
  shows "\<exists>b'. Publish b t e = Some b' \<and> broker_inv b' \<and> sub_at b' = sub_at b \<and> br_next b' = br_next b
    \<and> (\<forall>c. br_chan b' c = (if \<exists>s x. sub_at b t s = Some x \<and> sb_Ch x = c
         then (br_chan b c)\<lparr>ch_buf := offered e (ch_buf (br_chan b c))\<rparr> else br_chan b c))"
  using offer_topic_ok [OF assms, where P = "\<lambda>_. True"] by (simp add: Publish_def cong: option.case_cong)

lemma PublishScoped_ok:
  assumes "broker_inv b"
  shows "\<exists>b'. PublishScoped b t u e = Some b' \<and> broker_inv b' \<and> sub_at b' = sub_at b \<and> br_next b' = br_next b
    \<and> (\<forall>c. br_chan b' c = (if \<exists>s x. sub_at b t s = Some x \<and> sb_UserID x = u \<and> sb_Ch x = c
         then (br_chan b c)\<lparr>ch_buf := offered e (ch_buf (br_chan b c))\<rparr> else br_chan b c))"
  using offer_topic_ok [OF assms, where P = "\<lambda>(_, sub). sb_UserID sub = u"]
  by (simp add: PublishScoped_def cong: option.case_cong)

lemma receive_inv:
  assumes "broker_inv b" "receive c b = Some (r, b')"
  shows "broker_inv b' \<and> sub_at b' = sub_at b \<and> br_next b' = br_next b
    \<and> (\<forall>k. ch_closed (br_chan b' k) = ch_closed (br_chan b k))
    \<and> (\<forall>k. \<exists>n. ch_buf (br_chan b' k) = drop n (ch_buf (br_chan b k)))"
proof -
  have len: "length (ch_buf (br_chan b k)) \<le> sub_chan_cap" for k using assms(1) by (simp add: broker_inv_def)
  show ?thesis
  proof (cases "ch_buf (br_chan b c)")
    case Nil
    then have "b' = b" using assms(2) by (simp add: receive_def split: if_splits)
    then show ?thesis using assms(1) by (auto intro: exI [of _ 0])
  next
    case (Cons ev evs)
    then have b': "b' = b\<lparr>br_chan := (br_chan b)(c := (br_chan b c)\<lparr>ch_buf := evs\<rparr>)\<rparr>"
      using assms(2) by (simp add: receive_def)
    have "broker_inv b' \<and> sub_at b' = sub_at b"
      using len len [of c] Cons by (intro inv_same_subs [OF assms(1)]) (auto simp: b')
    moreover have "\<exists>n. ch_buf (br_chan b' k) = drop n (ch_buf (br_chan b k))" for k
      using Cons by (cases "k = c") (auto simp: b' intro: exI [of _ 1] exI [of _ 0])
    ultimately show ?thesis by (simp add: b')
  qed
qed

section \<open>The interface the gateway's handlers use\<close>

text \<open>A publisher never panics and keeps its own invariant; then no sequence of publications does.\<close>

locale publisher =
  fixes ok :: "'b \<Rightarrow> bool"
    and publish :: "'b \<Rightarrow> string \<Rightarrow> WSEvent \<Rightarrow> 'b option"
  assumes publishes: "ok b \<Longrightarrow> \<exists>b'. publish b t e = Some b' \<and> ok b'"
begin

lemma publish_total: "ok b \<Longrightarrow> publish b t e \<noteq> None"
  using publishes by fastforce

lemma publish_ok: "ok b \<Longrightarrow> publish b t e = Some b' \<Longrightarrow> ok b'"
  using publishes by (metis option.inject)

end

interpretation broker: publisher broker_inv Publish
  by unfold_locales (use Publish_ok in blast)

interpretation scoped: publisher broker_inv "\<lambda>b t. PublishScoped b t u" for u
  by unfold_locales (use PublishScoped_ok in blast)

section \<open>The broker as a step system\<close>

inductive broker_step :: "Broker \<Rightarrow> Broker \<Rightarrow> bool" where
  subscribe: "broker_step b (snd (Subscribe b t s u))"
| unsubscribe: "Unsubscribe b t s = Some b' \<Longrightarrow> broker_step b b'"
| unsubscribe_all: "UnsubscribeAll b s = Some b' \<Longrightarrow> broker_step b b'"
| publish: "Publish b t e = Some b' \<Longrightarrow> broker_step b b'"
| publish_scoped: "PublishScoped b t u e = Some b' \<Longrightarrow> broker_step b b'"
| receive: "receive c b = Some (r, b') \<Longrightarrow> broker_step b b'"

lemma broker_step_inv: "broker_step b b' \<Longrightarrow> broker_inv b \<Longrightarrow> broker_inv b'"
proof (induction rule: broker_step.induct)
  case (subscribe b t s u)
  then show ?case by (rule Subscribe_inv)
next
  case (unsubscribe b t s b')
  from Unsubscribe_ok [OF unsubscribe.prems, of t s] obtain b1
    where "Unsubscribe b t s = Some b1" "broker_inv b1" by (elim exE conjE)
  then show ?case using unsubscribe.hyps by simp
next
  case (unsubscribe_all b s b')
  from UnsubscribeAll_ok [OF unsubscribe_all.prems, of s] obtain b1
    where "UnsubscribeAll b s = Some b1" "broker_inv b1" by (elim exE conjE)
  then show ?case using unsubscribe_all.hyps by simp
next
  case (publish b t e b')
  show ?case by (rule broker.publish_ok [OF publish.prems publish.hyps])
next
  case (publish_scoped b t u e b')
  show ?case by (rule scoped.publish_ok [OF publish_scoped.prems publish_scoped.hyps])
next
  case (receive c b r b')
  then show ?case using receive_inv [OF receive.prems receive.hyps] by simp
qed

lemma broker_run_inv: "broker_step\<^sup>*\<^sup>* b b' \<Longrightarrow> broker_inv b \<Longrightarrow> broker_inv b'"
  by (induction rule: rtranclp.induct) (auto intro: broker_step_inv)

text \<open>
  C9 (broker_never_panics): in every run of the broker from the empty one, whatever the order of
  subscriptions, publications, receives and unsubscriptions, the next publication or unsubscription neither sends on a
  closed channel nor closes one twice, subscriptions own distinct open channels, and no buffer
  holds more than 64 events.
\<close>

theorem broker_never_panics:
  assumes "broker_step\<^sup>*\<^sup>* NewBroker b"
  shows "Publish b t e \<noteq> None \<and> PublishScoped b t u e \<noteq> None \<and> Unsubscribe b t s \<noteq> None
    \<and> UnsubscribeAll b s \<noteq> None \<and> broker_inv b"
proof (intro conjI)
  show i: "broker_inv b" using broker_run_inv [OF assms NewBroker_inv] .
  show "Publish b t e \<noteq> None" by (rule broker.publish_total [OF i])
  show "PublishScoped b t u e \<noteq> None" by (rule scoped.publish_total [OF i])
  show "Unsubscribe b t s \<noteq> None" using Unsubscribe_ok [OF i, of t s] by (elim exE conjE) simp
  show "UnsubscribeAll b s \<noteq> None" using UnsubscribeAll_ok [OF i, of s] by (elim exE conjE) simp
qed

theorem broker_never_panics_witness:
  "Unsubscribe (snd (Subscribe NewBroker ''job:1'' ''u'' 9)) ''job:1'' ''u'' \<noteq> None"
proof -
  have "broker_step\<^sup>*\<^sup>* NewBroker (snd (Subscribe NewBroker ''job:1'' ''u'' 9))"
    by (rule r_into_rtranclp) (rule broker_step.subscribe)
  from broker_never_panics [OF this] show ?thesis by blast
qed

section \<open>Delivery\<close>

text \<open>
  A publication appends the event to the channel of every subscriber of the
  topic whose buffer has room and touches no other channel; the scoped one does so for the channels of the
  user alone, even when others subscribed to the topic.
\<close>

theorem publish_delivers:
  assumes "broker_inv b" "Publish b t e = Some b1" "PublishScoped b t u e = Some b2"
  shows "(\<forall>s x. sub_at b t s = Some x \<longrightarrow> ch_buf (br_chan b1 (sb_Ch x)) = offered e (ch_buf (br_chan b (sb_Ch x))))
    \<and> (\<forall>c. (\<forall>s x. sub_at b t s = Some x \<longrightarrow> sb_Ch x \<noteq> c) \<longrightarrow> br_chan b1 c = br_chan b c)
    \<and> (\<forall>s x. sub_at b t s = Some x \<longrightarrow> ch_buf (br_chan b2 (sb_Ch x)) =
         (if sb_UserID x = u then offered e (ch_buf (br_chan b (sb_Ch x))) else ch_buf (br_chan b (sb_Ch x))))
    \<and> sub_at b1 = sub_at b \<and> sub_at b2 = sub_at b"
proof -
  from Publish_ok [OF assms(1), of t e] assms(2) have p: "sub_at b1 = sub_at b"
    "\<And>c. br_chan b1 c = (if \<exists>s x. sub_at b t s = Some x \<and> sb_Ch x = c
       then (br_chan b c)\<lparr>ch_buf := offered e (ch_buf (br_chan b c))\<rparr> else br_chan b c)"
    by (elim exE conjE, simp)+
  from PublishScoped_ok [OF assms(1), of t u e] assms(3) have q: "sub_at b2 = sub_at b"
    "\<And>c. br_chan b2 c = (if \<exists>s x. sub_at b t s = Some x \<and> sb_UserID x = u \<and> sb_Ch x = c
       then (br_chan b c)\<lparr>ch_buf := offered e (ch_buf (br_chan b c))\<rparr> else br_chan b c)"
    by (elim exE conjE, simp)+
  have only: "(\<exists>s' x'. sub_at b t s' = Some x' \<and> sb_UserID x' = u \<and> sb_Ch x' = sb_Ch x) \<longleftrightarrow> sb_UserID x = u"
    if "sub_at b t s = Some x" for s x
    using that inv_inj [OF assms(1) that] by (metis option.inject)
  show ?thesis
  proof (intro conjI allI impI)
    fix s x assume x: "sub_at b t s = Some x"
    then show "ch_buf (br_chan b1 (sb_Ch x)) = offered e (ch_buf (br_chan b (sb_Ch x)))"
      unfolding p(2) by (subst if_P) auto
    show "ch_buf (br_chan b2 (sb_Ch x)) =
         (if sb_UserID x = u then offered e (ch_buf (br_chan b (sb_Ch x))) else ch_buf (br_chan b (sb_Ch x)))"
      unfolding q(2) only [OF x] by simp
  next
    fix c assume "\<forall>s x. sub_at b t s = Some x \<longrightarrow> sb_Ch x \<noteq> c"
    then show "br_chan b1 c = br_chan b c" unfolding p(2) by (subst if_not_P) auto
  qed (rule p(1), rule q(1))
qed

definition sample_event :: WSEvent where
  "sample_event = \<lparr>ws_type = ''job.result'', ws_topic = ''job:1'', ws_payload = ''''\<rparr>"

definition sample_broker :: Broker where
  "sample_broker = snd (Subscribe NewBroker ''job:1'' ''u'' 9)"

lemma sample_broker_inv: "broker_inv sample_broker"
  unfolding sample_broker_def by (rule Subscribe_inv [OF NewBroker_inv])

lemma sample_broker_at: "sub_at sample_broker ''job:1'' ''u'' = Some \<lparr>sb_UserID = 9, sb_Ch = 0\<rparr>"
  by (simp add: sample_broker_def sub_at_Subscribe) (simp add: Subscribe_def NewBroker_def Let_def)

theorem publish_delivers_witness:
  "\<exists>b. Publish sample_broker ''job:1'' sample_event = Some b \<and> ch_buf (br_chan b 0) = [sample_event]"
proof -
  obtain b1 where b1: "Publish sample_broker ''job:1'' sample_event = Some b1"
    using broker.publish_total [OF sample_broker_inv] by blast
  obtain b2 where b2: "PublishScoped sample_broker ''job:1'' 8 sample_event = Some b2"
    using scoped.publish_total [OF sample_broker_inv] by blast
  have "ch_buf (br_chan sample_broker 0) = []" by (simp add: sample_broker_def Subscribe_def NewBroker_def Let_def)
  then have "ch_buf (br_chan b1 0) = [sample_event]"
    using publish_delivers [OF sample_broker_inv b1 b2] sample_broker_at by (fastforce simp: offered_def sub_chan_cap_def)
  then show ?thesis using b1 by blast
qed

section \<open>Channels nobody can close\<close>

text \<open>An open channel no subscription leads to.\<close>

definition orphan :: "chan_id \<Rightarrow> Broker \<Rightarrow> bool" where
  "orphan c b \<longleftrightarrow> c < br_next b \<and> \<not> ch_closed (br_chan b c) \<and> (\<forall>t s x. sub_at b t s = Some x \<longrightarrow> sb_Ch x \<noteq> c)"

definition orphaned :: "chan_id \<Rightarrow> Broker \<Rightarrow> Broker \<Rightarrow> bool" where
  "orphaned c b b' \<longleftrightarrow> orphan c b' \<and> (\<exists>n. ch_buf (br_chan b' c) = drop n (ch_buf (br_chan b c)))"

lemma orphaned_trans: "orphaned c b b1 \<Longrightarrow> orphaned c b1 b2 \<Longrightarrow> orphaned c b b2"
  by (auto simp: orphaned_def)

lemma orphan_drop:
  assumes "orphan c b" "closes_only C b b'" "c \<notin> C" "\<And>t s x. sub_at b' t s = Some x \<Longrightarrow> sub_at b t s = Some x"
  shows "orphaned c b b'"
  using assms unfolding orphaned_def orphan_def closes_only_def by (metis drop0)

lemma orphan_send:
  assumes "orphan c b" "sub_at b' = sub_at b" "br_next b' = br_next b" "br_chan b' c = br_chan b c"
  shows "orphaned c b b'"
  using assms unfolding orphaned_def orphan_def by (metis drop0)

lemma orphan_step:
  assumes "broker_step b b'" "broker_inv b" "orphan c b"
  shows "orphaned c b b'"
  using assms
proof (induction rule: broker_step.induct)
  case (subscribe b t s u)
  let ?b' = "snd (Subscribe b t s u)"
  have f: "br_next ?b' = Suc (br_next b)" "br_chan ?b' = (br_chan b)(br_next b := \<lparr>ch_buf = [], ch_closed = False\<rparr>)"
    "sb_Ch (fst (Subscribe b t s u)) = br_next b"
    by (simp_all add: Subscribe_def Let_def)
  have "c \<noteq> br_next b" using subscribe.prems(2) by (simp add: orphan_def)
  then have "orphan c ?b'"
    using subscribe.prems(2) by (auto simp: orphan_def f sub_at_Subscribe)
  moreover have "ch_buf (br_chan ?b' c) = drop 0 (ch_buf (br_chan b c))"
    using \<open>c \<noteq> br_next b\<close> by (simp add: f(2))
  ultimately show ?case unfolding orphaned_def by blast
next
  case (unsubscribe b t s b')
  from Unsubscribe_ok [OF unsubscribe.prems(1), of t s] unsubscribe.hyps
  have "sub_at b' = (\<lambda>t' s'. if t' = t \<and> s' = s then None else sub_at b t' s')"
    "closes_only {c. \<exists>x. sub_at b t s = Some x \<and> sb_Ch x = c} b b'" by (elim exE conjE, simp)+
  then show ?case using unsubscribe.prems(2)
    by (intro orphan_drop) (auto simp: orphan_def split: if_splits)
next
  case (unsubscribe_all b s b')
  from UnsubscribeAll_ok [OF unsubscribe_all.prems(1), of s] unsubscribe_all.hyps
  have "sub_at b' = (\<lambda>t' s'. if s' = s then None else sub_at b t' s')"
    "closes_only {c. \<exists>t x. sub_at b t s = Some x \<and> sb_Ch x = c} b b'" by (elim exE conjE, simp)+
  then show ?case using unsubscribe_all.prems(2)
    by (intro orphan_drop) (auto simp: orphan_def split: if_splits)
next
  case (publish b t e b')
  from Publish_ok [OF publish.prems(1), of t e] publish.hyps
  have p: "sub_at b' = sub_at b" "br_next b' = br_next b"
    "br_chan b' c = (if \<exists>s x. sub_at b t s = Some x \<and> sb_Ch x = c
       then (br_chan b c)\<lparr>ch_buf := offered e (ch_buf (br_chan b c))\<rparr> else br_chan b c)"
    by (elim exE conjE, simp)+
  have "br_chan b' c = br_chan b c"
    unfolding p(3) using publish.prems(2) by (subst if_not_P) (auto simp: orphan_def)
  then show ?case by (rule orphan_send [OF publish.prems(2) p(1,2)])
next
  case (publish_scoped b t u e b')
  from PublishScoped_ok [OF publish_scoped.prems(1), of t u e] publish_scoped.hyps
  have p: "sub_at b' = sub_at b" "br_next b' = br_next b"
    "br_chan b' c = (if \<exists>s x. sub_at b t s = Some x \<and> sb_UserID x = u \<and> sb_Ch x = c
       then (br_chan b c)\<lparr>ch_buf := offered e (ch_buf (br_chan b c))\<rparr> else br_chan b c)"
    by (elim exE conjE, simp)+
  have "br_chan b' c = br_chan b c"
    unfolding p(3) using publish_scoped.prems(2) by (subst if_not_P) (auto simp: orphan_def)
  then show ?case by (rule orphan_send [OF publish_scoped.prems(2) p(1,2)])
next
  case (receive k b r b')
  from receive_inv [OF receive.prems(1) receive.hyps] receive.prems(2) show ?case
    by (simp add: orphaned_def orphan_def)
qed

lemma orphan_run: "broker_step\<^sup>*\<^sup>* b b' \<Longrightarrow> broker_inv b \<Longrightarrow> orphan c b \<Longrightarrow> orphaned c b b'"
proof (induction rule: rtranclp.induct)
  case (rtrancl_refl b)
  then show ?case by (simp add: orphaned_def) (metis drop0)
next
  case (rtrancl_into_rtrancl b b1 b2)
  have "orphaned c b b1" using rtrancl_into_rtrancl.IH rtrancl_into_rtrancl.prems by simp
  moreover have "orphaned c b1 b2"
    using rtrancl_into_rtrancl.hyps broker_run_inv [OF rtrancl_into_rtrancl.hyps(1) rtrancl_into_rtrancl.prems(1)]
      calculation by (intro orphan_step) (auto simp: orphaned_def)
  ultimately show ?case by (rule orphaned_trans)
qed

text \<open>
  Subscribing again to a topic under the same subscriber id replaces the first
  channel without closing it: whatever happens later, that channel stays open and receives no event, so
  the goroutine that ranges over it never ends.
\<close>

theorem resubscribe_leaks:
  assumes "broker_inv b" "sub_at b t s = Some x"
    and "broker_step\<^sup>*\<^sup>* (snd (Subscribe b t s u)) b'"
  shows "\<not> ch_closed (br_chan b' (sb_Ch x))
    \<and> (\<exists>n. ch_buf (br_chan b' (sb_Ch x)) = drop n (ch_buf (br_chan b (sb_Ch x))))"
proof -
  let ?b = "snd (Subscribe b t s u)"
  have x: "sb_Ch x < br_next b" "\<not> ch_closed (br_chan b (sb_Ch x))" using inv_open [OF assms(1,2)] by auto
  have f: "br_next ?b = Suc (br_next b)" "br_chan ?b (sb_Ch x) = br_chan b (sb_Ch x)"
    "sb_Ch (fst (Subscribe b t s u)) = br_next b"
    using x(1) by (simp_all add: Subscribe_def Let_def)
  have "orphan (sb_Ch x) ?b"
    using x f inv_inj [OF assms(1,2)] unfolding orphan_def
    by (simp add: sub_at_Subscribe) (metis less_irrefl option.inject)
  from orphan_run [OF assms(3) Subscribe_inv [OF assms(1)] this] show ?thesis
    by (simp add: orphaned_def orphan_def f(2))
qed

theorem resubscribe_leaks_witness:
  "\<not> ch_closed (br_chan (snd (Subscribe sample_broker ''job:1'' ''u'' 9)) 0)"
  using resubscribe_leaks [OF sample_broker_inv sample_broker_at rtranclp.rtrancl_refl] by simp

section \<open>Browser connections\<close>

lemma Unsubscribe_absent:
  assumes "broker_inv b" "sub_at b t s = None"
  shows "Unsubscribe b t s = Some b"
proof (cases "map_of (br_subs b) t")
  case (Some m)
  then show ?thesis using inv_topic [OF assms(1) Some] assms(2)
    by (simp add: Unsubscribe_def drop_sub_def sub_at_def)
qed (simp add: Unsubscribe_def)

lemma ws_remove_absent:
  assumes "broker_inv b" "x \<noteq> []"
  shows "sub_at b x (wss_subscriberID s) = None \<Longrightarrow>
    ws_remove_topics (replicate k (Some x)) s b = Some (s\<lparr>wss_count := wss_count s - int k\<rparr>, b)"
proof (induction k arbitrary: s)
  case (Suc k)
  then show ?case using assms by (simp add: ws_remove_def Unsubscribe_absent algebra_simps)
qed simp

lemma ws_add_topics_all:
  "\<forall>t \<in> set ts. t \<noteq> [] \<Longrightarrow> wss_count s + int (length ts) \<le> wss_max s \<Longrightarrow>
   \<exists>s' b'. ws_add_topics (map Some ts) s b = (s', b')
     \<and> (\<forall>t. t \<in> set ts \<or> sub_at b t (wss_subscriberID s) \<noteq> None \<longrightarrow> sub_at b' t (wss_subscriberID s) \<noteq> None)"
proof (induction ts arbitrary: s b)
  case (Cons t ts)
  obtain s1 b1 where a: "ws_add t s b = (s1, b1)" by (cases "ws_add t s b")
  then have s1: "wss_subscriberID s1 = wss_subscriberID s" "wss_count s1 = wss_count s + 1" "wss_max s1 = wss_max s"
    and b1: "b1 = snd (Subscribe b t (wss_subscriberID s) (wss_userID s))"
    by (auto simp: ws_add_def Let_def split: prod.splits)
  have "wss_count s1 + int (length ts) \<le> wss_max s1" using Cons.prems(2) s1 by simp
  from Cons.IH [OF _ this, of b1] Cons.prems(1) obtain s' b' where
    r: "ws_add_topics (map Some ts) s1 b1 = (s', b')"
      "\<forall>u. u \<in> set ts \<or> sub_at b1 u (wss_subscriberID s) \<noteq> None \<longrightarrow> sub_at b' u (wss_subscriberID s) \<noteq> None"
    using s1(1) by auto
  moreover have "t \<noteq> []" "wss_count s < wss_max s" using Cons.prems by auto
  ultimately show ?case using a by (auto simp: b1 sub_at_Subscribe split: if_splits)
qed auto

text \<open>
  The cap on a connection's subscriptions is no bound: the counter goes down for
  every topic named in an unsubscribe message, subscribed or not, so a client that first unsubscribes from
  a topic it does not have, often enough, then subscribes to as many topics as it likes.
\<close>

theorem ws_cap_bypass:
  assumes "broker_inv b" "sub_at b x (wss_subscriberID s) = None" "x \<noteq> []"
    and "\<forall>t \<in> set ts. t \<noteq> []" "wss_count s + int (length ts) \<le> wss_max s + int k"
  shows "\<exists>s1 s2 b2. ws_handle \<lparr>wm_type = ''unsubscribe'', wm_topics = Some (replicate k (Some x)), wm_topic = None\<rparr>
        s b = Some (s1, b)
    \<and> ws_handle \<lparr>wm_type = ''subscribe'', wm_topics = Some (map Some ts), wm_topic = None\<rparr> s1 b = Some (s2, b2)
    \<and> (\<forall>t \<in> set ts. sub_at b2 t (wss_subscriberID s) \<noteq> None)"
proof -
  let ?s1 = "s\<lparr>wss_count := wss_count s - int k\<rparr>"
  have "wss_count ?s1 + int (length ts) \<le> wss_max ?s1" using assms(5) by simp
  from ws_add_topics_all [OF assms(4) this, of b] obtain s2 b2 where
    "ws_add_topics (map Some ts) ?s1 b = (s2, b2)" "\<forall>t \<in> set ts. sub_at b2 t (wss_subscriberID s) \<noteq> None"
    by auto
  then show ?thesis
    using ws_remove_absent [OF assms(1,3,2)] by (auto simp: ws_handle_def)
qed

definition sample_session :: ws_session where
  "sample_session = \<lparr>wss_subscriberID = ''u'', wss_userID = 9, wss_count = 1, wss_max = 2, wss_active = []\<rparr>"

theorem ws_cap_bypass_witness:
  "\<exists>s2 b2. ws_handle \<lparr>wm_type = ''subscribe'', wm_topics = Some [Some ''a'', Some ''b'', Some ''c''], wm_topic = None\<rparr>
      (sample_session\<lparr>wss_count := -1\<rparr>) sample_broker = Some (s2, b2)
    \<and> sub_at b2 ''a'' ''u'' \<noteq> None \<and> sub_at b2 ''b'' ''u'' \<noteq> None \<and> sub_at b2 ''c'' ''u'' \<noteq> None"
proof -
  have at: "sub_at sample_broker ''x'' (wss_subscriberID sample_session) = None"
    by (simp add: sample_broker_def sample_session_def sub_at_Subscribe) (simp add: sub_at_def NewBroker_def)
  have "\<exists>s1 s2 b2. ws_handle \<lparr>wm_type = ''unsubscribe'', wm_topics = Some (replicate 2 (Some ''x'')), wm_topic = None\<rparr>
        sample_session sample_broker = Some (s1, sample_broker)
    \<and> ws_handle \<lparr>wm_type = ''subscribe'', wm_topics = Some (map Some [''a'', ''b'', ''c'']), wm_topic = None\<rparr>
        s1 sample_broker = Some (s2, b2)
    \<and> (\<forall>t \<in> set [''a'', ''b'', ''c'']. sub_at b2 t (wss_subscriberID sample_session) \<noteq> None)"
    by (rule ws_cap_bypass [OF sample_broker_inv at]) (simp_all add: sample_session_def)
  moreover have "ws_handle \<lparr>wm_type = ''unsubscribe'', wm_topics = Some (replicate 2 (Some ''x'')), wm_topic = None\<rparr>
        sample_session sample_broker = Some (sample_session\<lparr>wss_count := -1\<rparr>, sample_broker)"
    using ws_remove_absent [OF sample_broker_inv _ at, of 2] by (simp add: ws_handle_def sample_session_def)
  ultimately show ?thesis by (auto simp: sample_session_def)
qed

text \<open>
  A connection's subscriber id is the user and the first eight characters of a fresh
  UUID. When two connections of one user get the same eight characters (a UUID of version 7 begins with the
  time, and its first eight hex digits change once in 65 seconds), closing the first one
  ends every subscription of the second and closes its channel.
\<close>

theorem ws_tabs_collide:
  assumes "broker_inv b" "take 8 (str f1) = take 8 (str f2)"
    and "ws_open str u f1 cap b = (s1, b1)" "broker_step\<^sup>*\<^sup>* b1 b1'" "ws_open str u f2 cap b1' = (s2, b2)"
  shows "\<exists>b3. ws_close s1 b2 = Some b3 \<and> (\<forall>t. sub_at b3 t (wss_subscriberID s2) = None)
    \<and> (\<exists>c. map_of (wss_active s2) ''_init'' = Some c \<and> \<not> ch_closed (br_chan b2 c) \<and> ch_closed (br_chan b3 c))"
proof -
  have b1: "b1 = snd (Subscribe b (JobTopic str u) (str u @ ''-'' @ take 8 (str f1)) u)"
    and s1: "wss_subscriberID s1 = str u @ ''-'' @ take 8 (str f1)"
    using assms(3) by (auto simp: ws_open_def Let_def split: prod.splits)
  let ?sub = "Subscribe b1' (JobTopic str u) (wss_subscriberID s1) u"
  have b2: "b2 = snd ?sub" and s2: "wss_subscriberID s2 = wss_subscriberID s1"
    "map_of (wss_active s2) ''_init'' = Some (sb_Ch (fst ?sub))"
    using assms(2,5) s1 by (auto simp: ws_open_def Let_def split: prod.splits)
  have "broker_inv b1'" using broker_run_inv [OF assms(4)] Subscribe_inv [OF assms(1)] b1 by simp
  then have i2: "broker_inv b2" unfolding b2 by (rule Subscribe_inv)
  have at: "sub_at b2 (JobTopic str u) (wss_subscriberID s1) = Some (fst ?sub)"
    unfolding b2 sub_at_Subscribe by simp
  from UnsubscribeAll_ok [OF i2, of "wss_subscriberID s1"] obtain b3 where
    b3: "UnsubscribeAll b2 (wss_subscriberID s1) = Some b3"
      "sub_at b3 = (\<lambda>t' s'. if s' = wss_subscriberID s1 then None else sub_at b2 t' s')"
      "closes_only {c. \<exists>t x. sub_at b2 t (wss_subscriberID s1) = Some x \<and> sb_Ch x = c} b2 b3"
    by (elim exE conjE)
  show ?thesis
  proof (intro exI conjI)
    show "ws_close s1 b2 = Some b3" using b3(1) by (simp add: ws_close_def)
    show "\<forall>t. sub_at b3 t (wss_subscriberID s2) = None" unfolding b3(2) s2(1) by simp
    show "map_of (wss_active s2) ''_init'' = Some (sb_Ch (fst ?sub))" by (rule s2)
    show "\<not> ch_closed (br_chan b2 (sb_Ch (fst ?sub)))" using inv_open [OF i2 at] by simp
    show "ch_closed (br_chan b3 (sb_Ch (fst ?sub)))" using b3(3) at by (auto simp: closes_only_def)
  qed
qed

theorem ws_tabs_collide_witness:
  "\<exists>s1 b1 s2 b2 b3. ws_open (\<lambda>_. ''0123456789'') 9 1 10 NewBroker = (s1, b1)
     \<and> ws_open (\<lambda>_. ''0123456789'') 9 2 10 b1 = (s2, b2) \<and> ws_close s1 b2 = Some b3
     \<and> (\<forall>t. sub_at b3 t (wss_subscriberID s2) = None)"
proof -
  obtain s1 b1 where 1: "ws_open (\<lambda>_. ''0123456789'') 9 1 10 NewBroker = (s1, b1)" by fastforce
  obtain s2 b2 where 2: "ws_open (\<lambda>_. ''0123456789'') 9 2 10 b1 = (s2, b2)" by fastforce
  from ws_tabs_collide [OF NewBroker_inv refl 1 rtranclp.rtrancl_refl 2] 1 2 show ?thesis by blast
qed

end
