(* ===== verification/VncRelay.thy ===== *)
theory VncRelay
  imports Model
begin

text \<open>
  \<open>gateway/internal/vncrelay/relay.go\<close>: the pairing of a browser's and a device's websocket in a
  VNC session, the relay of bytes between them, and the reaper.

  Sessions are shared objects the map points to, so they live in the map itself; a websocket is a
  number, with its state in \<open>rl_ws\<close>. \<open>readyCh\<close> carries no value: \<open>vs_ready\<close> says that it is closed.
  The time, the fresh session id and the random token are arguments. \<open>hashToken\<close> is
  the argument \<open>H\<close>. Each operation is atomic, which the locks and atomics of the code make it up to the
  interleaving of a closing with another operation, covered by the order of steps.
\<close>

section \<open>State\<close>

datatype vnc_status = statusPending | statusReady | statusActive | statusClosed

type_synonym ws_id = nat

record Session =
  vs_ID :: uuid
  vs_JobID :: uuid
  vs_UserID :: uuid
  vs_DeviceID :: uuid
  vs_AgentID :: uuid
  vs_TokenHash :: string
  vs_RFBPassword :: string
  vs_Status :: vnc_status
  vs_browser :: "ws_id option"
  vs_device :: "ws_id option"
  vs_lastActive :: int
  vs_ready :: bool
  vs_readyErr :: string
  vs_idleTTL :: duration
  vs_maxTTL :: duration
  vs_createdAt :: time
  vs_closedAt :: "time option"
  vs_bufferCap :: int
  vs_pumps :: "(ws_id \<times> ws_id) list"
    \<comment> \<open>the goroutines \<open>go r.pump(sess, src, dst, ..)\<close> started\<close>

text \<open>A websocket: messages to be read, with the flag of a binary one, and the messages written.\<close>

record ws_conn =
  wc_in :: "(bool \<times> 8 word list) list"
  wc_out :: "8 word list list"
  wc_closed :: bool

record Relay =
  rl_sessions :: "(uuid, Session) gomap"
  rl_nodeID :: string
  rl_bufferCap :: int
  rl_maxPerUser :: int
  rl_ws :: "ws_id \<Rightarrow> ws_conn"

definition NewRelay :: "string \<Rightarrow> int \<Rightarrow> int \<Rightarrow> (ws_id \<Rightarrow> ws_conn) \<Rightarrow> Relay" where
  "NewRelay nodeID bufferCap maxPerUser ws = \<lparr>rl_sessions = [], rl_nodeID = nodeID,
     rl_bufferCap = bufferCap, rl_maxPerUser = maxPerUser, rl_ws = ws\<rparr>"

definition GetSession :: "Relay \<Rightarrow> uuid \<Rightarrow> Session option" where
  "GetSession r sessionID = map_of (rl_sessions r) sessionID"

definition put_session :: "Session \<Rightarrow> Relay \<Rightarrow> Relay" where
  "put_session s r = r\<lparr>rl_sessions := AList.update (vs_ID s) s (rl_sessions r)\<rparr>"

section \<open>Operations\<close>

definition new_session :: "uuid \<Rightarrow> uuid \<Rightarrow> uuid \<Rightarrow> uuid \<Rightarrow> uuid \<Rightarrow> string \<Rightarrow> duration \<Rightarrow> duration \<Rightarrow> int \<Rightarrow>
    time \<Rightarrow> Session" where
  "new_session sessionID jobID userID deviceID agentID tokenHash idleTTL maxTTL cap now =
     \<lparr>vs_ID = sessionID, vs_JobID = jobID, vs_UserID = userID, vs_DeviceID = deviceID,
      vs_AgentID = agentID, vs_TokenHash = tokenHash, vs_RFBPassword = '''', vs_Status = statusPending,
      vs_browser = None, vs_device = None, vs_lastActive = 0, vs_ready = False, vs_readyErr = '''',
      vs_idleTTL = idleTTL, vs_maxTTL = maxTTL, vs_createdAt = now, vs_closedAt = None,
      vs_bufferCap = cap, vs_pumps = []\<rparr>"

definition CreateSession :: "(string \<Rightarrow> string) \<Rightarrow> uuid \<Rightarrow> uuid \<Rightarrow> uuid \<Rightarrow> uuid \<Rightarrow> duration \<Rightarrow> duration \<Rightarrow>
    time \<Rightarrow> uuid \<Rightarrow> string \<Rightarrow> Relay \<Rightarrow> Session \<times> string \<times> Relay" where
  "CreateSession H jobID userID deviceID agentID idleTTL maxTTL now sessionID token r =
     (case find (\<lambda>s. vs_JobID s = jobID \<and> vs_Status s \<noteq> statusClosed) (map snd (rl_sessions r)) of
        Some s \<Rightarrow> (let s1 = s\<lparr>vs_TokenHash := H token\<rparr> in (s1, token, put_session s1 r))
      | None \<Rightarrow>
          (let sess = new_session sessionID jobID userID deviceID agentID (H token) idleTTL maxTTL
                        (rl_bufferCap r) now
           in (sess, token, put_session sess r)))"

definition MarkReady :: "uuid \<Rightarrow> string \<Rightarrow> Relay \<Rightarrow> err option \<times> Relay" where
  "MarkReady sessionID rfbPassword r = (case GetSession r sessionID of
     None \<Rightarrow> (Some (ESessionNotFound sessionID), r)
   | Some sess \<Rightarrow> (None, put_session
       (sess\<lparr>vs_RFBPassword := rfbPassword, vs_Status := statusReady, vs_ready := True\<rparr>) r))"

definition close_ws :: "ws_id option \<Rightarrow> Relay \<Rightarrow> Relay" where
  "close_ws w r = (case w of None \<Rightarrow> r
     | Some c \<Rightarrow> r\<lparr>rl_ws := (rl_ws r)(c := (rl_ws r c)\<lparr>wc_closed := True\<rparr>)\<rparr>)"

definition CloseSession :: "time \<Rightarrow> uuid \<Rightarrow> Relay \<Rightarrow> Relay" where
  "CloseSession now sessionID r = (case GetSession r sessionID of
     None \<Rightarrow> r
   | Some sess \<Rightarrow>
       if vs_Status sess = statusClosed then r
       else close_ws (vs_device sess) (close_ws (vs_browser sess)
              (put_session (sess\<lparr>vs_Status := statusClosed, vs_closedAt := Some now\<rparr>) r)))"

definition MarkError :: "time \<Rightarrow> uuid \<Rightarrow> string \<Rightarrow> Relay \<Rightarrow> Relay" where
  "MarkError now sessionID errMsg r = (case GetSession r sessionID of
     None \<Rightarrow> r
   | Some sess \<Rightarrow> CloseSession now sessionID (put_session (sess\<lparr>vs_readyErr := errMsg, vs_ready := True\<rparr>) r))"

text \<open>
  \<open>WaitReady\<close> returns when the channel is closed or when the time is up (\<open>expired\<close>), and otherwise
  keeps waiting (\<open>None\<close>).
\<close>

definition WaitReady :: "uuid \<Rightarrow> bool \<Rightarrow> Relay \<Rightarrow> (err + string) option" where
  "WaitReady sessionID expired r = (case GetSession r sessionID of
     None \<Rightarrow> Some (Inl (ESessionNotFound sessionID))
   | Some sess \<Rightarrow>
       if vs_ready sess then
         (if vs_readyErr sess \<noteq> [] then Some (Inl (ESessionError (vs_readyErr sess)))
          else Some (Inr (vs_RFBPassword sess)))
       else if expired then Some (Inl ESessionTimeout) else None)"

definition touch :: "time \<Rightarrow> Session \<Rightarrow> Session" where
  "touch now s = s\<lparr>vs_lastActive := unix now\<rparr>"

definition maybeActivate :: "time \<Rightarrow> Session \<Rightarrow> Session" where
  "maybeActivate now sess = (case (vs_browser sess, vs_device sess) of
     (Some browser, Some device) \<Rightarrow>
       touch now (sess\<lparr>vs_Status := statusActive,
         vs_pumps := vs_pumps sess @ [(browser, device), (device, browser)]\<rparr>)
   | _ \<Rightarrow> sess)"

definition BindBrowser :: "time \<Rightarrow> uuid \<Rightarrow> uuid \<Rightarrow> ws_id \<Rightarrow> Relay \<Rightarrow> err option \<times> Relay" where
  "BindBrowser now sessionID userID ws r = (case GetSession r sessionID of
     None \<Rightarrow> (Some (ESessionNotFound sessionID), r)
   | Some sess \<Rightarrow>
       if vs_UserID sess \<noteq> userID then (Some EWrongUser, r)
       else if vs_browser sess \<noteq> None then (Some EBrowserConnected, r)
       else (None, put_session (maybeActivate now (sess\<lparr>vs_browser := Some ws\<rparr>)) r))"

definition BindDevice :: "(string \<Rightarrow> string) \<Rightarrow> time \<Rightarrow> uuid \<Rightarrow> string \<Rightarrow> ws_id \<Rightarrow> Relay \<Rightarrow> err option \<times> Relay" where
  "BindDevice H now sessionID token ws r = (case GetSession r sessionID of
     None \<Rightarrow> (Some (ESessionNotFound sessionID), r)
   | Some sess \<Rightarrow>
       if H token \<noteq> vs_TokenHash sess then (Some EBadSessionToken, r)
       else if vs_device sess \<noteq> None then (Some EDeviceConnected, r)
       else (None, put_session (maybeActivate now (sess\<lparr>vs_device := Some ws\<rparr>)) r))"

text \<open>
  One round of the loop of \<open>pump\<close>: \<open>None\<close> while it waits for a message; otherwise whether it goes
  on. Leaving it closes the session. A failed read or write is a closed socket.
\<close>

definition pump_round :: "time \<Rightarrow> uuid \<Rightarrow> ws_id \<Rightarrow> ws_id \<Rightarrow> Relay \<Rightarrow> (bool \<times> Relay) option" where
  "pump_round now sessionID src dst r = (case GetSession r sessionID of
     None \<Rightarrow> Some (False, r)
   | Some sess \<Rightarrow>
       if vs_Status sess = statusClosed \<or> wc_closed (rl_ws r src)
       then Some (False, CloseSession now sessionID r)
       else (case wc_in (rl_ws r src) of
           [] \<Rightarrow> None
         | (binary, msg) # rest \<Rightarrow>
             (let r1 = r\<lparr>rl_ws := (rl_ws r)(src := (rl_ws r src)\<lparr>wc_in := rest\<rparr>)\<rparr> in
              if \<not> binary then Some (True, r1)
              else if wc_closed (rl_ws r1 dst) then Some (False, CloseSession now sessionID r1)
              else Some (True, put_session (touch now sess)
                     (r1\<lparr>rl_ws := (rl_ws r1)(dst := (rl_ws r1 dst)\<lparr>wc_out := wc_out (rl_ws r1 dst) @ [msg]\<rparr>)\<rparr>)))))"

fun close_sessions :: "time \<Rightarrow> uuid list \<Rightarrow> Relay \<Rightarrow> Relay" where
  "close_sessions now [] r = r"
| "close_sessions now (i # is) r = close_sessions now is (CloseSession now i r)"

definition CloseUserSessions :: "time \<Rightarrow> uuid \<Rightarrow> Relay \<Rightarrow> Relay" where
  "CloseUserSessions now userID r = close_sessions now
     (map fst (filter (\<lambda>(i, s). vs_UserID s = userID \<and> vs_Status s \<noteq> statusClosed) (rl_sessions r))) r"

definition ActiveCount :: "Relay \<Rightarrow> nat" where
  "ActiveCount r = length (filter (\<lambda>(i, s). vs_Status s = statusActive) (rl_sessions r))"

text \<open>
  The reaper's conditions; the third one of the code, for pending and ready sessions, repeats the first,
  which has already moved on to the next session.
\<close>

definition reap_due :: "time \<Rightarrow> Session \<Rightarrow> bool" where
  "reap_due now s \<longleftrightarrow> vs_Status s \<noteq> statusClosed \<and>
     (vs_maxTTL s < now - vs_createdAt s
      \<or> vs_Status s = statusActive \<and> vs_idleTTL s < now - vs_lastActive s * second)"

definition reap :: "time \<Rightarrow> Relay \<Rightarrow> Relay" where
  "reap now r = close_sessions now (map fst (filter (\<lambda>(i, s). reap_due now s) (rl_sessions r))) r"

section \<open>Sessions under the operations\<close>

definition relay_inv :: "Relay \<Rightarrow> bool" where
  "relay_inv r \<longleftrightarrow> gomap_wf (rl_sessions r) \<and> (\<forall>i s. GetSession r i = Some s \<longrightarrow> vs_ID s = i
     \<and> (vs_Status s = statusActive \<longrightarrow> vs_browser s \<noteq> None \<and> vs_device s \<noteq> None))"

lemma inv_session: "relay_inv r \<Longrightarrow> GetSession r i = Some s \<Longrightarrow> vs_ID s = i
    \<and> (vs_Status s = statusActive \<longrightarrow> vs_browser s \<noteq> None \<and> vs_device s \<noteq> None)"
  unfolding relay_inv_def by blast

lemma sessions_GetSession: "relay_inv r \<Longrightarrow> (i, s) \<in> set (rl_sessions r) \<longleftrightarrow> GetSession r i = Some s"
  by (simp add: relay_inv_def GetSession_def gomap_in_set)

lemma GetSession_put [simp]: "GetSession (put_session s r) i = (if i = vs_ID s then Some s else GetSession r i)"
  by (simp add: GetSession_def put_session_def gomap_simps)

lemma GetSession_ws [simp]: "GetSession (r\<lparr>rl_ws := f\<rparr>) i = GetSession r i"
  by (simp add: GetSession_def)

lemma GetSession_close_ws [simp]: "GetSession (close_ws w r) i = GetSession r i"
  by (simp add: close_ws_def split: option.splits)

lemma relay_inv_put:
  "relay_inv r \<Longrightarrow> (vs_Status s = statusActive \<longrightarrow> vs_browser s \<noteq> None \<and> vs_device s \<noteq> None) \<Longrightarrow>
     relay_inv (put_session s r)"
  by (auto simp: relay_inv_def) (auto simp: put_session_def)

lemma relay_inv_ws [simp]: "relay_inv (r\<lparr>rl_ws := f\<rparr>) = relay_inv r"
  by (simp add: relay_inv_def)

lemma relay_inv_close_ws [simp]: "relay_inv (close_ws w r) = relay_inv r"
  by (simp add: close_ws_def split: option.splits)

text \<open>What closing does to a session.\<close>

definition shut :: "time \<Rightarrow> Session \<Rightarrow> Session" where
  "shut now s = (if vs_Status s = statusClosed then s
     else s\<lparr>vs_Status := statusClosed, vs_closedAt := Some now\<rparr>)"

lemma shut_status [simp]: "vs_Status (shut now s) = statusClosed"
  by (simp add: shut_def)

lemma GetSession_CloseSession:
  assumes "relay_inv r"
  shows "GetSession (CloseSession now i r) k =
    (if k = i then map_option (shut now) (GetSession r i) else GetSession r k)"
  using inv_session [OF assms] by (auto simp: CloseSession_def shut_def split: option.splits)

lemma CloseSession_inv: "relay_inv r \<Longrightarrow> relay_inv (CloseSession now i r)"
  by (auto simp: CloseSession_def intro!: relay_inv_put split: option.splits)

lemma close_sessions_ok:
  "relay_inv r \<Longrightarrow> relay_inv (close_sessions now is r) \<and> GetSession (close_sessions now is r) k =
     map_option (\<lambda>s. if k \<in> set is then shut now s else s) (GetSession r k)"
proof (induction "is" arbitrary: r)
  case Nil
  then show ?case by (simp add: option.map_ident)
next
  case (Cons i "is")
  have idem: "shut now (shut now s) = shut now s" for s by (simp add: shut_def)
  from Cons.IH [OF CloseSession_inv [OF Cons.prems]] show ?case
    by (cases "GetSession r k") (auto simp: GetSession_CloseSession [OF Cons.prems] idem)
qed

text \<open>
  After a run of the reaper no session is open that is older than its maximal
  age, nor an active one idle for longer than allowed; and the reaper closes no other session and changes
  nothing else of any.
\<close>

theorem reap_closes:
  assumes "relay_inv r"
  shows "relay_inv (reap now r) \<and> (\<forall>i s. GetSession (reap now r) i = Some s \<longrightarrow> \<not> reap_due now s)
    \<and> (\<forall>i. GetSession (reap now r) i =
         map_option (\<lambda>s. if reap_due now s then shut now s else s) (GetSession r i))"
proof -
  let ?is = "map fst (filter (\<lambda>(i, s). reap_due now s) (rl_sessions r))"
  have mem: "i \<in> set ?is \<longleftrightarrow> reap_due now s" if "GetSession r i = Some s" for i s
  proof -
    have "i \<in> set ?is \<longleftrightarrow> (\<exists>s. (i, s) \<in> set (rl_sessions r) \<and> reap_due now s)" by force
    then show ?thesis using that by (simp add: sessions_GetSession [OF assms])
  qed
  have g: "GetSession (reap now r) i =
      map_option (\<lambda>s. if reap_due now s then shut now s else s) (GetSession r i)" for i
    using close_sessions_ok [OF assms, of now ?is i] mem [of i] unfolding reap_def
    by (cases "GetSession r i") auto
  have "\<not> reap_due now (shut now s)" for s
    by (simp add: reap_due_def)
  then have "\<not> reap_due now s" if "GetSession (reap now r) i = Some s" for i s
    using that unfolding g by (auto split: if_splits) metis
  moreover have "relay_inv (reap now r)"
    using close_sessions_ok [OF assms] unfolding reap_def by blast
  ultimately show ?thesis using g by blast
qed

definition sample_ws :: "ws_id \<Rightarrow> ws_conn" where
  "sample_ws = (\<lambda>_. \<lparr>wc_in = [(True, [1, 2]), (False, [9]), (True, [3])], wc_out = [], wc_closed = False\<rparr>)"

definition sample_relay :: Relay where
  "sample_relay = put_session (new_session 1 5 9 7 3 ''h'' minute hour 4096 0) (NewRelay ''n'' 4096 2 sample_ws)"

lemma NewRelay_inv: "relay_inv (NewRelay n c m ws)"
  by (simp add: relay_inv_def NewRelay_def GetSession_def)

lemma sample_relay_inv: "relay_inv sample_relay"
  unfolding sample_relay_def by (rule relay_inv_put [OF NewRelay_inv]) (simp add: new_session_def)

theorem reap_closes_witness:
  "map_option vs_Status (GetSession (reap (2 * hour) sample_relay) 1) = Some statusClosed"
proof -
  have "GetSession (reap (2 * hour) sample_relay) 1 =
      map_option (\<lambda>s. if reap_due (2 * hour) s then shut (2 * hour) s else s) (GetSession sample_relay 1)"
    using reap_closes [OF sample_relay_inv] by blast
  moreover have "GetSession sample_relay 1 = Some (new_session 1 5 9 7 3 ''h'' minute hour 4096 0)"
    unfolding sample_relay_def GetSession_put by (simp add: new_session_def)
  ultimately show ?thesis by (simp add: new_session_def reap_due_def time_defs)
qed

section \<open>Pairing\<close>

text \<open>What no later operation changes of a session.\<close>

definition same_pair :: "Session \<Rightarrow> Session \<Rightarrow> bool" where
  "same_pair s s' \<longleftrightarrow> vs_ID s' = vs_ID s \<and> vs_JobID s' = vs_JobID s \<and> vs_UserID s' = vs_UserID s
     \<and> vs_DeviceID s' = vs_DeviceID s \<and> vs_AgentID s' = vs_AgentID s \<and> vs_createdAt s' = vs_createdAt s
     \<and> (vs_browser s \<noteq> None \<longrightarrow> vs_browser s' = vs_browser s) \<and> (vs_device s \<noteq> None \<longrightarrow> vs_device s' = vs_device s)"

definition paired :: "Relay \<Rightarrow> Relay \<Rightarrow> bool" where
  "paired r r' \<longleftrightarrow> (\<forall>i s. GetSession r i = Some s \<longrightarrow> (\<exists>s'. GetSession r' i = Some s' \<and> same_pair s s'))"

lemma same_pair_refl [simp]: "same_pair s s"
  by (simp add: same_pair_def)

lemma same_pair_trans: "same_pair s t \<Longrightarrow> same_pair t u \<Longrightarrow> same_pair s u"
  by (auto simp: same_pair_def)

lemma paired_trans: "paired r s \<Longrightarrow> paired s t \<Longrightarrow> paired r t"
  unfolding paired_def by (meson same_pair_trans)

lemma paired_refl [simp]: "paired r r"
  by (simp add: paired_def)

lemma paired_put: "(\<And>s0. GetSession r (vs_ID s) = Some s0 \<Longrightarrow> same_pair s0 s) \<Longrightarrow> paired r (put_session s r)"
  by (simp add: paired_def)

lemma paired_close_ws [simp]: "paired r (close_ws w r') = paired r r'" "paired r (r'\<lparr>rl_ws := f\<rparr>) = paired r r'"
  "paired (r\<lparr>rl_ws := f\<rparr>) r' = paired r r'"
  by (simp_all add: paired_def)

lemma same_pair_shut: "same_pair s (shut now s)"
  by (simp add: same_pair_def shut_def)

lemma CloseSession_paired: "relay_inv r \<Longrightarrow> paired r (CloseSession now i r)"
  by (auto simp: paired_def GetSession_CloseSession same_pair_shut)

lemma activate_stable: "same_pair s t \<Longrightarrow> same_pair s (maybeActivate now t)"
  by (auto simp: maybeActivate_def same_pair_def touch_def split: option.splits)

lemma activate_bound:
  "(vs_Status t = statusActive \<longrightarrow> vs_browser t \<noteq> None \<and> vs_device t \<noteq> None) \<Longrightarrow>
   vs_Status (maybeActivate now t) = statusActive \<longrightarrow>
     vs_browser (maybeActivate now t) \<noteq> None \<and> vs_device (maybeActivate now t) \<noteq> None"
  by (auto simp: maybeActivate_def touch_def split: option.splits)

text \<open>The steps; a new session takes a fresh id, and messages arrive at a websocket.\<close>

inductive vnc_step :: "(string \<Rightarrow> string) \<Rightarrow> Relay \<Rightarrow> Relay \<Rightarrow> bool" for H where
  create: "GetSession r i = None \<Longrightarrow> vnc_step H r (snd (snd (CreateSession H j u d a idle ttl now i tok r)))"
| ready: "vnc_step H r (snd (MarkReady i pw r))"
| failed: "vnc_step H r (MarkError now i msg r)"
| browser: "vnc_step H r (snd (BindBrowser now i u w r))"
| device: "vnc_step H r (snd (BindDevice H now i tok w r))"
| pump: "pump_round now i src dst r = Some (b, r') \<Longrightarrow> vnc_step H r r'"
| close: "vnc_step H r (CloseSession now i r)"
| close_user: "vnc_step H r (CloseUserSessions now u r)"
| reaper: "vnc_step H r (reap now r)"
| socket: "vnc_step H r (r\<lparr>rl_ws := f\<rparr>)"

lemma find_session:
  assumes "relay_inv r" "find P (map snd (rl_sessions r)) = Some s"
  shows "GetSession r (vs_ID s) = Some s \<and> P s"
proof -
  have "s \<in> snd ` set (rl_sessions r)" "P s"
    using assms(2) by (auto simp: find_Some_iff)
  then show ?thesis using inv_session [OF assms(1)] by (auto simp: sessions_GetSession [OF assms(1)])
qed

lemma close_sessions_paired: "relay_inv r \<Longrightarrow> paired r (close_sessions now is r)"
  unfolding paired_def using close_sessions_ok by (auto simp: same_pair_shut)

lemma CreateSession_ok:
  assumes "relay_inv r" "GetSession r i = None"
  shows "relay_inv (snd (snd (CreateSession H j u d a idle ttl now i tok r)))
    \<and> paired r (snd (snd (CreateSession H j u d a idle ttl now i tok r)))"
proof (cases "find (\<lambda>s. vs_JobID s = j \<and> vs_Status s \<noteq> statusClosed) (map snd (rl_sessions r))")
  case None
  then show ?thesis using assms
    by (auto simp: CreateSession_def Let_def new_session_def intro!: relay_inv_put paired_put)
next
  case (Some s)
  from find_session [OF assms(1) Some] inv_session [OF assms(1), of "vs_ID s" s] show ?thesis
    using Some assms(1) by (auto simp: CreateSession_def Let_def same_pair_def intro!: relay_inv_put paired_put)
qed

lemma MarkReady_ok: "relay_inv r \<Longrightarrow> relay_inv (snd (MarkReady i pw r)) \<and> paired r (snd (MarkReady i pw r))"
  using inv_session [of r i]
  by (auto simp: MarkReady_def same_pair_def intro!: relay_inv_put paired_put split: option.splits)

lemma MarkError_ok: "relay_inv r \<Longrightarrow> relay_inv (MarkError now i m r) \<and> paired r (MarkError now i m r)"
proof (cases "GetSession r i")
  case (Some s)
  assume r: "relay_inv r"
  let ?r = "put_session (s\<lparr>vs_readyErr := m, vs_ready := True\<rparr>) r"
  have "relay_inv ?r" "paired r ?r"
    using r inv_session [OF r Some] Some by (auto simp: same_pair_def intro!: relay_inv_put paired_put)
  then show ?thesis
    using Some CloseSession_inv CloseSession_paired paired_trans unfolding MarkError_def by fastforce
qed (simp add: MarkError_def)

lemma BindBrowser_ok: "relay_inv r \<Longrightarrow>
    relay_inv (snd (BindBrowser now i u w r)) \<and> paired r (snd (BindBrowser now i u w r))"
proof (cases "GetSession r i")
  case (Some s)
  assume r: "relay_inv r"
  have i: "vs_ID (maybeActivate now (s\<lparr>vs_browser := Some w\<rparr>)) = i"
    using inv_session [OF r Some] activate_stable [OF same_pair_refl, of "s\<lparr>vs_browser := Some w\<rparr>" now]
    by (simp add: same_pair_def)
  show ?thesis
    using r inv_session [OF r Some] Some i
    by (auto simp: BindBrowser_def same_pair_def intro!: relay_inv_put paired_put activate_stable activate_bound)
qed (simp add: BindBrowser_def)

lemma BindDevice_ok: "relay_inv r \<Longrightarrow>
    relay_inv (snd (BindDevice H now i t w r)) \<and> paired r (snd (BindDevice H now i t w r))"
proof (cases "GetSession r i")
  case (Some s)
  assume r: "relay_inv r"
  have i: "vs_ID (maybeActivate now (s\<lparr>vs_device := Some w\<rparr>)) = i"
    using inv_session [OF r Some] activate_stable [OF same_pair_refl, of "s\<lparr>vs_device := Some w\<rparr>" now]
    by (simp add: same_pair_def)
  show ?thesis
    using r inv_session [OF r Some] Some i
    by (auto simp: BindDevice_def same_pair_def intro!: relay_inv_put paired_put activate_stable activate_bound)
qed (simp add: BindDevice_def)

lemma pump_ok:
  assumes "relay_inv r" "pump_round now i src dst r = Some (b, r')"
  shows "relay_inv r' \<and> paired r r'"
proof (cases "GetSession r i")
  case (Some s)
  have t: "same_pair s (touch now s)" "vs_ID (touch now s) = i"
    "vs_Status (touch now s) = statusActive \<longrightarrow> vs_browser (touch now s) \<noteq> None \<and> vs_device (touch now s) \<noteq> None"
    using inv_session [OF assms(1) Some] by (simp_all add: same_pair_def touch_def)
  have close: "relay_inv (CloseSession now i (r\<lparr>rl_ws := f\<rparr>)) \<and> paired r (CloseSession now i (r\<lparr>rl_ws := f\<rparr>))" for f
    using CloseSession_inv CloseSession_paired [of "r\<lparr>rl_ws := f\<rparr>"] assms(1) by simp
  have put: "relay_inv (put_session (touch now s) (r\<lparr>rl_ws := f\<rparr>))
      \<and> paired r (put_session (touch now s) (r\<lparr>rl_ws := f\<rparr>))" for f
    using paired_put [of "r\<lparr>rl_ws := f\<rparr>" "touch now s"] t Some assms(1) by (auto intro!: relay_inv_put)
  show ?thesis
    using assms(2) Some close [of "rl_ws r"] close put assms(1)
    by (auto simp: pump_round_def Let_def split: if_splits list.splits)
qed (use assms in \<open>simp add: pump_round_def\<close>)

lemma vnc_step_ok: "vnc_step H r r' \<Longrightarrow> relay_inv r \<Longrightarrow> relay_inv r' \<and> paired r r'"
  by (induction rule: vnc_step.induct)
    (auto simp: CreateSession_ok MarkReady_ok MarkError_ok BindBrowser_ok BindDevice_ok CloseSession_inv
      CloseSession_paired CloseUserSessions_def reap_def close_sessions_ok close_sessions_paired pump_ok)

lemma vnc_run_ok: "(vnc_step H)\<^sup>*\<^sup>* r r' \<Longrightarrow> relay_inv r \<Longrightarrow> relay_inv r' \<and> paired r r'"
proof (induction rule: rtranclp.induct)
  case (rtrancl_into_rtrancl r r1 r2)
  then show ?case using vnc_step_ok [of H r1 r2] paired_trans by blast
qed simp
text \<open>
  C10 (vnc_pairing): in every run of the relay a session keeps its job, user, device, agent and time of
  creation, a websocket once bound is never replaced and no session is ever removed from the map; a
  session is active only when both ends are bound, and only its own user can bind the browser.
\<close>

theorem vnc_pairing:
  assumes "(vnc_step H)\<^sup>*\<^sup>* (NewRelay node cap most ws) r" "(vnc_step H)\<^sup>*\<^sup>* r r'"
    and "GetSession r i = Some s"
  shows "\<exists>s'. GetSession r' i = Some s' \<and> same_pair s s'
    \<and> (vs_Status s' = statusActive \<longrightarrow> vs_browser s' \<noteq> None \<and> vs_device s' \<noteq> None)
    \<and> (\<forall>now u w. fst (BindBrowser now i u w r') = None \<longrightarrow> u = vs_UserID s \<and> vs_browser s = None)"
proof -
  have r: "relay_inv r" using vnc_run_ok [OF assms(1) NewRelay_inv] by blast
  from vnc_run_ok [OF assms(2) r] assms(3) obtain s' where
    s': "relay_inv r'" "GetSession r' i = Some s'" "same_pair s s'" by (auto simp: paired_def)
  have "u = vs_UserID s \<and> vs_browser s = None" if "fst (BindBrowser now i u w r') = None" for now u w
    using that s'(2,3) by (auto simp: BindBrowser_def same_pair_def split: if_splits)
  then show ?thesis using s' inv_session [OF s'(1,2)] by blast
qed

theorem vnc_pairing_witness:
  "\<exists>s'. GetSession (snd (BindBrowser 3 1 9 4 (snd (snd (CreateSession id 5 9 7 3 minute hour 0 1 ''t''
      (NewRelay ''n'' 4096 2 sample_ws)))))) 1 = Some s' \<and> vs_UserID s' = 9"
proof -
  let ?start = "NewRelay ''n'' 4096 2 sample_ws"
  let ?r = "snd (snd (CreateSession id 5 9 7 3 minute hour 0 1 ''t'' ?start))"
  have "GetSession ?start 1 = None" by (simp add: NewRelay_def GetSession_def)
  then have 1: "(vnc_step id)\<^sup>*\<^sup>* ?start ?r" by (intro r_into_rtranclp vnc_step.create)
  have 2: "(vnc_step id)\<^sup>*\<^sup>* ?r (snd (BindBrowser 3 1 9 4 ?r))" by (intro r_into_rtranclp vnc_step.browser)
  have 3: "GetSession ?r 1 = Some (new_session 1 5 9 7 3 (id ''t'') minute hour 4096 0)"
    unfolding CreateSession_def by (simp add: NewRelay_def Let_def) (simp add: new_session_def)
  from vnc_pairing [OF 1 2 3] show ?thesis by (auto simp: same_pair_def new_session_def)
qed

section \<open>A closed session revives\<close>

text \<open>
  \<open>MarkReady\<close> makes a closed session ready again. When the job has no
  other open session, the next \<open>CreateSession\<close> for it hands this dead session out, and if a browser was
  bound before it closed, no browser can ever be bound to it: the job has no usable session until
  the reaper closes this one.
\<close>

theorem closed_session_revives:
  assumes "relay_inv r" "GetSession r i = Some s" "vs_Status s = statusClosed" "vs_browser s \<noteq> None"
    and "\<forall>k t. GetSession r k = Some t \<and> vs_JobID t = vs_JobID s \<longrightarrow> vs_Status t = statusClosed"
  shows "\<exists>s1 r2. CreateSession H (vs_JobID s) u d a idle ttl now k tok (snd (MarkReady i pw r)) = (s1, tok, r2)
    \<and> vs_ID s1 = i \<and> vs_Status s1 = statusReady
    \<and> (\<forall>now v w r3. (vnc_step H)\<^sup>*\<^sup>* r2 r3 \<longrightarrow> fst (BindBrowser now i v w r3) \<noteq> None)"
proof -
  let ?s = "s\<lparr>vs_RFBPassword := pw, vs_Status := statusReady, vs_ready := True\<rparr>"
  let ?r1 = "put_session ?s r"
  have id: "vs_ID s = i" using inv_session [OF assms(1,2)] by simp
  have r1: "snd (MarkReady i pw r) = ?r1" using assms(2) by (simp add: MarkReady_def)
  have inv1: "relay_inv ?r1" by (rule relay_inv_put [OF assms(1)]) simp
  let ?P = "\<lambda>t. vs_JobID t = vs_JobID s \<and> vs_Status t \<noteq> statusClosed"
  have only: "t = ?s" if "find ?P (map snd (rl_sessions ?r1)) = Some t" for t
    using find_session [OF inv1 that] assms(5) by (auto split: if_splits)
  have "?s \<in> snd ` set (rl_sessions ?r1)"
    using sessions_GetSession [OF inv1, of i ?s] id by force
  moreover have "?P ?s" by simp
  ultimately have "find ?P (map snd (rl_sessions ?r1)) \<noteq> None"
    unfolding find_None_iff set_map by blast
  then have f: "find ?P (map snd (rl_sessions ?r1)) = Some ?s" using only by blast
  let ?s1 = "?s\<lparr>vs_TokenHash := H tok\<rparr>"
  have c: "CreateSession H (vs_JobID s) u d a idle ttl now k tok ?r1 = (?s1, tok, put_session ?s1 ?r1)"
    using f by (simp add: CreateSession_def Let_def)
  have inv2: "relay_inv (put_session ?s1 ?r1)" by (rule relay_inv_put [OF inv1]) simp
  have g2: "GetSession (put_session ?s1 ?r1) i = Some ?s1" using id by simp
  have "fst (BindBrowser now i v w r3) \<noteq> None" if "(vnc_step H)\<^sup>*\<^sup>* (put_session ?s1 ?r1) r3" for now v w r3
  proof -
    from vnc_run_ok [OF that inv2] g2 obtain s3 where "GetSession r3 i = Some s3" "same_pair ?s1 s3"
      by (auto simp: paired_def)
    then show ?thesis using assms(4) by (auto simp: BindBrowser_def same_pair_def)
  qed
  then show ?thesis using c id unfolding r1 by auto
qed

theorem closed_session_revives_witness:
  "\<exists>s1 r2. CreateSession id 5 9 7 3 minute hour 60 2 ''new'' (snd (MarkReady 1 ''pw''
       (CloseSession 50 1 (snd (BindBrowser 3 1 9 4 sample_relay))))) = (s1, ''new'', r2) \<and> vs_ID s1 = 1"
proof -
  let ?b = "snd (BindBrowser 3 1 9 4 sample_relay)"
  let ?n = "new_session 1 5 9 7 3 ''h'' minute hour 4096 0"
  have n: "GetSession sample_relay k = (if k = 1 then Some ?n else None)" for k
    unfolding sample_relay_def GetSession_put by (simp add: new_session_def NewRelay_def GetSession_def)
  have b: "relay_inv ?b" using BindBrowser_ok [OF sample_relay_inv] by blast
  have gb: "GetSession ?b k = (if k = 1 then Some (?n\<lparr>vs_browser := Some 4\<rparr>) else None)" for k
    by (simp add: BindBrowser_def n) (simp add: new_session_def maybeActivate_def n)
  let ?c = "CloseSession 50 1 ?b"
  have gc: "GetSession ?c k = (if k = 1 then Some (shut 50 (?n\<lparr>vs_browser := Some 4\<rparr>)) else None)" for k
    unfolding GetSession_CloseSession [OF b] gb by simp
  let ?s = "shut 50 (?n\<lparr>vs_browser := Some 4\<rparr>)"
  have j: "vs_JobID ?s = 5" "vs_browser ?s \<noteq> None" by (simp_all add: shut_def new_session_def)
  have "\<exists>s1 r2. CreateSession id (vs_JobID ?s) 9 7 3 minute hour 60 2 ''new'' (snd (MarkReady 1 ''pw'' ?c))
      = (s1, ''new'', r2) \<and> vs_ID s1 = 1 \<and> vs_Status s1 = statusReady
      \<and> (\<forall>now v w r3. (vnc_step id)\<^sup>*\<^sup>* r2 r3 \<longrightarrow> fst (BindBrowser now 1 v w r3) \<noteq> None)"
    by (rule closed_session_revives [OF CloseSession_inv [OF b]]) (simp_all add: gc j split: if_splits)
  then show ?thesis unfolding j by blast
qed

section \<open>The bytes relayed\<close>

fun pump_rounds :: "nat \<Rightarrow> time \<Rightarrow> uuid \<Rightarrow> ws_id \<Rightarrow> ws_id \<Rightarrow> Relay \<Rightarrow> Relay option" where
  "pump_rounds 0 now i src dst r = Some r"
| "pump_rounds (Suc n) now i src dst r = (case pump_round now i src dst r of
     Some (True, r1) \<Rightarrow> pump_rounds n now i src dst r1 | _ \<Rightarrow> None)"

text \<open>
  While the session is open and both websockets are, a pump writes to the
  other end exactly the binary messages it reads, whole, in their order and once each, and drops the
  text messages.
\<close>

theorem pump_copies:
  assumes "GetSession r i = Some s" "vs_ID s = i" "vs_Status s \<noteq> statusClosed" "src \<noteq> dst"
    and "\<not> wc_closed (rl_ws r src)" "\<not> wc_closed (rl_ws r dst)" "wc_in (rl_ws r src) = ms @ rest"
  shows "\<exists>r'. pump_rounds (length ms) now i src dst r = Some r' \<and> wc_in (rl_ws r' src) = rest
    \<and> wc_out (rl_ws r' dst) = wc_out (rl_ws r dst) @ map snd (filter fst ms)"
  using assms
proof (induction ms arbitrary: r s)
  case (Cons m ms)
  obtain bin msg where m: "m = (bin, msg)" by (cases m)
  obtain r1 where r1: "pump_round now i src dst r = Some (True, r1)"
    "wc_in (rl_ws r1 src) = ms @ rest" "\<not> wc_closed (rl_ws r1 src)" "\<not> wc_closed (rl_ws r1 dst)"
    "wc_out (rl_ws r1 dst) = wc_out (rl_ws r dst) @ (if bin then [msg] else [])"
    "GetSession r1 i = Some (if bin then touch now s else s)"
    using Cons.prems m by (cases bin) (auto simp: pump_round_def Let_def put_session_def touch_def GetSession_def gomap_simps)
  have "vs_ID (if bin then touch now s else s) = i" "vs_Status (if bin then touch now s else s) \<noteq> statusClosed"
    using Cons.prems(2,3) by (simp_all add: touch_def)
  from Cons.IH [OF r1(6) this Cons.prems(4) r1(3,4,2)] r1(1,5) m show ?case by auto
qed simp

theorem pump_copies_witness:
  "\<exists>r'. pump_rounds 3 5 1 0 1 sample_relay = Some r' \<and> wc_out (rl_ws r' 1) = [[1, 2], [3]]"
proof -
  have "GetSession sample_relay 1 = Some (new_session 1 5 9 7 3 ''h'' minute hour 4096 0)"
    unfolding sample_relay_def GetSession_put by (simp add: new_session_def)
  from pump_copies [OF this, of 0 1 "[(True, [1, 2]), (False, [9]), (True, [3])]" "[]" 5] show ?thesis
    by (auto simp: sample_relay_def put_session_def NewRelay_def new_session_def sample_ws_def eval_nat_numeral)
qed

end
