(* ===== verification/CredVault.thy ===== *)
theory CredVault
  imports Model
begin

text \<open>
  \<open>gateway/internal/credvault/vault.go\<close>: encryption of browser credentials. AES-256-GCM, SHA-256, base64
  and hex are the standard library's; they are the fields of the record \<open>crypto\<close>, and \<open>crypto_laws\<close>
  is what is used of them: opening undoes sealing under the same key and nonce, a sealed text is
  longer by the tag of 16 bytes, decoding undoes encoding. The random nonce is an argument.
\<close>

type_synonym bytes = "8 word list"

record crypto =
  cr_seal :: "bytes \<Rightarrow> bytes \<Rightarrow> bytes \<Rightarrow> bytes"
  cr_open :: "bytes \<Rightarrow> bytes \<Rightarrow> bytes \<Rightarrow> bytes option"
  cr_sha256 :: "bytes \<Rightarrow> string"
  cr_b64dec :: "string \<Rightarrow> bytes option"
  cr_b64enc :: "bytes \<Rightarrow> string"

definition crypto_laws :: "crypto \<Rightarrow> bool" where
  "crypto_laws c \<longleftrightarrow> (\<forall>k n p. cr_open c k n (cr_seal c k n p) = Some p)
     \<and> (\<forall>k n p. length (cr_seal c k n p) = length p + 16)
     \<and> (\<forall>p. cr_b64dec c (cr_b64enc c p) = Some p)"

section \<open>The vault\<close>

record Vault =
  vl_dataKey :: bytes
  vl_keyID :: string
  vl_kmsID :: string

record EncryptResult =
  er_StorageStateEnc :: bytes
  er_Nonce :: bytes
  er_AuthTag :: bytes
  er_SHA256 :: string

definition ErrKeyNotConfigured :: err where
  "ErrKeyNotConfigured = EHandler ''credential vault key not configured''"

definition ErrDecryptFailed :: err where
  "ErrDecryptFailed = EHandler ''decryption failed: integrity check failed or wrong key''"

definition ErrDataTooLarge :: err where
  "ErrDataTooLarge = EHandler ''credential data exceeds maximum size''"

definition MaxCredentialSize :: nat where
  "MaxCredentialSize = 10 * 2 ^ 20"

definition NewVault :: "crypto \<Rightarrow> string \<Rightarrow> string \<Rightarrow> err + Vault" where
  "NewVault c credKey kmsKey =
     (let v = \<lparr>vl_dataKey = [], vl_keyID = ''default'', vl_kmsID = kmsKey\<rparr> in
      if credKey \<noteq> [] then
        (case cr_b64dec c credKey of
           None \<Rightarrow> Inl (EHandler ''decode IAGENT_CRED_KEY'')
         | Some key \<Rightarrow>
             if length key \<noteq> 32 then Inl (EHandler ''IAGENT_CRED_KEY must be 32 bytes'')
             else Inr (v\<lparr>vl_dataKey := key\<rparr>))
      else Inr v)"

definition IsConfigured :: "Vault \<Rightarrow> bool" where
  "IsConfigured v \<longleftrightarrow> 0 < length (vl_dataKey v) \<or> vl_kmsID v \<noteq> []"

text \<open>\<open>random\<close> is what the source of random bytes gives; the error is that of \<open>io.ReadFull\<close>.\<close>

definition GenerateKey :: "crypto \<Rightarrow> bytes \<Rightarrow> err + string" where
  "GenerateKey c random = (if length random < 32 then Inl (EHandler ''unexpected EOF'') else Inr (cr_b64enc c (take 32 random)))"

text \<open>A generated key, put into the configuration, is the key of the vault.\<close>

lemma generated_key_loads:
  "crypto_laws c \<Longrightarrow> GenerateKey c random = Inr k \<Longrightarrow> k \<noteq> '''' \<Longrightarrow>
    \<exists>v. NewVault c k kms = Inr v \<and> vl_dataKey v = take 32 random \<and> IsConfigured v"
  by (auto simp: GenerateKey_def NewVault_def crypto_laws_def IsConfigured_def split: if_splits)

definition Encrypt :: "crypto \<Rightarrow> Vault \<Rightarrow> bytes \<Rightarrow> bytes \<Rightarrow> err + EncryptResult" where
  "Encrypt c v nonce plaintext =
     (if length (vl_dataKey v) = 0 then Inl ErrKeyNotConfigured
      else if MaxCredentialSize < length plaintext then Inl ErrDataTooLarge
      else let sealed = cr_seal c (vl_dataKey v) nonce plaintext;
               n = length sealed - 16
           in Inr \<lparr>er_StorageStateEnc = take n sealed, er_Nonce = nonce, er_AuthTag = drop n sealed,
                er_SHA256 = cr_sha256 c plaintext\<rparr>)"

definition Decrypt :: "crypto \<Rightarrow> Vault \<Rightarrow> bytes \<Rightarrow> bytes \<Rightarrow> bytes \<Rightarrow> string \<Rightarrow> err + bytes" where
  "Decrypt c v storageStateEnc nonce authTag expectedSHA256 =
     (if length (vl_dataKey v) = 0 then Inl ErrKeyNotConfigured
      else if length nonce \<noteq> 12 then Inl ErrDecryptFailed
      else (case cr_open c (vl_dataKey v) nonce (storageStateEnc @ authTag) of
          None \<Rightarrow> Inl ErrDecryptFailed
        | Some plaintext \<Rightarrow>
            if expectedSHA256 \<noteq> [] \<and> cr_sha256 c plaintext \<noteq> expectedSHA256
            then Inl (EHandler ''SHA-256 mismatch'') else Inr plaintext))"

section \<open>Round trip\<close>

lemma Encrypt_Inr: "Encrypt c v n p = Inr r \<Longrightarrow> vl_dataKey v \<noteq> [] \<and> er_Nonce r = n
    \<and> er_StorageStateEnc r @ er_AuthTag r = cr_seal c (vl_dataKey v) n p \<and> er_SHA256 r = cr_sha256 c p"
  by (auto simp: Encrypt_def Let_def split: if_splits)

lemma decrypt_encrypt:
  assumes "crypto_laws c" "length n = 12" "Encrypt c v n p = Inr r"
  shows "Decrypt c v (er_StorageStateEnc r) (er_Nonce r) (er_AuthTag r) (er_SHA256 r) = Inr p"
  using Encrypt_Inr [OF assms(3)] assms(1,2) by (simp add: Decrypt_def crypto_laws_def)

text \<open>
  A credential the vault encrypts is decrypted to the same bytes from the
  fields stored, and its digest is that of the bytes; encryption fails only without a data key or above ten
  megabytes. A vault configured with a key-management id alone counts as configured but encrypts and
  decrypts nothing.
\<close>

theorem credential_roundtrip:
  assumes "crypto_laws c" "length n = 12"
  shows "(vl_dataKey v \<noteq> [] \<and> length p \<le> 10 * 2 ^ 20 \<longrightarrow>
      (\<exists>r. Encrypt c v n p = Inr r \<and> length (er_AuthTag r) = 16 \<and> er_SHA256 r = cr_sha256 c p
        \<and> Decrypt c v (er_StorageStateEnc r) (er_Nonce r) (er_AuthTag r) (er_SHA256 r) = Inr p))
    \<and> (vl_dataKey v = [] \<and> vl_kmsID v \<noteq> [] \<longrightarrow> IsConfigured v
        \<and> Encrypt c v n p = Inl ErrKeyNotConfigured \<and> Decrypt c v e n t s = Inl ErrKeyNotConfigured)"
proof (intro conjI impI)
  assume v: "vl_dataKey v \<noteq> [] \<and> length p \<le> 10 * 2 ^ 20"
  then obtain r where r: "Encrypt c v n p = Inr r"
    by (simp add: Encrypt_def MaxCredentialSize_def Let_def)
  have "length (er_AuthTag r) = 16"
    using r v assms(1) by (auto simp: Encrypt_def MaxCredentialSize_def Let_def crypto_laws_def)
  then show "\<exists>r. Encrypt c v n p = Inr r \<and> length (er_AuthTag r) = 16 \<and> er_SHA256 r = cr_sha256 c p
        \<and> Decrypt c v (er_StorageStateEnc r) (er_Nonce r) (er_AuthTag r) (er_SHA256 r) = Inr p"
    using r Encrypt_Inr [OF r] decrypt_encrypt [OF assms r] by blast
qed (auto simp: IsConfigured_def Encrypt_def Decrypt_def)

text \<open>A sealing that appends an empty tag, to see that the laws can hold.\<close>

definition plain_crypto :: crypto where
  "plain_crypto = \<lparr>cr_seal = (\<lambda>k n p. p @ replicate 16 0), cr_open = (\<lambda>k n s. Some (take (length s - 16) s)),
     cr_sha256 = (\<lambda>p. ''h''), cr_b64dec = (\<lambda>s. Some (map (of_nat \<circ> of_char) s)),
     cr_b64enc = map (char_of \<circ> unat)\<rparr>"

lemma byte_char: "word_of_nat (unat (w :: 8 word) mod 256) = w"
  using unsigned_less [where 'a = nat, of w] by simp

lemma plain_crypto_laws: "crypto_laws plain_crypto"
  by (simp add: crypto_laws_def plain_crypto_def o_def byte_char)

theorem credential_roundtrip_witness:
  "\<exists>r. Encrypt plain_crypto \<lparr>vl_dataKey = replicate 32 7, vl_keyID = ''default'', vl_kmsID = ''''\<rparr> (replicate 12 1) [5, 6] = Inr r
    \<and> Decrypt plain_crypto \<lparr>vl_dataKey = replicate 32 7, vl_keyID = ''default'', vl_kmsID = ''''\<rparr>
        (er_StorageStateEnc r) (er_Nonce r) (er_AuthTag r) (er_SHA256 r) = Inr [5, 6]"
  using credential_roundtrip [OF plain_crypto_laws, of "replicate 12 1"
      "\<lparr>vl_dataKey = replicate 32 7, vl_keyID = ''default'', vl_kmsID = ''''\<rparr>" "[5, 6]"]
  by auto

end
