(* ===== verification/FilePath.thy ===== *)
theory FilePath
  imports Prelude
begin

text \<open>
  The functions of Go's \<open>path/filepath\<close> and \<open>strings\<close> the file code uses, on a system whose separator is the
  slash. A path is rooted or relative to the working directory, with the list of its components, as
  \<open>filepath.Clean\<close> leaves them; \<open>path_str\<close> is its text. \<open>safe_join\<close> is what keeps a name inside a directory.
\<close>

section \<open>Text\<close>

fun split_on :: "'a \<Rightarrow> 'a list \<Rightarrow> 'a list list" where
  "split_on c [] = [[]]"
| "split_on c (x # xs) = (if x = c then [] # split_on c xs
     else (case split_on c xs of [] \<Rightarrow> [[x]] | y # ys \<Rightarrow> (x # y) # ys))"

fun join_with :: "'a list \<Rightarrow> 'a list list \<Rightarrow> 'a list" where
  "join_with sep [] = []"
| "join_with sep [x] = x"
| "join_with sep (x # y # ys) = x @ sep @ join_with sep (y # ys)"

definition HasPrefix :: "string \<Rightarrow> string \<Rightarrow> bool" where
  "HasPrefix s p \<longleftrightarrow> take (length p) s = p"

definition HasSuffix :: "string \<Rightarrow> string \<Rightarrow> bool" where
  "HasSuffix s p \<longleftrightarrow> length p \<le> length s \<and> drop (length s - length p) s = p"

definition Contains :: "string \<Rightarrow> string \<Rightarrow> bool" where
  "Contains s p \<longleftrightarrow> list_ex (\<lambda>n. HasPrefix (drop n s) p) [0..<Suc (length s)]"

section \<open>Paths\<close>

type_synonym path = "bool \<times> string list"

definition clean_step :: "bool \<Rightarrow> string list \<Rightarrow> string \<Rightarrow> string list" where
  "clean_step rooted st c =
     (if c = '''' \<or> c = ''.'' then st
      else if c = ''..'' then
        (if st = [] then (if rooted then [] else [''..''])
         else if last st = ''..'' then st @ [''..''] else butlast st)
      else st @ [c])"

definition IsAbs :: "string \<Rightarrow> bool" where
  "IsAbs s \<longleftrightarrow> HasPrefix s ''/''"

definition Clean :: "string \<Rightarrow> path" where
  "Clean s = (IsAbs s, foldl (clean_step (IsAbs s)) [] (split_on (CHR ''/'') s))"

definition path_str :: "path \<Rightarrow> string" where
  "path_str p = (if fst p then ''/'' @ join_with ''/'' (snd p)
     else if snd p = [] then ''.'' else join_with ''/'' (snd p))"

text \<open>\<open>filepath.Join\<close> of two elements: empty elements are ignored, the result is cleaned.\<close>

definition Join :: "string \<Rightarrow> string \<Rightarrow> string" where
  "Join a b = (if a = [] \<and> b = [] then [] else if a = [] then path_str (Clean b)
     else if b = [] then path_str (Clean a) else path_str (Clean (a @ ''/'' @ b)))"

definition Base :: "string \<Rightarrow> string" where
  "Base s = (if s = [] then ''.'' else
     (case filter (\<lambda>c. c \<noteq> []) (split_on (CHR ''/'') s) of [] \<Rightarrow> ''/'' | cs \<Rightarrow> last cs))"

text \<open>\<open>filepath.Ext\<close>: from the last dot after the last slash.\<close>

definition Ext :: "string \<Rightarrow> string" where
  "Ext s = (let b = last (split_on (CHR ''/'') s); parts = split_on (CHR ''.'') b
     in if length parts < 2 then [] else CHR ''.'' # last parts)"

definition lower :: "char \<Rightarrow> char" where
  "lower c = (let n = of_char c :: nat in if 65 \<le> n \<and> n \<le> 90 then char_of (n + 32) else c)"

text \<open>\<open>filepath.Rel\<close> on cleaned paths: the components that lead from the first to the second, or an error.\<close>

fun rel_comps :: "string list \<Rightarrow> string list \<Rightarrow> string list option" where
  "rel_comps (b # bs) (t # ts) = (if b = t then rel_comps bs ts
     else if ''..'' \<in> set (b # bs) then None else Some (map (\<lambda>_. ''..'') (b # bs) @ t # ts))"
| "rel_comps [] ts = Some ts"
| "rel_comps bs [] = (if ''..'' \<in> set bs then None else Some (map (\<lambda>_. ''..'') bs))"

definition Rel :: "path \<Rightarrow> path \<Rightarrow> string option" where
  "Rel base targ = (if fst base \<noteq> fst targ then None
     else map_option (\<lambda>cs. path_str (False, cs)) (rel_comps (snd base) (snd targ)))"

section \<open>Cleaning\<close>

lemma split_on_not_Nil [simp]: "split_on c s \<noteq> []"
  by (cases s) (auto split: list.splits)

lemma split_on_append: "split_on c (a @ c # b) = split_on c a @ split_on c b"
  by (induction a) (auto split: list.splits)

lemma split_on_free: "x \<in> set (split_on c s) \<Longrightarrow> c \<notin> set x"
  by (induction s arbitrary: x) (auto split: list.splits if_splits)

lemma join_split: "(\<And>x. x \<in> set xs \<Longrightarrow> c \<notin> set x) \<Longrightarrow> xs \<noteq> [] \<Longrightarrow> split_on c (join_with [c] xs) = xs"
proof (induction "[c]" xs rule: join_with.induct)
  case (2 x)
  then show ?case by (induction x) (auto split: list.splits)
next
  case (3 x y ys)
  have "split_on c x = [x]" using 3(2) [of x] by (induction x) (auto split: list.splits)
  then show ?case using 3 by (simp add: split_on_append)
qed simp

text \<open>
  A cleaned relative path has its parent steps in front, and its other components are proper names.
\<close>

definition proper :: "string \<Rightarrow> bool" where
  "proper c \<longleftrightarrow> c \<noteq> '''' \<and> c \<noteq> ''.'' \<and> c \<noteq> ''..'' \<and> CHR ''/'' \<notin> set c"

definition clean_form :: "bool \<Rightarrow> string list \<Rightarrow> bool" where
  "clean_form rooted cs \<longleftrightarrow> (\<exists>k ns. cs = replicate k ''..'' @ ns \<and> (\<forall>n \<in> set ns. proper n)
     \<and> (rooted \<longrightarrow> k = 0))"

lemma clean_form_Nil [simp]: "clean_form r []"
  by (auto simp: clean_form_def intro: exI [of _ 0])

lemma clean_form_step:
  assumes "clean_form r st" "CHR ''/'' \<notin> set c"
  shows "clean_form r (clean_step r st c)"
proof -
  obtain k ns where st: "st = replicate k ''..'' @ ns" and ns: "\<forall>n \<in> set ns. proper n"
    and r: "r \<longrightarrow> k = 0" using assms(1) unfolding clean_form_def by blast
  show ?thesis
  proof (cases "c = ''..''")
    case dots: True
    show ?thesis
    proof (cases ns rule: rev_cases)
      case Nil
      show ?thesis
      proof (cases k)
        case 0
        then show ?thesis using dots st Nil
          by (auto simp: clean_step_def clean_form_def intro: exI [of _ 1] exI [of _ 0])
      next
        case (Suc m)
        then have "clean_step r st c = replicate (Suc k) ''..''"
          using dots st Nil by (simp add: clean_step_def replicate_append_same)
        then show ?thesis using Suc r by (auto simp: clean_form_def intro!: exI [of _ "Suc k"] exI [of _ "[]"])
      qed
    next
      case (snoc ms n)
      then have "clean_step r st c = replicate k ''..'' @ ms"
        using dots st ns by (simp add: clean_step_def butlast_append proper_def)
      then show ?thesis using snoc ns r by (auto simp: clean_form_def)
    qed
  next
    case False
    then show ?thesis
    proof (cases "c = '''' \<or> c = ''.''")
      case True
      then show ?thesis using assms by (auto simp: clean_step_def)
    next
      case no: False
      then have "clean_step r st c = replicate k ''..'' @ (ns @ [c])"
        using False st by (simp add: clean_step_def)
      moreover have "\<forall>n \<in> set (ns @ [c]). proper n" using False no ns assms(2) by (auto simp: proper_def)
      ultimately show ?thesis using r unfolding clean_form_def by blast
    qed
  qed
qed

lemma clean_form_foldl:
  "clean_form r st \<Longrightarrow> (\<And>c. c \<in> set cs \<Longrightarrow> CHR ''/'' \<notin> set c) \<Longrightarrow> clean_form r (foldl (clean_step r) st cs)"
  by (induction cs arbitrary: st) (auto intro: clean_form_step)

lemma Clean_form: "clean_form (fst (Clean s)) (snd (Clean s))"
  unfolding Clean_def fst_conv snd_conv by (rule clean_form_foldl) (auto dest: split_on_free)

lemma clean_proper: "(\<And>c. c \<in> set cs \<Longrightarrow> proper c) \<Longrightarrow> foldl (clean_step r) st cs = st @ cs"
  by (induction cs arbitrary: st) (auto simp: clean_step_def proper_def)

text \<open>Parent steps in front of a relative path stay there.\<close>

lemma dots_stay: "''..'' \<in> set st \<Longrightarrow> clean_form False st \<Longrightarrow> (\<And>c. c \<in> set cs \<Longrightarrow> CHR ''/'' \<notin> set c) \<Longrightarrow>
    ''..'' \<in> set (foldl (clean_step False) st cs)"
proof (induction cs arbitrary: st)
  case (Cons c cs)
  have form: "clean_form False (clean_step False st c)" using Cons.prems by (simp add: clean_form_step)
  obtain k ns where st: "st = replicate k ''..'' @ ns" and ns: "\<forall>n \<in> set ns. proper n"
    using Cons.prems(2) unfolding clean_form_def by blast
  have "''..'' \<notin> set ns" using ns by (auto simp: proper_def)
  then have k: "0 < k" using Cons.prems(1) st by (cases k) auto
  have "''..'' \<in> set (clean_step False st c)"
  proof (cases ns rule: rev_cases)
    case Nil
    then show ?thesis using st k by (auto simp: clean_step_def)
  next
    case (snoc ms n)
    then show ?thesis using st k ns by (auto simp: clean_step_def butlast_append proper_def)
  qed
  then show ?case using Cons form by simp
qed simp

text \<open>Without them in the result, the components are worked off below whatever came before.\<close>

lemma clean_below:
  assumes "''..'' \<notin> set (foldl (clean_step False) st cs)" "clean_form False st"
    and "\<And>c. c \<in> set cs \<Longrightarrow> CHR ''/'' \<notin> set c"
  shows "foldl (clean_step r) (base @ st) cs = base @ foldl (clean_step False) st cs"
  using assms
proof (induction cs arbitrary: st)
  case (Cons c cs)
  have form: "clean_form False (clean_step False st c)" using Cons.prems by (simp add: clean_form_step)
  have here: "''..'' \<notin> set (clean_step False st c)"
    using dots_stay [OF _ form, of cs] Cons.prems by auto
  have "clean_step r (base @ st) c = base @ clean_step False st c"
  proof (cases "c = ''..''")
    case True
    then have "st \<noteq> []" "last st \<noteq> ''..''" using here by (auto simp: clean_step_def split: if_splits)
    then show ?thesis using True by (simp add: clean_step_def butlast_append)
  qed (simp add: clean_step_def)
  then show ?case using Cons form by simp
qed simp

lemma clean_dots: "foldl (clean_step False) (replicate j ''..'') (replicate k ''..'') = replicate (j + k) ''..''"
proof (induction k arbitrary: j)
  case (Suc k)
  have "clean_step False (replicate j ''..'') ''..'' = replicate (Suc j) ''..''"
    by (cases j) (simp_all add: clean_step_def replicate_append_same)
  then show ?case using Suc [of "Suc j"] by simp
qed simp

lemma clean_form_fix:
  assumes "clean_form r cs"
  shows "foldl (clean_step r) [] cs = cs"
proof -
  obtain k ns where cs: "cs = replicate k ''..'' @ ns" and ns: "\<forall>n \<in> set ns. proper n" and "r \<longrightarrow> k = 0"
    using assms unfolding clean_form_def by blast
  then have "foldl (clean_step r) [] (replicate k ''..'') = replicate k ''..''"
    using clean_dots [of 0 k] by (cases r) simp_all
  then show ?thesis using cs ns clean_proper [of ns r] by simp
qed

lemma Clean_path_str:
  assumes form: "clean_form r cs"
  shows "Clean (path_str (r, cs)) = (r, cs)"
proof (cases "cs = []")
  case True
  then show ?thesis by (cases r) (auto simp: Clean_def path_str_def IsAbs_def HasPrefix_def clean_step_def)
next
  case False
  have named: "c \<noteq> [] \<and> CHR ''/'' \<notin> set c" if "c \<in> set cs" for c
  proof -
    obtain k ns where "cs = replicate k ''..'' @ ns" "\<forall>n \<in> set ns. proper n"
      using form unfolding clean_form_def by blast
    then have "c = ''..'' \<or> proper c" using that by (auto split: if_splits)
    then show ?thesis by (auto simp: proper_def)
  qed
  then have free: "split_on (CHR ''/'') (join_with ''/'' cs) = cs"
    using join_split [of cs "CHR ''/''"] False by simp
  obtain d ds where cs: "cs = d # ds" using False by (cases cs) auto
  obtain x xs where d: "d = x # xs" "x \<noteq> CHR ''/''" using cs named [of d] by (cases d) auto
  have rel: "take 1 (join_with ''/'' cs) \<noteq> ''/''"
    unfolding cs d(1) using d(2) by (cases ds) simp_all
  show ?thesis
  proof (cases r)
    case True
    then have "split_on (CHR ''/'') (path_str (r, cs)) = [] # cs" using free by (simp add: path_str_def)
    then show ?thesis using True clean_form_fix [OF form]
      by (simp add: Clean_def IsAbs_def HasPrefix_def path_str_def clean_step_def)
  next
    case no: False
    then show ?thesis using False rel free clean_form_fix [OF form]
      by (simp add: Clean_def IsAbs_def HasPrefix_def path_str_def)
  qed
qed

lemma Clean_str_Clean [simp]: "Clean (path_str (Clean s)) = Clean s"
  using Clean_path_str [of "fst (Clean s)" "snd (Clean s)"] Clean_form [of s] by simp

lemma path_str_nonempty [simp]: "path_str (Clean s) \<noteq> []"
proof
  assume "path_str (Clean s) = []"
  then have "Clean s = Clean []" using Clean_str_Clean [of s] by simp
  moreover have "path_str (Clean []) \<noteq> []" by (simp add: Clean_def path_str_def IsAbs_def HasPrefix_def clean_step_def)
  ultimately show False using \<open>path_str (Clean s) = []\<close> by simp
qed

lemma Join_nonempty: "b \<noteq> [] \<Longrightarrow> Join a b \<noteq> []"
  by (simp add: Join_def)

lemma relative_name:
  assumes "''..'' \<notin> set (snd (Clean name))" "\<not> IsAbs name"
  shows "c \<in> set (snd (Clean name)) \<Longrightarrow> proper c"
proof -
  obtain k ns where form: "snd (Clean name) = replicate k ''..'' @ ns" "\<forall>n \<in> set ns. proper n"
    using Clean_form [of name] unfolding clean_form_def by blast
  then have "k = 0" using assms(1) by (cases k) auto
  then show "c \<in> set (snd (Clean name)) \<Longrightarrow> proper c" using form by auto
qed

text \<open>A relative name without parent steps, joined to a directory, is a path below it.\<close>

lemma Clean_join:
  assumes "''..'' \<notin> set (snd (Clean name))" "\<not> IsAbs name" "dir \<noteq> []"
  shows "Clean (dir @ ''/'' @ name) = (fst (Clean dir), snd (Clean dir) @ snd (Clean name))"
proof -
  have free: "c \<in> set (split_on (CHR ''/'') name) \<Longrightarrow> CHR ''/'' \<notin> set c" for c
    by (rule split_on_free)
  have "IsAbs (dir @ ''/'' @ name) = IsAbs dir"
    using assms(3) by (cases dir) (auto simp: IsAbs_def HasPrefix_def)
  then show ?thesis
    using clean_below [of "[]" "split_on (CHR ''/'') name" "IsAbs dir" "snd (Clean dir)"] assms free
    by (simp add: Clean_def split_on_append [of "CHR ''/''" dir name, simplified])
qed

text \<open>A cleaned relative path with a parent step is one of the texts \<open>..\<close> and \<open>../\<close> something.\<close>

lemma dots_text:
  assumes "''..'' \<in> set (snd (Clean name))" "\<not> IsAbs name"
  shows "path_str (Clean name) = ''..'' \<or> HasPrefix (path_str (Clean name)) ''../''"
proof -
  obtain k ns where form: "snd (Clean name) = replicate k ''..'' @ ns" and ns: "\<forall>n \<in> set ns. proper n"
    using Clean_form [of name] unfolding clean_form_def by blast
  have "k \<noteq> 0" using assms(1) form ns by (auto simp: proper_def)
  then obtain cs where "snd (Clean name) = ''..'' # cs" using form by (cases k) auto
  then show ?thesis using assms(2) by (cases cs) (auto simp: path_str_def HasPrefix_def Clean_def)
qed

text \<open>The paths below a directory.\<close>

definition below :: "path \<Rightarrow> path \<Rightarrow> bool" where
  "below dir p \<longleftrightarrow> (\<exists>cs. cs \<noteq> [] \<and> (\<forall>c \<in> set cs. proper c) \<and> p = (fst dir, snd dir @ cs))"

lemma Clean_Join: "a \<noteq> [] \<Longrightarrow> b \<noteq> [] \<Longrightarrow> Clean (Join a b) = Clean (a @ ''/'' @ b)"
  by (simp add: Join_def)

lemma Join_below:
  assumes "''..'' \<notin> set (snd (Clean name))" "\<not> IsAbs name" "snd (Clean name) \<noteq> []" "dir \<noteq> []" "name \<noteq> []"
  shows "below (Clean dir) (Clean (Join dir name))"
proof -
  have "Clean (Join dir name) = Clean (dir @ ''/'' @ name)" using assms by (simp add: Clean_Join)
  then show ?thesis using Clean_join [OF assms(1,2,4)] relative_name [OF assms(1,2)] assms(3)
    unfolding below_def by auto
qed

end
