(* ===== verification/AppState.thy ===== *)
theory AppState
  imports Pool PubSub VncRelay CredVault FilePath
begin

text \<open>
  The state of the whole gateway process, as \<open>cmd/gateway/main.go\<close> assembles it, and the stores of the
  tables beside jobs, agents and devices: files (\<open>store/files.go\<close>), VNC sessions
  (\<open>store/vnc_sessions.go\<close>), credentials (\<open>store/credentials.go\<close>) and skills (\<open>store/skills.go\<close>).

  \<open>App\<close> extends the pool's state by the broker, the VNC relay, these tables, the file system, the buffers
  of the file relay and the random bytes drawn; \<open>ap_panicked\<close> says that the process died of a panic.
  The table of users is not modelled; a reference to it can fail through the script of faults, and so can
  the deletion of a job, agent or device one of these tables refers to.
\<close>

section \<open>The file system\<close>

text \<open>
  Files are named by cleaned paths. A directory exists when it is in \<open>fs_dirs\<close> or is the root or the working directory.
\<close>

record fsys =
  fs_files :: "(path, bytes) gomap"
  fs_dirs :: "path list"
  io_faults :: "bool list"

definition dir_exists :: "path \<Rightarrow> fsys \<Rightarrow> bool" where
  "dir_exists p f \<longleftrightarrow> snd p = [] \<or> p \<in> set (fs_dirs f)"

definition io_fault :: "fsys \<Rightarrow> bool \<times> fsys" where
  "io_fault f = (case io_faults f of [] \<Rightarrow> (False, f) | b # bs \<Rightarrow> (b, f\<lparr>io_faults := bs\<rparr>))"

text \<open>\<open>os.MkdirAll\<close>: fails when a prefix of the path is a file.\<close>

definition MkdirAll :: "path \<Rightarrow> fsys \<Rightarrow> bool \<times> fsys" where
  "MkdirAll p f0 = (let (bad, f) = io_fault f0; ps = map (\<lambda>n. (fst p, take n (snd p))) [1..<Suc (length (snd p))] in
     if bad \<or> list_ex (\<lambda>q. map_of (fs_files f) q \<noteq> None) ps then (False, f)
     else (True, f\<lparr>fs_dirs := fs_dirs f @ ps\<rparr>))"

text \<open>\<open>os.Create\<close>: the parent must be a directory and the path none; the file is emptied.\<close>

definition Create :: "path \<Rightarrow> fsys \<Rightarrow> bool \<times> fsys" where
  "Create p f0 = (let (bad, f) = io_fault f0 in
     if bad \<or> snd p = [] \<or> \<not> dir_exists (fst p, butlast (snd p)) f \<or> dir_exists p f then (False, f)
     else (True, f\<lparr>fs_files := AList.update p [] (fs_files f)\<rparr>))"

text \<open>Appends to an open file; on a failure the file keeps what it had.\<close>

definition Append :: "path \<Rightarrow> bytes \<Rightarrow> fsys \<Rightarrow> bool \<times> fsys" where
  "Append p bs f0 = (let (bad, f) = io_fault f0 in
     if bad then (False, f)
     else (True, f\<lparr>fs_files := AList.update p
            ((case map_of (fs_files f) p of None \<Rightarrow> [] | Some old \<Rightarrow> old) @ bs) (fs_files f)\<rparr>))"

datatype remove_result = Removed | RemoveNotExist | RemoveFailed

definition Remove :: "path \<Rightarrow> fsys \<Rightarrow> remove_result \<times> fsys" where
  "Remove p f0 = (let (bad, f) = io_fault f0 in
     if bad then (RemoveFailed, f)
     else case map_of (fs_files f) p of None \<Rightarrow> (RemoveNotExist, f)
     | Some _ \<Rightarrow> (Removed, f\<lparr>fs_files := AList.delete p (fs_files f)\<rparr>))"

definition Open :: "path \<Rightarrow> fsys \<Rightarrow> bytes option \<times> fsys" where
  "Open p f0 = (let (bad, f) = io_fault f0 in (if bad then None else map_of (fs_files f) p, f))"

section \<open>The state\<close>

record pullTransfer =
  pt_fileID :: uuid
  pt_jobID :: uuid
  pt_name :: string
  pt_sha256 :: string
  pt_chunks :: int
  pt_buf :: "bytes list"
  pt_received :: "bool list"

record App = PoolState +
  ap_broker :: Broker
  ap_vnc :: Relay
  vnc_tab :: "VNCSession list"
  creds_tab :: "BrowserCredential list"
  job_creds_tab :: "(uuid \<times> uuid) list"
  files_tab :: "File list"
  job_files_tab :: "(uuid \<times> uuid \<times> string) list"
  skills_tab :: "Skill list"
  skill_versions_tab :: "SkillVersion list"
  device_skills_tab :: "DeviceSkill list"
  agent_skills_tab :: "AgentSkill list"
  skill_grants_tab :: "SkillGrant list"
  ap_fs :: fsys
  ap_pullBufs :: "(uuid, pullTransfer) gomap"
  ap_rand :: "nat \<Rightarrow> bytes"
  ap_rand_pos :: nat
  ap_panicked :: bool

type_synonym 'a app = "'a App_scheme"

text \<open>A file-system operation on the state.\<close>

definition on_fs :: "(fsys \<Rightarrow> 'r \<times> fsys) \<Rightarrow> 'a app \<Rightarrow> 'r \<times> 'a app" where
  "on_fs op g = (let (r, f) = op (ap_fs g) in (r, g\<lparr>ap_fs := f\<rparr>))"

definition rand_bytes :: "'a app \<Rightarrow> bytes \<times> 'a app" where
  "rand_bytes g = (ap_rand g (ap_rand_pos g), g\<lparr>ap_rand_pos := Suc (ap_rand_pos g)\<rparr>)"

section \<open>FileStore\<close>

text \<open>\<open>Create\<close> overwrites the id it is given; the file is returned as the code leaves it.\<close>

definition F_Create :: "File \<Rightarrow> 'a app \<Rightarrow> err option \<times> File \<times> 'a app" where
  "F_Create f0 g0 = (let (u, g1) = NewUUID g0; f = f0\<lparr>f_id := u, f_created_at := wall_clock g1\<rparr>;
      (e, g2) = db_exec (\<lambda>g. if u \<in> f_id ` set (files_tab g) then (Some EUnique, g)
         else (None, g\<lparr>files_tab := files_tab g @ [f\<lparr>f_purged_at := None\<rparr>]\<rparr>)) g1
    in (e, f, g2))"

definition F_GetByID :: "uuid \<Rightarrow> (File option, 'a app) query" where
  "F_GetByID i = db_query (\<lambda>g. find (\<lambda>f. f_id f = i) (files_tab g))"

abbreviation upd_files :: "(File \<Rightarrow> bool) \<Rightarrow> (File \<Rightarrow> File) \<Rightarrow> 'a app exec" where
  "upd_files P f \<equiv> db_exec (\<lambda>g. (None, g\<lparr>files_tab := sql_update P f (files_tab g)\<rparr>))"

definition F_UpdateStatus :: "uuid \<Rightarrow> FileStatus \<Rightarrow> 'a app exec" where
  "F_UpdateStatus i status = upd_files (\<lambda>f. f_id f = i) (\<lambda>f. f\<lparr>f_status := status\<rparr>)"

definition F_MarkPurged :: "uuid \<Rightarrow> 'a app exec" where
  "F_MarkPurged i g = (let now = wall_clock g in
     upd_files (\<lambda>f. f_id f = i) (\<lambda>f. f\<lparr>f_status := FilePurged, f_purged_at := Some now\<rparr>) g)"

definition F_UpdateSHA256 :: "uuid \<Rightarrow> string \<Rightarrow> 'a app exec" where
  "F_UpdateSHA256 i sha = upd_files (\<lambda>f. f_id f = i) (\<lambda>f. f\<lparr>f_sha256 := sha\<rparr>)"

definition F_ListByUser :: "uuid \<Rightarrow> uuid option \<Rightarrow> int \<Rightarrow> (File list \<times> uuid option, 'a app) query" where
  "F_ListByUser userID cursor limit = db_query (\<lambda>g. page_of f_id f_created_at (files_tab g)
     (filter (\<lambda>f. f_user_id f = userID \<and> f_status f \<noteq> FilePurged) (files_tab g)) cursor limit)"

definition F_ListStagedCloud :: "time \<Rightarrow> (File list, 'a app) query" where
  "F_ListStagedCloud olderThan = db_query (\<lambda>g.
     filter (\<lambda>f. f_status f = FileStagedCloud \<and> f_created_at f < olderThan) (files_tab g))"

definition F_LinkToJob :: "uuid \<Rightarrow> uuid \<Rightarrow> string \<Rightarrow> 'a app exec" where
  "F_LinkToJob fileID jobID role = db_exec (\<lambda>g.
     if fileID \<notin> f_id ` set (files_tab g) \<or> \<not> has_job jobID g then (Some EForeignKey, g)
     else (None, g\<lparr>job_files_tab :=
       (if \<exists>l \<in> set (job_files_tab g). fst l = jobID \<and> fst (snd l) = fileID
        then sql_update (\<lambda>l. fst l = jobID \<and> fst (snd l) = fileID) (\<lambda>(j, f, _). (j, f, role)) (job_files_tab g)
        else job_files_tab g @ [(jobID, fileID, role)])\<rparr>))"

definition F_ListByJob :: "uuid \<Rightarrow> (File list, 'a app) query" where
  "F_ListByJob jobID = db_query (\<lambda>g.
     filter (\<lambda>f. \<exists>l \<in> set (job_files_tab g). fst l = jobID \<and> fst (snd l) = f_id f) (files_tab g))"

definition F_ListByJobAndRole :: "uuid \<Rightarrow> string \<Rightarrow> (File list, 'a app) query" where
  "F_ListByJobAndRole jobID role = db_query (\<lambda>g.
     filter (\<lambda>f. (jobID, f_id f, role) \<in> set (job_files_tab g)) (files_tab g))"

section \<open>VNCSessionStore\<close>

abbreviation upd_vnc :: "(VNCSession \<Rightarrow> bool) \<Rightarrow> (VNCSession \<Rightarrow> VNCSession) \<Rightarrow> 'a app exec" where
  "upd_vnc P f \<equiv> db_exec (\<lambda>g. (None, g\<lparr>vnc_tab := sql_update P f (vnc_tab g)\<rparr>))"

definition V_Create :: "VNCSession \<Rightarrow> 'a app \<Rightarrow> err option \<times> VNCSession \<times> 'a app" where
  "V_Create v0 g0 = (let (u, g1) = NewUUID g0; v = v0\<lparr>v_id := u, v_created_at := wall_clock g1\<rparr>;
      (e, g2) = db_exec (\<lambda>g. if u \<in> v_id ` set (vnc_tab g) then (Some EUnique, g)
         else if \<not> has_job (v_job_id v) g \<or> \<not> has_device (v_device_id v) g \<or> \<not> has_agent (v_agent_id v) g
         then (Some EForeignKey, g)
         else (None, g\<lparr>vnc_tab := vnc_tab g @ [v\<lparr>v_rfb_password := None, v_last_active_at := None,
                v_started_at := None, v_close_reason := None, v_ended_at := None\<rparr>]\<rparr>)) g1
    in (e, v, g2))"

definition V_GetByID :: "uuid \<Rightarrow> (VNCSession option, 'a app) query" where
  "V_GetByID i = db_query (\<lambda>g. find (\<lambda>v. v_id v = i) (vnc_tab g))"

definition V_UpdateStatus :: "uuid \<Rightarrow> VNCSessionStatus \<Rightarrow> string \<Rightarrow> 'a app exec" where
  "V_UpdateStatus i status rfbPassword g = (let now = wall_clock g in
     upd_vnc (\<lambda>v. v_id v = i) (\<lambda>v. v\<lparr>v_status := status, v_rfb_password := Some rfbPassword,
       v_last_active_at := Some now\<rparr>) g)"

definition V_Close :: "uuid \<Rightarrow> 'a app exec" where
  "V_Close i g = (let now = wall_clock g in
     upd_vnc (\<lambda>v. v_id v = i) (\<lambda>v. v\<lparr>v_status := VNCSessionClosed, v_ended_at := Some now\<rparr>) g)"

definition V_Touch :: "uuid \<Rightarrow> 'a app exec" where
  "V_Touch i g = (let now = wall_clock g in
     upd_vnc (\<lambda>v. v_id v = i) (\<lambda>v. v\<lparr>v_last_active_at := Some now\<rparr>) g)"

definition vnc_open :: "VNCSession \<Rightarrow> bool" where
  "vnc_open v \<longleftrightarrow> v_status v \<in> {VNCSessionPending, VNCSessionReady, VNCSessionActive}"

definition V_GetByJobID :: "uuid \<Rightarrow> (VNCSession option, 'a app) query" where
  "V_GetByJobID jobID = db_query (\<lambda>g. least_by (\<lambda>v. - v_created_at v)
     (filter (\<lambda>v. v_job_id v = jobID \<and> vnc_open v) (vnc_tab g)))"

definition V_CountActiveByUser :: "uuid \<Rightarrow> (nat, 'a app) query" where
  "V_CountActiveByUser userID = db_query (\<lambda>g. sql_count (\<lambda>v. v_user_id v = userID \<and> vnc_open v) (vnc_tab g))"

definition V_ListActive :: "(VNCSession list, 'a app) query" where
  "V_ListActive = db_query (\<lambda>g. sort_key v_created_at (filter vnc_open (vnc_tab g)))"

section \<open>CredentialStore\<close>

definition C_Create :: "BrowserCredential \<Rightarrow> 'a app \<Rightarrow> err option \<times> BrowserCredential \<times> 'a app" where
  "C_Create c0 g0 = (let (u, g1) = NewUUID g0; now = wall_clock g1;
      c = c0\<lparr>bc_id := u, bc_created_at := now, bc_updated_at := now\<rparr>;
      (e, g2) = db_exec (\<lambda>g. if \<exists>b \<in> set (creds_tab g). bc_id b = u \<or>
             bc_user_id b = bc_user_id c \<and> bc_label b = bc_label c then (Some EUnique, g)
         else (None, g\<lparr>creds_tab := creds_tab g @ [c\<lparr>bc_last_used_at := None\<rparr>]\<rparr>)) g1
    in (e, c, g2))"

definition C_GetByID :: "uuid \<Rightarrow> (BrowserCredential option, 'a app) query" where
  "C_GetByID i = db_query (\<lambda>g. find (\<lambda>c. bc_id c = i) (creds_tab g))"

definition C_ListByUser :: "uuid \<Rightarrow> (BrowserCredential list, 'a app) query" where
  "C_ListByUser userID = db_query (\<lambda>g. sort_key (\<lambda>c. - bc_created_at c)
     (filter (\<lambda>c. bc_user_id c = userID) (creds_tab g)))"

definition C_Update :: "BrowserCredential \<Rightarrow> 'a app exec" where
  "C_Update x g = (let now = wall_clock g;
       tab = (\<lambda>g. sql_update (\<lambda>c. bc_id c = bc_id x) (\<lambda>c. c\<lparr>bc_label := bc_label x, bc_updated_at := now\<rparr>)
                (creds_tab g)) in
     db_exec (\<lambda>g. if distinct (map (\<lambda>c. (bc_user_id c, bc_label c)) (tab g))
       then (None, g\<lparr>creds_tab := tab g\<rparr>) else (Some EUnique, g)) g)"

definition C_Touch :: "uuid \<Rightarrow> 'a app exec" where
  "C_Touch i g = (let now = wall_clock g in db_exec (\<lambda>g. (None, g\<lparr>creds_tab :=
     sql_update (\<lambda>c. bc_id c = i) (\<lambda>c. c\<lparr>bc_last_used_at := Some now\<rparr>) (creds_tab g)\<rparr>)) g)"

definition C_Delete :: "uuid \<Rightarrow> 'a app exec" where
  "C_Delete i = db_exec (\<lambda>g. if i \<in> snd ` set (job_creds_tab g) then (Some EForeignKey, g)
     else (None, g\<lparr>creds_tab := sql_delete (\<lambda>c. bc_id c = i) (creds_tab g)\<rparr>))"

text \<open>No row is affected, and the error the same, when the link is there already.\<close>

definition C_LinkToJob :: "uuid \<Rightarrow> uuid \<Rightarrow> 'a app exec" where
  "C_LinkToJob jobID credID = db_exec (\<lambda>g.
     if (jobID, credID) \<notin> set (job_creds_tab g) \<and> (\<exists>j \<in> set (jobs_tab g). \<exists>c \<in> set (creds_tab g).
          j_id j = jobID \<and> bc_id c = credID \<and> bc_user_id c = j_user_id j)
     then (None, g\<lparr>job_creds_tab := job_creds_tab g @ [(jobID, credID)]\<rparr>)
     else (Some (EHandler ''credential does not belong to the job owner''), g))"

definition C_ListByJob :: "uuid \<Rightarrow> (BrowserCredential list, 'a app) query" where
  "C_ListByJob jobID = db_query (\<lambda>g. filter (\<lambda>c. (jobID, bc_id c) \<in> set (job_creds_tab g)) (creds_tab g))"

end
