(* ===== verification/FileRelay.thy ===== *)
theory FileRelay
  imports AppState
begin

text \<open>
  \<open>gateway/internal/relay/relay.go\<close>: staging of uploads, pushing of files to devices in chunks, and
  the pull of output files from devices.

  \<open>run_chunks\<close> is the loop that starts one goroutine per chunk, at most a window of them at a time: a schedule
  says when the loop goes on and which goroutine sends next. The frames go to the device's outbound queue,
  which the write pump drains between the operations. SHA-256 and base64 are fields of \<open>crypto\<close>; reading a
  zip archive is the argument \<open>unzip\<close>.
\<close>

section \<open>Configuration\<close>

record 'h FileRelay =
  fl_baseDir :: string
  fl_maxSize :: int
  fl_retention :: duration
  fl_GetJobUserID :: "(uuid \<Rightarrow> 'h \<Rightarrow> (err + uuid) \<times> 'h) option"

definition NewFileRelay :: "string \<Rightarrow> int \<Rightarrow> duration \<Rightarrow> 'h FileRelay" where
  "NewFileRelay baseDir maxSize retention = \<lparr>fl_baseDir =
       (if HasPrefix baseDir ''local:'' then drop 6 baseDir else baseDir),
     fl_maxSize = maxSize, fl_retention = retention, fl_GetJobUserID = None\<rparr>"

definition FileStoreBackend :: "'h FileRelay \<Rightarrow> string" where
  "FileStoreBackend r = (if HasPrefix (fl_baseDir r) ''s3://'' then ''s3'' else ''local'')"

definition ChunkSize :: nat where "ChunkSize = 256 * 1024"

definition MaxChunksInFlight :: nat where "MaxChunksInFlight = 8"

text \<open>Rejected names: empty, with a backslash or a zero byte, absolute, or leading out of the directory.\<close>

definition isSafeOutputName :: "string \<Rightarrow> bool" where
  "isSafeOutputName name \<longleftrightarrow>
     (let cleaned = path_str (Clean name) in
      name \<noteq> '''' \<and> CHR 0x5C \<notin> set name \<and> CHR 0x00 \<notin> set name \<and> \<not> (IsAbs name \<or> HasPrefix name ''/'')
      \<and> \<not> (cleaned = ''.'' \<or> cleaned = ''..'' \<or> HasPrefix cleaned ''../'' \<or> Contains cleaned ''/../''
           \<or> HasSuffix cleaned ''/..''))"

section \<open>Uploads\<close>

definition new_file :: "uuid \<Rightarrow> uuid \<Rightarrow> string \<Rightarrow> int \<Rightarrow> string \<Rightarrow> string \<Rightarrow> string \<Rightarrow> File" where
  "new_file i userID name len mime sha uri = \<lparr>f_id = i, f_user_id = userID, f_name = name, f_size = len,
     f_mime = mime, f_sha256 = sha, f_storage_uri = uri, f_status = FileStagedCloud, f_created_at = 0,
     f_purged_at = None\<rparr>"

text \<open>The reader: the bytes it delivers, and whether it fails after them.\<close>

definition StageFile :: "crypto \<Rightarrow> 'a app FileRelay \<Rightarrow> uuid \<Rightarrow> string \<Rightarrow> bytes \<times> bool \<Rightarrow> string \<Rightarrow>
    'a app \<Rightarrow> (err + File) \<times> 'a app" where
  "StageFile c r userID fileName reader mimeType g =
    (let (fileID, g1) = NewUUID g;
         storagePath = Join (fl_baseDir r) (uuid_str g1 fileID);
         base = Base (path_str (Clean fileName));
         safeName = (if base = ''.'' \<or> base = ''/'' then ''upload'' else base);
         (made, g2) = on_fs (MkdirAll (Clean (fl_baseDir r))) g1
     in if \<not> made then (Inl (EHandler ''create staging dir''), g2) else
     (let (opened, g3) = on_fs (Create (Clean storagePath)) g2
      in if \<not> opened then (Inl (EHandler ''create staged file''), g3) else
      (let limited = take (nat (fl_maxSize r)) (fst reader);
           (written, g4) = on_fs (Append (Clean storagePath) limited) g3
       in if \<not> written \<or> (snd reader \<and> length (fst reader) < nat (fl_maxSize r))
          then (Inl (EHandler ''write staged file''), snd (on_fs (Remove (Clean storagePath)) g4))
          else if fl_maxSize r \<le> int (length limited)
          then (Inl (EHandler ''file exceeds max upload size''), snd (on_fs (Remove (Clean storagePath)) g4))
          else (case F_Create (new_file fileID userID safeName (int (length limited)) mimeType
                  (cr_sha256 c limited) storagePath) g4 of
             (Some e, _, g5) \<Rightarrow>
               (Inl (EHandler ''create file record''), snd (on_fs (Remove (Clean storagePath)) g5))
           | (None, file, g5) \<Rightarrow> (Inr file, g5)))))"

section \<open>Sending in chunks\<close>

text \<open>The reads of a loop: at most \<open>n\<close>, until the end of the file; the flag says that one failed.\<close>

fun read_blocks :: "nat \<Rightarrow> bytes \<Rightarrow> fsys \<Rightarrow> (bytes list \<times> bool) \<times> fsys" where
  "read_blocks 0 bs f = (([], False), f)"
| "read_blocks (Suc n) bs f = (let (bad, f1) = io_fault f in
     if bad then (([], True), f1)
     else if bs = [] then (([], False), f1)
     else let ((rest, failed), f2) = read_blocks n (drop ChunkSize bs) f1
          in ((take ChunkSize bs # rest, failed), f2))"

text \<open>
  The order in which the goroutines send. An event lets the loop start the next one, if fewer than \<open>window\<close> are
  running, or lets a running one send and end. When the schedule ends, the rest goes in order.
\<close>

datatype chunk_event = Go | Send nat

fun chunk_order :: "nat \<Rightarrow> chunk_event list \<Rightarrow> 'c list \<Rightarrow> 'c list \<Rightarrow> 'c list" where
  "chunk_order window [] waiting running = running @ waiting"
| "chunk_order window (Go # evs) waiting running = (case waiting of
     [] \<Rightarrow> chunk_order window evs waiting running
   | w # ws \<Rightarrow> if length running < window then chunk_order window evs ws (running @ [w])
       else chunk_order window evs waiting running)"
| "chunk_order window (Send k # evs) waiting running =
     (if running = [] then chunk_order window evs waiting running
      else let i = k mod length running
           in running ! i # chunk_order window evs waiting (take i running @ drop (Suc i) running))"

definition send_new :: "uuid \<Rightarrow> FrameType \<Rightarrow> payload \<Rightarrow> 'a app exec" where
  "send_new deviceID t p g = (case NewFrame t p g of
     (Inl e, g1) \<Rightarrow> (Some e, g1) | (Inr frame, g1) \<Rightarrow> SendFrame deviceID frame g1)"

text \<open>A goroutine: it builds its frame and sends it, and leaves its error, if any, in \<open>sendErr\<close>.\<close>

definition send_chunk :: "uuid \<Rightarrow> FrameType \<Rightarrow> err option \<times> 'a app \<Rightarrow> payload \<Rightarrow> err option \<times> 'a app" where
  "send_chunk deviceID t s p = (let (sendErr, g) = s in
     case send_new deviceID t p g of (Some e, g1) \<Rightarrow> (Some e, g1) | (None, g1) \<Rightarrow> (sendErr, g1))"

definition run_chunks :: "uuid \<Rightarrow> FrameType \<Rightarrow> chunk_event list \<Rightarrow> payload list \<Rightarrow> 'a app exec" where
  "run_chunks deviceID t sched ps g =
     foldl (send_chunk deviceID t) (None, g) (chunk_order MaxChunksInFlight sched ps [])"

definition file_chunks :: "crypto \<Rightarrow> uuid \<Rightarrow> bytes list \<Rightarrow> payload list" where
  "file_chunks c fileID blocks = map (\<lambda>(i, bs). PFileChunk \<lparr>fch_file_id = fileID, fch_chunk_index = int i,
     fch_data = cr_b64enc c bs\<rparr>) (enumerate 0 blocks)"

definition total_chunks :: "int \<Rightarrow> nat" where
  "total_chunks len = nat ((len + int ChunkSize - 1) div int ChunkSize)"

text \<open>A read that fails returns at once; the goroutines already started still send.\<close>

definition PushFile :: "crypto \<Rightarrow> chunk_event list \<Rightarrow> uuid \<Rightarrow> uuid \<Rightarrow> uuid \<Rightarrow> 'a app exec" where
  "PushFile c sched fileID jobID deviceID g = (case F_GetByID fileID g of
     (Inl e, g1) \<Rightarrow> (Some e, g1)
   | (Inr None, g1) \<Rightarrow> (Some (EHandler ''file not found''), g1)
   | (Inr (Some file), g1) \<Rightarrow>
       if f_status file = FileStagedDevice then (None, g1) else
      (case on_fs (Open (Clean (f_storage_uri file))) g1 of
         (None, g2) \<Rightarrow> (Some (EHandler ''open staged file''), g2)
       | (Some content, g2) \<Rightarrow>
        (case send_new deviceID FrameFilePushBegin (PFilePushBegin \<lparr>fpsh_file_id = f_id file,
              fpsh_job_id = jobID, fpsh_file_name = f_name file, fpsh_size_bytes = f_size file,
              fpsh_total_chunks = int (total_chunks (f_size file)), fpsh_sha256 = f_sha256 file\<rparr>) g2 of
           (Some e, g3) \<Rightarrow> (Some e, g3)
         | (None, g3) \<Rightarrow>
            (let ((blocks, failed), g4) = on_fs (read_blocks (total_chunks (f_size file)) content) g3;
                 (sendErr, g5) = run_chunks deviceID FrameFileChunk sched (file_chunks c fileID blocks) g4
             in if failed then (Some (EHandler ''read chunk''), g5)
                else if sendErr \<noteq> None then (sendErr, g5)
                else send_new deviceID FrameFilePushEnd (PFilePushEnd \<lparr>fpend_file_id = fileID\<rparr>) g5))))"

definition FR_OnFileAck :: "FileAckPayload \<Rightarrow> 'a app exec" where
  "FR_OnFileAck p g = (if fa_status p = FileStagedDevice then F_UpdateStatus (fa_file_id p) FileStagedDevice g
     else (Some (EHandler (case fa_error p of None \<Rightarrow> ''unknown error'' | Some m \<Rightarrow> m)), g))"

fun push_files :: "crypto \<Rightarrow> (uuid \<Rightarrow> chunk_event list) \<Rightarrow> File list \<Rightarrow> uuid \<Rightarrow> uuid \<Rightarrow> 'a app exec" where
  "push_files c sched [] jobID deviceID g = (None, g)"
| "push_files c sched (f # fs) jobID deviceID g =
     (if f_status f = FileStagedDevice then push_files c sched fs jobID deviceID g
      else (case PushFile c (sched (f_id f)) (f_id f) jobID deviceID g of
          (Some e, g1) \<Rightarrow> (Some e, g1)
        | (None, g1) \<Rightarrow> push_files c sched fs jobID deviceID g1))"

definition PushJobInputs :: "crypto \<Rightarrow> (uuid \<Rightarrow> chunk_event list) \<Rightarrow> Job \<Rightarrow> uuid \<Rightarrow> 'a app exec" where
  "PushJobInputs c sched job deviceID g = (case F_ListByJob (j_id job) g of
     (Inl e, g1) \<Rightarrow> (Some e, g1)
   | (Inr files, g1) \<Rightarrow> push_files c sched files (j_id job) deviceID g1)"

section \<open>Cleaning up\<close>

fun purge_staged :: "File list \<Rightarrow> 'a app \<Rightarrow> 'a app" where
  "purge_staged [] g = g"
| "purge_staged (f # fs) g = (case on_fs (Remove (Clean (f_storage_uri f))) g of
     (RemoveFailed, g1) \<Rightarrow> purge_staged fs g1
   | (_, g1) \<Rightarrow> purge_staged fs (snd (F_MarkPurged (f_id f) g1)))"

definition CleanupStagedFiles :: "'a app FileRelay \<Rightarrow> 'a app exec" where
  "CleanupStagedFiles r g = (case F_ListStagedCloud (wall_clock g - fl_retention r) g of
     (Inl e, g1) \<Rightarrow> (Some e, g1) | (Inr files, g1) \<Rightarrow> (None, purge_staged files g1))"

fun purge_inputs :: "File list \<Rightarrow> 'a app \<Rightarrow> 'a app" where
  "purge_inputs [] g = g"
| "purge_inputs (f # fs) g = (let g1 = snd (F_MarkPurged (f_id f) g) in
     purge_inputs fs (if f_storage_uri f \<noteq> [] then snd (on_fs (Remove (Clean (f_storage_uri f))) g1) else g1))"

definition CleanupJobFiles :: "uuid \<Rightarrow> 'a app exec" where
  "CleanupJobFiles jobID g = (case F_ListByJobAndRole jobID ''input'' g of
     (Inl e, g1) \<Rightarrow> (Some e, g1) | (Inr files, g1) \<Rightarrow> (None, purge_inputs files g1))"

section \<open>Pulling outputs\<close>

definition sendPullAck :: "uuid \<Rightarrow> uuid \<Rightarrow> string \<Rightarrow> string \<Rightarrow> int option \<Rightarrow> 'a app \<Rightarrow> 'a app" where
  "sendPullAck deviceID fileID status errMsg chunkIndex g = snd (send_new deviceID FrameFilePullAck
     (PFilePullAck \<lparr>fpa_file_id = fileID, fpa_status = status, fpa_error = errMsg,
       fpa_chunk_index = (case chunkIndex of None \<Rightarrow> -1 | Some i \<Rightarrow> i)\<rparr>) g)"

definition pull_error :: "uuid \<Rightarrow> uuid \<Rightarrow> string \<Rightarrow> 'a app exec" where
  "pull_error deviceID fileID msg g =
     (Some (EHandler msg), sendPullAck deviceID fileID ''ERROR'' msg None g)"

text \<open>
  \<open>make([][]byte, n)\<close> panics for a negative length and beyond the address space of 48 bits; a slice header
  has 24 bytes. The read pump runs in a goroutine of its own and does not recover, so a panic ends the process.
\<close>

definition makeslice_ok :: "int \<Rightarrow> bool" where
  "makeslice_ok n \<longleftrightarrow> 0 \<le> n \<and> n * 24 \<le> 2 ^ 48"

definition FR_OnFilePullBegin :: "'a app FileRelay \<Rightarrow> uuid \<Rightarrow> FilePullBeginPayload \<Rightarrow> 'a app exec" where
  "FR_OnFilePullBegin r deviceID p g =
    (if fl_maxSize r < fpb_size p then pull_error deviceID (fpb_file_id p) ''file too large'' g
     else if \<not> isSafeOutputName (fpb_name p) then pull_error deviceID (fpb_file_id p) ''invalid filename'' g
     else
      (let (q, g1) = F_ListByJobAndRole (fpb_job_id p) ''output'' g;
           existing = (case q of Inl e \<Rightarrow> [] | Inr files \<Rightarrow> files)
       in if list_ex (\<lambda>f. f_name f = fpb_name p) existing
          then (None, sendPullAck deviceID (fpb_file_id p) ''RECEIVED'' '''' None g1)
          else if \<not> makeslice_ok (fpb_total_chunks p) then (None, g1\<lparr>ap_panicked := True\<rparr>)
          else (None, g1\<lparr>ap_pullBufs := AList.update (fpb_file_id p)
             \<lparr>pt_fileID = fpb_file_id p, pt_jobID = fpb_job_id p, pt_name = fpb_name p,
              pt_sha256 = fpb_sha256 p, pt_chunks = fpb_total_chunks p,
              pt_buf = replicate (nat (fpb_total_chunks p)) [],
              pt_received = replicate (nat (fpb_total_chunks p)) False\<rparr> (ap_pullBufs g1)\<rparr>)))"

definition FR_OnFilePullChunk :: "crypto \<Rightarrow> uuid \<Rightarrow> FilePullChunkPayload \<Rightarrow> 'a app exec" where
  "FR_OnFilePullChunk c deviceID p g = (case map_of (ap_pullBufs g) (fpc_file_id p) of
     None \<Rightarrow> pull_error deviceID (fpc_file_id p) ''no active pull for file'' g
   | Some pt \<Rightarrow> (case cr_b64dec c (fpc_data p) of
       None \<Rightarrow> pull_error deviceID (fpc_file_id p) ''invalid base64 data'' g
     | Some bs \<Rightarrow>
         if fpc_chunk_index p < 0 \<or> pt_chunks pt \<le> fpc_chunk_index p
         then pull_error deviceID (fpc_file_id p) ''chunk index out of range'' g
         else (None, sendPullAck deviceID (fpc_file_id p) ''CHUNK_OK'' '''' (Some (fpc_chunk_index p))
            (g\<lparr>ap_pullBufs := AList.update (fpc_file_id p)
               (pt\<lparr>pt_buf := (pt_buf pt)[nat (fpc_chunk_index p) := bs],
                   pt_received := (pt_received pt)[nat (fpc_chunk_index p) := True]\<rparr>) (ap_pullBufs g)\<rparr>))))"

text \<open>
  A member of an archive: its name, whether it is a directory, and its content, which may fail to open
  (\<open>None\<close>) or to be read to the end (\<open>True\<close>).
\<close>

record zip_member =
  zm_name :: string
  zm_dir :: bool
  zm_content :: "(bytes \<times> bool) option"

definition extract_member :: "crypto \<Rightarrow> 'a app FileRelay \<Rightarrow> uuid \<Rightarrow> uuid \<Rightarrow> string \<Rightarrow> 'a app \<Rightarrow> zip_member \<Rightarrow>
    'a app" where
  "extract_member c r jobID userID destDir g m =
    (let name = zm_name m; targ = Join destDir name in
     if zm_dir m \<or> \<not> isSafeOutputName name then g
     else (case Rel (Clean destDir) (Clean targ) of None \<Rightarrow> g | Some rel \<Rightarrow>
     if HasPrefix rel ''..'' then g else
     (let (made, g1) = on_fs (MkdirAll (fst (Clean targ), butlast (snd (Clean targ)))) g in
      if \<not> made then g1 else
      (case zm_content m of None \<Rightarrow> g1 | Some (bytes, fails) \<Rightarrow>
      (let (opened, g2) = on_fs (Create (Clean targ)) g1 in
       if \<not> opened then g2 else
       (let limited = take (nat (fl_maxSize r)) bytes;
            (written, g3) = on_fs (Append (Clean targ) limited) g2 in
        if \<not> written \<or> (fails \<and> length bytes < nat (fl_maxSize r))
        then snd (on_fs (Remove (Clean targ)) g3)
        else
         (let (u, g4) = NewUUID g3 in
          (case F_Create (new_file u userID name (int (length limited)) '''' (cr_sha256 c limited) targ) g4 of
             (Some e, _, g5) \<Rightarrow> g5
           | (None, member, g5) \<Rightarrow> snd (F_LinkToJob (f_id member) jobID ''output'' g5)))))))))"

definition extractZipOutputs :: "crypto \<Rightarrow> (bytes \<Rightarrow> zip_member list option) \<Rightarrow> 'a app FileRelay \<Rightarrow> uuid \<Rightarrow> uuid \<Rightarrow>
    string \<Rightarrow> string \<Rightarrow> 'a app exec" where
  "extractZipOutputs c unzip r jobID userID zipPath destDir g =
     (case on_fs (Open (Clean zipPath)) g of
        (None, g1) \<Rightarrow> (Some (EHandler ''open zip''), g1)
      | (Some bytes, g1) \<Rightarrow> (case unzip bytes of
            None \<Rightarrow> (Some (EHandler ''open zip''), g1)
          | Some ms \<Rightarrow> (None, foldl (extract_member c r jobID userID destDir) g1 ms)))"

text \<open>The writes of the chunks in turn; the flag says that all succeeded.\<close>

fun append_all :: "path \<Rightarrow> bytes list \<Rightarrow> fsys \<Rightarrow> bool \<times> fsys" where
  "append_all p [] f = (True, f)"
| "append_all p (b # bs) f = (let (ok, f1) = Append p b f in if ok then append_all p bs f1 else (False, f1))"

definition missing_chunk :: "bool list \<Rightarrow> nat option" where
  "missing_chunk received = find (\<lambda>i. \<not> received ! i) [0..<length received]"

text \<open>The record and the link of a pulled file; failures are ignored.\<close>

definition register_output :: "'a app FileRelay \<Rightarrow> pullTransfer \<Rightarrow> string \<Rightarrow> 'a app \<Rightarrow> uuid \<times> 'a app" where
  "register_output r pt storagePath g =
    (let (userID, g1) = (case fl_GetJobUserID r of None \<Rightarrow> (0, g)
             | Some f \<Rightarrow> (case f (pt_jobID pt) g of (Inl e, g') \<Rightarrow> (0, g') | (Inr u, g') \<Rightarrow> (u, g')));
         (e, file, g2) = F_Create (new_file (pt_fileID pt) userID (pt_name pt)
             (int (length (concat (pt_buf pt)))) '''' (pt_sha256 pt) storagePath) g1
     in (userID, snd (F_LinkToJob (pt_fileID pt) (pt_jobID pt) ''output'' g2)))"

text \<open>\<open>filepath.Join(r.baseDir, "jobs", jobID, "output")\<close>.\<close>

definition output_dir :: "'h FileRelay \<Rightarrow> (uuid \<Rightarrow> string) \<Rightarrow> uuid \<Rightarrow> string" where
  "output_dir r str jobID = Join (Join (Join (fl_baseDir r) ''jobs'') (str jobID)) ''output''"

definition FR_OnFilePullEnd :: "crypto \<Rightarrow> (bytes \<Rightarrow> zip_member list option) \<Rightarrow> 'a app FileRelay \<Rightarrow> uuid \<Rightarrow>
    FilePullEndPayload \<Rightarrow> 'a app exec" where
  "FR_OnFilePullEnd c unzip r deviceID p g0 =
    (let g = g0\<lparr>ap_pullBufs := AList.delete (fpe_file_id p) (ap_pullBufs g0)\<rparr>;
         failed = pull_error deviceID (fpe_file_id p) in
     case map_of (ap_pullBufs g0) (fpe_file_id p) of
       None \<Rightarrow> failed ''no active pull for file'' g
     | Some pt \<Rightarrow>
     if missing_chunk (pt_received pt) \<noteq> None then failed ''missing chunk'' g
     else if cr_sha256 c (concat (pt_buf pt)) \<noteq> pt_sha256 pt then failed ''sha256 mismatch'' g
     else if \<not> isSafeOutputName (pt_name pt) then failed ''invalid filename'' g
     else
      (let outputDir = output_dir r (uuid_str g) (pt_jobID pt);
           storagePath = Join outputDir (pt_name pt);
           (made, g1) = on_fs (MkdirAll (Clean outputDir)) g
       in if \<not> made then failed ''failed to create output dir'' g1 else
       (let (opened, g2) = on_fs (Create (Clean storagePath)) g1
        in if \<not> opened then failed ''failed to create file'' g2 else
        (let (written, g3) = on_fs (append_all (Clean storagePath) (pt_buf pt)) g2
         in if \<not> written then failed ''failed to write file'' (snd (on_fs (Remove (Clean storagePath)) g3))
            else
             (let (userID, g4) = register_output r pt storagePath g3;
                  g5 = (if map lower (Ext (pt_name pt)) = ''.zip''
                        then snd (extractZipOutputs c unzip r (pt_jobID pt) userID storagePath outputDir g4)
                        else g4)
              in (None, sendPullAck deviceID (fpe_file_id p) ''RECEIVED'' '''' None g5))))))"

end
