(* ===== verification/FileRelayProps.thy ===== *)
theory FileRelayProps
  imports FileRelay PoolProps "HOL-Library.Multiset"
begin

text \<open>
  What the file relay promises: names of outputs stay below the job's directory (\<open>outputs_stay_below\<close>), a
  pushed file arrives in numbered chunks under every schedule (\<open>push_delivers\<close>), the chunks of a pull are
  assembled whatever their order (\<open>pull_collects\<close>), and what becomes of the record of a pulled file
  (\<open>pulled_output_unlisted\<close>).
\<close>

section \<open>Names stay below the directory\<close>

lemma safe_name:
  assumes "isSafeOutputName name"
  shows "''..'' \<notin> set (snd (Clean name))" "\<not> IsAbs name" "snd (Clean name) \<noteq> []" "name \<noteq> []"
proof -
  show rel: "\<not> IsAbs name" "name \<noteq> []" using assms by (simp_all add: isSafeOutputName_def Let_def)
  show "''..'' \<notin> set (snd (Clean name))"
    using dots_text [of name] assms by (auto simp: isSafeOutputName_def Let_def)
  show "snd (Clean name) \<noteq> []"
    using assms rel by (auto simp: isSafeOutputName_def Let_def path_str_def Clean_def)
qed

lemma safe_Join_below: "isSafeOutputName name \<Longrightarrow> dir \<noteq> [] \<Longrightarrow> below (Clean dir) (Clean (Join dir name))"
  using safe_name [of name] Join_below [of name dir] by blast

text \<open>What an operation may do to files: nothing outside a directory.\<close>

definition only_below :: "path \<Rightarrow> fsys \<Rightarrow> fsys \<Rightarrow> bool" where
  "only_below dir f f' \<longleftrightarrow> (\<forall>q. \<not> below dir q \<longrightarrow> map_of (fs_files f') q = map_of (fs_files f) q)"

lemma only_below_refl [simp]: "only_below dir f f"
  by (simp add: only_below_def)

lemma only_below_trans: "only_below dir f f' \<Longrightarrow> only_below dir f' f'' \<Longrightarrow> only_below dir f f''"
  by (simp add: only_below_def)

lemma io_fault_files [simp]:
  "io_fault f = (b, f') \<Longrightarrow> fs_files f' = fs_files f"
  "fs_files (snd (io_fault f)) = fs_files f"
  by (auto simp: io_fault_def split: list.splits)

lemma MkdirAll_below: "only_below dir f (snd (MkdirAll p f))"
  by (auto simp: MkdirAll_def only_below_def Let_def split: prod.splits)

lemma Open_below: "only_below dir f (snd (Open p f))"
  by (auto simp: Open_def only_below_def split: prod.splits)

lemma write_below:
  assumes "below dir p"
  shows "only_below dir f (snd (Create p f))" "only_below dir f (snd (Append p bs f))"
    "only_below dir f (snd (Remove p f))"
  using assms by (auto simp: Create_def Append_def Remove_def only_below_def gomap_simps
      split: prod.splits option.splits)

lemma append_all_below: "below dir p \<Longrightarrow> only_below dir f (snd (append_all p bs f))"
proof (induction bs arbitrary: f)
  case (Cons b bs)
  obtain ok f1 where ap: "Append p b f = (ok, f1)" by fastforce
  have "only_below dir f f1" using write_below(2) [OF Cons.prems, of f b] ap by simp
  then show ?case using Cons.IH [OF Cons.prems, of f1] ap by (auto intro: only_below_trans)
qed simp

lemma on_fs_fs: "ap_fs (snd (on_fs op g)) = snd (op (ap_fs g))"
  by (simp add: on_fs_def split: prod.splits)

lemma send_new_fs [simp]: "ap_fs (snd (send_new d t p g)) = ap_fs g"
  by (auto simp: send_new_def NewFrame_def SendFrame_def Let_def NewUUID_def split: option.splits)

lemma pull_ack_fs [simp]: "ap_fs (sendPullAck d i s m k g) = ap_fs g" "ap_fs (snd (pull_error d i m g)) = ap_fs g"
  by (simp_all add: sendPullAck_def pull_error_def)

lemma table_ops_fs [simp]:
  "ap_fs (snd (NewUUID g)) = ap_fs g"
  "ap_fs (snd (snd (F_Create f g))) = ap_fs g"
  "ap_fs (snd (F_LinkToJob i j role g)) = ap_fs g"
  by (auto simp: NewUUID_def F_Create_def F_LinkToJob_def db_exec_def Let_def split: list.splits bool.splits prod.splits)

lemma table_ops_eq:
  "NewUUID g = (u, g') \<Longrightarrow> ap_fs g' = ap_fs g"
  "F_Create f g = (e, x, g') \<Longrightarrow> ap_fs g' = ap_fs g"
  using table_ops_fs(1) [of g] table_ops_fs(2) [of f g] by simp_all

lemma step_below: "only_below dir (ap_fs g) (snd (op (ap_fs g))) \<Longrightarrow> on_fs op g = (r, g') \<Longrightarrow>
    only_below dir (ap_fs g) (ap_fs g')"
  by (metis on_fs_fs snd_conv)

lemma extract_member_below:
  assumes "destDir \<noteq> []"
  shows "only_below (Clean destDir) (ap_fs g) (ap_fs (extract_member c r jobID userID destDir g m))"
proof (cases "zm_dir m \<or> \<not> isSafeOutputName (zm_name m)")
  case True
  then show ?thesis by (simp add: extract_member_def Let_def)
next
  case safe: False
  let ?t = "Clean (Join destDir (zm_name m))"
  have b: "below (Clean destDir) ?t" using safe_Join_below safe assms by simp
  obtain ok1 g1 where s1: "on_fs (MkdirAll (fst ?t, butlast (snd ?t))) g = (ok1, g1)" by fastforce
  obtain ok2 g2 where s2: "on_fs (Create ?t) g1 = (ok2, g2)" by fastforce
  note k1 = step_below [OF MkdirAll_below s1, of "Clean destDir"]
  note k2 = only_below_trans [OF k1 step_below [OF write_below(1) [OF b] s2]]
  have k3: "only_below (Clean destDir) (ap_fs g) (ap_fs g3) \<and>
      only_below (Clean destDir) (ap_fs g) (ap_fs (snd (on_fs (Remove ?t) g3)))"
    if "on_fs (Append ?t bs) g2 = (ok3, g3)" for bs ok3 g3
    using only_below_trans [OF k2 step_below [OF write_below(2) [OF b] that]]
      only_below_trans [OF _ write_below(3) [OF b, of "ap_fs g3"]] by (simp add: on_fs_fs)
  show ?thesis
    using safe k1 k2 k3
    by (auto simp: extract_member_def Let_def s1 s2 dest!: table_ops_eq split: option.splits prod.splits)
qed

lemma extract_below:
  assumes "destDir \<noteq> []"
  shows "only_below (Clean destDir) (ap_fs g) (ap_fs (snd (extractZipOutputs c unzip r jobID userID zipPath destDir g)))"
proof -
  have "only_below (Clean destDir) (ap_fs g) (ap_fs (foldl (extract_member c r jobID userID destDir) g ms))" for g ms
    by (induction ms arbitrary: g) (auto intro: only_below_trans extract_member_below [OF assms])
  moreover obtain z g1 where z: "on_fs (Open (Clean zipPath)) g = (z, g1)" by fastforce
  ultimately show ?thesis
    using step_below [OF Open_below z, of "Clean destDir"]
    by (auto simp: extractZipOutputs_def z split: option.splits intro: only_below_trans)
qed

lemma output_dir_nonempty [simp]: "output_dir r str j \<noteq> []"
  by (simp add: output_dir_def Join_nonempty)

definition hook_keeps_fs :: "'a app FileRelay \<Rightarrow> bool" where
  "hook_keeps_fs r \<longleftrightarrow> (\<forall>f j g. fl_GetJobUserID r = Some f \<longrightarrow> ap_fs (snd (f j g)) = ap_fs g)"

lemma register_output_fs:
  assumes "hook_keeps_fs r"
  shows "ap_fs (snd (register_output r pt p g)) = ap_fs g"
proof -
  obtain u g1 where u: "(case fl_GetJobUserID r of None \<Rightarrow> (0, g)
      | Some f \<Rightarrow> (case f (pt_jobID pt) g of (Inl e, g') \<Rightarrow> (0, g') | (Inr u, g') \<Rightarrow> (u, g'))) = (u, g1)"
    by fastforce
  have "ap_fs g1 = ap_fs g"
  proof (cases "fl_GetJobUserID r")
    case (Some f)
    then have "ap_fs (snd (f (pt_jobID pt) g)) = ap_fs g" using assms by (simp add: hook_keeps_fs_def)
    then show ?thesis using u Some by (auto split: prod.splits sum.splits)
  qed (use u in simp)
  then show ?thesis by (simp add: register_output_def Let_def u split: prod.splits)
    (metis snd_conv table_ops_fs(2,3))
qed

lemma FR_OnFilePullEnd_below:
  assumes hook: "hook_keeps_fs r" and pt: "map_of (ap_pullBufs g) (fpe_file_id p) = Some pt"
  shows "only_below (Clean (output_dir r (uuid_str g) (pt_jobID pt))) (ap_fs g)
    (ap_fs (snd (FR_OnFilePullEnd c unzip r d p g)))"
proof (cases "isSafeOutputName (pt_name pt)")
  case True
  let ?dir = "output_dir r (uuid_str g) (pt_jobID pt)"
  let ?t = "Clean (Join ?dir (pt_name pt))"
  let ?g = "g\<lparr>ap_pullBufs := AList.delete (fpe_file_id p) (ap_pullBufs g)\<rparr>"
  have b: "below (Clean ?dir) ?t" using safe_Join_below True by simp
  obtain ok1 g1 where s1: "on_fs (MkdirAll (Clean ?dir)) ?g = (ok1, g1)" by fastforce
  obtain ok2 g2 where s2: "on_fs (Create ?t) g1 = (ok2, g2)" by fastforce
  obtain ok3 g3 where s3: "on_fs (append_all ?t (pt_buf pt)) g2 = (ok3, g3)" by fastforce
  obtain u g4 where s4: "register_output r pt (Join ?dir (pt_name pt)) g3 = (u, g4)" by fastforce
  have k1: "only_below (Clean ?dir) (ap_fs g) (ap_fs g1)" using step_below [OF MkdirAll_below s1] by simp
  note k2 = only_below_trans [OF k1 step_below [OF write_below(1) [OF b] s2]]
  note k3 = only_below_trans [OF k2 step_below [OF append_all_below [OF b] s3]]
  have k3r: "only_below (Clean ?dir) (ap_fs g) (ap_fs (snd (on_fs (Remove ?t) g3)))"
    using only_below_trans [OF k3 write_below(3) [OF b]] by (simp add: on_fs_fs)
  have "ap_fs g4 = ap_fs g3" using register_output_fs [OF hook, of pt _ g3] s4 by (metis snd_conv)
  then have k4: "only_below (Clean ?dir) (ap_fs g) (ap_fs g4)" using k3 by simp
  note k5 = only_below_trans [OF k4 extract_below]
  have str: "uuid_str ?g = uuid_str g" by simp
  show ?thesis
    unfolding FR_OnFilePullEnd_def Let_def pt option.case str s1 s2 s3 s4 split_def fst_conv snd_conv
    using k1 k2 k3 k3r k4 k5 by (simp add: split: if_splits)
next
  case False
  then show ?thesis by (simp add: FR_OnFilePullEnd_def Let_def pt)
qed

section \<open>Pushing a file\<close>

lemma take_delete: "set (take n (take i xs @ drop (Suc i) xs)) \<subseteq> set (take (Suc n) xs)"
proof (induction xs arbitrary: n i)
  case (Cons x xs)
  show ?case
  proof (cases i)
    case 0
    then show ?thesis by auto
  next
    case (Suc j)
    then show ?thesis using Cons.IH [of "n - 1" j] by (cases n) auto
  qed
qed simp

lemma chunk_order_map: "chunk_order w evs (map f ws) (map f rs) = map f (chunk_order w evs ws rs)"
proof (induction w evs ws rs rule: chunk_order.induct)
  case (2 w evs ws rs)
  then show ?case by (cases ws) (simp_all flip: map_append, metis list.simps(8,9) map_append)
next
  case (3 w k evs ws rs)
  show ?case
  proof (cases "rs = []")
    case False
    then have "k mod length rs < length rs" by simp
    then show ?thesis using False 3
      by (simp add: Let_def take_map drop_map flip: map_append)
  qed (use 3 in simp)
qed simp

lemma chunk_order_mset: "mset (chunk_order w evs ws rs) = mset rs + mset ws"
proof (induction w evs ws rs rule: chunk_order.induct)
  case (2 w evs ws rs)
  then show ?case by (cases ws) (simp_all add: ac_simps)
next
  case (3 w k evs ws rs)
  show ?case
  proof (cases "rs = []")
    case False
    let ?i = "k mod length rs"
    have "?i < length rs" using False by simp
    then have "mset rs = mset (take ?i rs @ rs ! ?i # drop (Suc ?i) rs)" by (simp flip: id_take_nth_drop)
    then show ?thesis using False 3 by (simp add: Let_def)
  qed (use 3 in simp)
qed simp

text \<open>Only the first of those that have not sent yet are running: a chunk is at most the window early.\<close>

lemma chunk_order_window:
  "length rs \<le> w \<Longrightarrow> 0 < w \<Longrightarrow> k < length rs + length ws \<Longrightarrow>
     chunk_order w evs ws rs ! k \<in> set (take (k + w) (rs @ ws))"
proof (induction w evs ws rs arbitrary: k rule: chunk_order.induct)
  case (1 w ws rs)
  then have "k < length (take (k + w) (rs @ ws))" by simp
  then have "take (k + w) (rs @ ws) ! k \<in> set (take (k + w) (rs @ ws))" by (rule nth_mem)
  moreover have "take (k + w) (rs @ ws) ! k = (rs @ ws) ! k" using 1 by (intro nth_take) simp
  ultimately show ?case by simp
next
  case (2 w evs ws rs)
  then show ?case by (cases ws) simp_all
next
  case (3 w j evs ws rs)
  show ?case
  proof (cases "rs = []")
    case True
    then show ?thesis using 3 by simp
  next
    case False
    let ?i = "j mod length rs"
    have i: "?i < length rs" using False by simp
    show ?thesis
    proof (cases k)
      case 0
      have "rs ! ?i \<in> set rs" using i by simp
      then show ?thesis using 0 False "3.prems" by (simp add: Let_def)
    next
      case (Suc m)
      let ?rs = "take ?i rs @ drop (Suc ?i) rs"
      have "chunk_order w evs ws ?rs ! m \<in> set (take (m + w) (?rs @ ws))"
      proof (rule "3.IH"(2) [OF False refl])
        have len: "length ?rs = length rs - 1" using i by simp
        then show "length ?rs \<le> w" "m < length ?rs + length ws" using "3.prems" False Suc i by linarith+
      qed (rule "3.prems"(2))
      moreover have "?rs @ ws = take ?i (rs @ ws) @ drop (Suc ?i) (rs @ ws)" using i by simp
      ultimately show ?thesis using take_delete [of "m + w" ?i "rs @ ws"] False Suc
        by (auto simp: Let_def)
    qed
  qed
qed

text \<open>A connected device with room for \<open>n\<close> frames, and what is queued for it.\<close>

definition room :: "uuid \<Rightarrow> conn_id \<Rightarrow> nat \<Rightarrow> 'a app \<Rightarrow> bool" where
  "room d c n g \<longleftrightarrow> map_of (hb_devices g) d = Some c \<and> \<not> dc_closed (hb_conn g c)
     \<and> length (dc_outbound (hb_conn g c)) + n \<le> outbound_cap"

definition queued :: "conn_id \<Rightarrow> 'a app \<Rightarrow> (FrameType \<times> payload) list" where
  "queued c g = map (\<lambda>f. (fr_type f, fr_payload f)) (dc_outbound (hb_conn g c))"

lemma send_new_room:
  assumes "room d c (Suc n) g" "p \<noteq> PUnsupported"
  shows "\<exists>g'. send_new d t p g = (None, g') \<and> room d c n g' \<and> queued c g' = queued c g @ [(t, p)]
    \<and> ap_fs g' = ap_fs g"
  using assms by (auto simp: send_new_def NewFrame_def SendFrame_def Let_def NewUUID_def room_def queued_def
      try_send_def)

lemma run_chunks_room:
  assumes "room d c (length ps + n) g" "PUnsupported \<notin> set ps"
  shows "\<exists>g'. foldl (send_chunk d t) (None, g) ps = (None, g') \<and> room d c n g'
    \<and> queued c g' = queued c g @ map (Pair t) ps \<and> ap_fs g' = ap_fs g"
  using assms
proof (induction ps arbitrary: g)
  case (Cons p ps)
  obtain g1 where g1: "send_new d t p g = (None, g1)" "room d c (length ps + n) g1"
      "queued c g1 = queued c g @ [(t, p)]" "ap_fs g1 = ap_fs g"
    using send_new_room [of d c "length ps + n" g p t] Cons.prems by auto
  have "send_chunk d t (None, g) p = (None, g1)" using g1(1) by (simp add: send_chunk_def)
  moreover obtain g2 where "foldl (send_chunk d t) (None, g1) ps = (None, g2)" "room d c n g2"
      "queued c g2 = queued c g1 @ map (Pair t) ps" "ap_fs g2 = ap_fs g1"
    using Cons.IH [OF g1(2)] Cons.prems(2) by auto
  ultimately show ?case using g1 by simp
qed simp

abbreviation block :: "bytes \<Rightarrow> nat \<Rightarrow> bytes" where
  "block content i \<equiv> take ChunkSize (drop (i * ChunkSize) content)"

lemma read_blocks_ok:
  "io_faults f = [] \<Longrightarrow> n = 0 \<or> (n - 1) * ChunkSize < length bs \<Longrightarrow>
     read_blocks n bs f = ((map (block bs) [0..<n], False), f)"
proof (induction n arbitrary: bs)
  case (Suc n)
  have rest: "n = 0 \<or> (n - 1) * ChunkSize < length (drop ChunkSize bs)"
    using Suc.prems by (cases n) (auto simp: ChunkSize_def)
  have "bs \<noteq> []" using Suc.prems by auto
  moreover have "[0..<Suc n] = 0 # map Suc [0..<n]" by (simp add: upt_conv_Cons map_Suc_upt del: upt_Suc)
  ultimately show ?case using Suc.IH [OF Suc.prems(1) rest] Suc.prems(1)
    by (simp add: io_fault_def comp_def add.commute del: upt_Suc)
qed simp

lemma concat_blocks: "concat (map (block bs) [0..<n]) = take (n * ChunkSize) bs"
proof (induction n)
  case (Suc n)
  have "take (Suc n * ChunkSize) bs = take (n * ChunkSize) bs @ block bs n"
    using take_add [of "n * ChunkSize" ChunkSize bs] by (simp add: add.commute)
  then show ?case using Suc by simp
qed simp

lemma total_chunks_bounds:
  fixes len :: nat
  shows "total_chunks (int len) = (len + 262143) div 262144"
    "total_chunks (int len) = 0 \<or> (total_chunks (int len) - 1) * ChunkSize < len"
    "len \<le> total_chunks (int len) * ChunkSize"
proof -
  have "(int len + int ChunkSize - 1) div int ChunkSize = int ((len + 262143) div 262144)"
    by (simp add: ChunkSize_def zdiv_int)
  then show t: "total_chunks (int len) = (len + 262143) div 262144" by (simp add: total_chunks_def)
  show "total_chunks (int len) = 0 \<or> (total_chunks (int len) - 1) * ChunkSize < len"
    "len \<le> total_chunks (int len) * ChunkSize" unfolding t ChunkSize_def by linarith+
qed

lemma F_GetByID_ok: "faults g = [] \<Longrightarrow> F_GetByID i g = (Inr (find (\<lambda>f. f_id f = i) (files_tab g)), g)"
  by (simp add: F_GetByID_def db_query_def)

lemma Open_ok: "io_faults (ap_fs g) = [] \<Longrightarrow>
    on_fs (Open p) g = (map_of (fs_files (ap_fs g)) p, g)"
  by (simp add: on_fs_def Open_def io_fault_def)

definition begin_payload :: "File \<Rightarrow> uuid \<Rightarrow> nat \<Rightarrow> payload" where
  "begin_payload file jobID n = PFilePushBegin \<lparr>fpsh_file_id = f_id file, fpsh_job_id = jobID,
     fpsh_file_name = f_name file, fpsh_size_bytes = f_size file, fpsh_total_chunks = int n,
     fpsh_sha256 = f_sha256 file\<rparr>"

definition chunk_payload :: "crypto \<Rightarrow> uuid \<Rightarrow> bytes \<Rightarrow> nat \<Rightarrow> payload" where
  "chunk_payload c fileID content i = PFileChunk \<lparr>fch_file_id = fileID, fch_chunk_index = int i,
     fch_data = cr_b64enc c (take 262144 (drop (i * 262144) content))\<rparr>"

lemma file_chunks_blocks:
  "file_chunks c fileID (map (block bs) [0..<n]) = map (chunk_payload c fileID bs) [0..<n]"
proof -
  have "enumerate 0 (map (block bs) [0..<n]) = map (\<lambda>i. (i, block bs i)) [0..<n]"
    by (simp add: enumerate_map_upt)
  then show ?thesis by (simp add: file_chunks_def chunk_payload_def ChunkSize_def)
qed

text \<open>
  C17 (push_delivers): a file staged in the cloud and pushed to a connected device with room in its queue is
  queued as one FILE_PUSH_BEGIN with its size, digest and number of chunks, every 256 KiB block once under its
  number, and FILE_PUSH_END last. The chunks may change places, whatever the schedule of the goroutines, but the
  one sent as number \<open>k\<close> has an index below \<open>k + 8\<close>, and put in the order of their numbers they are the file.
\<close>

theorem push_delivers:
  assumes ok: "faults g = []" "io_faults (ap_fs g) = []"
    and row: "find (\<lambda>f. f_id f = fileID) (files_tab g) = Some file" "f_status file \<noteq> FileStagedDevice"
    and stored: "map_of (fs_files (ap_fs g)) (Clean (f_storage_uri file)) = Some content"
      "f_size file = int (length content)"
    and n: "n = (length content + 262143) div 262144"
    and dev: "map_of (hb_devices g) d = Some c" "\<not> dc_closed (hb_conn g c)"
      "length (dc_outbound (hb_conn g c)) + n + 2 \<le> 256"
  shows "\<exists>g' idx. PushFile cr sched fileID jobID d g = (None, g')
    \<and> queued c g' = queued c g @ (FrameFilePushBegin, begin_payload file jobID n)
        # map (\<lambda>i. (FrameFileChunk, chunk_payload cr fileID content i)) idx
        @ [(FrameFilePushEnd, PFilePushEnd \<lparr>fpend_file_id = fileID\<rparr>)]
    \<and> mset idx = mset [0..<n] \<and> (\<forall>k < n. idx ! k < k + 8)
    \<and> concat (map (\<lambda>i. take 262144 (drop (i * 262144) content)) [0..<n]) = content"
proof -
  have t: "total_chunks (f_size file) = n" using stored(2) n total_chunks_bounds(1) by simp
  define idx where "idx = chunk_order 8 sched [0..<n] []"
  have "length idx = n"
    using arg_cong [OF chunk_order_mset [of 8 sched "[0..<n]" "[]"], of size] by (simp add: idx_def)
  then have "room d c (Suc (length idx + Suc 0)) g" "PUnsupported \<noteq> begin_payload file jobID n"
    using dev by (simp_all add: room_def outbound_cap_def begin_payload_def)
  then obtain g1 where g1: "send_new d FrameFilePushBegin (begin_payload file jobID n) g = (None, g1)"
      "room d c (length idx + Suc 0) g1" "ap_fs g1 = ap_fs g"
      "queued c g1 = queued c g @ [(FrameFilePushBegin, begin_payload file jobID n)]"
    using send_new_room by metis
  have reads: "on_fs (read_blocks n content) g1 = ((map (block content) [0..<n], False), g1)"
    using read_blocks_ok [of "ap_fs g1" n content] ok(2) g1(3) total_chunks_bounds(2) [of "length content"]
      stored(2) t by (simp add: on_fs_def)
  let ?ps = "map (chunk_payload cr fileID content) idx"
  have order: "chunk_order MaxChunksInFlight sched (file_chunks cr fileID (map (block content) [0..<n])) [] = ?ps"
    using chunk_order_map [of 8 sched _ "[0..<n]" "[]"]
    by (simp add: file_chunks_blocks idx_def MaxChunksInFlight_def)
  have "PUnsupported \<notin> set ?ps" by (auto simp: chunk_payload_def)
  then obtain g2 where g2: "foldl (send_chunk d FrameFileChunk) (None, g1) ?ps = (None, g2)" "room d c (Suc 0) g2"
      "queued c g2 = queued c g1 @ map (Pair FrameFileChunk) ?ps"
    using run_chunks_room [of d c ?ps "Suc 0" g1] g1(2) by auto
  obtain g3 where g3: "send_new d FrameFilePushEnd (PFilePushEnd \<lparr>fpend_file_id = fileID\<rparr>) g2 = (None, g3)"
      "queued c g3 = queued c g2 @ [(FrameFilePushEnd, PFilePushEnd \<lparr>fpend_file_id = fileID\<rparr>)]"
    using send_new_room [OF g2(2)] by fastforce
  have "PushFile cr sched fileID jobID d g = (None, g3)"
    using g1(1) g3(1) row(2)
    by (simp add: PushFile_def F_GetByID_ok ok row Open_ok stored(1) t begin_payload_def reads
        run_chunks_def order g2(1))
  moreover have "queued c g3 = queued c g @ (FrameFilePushBegin, begin_payload file jobID n)
        # map (\<lambda>i. (FrameFileChunk, chunk_payload cr fileID content i)) idx
        @ [(FrameFilePushEnd, PFilePushEnd \<lparr>fpend_file_id = fileID\<rparr>)]"
    using g1(4) g2(3) g3(2) by simp
  moreover have "mset idx = mset [0..<n]" by (simp add: idx_def chunk_order_mset)
  moreover have "idx ! k < k + 8" if "k < n" for k
  proof -
    have "idx ! k \<in> set (take (k + 8) [0..<n])"
      using chunk_order_window [of "[]" 8 k "[0..<n]" sched] that by (simp add: idx_def)
    then show ?thesis by (auto simp: in_set_conv_nth)
  qed
  moreover have "concat (map (\<lambda>i. take 262144 (drop (i * 262144) content)) [0..<n]) = content"
    using concat_blocks [of content n] total_chunks_bounds(3) [of "length content"] stored(2) t
    by (simp add: ChunkSize_def)
  ultimately show ?thesis by blast
qed

section \<open>Pulling a file\<close>

text \<open>Sending an acknowledgement changes the hub's connections and the source of ids only.\<close>

lemma send_new_frame [simp]:
  "ap_pullBufs (snd (send_new d t p g)) = ap_pullBufs g" "files_tab (snd (send_new d t p g)) = files_tab g"
  "job_files_tab (snd (send_new d t p g)) = job_files_tab g" "faults (snd (send_new d t p g)) = faults g"
  "uuid_seq (snd (send_new d t p g)) = uuid_seq g" "uuid_str (snd (send_new d t p g)) = uuid_str g"
  "jobs_tab (snd (send_new d t p g)) = jobs_tab g" "ap_panicked (snd (send_new d t p g)) = ap_panicked g"
  by (auto simp: send_new_def NewFrame_def SendFrame_def Let_def NewUUID_def split: option.splits)

lemma sendPullAck_frame [simp]:
  "ap_pullBufs (sendPullAck d i s m k g) = ap_pullBufs g" "files_tab (sendPullAck d i s m k g) = files_tab g"
  "job_files_tab (sendPullAck d i s m k g) = job_files_tab g" "faults (sendPullAck d i s m k g) = faults g"
  "uuid_seq (sendPullAck d i s m k g) = uuid_seq g" "uuid_str (sendPullAck d i s m k g) = uuid_str g"
  "jobs_tab (sendPullAck d i s m k g) = jobs_tab g" "ap_panicked (sendPullAck d i s m k g) = ap_panicked g"
  by (simp_all add: sendPullAck_def)

text \<open>The chunks of a file arriving in some order, any of them more than once.\<close>

definition chunk_arrives :: "crypto \<Rightarrow> uuid \<Rightarrow> uuid \<Rightarrow> bytes list \<Rightarrow> 'a app \<Rightarrow> nat \<Rightarrow> 'a app" where
  "chunk_arrives c d fid blocks g i = snd (FR_OnFilePullChunk c d
     \<lparr>fpc_file_id = fid, fpc_chunk_index = int i, fpc_data = cr_b64enc c (blocks ! i)\<rparr> g)"

definition collecting :: "uuid \<Rightarrow> pullTransfer \<Rightarrow> bytes list \<Rightarrow> nat set \<Rightarrow> 'a app \<Rightarrow> bool" where
  "collecting fid pt blocks I g \<longleftrightarrow> map_of (ap_pullBufs g) fid = Some (pt
     \<lparr>pt_buf := map (\<lambda>i. if i \<in> I then blocks ! i else []) [0..<length blocks],
      pt_received := map (\<lambda>i. i \<in> I) [0..<length blocks]\<rparr>)"

lemma chunk_collects:
  assumes "crypto_laws c" "collecting fid pt blocks I g" "pt_chunks pt = int (length blocks)"
    and i: "i < length blocks"
  shows "collecting fid pt blocks (insert i I) (chunk_arrives c d fid blocks g i)"
proof -
  have "(map (\<lambda>i. if i \<in> I then blocks ! i else []) [0..<length blocks])[i := blocks ! i]
      = map (\<lambda>k. if k \<in> insert i I then blocks ! k else []) [0..<length blocks]"
    and "(map (\<lambda>i. i \<in> I) [0..<length blocks])[i := True] = map (\<lambda>k. k \<in> insert i I) [0..<length blocks]"
    using i by (auto intro!: nth_equalityI simp: nth_list_update split: if_splits)
  then show ?thesis using assms
    by (simp add: collecting_def chunk_arrives_def FR_OnFilePullChunk_def crypto_laws_def gomap_simps)
qed

lemma chunk_arrives_frame:
  "ap_fs (chunk_arrives c d fid bs g i) = ap_fs g" "files_tab (chunk_arrives c d fid bs g i) = files_tab g"
  "job_files_tab (chunk_arrives c d fid bs g i) = job_files_tab g"
  "faults (chunk_arrives c d fid bs g i) = faults g" "uuid_seq (chunk_arrives c d fid bs g i) = uuid_seq g"
  "uuid_str (chunk_arrives c d fid bs g i) = uuid_str g"
  by (auto simp: chunk_arrives_def FR_OnFilePullChunk_def pull_error_def split: option.splits)

lemma chunks_frame:
  "ap_fs (foldl (chunk_arrives c d fid bs) g is) = ap_fs g"
  "files_tab (foldl (chunk_arrives c d fid bs) g is) = files_tab g"
  "job_files_tab (foldl (chunk_arrives c d fid bs) g is) = job_files_tab g"
  "faults (foldl (chunk_arrives c d fid bs) g is) = faults g"
  "uuid_seq (foldl (chunk_arrives c d fid bs) g is) = uuid_seq g"
  "uuid_str (foldl (chunk_arrives c d fid bs) g is) = uuid_str g"
  by (induction "is" arbitrary: g) (simp_all add: chunk_arrives_frame)

lemma chunks_collect:
  assumes "crypto_laws c" "pt_chunks pt = int (length blocks)"
  shows "collecting fid pt blocks I g \<Longrightarrow> \<forall>i \<in> set is. i < length blocks \<Longrightarrow>
    collecting fid pt blocks (I \<union> set is) (foldl (chunk_arrives c d fid blocks) g is)"
proof (induction "is" arbitrary: g I)
  case (Cons i "is")
  then show ?case using Cons.IH [OF chunk_collects [OF assms(1) Cons.prems(1) assms(2)], of i] by simp
qed simp

text \<open>The whole pull, as the three handlers see it.\<close>

definition pull_file :: "crypto \<Rightarrow> (bytes \<Rightarrow> zip_member list option) \<Rightarrow> 'a app FileRelay \<Rightarrow> uuid \<Rightarrow>
    FilePullBeginPayload \<Rightarrow> bytes list \<Rightarrow> nat list \<Rightarrow> 'a app exec" where
  "pull_file c unzip r d p blocks is g = FR_OnFilePullEnd c unzip r d \<lparr>fpe_file_id = fpb_file_id p\<rparr>
     (foldl (chunk_arrives c d (fpb_file_id p) blocks) (snd (FR_OnFilePullBegin r d p g)) is)"

lemma begin_collecting:
  assumes "faults g = []" "fpb_size p \<le> fl_maxSize r" "isSafeOutputName (fpb_name p)"
    and "\<forall>f \<in> set (files_tab g). (fpb_job_id p, f_id f, ''output'') \<in> set (job_files_tab g) \<longrightarrow> f_name f \<noteq> fpb_name p"
    and "fpb_total_chunks p = int (length blocks)" "length blocks * 24 \<le> 2 ^ 48"
  shows "collecting (fpb_file_id p) \<lparr>pt_fileID = fpb_file_id p, pt_jobID = fpb_job_id p, pt_name = fpb_name p,
      pt_sha256 = fpb_sha256 p, pt_chunks = int (length blocks), pt_buf = [], pt_received = []\<rparr> blocks {}
      (snd (FR_OnFilePullBegin r d p g))"
    and "ap_fs (snd (FR_OnFilePullBegin r d p g)) = ap_fs g" "files_tab (snd (FR_OnFilePullBegin r d p g)) = files_tab g"
    "job_files_tab (snd (FR_OnFilePullBegin r d p g)) = job_files_tab g" "faults (snd (FR_OnFilePullBegin r d p g)) = []"
    "uuid_seq (snd (FR_OnFilePullBegin r d p g)) = uuid_seq g" "uuid_str (snd (FR_OnFilePullBegin r d p g)) = uuid_str g"
proof -
  have q: "F_ListByJobAndRole (fpb_job_id p) ''output'' g = (Inr (filter (\<lambda>f. (fpb_job_id p, f_id f, ''output'')
      \<in> set (job_files_tab g)) (files_tab g)), g)"
    using assms(1) by (simp add: F_ListByJobAndRole_def db_query_def)
  have ok: "makeslice_ok (int (length blocks))"
    using assms(6) by (simp add: makeslice_ok_def)
  have rep: "replicate (length blocks) x = map (\<lambda>i. x) [0..<length blocks]" for x :: 'x
    by (simp add: map_replicate_const)
  have "\<not> list_ex (\<lambda>f. f_name f = fpb_name p) (filter (\<lambda>f. (fpb_job_id p, f_id f, ''output'')
      \<in> set (job_files_tab g)) (files_tab g))" using assms(4) by (auto simp: list_ex_iff)
  then have b: "FR_OnFilePullBegin r d p g = (None, g\<lparr>ap_pullBufs := AList.update (fpb_file_id p)
             \<lparr>pt_fileID = fpb_file_id p, pt_jobID = fpb_job_id p, pt_name = fpb_name p,
              pt_sha256 = fpb_sha256 p, pt_chunks = int (length blocks),
              pt_buf = replicate (length blocks) [],
              pt_received = replicate (length blocks) False\<rparr> (ap_pullBufs g)\<rparr>)"
    using assms ok by (simp add: FR_OnFilePullBegin_def q)
  then show "collecting (fpb_file_id p) \<lparr>pt_fileID = fpb_file_id p, pt_jobID = fpb_job_id p, pt_name = fpb_name p,
      pt_sha256 = fpb_sha256 p, pt_chunks = int (length blocks), pt_buf = [], pt_received = []\<rparr> blocks {}
      (snd (FR_OnFilePullBegin r d p g))"
    by (simp add: collecting_def gomap_simps rep)
  show "ap_fs (snd (FR_OnFilePullBegin r d p g)) = ap_fs g" "files_tab (snd (FR_OnFilePullBegin r d p g)) = files_tab g"
    "job_files_tab (snd (FR_OnFilePullBegin r d p g)) = job_files_tab g" "faults (snd (FR_OnFilePullBegin r d p g)) = []"
    "uuid_seq (snd (FR_OnFilePullBegin r d p g)) = uuid_seq g" "uuid_str (snd (FR_OnFilePullBegin r d p g)) = uuid_str g"
    using b assms(1) by simp_all
qed

lemma MkdirAll_ok:
  assumes "io_faults f = []" "\<forall>n. map_of (fs_files f) (fst p, take n (snd p)) = None"
  shows "\<exists>ds. MkdirAll p f = (True, f\<lparr>fs_dirs := fs_dirs f @ ds\<rparr>) \<and> (snd p \<noteq> [] \<longrightarrow> p \<in> set ds)
    \<and> (\<forall>q \<in> set ds. length (snd q) \<le> length (snd p))"
proof -
  let ?ds = "map (\<lambda>n. (fst p, take n (snd p))) [1..<Suc (length (snd p))]"
  have "MkdirAll p f = (True, f\<lparr>fs_dirs := fs_dirs f @ ?ds\<rparr>)"
    using assms by (simp add: MkdirAll_def io_fault_def list_ex_iff del: upt_Suc)
  moreover have "p = (\<lambda>n. (fst p, take n (snd p))) (length (snd p))" by simp
  then have "snd p \<noteq> [] \<longrightarrow> p \<in> set ?ds" unfolding set_map
    by (intro impI image_eqI [where x = "length (snd p)"]) (auto simp: Suc_le_eq)
  moreover have "\<forall>q \<in> set ?ds. length (snd q) \<le> length (snd p)" by (auto simp del: upt_Suc)
  ultimately show ?thesis by blast
qed

lemma append_all_ok:
  "io_faults f = [] \<Longrightarrow> map_of (fs_files f) p = Some old \<Longrightarrow>
     \<exists>f'. append_all p bs f = (True, f') \<and> map_of (fs_files f') p = Some (old @ concat bs) \<and> io_faults f' = []"
proof (induction bs arbitrary: f old)
  case (Cons b bs)
  let ?f = "f\<lparr>fs_files := AList.update p (old @ b) (fs_files f)\<rparr>"
  have "Append p b f = (True, ?f)" using Cons.prems by (simp add: Append_def io_fault_def)
  moreover obtain f' where "append_all p bs ?f = (True, f')" "io_faults f' = []"
      "map_of (fs_files f') p = Some ((old @ b) @ concat bs)"
    using Cons.IH [of ?f "old @ b"] Cons.prems(1) by (auto simp: gomap_simps)
  ultimately show ?case by simp
qed simp

text \<open>Creating and writing a file in a directory whose place is free.\<close>

lemma store_bytes:
  assumes "io_faults (ap_fs g) = []" "\<forall>n. map_of (fs_files (ap_fs g)) (fst dir, take n (snd dir)) = None"
    and t: "t = (fst dir, snd dir @ [nm])" "t \<notin> set (fs_dirs (ap_fs g))"
  shows "\<exists>g1 g2 g3. on_fs (MkdirAll dir) g = (True, g1) \<and> on_fs (Create t) g1 = (True, g2)
    \<and> on_fs (append_all t bs) g2 = (True, g3) \<and> (\<exists>f. g3 = g\<lparr>ap_fs := f\<rparr> \<and> map_of (fs_files f) t = Some (concat bs)
         \<and> io_faults f = [])"
proof -
  let ?f = "ap_fs g"
  obtain ds where mk: "MkdirAll dir ?f = (True, ?f\<lparr>fs_dirs := fs_dirs ?f @ ds\<rparr>)" "snd dir \<noteq> [] \<longrightarrow> dir \<in> set ds"
    and ds: "\<forall>q \<in> set ds. length (snd q) \<le> length (snd dir)" using MkdirAll_ok assms(1,2) by blast
  let ?f1 = "?f\<lparr>fs_dirs := fs_dirs ?f @ ds\<rparr>" and ?f2 = "?f\<lparr>fs_dirs := fs_dirs ?f @ ds, fs_files := AList.update t [] (fs_files ?f)\<rparr>"
  have "t \<notin> set ds" using ds t(1) by auto
  then have "Create t ?f1 = (True, ?f2)"
    using assms(1) t mk(2) by (auto simp: Create_def io_fault_def dir_exists_def)
  moreover obtain f3 where "append_all t bs ?f2 = (True, f3)" "map_of (fs_files f3) t = Some (concat bs)"
      "io_faults f3 = []"
    using append_all_ok [of ?f2 t "[]" bs] assms(1) by (auto simp: gomap_simps)
  ultimately show ?thesis using mk(1) by (auto simp: on_fs_def intro!: exI [of _ f3])
qed

text \<open>The hook that finds the owner of a job only reads, while the database answers.\<close>

definition hook_reads :: "'a app FileRelay \<Rightarrow> bool" where
  "hook_reads r \<longleftrightarrow> (\<forall>f j g. fl_GetJobUserID r = Some f \<longrightarrow> faults g = [] \<longrightarrow> snd (f j g) = g)"

lemma register_output_ok:
  assumes "hook_reads r" "faults g = []" "uuid_seq g (uuid_pos g) \<notin> f_id ` set (files_tab g)"
    and "pt_fileID pt \<notin> f_id ` set (files_tab g)" "uuid_seq g (uuid_pos g) \<noteq> pt_fileID pt"
  shows "\<exists>u row. register_output r pt uri g = (u, g\<lparr>uuid_pos := Suc (uuid_pos g), files_tab := files_tab g @ [row]\<rparr>)
    \<and> f_id row = uuid_seq g (uuid_pos g) \<and> f_name row = pt_name pt \<and> f_storage_uri row = uri"
proof -
  have "\<exists>u. (case fl_GetJobUserID r of None \<Rightarrow> (0, g)
      | Some f \<Rightarrow> (case f (pt_jobID pt) g of (Inl e, g') \<Rightarrow> (0, g') | (Inr u, g') \<Rightarrow> (u, g'))) = (u, g)"
  proof (cases "fl_GetJobUserID r")
    case (Some f)
    then have "snd (f (pt_jobID pt) g) = g" using assms(1,2) by (simp add: hook_reads_def)
    then show ?thesis using Some by (cases "f (pt_jobID pt) g"; cases "fst (f (pt_jobID pt) g)") auto
  qed simp
  then obtain u where u: "(case fl_GetJobUserID r of None \<Rightarrow> (0, g)
      | Some f \<Rightarrow> (case f (pt_jobID pt) g of (Inl e, g') \<Rightarrow> (0, g') | (Inr u, g') \<Rightarrow> (u, g'))) = (u, g)" ..
  show ?thesis
    using assms(2-5) unfolding register_output_def u
    by (auto simp: F_Create_def NewUUID_def Let_def db_exec_def F_LinkToJob_def new_file_def)
qed

text \<open>
  An output file a device sends, its chunks in any order and any of them more than
  once, is put together on disk byte for byte under the job's output directory and acknowledged; a row is
  made for it. But the row gets a new id while the link to the job is made with the id the device chose, which
  violates the foreign key: the links of the job are as before, so the file is among no job's outputs.
\<close>

theorem pulled_output_unlisted:
  assumes cr: "crypto_laws c" and ok: "faults g = []" "io_faults (ap_fs g) = []" "hook_reads r"
    and payload: "fpb_size p \<le> fl_maxSize r" "isSafeOutputName (fpb_name p)" "Clean (fpb_name p) = (False, [nm])"
      "map lower (Ext (fpb_name p)) \<noteq> ''.zip''" "fpb_total_chunks p = int (length blocks)"
      "length blocks * 24 \<le> 2 ^ 48" "cr_sha256 c (concat blocks) = fpb_sha256 p" "set is = {..<length blocks}"
    and new: "\<forall>f \<in> set (files_tab g). (fpb_job_id p, f_id f, ''output'') \<in> set (job_files_tab g) \<longrightarrow> f_name f \<noteq> fpb_name p"
      "fpb_file_id p \<notin> f_id ` set (files_tab g)" "\<forall>n. uuid_seq g n \<notin> insert (fpb_file_id p) (f_id ` set (files_tab g))"
    and dir: "dir = output_dir r (uuid_str g) (fpb_job_id p)" "uri = Join dir (fpb_name p)"
    and free: "\<forall>n. map_of (fs_files (ap_fs g)) (fst (Clean dir), take n (snd (Clean dir))) = None"
      "Clean uri \<notin> set (fs_dirs (ap_fs g))"
  shows "\<exists>g' row. pull_file c unzip r d p blocks is g = (None, g')
    \<and> map_of (fs_files (ap_fs g')) (Clean uri) = Some (concat blocks)
    \<and> files_tab g' = files_tab g @ [row] \<and> f_name row = fpb_name p \<and> f_storage_uri row = uri
    \<and> job_files_tab g' = job_files_tab g \<and> f_id row \<noteq> fpb_file_id p"
proof -
  let ?pt = "\<lparr>pt_fileID = fpb_file_id p, pt_jobID = fpb_job_id p, pt_name = fpb_name p,
      pt_sha256 = fpb_sha256 p, pt_chunks = int (length blocks), pt_buf = [], pt_received = []\<rparr>"
  let ?h = "foldl (chunk_arrives c d (fpb_file_id p) blocks) (snd (FR_OnFilePullBegin r d p g)) is"
  let ?full = "\<lparr>pt_fileID = fpb_file_id p, pt_jobID = fpb_job_id p, pt_name = fpb_name p,
      pt_sha256 = fpb_sha256 p, pt_chunks = int (length blocks), pt_buf = blocks,
      pt_received = replicate (length blocks) True\<rparr>"
  note started = begin_collecting [OF ok(1) payload(1,2) new(1) payload(5,6)]
  have "collecting (fpb_file_id p) ?pt blocks ({} \<union> set is) ?h"
    by (rule chunks_collect [OF cr]) (use started(1) payload(8) in auto)
  moreover have "map (\<lambda>i. if i \<in> set is then blocks ! i else []) [0..<length blocks] = blocks"
    "map (\<lambda>i. i \<in> set is) [0..<length blocks] = replicate (length blocks) True"
    by (rule nth_equalityI; simp add: payload(8))+
  ultimately have pt: "map_of (ap_pullBufs ?h) (fpb_file_id p) = Some ?full" by (simp add: collecting_def)
  let ?k = "?h\<lparr>ap_pullBufs := AList.delete (fpb_file_id p) (ap_pullBufs ?h)\<rparr>"
  have same: "ap_fs ?k = ap_fs g" "files_tab ?k = files_tab g" "job_files_tab ?k = job_files_tab g" "faults ?k = []"
    "uuid_seq ?k = uuid_seq g" "uuid_str ?k = uuid_str g" by (simp_all add: chunks_frame started)
  have "''..'' \<notin> set (snd (Clean (fpb_name p)))" "\<not> IsAbs (fpb_name p)" "fpb_name p \<noteq> []" "dir \<noteq> []"
    using safe_name [OF payload(2)] dir(1) by simp_all
  then have t: "Clean uri = (fst (Clean dir), snd (Clean dir) @ [nm])"
    using Clean_join [of "fpb_name p" dir] payload(3) Clean_Join [of dir "fpb_name p"] dir(2) by simp
  obtain g1 g2 f where s1: "on_fs (MkdirAll (Clean dir)) ?k = (True, g1)" and s2: "on_fs (Create (Clean uri)) g1 = (True, g2)"
    and s3: "on_fs (append_all (Clean uri) blocks) g2 = (True, ?k\<lparr>ap_fs := f\<rparr>)"
    and f: "map_of (fs_files f) (Clean uri) = Some (concat blocks)"
    using store_bytes [of ?k "Clean dir" "Clean uri" nm blocks] ok(2) free t same by auto
  obtain u row where reg: "register_output r ?full uri (?k\<lparr>ap_fs := f\<rparr>) =
      (u, ?k\<lparr>ap_fs := f, uuid_pos := Suc (uuid_pos ?k), files_tab := files_tab g @ [row]\<rparr>)"
    and row: "f_id row = uuid_seq g (uuid_pos ?k)" "f_name row = fpb_name p" "f_storage_uri row = uri"
    using register_output_ok [of r "?k\<lparr>ap_fs := f\<rparr>" ?full uri] ok(3) same new by auto
  let ?g' = "sendPullAck d (fpb_file_id p) ''RECEIVED'' '''' None
      (?k\<lparr>ap_fs := f, uuid_pos := Suc (uuid_pos ?k), files_tab := files_tab g @ [row]\<rparr>)"
  have "missing_chunk (replicate (length blocks) True) = None"
    by (simp add: missing_chunk_def find_None_iff)
  then have "pull_file c unzip r d p blocks is g = (None, ?g')"
    using payload(2,4,7) same
    by (simp add: pull_file_def FR_OnFilePullEnd_def Let_def pt dir(1) [symmetric] dir(2) [symmetric] s1 s2 s3 reg)
  moreover have "f_id row \<noteq> fpb_file_id p" using row(1) new(3) by auto
  ultimately show ?thesis using row f same by (intro exI [of _ ?g'] exI [of _ row]) simp
qed

section \<open>Sample states\<close>

definition sample_app :: App where
  "sample_app = \<lparr>wall_clock = 100 * hour, uuid_seq = (\<lambda>n. of_nat n + 1000), uuid_pos = 0,
     uuid_str = (\<lambda>_. ''u''), hb_registry = [], hb_nodeID = ''n'', hb_mu = False, hb_devices = [(7, 0)],
     hb_conn = (\<lambda>_. sample_conn 7), hb_next = 1, hb_pending = [],
     hb_heartbeatMissThreshold = 45 * second, agents_tab = [], jobs_tab = [], devices_tab = [],
     faults = [], pl_wakeups = 0, ap_broker = NewBroker,
     ap_vnc = NewRelay ''n'' 65536 2 (\<lambda>_. \<lparr>wc_in = [], wc_out = [], wc_closed = False\<rparr>),
     vnc_tab = [], creds_tab = [], job_creds_tab = [], files_tab = [], job_files_tab = [], skills_tab = [],
     skill_versions_tab = [], device_skills_tab = [], agent_skills_tab = [], skill_grants_tab = [],
     ap_fs = \<lparr>fs_files = [], fs_dirs = [], io_faults = []\<rparr>, ap_pullBufs = [],
     ap_rand = (\<lambda>n. replicate 32 (of_nat n)), ap_rand_pos = 0, ap_panicked = False\<rparr>"

definition sample_relay :: "App FileRelay" where
  "sample_relay = NewFileRelay ''local:/data'' 1000 hour"

theorem push_delivers_witness:
  "\<exists>g' idx. PushFile plain_crypto [Go, Send 3] 4 5 7
      (sample_app\<lparr>files_tab := [new_file 4 9 ''a'' 2 '''' ''h'' ''/data/u''],
         ap_fs := \<lparr>fs_files = [((True, [''data'', ''u'']), [5, 6])], fs_dirs = [], io_faults = []\<rparr>\<rparr>) = (None, g')
    \<and> mset idx = mset [0..<1]"
proof -
  have path: "Clean ''/data/u'' = (True, [''data'', ''u''])"
    by (simp add: Clean_def IsAbs_def HasPrefix_def clean_step_def)
  show ?thesis
    using push_delivers [of "sample_app\<lparr>files_tab := [new_file 4 9 ''a'' 2 '''' ''h'' ''/data/u''],
         ap_fs := \<lparr>fs_files = [((True, [''data'', ''u'']), [5, 6])], fs_dirs = [], io_faults = []\<rparr>\<rparr>" 4
        "new_file 4 9 ''a'' 2 '''' ''h'' ''/data/u''" "[5, 6]" 1 7 0 plain_crypto "[Go, Send 3]" 5]
    by (auto simp: sample_app_def new_file_def path sample_conn_def)
qed

theorem pulled_output_unlisted_witness:
  "\<exists>g' row. pull_file plain_crypto (\<lambda>_. None) sample_relay 7 \<lparr>fpb_file_id = 4, fpb_job_id = 5, fpb_name = ''a.md'',
      fpb_size = 2, fpb_sha256 = ''h'', fpb_total_chunks = 2\<rparr> [[5], [6]] [1, 0, 1]
      (sample_app\<lparr>uuid_seq := \<lambda>_. 1000\<rparr>) = (None, g')
    \<and> files_tab g' = [row] \<and> job_files_tab g' = []"
proof -
  let ?p = "\<lparr>fpb_file_id = 4, fpb_job_id = 5, fpb_name = ''a.md'',
      fpb_size = 2, fpb_sha256 = ''h'', fpb_total_chunks = 2\<rparr>" and ?g = "sample_app\<lparr>uuid_seq := \<lambda>_. 1000\<rparr>"
  let ?dir = "output_dir sample_relay (uuid_str ?g) 5"
  have name: "isSafeOutputName ''a.md''" "Clean ''a.md'' = (False, [''a.md''])" "map lower (Ext ''a.md'') \<noteq> ''.zip''"
    by code_simp+
  have misc: "set [1, 0, 1 :: nat] = {..<length [[5], [6 :: 8 word]]}" "cr_sha256 plain_crypto bs = ''h''" for bs
    by (auto simp: plain_crypto_def)
  have "\<exists>g' row. pull_file plain_crypto (\<lambda>_. None) sample_relay 7 ?p [[5], [6]] [1, 0, 1] ?g = (None, g')
    \<and> map_of (fs_files (ap_fs g')) (Clean (Join ?dir ''a.md'')) = Some (concat [[5], [6]])
    \<and> files_tab g' = files_tab ?g @ [row] \<and> f_name row = fpb_name ?p \<and> f_storage_uri row = Join ?dir ''a.md''
    \<and> job_files_tab g' = job_files_tab ?g \<and> f_id row \<noteq> fpb_file_id ?p"
    by (rule pulled_output_unlisted)
      (use name misc in \<open>simp_all add: plain_crypto_laws sample_app_def sample_relay_def NewFileRelay_def hook_reads_def\<close>)
  then show ?thesis by (auto simp: sample_app_def)
qed

end
