(* ===== verification/SkillVault.thy ===== *)
theory SkillVault
  imports SkillStore FileRelayProps
begin

text \<open>
  The skill vault (\<open>gateway/internal/skillvault/vault.go\<close>), which keeps the artifacts of published
  versions beside the catalogue, and the dispatcher (\<open>dispatch.go\<close>), which sends them to devices.
  The vault's operations that only pass a call on are the store's. \<open>visibility_agrees\<close> relates the two
  queries of visibility, \<open>republish_destroys\<close> shows what a second publication of a version does.
\<close>

section \<open>Vault\<close>

text \<open>The vault's \<open>baseDir\<close> is the argument of the operations that use it.\<close>

definition new_skill :: "string \<Rightarrow> string \<Rightarrow> string \<Rightarrow> SkillVisibility \<Rightarrow> Skill" where
  "new_skill key name description visibility = \<lparr>sk_id = 0, sk_key = key, sk_name = name,
     sk_description = description, sk_visibility = visibility, sk_latest_version = '''',
     sk_status = SkillCatalogStatusOther '''', sk_created_at = 0, sk_updated_at = 0\<rparr>"

definition SV_CreateSkill :: "string \<Rightarrow> string \<Rightarrow> string \<Rightarrow> SkillVisibility \<Rightarrow> 'a app \<Rightarrow> (err + Skill) \<times> 'a app" where
  "SV_CreateSkill key name description visibility g =
     (case S_CreateSkill (new_skill key name description visibility) g of
        (Some e, _, g1) \<Rightarrow> (Inl e, g1) | (None, skill, g1) \<Rightarrow> (Inr skill, g1))"

definition artifact_path :: "string \<Rightarrow> (uuid \<Rightarrow> string) \<Rightarrow> uuid \<Rightarrow> string \<Rightarrow> string" where
  "artifact_path baseDir str skillID version = Join (Join (Join baseDir (str skillID)) version) ''artifact.tar.gz''"

definition PublishVersion :: "crypto \<Rightarrow> string \<Rightarrow> uuid \<Rightarrow> string \<Rightarrow> string \<Rightarrow> bytes \<times> bool \<Rightarrow> 'a app \<Rightarrow>
    (err + SkillVersion) \<times> 'a app" where
  "PublishVersion c baseDir skillID version manifest reader g =
    (let versionDir = Join (Join baseDir (uuid_str g skillID)) version;
         artifactPath = Join versionDir ''artifact.tar.gz'';
         (made, g1) = on_fs (MkdirAll (Clean versionDir)) g
     in if \<not> made then (Inl (EHandler ''create version dir''), g1) else
     (let (opened, g2) = on_fs (Create (Clean artifactPath)) g1
      in if \<not> opened then (Inl (EHandler ''create artifact file''), g2) else
      (let (written, g3) = on_fs (Append (Clean artifactPath) (fst reader)) g2
       in if \<not> written \<or> snd reader
          then (Inl (EHandler ''write artifact''), snd (on_fs (Remove (Clean artifactPath)) g3))
          else (case S_CreateVersion \<lparr>sv_id = 0, sv_skill_id = skillID, sv_version = version,
                  sv_manifest = manifest, sv_artifact_uri = artifactPath, sv_sha256 = cr_sha256 c (fst reader),
                  sv_size = None, sv_created_at = 0\<rparr> g3 of
             (Some e, _, g4) \<Rightarrow>
               (Inl (EHandler ''create version''), snd (on_fs (Remove (Clean artifactPath)) g4))
           | (None, ver, g4) \<Rightarrow> (Inr ver, snd (S_SetLatestVersion skillID version g4))))))"

definition OpenArtifact :: "SkillVersion \<Rightarrow> 'a app \<Rightarrow> bytes option \<times> 'a app" where
  "OpenArtifact ver = on_fs (Open (Clean (sv_artifact_uri ver)))"

definition GrantVisibility :: "uuid \<Rightarrow> PrincipalType \<Rightarrow> uuid \<Rightarrow> uuid \<Rightarrow> 'a app exec" where
  "GrantVisibility skillID principalType principalID grantedBy = S_CreateGrant
     \<lparr>sg_skill_id = skillID, sg_principal_type = principalType, sg_principal_id = principalID,
      sg_granted_by = grantedBy, sg_created_at = 0\<rparr>"

definition RevokeVisibility :: "uuid \<Rightarrow> PrincipalType \<Rightarrow> uuid \<Rightarrow> 'a app exec" where
  "RevokeVisibility skillID principalType principalID = S_DeleteGrant skillID principalType principalID"

definition GetSkillWithLatestVersion :: "uuid \<Rightarrow> (SkillWithLatestVersion option, 'a app) query" where
  "GetSkillWithLatestVersion skillID g = (case S_GetSkill skillID g of
     (Inl e, g1) \<Rightarrow> (Inl e, g1)
   | (Inr None, g1) \<Rightarrow> (Inr None, g1)
   | (Inr (Some skill), g1) \<Rightarrow> (let (ver, g2) = S_GetLatestVersion skillID g1 in
        (Inr (Some \<lparr>swl_skill = skill, swl_latest_version = (case ver of Inl e \<Rightarrow> None | Inr v \<Rightarrow> v)\<rparr>), g2)))"

section \<open>Dispatcher\<close>

definition skill_chunks :: "crypto \<Rightarrow> uuid \<Rightarrow> uuid \<Rightarrow> bytes list \<Rightarrow> payload list" where
  "skill_chunks c skillID versionID blocks = map (\<lambda>(i, bs). PSkillChunk \<lparr>sch_skill_id = skillID,
     sch_skill_version_id = versionID, sch_chunk_index = int i, sch_data = cr_b64enc c bs\<rparr>) (enumerate 0 blocks)"

text \<open>
  The artifact is read to its end, in blocks of 256 KiB (\<open>skillChunkSize\<close> equals \<open>ChunkSize\<close>). An artifact
  whose size cannot be told counts as empty.
\<close>

definition DispatchToDevice :: "crypto \<Rightarrow> chunk_event list \<Rightarrow> uuid \<Rightarrow> uuid \<Rightarrow> uuid \<Rightarrow> 'a app exec" where
  "DispatchToDevice c sched deviceID skillID versionID g = (case S_GetVersion versionID g of
     (Inl e, g1) \<Rightarrow> (Some e, g1)
   | (Inr None, g1) \<Rightarrow> (Some (EHandler ''version not found''), g1)
   | (Inr (Some ver), g1) \<Rightarrow>
    (case S_SetDeviceSkill \<lparr>ds_device_id = deviceID, ds_skill_id = skillID, ds_version = sv_version ver,
          ds_status = SkillInstalling, ds_installed_by = None, ds_error_message = None, ds_updated_at = 0\<rparr> g1 of
       (Some e, g2) \<Rightarrow> (Some e, g2)
     | (None, g2) \<Rightarrow>
    (case OpenArtifact ver g2 of
       (None, g3) \<Rightarrow> (Some (EHandler ''open artifact''), g3)
     | (Some content, g3) \<Rightarrow>
    (let (no_stat, g4) = on_fs io_fault g3;
         totalBytes = (if no_stat then 0 else int (length content));
         totalChunks = (if totalBytes = 0 then 1 else total_chunks totalBytes)
     in case send_new deviceID FrameSkillDispatchBegin (PSkillDispatchBegin \<lparr>sdb_skill_id = skillID,
          sdb_skill_version_id = versionID, sdb_version = sv_version ver, sdb_total_chunks = int totalChunks,
          sdb_total_bytes = totalBytes, sdb_sha256 = sv_sha256 ver\<rparr>) g4 of
       (Some e, g5) \<Rightarrow> (Some e, g5)
     | (None, g5) \<Rightarrow>
        (let ((blocks, failed), g6) = on_fs (read_blocks (Suc (length content)) content) g5;
             (sendErr, g7) = run_chunks deviceID FrameSkillChunk sched (skill_chunks c skillID versionID blocks) g6
         in if failed then (Some (EHandler ''read artifact chunk''), g7)
            else if sendErr \<noteq> None then (sendErr, g7)
            else send_new deviceID FrameSkillDispatchEnd (PSkillDispatchEnd \<lparr>sde_skill_id = skillID,
                   sde_skill_version_id = versionID\<rparr>) g7)))))"

definition SendSkillAction :: "uuid \<Rightarrow> SkillScope \<Rightarrow> SkillAction \<Rightarrow> uuid \<Rightarrow> string \<Rightarrow> uuid option \<Rightarrow> 'a app exec" where
  "SendSkillAction deviceID scope action skillID version agentID = send_new deviceID FrameSkillAction
     (PSkillAction \<lparr>sa_scope = scope, sa_action = action, sa_skill_id = skillID, sa_version = Some version,
        sa_agent_id = agentID\<rparr>)"

text \<open>\<open>SyncSkills\<close> never fills in the agents' skills.\<close>

definition SyncSkills :: "uuid \<Rightarrow> 'a app exec" where
  "SyncSkills deviceID g = (case S_GetDeviceSkills deviceID g of
     (Inl e, g1) \<Rightarrow> (Some e, g1)
   | (Inr deviceSkills, g1) \<Rightarrow> send_new deviceID FrameSkillSync
       (PSkillSync \<lparr>ssp_device_skills = deviceSkills, ssp_agent_skills = []\<rparr>) g1)"

definition UpdateDeviceSkillState :: "uuid \<Rightarrow> SkillStatePayload \<Rightarrow> 'a app exec" where
  "UpdateDeviceSkillState deviceID p g = (case (ss_scope p, ss_agent_id p) of
     (SkillScopeDevice, _) \<Rightarrow> S_UpdateDeviceSkillStatus deviceID (ss_skill_id p) (ss_status p) g
   | (SkillScopeAgent, Some agentID) \<Rightarrow> S_SetAgentSkill \<lparr>ask_agent_id = agentID, ask_skill_id = ss_skill_id p,
        ask_status = (if ss_status p = SkillDisabled then AgentSkillDisabled else AgentSkillEnabled),
        ask_selected_by = None, ask_updated_at = 0\<rparr> g
   | _ \<Rightarrow> (Some (EHandler ''invalid skill state payload''), g))"

text \<open>The loop over the devices; the result is the last error.\<close>

fun dispatch_all :: "crypto \<Rightarrow> (uuid \<Rightarrow> chunk_event list) \<Rightarrow> Device list \<Rightarrow> uuid \<Rightarrow> uuid \<Rightarrow> err option \<Rightarrow>
    'a app exec" where
  "dispatch_all c sched [] skillID versionID lastErr g = (lastErr, g)"
| "dispatch_all c sched (d # ds) skillID versionID lastErr g =
     (case DispatchToDevice c (sched (d_id d)) (d_id d) skillID versionID g of
        (Some e, g1) \<Rightarrow> dispatch_all c sched ds skillID versionID (Some e) g1
      | (None, g1) \<Rightarrow> dispatch_all c sched ds skillID versionID lastErr g1)"

definition DispatchToAllDevices :: "(Device list, 'a app) query option \<Rightarrow> crypto \<Rightarrow> (uuid \<Rightarrow> chunk_event list) \<Rightarrow>
    uuid \<Rightarrow> uuid \<Rightarrow> 'a app exec" where
  "DispatchToAllDevices listDevices c sched skillID versionID g = (case listDevices of
     None \<Rightarrow> (Some (EHandler ''device lister not configured''), g)
   | Some lister \<Rightarrow> (case lister g of
       (Inl e, g1) \<Rightarrow> (Some e, g1)
     | (Inr devices, g1) \<Rightarrow> dispatch_all c sched devices skillID versionID None g1))"

definition RetryFailedAgents :: "uuid \<Rightarrow> uuid \<Rightarrow> uuid list \<Rightarrow> string option \<Rightarrow> 'a app exec" where
  "RetryFailedAgents deviceID skillID agentIDs version = send_new deviceID FrameSkillRetry
     (PSkillRetry \<lparr>sr_skill_id = skillID, sr_agent_ids = agentIDs, sr_version = version\<rparr>)"

section \<open>Visibility\<close>

definition sees :: "uuid \<Rightarrow> uuid option \<Rightarrow> 'a app \<Rightarrow> Skill \<Rightarrow> bool" where
  "sees user org g s \<longleftrightarrow> sk_visibility s = VisibilityPublic
     \<or> granted PrincipalUser user (sk_id s) (skill_grants_tab g)
     \<or> (\<exists>q. org = Some q \<and> granted PrincipalOrg q (sk_id s) (skill_grants_tab g))"

lemma visible_ok:
  assumes "faults g = []"
  shows "fst (S_IsSkillVisibleToUser skill user org g) = Inr (\<exists>s \<in> set (skills_tab g). sk_id s = skill \<and> sees user org g s)"
    and "\<exists>l. fst (S_ListVisibleSkills user org g) = Inr l \<and> set l = {s \<in> set (skills_tab g). sees user org g s}"
proof -
  have org: "(case org of None \<Rightarrow> False | Some q \<Rightarrow> P q) \<longleftrightarrow> (\<exists>q. org = Some q \<and> P q)" for P
    by (cases org) auto
  show "fst (S_IsSkillVisibleToUser skill user org g) = Inr (\<exists>s \<in> set (skills_tab g). sk_id s = skill \<and> sees user org g s)"
    using assms by (auto simp: S_IsSkillVisibleToUser_def db_query_def sql_count_def sees_def org filter_empty_conv)
  show "\<exists>l. fst (S_ListVisibleSkills user org g) = Inr l \<and> set l = {s \<in> set (skills_tab g). sees user org g s}"
    using assms by (auto simp: S_ListVisibleSkills_def db_query_def sees_def org)
qed

lemma grant_ok:
  assumes "faults g = []" "has_skill skill g"
  shows "\<exists>rs. snd (GrantVisibility skill pt pid by g) = g\<lparr>skill_grants_tab := rs\<rparr> \<and> granted pt pid skill rs"
proof -
  let ?r = "\<lparr>sg_skill_id = skill, sg_principal_type = pt, sg_principal_id = pid, sg_granted_by = by,
      sg_created_at = wall_clock g\<rparr>"
  have "snd (GrantVisibility skill pt pid by g) = g\<lparr>skill_grants_tab :=
      (if granted pt pid skill (skill_grants_tab g) then skill_grants_tab g else skill_grants_tab g @ [?r])\<rparr>"
    using assms by (auto simp: GrantVisibility_def S_CreateGrant_def db_exec_def Let_def granted_def)
  moreover have "granted pt pid skill
      (if granted pt pid skill (skill_grants_tab g) then skill_grants_tab g else skill_grants_tab g @ [?r])"
    by (auto simp: granted_def)
  ultimately show ?thesis by blast
qed

lemma revoke_ok:
  assumes "faults g = []"
  shows "snd (RevokeVisibility skill pt pid g) = g\<lparr>skill_grants_tab := sql_delete (\<lambda>r. sg_skill_id r = skill
      \<and> sg_principal_type r = pt \<and> sg_principal_id r = pid) (skill_grants_tab g)\<rparr>"
  using assms by (simp add: RevokeVisibility_def S_DeleteGrant_def db_exec_def)


definition sample_skill :: "uuid \<Rightarrow> SkillVisibility \<Rightarrow> Skill" where
  "sample_skill i v = (new_skill ''k'' ''Skill'' ''d'' v)\<lparr>sk_id := i, sk_status := SkillActive\<rparr>"


section \<open>Publishing a version twice\<close>

lemma SetDeviceSkill_ok:
  assumes "faults g = []" "has_device (ds_device_id x) g" "has_skill (ds_skill_id x) g"
  shows "\<exists>ds. S_SetDeviceSkill x g = (None, g\<lparr>device_skills_tab := ds\<rparr>)
    \<and> (\<exists>y \<in> set ds. ds_device_id y = ds_device_id x \<and> ds_skill_id y = ds_skill_id x \<and> ds_status y = ds_status x)"
proof (cases "list_ex (\<lambda>y. ds_device_id y = ds_device_id x \<and> ds_skill_id y = ds_skill_id x) (device_skills_tab g)")
  case True
  then obtain y where y: "y \<in> set (device_skills_tab g)" "ds_device_id y = ds_device_id x \<and> ds_skill_id y = ds_skill_id x"
    by (auto simp: list_ex_iff)
  let ?f = "\<lambda>e. e\<lparr>ds_version := ds_version x, ds_status := ds_status x, ds_installed_by := ds_installed_by x,
      ds_updated_at := wall_clock g\<rparr>"
  let ?ds = "sql_update (\<lambda>y. ds_device_id y = ds_device_id x \<and> ds_skill_id y = ds_skill_id x) ?f (device_skills_tab g)"
  have "?f y \<in> set ?ds" using y unfolding sql_update_set by (intro bexI [of _ y]) simp_all
  moreover have "S_SetDeviceSkill x g = (None, g\<lparr>device_skills_tab := ?ds\<rparr>)"
    using assms True by (simp add: S_SetDeviceSkill_def Let_def db_exec_def)
  ultimately show ?thesis using y(2) by (intro exI [of _ ?ds]) (auto intro: bexI [of _ "?f y"])
next
  case False
  then have "S_SetDeviceSkill x g = (None, g\<lparr>device_skills_tab := device_skills_tab g @
      [x\<lparr>ds_updated_at := wall_clock g, ds_error_message := None\<rparr>]\<rparr>)"
    using assms by (simp add: S_SetDeviceSkill_def Let_def db_exec_def)
  then show ?thesis unfolding bex_simps set_append by (intro exI conjI) auto
qed

text \<open>
  Publishing a version of a skill that exists already overwrites the artifact of the
  published version and, when the database then refuses the second row, removes it: the version stays in the
  catalogue but its artifact can no longer be opened, and a dispatch of it to a device records the skill as
  installing there and fails without sending a frame.
\<close>

theorem republish_destroys:
  assumes ok: "faults g = []" "io_faults (ap_fs g) = []"
    and v: "find (\<lambda>w. sv_id w = vid) (skill_versions_tab g) = Some v" "sv_skill_id v = skill"
      "sv_artifact_uri v = artifact_path baseDir (uuid_str g) skill (sv_version v)"
    and dir: "vdir = Clean (Join (Join baseDir (uuid_str g skill)) (sv_version v))" "sv_version v \<noteq> []"
      "\<forall>n. map_of (fs_files (ap_fs g)) (fst vdir, take n (snd vdir)) = None"
      "Clean (sv_artifact_uri v) \<notin> set (fs_dirs (ap_fs g))"
    and dev: "has_device d g" "has_skill skill g"
  shows "\<exists>g'. PublishVersion c baseDir skill (sv_version v) manifest (content, False) g
        = (Inl (EHandler ''create version''), g')
    \<and> skill_versions_tab g' = skill_versions_tab g \<and> fst (OpenArtifact v g') = None
    \<and> fst (DispatchToDevice c sched d skill vid g') = Some (EHandler ''open artifact'')
    \<and> hb_conn (snd (DispatchToDevice c sched d skill vid g')) = hb_conn g
    \<and> (\<exists>ds \<in> set (device_skills_tab (snd (DispatchToDevice c sched d skill vid g'))).
         ds_device_id ds = d \<and> ds_skill_id ds = skill \<and> ds_status ds = SkillInstalling)"
proof -
  let ?dir = "Join (Join baseDir (uuid_str g skill)) (sv_version v)" and ?name = "''artifact.tar.gz''"
  let ?t = "Clean (sv_artifact_uri v)"
  have name: "Clean ?name = (False, [?name])" "\<not> IsAbs ?name" "?dir \<noteq> []"
    using dir(2) by (code_simp, code_simp, simp add: Join_nonempty)
  have uri: "sv_artifact_uri v = Join ?dir ?name" using v(3) by (simp add: artifact_path_def)
  have t: "?t = (fst vdir, snd vdir @ [?name])"
    using Clean_join [of ?name ?dir] name by (simp add: uri Clean_Join dir(1))
  obtain g1 g2 f where s1: "on_fs (MkdirAll vdir) g = (True, g1)" and s2: "on_fs (Create ?t) g1 = (True, g2)"
    and s3: "on_fs (append_all ?t [content]) g2 = (True, g\<lparr>ap_fs := f\<rparr>)"
    and f: "map_of (fs_files f) ?t = Some (concat [content])" "io_faults f = []"
    using store_bytes [OF ok(2) dir(3) t dir(4), of "[content]"] by blast
  have s4: "on_fs (Append ?t content) g2 = (True, g\<lparr>ap_fs := f\<rparr>)"
    using s3 by (auto simp: on_fs_def split: prod.splits if_splits)
  have v': "v \<in> set (skill_versions_tab g)" using v(1) by (auto simp: find_Some_iff)
  let ?g' = "g\<lparr>uuid_pos := Suc (uuid_pos g), ap_fs := f\<lparr>fs_files := AList.delete ?t (fs_files f)\<rparr>\<rparr>"
  have "PublishVersion c baseDir skill (sv_version v) manifest (content, False) g
        = (Inl (EHandler ''create version''), ?g')"
  proof -
    have "\<exists>w \<in> set (skill_versions_tab g). sv_id w = u \<or> sv_skill_id w = skill \<and> sv_version w = sv_version v" for u
      using v' v(2) by blast
    then have "\<exists>x. S_CreateVersion \<lparr>sv_id = 0, sv_skill_id = skill, sv_version = sv_version v, sv_manifest = manifest,
        sv_artifact_uri = sv_artifact_uri v, sv_sha256 = cr_sha256 c content, sv_size = None, sv_created_at = 0\<rparr>
        (g\<lparr>ap_fs := f\<rparr>) = (Some EUnique, x, g\<lparr>uuid_pos := Suc (uuid_pos g), ap_fs := f\<rparr>)"
      using ok(1) by (simp add: S_CreateVersion_def NewUUID_def Let_def db_exec_def)
    then show ?thesis using f
      by (auto simp: PublishVersion_def Let_def uri [symmetric] dir(1) [symmetric] s1 s2 s4)
        (auto simp: on_fs_def Remove_def io_fault_def)
  qed
  moreover have open': "fst (OpenArtifact v ?g') = None"
    using f(2) by (simp add: OpenArtifact_def on_fs_def Open_def io_fault_def gomap_simps)
  moreover obtain ds1 where set: "S_SetDeviceSkill \<lparr>ds_device_id = d, ds_skill_id = skill, ds_version = sv_version v,
      ds_status = SkillInstalling, ds_installed_by = None, ds_error_message = None, ds_updated_at = 0\<rparr> ?g'
      = (None, ?g'\<lparr>device_skills_tab := ds1\<rparr>)"
    and ds1: "\<exists>x \<in> set ds1. ds_device_id x = d \<and> ds_skill_id x = skill \<and> ds_status x = SkillInstalling"
    using SetDeviceSkill_ok [of ?g' "\<lparr>ds_device_id = d, ds_skill_id = skill, ds_version = sv_version v,
      ds_status = SkillInstalling, ds_installed_by = None, ds_error_message = None, ds_updated_at = 0\<rparr>"] ok(1) dev
    by (auto simp: has_device_def has_skill_def)
  moreover have "DispatchToDevice c sched d skill vid ?g' = (Some (EHandler ''open artifact''), ?g'\<lparr>device_skills_tab := ds1\<rparr>)"
    using v(1) ok(1) set f(2) by (simp add: DispatchToDevice_def S_GetVersion_def db_query_def OpenArtifact_def on_fs_def Open_def
      io_fault_def gomap_simps)
  ultimately show ?thesis by (intro exI [of _ ?g']) simp
qed

definition sample_version :: SkillVersion where
  "sample_version = \<lparr>sv_id = 2, sv_skill_id = 3, sv_version = ''1.0'', sv_manifest = ''{}'',
     sv_artifact_uri = ''/v/u/1.0/artifact.tar.gz'', sv_sha256 = ''h'', sv_size = None, sv_created_at = 0\<rparr>"

theorem republish_destroys_witness:
  "\<exists>g'. PublishVersion plain_crypto ''/v'' 3 ''1.0'' ''{}'' ([1], False) (sample_app\<lparr>devices_tab := [sample_device 7],
      skills_tab := [sample_skill 3 VisibilityPublic], skill_versions_tab := [sample_version]\<rparr>)
      = (Inl (EHandler ''create version''), g') \<and> fst (OpenArtifact sample_version g') = None"
proof -
  let ?g = "sample_app\<lparr>devices_tab := [sample_device 7], skills_tab := [sample_skill 3 VisibilityPublic],
      skill_versions_tab := [sample_version]\<rparr>"
  have path: "artifact_path ''/v'' (\<lambda>_. ''u'') 3 ''1.0'' = ''/v/u/1.0/artifact.tar.gz''" by code_simp
  have "\<exists>g'. PublishVersion plain_crypto ''/v'' 3 (sv_version sample_version) ''{}'' ([1], False) ?g
        = (Inl (EHandler ''create version''), g')
    \<and> skill_versions_tab g' = skill_versions_tab ?g \<and> fst (OpenArtifact sample_version g') = None
    \<and> fst (DispatchToDevice plain_crypto [] 7 3 2 g') = Some (EHandler ''open artifact'')
    \<and> hb_conn (snd (DispatchToDevice plain_crypto [] 7 3 2 g')) = hb_conn ?g
    \<and> (\<exists>ds \<in> set (device_skills_tab (snd (DispatchToDevice plain_crypto [] 7 3 2 g'))).
         ds_device_id ds = 7 \<and> ds_skill_id ds = 3 \<and> ds_status ds = SkillInstalling)"
    by (rule republish_destroys [where g = ?g and v = sample_version])
      (use path in \<open>simp_all add: sample_app_def sample_version_def sample_skill_def new_skill_def sample_device_def
        has_device_def has_skill_def\<close>)
  then show ?thesis by (auto simp: sample_version_def)
qed

end
