(* ===== verification/Gateway.thy ===== *)
theory Gateway
  imports SkillVault TunnelProps PoolInv
begin

text \<open>
  The gateway process: \<open>cmd/gateway/main.go\<close> wires the components together. \<open>gateway_config\<close> is the
  \<open>HubConfig\<close> it passes to \<open>SetHandlers\<close>, each field one of its closures, over the state \<open>App\<close>;
  \<open>gateway_relay\<close> and \<open>gateway_allocator\<close> are the file relay and the allocator with the hooks main installs.
  Logging is left out. \<open>gateway_config\<close> is shown to respect what the tunnel relies on of its callbacks
  (the interpretation \<open>gw\<close> of \<open>hub_client\<close>) in \<open>GatewayInv\<close>.
\<close>

section \<open>What main reads and calls\<close>

text \<open>The settings main uses of \<open>config.Config\<close>, with the credential vault made of its keys.\<close>

record Settings =
  st_queueTTL :: duration
  st_maxQueuedPerUser :: int
  st_fileStore :: string
  st_maxUploadBytes :: int
  st_fileRetentionHours :: int
  st_vault :: Vault

record WSEventLoginRequiredData =
  wl_job_id :: string
  wl_origin :: string
  wl_label :: string
  wl_login_kind :: string
  wl_at :: string

text \<open>The standard library's functions: cryptography, zip, the text of a time and of the login event.\<close>

record libs =
  lb_crypto :: crypto
  lb_unzip :: "bytes \<Rightarrow> zip_member list option"
  lb_rfc3339 :: "time \<Rightarrow> string"
  lb_login_json :: "WSEventLoginRequiredData \<Rightarrow> string"

section \<open>Hooks\<close>

definition get_job_user_id :: "uuid \<Rightarrow> (uuid, 'a app) query" where
  "get_job_user_id jobID g = (case J_GetByID jobID g of
     (Inr (Some job), g1) \<Rightarrow> (Inr (j_user_id job), g1)
   | (_, g1) \<Rightarrow> (Inl (EHandler ''job not found''), g1))"

definition gateway_relay :: "Settings \<Rightarrow> 'a app FileRelay" where
  "gateway_relay st = (NewFileRelay (st_fileStore st) (st_maxUploadBytes st) (st_fileRetentionHours st * hour))
     \<lparr>fl_GetJobUserID := Some get_job_user_id\<rparr>"

definition skills_dir :: "Settings \<Rightarrow> string" where
  "skills_dir st = st_fileStore st @ ''/skills''"

text \<open>The loop of \<open>PushCredentialsForJob\<close>: a credential that cannot be decrypted is passed over.\<close>

fun push_credentials :: "crypto \<Rightarrow> Vault \<Rightarrow> uuid \<Rightarrow> uuid \<Rightarrow> uuid \<Rightarrow> BrowserCredential list \<Rightarrow> 'a app \<Rightarrow> 'a app" where
  "push_credentials c v jobID agentID deviceID [] g = g"
| "push_credentials c v jobID agentID deviceID (cred # creds) g =
     (case Decrypt c v (bc_storage_state_enc cred) (bc_nonce cred) (bc_auth_tag cred) (bc_sha256 cred) of
        Inl e \<Rightarrow> push_credentials c v jobID agentID deviceID creds g
      | Inr plaintext \<Rightarrow> push_credentials c v jobID agentID deviceID creds (snd (C_Touch (bc_id cred)
          (snd (send_new deviceID FrameCredPush (PCredPush \<lparr>cp_job_id = jobID, cp_credential_id = bc_id cred,
             cp_agent_id = agentID, cp_origin = bc_origin cred, cp_storage_state = cr_b64enc c plaintext,
             cp_sha256 = bc_sha256 cred\<rparr>) g)))))"

definition PushCredentialsForJob :: "crypto \<Rightarrow> Vault \<Rightarrow> uuid \<Rightarrow> uuid \<Rightarrow> uuid \<Rightarrow> 'a app exec" where
  "PushCredentialsForJob c v jobID agentID deviceID g = (if \<not> IsConfigured v then (None, g)
     else (case C_ListByJob jobID g of
         (Inl e, g1) \<Rightarrow> (Some e, g1)
       | (Inr creds, g1) \<Rightarrow> (None, push_credentials c v jobID agentID deviceID creds g1)))"

text \<open>The lists of ids the allocator's hooks return; of an error the allocator sees no ids.\<close>

definition list_ids :: "('r \<Rightarrow> uuid) \<Rightarrow> (uuid \<Rightarrow> ('r list, 'h) query) \<Rightarrow> uuid \<Rightarrow> 'h \<Rightarrow> uuid list \<times> 'h" where
  "list_ids key q jobID g = (case q jobID g of (Inl e, g1) \<Rightarrow> ([], g1) | (Inr rs, g1) \<Rightarrow> (map key rs, g1))"

definition gateway_allocator :: "libs \<Rightarrow> Settings \<Rightarrow> 'a app Allocator" where
  "gateway_allocator lb st = SetDispatchDeps (list_ids f_id F_ListByJob) (list_ids bc_id C_ListByJob)
     (PushCredentialsForJob (lb_crypto lb) (st_vault st))
     (NewAllocator (st_queueTTL st) (st_maxQueuedPerUser st))"

text \<open>A panic in the broker, in a goroutine of the tunnel, ends the process.\<close>

definition publish_event :: "string \<Rightarrow> string \<Rightarrow> string \<Rightarrow> 'a app \<Rightarrow> 'a app" where
  "publish_event topic typ payload g =
     (case Publish (ap_broker g) topic \<lparr>ws_type = typ, ws_topic = topic, ws_payload = payload\<rparr> of
        None \<Rightarrow> g\<lparr>ap_panicked := True\<rparr> | Some b \<Rightarrow> g\<lparr>ap_broker := b\<rparr>)"

section \<open>The handlers\<close>

fun name_agents :: "HelloAgent list \<Rightarrow> 'a app \<Rightarrow> 'a app" where
  "name_agents [] g = g"
| "name_agents (a # as) g = name_agents as
     (if ha_name a \<noteq> '''' then snd (A_UpdateName (ha_agent_id a) (ha_name a) g) else g)"

definition gw_OnHello :: "'a app Allocator \<Rightarrow> (HelloPayload, 'a app) handler" where
  "gw_OnHello al deviceID p g =
    (let g1 = snd (D_UpdateStatus deviceID DeviceOnline g);
         g2 = (if hello_platform p \<noteq> '''' then snd (D_UpdatePlatform deviceID (hello_platform p) g1) else g1);
         g3 = name_agents (hello_agents p) g2
     in (None, snd (ReconcilePool al deviceID (hello_agents p) g3)))"

definition gw_OnJobProgress :: "(JobProgressPayload, 'a app) handler" where
  "gw_OnJobProgress deviceID p g =
    (case J_UpdateProgress (jp_job_id p) (jp_percent p) (jp_message p) (jp_status p) g of
       (Some e, g1) \<Rightarrow> (Some e, g1)
     | (None, g1) \<Rightarrow> (None, publish_event (JobTopic (uuid_str g1) (jp_job_id p)) ''job.progress'' '''' g1))"

definition gw_OnJobResult :: "(JobResultPayload, 'a app) handler" where
  "gw_OnJobResult deviceID p g = (case J_UpdateResult (jres_job_id p) (jres_status p) (jres_result p) g of
       (Some e, g1) \<Rightarrow> (Some e, g1)
     | (None, g1) \<Rightarrow>
        (let g2 = publish_event (JobTopic (uuid_str g1) (jres_job_id p)) ''job.result'' '''' g1
         in (case J_GetByID (jres_job_id p) g2 of
            (Inr (Some job), g3) \<Rightarrow> (case j_agent_id job of
                Some a \<Rightarrow> (None, snd (CleanupJobFiles (jres_job_id p) (snd (Release a g3))))
              | None \<Rightarrow> (None, g3))
          | (_, g3) \<Rightarrow> (None, g3))))"

definition gw_OnJobAccepted :: "(uuid, 'a app) handler" where
  "gw_OnJobAccepted deviceID jobID = J_UpdateStatus jobID JobRunning"

definition gw_OnJobRejected :: "(JobRejectedPayload, 'a app) handler" where
  "gw_OnJobRejected deviceID p g =
    (let g1 = snd (J_UpdateResult (jrej_job_id p) JobFailed None g);
         g2 = (case J_GetByID (jrej_job_id p) g1 of
             (Inr (Some job), g') \<Rightarrow> (case j_agent_id job of Some a \<Rightarrow> snd (Release a g') | None \<Rightarrow> g')
           | (_, g') \<Rightarrow> g')
     in (None, publish_event (JobTopic (uuid_str g2) (jrej_job_id p)) ''job.result'' '''' g2))"

fun sync_jobs_of :: "uuid list \<Rightarrow> uuid \<Rightarrow> Job list \<Rightarrow> 'a app \<Rightarrow> 'a app" where
  "sync_jobs_of deviceJobs agentID [] g = g"
| "sync_jobs_of deviceJobs agentID (j # js) g =
     (if IsActive (j_status j) \<and> j_id j \<notin> set deviceJobs
         \<and> \<not> (\<exists>t. j_started_at j = Some t \<and> wall_clock g - t < 2 * minute)
      then sync_jobs_of deviceJobs agentID js (snd (Release agentID (snd (J_UpdateResult (j_id j) JobFailed None g))))
      else sync_jobs_of deviceJobs agentID js g)"

fun sync_agents_of :: "uuid list \<Rightarrow> Agent list \<Rightarrow> 'a app \<Rightarrow> 'a app" where
  "sync_agents_of deviceJobs [] g = g"
| "sync_agents_of deviceJobs (a # as) g = (let (q, g1) = J_ListByAgent (a_id a) g in
     sync_agents_of deviceJobs as (sync_jobs_of deviceJobs (a_id a) (case q of Inl e \<Rightarrow> [] | Inr js \<Rightarrow> js) g1))"

definition gw_OnStateSync :: "(StateSyncPayload, 'a app) handler" where
  "gw_OnStateSync deviceID p g = (let (q, g1) = A_ListByDevice deviceID g in
     (None, sync_agents_of (map ssj_job_id (sync_jobs p)) (case q of Inl e \<Rightarrow> [] | Inr as \<Rightarrow> as) g1))"

definition gw_OnAgentStatus :: "(AgentStatusPayload, 'a app) handler" where
  "gw_OnAgentStatus deviceID p = A_UpdateStatus (as_agent_id p) (as_status p)"

definition gw_OnSkillState :: "(SkillStatePayload, 'a app) handler" where
  "gw_OnSkillState deviceID p = UpdateDeviceSkillState deviceID p"

definition gw_OnFileAck :: "(FileAckPayload, 'a app) handler" where
  "gw_OnFileAck deviceID p = FR_OnFileAck p"

definition gw_OnVNCOpened :: "(VNCOpenedPayload, 'a app) handler" where
  "gw_OnVNCOpened deviceID p g =
    (if vo_status p = ''ready'' then
       (let (e, r) = MarkReady (vo_session_id p) (vo_rfb_password p) (ap_vnc g) in (e, g\<lparr>ap_vnc := r\<rparr>))
     else (None, g\<lparr>ap_vnc := MarkError (wall_clock g) (vo_session_id p) (vo_error p) (ap_vnc g)\<rparr>))"

definition gw_OnVNCClose :: "decoders \<Rightarrow> (payload, 'a app) handler" where
  "gw_OnVNCClose D deviceID raw g = (case unmarshal (d_VNCOpened D) raw of
     None \<Rightarrow> (Some EDecode, g)
   | Some p \<Rightarrow> V_Close (vo_session_id p)
       (g\<lparr>ap_vnc := CloseSession (wall_clock g) (vo_session_id p) (ap_vnc g)\<rparr>))"

definition gw_OnCredPushAck :: "(CredPushAckPayload, 'a app) handler" where
  "gw_OnCredPushAck deviceID p g =
     (if cpa_status p = ''INJECTED'' then C_Touch (cpa_credential_id p) g else (None, g))"

text \<open>The nonce is drawn from the random source; the row's times are set by the store.\<close>

definition captured :: "uuid \<Rightarrow> CredCapturePayload \<Rightarrow> EncryptResult \<Rightarrow> BrowserCredential" where
  "captured userID p enc = \<lparr>bc_id = 0, bc_user_id = userID, bc_label = cc_label p, bc_origin = cc_origin p,
     bc_storage_state_enc = er_StorageStateEnc enc, bc_nonce = er_Nonce enc, bc_auth_tag = er_AuthTag enc,
     bc_key_id = ''default'', bc_sha256 = er_SHA256 enc, bc_last_used_at = None, bc_created_at = 0,
     bc_updated_at = 0\<rparr>"

definition gw_OnCredCapture :: "crypto \<Rightarrow> Vault \<Rightarrow> (CredCapturePayload, 'a app) handler" where
  "gw_OnCredCapture c v deviceID p g =
    (if \<not> IsConfigured v then (None, g) else
     (case cr_b64dec c (cc_storage_state p) of
        None \<Rightarrow> (Some (EHandler ''illegal base64 data''), g)
      | Some bytes \<Rightarrow>
      if cr_sha256 c bytes \<noteq> cc_sha256 p then (Some (EHandler ''sha256 mismatch''), g) else
      (let (random, g1) = rand_bytes g in
       case Encrypt c v (take 12 random) bytes of
         Inl e \<Rightarrow> (Some e, g1)
       | Inr enc \<Rightarrow> (case J_GetByID (cc_job_id p) g1 of
            (Inr (Some job), g2) \<Rightarrow>
              (case C_Create (captured (j_user_id job) p enc) g2 of
                 (Some e, _, g3) \<Rightarrow> (Some e, g3)
               | (None, cred, g3) \<Rightarrow> (None, snd (send_new deviceID FrameCredCaptureAck (PCredCaptureAck
                   \<lparr>cca_credential_id = bc_id cred, cca_session_id = cc_session_id p, cca_status = ''STORED'',
                    cca_error = ''''\<rparr>) g3)))
          | (_, g2) \<Rightarrow> (Some (EHandler ''job not found''), g2)))))"

definition gw_OnCredCaptureAck :: "(CredCaptureAckPayload, 'a app) handler" where
  "gw_OnCredCaptureAck deviceID p g = (None, g)"

definition gw_OnSkillDispatchAck :: "(payload, 'a app) handler" where
  "gw_OnSkillDispatchAck deviceID p g = (None, g)"

definition gw_OnFilePurged :: "'a app FileRelay \<Rightarrow> (payload, 'a app) handler" where
  "gw_OnFilePurged r deviceID p = CleanupStagedFiles r"

definition gw_OnJobLoginRequired :: "libs \<Rightarrow> (JobLoginRequiredPayload, 'a app) handler" where
  "gw_OnJobLoginRequired lb deviceID p g = (None,
     publish_event (JobTopic (uuid_str g) (jlr_job_id p)) ''job.login_required''
       (lb_login_json lb \<lparr>wl_job_id = uuid_str g (jlr_job_id p), wl_origin = jlr_origin p, wl_label = jlr_label p,
          wl_login_kind = jlr_login_kind p, wl_at = lb_rfc3339 lb (wall_clock g)\<rparr>) g)"

definition gw_OnDisconnect :: "(unit, 'a app) handler" where
  "gw_OnDisconnect deviceID u = D_UpdateStatus deviceID DeviceOffline"

definition gateway_config :: "libs \<Rightarrow> Settings \<Rightarrow> decoders \<Rightarrow> 'a app HubConfig" where
  "gateway_config lb st D = \<lparr>OnHello = Some (gw_OnHello (gateway_allocator lb st)),
     OnJobProgress = Some gw_OnJobProgress, OnJobResult = Some gw_OnJobResult,
     OnJobAccepted = Some gw_OnJobAccepted, OnJobRejected = Some gw_OnJobRejected,
     OnAgentStatus = Some gw_OnAgentStatus, OnStateSync = Some gw_OnStateSync,
     OnSkillState = Some gw_OnSkillState, OnFileAck = Some gw_OnFileAck,
     OnVNCOpened = Some gw_OnVNCOpened, OnVNCClose = Some (gw_OnVNCClose D),
     OnCredCapture = Some (gw_OnCredCapture (lb_crypto lb) (st_vault st)),
     OnCredPushAck = Some gw_OnCredPushAck, OnCredCaptureAck = Some gw_OnCredCaptureAck,
     OnSkillDispatchAck = Some gw_OnSkillDispatchAck, OnFilePurged = Some (gw_OnFilePurged (gateway_relay st)),
     OnFilePullBegin = Some (FR_OnFilePullBegin (gateway_relay st)),
     OnFilePullChunk = Some (FR_OnFilePullChunk (lb_crypto lb)),
     OnFilePullEnd = Some (FR_OnFilePullEnd (lb_crypto lb) (lb_unzip lb) (gateway_relay st)),
     OnJobLoginRequired = Some (gw_OnJobLoginRequired lb), OnDisconnect = Some gw_OnDisconnect\<rparr>"

end
