(* ===== verification/GatewayInv.thy ===== *)
theory GatewayInv
  imports Gateway
begin

text \<open>
  What holds through every operation of the gateway. The locale \<open>app_keeps\<close> extends \<open>store_keeps\<close> by the
  parts of the state the allocator does not know; in it every handler main installs keeps the property. It is
  interpreted on the invariant of the hub, on the memory of processed message ids and on the keys of the
  tables, which gives the interpretation of \<open>hub_client\<close> on the gateway's own configuration and
  \<open>gateway_invariant\<close>.
\<close>

section \<open>Handlers keep what their calls keep\<close>

locale app_fields = store_keeps P for P :: "'a app \<Rightarrow> bool" +
  assumes keeps_publish: "P g \<Longrightarrow> P (publish_event t typ pl g)"
    and keeps_MarkReady: "P g \<Longrightarrow> P (g\<lparr>ap_vnc := snd (MarkReady i pw (ap_vnc g))\<rparr>)"
    and keeps_MarkError: "P g \<Longrightarrow> P (g\<lparr>ap_vnc := MarkError now i msg (ap_vnc g)\<rparr>)"
    and keeps_CloseSession: "P g \<Longrightarrow> P (g\<lparr>ap_vnc := CloseSession now i (ap_vnc g)\<rparr>)"
    and keeps_vnc_tab: "P g \<Longrightarrow> P (g\<lparr>vnc_tab := vt\<rparr>)"
    and keeps_files: "P g \<Longrightarrow> P (g\<lparr>files_tab := fs\<rparr>)"
    and keeps_job_files: "P g \<Longrightarrow> P (g\<lparr>job_files_tab := jfs\<rparr>)"
    and keeps_device_skills: "P g \<Longrightarrow> P (g\<lparr>device_skills_tab := dss\<rparr>)"
    and keeps_agent_skills: "P g \<Longrightarrow> P (g\<lparr>agent_skills_tab := ass\<rparr>)"
    and keeps_skills: "P g \<Longrightarrow> P (g\<lparr>skills_tab := sks\<rparr>)"
    and keeps_versions: "P g \<Longrightarrow> P (g\<lparr>skill_versions_tab := svs\<rparr>)"
    and keeps_grants: "P g \<Longrightarrow> P (g\<lparr>skill_grants_tab := sgs\<rparr>)"
    and keeps_fs: "P g \<Longrightarrow> P (g\<lparr>ap_fs := fsy\<rparr>)"
    and keeps_pulls: "P g \<Longrightarrow> P (g\<lparr>ap_pullBufs := pb\<rparr>)"
    and keeps_rand: "P g \<Longrightarrow> P (g\<lparr>ap_rand_pos := n\<rparr>)"
    and keeps_panic: "P g \<Longrightarrow> P (g\<lparr>ap_panicked := True\<rparr>)"
begin

lemmas keeps_fields = keeps_MarkReady keeps_MarkError keeps_CloseSession keeps_vnc_tab keeps_files
  keeps_job_files keeps_device_skills keeps_agent_skills keeps_skills keeps_versions keeps_grants
  keeps_fs keeps_pulls keeps_rand keeps_panic

lemma keeps_exec: "P g \<Longrightarrow> (\<And>g. P g \<Longrightarrow> P (snd (f g))) \<Longrightarrow> P (snd (db_exec f g))"
  by (simp add: db_exec_def keeps_faults split: list.splits bool.splits)

end

text \<open>The credentials and their links to jobs are changed by their store only.\<close>

locale app_keeps = app_fields P for P :: "'a app \<Rightarrow> bool" +
  assumes keeps_C_Create: "P g \<Longrightarrow> P (snd (snd (C_Create cred g)))"
    and keeps_C_Update: "P g \<Longrightarrow> P (snd (C_Update cred g))"
    and keeps_C_Touch: "P g \<Longrightarrow> P (snd (C_Touch i g))"
    and keeps_C_Delete: "P g \<Longrightarrow> P (snd (C_Delete i g))"
    and keeps_C_LinkToJob: "P g \<Longrightarrow> P (snd (C_LinkToJob j i g))"

locale free_creds = app_fields P for P :: "'a app \<Rightarrow> bool" +
  assumes keeps_creds: "P g \<Longrightarrow> P (g\<lparr>creds_tab := cs\<rparr>)"
    and keeps_job_creds: "P g \<Longrightarrow> P (g\<lparr>job_creds_tab := jcs\<rparr>)"

sublocale free_creds \<subseteq> app_keeps
  by unfold_locales (auto simp: C_Create_def C_Update_def C_Touch_def C_Delete_def C_LinkToJob_def Let_def split_def
      intro!: keeps_exec keeps_creds keeps_job_creds keeps_uuid)

context app_keeps
begin

lemma keeps_on_fs: "P g \<Longrightarrow> P (snd (on_fs op g))"
  by (simp add: on_fs_def split_def Let_def keeps_fs)

lemma keeps_send_new: "P g \<Longrightarrow> P (snd (send_new d t p g))"
  unfolding send_new_def by (auto intro!: keep_cases keeps split: sum.splits)

lemma keeps_pull_ack: "P g \<Longrightarrow> P (sendPullAck d i s m k g)" "P g \<Longrightarrow> P (snd (pull_error d i s g))"
  by (simp_all add: sendPullAck_def pull_error_def keeps_send_new)

lemma keeps_tables:
  "P g \<Longrightarrow> P (snd (C_ListByJob i g))" "P g \<Longrightarrow> P (snd (F_GetByID i g))"
  "P g \<Longrightarrow> P (snd (V_Close i g))" "P g \<Longrightarrow> P (snd (F_UpdateStatus i fstat g))" "P g \<Longrightarrow> P (snd (F_MarkPurged i g))"
  "P g \<Longrightarrow> P (snd (F_LinkToJob i j role g))" "P g \<Longrightarrow> P (snd (snd (F_Create f g)))"
  "P g \<Longrightarrow> P (snd (F_ListByJob i g))" "P g \<Longrightarrow> P (snd (F_ListByJobAndRole i role g))"
  "P g \<Longrightarrow> P (snd (F_ListStagedCloud t g))"
  "P g \<Longrightarrow> P (snd (S_UpdateDeviceSkillStatus i j sst g))" "P g \<Longrightarrow> P (snd (S_SetAgentSkill ask g))"
  "P g \<Longrightarrow> P (snd (S_GetVersion i g))" "P g \<Longrightarrow> P (snd (S_SetDeviceSkill dsk g))"
  "P g \<Longrightarrow> P (snd (S_SetLatestVersion i ver g))" "P g \<Longrightarrow> P (snd (snd (S_CreateVersion sver g)))"
  "P g \<Longrightarrow> P (snd (snd (S_CreateSkill sk g)))" "P g \<Longrightarrow> P (snd (S_CreateGrant gr g))"
  "P g \<Longrightarrow> P (snd (S_DeleteGrant i pty j g))"
  by (auto simp: C_ListByJob_def F_GetByID_def V_Close_def S_GetVersion_def S_SetDeviceSkill_def
      S_SetLatestVersion_def S_CreateVersion_def S_CreateSkill_def S_CreateGrant_def S_DeleteGrant_def F_UpdateStatus_def F_MarkPurged_def
      F_LinkToJob_def F_Create_def F_ListByJob_def F_ListByJobAndRole_def F_ListStagedCloud_def
      S_UpdateDeviceSkillStatus_def S_SetAgentSkill_def Let_def split_def
      intro!: keeps_exec keeps_query keeps_fields keeps_uuid)

text \<open>Results of three parts, and loops over a state.\<close>

lemma keep_triple:
  "P (snd (snd m)) \<Longrightarrow> (\<And>r q. P (snd q) \<Longrightarrow> P (k r q)) \<Longrightarrow> P (case_prod k m)"
  "P (snd (snd m)) \<Longrightarrow> (\<And>r q. P (snd q) \<Longrightarrow> P (snd (l r q))) \<Longrightarrow> P (snd (case_prod l m))"
  by (cases m; simp)+

lemma keeps_foldl: "P g \<Longrightarrow> (\<And>g x. P g \<Longrightarrow> P (f g x)) \<Longrightarrow> P (foldl f g xs)"
  by (induction xs arbitrary: g) auto

section \<open>The file relay\<close>

lemma keeps_purge: "P g \<Longrightarrow> P (purge_staged fs g)" "P g \<Longrightarrow> P (purge_inputs fs g)"
  by (induction fs arbitrary: g)
    (auto simp: Let_def keeps_on_fs keeps_tables intro!: keep_case_state split: remove_result.splits)

lemma keeps_cleanup: "P g \<Longrightarrow> P (snd (CleanupStagedFiles r g))" "P g \<Longrightarrow> P (snd (CleanupJobFiles i g))"
  unfolding CleanupStagedFiles_def CleanupJobFiles_def
  by (auto intro!: keep_cases keeps_tables keeps_purge split: sum.splits)

lemma keeps_pull_begin: "P g \<Longrightarrow> P (snd (FR_OnFilePullBegin r d p g))"
  unfolding FR_OnFilePullBegin_def Let_def
  by (auto intro!: keep_cases keeps_pull_ack keeps_tables keeps_fields split: sum.splits)

lemma keeps_pull_chunk: "P g \<Longrightarrow> P (snd (FR_OnFilePullChunk c d p g))"
  unfolding FR_OnFilePullChunk_def
  by (auto intro!: keeps_pull_ack keeps_fields split: option.splits)

lemma keeps_extract_member: "P g \<Longrightarrow> P (extract_member c r j u dir g m)"
  unfolding extract_member_def Let_def
  by (auto intro!: keep_case_state keep_triple keeps_on_fs keeps_tables keeps_uuid split: option.splits)

lemma keeps_extract: "P g \<Longrightarrow> P (snd (extractZipOutputs c unzip r j u z dir g))"
  unfolding extractZipOutputs_def
  by (auto intro!: keep_cases keeps_on_fs keeps_foldl keeps_extract_member split: option.splits)

text \<open>The hook of the file relay must keep the property, as main's does.\<close>

lemma keeps_get_job_user: "P g \<Longrightarrow> P (snd (get_job_user_id j g))"
  unfolding get_job_user_id_def by (auto intro!: keep_cases keeps_queries split: sum.splits option.splits)

lemma keeps_register: "P g \<Longrightarrow> P (snd (register_output (gateway_relay st) pt uri g))"
  unfolding register_output_def gateway_relay_def Let_def
  by (auto intro!: keep_cases keep_triple keeps_get_job_user keeps_tables split: sum.splits)

lemma keeps_pull_end: "P g \<Longrightarrow> P (snd (FR_OnFilePullEnd c unzip (gateway_relay st) d p g))"
  unfolding FR_OnFilePullEnd_def Let_def
  by (auto intro!: keep_cases keeps_pull_ack keeps_fields keeps_on_fs keeps_register keeps_extract split: option.splits)

section \<open>The allocator with main's hooks\<close>

lemma keeps_push: "P g \<Longrightarrow> P (push_credentials c v j a d creds g)"
  by (induction creds arbitrary: g) (auto simp: keeps_C_Touch keeps_send_new split: sum.splits)

lemma keeps_PushCredentials: "P g \<Longrightarrow> P (snd (PushCredentialsForJob c v j a d g))"
  unfolding PushCredentialsForJob_def by (auto intro!: keep_cases keeps_tables keeps_push split: sum.splits)

lemma gateway_hooks: "hook_keeps P (gateway_allocator lb st)"
  by (auto simp: hook_keeps_def gateway_allocator_def SetDispatchDeps_def list_ids_def keeps_PushCredentials
      intro!: keep_cases keeps_tables split: sum.splits)

end

sublocale app_keeps \<subseteq> al: pool_hooks P "gateway_allocator lb st" for lb st
  by unfold_locales (rule gateway_hooks)

context app_keeps
begin

section \<open>The handlers\<close>

lemma keeps_name_agents: "P g \<Longrightarrow> P (name_agents as g)"
  by (induction as arbitrary: g) (simp_all add: keeps)

lemma keeps_hello: "P g \<Longrightarrow> P (snd (gw_OnHello (gateway_allocator lb st) d p g))"
  by (simp add: gw_OnHello_def Let_def al.ReconcilePool_inv keeps_name_agents keeps)

lemma keeps_release: "P g \<Longrightarrow> P (snd (Release i g))"
  unfolding Release_def by (auto intro!: keep_cases keeps split: option.splits)

lemma keeps_job_handlers:
  "P g \<Longrightarrow> P (snd (gw_OnJobProgress d p1 g))" "P g \<Longrightarrow> P (snd (gw_OnJobResult d p2 g))"
  "P g \<Longrightarrow> P (snd (gw_OnJobAccepted d p3 g))" "P g \<Longrightarrow> P (snd (gw_OnJobRejected d p4 g))"
  unfolding gw_OnJobProgress_def gw_OnJobResult_def gw_OnJobAccepted_def gw_OnJobRejected_def Let_def
  by (auto intro!: keep_cases keeps keeps_publish keeps_release keeps_cleanup keeps_queries
      split: option.splits sum.splits)

lemma keeps_sync_jobs: "P g \<Longrightarrow> P (sync_jobs_of ids a js g)"
  by (induction js arbitrary: g) (simp_all add: keeps keeps_release)

lemma keeps_sync_agents: "P g \<Longrightarrow> P (sync_agents_of ids as g)"
  by (induction as arbitrary: g) (auto simp: Let_def intro!: keep_case_state keeps_queries keeps_sync_jobs)

lemma keeps_sync: "P g \<Longrightarrow> P (snd (gw_OnStateSync d p g))"
  unfolding gw_OnStateSync_def Let_def by (auto intro!: keep_cases keeps_queries keeps_sync_agents)

lemma keeps_device_handlers:
  "P g \<Longrightarrow> P (snd (gw_OnAgentStatus d p1 g))" "P g \<Longrightarrow> P (snd (gw_OnSkillState d p2 g))"
  "P g \<Longrightarrow> P (snd (gw_OnFileAck d p3 g))" "P g \<Longrightarrow> P (snd (gw_OnVNCOpened d p4 g))"
  "P g \<Longrightarrow> P (snd (gw_OnVNCClose D d p5 g))" "P g \<Longrightarrow> P (snd (gw_OnCredPushAck d p6 g))"
  "P g \<Longrightarrow> P (snd (gw_OnDisconnect d u g))" "P g \<Longrightarrow> P (snd (gw_OnJobLoginRequired lb d p7 g))"
  "P g \<Longrightarrow> P (snd (gw_OnFilePurged r d p8 g))" "P g \<Longrightarrow> P (snd (gw_OnCredCaptureAck d p9 g))"
  "P g \<Longrightarrow> P (snd (gw_OnSkillDispatchAck d p10 g))"
  unfolding gw_OnAgentStatus_def gw_OnSkillState_def gw_OnFileAck_def gw_OnVNCOpened_def gw_OnVNCClose_def
    gw_OnCredPushAck_def gw_OnDisconnect_def gw_OnJobLoginRequired_def gw_OnFilePurged_def
    gw_OnCredCaptureAck_def gw_OnSkillDispatchAck_def UpdateDeviceSkillState_def FR_OnFileAck_def
  by (auto simp: Let_def split_def intro!: keeps keeps_tables keeps_C_Touch keeps_fields keeps_publish keeps_cleanup
      split: SkillScope.splits option.splits)

lemma keeps_capture: "P g \<Longrightarrow> P (snd (gw_OnCredCapture c v d p g))"
proof -
  have "P g \<Longrightarrow> P (snd (rand_bytes g))" for g by (simp add: rand_bytes_def keeps_rand)
  then show "P g \<Longrightarrow> P (snd (gw_OnCredCapture c v d p g))"
    unfolding gw_OnCredCapture_def Let_def
    by (auto intro!: keep_cases keep_triple keeps_queries keeps_C_Create keeps_send_new
        split: option.splits sum.splits)
qed

lemma gateway_keeps: "cfg_keeps (\<lambda>g g'. P g \<longrightarrow> P g') (gateway_config lb st D)"
  by (simp add: cfg_keeps_def keeps_def gateway_config_def keeps_hello keeps_job_handlers keeps_sync
      keeps_device_handlers keeps_capture keeps_pull_begin keeps_pull_chunk keeps_pull_end)

end


section \<open>What the gateway starts itself\<close>

context app_keeps
begin

lemma keeps_run_chunks: "P g \<Longrightarrow> P (snd (run_chunks d t sched ps g))"
proof -
  have c: "P (snd s) \<Longrightarrow> P (snd (send_chunk d t s p))" for s p
    by (auto simp: send_chunk_def split_def intro!: keeps_send_new split: option.splits)
  have "P (snd s) \<Longrightarrow> P (snd (foldl (send_chunk d t) s qs))" for s qs
    by (induction qs arbitrary: s) (simp_all add: c)
  then show "P g \<Longrightarrow> P (snd (run_chunks d t sched ps g))" by (simp add: run_chunks_def)
qed

lemma keeps_PushFile: "P g \<Longrightarrow> P (snd (PushFile c sched i j d g))"
  unfolding PushFile_def Let_def
  by (auto intro!: keep_cases keeps_tables keeps_on_fs keeps_send_new keeps_run_chunks split: sum.splits option.splits)

lemma keeps_push_files: "P g \<Longrightarrow> P (snd (push_files c sched fs j d g))"
  by (induction fs arbitrary: g) (auto intro!: keep_cases keeps_PushFile split: option.splits)

lemma keeps_PushJobInputs: "P g \<Longrightarrow> P (snd (PushJobInputs c sched job d g))"
  unfolding PushJobInputs_def by (auto intro!: keep_cases keeps_tables keeps_push_files split: sum.splits)

lemma keeps_StageFile: "P g \<Longrightarrow> P (snd (StageFile c r u n reader m g))"
  unfolding StageFile_def Let_def
  by (auto intro!: keep_cases keep_triple keeps_uuid keeps_tables keeps_on_fs split: option.splits)

lemma keeps_PublishVersion: "P g \<Longrightarrow> P (snd (PublishVersion c b i v m reader g))"
  unfolding PublishVersion_def Let_def
  by (auto intro!: keep_cases keep_triple keeps_tables keeps_on_fs split: option.splits)

lemma keeps_DispatchToDevice: "P g \<Longrightarrow> P (snd (DispatchToDevice c sched d i j g))"
  unfolding DispatchToDevice_def OpenArtifact_def Let_def
  by (auto intro!: keep_cases keeps_tables keeps_on_fs keeps_send_new keeps_run_chunks split: sum.splits option.splits)

lemma keeps_dispatch_all: "P g \<Longrightarrow> P (snd (dispatch_all c sched ds i j e g))"
  by (induction ds arbitrary: e g)
    (auto simp: Let_def intro!: keep_cases keeps_DispatchToDevice split: option.splits)

end

section \<open>Invariants of a part of the state\<close>

text \<open>
  A property that does not look at the tables of jobs, agents and devices is kept by all their operations.
\<close>

locale beside_tables =
  fixes P :: "'a pool \<Rightarrow> bool"
  assumes beside_jobs: "P g \<Longrightarrow> P (g\<lparr>jobs_tab := js\<rparr>)"
    and beside_agents: "P g \<Longrightarrow> P (g\<lparr>agents_tab := as\<rparr>)"
    and beside_devices: "P g \<Longrightarrow> P (g\<lparr>devices_tab := ds\<rparr>)"
    and beside_faults: "P g \<Longrightarrow> P (g\<lparr>faults := fs\<rparr>)"
    and beside_wakeups: "P g \<Longrightarrow> P (g\<lparr>pl_wakeups := n\<rparr>)"
    and beside_uuid: "P g \<Longrightarrow> P (snd (NewUUID g))"
    and beside_send: "P g \<Longrightarrow> P (snd (SendFrame d f g))"
begin

lemmas beside = beside_jobs beside_agents beside_devices beside_faults beside_wakeups beside_uuid beside_send

lemma beside_exec: "P g \<Longrightarrow> (\<And>g. P g \<Longrightarrow> P (snd (f g))) \<Longrightarrow> P (snd (db_exec f g))"
  by (simp add: db_exec_def beside_faults split: list.splits bool.splits)

lemma beside_jobs_ops:
  "P g \<Longrightarrow> P (snd (snd (J_Create j g)))" "P g \<Longrightarrow> P (snd (J_UpdateStatus i js g))"
  "P g \<Longrightarrow> P (snd (J_UpdateProgress i pc m js g))" "P g \<Longrightarrow> P (snd (J_UpdateResult i js r g))"
  "P g \<Longrightarrow> P (snd (J_SetAgent i a dv g))" "P g \<Longrightarrow> P (snd (J_ClearAgent i g))" "P g \<Longrightarrow> P (snd (J_Cancel i u g))"
  "P g \<Longrightarrow> P (snd (J_ExpireQueued g))" "P g \<Longrightarrow> P (snd (J_ExpireDispatched t g))"
  unfolding J_Create_def J_UpdateStatus_def J_UpdateProgress_def J_UpdateResult_def J_SetAgent_def
    J_ClearAgent_def J_Cancel_def J_ExpireQueued_def J_ExpireDispatched_def Let_def split_def
  by (auto intro!: beside_exec beside)

lemma beside_agent_ops:
  "P g \<Longrightarrow> P (snd (snd (A_Create ag g)))" "P g \<Longrightarrow> P (snd (A_Allocate i u jb g))"
  "P g \<Longrightarrow> P (snd (A_Release i g))" "P g \<Longrightarrow> P (snd (A_UpdateStatus i ast g))"
  "P g \<Longrightarrow> P (snd (A_UpdateName i nm g))" "P g \<Longrightarrow> P (snd (A_Delete i g))"
  unfolding A_Create_def A_Allocate_def A_Release_def A_UpdateStatus_def A_UpdateName_def A_Delete_def
    Let_def split_def
  by (auto intro!: beside_exec beside)

lemma beside_device_ops:
  "P g \<Longrightarrow> P (snd (snd (D_Create dev g)))" "P g \<Longrightarrow> P (snd (D_UpdateStatus i dst g))"
  "P g \<Longrightarrow> P (snd (D_UpdatePlatform i nm g))" "P g \<Longrightarrow> P (snd (D_Delete i g))"
  unfolding D_Create_def D_UpdateStatus_def D_UpdatePlatform_def D_Delete_def Let_def split_def
  by (auto intro!: beside_exec beside)

end

sublocale beside_tables \<subseteq> store_keeps P
  by unfold_locales (simp_all add: beside beside_jobs_ops beside_agent_ops beside_device_ops)

section \<open>The gateway's configuration respects the hub\<close>

interpretation idle: hub_client no_handlers
  by unfold_locales simp_all

text \<open>The parts of the state outside the hub do not matter to the invariant of the hub nor to its memory.\<close>

definition same_hub :: "'a Hub_scheme \<Rightarrow> 'a Hub_scheme \<Rightarrow> bool" where
  "same_hub g' g \<longleftrightarrow> hb_conn g' = hb_conn g \<and> hb_devices g' = hb_devices g \<and> hb_registry g' = hb_registry g
     \<and> hb_next g' = hb_next g"

lemma same_hub_inv: "hub_inv g \<Longrightarrow> same_hub g' g \<Longrightarrow> hub_inv g'"
  by (simp add: hub_inv_def same_hub_def)

lemma same_hub_remembers: "remembers h g \<Longrightarrow> same_hub g' g \<Longrightarrow> remembers h g'"
  by (simp add: remembers_def same_hub_def)

lemma same_hub_uuid: "same_hub (snd (NewUUID g)) g"
  by (simp add: same_hub_def NewUUID_def)

lemma same_hub_publish: "same_hub (publish_event t typ pl g) (g :: 'a app)"
  by (simp add: same_hub_def publish_event_def split: option.splits)

lemma remembers_SendFrame: "remembers h g \<Longrightarrow> remembers h (snd (SendFrame d f g))"
  by (rule remembers_trans, assumption) (rule idle.mem.keep_frames)

interpretation hub_side: beside_tables hub_inv
  by unfold_locales (erule hub_inv_SendFrame same_hub_inv, (rule same_hub_uuid | simp add: same_hub_def)?)+

interpretation hub_ok: free_creds "hub_inv :: 'a app \<Rightarrow> bool"
  by unfold_locales (erule same_hub_inv, (rule same_hub_publish | simp add: same_hub_def)?)+

interpretation memory_side: beside_tables "remembers h" for h :: "'a pool"
  by unfold_locales (erule remembers_SendFrame same_hub_remembers, (rule same_hub_uuid | simp add: same_hub_def)?)+

interpretation memory_ok: free_creds "remembers h" for h :: "'a app"
  by unfold_locales (erule same_hub_remembers, (rule same_hub_publish | simp add: same_hub_def)?)+

lemma keeps_from_start:
  fixes R :: "'a \<Rightarrow> 'a \<Rightarrow> bool"
  assumes "\<And>h. cfg_keeps (\<lambda>g g'. R h g \<longrightarrow> R h g') cfg" "\<And>h. R h h"
  shows "cfg_keeps R cfg"
proof -
  have k: "keeps R f" if "\<And>h. keeps (\<lambda>g g'. R h g \<longrightarrow> R h g') f" for f :: "('p, 'a) handler option"
    using that assms(2) by (fastforce simp: keeps_def split: option.splits)
  show ?thesis using assms(1) unfolding cfg_keeps_def by (simp add: k)
qed

interpretation gw: hub_client "gateway_config lb st D"
proof (unfold_locales)
  show "cfg_keeps inv_kept (gateway_config lb st D)"
    unfolding inv_kept_def [abs_def] by (rule hub_ok.gateway_keeps)
  show "cfg_keeps remembers (gateway_config lb st D)"
    by (rule keeps_from_start [OF memory_ok.gateway_keeps remembers_refl])
qed

end
