(* ===== verification/GatewayProps.thy ===== *)
theory GatewayProps
  imports GatewayInv
begin

text \<open>
  What the gateway as a whole promises. \<open>gateway_step\<close> is everything that can happen to its state: traffic of
  the tunnel with main's handlers installed, the allocator, the broker, the VNC relay, uploads, pushes,
  publications and the credentials users keep. \<open>gateway_invariant\<close> carries the invariants of the parts
  through all of it, \<open>listed_own\<close> says whose credentials a job can reach.
\<close>

section \<open>The rest of the state\<close>

lemma more_fields:
  assumes "Hub.more g' = Hub.more (g :: 'a app)"
  shows "jobs_tab g' = jobs_tab g" "agents_tab g' = agents_tab g" "devices_tab g' = devices_tab g"
    "ap_broker g' = ap_broker g" "ap_vnc g' = ap_vnc g" "creds_tab g' = creds_tab g"
    "job_creds_tab g' = job_creds_tab g" "ap_panicked g' = ap_panicked g"
  using assms by (cases g; cases g'; simp)+

lemma more_SendFrame: "Hub.more (snd (SendFrame d f g)) = Hub.more g"
  by (simp add: SendFrame_def Let_def split: option.splits)

text \<open>The invariants of the tables, the broker and the VNC relay together.\<close>

definition parts_ok :: "'a app \<Rightarrow> bool" where
  "parts_ok g \<longleftrightarrow> broker_inv (ap_broker g) \<and> relay_inv (ap_vnc g)"

lemma same_parts: "parts_ok g \<Longrightarrow> ap_broker g' = ap_broker g \<Longrightarrow> ap_vnc g' = ap_vnc g \<Longrightarrow> parts_ok g'"
  by (simp add: parts_ok_def)

lemma parts_publish: "parts_ok g \<Longrightarrow> parts_ok (publish_event t typ pl g)"
  using Publish_ok [of "ap_broker g" t "\<lparr>ws_type = typ, ws_topic = t, ws_payload = pl\<rparr>"]
  by (auto simp: parts_ok_def publish_event_def)

lemma parts_vnc: "parts_ok g \<Longrightarrow> relay_inv r \<Longrightarrow> parts_ok (g\<lparr>ap_vnc := r\<rparr>)"
  by (simp add: parts_ok_def)

lemma parts_vnc_ops:
  "parts_ok g \<Longrightarrow> parts_ok (g\<lparr>ap_vnc := snd (MarkReady i pw (ap_vnc g))\<rparr>)"
  "parts_ok g \<Longrightarrow> parts_ok (g\<lparr>ap_vnc := MarkError now i msg (ap_vnc g)\<rparr>)"
  "parts_ok g \<Longrightarrow> parts_ok (g\<lparr>ap_vnc := CloseSession now i (ap_vnc g)\<rparr>)"
  by (simp_all add: parts_ok_def MarkReady_ok MarkError_ok CloseSession_inv)

interpretation parts_side: beside_tables "parts_ok :: 'a app \<Rightarrow> bool"
  by unfold_locales (erule same_parts; simp add: more_fields [OF more_SendFrame] NewUUID_def)+

interpretation parts: free_creds "parts_ok :: 'a app \<Rightarrow> bool"
  by unfold_locales (((rule parts_publish parts_vnc_ops, assumption) | (erule same_parts; simp))+)

text \<open>The keys of the tables do not look at the rest.\<close>

interpretation tables: free_creds "db_inv :: 'a app \<Rightarrow> bool"
  by unfold_locales
    (erule db_inv_same_tables [THEN iffD2, rotated 3]; simp add: publish_event_def split: option.splits)+

section \<open>Whose credentials\<close>

text \<open>
  Every credential linked to a job is one of the job's owner.
\<close>

definition job_owner :: "Job \<Rightarrow> uuid \<times> uuid" where
  "job_owner j = (j_id j, j_user_id j)"

definition cred_owner :: "BrowserCredential \<Rightarrow> uuid \<times> uuid" where
  "cred_owner c = (bc_id c, bc_user_id c)"

definition owned :: "'a app \<Rightarrow> bool" where
  "owned g \<longleftrightarrow> (\<forall>(j, c) \<in> set (job_creds_tab g). \<exists>u. (j, u) \<in> job_owner ` set (jobs_tab g)
     \<and> (c, u) \<in> cred_owner ` set (creds_tab g))"

lemma owned_grows:
  fixes g g' :: "'a app"
  assumes "owned g" "set (job_creds_tab g') \<subseteq> set (job_creds_tab g)"
    and "job_owner ` set (jobs_tab g) \<subseteq> job_owner ` set (jobs_tab g')"
    and "cred_owner ` set (creds_tab g) \<subseteq> cred_owner ` set (creds_tab g')"
  shows "owned g'"
  using assms unfolding owned_def by blast

definition creds_ok :: "'a app \<Rightarrow> bool" where
  "creds_ok g \<longleftrightarrow> distinct (map bc_id (creds_tab g)) \<and> owned g
     \<and> distinct (map (\<lambda>c. (bc_user_id c, bc_label c)) (creds_tab g))"

text \<open>An operation that adds jobs and leaves the credentials alone keeps it.\<close>

lemma creds_grow:
  fixes g g' :: "'a app"
  assumes "creds_ok g" "job_creds_tab g' = job_creds_tab g" "creds_tab g' = creds_tab g"
    and "job_owner ` set (jobs_tab g) \<subseteq> job_owner ` set (jobs_tab g')"
  shows "creds_ok g'"
proof -
  have "owned g'"
    by (rule owned_grows [of g]) (use assms in \<open>simp_all add: creds_ok_def\<close>)
  then show ?thesis using assms(1,3) by (simp add: creds_ok_def)
qed

lemma creds_same:
  fixes g g' :: "'a app"
  assumes "creds_ok g" "job_creds_tab g' = job_creds_tab g" "creds_tab g' = creds_tab g" "jobs_tab g' = jobs_tab g"
  shows "creds_ok g'"
  by (rule creds_grow [OF assms(1-3)]) (simp only: assms(4) subset_refl)

lemma creds_other [simp]:
  "creds_ok (g\<lparr>agents_tab := as\<rparr>) = creds_ok (g :: 'a app)"
  "creds_ok (g\<lparr>devices_tab := ds\<rparr>) = creds_ok g"
  "creds_ok (g\<lparr>faults := fs\<rparr>) = creds_ok g"
  "creds_ok (snd (NewUUID g)) = creds_ok g"
  by (simp_all add: creds_ok_def owned_def NewUUID_def)

lemma creds_exec: "creds_ok g \<Longrightarrow> (\<And>g. creds_ok g \<Longrightarrow> creds_ok (snd (f g))) \<Longrightarrow> creds_ok (snd (db_exec f g))"
  by (simp add: db_exec_def split: list.splits bool.splits)

lemma creds_update_jobs:
  assumes "creds_ok g" "\<And>j. job_owner (f j) = job_owner j"
  shows "creds_ok (g\<lparr>jobs_tab := sql_update P f (jobs_tab g)\<rparr>)"
  using assms(1) image_update_key [of job_owner f P "jobs_tab g", OF assms(2)]
  by (intro creds_grow [OF assms(1)]) simp_all

lemma creds_jobs_ops:
  assumes "creds_ok g"
  shows "creds_ok (snd (snd (J_Create j g)))" "creds_ok (snd (J_UpdateStatus i js g))"
    "creds_ok (snd (J_UpdateProgress i pc m js g))" "creds_ok (snd (J_UpdateResult i js r g))"
    "creds_ok (snd (J_SetAgent i a dv g))" "creds_ok (snd (J_ClearAgent i g))" "creds_ok (snd (J_Cancel i u g))"
    "creds_ok (snd (J_ExpireQueued g))" "creds_ok (snd (J_ExpireDispatched t g))"
proof -
  show "creds_ok (snd (snd (J_Create j g)))"
    using assms by (auto simp: J_Create_def Let_def split_def intro!: creds_exec intro: creds_grow)
qed (auto simp: J_UpdateStatus_def J_UpdateProgress_def J_UpdateResult_def J_SetAgent_def
    J_ClearAgent_def J_Cancel_def J_ExpireQueued_def J_ExpireDispatched_def Let_def job_owner_def fail_job_def
    intro!: creds_exec creds_update_jobs assms)

lemma creds_other_ops:
  assumes "creds_ok g"
  shows "creds_ok (snd (snd (A_Create ag g)))" "creds_ok (snd (A_Allocate i u jb g))"
    "creds_ok (snd (A_Release i g))" "creds_ok (snd (A_UpdateStatus i ast g))"
    "creds_ok (snd (A_UpdateName i nm g))" "creds_ok (snd (A_Delete i g))"
    "creds_ok (snd (snd (D_Create dev g)))" "creds_ok (snd (D_UpdateStatus i dst g))"
    "creds_ok (snd (D_UpdatePlatform i nm g))" "creds_ok (snd (D_Delete i g))"
  by (auto simp: A_Create_def D_Create_def A_Allocate_def A_Release_def A_UpdateStatus_def A_UpdateName_def
      A_Delete_def D_UpdateStatus_def D_UpdatePlatform_def D_Delete_def Let_def split_def assms
      intro!: creds_exec)

interpretation creds_keep: store_keeps "creds_ok :: 'a app \<Rightarrow> bool"
  by unfold_locales
    (((rule creds_jobs_ops creds_other_ops, assumption) | (erule creds_same; simp add: NewUUID_def more_fields [OF more_SendFrame]))+)

text \<open>The store of credentials.\<close>

lemma creds_update_creds:
  assumes "creds_ok g" "\<And>c. bc_id (f c) = bc_id c" "\<And>c. bc_user_id (f c) = bc_user_id c"
    and "distinct (map (\<lambda>c. (bc_user_id c, bc_label c)) (sql_update P f (creds_tab g)))"
  shows "creds_ok (g\<lparr>creds_tab := sql_update P f (creds_tab g)\<rparr>)"
proof -
  have "cred_owner (f c) = cred_owner c" for c by (simp add: cred_owner_def assms(2,3))
  then have "cred_owner ` set (sql_update P f (creds_tab g)) = cred_owner ` set (creds_tab g)"
    by (rule image_update_key)
  moreover have "map bc_id (sql_update P f (creds_tab g)) = map bc_id (creds_tab g)"
    by (rule map_update_key) (rule assms(2))
  ultimately show ?thesis using assms(1,4) unfolding creds_ok_def owned_def by simp
qed

lemma creds_labels: "creds_ok g \<Longrightarrow> distinct (map (\<lambda>c. (bc_user_id c, bc_label c)) (creds_tab g))"
  by (simp add: creds_ok_def)

lemma creds_Touch: "creds_ok g \<Longrightarrow> creds_ok (snd (C_Touch i g))"
proof -
  have m: "map (\<lambda>c. (bc_user_id c, bc_label c)) (sql_update P (\<lambda>c. c\<lparr>bc_last_used_at := t\<rparr>) cs)
      = map (\<lambda>c. (bc_user_id c, bc_label c)) cs" for P t and cs :: "BrowserCredential list"
    by (rule map_update_key) simp
  show "creds_ok g \<Longrightarrow> creds_ok (snd (C_Touch i g))"
    by (auto simp: C_Touch_def Let_def m intro!: creds_exec creds_update_creds creds_labels)
qed

lemma creds_Update: "creds_ok g \<Longrightarrow> creds_ok (snd (C_Update c g))"
  by (auto simp: C_Update_def Let_def intro!: creds_exec creds_update_creds)

lemma creds_Create: "creds_ok g \<Longrightarrow> creds_ok (snd (snd (C_Create c g)))"
proof -
  have "creds_ok (k\<lparr>creds_tab := creds_tab k @ [x]\<rparr>)"
    if k: "creds_ok k" and "\<forall>b \<in> set (creds_tab k). bc_id b \<noteq> bc_id x \<and>
        (bc_user_id b = bc_user_id x \<longrightarrow> bc_label b \<noteq> bc_label x)" for k :: "'a app" and x
  proof -
    have "owned (k\<lparr>creds_tab := creds_tab k @ [x]\<rparr>)"
      by (rule owned_grows [of k]) (use k in \<open>auto simp: creds_ok_def\<close>)
    then show ?thesis using that by (auto simp: creds_ok_def)
  qed
  then show "creds_ok g \<Longrightarrow> creds_ok (snd (snd (C_Create c g)))"
    by (auto simp: C_Create_def Let_def split_def intro!: creds_exec)
qed

lemma creds_Delete: "creds_ok g \<Longrightarrow> creds_ok (snd (C_Delete i g))"
proof -
  have "creds_ok (k\<lparr>creds_tab := sql_delete (\<lambda>c. bc_id c = i) (creds_tab k)\<rparr>)"
    if k: "creds_ok k" "i \<notin> snd ` set (job_creds_tab k)" for k :: "'a app"
  proof -
    have "owned (k\<lparr>creds_tab := sql_delete (\<lambda>c. bc_id c = i) (creds_tab k)\<rparr>)"
      unfolding owned_def
    proof clarify
      fix j c assume "(j, c) \<in> set (job_creds_tab (k\<lparr>creds_tab := sql_delete (\<lambda>c. bc_id c = i) (creds_tab k)\<rparr>))"
      then have jc: "(j, c) \<in> set (job_creds_tab k)" by simp
      with k obtain u x where u: "(j, u) \<in> job_owner ` set (jobs_tab k)" "x \<in> set (creds_tab k)" "cred_owner x = (c, u)"
        unfolding creds_ok_def owned_def by fastforce
      have "c \<noteq> i" using k(2) jc by force
      then have "x \<in> set (sql_delete (\<lambda>c. bc_id c = i) (creds_tab k))"
        using u by (simp add: sql_delete_def cred_owner_def)
      then show "\<exists>u. (j, u) \<in> job_owner ` set (jobs_tab (k\<lparr>creds_tab := sql_delete (\<lambda>c. bc_id c = i) (creds_tab k)\<rparr>))
          \<and> (c, u) \<in> cred_owner ` set (creds_tab (k\<lparr>creds_tab := sql_delete (\<lambda>c. bc_id c = i) (creds_tab k)\<rparr>))"
        using u by force
    qed
    then show ?thesis using k(1) by (simp add: creds_ok_def sql_delete_def distinct_map_filter)
  qed
  then show "creds_ok g \<Longrightarrow> creds_ok (snd (C_Delete i g))"
    by (auto simp: C_Delete_def intro!: creds_exec)
qed

lemma creds_Link: "creds_ok g \<Longrightarrow> creds_ok (snd (C_LinkToJob j c g))"
proof -
  have "creds_ok (k\<lparr>job_creds_tab := job_creds_tab k @ [(j_id b, bc_id x)]\<rparr>)"
    if "creds_ok k" "b \<in> set (jobs_tab k)" "x \<in> set (creds_tab k)" "bc_user_id x = j_user_id b"
    for k :: "'a app" and b x
    using that by (auto simp: creds_ok_def owned_def job_owner_def cred_owner_def intro!: image_eqI)
  then show "creds_ok g \<Longrightarrow> creds_ok (snd (C_LinkToJob j c g))"
    by (auto simp: C_LinkToJob_def intro!: creds_exec)
qed

interpretation creds: app_keeps "creds_ok :: 'a app \<Rightarrow> bool"
  by unfold_locales
    (((rule creds_Create creds_Update creds_Touch creds_Delete creds_Link, assumption)
      | (erule creds_same; simp add: publish_event_def split: option.splits))+)

section \<open>The gateway as a step system\<close>

inductive gateway_step :: "libs \<Rightarrow> Settings \<Rightarrow> decoders \<Rightarrow> (string \<Rightarrow> string) \<Rightarrow> 'a app \<Rightarrow> 'a app \<Rightarrow> bool"
  for lb st D H where
  tunnel: "traffic D (gateway_config lb st D) g g' \<Longrightarrow> gateway_step lb st D H g g'"
| connect: "gateway_step lb st D H g (snd (NewDeviceConn d ws g))"
| prune: "gateway_step lb st D H g (dedup_prune c g)"
| pool: "pool_step (gateway_allocator lb st) g g' \<Longrightarrow> gateway_step lb st D H g g'"
| broker: "broker_step (ap_broker g) b \<Longrightarrow> gateway_step lb st D H g (g\<lparr>ap_broker := b\<rparr>)"
| vnc: "vnc_step H (ap_vnc g) r \<Longrightarrow> gateway_step lb st D H g (g\<lparr>ap_vnc := r\<rparr>)"
| upload: "gateway_step lb st D H g (snd (StageFile c (gateway_relay st) u name reader mime g))"
| link_file: "gateway_step lb st D H g (snd (F_LinkToJob f j role g))"
| inputs: "gateway_step lb st D H g (snd (PushJobInputs c sched job d g))"
| cleanup: "gateway_step lb st D H g (snd (CleanupStagedFiles (gateway_relay st) g))"
| publish: "gateway_step lb st D H g (snd (PublishVersion c dir i version manifest reader g))"
| dispatch_skill: "gateway_step lb st D H g (snd (DispatchToDevice c sched' d i v g))"
| grant: "gateway_step lb st D H g (snd (S_CreateGrant r' g))"
| new_cred: "gateway_step lb st D H g (snd (snd (C_Create cr g)))"
| rename_cred: "gateway_step lb st D H g (snd (C_Update cr g))"
| delete_cred: "gateway_step lb st D H g (snd (C_Delete i g))"
| link_cred: "gateway_step lb st D H g (snd (C_LinkToJob j i g))"

inductive_cases gateway_stepE: "gateway_step lb st D H g g'"

context app_keeps
begin

text \<open>What every part keeps, the whole keeps.\<close>

lemma keeps_gateway_step:
  assumes "gateway_step lb st D H g g'" "P g"
    and "\<And>g g'. traffic D (gateway_config lb st D) g g' \<Longrightarrow> P g \<Longrightarrow> P g'"
    and "\<And>d ws g. P g \<Longrightarrow> P (snd (NewDeviceConn d ws g))" "\<And>c g. P g \<Longrightarrow> P (dedup_prune c g)"
    and "\<And>g t. P g \<Longrightarrow> P (g\<lparr>wall_clock := t\<rparr>)"
    and "\<And>g b. broker_step (ap_broker g) b \<Longrightarrow> P g \<Longrightarrow> P (g\<lparr>ap_broker := b\<rparr>)"
    and "\<And>g r. vnc_step H (ap_vnc g) r \<Longrightarrow> P g \<Longrightarrow> P (g\<lparr>ap_vnc := r\<rparr>)"
  shows "P g'"
  using assms(1)
proof cases
  case pool
  then show ?thesis using al.pool_step_inv [OF assms(6)] assms(2) by blast
qed (use assms in \<open>auto intro: keeps_StageFile keeps_tables keeps_PushJobInputs keeps_cleanup keeps_PublishVersion
    keeps_DispatchToDevice keeps_C_Create keeps_C_Update keeps_C_Delete keeps_C_LinkToJob\<close>)

end

text \<open>What depends on the part of the state outside the hub only is carried through the tunnel.\<close>

lemma more_conn_ops:
  "Hub.more (snd (NewDeviceConn d ws g)) = Hub.more g" "Hub.more (dedup_prune c g) = Hub.more g"
  "Hub.more (g\<lparr>wall_clock := t\<rparr>) = Hub.more g"
  by (simp_all add: NewDeviceConn_def dedup_prune_def Let_def)

context app_keeps
begin

lemma keeps_traffic:
  assumes "\<And>g g'. Hub.more g' = Hub.more g \<Longrightarrow> P g \<Longrightarrow> P g'"
  shows "traffic D (gateway_config lb st D) g g' \<Longrightarrow> P g \<Longrightarrow> P g'"
proof -
  have "quiet_client (gateway_config lb st D) (\<lambda>g g'. P g \<longrightarrow> P g')"
    by unfold_locales (auto intro: assms gateway_keeps)
  then show "traffic D (gateway_config lb st D) g g' \<Longrightarrow> P g \<Longrightarrow> P g'"
    using quiet_client.keep_traffic by fastforce
qed

lemma keeps_outside:
  assumes "gateway_step lb st D H g g'" "P g"
    and more: "\<And>g g'. Hub.more g' = Hub.more g \<Longrightarrow> P g \<Longrightarrow> P g'"
    and "\<And>g b. broker_step (ap_broker g) b \<Longrightarrow> P g \<Longrightarrow> P (g\<lparr>ap_broker := b\<rparr>)"
    and "\<And>g r. vnc_step H (ap_vnc g) r \<Longrightarrow> P g \<Longrightarrow> P (g\<lparr>ap_vnc := r\<rparr>)"
  shows "P g'"
proof (rule keeps_gateway_step [OF assms(1,2)])
  show "P k'" if "traffic D (gateway_config lb st D) k k'" "P k" for k k'
    by (rule keeps_traffic [OF more that])
  show "P (snd (NewDeviceConn d ws k))" "P (dedup_prune c k)" "P (k\<lparr>wall_clock := t\<rparr>)" if "P k" for d ws c k t
    by (rule more [OF _ that], rule more_conn_ops)+
qed (rule assms; assumption)+

end

definition gateway_ok :: "'a app \<Rightarrow> bool" where
  "gateway_ok g \<longleftrightarrow> hub_inv g \<and> db_inv g \<and> broker_inv (ap_broker g) \<and> relay_inv (ap_vnc g) \<and> creds_ok g"

lemma gateway_step_ok:
  fixes g g' :: "'a app"
  assumes "gateway_step lb st D H g g'"
  shows "hub_inv g \<Longrightarrow> hub_inv g'" "db_inv g \<Longrightarrow> db_inv g'" "parts_ok g \<Longrightarrow> parts_ok g'" "creds_ok g \<Longrightarrow> creds_ok g'"
proof -
  show "hub_inv g'" if "hub_inv g"
  proof (rule hub_ok.keeps_gateway_step [OF assms that])
    show "hub_inv k'" if "traffic D (gateway_config lb st D) k k'" "hub_inv k" for k k'
      using gw.hub_inv_traffic that by blast
    show "hub_inv (k\<lparr>ap_broker := b\<rparr>)" "hub_inv (k\<lparr>ap_vnc := r\<rparr>)" if "hub_inv k" for k :: "'a app" and b r
      by (rule same_hub_inv [OF that]; simp add: same_hub_def)+
  qed (simp_all add: hub_inv_NewDeviceConn hub_inv_prune)
  show "db_inv g'" if "db_inv g"
  proof (rule tables.keeps_outside [OF assms that])
    show "db_inv k'" if "Hub.more k' = Hub.more k" "db_inv k" for k k' :: "'a app"
      using db_inv_same_tables [OF more_fields(1-3) [OF that(1)]] that(2) by simp
    show "db_inv (k\<lparr>ap_broker := b\<rparr>)" "db_inv (k\<lparr>ap_vnc := r\<rparr>)" if "db_inv k" for k :: "'a app" and b r
      by (rule db_inv_same_tables [THEN iffD2, OF _ _ _ that]; simp)+
  qed
  show "parts_ok g'" if "parts_ok g"
  proof (rule parts.keeps_outside [OF assms that])
    show "parts_ok k'" if "Hub.more k' = Hub.more k" "parts_ok k" for k k' :: "'a app"
      by (rule same_parts [OF that(2) more_fields(4) [OF that(1)] more_fields(5) [OF that(1)]])
    show "parts_ok (k\<lparr>ap_broker := b\<rparr>)" if "broker_step (ap_broker k) b" "parts_ok k" for k b
      using that broker_step_inv by (simp add: parts_ok_def)
    show "parts_ok (k\<lparr>ap_vnc := r\<rparr>)" if "vnc_step H (ap_vnc k) r" "parts_ok k" for k r
      using that vnc_step_ok [OF that(1)] by (simp add: parts_ok_def)
  qed
  show "creds_ok g'" if "creds_ok g"
  proof (rule creds.keeps_outside [OF assms that])
    show "creds_ok k'" if "Hub.more k' = Hub.more k" "creds_ok k" for k k' :: "'a app"
      by (rule creds_same [OF that(2) more_fields(7) [OF that(1)] more_fields(6) [OF that(1)] more_fields(1) [OF that(1)]])
    show "creds_ok (k\<lparr>ap_broker := b\<rparr>)" "creds_ok (k\<lparr>ap_vnc := r\<rparr>)" if "creds_ok k" for k :: "'a app" and b r
      by (rule creds_same [OF that]; simp)+
  qed
qed

lemma gateway_run_ok: "(gateway_step lb st D H)\<^sup>*\<^sup>* g g' \<Longrightarrow> gateway_ok g \<Longrightarrow> gateway_ok g'"
proof (induction rule: rtranclp_induct)
  case base
  then show ?case by simp
next
  case (step k k')
  then show ?case
    using gateway_step_ok [OF step.hyps(2)] by (simp add: gateway_ok_def parts_ok_def)
qed

text \<open>
  In every run of the gateway, whatever arrives through the tunnel, whatever the
  users do and whichever database calls, disk operations and socket writes fail, the hub's channels, trackers
  and device map, the keys of the tables, the broker's subscriptions, the VNC sessions and the
  ownership of linked credentials stay as their invariants say. Main's handlers are such that the
  promises of the tunnel hold of the hub they are installed in.
\<close>

theorem gateway_invariant:
  assumes "(gateway_step lb st D H)\<^sup>*\<^sup>* g g'" "gateway_ok g"
  shows "gateway_ok g'"
  using assms by (rule gateway_run_ok)

text \<open>What \<open>ListByJob\<close> returns for a job belongs to the user the job belongs to.\<close>

lemma listed_own:
  assumes ok: "db_inv g'" "creds_ok g'"
    and "C_ListByJob (j_id job) g' = (Inr creds, g'')" "job \<in> set (jobs_tab g')" "cred \<in> set creds"
  shows "bc_user_id cred = j_user_id job"
proof -
  from assms(3,5) have c: "cred \<in> set (creds_tab g')" "(j_id job, bc_id cred) \<in> set (job_creds_tab g')"
    by (auto simp: C_ListByJob_def db_query_def split: list.splits bool.splits)
  with ok obtain b x where bx: "b \<in> set (jobs_tab g')" "x \<in> set (creds_tab g')" "j_id b = j_id job"
      "bc_id x = bc_id cred" "bc_user_id x = j_user_id b"
    unfolding creds_ok_def owned_def by (fastforce simp: job_owner_def cred_owner_def)
  have "b = job" using ok bx assms(4) by (auto simp: db_inv_def distinct_map dest: inj_onD)
  moreover have "x = cred" using ok bx c by (auto simp: creds_ok_def distinct_map dest: inj_onD)
  ultimately show ?thesis using bx by simp
qed

definition sample_cred :: BrowserCredential where
  "sample_cred = \<lparr>bc_id = 3, bc_user_id = 9, bc_label = ''l'', bc_origin = ''o'', bc_storage_state_enc = [],
     bc_nonce = [], bc_auth_tag = [], bc_key_id = ''default'', bc_sha256 = '''', bc_last_used_at = None,
     bc_created_at = 0, bc_updated_at = 0\<rparr>"

definition sample_gateway :: App where
  "sample_gateway = sample_app\<lparr>jobs_tab := [sample_job 5 JobRunning], creds_tab := [sample_cred]\<rparr>"

lemma sample_gateway_ok: "gateway_ok sample_gateway"
  using NewBroker_inv NewRelay_inv [of "''n''" 65536 2 "\<lambda>_. \<lparr>wc_in = [], wc_out = [], wc_closed = False\<rparr>"]
  by (simp add: gateway_ok_def sample_gateway_def sample_app_def hub_inv_def conn_wf_def sample_conn_def
      gomap_wf_def tracker_wf_def outbound_cap_def db_inv_def sample_job_def creds_ok_def owned_def)

lemma sample_link:
  "(gateway_step lb st D H)\<^sup>*\<^sup>* sample_gateway (snd (C_LinkToJob 5 3 sample_gateway))"
  by (rule r_into_rtranclp [where r = "gateway_step lb st D H"]) (rule gateway_step.link_cred)

theorem gateway_invariant_witness: "gateway_ok (snd (C_LinkToJob 5 3 sample_gateway))"
  by (rule gateway_invariant [OF sample_link sample_gateway_ok])

section \<open>Pulled outputs\<close>

lemma gateway_hook_fs: "hook_keeps_fs (gateway_relay st)"
proof -
  have "ap_fs (snd (get_job_user_id j g)) = ap_fs g" for j and g :: "'a app"
    by (simp add: get_job_user_id_def J_GetByID_def db_query_def split_def split: list.splits bool.splits sum.splits option.splits)
  then show ?thesis by (simp add: hook_keeps_fs_def gateway_relay_def)
qed

text \<open>
  C11 (outputs_stay_below): whatever a device sends as the name, the chunks and the zip members of an output, the
  gateway writes and removes files only below the directory of the job the pull was begun for; beginning a
  pull, receiving a chunk and ending an unknown pull touch no file at all.
\<close>

theorem outputs_stay_below:
  fixes g :: "'a app"
  shows "ap_fs (snd (FR_OnFilePullBegin (gateway_relay st) d b g)) = ap_fs g
    \<and> ap_fs (snd (FR_OnFilePullChunk c d k g)) = ap_fs g
    \<and> (case map_of (ap_pullBufs g) (fpe_file_id p) of
        None \<Rightarrow> ap_fs (snd (FR_OnFilePullEnd c unzip (gateway_relay st) d p g)) = ap_fs g
      | Some pt \<Rightarrow> only_below (Clean (output_dir (gateway_relay st :: 'a app FileRelay) (uuid_str g) (pt_jobID pt))) (ap_fs g)
          (ap_fs (snd (FR_OnFilePullEnd c unzip (gateway_relay st) d p g))))"
proof (intro conjI)
  have q: "ap_fs (snd (F_ListByJobAndRole j role g)) = ap_fs g" for j role and g :: "'a app"
    by (simp add: F_ListByJobAndRole_def db_query_def split: list.splits bool.splits)
  show "ap_fs (snd (FR_OnFilePullBegin (gateway_relay st) d b g)) = ap_fs g"
    by (simp add: FR_OnFilePullBegin_def Let_def split_def q)
  show "ap_fs (snd (FR_OnFilePullChunk c d k g)) = ap_fs g"
    by (simp add: FR_OnFilePullChunk_def Let_def split: option.splits)
  show "case map_of (ap_pullBufs g) (fpe_file_id p) of
     None \<Rightarrow> ap_fs (snd (FR_OnFilePullEnd c unzip (gateway_relay st) d p g)) = ap_fs g
   | Some pt \<Rightarrow> only_below (Clean (output_dir (gateway_relay st :: 'a app FileRelay) (uuid_str g) (pt_jobID pt))) (ap_fs g)
       (ap_fs (snd (FR_OnFilePullEnd c unzip (gateway_relay st) d p g)))"
  proof (cases "map_of (ap_pullBufs g) (fpe_file_id p)")
    case None
    then show ?thesis by (simp add: FR_OnFilePullEnd_def)
  next
    case (Some pt)
    then show ?thesis using FR_OnFilePullEnd_below [OF gateway_hook_fs Some] by simp
  qed
qed

section \<open>Credentials from capture to push\<close>

lemma captured_create:
  assumes "faults g = []" "uuid_seq g (uuid_pos g) \<notin> bc_id ` set (creds_tab g)"
    and "\<forall>b \<in> set (creds_tab g). bc_user_id b = u \<longrightarrow> bc_label b \<noteq> cc_label p"
  shows "\<exists>g' cred. C_Create (captured u p enc) g = (None, cred, g')
    \<and> creds_tab g' = creds_tab g @ [cred] \<and> bc_user_id cred = u \<and> bc_label cred = cc_label p \<and> bc_origin cred = cc_origin p
    \<and> bc_storage_state_enc cred = er_StorageStateEnc enc \<and> bc_nonce cred = er_Nonce enc
    \<and> bc_auth_tag cred = er_AuthTag enc \<and> bc_sha256 cred = er_SHA256 enc \<and> bc_last_used_at cred = None"
  using assms by (auto simp: C_Create_def captured_def Let_def NewUUID_def db_exec_def image_iff)

lemma send_new_creds: "creds_tab (snd (send_new d t p g)) = creds_tab g"
  by (auto simp: send_new_def NewFrame_def SendFrame_def Let_def NewUUID_def split: option.splits)

text \<open>
  C19 (capture_then_push): a browser session a device captures for a job comes back unchanged. The gateway
  stores it encrypted, as a credential of the job's owner; and whenever that credential is the one linked to a
  job, on any device and in any later state of the gateway, the push for that job queues exactly one
  CRED_PUSH frame, with the base64 of the bytes that were captured and their digest.
\<close>

theorem capture_then_push:
  assumes laws: "crypto_laws c" "vl_dataKey v \<noteq> []"
    and state: "cr_b64dec c (cc_storage_state p) = Some bs" "cr_sha256 c bs = cc_sha256 p" "length bs \<le> 10 * 2 ^ 20"
    and ok: "faults g = []" "length (ap_rand g (ap_rand_pos g)) = 32"
    and job: "find (\<lambda>j. j_id j = cc_job_id p) (jobs_tab g) = Some job"
    and new: "uuid_seq g (uuid_pos g) \<notin> bc_id ` set (creds_tab g)"
      "\<forall>b \<in> set (creds_tab g). bc_user_id b = j_user_id job \<longrightarrow> bc_label b \<noteq> cc_label p"
  shows "\<exists>g1 cred. gw_OnCredCapture c v d p g = (None, g1) \<and> creds_tab g1 = creds_tab g @ [cred]
    \<and> bc_user_id cred = j_user_id job \<and> bc_origin cred = cc_origin p
    \<and> (\<forall>g2 :: 'a app. \<forall>j2 a2 d2 c2. faults g2 = [] \<and> room d2 c2 1 g2
         \<and> filter (\<lambda>x. (j2, bc_id x) \<in> set (job_creds_tab g2)) (creds_tab g2) = [cred] \<longrightarrow>
       (\<exists>g3. PushCredentialsForJob c v j2 a2 d2 g2 = (None, g3)
         \<and> queued c2 g3 = queued c2 g2 @ [(FrameCredPush, PCredPush \<lparr>cp_job_id = j2, cp_credential_id = bc_id cred,
              cp_agent_id = a2, cp_origin = cc_origin p, cp_storage_state = cr_b64enc c bs,
              cp_sha256 = cc_sha256 p\<rparr>)]))"
proof -
  let ?n = "take 12 (ap_rand g (ap_rand_pos g))" and ?g = "g\<lparr>ap_rand_pos := Suc (ap_rand_pos g)\<rparr>"
  have conf: "IsConfigured v" using laws(2) by (simp add: IsConfigured_def)
  obtain enc where enc: "Encrypt c v ?n bs = Inr enc"
    using laws(2) state(3) by (simp add: Encrypt_def MaxCredentialSize_def Let_def)
  note dec = decrypt_encrypt [OF laws(1) _ enc]
  have sha: "er_SHA256 enc = cc_sha256 p" using Encrypt_Inr [OF enc] state(2) by simp
  obtain g1 cred where cr: "C_Create (captured (j_user_id job) p enc) ?g = (None, cred, g1)"
      "creds_tab g1 = creds_tab g @ [cred]" "bc_user_id cred = j_user_id job" "bc_origin cred = cc_origin p"
      "bc_storage_state_enc cred = er_StorageStateEnc enc" "bc_nonce cred = er_Nonce enc"
      "bc_auth_tag cred = er_AuthTag enc" "bc_sha256 cred = er_SHA256 enc"
    using captured_create [of ?g "j_user_id job" p enc] ok(1) new by auto
  have cap: "gw_OnCredCapture c v d p g = (None, snd (send_new d FrameCredCaptureAck (PCredCaptureAck
      \<lparr>cca_credential_id = bc_id cred, cca_session_id = cc_session_id p, cca_status = ''STORED'', cca_error = ''''\<rparr>) g1))"
    using ok(1) job enc by (simp add: gw_OnCredCapture_def conf state rand_bytes_def J_GetByID_def db_query_def cr(1))
  have sum: "bc_sha256 cred = cc_sha256 p" using sha cr(8) by simp
  have plain: "Decrypt c v (bc_storage_state_enc cred) (bc_nonce cred) (bc_auth_tag cred) (cc_sha256 p) = Inr bs"
    unfolding cr(5-7) sha [symmetric] by (rule dec) (simp add: ok(2))
  have push: "\<exists>g3. PushCredentialsForJob c v j2 a2 d2 g2 = (None, g3)
      \<and> queued c2 g3 = queued c2 g2 @ [(FrameCredPush, PCredPush \<lparr>cp_job_id = j2, cp_credential_id = bc_id cred,
           cp_agent_id = a2, cp_origin = cc_origin p, cp_storage_state = cr_b64enc c bs, cp_sha256 = cc_sha256 p\<rparr>)]"
    if g2: "faults g2 = []" "room d2 c2 1 g2"
      "filter (\<lambda>x. (j2, bc_id x) \<in> set (job_creds_tab g2)) (creds_tab g2) = [cred]" for g2 :: "'a app" and j2 a2 d2 c2
  proof -
    have room: "room d2 c2 (Suc 0) g2" using g2(2) by simp
    let ?p = "PCredPush \<lparr>cp_job_id = j2, cp_credential_id = bc_id cred, cp_agent_id = a2, cp_origin = cc_origin p,
       cp_storage_state = cr_b64enc c bs, cp_sha256 = cc_sha256 p\<rparr>"
    obtain g3 where g3: "send_new d2 FrameCredPush ?p g2 = (None, g3)" "queued c2 g3 = queued c2 g2 @ [(FrameCredPush, ?p)]"
      using send_new_room [OF room, of ?p FrameCredPush] by auto
    have touch: "queued c2 (snd (C_Touch i h)) = queued c2 h" for i and h :: "'a app"
      by (simp add: C_Touch_def db_exec_def queued_def Let_def split: list.splits bool.splits)
    have "PushCredentialsForJob c v j2 a2 d2 g2 = (None, snd (C_Touch (bc_id cred) g3))"
      using g2(1,3) by (simp add: PushCredentialsForJob_def conf C_ListByJob_def db_query_def plain g3(1) cr(4) sum)
    then show ?thesis using g3(2) touch by simp
  qed
  show ?thesis
    by (rule exI, rule exI [of _ cred]) (use cap cr(2-4) push in \<open>auto simp: send_new_creds\<close>)
qed

definition sample_vault :: Vault where
  "sample_vault = \<lparr>vl_dataKey = replicate 32 7, vl_keyID = ''default'', vl_kmsID = ''''\<rparr>"

definition sample_capture :: CredCapturePayload where
  "sample_capture = \<lparr>cc_session_id = 2, cc_job_id = 5, cc_agent_id = 3, cc_origin = ''o'',
     cc_storage_state = ''ab'', cc_storage_state_encoding = ''base64'', cc_sha256 = ''h'', cc_label = ''new''\<rparr>"

theorem capture_then_push_witness:
  "\<exists>g1 cred. gw_OnCredCapture plain_crypto sample_vault 7 sample_capture (sample_gateway\<lparr>uuid_seq := \<lambda>_. 1000\<rparr>) = (None, g1)
     \<and> bc_user_id cred = 9
     \<and> (\<exists>g3. PushCredentialsForJob plain_crypto sample_vault 5 3 7
           (sample_app\<lparr>creds_tab := [cred], job_creds_tab := [(5, bc_id cred)]\<rparr>) = (None, g3)
         \<and> length (queued 0 g3) = 1)"
proof -
  let ?g = "sample_gateway\<lparr>uuid_seq := \<lambda>_. 1000\<rparr>"
  have s: "cr_b64dec plain_crypto (cc_storage_state sample_capture) = Some (map (of_nat \<circ> of_char) ''ab'')"
    "find (\<lambda>j. j_id j = cc_job_id sample_capture) (jobs_tab ?g) = Some (sample_job 5 JobRunning)"
    "j_user_id (sample_job 5 JobRunning) = 9"
    by (simp_all add: plain_crypto_def sample_capture_def sample_gateway_def sample_job_def)
  have f: "cr_sha256 plain_crypto (map (of_nat \<circ> of_char) ''ab'') = cc_sha256 sample_capture"
    "length (map (of_nat \<circ> of_char) ''ab'') \<le> 10 * 2 ^ 20"
    "faults ?g = []" "length (ap_rand ?g (ap_rand_pos ?g)) = 32"
    "vl_dataKey sample_vault \<noteq> []"
    "uuid_seq ?g (uuid_pos ?g) \<notin> bc_id ` set (creds_tab ?g)"
    "\<forall>b \<in> set (creds_tab ?g). bc_user_id b = j_user_id (sample_job 5 JobRunning) \<longrightarrow> bc_label b \<noteq> cc_label sample_capture"
    by (simp_all add: sample_vault_def sample_capture_def plain_crypto_def sample_gateway_def sample_app_def sample_cred_def)
  note ctp = capture_then_push [OF plain_crypto_laws f(5) s(1) f(1,2,3,4) s(2) f(6,7), where d = 7]
  obtain g1 cred where r: "gw_OnCredCapture plain_crypto sample_vault 7 sample_capture ?g = (None, g1)" "bc_user_id cred = 9"
    and push: "\<And>(g2 :: App) j2 a2 d2 c2. faults g2 = [] \<Longrightarrow> room d2 c2 1 g2 \<Longrightarrow>
       filter (\<lambda>x. (j2, bc_id x) \<in> set (job_creds_tab g2)) (creds_tab g2) = [cred] \<Longrightarrow>
       \<exists>g3 x. PushCredentialsForJob plain_crypto sample_vault j2 a2 d2 g2 = (None, g3) \<and> queued c2 g3 = queued c2 g2 @ [x]"
    using ctp unfolding s(3) by blast
  let ?g2 = "sample_app\<lparr>creds_tab := [cred], job_creds_tab := [(5, bc_id cred)]\<rparr>"
  have "\<exists>g3 x. PushCredentialsForJob plain_crypto sample_vault 5 3 7 ?g2 = (None, g3) \<and> queued 0 g3 = queued 0 ?g2 @ [x]"
    by (rule push) (simp_all add: sample_app_def room_def sample_conn_def outbound_cap_def)
  then show ?thesis using r by (auto simp: queued_def sample_app_def sample_conn_def)
qed

section \<open>What devices may report\<close>

lemma sendAck_more: "Hub.more (sendAck c m g) = Hub.more g"
  by (rule quiet_ops)

text \<open>
  C37 (cancelled_job_runs): a user's cancellation does not hold: when any connected device, be it the one the job was
  sent to or not, then reports JOB_ACCEPTED with the id of the cancelled job, the job is running again, with the
  time it finished.
\<close>

theorem cancelled_job_runs:
  fixes g :: "'a app"
  assumes "db_inv g0" "J_Cancel jobID user g0 = (None, g)" "faults g = []"
    and f: "fr_type f = FrameJobAccepted" "unmarshal (d_JobAccepted D) (fr_payload f) = Some jobID"
    and c: "dc_hub (hb_conn g c)" "map_of (dc_processed (hb_conn g c)) (fr_msg_id f) = None"
  shows "\<exists>job. find (\<lambda>j. j_id j = jobID) (jobs_tab g) = Some job \<and> j_status job = JobCancelled
    \<and> find (\<lambda>j. j_id j = jobID) (jobs_tab (snd (handleFrame D (gateway_config lb st D) c f g)))
        = Some (job\<lparr>j_status := JobRunning, j_updated_at := wall_clock g\<rparr>)
    \<and> j_finished_at job = Some (wall_clock g)"
proof -
  let ?P = "\<lambda>j. j_id j = jobID \<and> j_user_id j = user \<and> \<not> IsTerminal (j_status j)"
  let ?F = "\<lambda>t j. j\<lparr>j_status := JobCancelled, j_finished_at := Some t, j_updated_at := t\<rparr>"
  from assms(2) have tab: "jobs_tab g = sql_update ?P (?F (wall_clock g)) (jobs_tab g0)"
    and some: "sql_count ?P (jobs_tab g0) \<noteq> 0"
    by (auto simp: J_Cancel_def db_exec_def Let_def split: list.splits bool.splits if_splits)
  from some obtain r where r: "r \<in> set (jobs_tab g0)" "?P r" by (auto simp: sql_count_def filter_empty_conv)
  have "find (\<lambda>j. j_id j = j_id r) (jobs_tab g0) = Some r"
    using assms(1) r(1) by (intro find_key_unique) (auto simp: db_inv_def)
  then have "find (\<lambda>j. j_id j = jobID) (jobs_tab g0) = Some r" using r(2) by simp
  then have job: "find (\<lambda>j. j_id j = jobID) (jobs_tab g) = Some (?F (wall_clock g) r)"
    unfolding tab using r(2) by (subst find_key_update) auto
  let ?h = "upd_conn c (\<lambda>x. x\<lparr>dc_processed := AList.update (fr_msg_id f) (unix (wall_clock g)) (dc_processed x)\<rparr>) g"
  let ?m = "J_UpdateStatus jobID JobRunning ?h"
  have "snd (handleFrame D (gateway_config lb st D) c f g) = sendAck c (fr_msg_id f) (snd ?m)"
    using f c by (simp add: handleFrame_def is_control_def frame_switch_def decode_then_def with_hub_def Let_def
        HandleJobAccepted_def call_handler_def gateway_config_def gw_OnJobAccepted_def split_def split: sum.splits)
  then have "jobs_tab (snd (handleFrame D (gateway_config lb st D) c f g)) = jobs_tab (snd ?m)"
    using more_fields(1) [OF sendAck_more] by metis
  moreover have "jobs_tab (snd ?m) = sql_update (\<lambda>j. j_id j = jobID) (\<lambda>j. j\<lparr>j_status := JobRunning,
      j_finished_at := j_finished_at j, j_queue_expires_at := j_queue_expires_at j, j_updated_at := wall_clock g\<rparr>) (jobs_tab g)"
    using assms(3) by (simp add: J_UpdateStatus_def db_exec_def IsTerminal_def)
  ultimately show ?thesis
    using job r(2) by (simp add: find_key_update)
qed

definition sample_settings :: Settings where
  "sample_settings = \<lparr>st_queueTTL = hour, st_maxQueuedPerUser = 5, st_fileStore = ''local:/data'',
     st_maxUploadBytes = 1000, st_fileRetentionHours = 1, st_vault = sample_vault\<rparr>"

definition sample_libs :: libs where
  "sample_libs = \<lparr>lb_crypto = plain_crypto, lb_unzip = (\<lambda>_. None), lb_rfc3339 = (\<lambda>_. ''''), lb_login_json = (\<lambda>_. '''')\<rparr>"

theorem cancelled_job_runs_witness:
  "\<exists>job. find (\<lambda>j. j_id j = 5) (jobs_tab (snd (handleFrame (sample_decoders\<lparr>d_JobAccepted := \<lambda>_. Some 5\<rparr>)
        (gateway_config sample_libs sample_settings (sample_decoders\<lparr>d_JobAccepted := \<lambda>_. Some 5\<rparr>)) 0
        ((sample_frame ''m'')\<lparr>fr_type := FrameJobAccepted, fr_payload := PRaw ''''\<rparr>) (snd (J_Cancel 5 9 sample_gateway))))) = Some job
     \<and> j_status job = JobRunning"
proof -
  have c: "J_Cancel 5 9 sample_gateway = (None, snd (J_Cancel 5 9 sample_gateway))"
    "faults (snd (J_Cancel 5 9 sample_gateway)) = []" "hb_conn (snd (J_Cancel 5 9 sample_gateway)) 0 = sample_conn 7"
    by (simp_all add: J_Cancel_def db_exec_def sample_gateway_def sample_app_def sample_job_def sql_count_def IsTerminal_def Let_def)
  have "db_inv sample_gateway" using sample_gateway_ok by (simp add: gateway_ok_def)
  from cancelled_job_runs [OF this c(1,2), of "(sample_frame ''m'')\<lparr>fr_type := FrameJobAccepted, fr_payload := PRaw ''''\<rparr>"
      "sample_decoders\<lparr>d_JobAccepted := \<lambda>_. Some 5\<rparr>" 0 sample_libs sample_settings]
  show ?thesis by (auto simp: c(3) sample_frame_def sample_decoders_def sample_conn_def unmarshal_def)
qed

text \<open>
  A device ends the process with one frame: a FILE_PULL_BEGIN with an acceptable name and size and
  a negative number of chunks panics in the goroutine that reads the connection, which does not recover.
\<close>

theorem hostile_pull_panics:
  fixes g :: "'a app"
  assumes f: "fr_type f = FrameFilePullBegin" "unmarshal (d_FilePullBegin D) (fr_payload f) = Some p"
    and c: "dc_hub (hb_conn g c)" "map_of (dc_processed (hb_conn g c)) (fr_msg_id f) = None"
    and p: "fpb_total_chunks p < 0" "fpb_size p \<le> st_maxUploadBytes st" "isSafeOutputName (fpb_name p)"
    and new: "\<forall>x \<in> set (files_tab g). f_name x \<noteq> fpb_name p"
  shows "ap_panicked (snd (handleFrame D (gateway_config lb st D) c f g))"
proof -
  let ?h = "upd_conn c (\<lambda>x. x\<lparr>dc_processed := AList.update (fr_msg_id f) (unix (wall_clock g)) (dc_processed x)\<rparr>) g"
  let ?m = "FR_OnFilePullBegin (gateway_relay st) (dc_deviceID (hb_conn g c)) p ?h"
  have "snd (handleFrame D (gateway_config lb st D) c f g) = sendAck c (fr_msg_id f) (snd ?m)"
    using f c by (simp add: handleFrame_def is_control_def frame_switch_def decode_then_def with_hub_def Let_def
        HandleFilePullBegin_def call_handler_def gateway_config_def split_def split: sum.splits option.splits)
  then have "ap_panicked (snd (handleFrame D (gateway_config lb st D) c f g)) = ap_panicked (snd ?m)"
    using more_fields(8) [OF sendAck_more] by metis
  moreover have "\<not> list_ex (\<lambda>x. f_name x = fpb_name p) (case fst (F_ListByJobAndRole (fpb_job_id p) ''output'' k) of
      Inl e \<Rightarrow> [] | Inr files \<Rightarrow> files)" if "files_tab k = files_tab g" for k :: "'a app"
    using new that by (auto simp: F_ListByJobAndRole_def db_query_def list_ex_iff split: list.splits bool.splits)
  then have "ap_panicked (snd ?m)"
    using p by (simp add: FR_OnFilePullBegin_def gateway_relay_def NewFileRelay_def split_def Let_def makeslice_ok_def)
  ultimately show ?thesis by simp
qed

definition sample_pull :: FilePullBeginPayload where
  "sample_pull = \<lparr>fpb_file_id = 4, fpb_job_id = 5, fpb_name = ''a.md'', fpb_size = 2, fpb_sha256 = ''h'',
     fpb_total_chunks = - 1\<rparr>"

theorem hostile_pull_panics_witness:
  "ap_panicked (snd (handleFrame (sample_decoders\<lparr>d_FilePullBegin := \<lambda>_. Some sample_pull\<rparr>)
     (gateway_config sample_libs sample_settings (sample_decoders\<lparr>d_FilePullBegin := \<lambda>_. Some sample_pull\<rparr>)) 0
     ((sample_frame ''m'')\<lparr>fr_type := FrameFilePullBegin, fr_payload := PRaw ''''\<rparr>) sample_gateway))"
proof -
  have n: "isSafeOutputName ''a.md''" by code_simp
  show ?thesis
    by (rule hostile_pull_panics [where p = sample_pull])
      (simp_all add: sample_frame_def sample_decoders_def unmarshal_def sample_gateway_def sample_app_def sample_conn_def
        sample_pull_def sample_settings_def n)
qed

section \<open>Where files go\<close>

lemma IsAbs_Join: "a \<noteq> [] \<Longrightarrow> IsAbs (Join a b) = IsAbs a"
proof -
  assume a: "a \<noteq> []"
  have "fst (Clean (Join a b)) = IsAbs a"
  proof (cases "b = []")
    case True
    then show ?thesis using a by (simp add: Join_def) (simp add: Clean_def)
  next
    case False
    then have "Clean (Join a b) = Clean (a @ ''/'' @ b)" using a by (simp add: Clean_Join)
    then show ?thesis using a by (simp add: Clean_def IsAbs_def HasPrefix_def) (cases a; simp)
  qed
  then show ?thesis by (simp add: Clean_def)
qed

text \<open>
  The setting of the file store has a prefix that the file relay strips and main does not when it makes the
  directory of the skill vault: the outputs of jobs go below the directory that was set, the artifacts of skills
  to a directory relative to the one the process runs in.
\<close>

theorem artifacts_misplaced:
  assumes "st_fileStore st = ''local:'' @ dir" "IsAbs dir"
  shows "IsAbs (output_dir (gateway_relay st :: 'a app FileRelay) str job) \<and> \<not> IsAbs (artifact_path (skills_dir st) str skill version)"
proof -
  have "dir \<noteq> []" using assms(2) by (auto simp: IsAbs_def HasPrefix_def)
  moreover have "fl_baseDir (gateway_relay st :: 'a app FileRelay) = dir"
    using assms(1) by (simp add: gateway_relay_def NewFileRelay_def HasPrefix_def)
  moreover have "Join a b \<noteq> []" if "a \<noteq> []" for a b
    using that by (simp add: Join_def)
  moreover have "\<not> IsAbs (skills_dir st)" "skills_dir st \<noteq> []"
    using assms(1) by (simp_all add: skills_dir_def IsAbs_def HasPrefix_def)
  ultimately show ?thesis
    using assms(2) by (simp add: output_dir_def artifact_path_def IsAbs_Join)
qed

theorem artifacts_misplaced_witness:
  "\<not> IsAbs (artifact_path (skills_dir sample_settings) (\<lambda>_. ''u'') 5 ''1.0'')"
proof -
  have "st_fileStore sample_settings = ''local:'' @ ''/data''" "IsAbs ''/data''"
    by (simp_all add: sample_settings_def IsAbs_def HasPrefix_def)
  then show ?thesis using artifacts_misplaced by blast
qed

end
