(* ===== verification/RateLimit.thy ===== *)
theory RateLimit
  imports Prelude
begin

text \<open>
  The rate limiters of \<open>httpapi/middleware.go\<close>: for every key the times of the admitted requests, cut to
  the window when the next request of the key arrives (\<open>admit\<close>) and to a longer age once a minute by a
  goroutine (\<open>sweep\<close>). The three middlewares differ in window, age, key and limit: the API limiter admits
  \<open>perSec\<close> requests a second per \<open>r.RemoteAddr\<close>, the one of the authentication routes \<open>maxPerMin\<close>
  a minute per \<open>r.RemoteAddr\<close>, the one of job submission \<open>maxPerMin\<close> a minute per user, or any number
  when the limit is not positive.

  A run is a list of requests and sweeps with the times the code reads. The code reads the time of a request
  before it takes the mutex, so a goroutine that waits for the mutex may enter with a time that is past; the
  theorems are about runs whose times do not decrease.
\<close>

section \<open>The limiter\<close>

definition times_of :: "('k, time list) gomap \<Rightarrow> 'k \<Rightarrow> time list" where
  "times_of tokens key = (case map_of tokens key of None \<Rightarrow> [] | Some ts \<Rightarrow> ts)"

definition after :: "time \<Rightarrow> time list \<Rightarrow> time list" where
  "after cutoff ts = filter (\<lambda>t. cutoff < t) ts"

definition admit :: "duration \<Rightarrow> int \<Rightarrow> 'k \<Rightarrow> time \<Rightarrow> ('k, time list) gomap \<Rightarrow> bool \<times> ('k, time list) gomap" where
  "admit window limit key now tokens = (let recent = after (now - window) (times_of tokens key) in
     if limit \<le> int (length recent) then (False, tokens)
     else (True, AList.update key (recent @ [now]) tokens))"

definition sweep :: "duration \<Rightarrow> time \<Rightarrow> ('k, time list) gomap \<Rightarrow> ('k, time list) gomap" where
  "sweep age now tokens =
     filter (\<lambda>(k, ts). ts \<noteq> []) (map (\<lambda>(k, ts). (k, after (now - age) ts)) tokens)"

definition api_admit :: "int \<Rightarrow> string \<Rightarrow> time \<Rightarrow> (string, time list) gomap \<Rightarrow> bool \<times> (string, time list) gomap" where
  "api_admit perSec = admit second perSec"

definition api_sweep :: "time \<Rightarrow> (string, time list) gomap \<Rightarrow> (string, time list) gomap" where
  "api_sweep = sweep minute"

definition auth_admit :: "int \<Rightarrow> string \<Rightarrow> time \<Rightarrow> (string, time list) gomap \<Rightarrow> bool \<times> (string, time list) gomap" where
  "auth_admit maxPerMin = admit minute maxPerMin"

definition auth_sweep :: "time \<Rightarrow> (string, time list) gomap \<Rightarrow> (string, time list) gomap" where
  "auth_sweep = sweep (2 * minute)"

definition job_admit :: "int \<Rightarrow> uuid \<Rightarrow> time \<Rightarrow> (uuid, time list) gomap \<Rightarrow> bool \<times> (uuid, time list) gomap" where
  "job_admit maxPerMin userID now tokens =
     (if maxPerMin \<le> 0 then (True, tokens) else admit minute maxPerMin userID now tokens)"

definition job_sweep :: "time \<Rightarrow> (uuid, time list) gomap \<Rightarrow> (uuid, time list) gomap" where
  "job_sweep = sweep (2 * minute)"

section \<open>Runs and the reference\<close>

datatype 'k limiter_event = Request 'k time | Sweep time

fun event_time :: "'k limiter_event \<Rightarrow> time" where
  "event_time (Request k t) = t"
| "event_time (Sweep t) = t"

text \<open>The requests a limiter admits, in order.\<close>

fun run_limiter :: "('k \<Rightarrow> time \<Rightarrow> 'm \<Rightarrow> bool \<times> 'm) \<Rightarrow> (time \<Rightarrow> 'm \<Rightarrow> 'm) \<Rightarrow> 'k limiter_event list \<Rightarrow> 'm
    \<Rightarrow> ('k \<times> time) list" where
  "run_limiter adm swp [] m = []"
| "run_limiter adm swp (Sweep t # es) m = run_limiter adm swp es (swp t m)"
| "run_limiter adm swp (Request k t # es) m = (case adm k t m of
     (True, m') \<Rightarrow> (k, t) # run_limiter adm swp es m'
   | (False, m') \<Rightarrow> run_limiter adm swp es m')"

text \<open>The requests of a key among a history that are later than \<open>t\<close>.\<close>

definition since :: "time \<Rightarrow> 'k \<Rightarrow> ('k \<times> time) list \<Rightarrow> time list" where
  "since t k h = map snd (filter (\<lambda>(k', t'). k' = k \<and> t < t') h)"

text \<open>
  The reference remembers everything it admitted, never sweeps, and admits a request exactly when fewer than
  the limit were admitted for its key within the window before it.
\<close>

fun reference :: "duration \<Rightarrow> int \<Rightarrow> 'k limiter_event list \<Rightarrow> ('k \<times> time) list \<Rightarrow> ('k \<times> time) list" where
  "reference window limit [] h = []"
| "reference window limit (Sweep t # es) h = reference window limit es h"
| "reference window limit (Request k t # es) h =
     (if int (length (since (t - window) k h)) < limit
      then (k, t) # reference window limit es (h @ [(k, t)]) else reference window limit es h)"

text \<open>At most \<open>limit\<close> requests of a key in any window.\<close>

definition in_window :: "time \<Rightarrow> duration \<Rightarrow> 'k \<Rightarrow> ('k \<times> time) list \<Rightarrow> time list" where
  "in_window s window k h = map snd (filter (\<lambda>(k', t'). k' = k \<and> s < t' \<and> t' \<le> s + window) h)"

definition windows_ok :: "duration \<Rightarrow> int \<Rightarrow> ('k \<times> time) list \<Rightarrow> bool" where
  "windows_ok window limit h \<longleftrightarrow> (\<forall>k s. length (in_window s window k h) \<le> nat limit)"

section \<open>Facts\<close>

lemma times_of_update: "times_of (AList.update k ts m) k' = (if k' = k then ts else times_of m k')"
  by (simp add: times_of_def gomap_simps)

lemma after_after: "after c (after d ts) = after (max c d) ts"
  by (simp add: after_def conj_commute)

lemma gomap_wf_sweep: "gomap_wf m \<Longrightarrow> gomap_wf (sweep age now m)"
proof -
  assume "gomap_wf m"
  then have "gomap_wf (map (\<lambda>(k, ts). (k, after (now - age) ts)) m)"
    by (simp add: gomap_wf_def comp_def case_prod_unfold)
  then show ?thesis by (simp add: sweep_def)
qed

lemma times_of_sweep:
  assumes "gomap_wf m" shows "times_of (sweep age now m) k = after (now - age) (times_of m k)"
proof -
  have "gomap_wf (map (\<lambda>(k, ts). (k, after (now - age) ts)) m)"
    using assms by (simp add: gomap_wf_def comp_def case_prod_unfold)
  then show ?thesis
    by (auto simp: times_of_def sweep_def gomap_filter map_of_map_snd after_def split: option.splits)
qed

lemma since_append: "since t k (h @ h') = since t k h @ since t k h'"
  by (simp add: since_def)

lemma since_mono: "s \<le> t \<Longrightarrow> after t (since s k h) = since t k h"
  by (induction h) (auto simp: since_def after_def)

lemma in_window_append: "in_window s w k (h @ h') = in_window s w k h @ in_window s w k h'"
  by (simp add: in_window_def)

lemma length_in_window_since: "t \<le> s + w \<Longrightarrow> length (in_window s w k h) \<le> length (since (t - w) k h)"
  by (induction h) (auto simp: in_window_def since_def)

lemma windows_ok_admit:
  assumes "windows_ok w n h" and "int (length (since (t - w) k h)) < n"
  shows "windows_ok w n (h @ [(k, t)])"
  unfolding windows_ok_def
proof (intro allI)
  fix k' s
  show "length (in_window s w k' (h @ [(k, t)])) \<le> nat n"
  proof (cases "k' = k \<and> s < t \<and> t \<le> s + w")
    case True
    then have "length (in_window s w k' h) \<le> length (since (t - w) k h)" by (simp add: length_in_window_since)
    then show ?thesis using assms(2) True by (simp add: in_window_append in_window_def)
  next
    case False
    then have "in_window s w k' [(k, t)] = []" by (auto simp: in_window_def)
    then show ?thesis using assms(1) by (simp add: windows_ok_def in_window_append)
  qed
qed

lemma reference_windows: "windows_ok w n h \<Longrightarrow> windows_ok w n (h @ reference w n es h)"
proof (induction es arbitrary: h)
  case Nil
  then show ?case by simp
next
  case (Cons e es)
  show ?case
  proof (cases e)
    case (Sweep t)
    then show ?thesis using Cons by simp
  next
    case (Request k t)
    show ?thesis
    proof (cases "int (length (since (t - w) k h)) < n")
      case True
      then have "windows_ok w n ((h @ [(k, t)]) @ reference w n es (h @ [(k, t)]))"
        using Cons by (intro Cons.IH windows_ok_admit)
      then show ?thesis using Request True by simp
    next
      case False
      then show ?thesis using Request Cons by simp
    qed
  qed
qed

section \<open>A limiter agrees with the reference\<close>

text \<open>
  \<open>shadows t m h\<close>: from the time \<open>t\<close> on the table \<open>m\<close> and the full history \<open>h\<close> show the same
  requests in a window.
\<close>

definition shadows :: "duration \<Rightarrow> time \<Rightarrow> ('k, time list) gomap \<Rightarrow> ('k \<times> time) list \<Rightarrow> bool" where
  "shadows window t m h \<longleftrightarrow> gomap_wf m \<and>
     (\<forall>k t'. t \<le> t' \<longrightarrow> after (t' - window) (times_of m k) = since (t' - window) k h)"

lemma shadows_start: "shadows w t [] []"
  by (simp add: shadows_def times_of_def after_def since_def)

lemma shadows_later: "shadows w t m h \<Longrightarrow> t \<le> t' \<Longrightarrow> shadows w t' m h"
  by (simp add: shadows_def)

lemma shadows_sweep:
  assumes "shadows w t m h" and "w \<le> a" shows "shadows w t (sweep a t m) h"
  using assms by (simp add: shadows_def gomap_wf_sweep times_of_sweep after_after max_absorb1)

lemma shadows_admit:
  assumes "shadows w t m h"
  shows "shadows w t (AList.update k (after (t - w) (times_of m k) @ [t]) m) (h @ [(k, t)])"
proof -
  have "after (t' - w) (times_of (AList.update k (after (t - w) (times_of m k) @ [t]) m) k')
      = since (t' - w) k' (h @ [(k, t)])" if "t \<le> t'" for k' t'
  proof (cases "k' = k")
    case True
    have "after (t' - w) (after (t - w) (times_of m k)) = since (t' - w) k h"
      using assms that by (simp add: shadows_def since_mono)
    then show ?thesis using True by (simp add: times_of_update since_append) (simp add: after_def since_def)
  next
    case False
    then show ?thesis using assms that by (simp add: times_of_update since_append shadows_def) (simp add: since_def)
  qed
  then show ?thesis using assms by (simp add: shadows_def)
qed

locale limiter =
  fixes adm :: "'k \<Rightarrow> time \<Rightarrow> ('k, time list) gomap \<Rightarrow> bool \<times> ('k, time list) gomap"
    and swp :: "time \<Rightarrow> ('k, time list) gomap \<Rightarrow> ('k, time list) gomap"
    and window :: duration
    and limit :: int
  assumes refuses: "limit \<le> int (length (after (t - window) (times_of m k))) \<Longrightarrow> adm k t m = (False, m)"
    and admits: "int (length (after (t - window) (times_of m k))) < limit \<Longrightarrow>
      adm k t m = (True, AList.update k (after (t - window) (times_of m k) @ [t]) m)"
    and sweeps: "shadows window t m h \<Longrightarrow> shadows window t (swp t m) h"
begin

lemma agrees:
  assumes "sorted (map event_time es)" and "shadows window t m h" and "\<forall>e \<in> set es. t \<le> event_time e"
  shows "run_limiter adm swp es m = reference window limit es h"
  using assms
proof (induction es arbitrary: t m h)
  case Nil
  then show ?case by simp
next
  case (Cons e es)
  have now: "shadows window (event_time e) m h" using Cons.prems by (auto intro: shadows_later)
  show ?case
  proof (cases e)
    case (Sweep u)
    then have "shadows window u (swp u m) h" using now by (simp add: sweeps)
    then show ?thesis using Cons.IH [of u "swp u m" h] Cons.prems(1) Sweep by auto
  next
    case (Request k u)
    have seen: "after (u - window) (times_of m k) = since (u - window) k h"
      using now Request by (simp add: shadows_def)
    show ?thesis
    proof (cases "int (length (since (u - window) k h)) < limit")
      case True
      have "shadows window u (AList.update k (after (u - window) (times_of m k) @ [u]) m) (h @ [(k, u)])"
        using now Request by (simp add: shadows_admit)
      from Cons.IH [OF _ this] show ?thesis
        using Cons.prems(1) Request True seen admits [of u m k] by auto
    next
      case False
      have "shadows window u m h" using now Request by simp
      from Cons.IH [OF _ this] show ?thesis
        using Cons.prems(1) Request False seen refuses [of u m k] by auto
    qed
  qed
qed

lemma exact:
  assumes "sorted (map event_time es)"
  shows "run_limiter adm swp es [] = reference window limit es []"
proof (cases es)
  case Nil
  then show ?thesis by simp
next
  case (Cons e es')
  show ?thesis
    by (rule agrees [OF assms shadows_start [of _ "event_time e"]]) (use assms Cons in auto)
qed

lemma bounded:
  assumes "sorted (map event_time es)"
  shows "length (in_window s window k (run_limiter adm swp es [])) \<le> nat limit"
  using reference_windows [of window limit "[]" es] exact [OF assms]
  by (simp add: windows_ok_def in_window_def)

end

lemma admit_limiter: "w \<le> a \<Longrightarrow> limiter (admit w n) (sweep a) w n"
  by unfold_locales (simp_all add: admit_def Let_def shadows_sweep)

interpretation api: limiter "api_admit n" api_sweep second n for n
  by (simp only: api_admit_def api_sweep_def) (rule admit_limiter, simp add: minute_def)

interpretation auth: limiter "auth_admit n" auth_sweep minute n for n
  by (simp only: auth_admit_def auth_sweep_def) (rule admit_limiter, simp)

lemma job_limiter: "0 < n \<Longrightarrow> limiter (job_admit n) job_sweep minute n"
  using admit_limiter [of minute "2 * minute" n] by (simp add: job_sweep_def job_admit_def [abs_def])

text \<open>With a limit that is not positive every submission is admitted.\<close>

lemma job_unlimited:
  "n \<le> 0 \<Longrightarrow> run_limiter (job_admit n) swp es m = run_limiter (\<lambda>k t m. (True, m)) swp es m"
  by (simp add: job_admit_def [abs_def])

text \<open>
  C31 (rate_limits_exact): sweeping and cutting the table changes no decision. Each of the three limiters
  admits a request exactly when fewer than its limit were admitted for the same key in the second or
  minute before it.
\<close>
theorem rate_limits_exact:
  assumes "sorted (map event_time es)" and "sorted (map event_time us)" and "0 < n"
  shows "run_limiter (api_admit n) api_sweep es [] = reference second n es []
    \<and> run_limiter (auth_admit n) auth_sweep es [] = reference minute n es []
    \<and> run_limiter (job_admit n) job_sweep us [] = reference minute n us []"
  using assms api.exact [of es n] auth.exact [of es n] limiter.exact [OF job_limiter, of n us] by simp_all

theorem rate_limits_exact_witness:
  "run_limiter (api_admit 2) api_sweep [Request ''a'' 0, Request ''a'' 1, Sweep minute, Request ''a'' minute] []
   = reference second 2 [Request ''a'' 0, Request ''a'' 1, Sweep minute, Request ''a'' minute] []"
  using rate_limits_exact [where es = "[Request ''a'' 0, Request ''a'' 1, Sweep minute, Request ''a'' minute]"
    and us = "[]" and n = 2] by (simp add: time_defs del: run_limiter.simps reference.simps)

text \<open>
  C16 (rate_limit_bound): whatever requests arrive and whenever the tables are swept, no key is admitted
  more often than the limit in any second (API) or minute (authentication, job submission).
\<close>
theorem rate_limit_bound:
  assumes "sorted (map event_time es)" and "sorted (map event_time us)" and "0 < n"
  shows "length (in_window s second k (run_limiter (api_admit n) api_sweep es [])) \<le> nat n
    \<and> length (in_window s minute k (run_limiter (auth_admit n) auth_sweep es [])) \<le> nat n
    \<and> length (in_window s minute u (run_limiter (job_admit n) job_sweep us [])) \<le> nat n"
  using assms api.bounded [of es s k n] auth.bounded [of es s k n] limiter.bounded [OF job_limiter, of n us s u]
  by simp_all

theorem rate_limit_bound_witness:
  "length (in_window 0 minute 7 (run_limiter (job_admit 1) job_sweep [Request (7 :: uuid) 1, Request 7 2, Request 7 3] []))
     \<le> 1"
  using rate_limit_bound [of "[]" "[Request (7 :: uuid) 1, Request 7 2, Request 7 3]" 1 0 _ 7]
  by (simp del: run_limiter.simps)

end
