(* ===== verification/Config.thy ===== *)
theory Config
  imports FilePath
begin

text \<open>
  The configuration (\<open>config/config.go\<close>): the fields \<open>Load\<close> reads from the environment, which is
  the work of a third-party package, the fields it derives, and the validation. Go's \<open>int\<close> and
  \<open>int64\<close> wrap around in the products (\<open>int64\<close>).
\<close>

definition int64 :: "int \<Rightarrow> int" where
  "int64 i = sint (word_of_int i :: 64 word)"

record Config =
  HTTPAddr :: string
  TLSCert :: string
  TLSKey :: string
  DBURL :: string
  JWTSecret :: string
  AccessTTL :: duration
  RefreshTTL :: duration
  FileStore :: string
  MaxUploadMB :: int
  HeartbeatS :: int
  AgentsPerUser :: int
  QueueTTL :: duration
  MaxQueuedPerUser :: int
  MaxUploadBytes :: int
  HeartbeatInterval :: duration
  HeartbeatMissThreshold :: duration
  ShutdownTimeout :: duration
  MetricsAddr :: string
  LogLevel :: string
  LogFormat :: string
  Env :: string
  CORSAllowedOrigins :: "string list"
  RateLimitAuthPerMin :: int
  RateLimitAPIPerSec :: int
  RateLimitJobSubmitPerMin :: int
  WSMaxSubscriptions :: int
  FileRetentionHours :: int
  JobResultRetentionDays :: int
  WebDistDir :: string
  PathPrefix :: string
  VNCIdleTTLSecs :: int
  VNCMaxTTLSecs :: int
  VNCMaxSessionsPerUser :: int
  VNCSessionBufBytes :: int
  CredKey :: string
  CredKMS :: string

text \<open>The messages of the rules a configuration breaks; it is valid when there are none.\<close>

definition config_errors :: "Config \<Rightarrow> string list" where
  "config_errors c =
     (if DBURL c = '''' then [''IAGENT_DB_URL is required''] else [])
   @ (if DBURL c \<noteq> '''' \<and> \<not> Contains (DBURL c) ''sslmode='' \<and> Env c \<noteq> ''development''
      then [''IAGENT_DB_URL must include sslmode parameter (e.g. sslmode=require, sslmode=verify-full)''] else [])
   @ (if JWTSecret c = '''' then [''IAGENT_JWT_SECRET is required''] else [])
   @ (if JWTSecret c \<noteq> '''' \<and> length (JWTSecret c) < 32
      then [''IAGENT_JWT_SECRET must be at least 32 characters''] else [])
   @ (if HeartbeatS c < 5 then [''IAGENT_HEARTBEAT_S must be at least 5''] else [])
   @ (if MaxUploadMB c < 1 then [''IAGENT_MAX_UPLOAD_MB must be at least 1''] else [])
   @ (if AgentsPerUser c < 1 then [''IAGENT_AGENTS_PER_USER must be at least 1''] else [])
   @ (if QueueTTL c < second then [''IAGENT_QUEUE_TTL must be at least 1s''] else [])
   @ (if MaxQueuedPerUser c < 1 then [''IAGENT_MAX_QUEUED_PER_USER must be at least 1''] else [])"

definition Load :: "(string + Config) \<Rightarrow> string + Config" where
  "Load parsed = (case parsed of Inl e \<Rightarrow> Inl (''failed to parse config: '' @ e)
   | Inr c0 \<Rightarrow>
       (let interval = int64 (HeartbeatS c0 * second);
            c = c0\<lparr>MaxUploadBytes := int64 (MaxUploadMB c0 * 1024 * 1024), HeartbeatInterval := interval,
                   HeartbeatMissThreshold := int64 (interval * 3)\<rparr>
        in if config_errors c \<noteq> [] then Inl (''invalid config: '' @ concat (map (\<lambda>e. e @ ''; '') (butlast (config_errors c)))
               @ last (config_errors c))
           else Inr c))"

lemma int64_small: "- (2 ^ 63) \<le> i \<Longrightarrow> i < 2 ^ 63 \<Longrightarrow> int64 i = i"
  by (simp add: int64_def signed_of_int signed_take_bit_int_eq_self)

text \<open>
  A configuration that loads has a secret of at least 32 characters, positive quotas and a heartbeat of at
  least five seconds; the limits of uploads and silence are positive as long as the products do not wrap.
\<close>

lemma loaded_config:
  assumes "Load parsed = Inr c"
  shows "32 \<le> length (JWTSecret c) \<and> DBURL c \<noteq> '''' \<and> 5 \<le> HeartbeatS c \<and> 1 \<le> AgentsPerUser c
    \<and> second \<le> QueueTTL c \<and> 1 \<le> MaxQueuedPerUser c \<and> 1 \<le> MaxUploadMB c"
proof -
  have "config_errors c = []" using assms by (auto simp: Load_def Let_def split: sum.splits if_splits)
  then show ?thesis by (auto simp: config_errors_def split: if_splits)
qed

lemma loaded_limits:
  assumes "Load parsed = Inr c" and "MaxUploadMB c < 2 ^ 43" and "HeartbeatS c < 2 ^ 31"
  shows "MaxUploadBytes c = MaxUploadMB c * 2 ^ 20 \<and> HeartbeatInterval c = HeartbeatS c * second
    \<and> HeartbeatMissThreshold c = 3 * HeartbeatInterval c"
proof -
  obtain c0 where "parsed = Inr c0" using assms(1) by (cases parsed) (simp_all add: Load_def)
  then have c0: "c = c0\<lparr>MaxUploadBytes := int64 (MaxUploadMB c0 * 1024 * 1024), HeartbeatInterval := int64 (HeartbeatS c0 * second),
      HeartbeatMissThreshold := int64 (int64 (HeartbeatS c0 * second) * 3)\<rparr>"
    using assms(1) by (simp add: Load_def Let_def split: if_splits)
  have "1 \<le> MaxUploadMB c" "5 \<le> HeartbeatS c" using loaded_config [OF assms(1)] by simp_all
  then show ?thesis using assms(2,3) by (simp add: c0 int64_small second_def)
qed

end
