(* ===== verification/Web.thy ===== *)
theory Web
  imports Gateway RateLimit
begin

text \<open>
  What the HTTP API adds to the state of the gateway: the tables of users, refresh tokens, organisations and
  the audit log with their stores (\<open>store/users.go\<close>, \<open>tokens.go\<close>, \<open>orgs.go\<close>,
  \<open>audit.go\<close>), the keys of the JWT manager, the tables of the rate limiters and the cache of idempotency
  keys; requests, responses and \<open>Dependencies\<close> (\<open>httpapi/router.go\<close>).

  A handler takes a request and the state to the response and the state, one call of a handler being one step.
  The body of a request is its text, decoded by parameters that stand for \<open>encoding/json\<close>; the body of a
  response is the Go value the handler passes to the encoder, which writes no field tagged \<open>json:"-"\<close>
  (hashes of passwords and tokens, paths of stored files). Matching URLs with routes and the values of URL
  parameters are the router's, a third-party package.
\<close>

section \<open>Rows and values\<close>

record AuditLog =
  al_id :: uuid
  al_user_id :: "uuid option"
  al_actor :: string
  al_action :: string
  al_target_type :: string
  al_target_id :: "uuid option"
  al_meta :: "(string \<times> string) list option"
  al_created_at :: time

record Claims =
  cl_subject :: string
  cl_issued_at :: time
  cl_expires_at :: "time option"
  cl_id :: string
  cl_role :: UserRole
  cl_tier :: UserTier
  cl_org_id :: "uuid option"

record JWTManager =
  jm_keys :: "(string, string) gomap"
  jm_activeKID :: string
  jm_accessTTL :: duration

datatype ErrorCode = ErrCodeQueueTimeout | ErrCodeDispatchTimeout | ErrCodeQueueFull | ErrCodeDeviceOffline
  | ErrCodeAgentUnavailable | ErrCodeSkillNotEnabled | ErrCodeLimitExceeded | ErrCodeValidationFailed
  | ErrCodeNotFound | ErrCodeUnauthorized | ErrCodeForbidden | ErrCodeConflict | ErrCodeInternalError

record AuthResponse =
  ar_access_token :: string
  ar_refresh_token :: string
  ar_expires_in :: int
  ar_user :: User

record JobResponse =
  jr_job :: Job
  jr_queue_position :: "int option"
  jr_estimated_wait_seconds :: "int option"
  jr_agent_id :: "uuid option"

record jobOutputFileEntry =
  oe_file_id :: uuid
  oe_name :: string
  oe_size :: int
  oe_sha256 :: string
  oe_created_at :: time

record SkillRolloutEntry =
  re_device_id :: uuid
  re_device_name :: string
  re_version :: string
  re_status :: SkillInstallStatus
  re_error :: "string option"
  re_updated_at :: time
  re_agents :: "SkillRolloutAgentEntry list"

record 'r PaginatedResponse =
  pg_items :: "'r list"
  pg_next_cursor :: "uuid option"
  pg_has_more :: bool

datatype body =
    BNone
  | BText string
  | BError ErrorCode string
  | BMessage "(string \<times> string) list"
  | BAuth AuthResponse
  | BUser User
  | BUsers "User list"
  | BUserPage "User PaginatedResponse"
  | BOrg Organization
  | BOrgPage "Organization PaginatedResponse"
  | BJobResponse JobResponse
  | BJob Job
  | BJobPage "Job PaginatedResponse"
  | BJobResult uuid JobStatus "string option"
  | BOutputs uuid "jobOutputFileEntry list"
  | BContent bytes
  | BZip "(string \<times> bytes) list"
  | BFile File
  | BFilePage "File PaginatedResponse"
  | BVNCOpen VNCOpenResponse
  | BVNCStatus VNCStatusResponse
  | BCredential CredentialResponse
  | BCredentials "CredentialResponse list"
  | BDevice Device
  | BDevicePage "Device PaginatedResponse"
  | BCreateDevice Device string
  | BEnrollment uuid string
  | BPoolSize uuid int
  | BAgent Agent
  | BAgents "Agent list"
  | BAgentPage "Agent PaginatedResponse"
  | BSkill Skill
  | BSkills "Skill list"
  | BSkillPage "Skill PaginatedResponse"
  | BSkillVersioned SkillWithLatestVersion
  | BSkillAdmin SkillWithLatestVersion "SkillGrant list"
  | BVersion SkillVersion
  | BGrants "SkillGrant list"
  | BRollout "SkillRolloutEntry list"

record idempotencyEntry =
  ie_status :: int
  ie_body :: body
  ie_expiresAt :: time

section \<open>The state\<close>

record Web = App +
  users_tab :: "User list"
  tokens_tab :: "RefreshToken list"
  orgs_tab :: "Organization list"
  audit_tab :: "AuditLog list"
  wb_jwt :: JWTManager
  wb_api_tokens :: "(string, time list) gomap"
  wb_auth_tokens :: "(string, time list) gomap"
  wb_job_tokens :: "(uuid, time list) gomap"
  wb_idempotency :: "(string, idempotencyEntry) gomap"

type_synonym 'a web = "'a Web_scheme"

section \<open>UserStore\<close>

text \<open>The column \<open>email\<close> is of type \<open>citext\<close>: it is compared without regard to case.\<close>

definition same_email :: "string \<Rightarrow> string \<Rightarrow> bool" where
  "same_email s t \<longleftrightarrow> map lower s = map lower t"

definition has_user :: "uuid \<Rightarrow> 'a web \<Rightarrow> bool" where
  "has_user i g \<longleftrightarrow> i \<in> u_id ` set (users_tab g)"

definition has_org :: "uuid \<Rightarrow> 'a web \<Rightarrow> bool" where
  "has_org i g \<longleftrightarrow> i \<in> o_id ` set (orgs_tab g)"

definition org_exists :: "uuid option \<Rightarrow> 'a web \<Rightarrow> bool" where
  "org_exists org g = (case org of None \<Rightarrow> True | Some i \<Rightarrow> has_org i g)"

definition U_Create :: "User \<Rightarrow> 'a web \<Rightarrow> err option \<times> User \<times> 'a web" where
  "U_Create u0 g0 = (let (i, g1) = NewUUID g0; now = wall_clock g1;
      u = u0\<lparr>u_id := i, u_created_at := now, u_updated_at := now,
        u_status := (if u_status u0 = UserStatusOther '''' then UserActive else u_status u0)\<rparr>;
      (e, g2) = db_exec (\<lambda>g. if has_user i g \<or> (\<exists>v \<in> set (users_tab g). same_email (u_email v) (u_email u)
             \<or> u_username v = u_username u) then (Some EUnique, g)
         else if \<not> org_exists (u_org_id u) g then (Some EForeignKey, g)
         else (None, g\<lparr>users_tab := users_tab g @ [u]\<rparr>)) g1
    in (e, u, g2))"

definition U_GetByID :: "uuid \<Rightarrow> (User option, 'a web) query" where
  "U_GetByID i = db_query (\<lambda>g. find (\<lambda>u. u_id u = i) (users_tab g))"

definition U_GetByEmail :: "string \<Rightarrow> (User option, 'a web) query" where
  "U_GetByEmail email = db_query (\<lambda>g. find (\<lambda>u. same_email (u_email u) email) (users_tab g))"

definition U_Update :: "User \<Rightarrow> 'a web exec" where
  "U_Update x g = (let now = wall_clock g;
       tab = (\<lambda>g. sql_update (\<lambda>u. u_id u = u_id x) (\<lambda>u. u\<lparr>u_email := u_email x, u_username := u_username x,
                u_role := u_role x, u_tier := u_tier x, u_org_id := u_org_id x, u_updated_at := now\<rparr>) (users_tab g)) in
     db_exec (\<lambda>g. if \<not> distinct (map (\<lambda>u. map lower (u_email u)) (tab g)) \<or> \<not> distinct (map u_username (tab g))
       then (Some EUnique, g)
       else if has_user (u_id x) g \<and> \<not> org_exists (u_org_id x) g then (Some EForeignKey, g)
       else (None, g\<lparr>users_tab := tab g\<rparr>)) g)"

definition U_UpdateTier :: "uuid \<Rightarrow> UserTier \<Rightarrow> 'a web exec" where
  "U_UpdateTier i tier g = (let now = wall_clock g in
     db_exec (\<lambda>g. (None, g\<lparr>users_tab :=
       sql_update (\<lambda>u. u_id u = i) (\<lambda>u. u\<lparr>u_tier := tier, u_updated_at := now\<rparr>) (users_tab g)\<rparr>)) g)"

definition U_List :: "uuid option \<Rightarrow> int \<Rightarrow> (User list \<times> uuid option, 'a web) query" where
  "U_List cursor limit = db_query (\<lambda>g. page_of u_id u_created_at (users_tab g) (users_tab g) cursor limit)"

section \<open>TokenStore\<close>

text \<open>The hash of a token has an index, but no constraint that makes it unique.\<close>

definition T_Create :: "RefreshToken \<Rightarrow> 'a web \<Rightarrow> err option \<times> RefreshToken \<times> 'a web" where
  "T_Create t0 g0 = (let (i, g1) = NewUUID g0; t = t0\<lparr>rt_id := i, rt_created_at := wall_clock g1\<rparr>;
      (e, g2) = db_exec (\<lambda>g. if i \<in> rt_id ` set (tokens_tab g) then (Some EUnique, g)
         else if \<not> has_user (rt_user_id t) g then (Some EForeignKey, g)
         else (None, g\<lparr>tokens_tab := tokens_tab g @ [t\<lparr>rt_revoked_at := None\<rparr>]\<rparr>)) g1
    in (e, t, g2))"

definition T_GetByHash :: "string \<Rightarrow> (RefreshToken option, 'a web) query" where
  "T_GetByHash hash = db_query (\<lambda>g. find (\<lambda>t. rt_token_hash t = hash) (tokens_tab g))"

abbreviation revoke_where :: "(RefreshToken \<Rightarrow> bool) \<Rightarrow> time \<Rightarrow> 'a web exec" where
  "revoke_where P now \<equiv> db_exec (\<lambda>g. (None, g\<lparr>tokens_tab :=
     sql_update P (\<lambda>t. t\<lparr>rt_revoked_at := Some now\<rparr>) (tokens_tab g)\<rparr>))"

definition T_Revoke :: "uuid \<Rightarrow> 'a web exec" where
  "T_Revoke i g = revoke_where (\<lambda>t. rt_id t = i) (wall_clock g) g"

definition T_RevokeFamily :: "string \<Rightarrow> 'a web exec" where
  "T_RevokeFamily family g = revoke_where (\<lambda>t. rt_family t = family \<and> rt_revoked_at t = None) (wall_clock g) g"

definition T_RevokeAllForUser :: "uuid \<Rightarrow> 'a web exec" where
  "T_RevokeAllForUser userID g =
     revoke_where (\<lambda>t. rt_user_id t = userID \<and> rt_revoked_at t = None) (wall_clock g) g"

definition T_DeleteExpired :: "'a web \<Rightarrow> (err + nat) \<times> 'a web" where
  "T_DeleteExpired g = (let now = wall_clock g; n = sql_count (\<lambda>t. rt_expires_at t < now) (tokens_tab g);
      (e, g1) = db_exec (\<lambda>g. (None, g\<lparr>tokens_tab := sql_delete (\<lambda>t. rt_expires_at t < now) (tokens_tab g)\<rparr>)) g
    in (case e of Some x \<Rightarrow> Inl x | None \<Rightarrow> Inr n, g1))"

section \<open>OrgStore\<close>

definition O_Create :: "Organization \<Rightarrow> 'a web \<Rightarrow> err option \<times> Organization \<times> 'a web" where
  "O_Create o0 g0 = (let (i, g1) = NewUUID g0; now = wall_clock g1;
      org = o0\<lparr>o_id := i, o_created_at := now, o_updated_at := now\<rparr>;
      (e, g2) = db_exec (\<lambda>g. if has_org i g \<or> o_name org \<in> o_name ` set (orgs_tab g) then (Some EUnique, g)
         else if \<not> has_user (o_created_by org) g then (Some EForeignKey, g)
         else (None, g\<lparr>orgs_tab := orgs_tab g @ [org]\<rparr>)) g1
    in (e, org, g2))"

definition O_GetByID :: "uuid \<Rightarrow> (Organization option, 'a web) query" where
  "O_GetByID i = db_query (\<lambda>g. find (\<lambda>x. o_id x = i) (orgs_tab g))"

definition O_List :: "uuid option \<Rightarrow> int \<Rightarrow> (Organization list \<times> uuid option, 'a web) query" where
  "O_List cursor limit = db_query (\<lambda>g. page_of o_id o_created_at (orgs_tab g) (orgs_tab g) cursor limit)"

definition O_Update :: "Organization \<Rightarrow> 'a web exec" where
  "O_Update x g = (let now = wall_clock g;
       tab = (\<lambda>g. sql_update (\<lambda>r. o_id r = o_id x) (\<lambda>r. r\<lparr>o_name := o_name x, o_description := o_description x,
                o_updated_at := now\<rparr>) (orgs_tab g)) in
     db_exec (\<lambda>g. if distinct (map o_name (tab g)) then (None, g\<lparr>orgs_tab := tab g\<rparr>) else (Some EUnique, g)) g)"

definition O_Delete :: "uuid \<Rightarrow> 'a web exec" where
  "O_Delete i = db_exec (\<lambda>g. if has_org i g \<and> (\<exists>u \<in> set (users_tab g). u_org_id u = Some i) then (Some EForeignKey, g)
     else (None, g\<lparr>orgs_tab := sql_delete (\<lambda>r. o_id r = i) (orgs_tab g)\<rparr>))"

definition O_AddMember :: "uuid \<Rightarrow> uuid \<Rightarrow> 'a web exec" where
  "O_AddMember orgID userID g = (let now = wall_clock g in
     db_exec (\<lambda>g. if has_user userID g \<and> \<not> has_org orgID g then (Some EForeignKey, g)
       else (None, g\<lparr>users_tab := sql_update (\<lambda>u. u_id u = userID)
              (\<lambda>u. u\<lparr>u_org_id := Some orgID, u_updated_at := now\<rparr>) (users_tab g)\<rparr>)) g)"

definition O_RemoveMember :: "uuid \<Rightarrow> 'a web exec" where
  "O_RemoveMember userID g = (let now = wall_clock g in
     db_exec (\<lambda>g. (None, g\<lparr>users_tab := sql_update (\<lambda>u. u_id u = userID)
       (\<lambda>u. u\<lparr>u_org_id := None, u_updated_at := now\<rparr>) (users_tab g)\<rparr>)) g)"

definition O_ListMembers :: "uuid \<Rightarrow> (User list, 'a web) query" where
  "O_ListMembers orgID = db_query (\<lambda>g. sort_key u_created_at (filter (\<lambda>u. u_org_id u = Some orgID) (users_tab g)))"

section \<open>AuditStore\<close>

definition Audit_Log :: "uuid \<Rightarrow> string \<Rightarrow> string \<Rightarrow> uuid option \<Rightarrow> (string \<times> string) list option \<Rightarrow> 'a web exec" where
  "Audit_Log actorID action targetType targetID detail g0 = (let (i, g1) = NewUUID g0;
      entry = \<lparr>al_id = i, al_user_id = Some actorID, al_actor = '''', al_action = action,
        al_target_type = targetType, al_target_id = targetID, al_meta = detail, al_created_at = wall_clock g1\<rparr>
    in db_exec (\<lambda>g. if i \<in> al_id ` set (audit_tab g) then (Some EUnique, g)
         else (None, g\<lparr>audit_tab := audit_tab g @ [entry]\<rparr>)) g1)"

text \<open>
  \<open>Log\<close> writes no actor, so the column is NULL in every row, and \<open>List\<close> scans it into a Go string,
  which fails for NULL: a page with a row in it is an error.
\<close>

definition Audit_List :: "uuid option \<Rightarrow> int \<Rightarrow> (AuditLog list \<times> uuid option, 'a web) query" where
  "Audit_List cursor limit g =
     (case db_query (\<lambda>g. page_of al_id al_created_at (audit_tab g) (audit_tab g) cursor limit) g of
        (Inl e, g1) \<Rightarrow> (Inl e, g1)
      | (Inr (rows, nxt), g1) \<Rightarrow>
          (if rows = [] then Inr (rows, nxt) else Inl (EHandler ''cannot scan NULL into *string''), g1))"

end
