(* ===== verification/Http.thy ===== *)
theory Http
  imports Web Config
begin

text \<open>
  Requests, responses, the services handlers use (\<open>Dependencies\<close> of \<open>httpapi/router.go\<close>), the
  helpers of \<open>httpapi/middleware.go\<close> and \<open>devices_handler.go\<close>, and the package \<open>auth\<close>:
  passwords, tokens and roles.

  Parameters (\<open>httplib\<close>) stand for \<open>encoding/json\<close>, \<open>model.ParseUUID\<close> over a
  third-party package, Argon2id and the JWT package, whose signed token is opened (\<open>jw_open\<close>: header and
  claims, unverified) and checked with a secret (\<open>jw_sig\<close>).
\<close>

section \<open>Requests and responses\<close>

record request =
  rq_method :: string
  rq_path :: string
  rq_header :: "string \<Rightarrow> string"
  rq_remote :: string
  rq_host :: string
  rq_tls :: bool
  rq_param :: "string \<Rightarrow> string"
  rq_query :: "string \<Rightarrow> string"
  rq_body :: string
  rq_claims :: "Claims option"
  rq_userID :: uuid

record response =
  rs_status :: int
  rs_header :: "(string \<times> string) list"
  rs_body :: body

type_synonym 'h handlerfunc = "request \<Rightarrow> 'h \<Rightarrow> response \<times> 'h"

definition writeJSON :: "int \<Rightarrow> body \<Rightarrow> response" where
  "writeJSON status b = \<lparr>rs_status = status, rs_header = [(''Content-Type'', ''application/json'')], rs_body = b\<rparr>"

definition writeError :: "int \<Rightarrow> ErrorCode \<Rightarrow> string \<Rightarrow> response" where
  "writeError status code message = writeJSON status (BError code message)"

definition httpError :: "string \<Rightarrow> int \<Rightarrow> response" where
  "httpError message status =
     \<lparr>rs_status = status, rs_header = [(''Content-Type'', ''text/plain; charset=utf-8'')], rs_body = BText message\<rparr>"

abbreviation badRequest :: "string \<Rightarrow> response" where
  "badRequest \<equiv> writeError 400 ErrCodeValidationFailed"

abbreviation internalError :: "string \<Rightarrow> response" where
  "internalError \<equiv> writeError 500 ErrCodeInternalError"

abbreviation notFound :: "string \<Rightarrow> response" where
  "notFound \<equiv> writeError 404 ErrCodeNotFound"

abbreviation accessDenied :: response where
  "accessDenied \<equiv> writeError 403 ErrCodeForbidden ''access denied''"

abbreviation message :: "int \<Rightarrow> string \<Rightarrow> response" where
  "message status m \<equiv> writeJSON status (BMessage [(''message'', m)])"

definition getUserID :: "request \<Rightarrow> uuid" where "getUserID r = rq_userID r"

definition getClaims :: "request \<Rightarrow> Claims option" where "getClaims r = rq_claims r"

definition getRole :: "request \<Rightarrow> UserRole" where
  "getRole r = (case rq_claims r of None \<Rightarrow> UserRoleOther '''' | Some c \<Rightarrow> cl_role c)"

section \<open>Bodies of requests\<close>

record RegisterRequest =
  rr_email :: string
  rr_username :: string
  rr_password :: string

record LoginRequest =
  lr_email :: string
  lr_password :: string

record SubmitJobRequest =
  sj_command :: string
  sj_skill_id :: "uuid option"
  sj_file_ids :: "uuid list"
  sj_credential_ids :: "uuid list"

record CreateSkillRequest =
  cs_key :: string
  cs_name :: string
  cs_description :: string
  cs_visibility :: SkillVisibility
  cs_status :: string

record SkillRetryRequest =
  srr_device_id :: uuid
  srr_agent_ids :: "uuid list"

record SkillGrantRequest =
  sgr_principal_type :: PrincipalType
  sgr_principal_id :: uuid

record CreateOrgRequest =
  co_name :: string
  co_description :: string

record CreateDeviceRequest =
  cd_name :: string
  cd_description :: string

record UpdateDeviceRequest =
  ud_name :: "string option"
  ud_description :: "string option"

record SaveLoginRequest =
  sl_origin :: string
  sl_label :: string

text \<open>A multipart form: the fields by name, and the uploaded files with name, type, content and whether reading ends well.\<close>

record upload =
  up_filename :: string
  up_content_type :: string
  up_data :: "bytes \<times> bool"

record multipart =
  mf_value :: "string \<Rightarrow> string"
  mf_file :: "string \<Rightarrow> upload option"

record jwt_token =
  jt_kid :: "string option"
  jt_hmac :: bool
  jt_claims :: Claims

record httplib =
  hl_ParseUUID :: "string \<Rightarrow> uuid option"
  jw_sign :: "string \<Rightarrow> string \<Rightarrow> Claims \<Rightarrow> string"
  jw_open :: "string \<Rightarrow> jwt_token option"
  jw_sig :: "string \<Rightarrow> string \<Rightarrow> bool"
  ar_hash :: "bytes \<Rightarrow> string \<Rightarrow> string option"
  ar_compare :: "string \<Rightarrow> string \<Rightarrow> bool option"
  js_register :: "string \<Rightarrow> RegisterRequest option"
  js_login :: "string \<Rightarrow> LoginRequest option"
  js_refresh :: "string \<Rightarrow> string option"
  js_submit :: "string \<Rightarrow> SubmitJobRequest option"
  js_skill :: "string \<Rightarrow> CreateSkillRequest option"
  js_version :: "string \<Rightarrow> string option"
  js_retry :: "string \<Rightarrow> SkillRetryRequest option"
  js_visibility :: "string \<Rightarrow> SkillVisibility option"
  js_grant :: "string \<Rightarrow> SkillGrantRequest option"
  js_org :: "string \<Rightarrow> CreateOrgRequest option"
  js_member :: "string \<Rightarrow> uuid option"
  js_tier :: "string \<Rightarrow> UserTier option"
  js_device :: "string \<Rightarrow> CreateDeviceRequest option"
  js_update_device :: "string \<Rightarrow> UpdateDeviceRequest option"
  js_pool_size :: "string \<Rightarrow> int option"
  js_enroll :: "string \<Rightarrow> string option"
  js_skill_id :: "string \<Rightarrow> uuid option"
  js_save_login :: "string \<Rightarrow> SaveLoginRequest option"
  js_label :: "string \<Rightarrow> string option"
  hl_multipart :: "int \<Rightarrow> request \<Rightarrow> multipart option"

record Dependencies =
  dp_Config :: Config
  dp_Settings :: Settings
  dp_libs :: libs
  dp_http :: httplib
  dp_audit :: bool
  dp_relay :: bool
  dp_cwd :: string
  dp_decoders :: decoders
  dp_chunks :: "uuid \<Rightarrow> chunk_event list"
    \<comment> \<open>the schedule of the acknowledgements while a file or an artifact is pushed\<close>

text \<open>\<open>model.ParseUUID(chi.URLParam(r, name))\<close>\<close>

definition param_id :: "Dependencies \<Rightarrow> request \<Rightarrow> string \<Rightarrow> uuid option" where
  "param_id deps r name = hl_ParseUUID (dp_http deps) (rq_param r name)"

text \<open>\<open>if deps.Audit != nil\<close>, the error ignored.\<close>

definition audit :: "Dependencies \<Rightarrow> uuid \<Rightarrow> string \<Rightarrow> string \<Rightarrow> uuid option \<Rightarrow> (string \<times> string) list option \<Rightarrow>
    'a web \<Rightarrow> 'a web" where
  "audit deps actor action typ target detail g =
     (if dp_audit deps then snd (Audit_Log actor action typ target detail g) else g)"

section \<open>Pagination\<close>

definition parseCursor :: "Dependencies \<Rightarrow> request \<Rightarrow> uuid option" where
  "parseCursor deps r = (let s = rq_query r ''cursor'' in
     if s = '''' then None else hl_ParseUUID (dp_http deps) s)"

text \<open>The number is computed in a 64-bit \<open>int\<close> that wraps around.\<close>

fun limit_digits :: "string \<Rightarrow> 64 word \<Rightarrow> 64 word option" where
  "limit_digits [] limit = Some limit"
| "limit_digits (c # cs) limit = (let n = of_char c :: int in
     if n < 48 \<or> 57 < n then None else limit_digits cs (limit * 10 + word_of_int (n - 48)))"

definition parseLimit :: "request \<Rightarrow> int \<Rightarrow> int" where
  "parseLimit r defaultLimit = (let q = rq_query r ''limit'' in
     if q = '''' then defaultLimit
     else case limit_digits q 0 of None \<Rightarrow> defaultLimit
       | Some limit \<Rightarrow> if sint limit = 0 \<or> 100 < sint limit then defaultLimit else sint limit)"

definition page :: "'r list \<times> uuid option \<Rightarrow> 'r PaginatedResponse" where
  "page p = \<lparr>pg_items = fst p, pg_next_cursor = snd p, pg_has_more = snd p \<noteq> None\<rparr>"

section \<open>Passwords\<close>

text \<open>The length is in bytes; a byte of a rune beyond ASCII is special, as its rune is.\<close>

definition ValidatePassword :: "string \<Rightarrow> string option" where
  "ValidatePassword password =
     (let upper = (\<lambda>c. CHR ''A'' \<le> c \<and> c \<le> CHR ''Z''); lowr = (\<lambda>c. CHR ''a'' \<le> c \<and> c \<le> CHR ''z'');
          digit = (\<lambda>c. CHR ''0'' \<le> c \<and> c \<le> CHR ''9'') in
      if length password < 12 then Some ''password must be at least 12 characters''
      else if \<not> list_ex upper password then Some ''password must contain at least one uppercase letter''
      else if \<not> list_ex lowr password then Some ''password must contain at least one lowercase letter''
      else if \<not> list_ex digit password then Some ''password must contain at least one digit''
      else if \<not> list_ex (\<lambda>c. \<not> upper c \<and> \<not> lowr c \<and> \<not> digit c) password
        then Some ''password must contain at least one special character''
      else None)"

section \<open>Tokens\<close>

definition str_bytes :: "string \<Rightarrow> bytes" where
  "str_bytes s = map (of_nat \<circ> of_char) s"

definition hex_digit :: "nat \<Rightarrow> char" where
  "hex_digit n = char_of (if n < 10 then 48 + n else 87 + n)"

definition hex_encode :: "bytes \<Rightarrow> string" where
  "hex_encode bs = concat (map (\<lambda>b. [hex_digit (unat b div 16), hex_digit (unat b mod 16)]) bs)"

text \<open>\<open>cr_sha256\<close> is the digest in hexadecimal.\<close>

definition HashToken :: "crypto \<Rightarrow> string \<Rightarrow> string" where
  "HashToken c token = cr_sha256 c (str_bytes token)"

text \<open>A source of random bytes that comes up short is the error of \<open>rand.Read\<close>.\<close>

definition IssueRefreshToken :: "crypto \<Rightarrow> 'a web \<Rightarrow> (err + string \<times> string) \<times> 'a web" where
  "IssueRefreshToken c g = (let (b, g1) = rand_bytes g in
     if length b < 64 then (Inl (EHandler ''failed to generate refresh token''), g1)
     else (let token = hex_encode (take 64 b) in (Inr (token, HashToken c token), g1)))"

definition new_kid :: "'a web \<Rightarrow> string \<times> 'a web" where
  "new_kid g = (let (u, g1) = NewUUID g in (''key-'' @ take 8 (uuid_str g1 u), g1))"

definition NewJWTManager :: "string \<Rightarrow> duration \<Rightarrow> 'a web \<Rightarrow> 'a web" where
  "NewJWTManager secret accessTTL g = (let (kid, g1) = new_kid g in
     g1\<lparr>wb_jwt := \<lparr>jm_keys = [(kid, secret)], jm_activeKID = kid, jm_accessTTL = accessTTL\<rparr>\<rparr>)"

definition AddKey :: "string \<Rightarrow> string \<Rightarrow> bool \<Rightarrow> JWTManager \<Rightarrow> JWTManager" where
  "AddKey kid secret makeActive m = m\<lparr>jm_keys := AList.update kid secret (jm_keys m),
     jm_activeKID := (if makeActive then kid else jm_activeKID m)\<rparr>"

definition RotateKey :: "string \<Rightarrow> 'a web \<Rightarrow> string \<times> 'a web" where
  "RotateKey newSecret g = (let (kid, g1) = new_kid g in (kid, g1\<lparr>wb_jwt := AddKey kid newSecret True (wb_jwt g1)\<rparr>))"

text \<open>The secret of a missing key is the empty one; times in claims are cut to seconds.\<close>

definition key_secret :: "JWTManager \<Rightarrow> string \<Rightarrow> string" where
  "key_secret m kid = (case map_of (jm_keys m) kid of None \<Rightarrow> '''' | Some s \<Rightarrow> s)"

definition numeric_date :: "time \<Rightarrow> time" where
  "numeric_date t = t div second * second"

definition IssueAccessToken :: "httplib \<Rightarrow> User \<Rightarrow> 'a web \<Rightarrow> string \<times> 'a web" where
  "IssueAccessToken hl user g = (let m = wb_jwt g; now = wall_clock g; (u, g1) = NewUUID g;
      claims = \<lparr>cl_subject = uuid_str g (u_id user), cl_issued_at = numeric_date now,
        cl_expires_at = Some (numeric_date (now + jm_accessTTL m)), cl_id = uuid_str g u,
        cl_role = u_role user, cl_tier = u_tier user, cl_org_id = u_org_id user\<rparr>
    in (jw_sign hl (key_secret m (jm_activeKID m)) (jm_activeKID m) claims, g1))"

text \<open>
  The key: by the header's id, else the active one, else any. A token is expired from its time of expiry on; one
  without that claim does not expire.
\<close>

definition verify_key :: "JWTManager \<Rightarrow> string option \<Rightarrow> string option" where
  "verify_key m kid = (case (case kid of Some k \<Rightarrow> if k \<noteq> '''' then map_of (jm_keys m) k else None | None \<Rightarrow> None) of
      Some s \<Rightarrow> Some s
    | None \<Rightarrow> (case map_of (jm_keys m) (jm_activeKID m) of
          Some s \<Rightarrow> Some s
        | None \<Rightarrow> (case jm_keys m of [] \<Rightarrow> None | (k, s) # _ \<Rightarrow> Some s)))"

definition VerifyToken :: "httplib \<Rightarrow> JWTManager \<Rightarrow> time \<Rightarrow> string \<Rightarrow> Claims option" where
  "VerifyToken hl m now token = (case jw_open hl token of
      None \<Rightarrow> None
    | Some t \<Rightarrow> if \<not> jt_hmac t then None
        else (case verify_key m (jt_kid t) of
            None \<Rightarrow> None
          | Some secret \<Rightarrow>
              if \<not> jw_sig hl token secret then None
              else if (case cl_expires_at (jt_claims t) of None \<Rightarrow> False | Some e \<Rightarrow> e \<le> now) then None
              else Some (jt_claims t)))"

definition ExtractUserID :: "httplib \<Rightarrow> Claims \<Rightarrow> uuid option" where
  "ExtractUserID hl claims = hl_ParseUUID hl (cl_subject claims)"

section \<open>Roles\<close>

definition IsAdmin :: "Claims \<Rightarrow> bool" where "IsAdmin c \<longleftrightarrow> cl_role c = RoleAdmin"

definition IsUser :: "Claims \<Rightarrow> bool" where "IsUser c \<longleftrightarrow> cl_role c = RoleUser"

definition RequireAdmin :: "Claims \<Rightarrow> err option" where
  "RequireAdmin c = (if IsAdmin c then None else Some (EHandler ''admin role required''))"

definition IsOwner :: "httplib \<Rightarrow> Claims \<Rightarrow> uuid \<Rightarrow> bool" where
  "IsOwner hl c owner \<longleftrightarrow> ExtractUserID hl c = Some owner"

definition RequireOwner :: "httplib \<Rightarrow> Claims \<Rightarrow> uuid \<Rightarrow> err option" where
  "RequireOwner hl c owner = (if IsOwner hl c owner then None else Some (EHandler ''resource not owned by user''))"

definition CanAccessAgent :: "httplib \<Rightarrow> Claims \<Rightarrow> Agent \<Rightarrow> err option" where
  "CanAccessAgent hl c agent = (if IsAdmin c then None
     else case a_user_id agent of
         None \<Rightarrow> Some (EHandler ''resource not owned by user'')
       | Some owner \<Rightarrow> (case ExtractUserID hl c of
             None \<Rightarrow> Some (EHandler ''invalid UUID'')
           | Some userID \<Rightarrow> if owner = userID then None else Some (EHandler ''resource not owned by user'')))"

definition CanManageDevice :: "Claims \<Rightarrow> err option" where "CanManageDevice = RequireAdmin"

definition CanManageSkills :: "Claims \<Rightarrow> err option" where "CanManageSkills = RequireAdmin"

definition CanManageOrgs :: "Claims \<Rightarrow> err option" where "CanManageOrgs = RequireAdmin"

definition CanSetUserTier :: "Claims \<Rightarrow> err option" where "CanSetUserTier = RequireAdmin"

definition CanSubmitJob :: "Claims \<Rightarrow> err option" where
  "CanSubmitJob c = (if cl_role c \<noteq> RoleAdmin \<and> cl_role c \<noteq> RoleUser then Some (EHandler ''forbidden'') else None)"

definition checkAgentAccess :: "httplib \<Rightarrow> Claims option \<Rightarrow> Agent \<Rightarrow> err option" where
  "checkAgentAccess hl claims agent = (case claims of
      None \<Rightarrow> Some (EHandler ''unauthorized'')
    | Some c \<Rightarrow> if cl_role c = RoleAdmin then None
        else (case a_user_id agent of
            None \<Rightarrow> Some (EHandler ''forbidden'')
          | Some owner \<Rightarrow> (case ExtractUserID hl c of
                None \<Rightarrow> Some (EHandler ''unauthorized'')
              | Some i \<Rightarrow> if i \<noteq> owner then Some (EHandler ''forbidden'') else None)))"

end
