(* ===== verification/AuthApi.thy ===== *)
theory AuthApi
  imports Http
begin

text \<open>
  The handlers of \<open>httpapi/auth_handler.go\<close>: registration, login, refreshing and logout, and the two of the
  probes.

  A login begins a family of refresh tokens; refreshing revokes the token shown and adds one to its family. The
  handler reads the token, revokes it and creates the next one in three calls of the database, which requests
  in parallel interleave: \<open>refresh_check\<close> is the part up to the answer of the first call,
  \<open>refresh_exchange\<close> the rest, and \<open>handleRefresh\<close> their composition.
\<close>

section \<open>Registration and login\<close>

definition new_refresh_token :: "uuid \<Rightarrow> string \<Rightarrow> string \<Rightarrow> time \<Rightarrow> RefreshToken" where
  "new_refresh_token userID hash family expires = \<lparr>rt_id = 0, rt_user_id = userID, rt_token_hash = hash,
     rt_expires_at = expires, rt_revoked_at = None, rt_user_agent = '''', rt_ip = '''', rt_created_at = 0,
     rt_family = family\<rparr>"

text \<open>\<open>int(d.Seconds())\<close>, cut towards zero\<close>

definition whole_seconds :: "duration \<Rightarrow> int" where
  "whole_seconds d = (if d < 0 then - (- d div second) else d div second)"

text \<open>
  The part the handlers share: an access token, a refresh token of the family, its row, the response and the
  entry of the audit log.
\<close>

definition issue_tokens :: "Dependencies \<Rightarrow> int \<Rightarrow> User \<Rightarrow> ('a web \<Rightarrow> string \<times> 'a web) \<Rightarrow>
    ('a web \<Rightarrow> 'a web) \<Rightarrow> 'a web \<Rightarrow> response \<times> 'a web" where
  "issue_tokens deps status user family record_it g =
    (let (accessToken, g1) = IssueAccessToken (dp_http deps) user g in
     case IssueRefreshToken (lb_crypto (dp_libs deps)) g1 of
       (Inl e, g2) \<Rightarrow> (internalError ''failed to issue refresh token'', g2)
     | (Inr (token, hash), g2) \<Rightarrow>
         (let (fam, g3) = family g2;
              rt = new_refresh_token (u_id user) hash fam (wall_clock g3 + RefreshTTL (dp_Config deps))
          in case T_Create rt g3 of
              (Some e, _, g4) \<Rightarrow> (internalError ''failed to store refresh token'', g4)
            | (None, _, g4) \<Rightarrow>
                (writeJSON status (BAuth \<lparr>ar_access_token = accessToken, ar_refresh_token = token,
                   ar_expires_in = whole_seconds (AccessTTL (dp_Config deps)), ar_user = user\<rparr>), record_it g4)))"

definition new_family :: "'a web \<Rightarrow> string \<times> 'a web" where
  "new_family g = (let (u, g1) = NewUUID g in (uuid_str g1 u, g1))"

definition new_user :: "RegisterRequest \<Rightarrow> string \<Rightarrow> User" where
  "new_user req hash = \<lparr>u_id = 0, u_email = rr_email req, u_username = rr_username req, u_password_hash = hash,
     u_status = UserStatusOther '''', u_role = RoleUser, u_tier = TierFree, u_org_id = None, u_created_at = 0,
     u_updated_at = 0\<rparr>"

definition handleRegister :: "Dependencies \<Rightarrow> 'a web handlerfunc" where
  "handleRegister deps r g = (case js_register (dp_http deps) (rq_body r) of
     None \<Rightarrow> (badRequest ''invalid request body'', g)
   | Some req \<Rightarrow>
     if rr_email req = '''' \<or> rr_password req = '''' \<or> rr_username req = ''''
     then (badRequest ''email, password, and name are required'', g)
     else (case ValidatePassword (rr_password req) of Some e \<Rightarrow> (badRequest e, g) | None \<Rightarrow>
     (case U_GetByEmail (rr_email req) g of
       (Inl e, g1) \<Rightarrow> (internalError ''internal error'', g1)
     | (Inr (Some _), g1) \<Rightarrow> (writeError 409 ErrCodeConflict ''email already registered'', g1)
     | (Inr None, g1) \<Rightarrow>
       (let (salt, g2) = rand_bytes g1 in
        case ar_hash (dp_http deps) salt (rr_password req) of
          None \<Rightarrow> (internalError ''internal error'', g2)
        | Some hash \<Rightarrow> (case U_Create (new_user req hash) g2 of
             (Some e, _, g3) \<Rightarrow> (internalError ''failed to create user'', g3)
           | (None, user, g3) \<Rightarrow> issue_tokens deps 201 user new_family
               (audit deps (u_id user) ''auth.register'' ''user'' (Some (u_id user))
                  (Some [(''email'', u_email user), (''username'', u_username user)])) g3)))))"

text \<open>The status of the user is not looked at.\<close>

definition handleLogin :: "Dependencies \<Rightarrow> 'a web handlerfunc" where
  "handleLogin deps r g = (case js_login (dp_http deps) (rq_body r) of
     None \<Rightarrow> (badRequest ''invalid request body'', g)
   | Some req \<Rightarrow>
     if lr_email req = '''' \<or> lr_password req = '''' then (badRequest ''email and password are required'', g)
     else (case U_GetByEmail (lr_email req) g of
       (Inl e, g1) \<Rightarrow> (internalError ''internal error'', g1)
     | (Inr None, g1) \<Rightarrow> (writeError 401 ErrCodeUnauthorized ''invalid email or password'', g1)
     | (Inr (Some user), g1) \<Rightarrow>
         if ar_compare (dp_http deps) (lr_password req) (u_password_hash user) \<noteq> Some True
         then (writeError 401 ErrCodeUnauthorized ''invalid email or password'', g1)
         else issue_tokens deps 200 user new_family
           (audit deps (u_id user) ''auth.login'' ''user'' (Some (u_id user)) None) g1))"

section \<open>Refreshing\<close>

definition refresh_check :: "Dependencies \<Rightarrow> request \<Rightarrow> 'a web \<Rightarrow> (response + RefreshToken) \<times> 'a web" where
  "refresh_check deps r g = (case js_refresh (dp_http deps) (rq_body r) of
     None \<Rightarrow> (Inl (badRequest ''invalid request body''), g)
   | Some token \<Rightarrow>
     if token = '''' then (Inl (badRequest ''refresh_token is required''), g)
     else (case T_GetByHash (HashToken (lb_crypto (dp_libs deps)) token) g of
       (Inl e, g1) \<Rightarrow> (Inl (internalError ''internal error''), g1)
     | (Inr None, g1) \<Rightarrow> (Inl (writeError 401 ErrCodeUnauthorized ''invalid or expired refresh token''), g1)
     | (Inr (Some rt), g1) \<Rightarrow>
         if rt_revoked_at rt \<noteq> None \<or> rt_expires_at rt < wall_clock g1
         then (Inl (writeError 401 ErrCodeUnauthorized ''invalid or expired refresh token''),
               snd (T_RevokeFamily (rt_family rt) g1))
         else (Inr rt, g1)))"

definition refresh_exchange :: "Dependencies \<Rightarrow> RefreshToken \<Rightarrow> 'a web \<Rightarrow> response \<times> 'a web" where
  "refresh_exchange deps rt g = (case T_Revoke (rt_id rt) g of
     (Some e, g1) \<Rightarrow> (internalError ''internal error'', g1)
   | (None, g1) \<Rightarrow> (case U_GetByID (rt_user_id rt) g1 of
       (Inr (Some user), g2) \<Rightarrow> issue_tokens deps 200 user (\<lambda>g. (rt_family rt, g))
         (audit deps (u_id user) ''auth.token_refresh'' ''refresh_token'' (Some (rt_id rt)) None) g2
     | (_, g2) \<Rightarrow> (writeError 401 ErrCodeUnauthorized ''user not found'', g2)))"

definition handleRefresh :: "Dependencies \<Rightarrow> 'a web handlerfunc" where
  "handleRefresh deps r g = (case refresh_check deps r g of
     (Inl resp, g1) \<Rightarrow> (resp, g1) | (Inr rt, g1) \<Rightarrow> refresh_exchange deps rt g1)"

section \<open>Logout\<close>

definition handleLogout :: "Dependencies \<Rightarrow> 'a web handlerfunc" where
  "handleLogout deps r g =
    (let userID = getUserID r;
         g1 = (case js_refresh (dp_http deps) (rq_body r) of
             Some token \<Rightarrow>
               if token = '''' then snd (T_RevokeAllForUser userID g)
               else (case T_GetByHash (HashToken (lb_crypto (dp_libs deps)) token) g of
                   (Inr (Some rt), g') \<Rightarrow>
                     if rt_user_id rt = userID \<and> rt_revoked_at rt = None
                     then snd (T_RevokeFamily (rt_family rt) g') else g'
                 | (_, g') \<Rightarrow> g')
           | None \<Rightarrow> snd (T_RevokeAllForUser userID g))
     in (\<lparr>rs_status = 204, rs_header = [], rs_body = BNone\<rparr>,
         audit deps userID ''auth.logout'' ''user'' (Some userID) None g1))"

definition handleMe :: "Dependencies \<Rightarrow> 'a web handlerfunc" where
  "handleMe deps r g = (case U_GetByID (getUserID r) g of
     (Inr (Some user), g1) \<Rightarrow> (writeJSON 200 (BUser user), g1)
   | (_, g1) \<Rightarrow> (notFound ''user not found'', g1))"

definition handleHealthz :: "'a web handlerfunc" where
  "handleHealthz r g = (writeJSON 200 (BMessage [(''status'', ''ok'')]), g)"

definition handleReadyz :: "'a web handlerfunc" where
  "handleReadyz r g = (case db_exec (\<lambda>g. (None, g)) g of
     (Some e, g1) \<Rightarrow> (writeJSON 503 (BMessage [(''status'', ''not ready''), (''error'', ''ping failed'')]), g1)
   | (None, g1) \<Rightarrow> (writeJSON 200 (BMessage [(''status'', ''ready'')]), g1))"

end
