(* ===== verification/AuthProps.thy ===== *)
theory AuthProps
  imports AuthApi GatewayProps
begin

text \<open>
  What the rotation of refresh tokens promises. A run of the API is a sequence of registrations, logins,
  refreshes and logouts, each an atomic step, of deletions of expired tokens, and of anything else that leaves
  the table of tokens and the random source alone (\<open>calm\<close>). Random draws and UUIDs are assumed not to
  have collided so far (\<open>no_collision\<close>): they are 64 and 16 random bytes.

  In every such run a family has at most one live token (\<open>one_live_token\<close>) and a token that was exchanged
  is never accepted again (\<open>refresh_once\<close>). Two refreshes that interleave break both
  (\<open>refresh_race\<close>).
\<close>

section \<open>What a step may do to the tokens\<close>

definition live :: "RefreshToken \<Rightarrow> bool" where
  "live t \<longleftrightarrow> rt_revoked_at t = None"

definition draw_hash :: "crypto \<Rightarrow> 'a web \<Rightarrow> nat \<Rightarrow> string" where
  "draw_hash c g n = HashToken c (hex_encode (take 64 (ap_rand g n)))"

definition family_name :: "'a web \<Rightarrow> nat \<Rightarrow> string" where
  "family_name g n = uuid_str g (uuid_seq g n)"

definition no_collision :: "crypto \<Rightarrow> 'a web \<Rightarrow> bool" where
  "no_collision c g \<longleftrightarrow> inj_on (draw_hash c g) {..<ap_rand_pos g} \<and> inj_on (family_name g) {..<uuid_pos g}"

text \<open>The sources of randomness go on and nothing else is said.\<close>

definition onward :: "'a web \<Rightarrow> 'a web \<Rightarrow> bool" where
  "onward g g' \<longleftrightarrow> ap_rand g' = ap_rand g \<and> ap_rand_pos g \<le> ap_rand_pos g' \<and> uuid_seq g' = uuid_seq g
     \<and> uuid_str g' = uuid_str g \<and> uuid_pos g \<le> uuid_pos g'"

definition calm :: "'a web \<Rightarrow> 'a web \<Rightarrow> bool" where
  "calm g g' \<longleftrightarrow> onward g g' \<and> tokens_tab g' = tokens_tab g"

definition shrinks :: "RefreshToken list \<Rightarrow> RefreshToken list \<Rightarrow> bool" where
  "shrinks ts ts' \<longleftrightarrow> (\<exists>P now. ts' = sql_update P (\<lambda>t. t\<lparr>rt_revoked_at := Some now\<rparr>) ts \<or> ts' = sql_delete P ts)"

named_theorems calm_intros \<open>operations that leave the tokens alone\<close>

lemma onward_refl [simp]: "onward g g"
  by (simp add: onward_def)

lemma onward_trans: "onward g h \<Longrightarrow> onward h k \<Longrightarrow> onward g k"
  by (auto simp: onward_def)

lemma calm_refl [simp, calm_intros]: "calm g g"
  by (simp add: calm_def)

lemma calm_trans: "calm g h \<Longrightarrow> calm h k \<Longrightarrow> calm g k"
  unfolding calm_def using onward_trans by metis

lemma calm_onward: "calm g h \<Longrightarrow> onward g h"
  by (simp add: calm_def)

lemma calm_NewUUID [calm_intros]: "calm g (snd (NewUUID g))"
  by (simp add: calm_def onward_def NewUUID_def)

lemma calm_rand [calm_intros]: "calm g (snd (rand_bytes g))"
  by (simp add: calm_def onward_def rand_bytes_def)

lemma calm_query [calm_intros]: "calm g (snd (db_query q g))"
  by (simp add: calm_def onward_def db_query_def split: list.splits bool.splits)

lemma calm_exec: "(\<And>g. calm g (snd (f g))) \<Longrightarrow> calm g (snd (db_exec f g))"
proof -
  assume f: "\<And>g. calm g (snd (f g))"
  have "calm g (g\<lparr>faults := fs\<rparr>)" for fs by (simp add: calm_def onward_def)
  then show ?thesis using calm_trans [OF _ f] f by (auto simp: db_exec_def split: list.splits bool.splits)
qed

lemma calm_U_Create [calm_intros]: "calm g (snd (snd (U_Create u g)))"
proof -
  have "calm (snd (NewUUID g)) (snd (snd (U_Create u g)))"
    unfolding U_Create_def Let_def split_def prod.sel
    by (rule calm_exec) (simp add: calm_def onward_def)
  then show ?thesis using calm_trans [OF calm_NewUUID] by blast
qed

lemma calm_audit [calm_intros]: "calm g (audit deps a s t i d g)"
proof -
  have "calm (snd (NewUUID g)) (snd (Audit_Log a s t i d g))"
    unfolding Audit_Log_def Let_def split_def prod.sel
    by (rule calm_exec) (simp add: calm_def onward_def)
  then show ?thesis using calm_trans [OF calm_NewUUID] by (auto simp: audit_def)
qed

lemma calm_IssueAccessToken [calm_intros]: "calm g (snd (IssueAccessToken hl u g))"
  by (simp add: IssueAccessToken_def Let_def split_def calm_NewUUID)

lemma calm_IssueRefreshToken [calm_intros]: "calm g (snd (IssueRefreshToken c g))"
  by (simp add: IssueRefreshToken_def Let_def split_def calm_rand)

lemma calm_U_GetByID [calm_intros]: "calm g (snd (U_GetByID i g))"
  by (simp add: U_GetByID_def calm_query)

lemma calm_U_GetByEmail [calm_intros]: "calm g (snd (U_GetByEmail e g))"
  by (simp add: U_GetByEmail_def calm_query)

lemma calm_T_GetByHash [calm_intros]: "calm g (snd (T_GetByHash h g))"
  by (simp add: T_GetByHash_def calm_query)

lemma calm_new_family [calm_intros]: "calm g (snd (new_family g))"
  by (simp add: new_family_def split_def calm_NewUUID)

lemma shrinks_refl [simp]: "shrinks ts ts"
  unfolding shrinks_def by (rule exI [of _ "\<lambda>t. False"]) (simp add: sql_delete_def)

lemma revoke_shrinks:
  "onward g (snd (revoke_where P now g)) \<and> shrinks (tokens_tab g) (tokens_tab (snd (revoke_where P now g)))"
proof -
  have "shrinks ts (sql_update P (\<lambda>t. t\<lparr>rt_revoked_at := Some now\<rparr>) ts)" for ts
    unfolding shrinks_def by blast
  then show ?thesis by (simp add: db_exec_def onward_def split: list.splits bool.splits)
qed

lemma DeleteExpired_shrinks:
  "onward g (snd (T_DeleteExpired g)) \<and> shrinks (tokens_tab g) (tokens_tab (snd (T_DeleteExpired g)))"
proof -
  have "shrinks ts (sql_delete P ts)" for P ts unfolding shrinks_def by blast
  then show ?thesis by (simp add: T_DeleteExpired_def Let_def split_def db_exec_def onward_def split: list.splits bool.splits)
qed

lemma IssueRefreshToken_hash:
  assumes "IssueRefreshToken c g = (Inr (token, hash), g')"
  shows "hash = draw_hash c g (ap_rand_pos g) \<and> ap_rand_pos g' = Suc (ap_rand_pos g) \<and> calm g g'"
proof -
  have "calm g g'" using calm_IssueRefreshToken [of g c] assms by simp
  then show ?thesis using assms
    by (auto simp: IssueRefreshToken_def rand_bytes_def draw_hash_def Let_def split: if_splits)
qed

text \<open>\<open>adds c fam g g'\<close>: one token is added, with the hash of a new draw, of the family \<open>fam\<close>, and live.\<close>

definition adds :: "crypto \<Rightarrow> string \<Rightarrow> 'a web \<Rightarrow> 'a web \<Rightarrow> bool" where
  "adds c fam g g' \<longleftrightarrow> onward g g' \<and> (\<exists>t n. tokens_tab g' = tokens_tab g @ [t] \<and> rt_family t = fam \<and> live t
     \<and> rt_token_hash t = draw_hash c g n \<and> ap_rand_pos g \<le> n \<and> n < ap_rand_pos g')"

lemma T_Create_cases:
  assumes "T_Create t g = (e, t', g')"
  shows "if e = None then onward g g' \<and> (\<exists>s. tokens_tab g' = tokens_tab g @ [s] \<and> rt_family s = rt_family t \<and> live s
      \<and> rt_token_hash s = rt_token_hash t) else calm g g'"
proof -
  have "onward g (snd (snd (T_Create t g)))"
    by (simp add: T_Create_def Let_def split_def db_exec_def NewUUID_def onward_def split: list.splits bool.splits)
  then show ?thesis using assms
    by (auto simp: T_Create_def Let_def split_def db_exec_def NewUUID_def calm_def live_def
      split: list.splits bool.splits if_splits)
qed

lemma issue_tokens_shape:
  assumes fam: "\<And>g. calm g (snd (family g))" and rec: "\<And>g. calm g (record_it g)"
  shows "case issue_tokens deps status user family record_it g of (resp, g') \<Rightarrow>
     calm g g' \<and> rs_status resp = 500
   \<or> (\<exists>h. calm g h \<and> adds (lb_crypto (dp_libs deps)) (fst (family h)) g g' \<and> uuid_pos (snd (family h)) \<le> uuid_pos g')"
proof -
  let ?c = "lb_crypto (dp_libs deps)"
  obtain acc g1 where 1: "IssueAccessToken (dp_http deps) user g = (acc, g1)" by fastforce
  have q1: "calm g g1" using calm_IssueAccessToken [of g "dp_http deps" user] 1 by simp
  obtain x g2 where 2: "IssueRefreshToken ?c g1 = (x, g2)" by fastforce
  have q2: "calm g g2" using calm_trans [OF q1] calm_IssueRefreshToken [of g1 ?c] 2 by simp
  show ?thesis
  proof (cases x)
    case (Inl e)
    then show ?thesis using 1 2 q2 by (simp add: issue_tokens_def writeError_def writeJSON_def)
  next
    case (Inr th)
    then obtain token hash where th: "x = Inr (token, hash)" by (cases th) simp
    have hash: "hash = draw_hash ?c g1 (ap_rand_pos g1)" "ap_rand_pos g2 = Suc (ap_rand_pos g1)"
      using IssueRefreshToken_hash [of ?c g1 token hash g2] 2 th by auto
    obtain fn g3 where 3: "family g2 = (fn, g3)" by fastforce
    have q3: "calm g2 g3" using fam [of g2] 3 by simp
    let ?rt = "new_refresh_token (u_id user) hash fn (wall_clock g3 + RefreshTTL (dp_Config deps))"
    obtain e t g4 where 4: "T_Create ?rt g3 = (e, t, g4)" using prod_cases3 by blast
    show ?thesis
    proof (cases e)
      case (Some er)
      then have "calm g g4" using T_Create_cases [OF 4] calm_trans [OF q2 calm_trans [OF q3]] by simp
      then show ?thesis using 1 2 3 4 th Some by (simp add: issue_tokens_def writeError_def writeJSON_def)
    next
      case None
      obtain s where s: "onward g3 g4" "tokens_tab g4 = tokens_tab g3 @ [s]" "rt_family s = fn" "live s"
          "rt_token_hash s = hash"
        using T_Create_cases [OF 4] None by (auto simp: new_refresh_token_def)
      have q5: "calm g4 (record_it g4)" by (rule rec)
      have "adds ?c fn g (record_it g4)"
        unfolding adds_def
      proof (intro conjI exI [of _ s] exI [of _ "ap_rand_pos g1"])
        show "onward g (record_it g4)" using q2 q3 s(1) q5 by (meson onward_trans calm_onward)
        show "tokens_tab (record_it g4) = tokens_tab g @ [s]" using q2 q3 q5 s(2) by (simp add: calm_def)
        show "rt_family s = fn" "live s" using s by simp_all
        show "rt_token_hash s = draw_hash ?c g (ap_rand_pos g1)"
          using s(5) hash(1) q1 by (simp add: draw_hash_def calm_def onward_def)
        show "ap_rand_pos g \<le> ap_rand_pos g1" using q1 by (simp add: calm_def onward_def)
        have "ap_rand_pos g2 \<le> ap_rand_pos (record_it g4)" using q3 s(1) q5 by (simp add: calm_def onward_def)
        then show "ap_rand_pos g1 < ap_rand_pos (record_it g4)" using hash(2) by simp
      qed
      moreover have "uuid_pos g3 \<le> uuid_pos (record_it g4)" using s(1) q5 by (simp add: calm_def onward_def)
      ultimately show ?thesis using 1 2 3 4 th None q2 by (auto simp: issue_tokens_def intro!: exI [of _ g2])
    qed
  qed
qed

section \<open>The invariant of the families\<close>

definition sessions_ok :: "crypto \<Rightarrow> 'a web \<Rightarrow> bool" where
  "sessions_ok c g \<longleftrightarrow> distinct (map rt_token_hash (tokens_tab g))
     \<and> (\<forall>t \<in> set (tokens_tab g). rt_token_hash t \<in> draw_hash c g ` {..<ap_rand_pos g}
          \<and> rt_family t \<in> family_name g ` {..<uuid_pos g})
     \<and> (\<forall>s \<in> set (tokens_tab g). \<forall>t \<in> set (tokens_tab g). rt_family s = rt_family t \<longrightarrow> live s \<longrightarrow> live t \<longrightarrow> s = t)"

lemma onward_names: "onward g g' \<Longrightarrow> draw_hash c g' = draw_hash c g \<and> family_name g' = family_name g"
  by (simp add: onward_def draw_hash_def [abs_def] family_name_def [abs_def])

lemma no_collision_back: "onward g g' \<Longrightarrow> no_collision c g' \<Longrightarrow> no_collision c g"
  using onward_names [of g g' c] by (auto simp: no_collision_def onward_def intro: inj_on_subset)

lemma shrinks_rows:
  assumes "shrinks ts ts'" and "t' \<in> set ts'"
  obtains t where "t \<in> set ts" "rt_token_hash t' = rt_token_hash t" "rt_family t' = rt_family t" "rt_id t' = rt_id t"
    "live t' \<Longrightarrow> t' = t"
  using assms by (auto simp: shrinks_def sql_update_def live_def split: if_splits)

lemma shrinks_distinct: "shrinks ts ts' \<Longrightarrow> distinct (map rt_token_hash ts) \<Longrightarrow> distinct (map rt_token_hash ts')"
  by (auto simp: shrinks_def sql_delete_distinct sql_update_key)

lemma sessions_shrink:
  assumes ok: "sessions_ok c g" and on: "onward g g'" and sh: "shrinks (tokens_tab g) (tokens_tab g')"
  shows "sessions_ok c g'"
  unfolding sessions_ok_def
proof (intro conjI ballI impI)
  show "distinct (map rt_token_hash (tokens_tab g'))" using ok sh by (simp add: sessions_ok_def shrinks_distinct)
next
  fix t' assume "t' \<in> set (tokens_tab g')"
  then obtain t where "t \<in> set (tokens_tab g)" "rt_token_hash t' = rt_token_hash t" "rt_family t' = rt_family t"
    using shrinks_rows [OF sh] by metis
  then show "rt_token_hash t' \<in> draw_hash c g' ` {..<ap_rand_pos g'}" "rt_family t' \<in> family_name g' ` {..<uuid_pos g'}"
    using ok on onward_names [OF on, of c] unfolding sessions_ok_def onward_def by fastforce+
next
  fix s' t' assume "s' \<in> set (tokens_tab g')" "t' \<in> set (tokens_tab g')" "rt_family s' = rt_family t'" "live s'" "live t'"
  then show "s' = t'" using ok shrinks_rows [OF sh] unfolding sessions_ok_def by metis
qed

lemma sessions_calm: "sessions_ok c g \<Longrightarrow> calm g g' \<Longrightarrow> sessions_ok c g'"
  by (auto simp: calm_def intro: sessions_shrink)

lemma sessions_add:
  assumes ok: "sessions_ok c g" and nc: "no_collision c g'" and ad: "adds c fam g g'"
    and fam: "fam \<in> family_name g ` {..<uuid_pos g'}"
    and free: "\<And>t. t \<in> set (tokens_tab g) \<Longrightarrow> rt_family t = fam \<Longrightarrow> \<not> live t"
  shows "sessions_ok c g'"
proof -
  from ad obtain t n where on: "onward g g'" and t: "tokens_tab g' = tokens_tab g @ [t]" "rt_family t = fam" "live t"
      "rt_token_hash t = draw_hash c g n" "ap_rand_pos g \<le> n" "n < ap_rand_pos g'"
    by (auto simp: adds_def)
  note names = onward_names [OF on, of c]
  have old: "rt_token_hash s \<in> draw_hash c g ` {..<ap_rand_pos g} \<and> rt_family s \<in> family_name g ` {..<uuid_pos g}"
    if "s \<in> set (tokens_tab g)" for s using ok that by (simp add: sessions_ok_def)
  have inj: "inj_on (draw_hash c g) {..<ap_rand_pos g'}" using nc names by (simp add: no_collision_def)
  have "draw_hash c g n \<notin> draw_hash c g ` {..<ap_rand_pos g}"
  proof
    assume "draw_hash c g n \<in> draw_hash c g ` {..<ap_rand_pos g}"
    then obtain m where "m < ap_rand_pos g" "draw_hash c g m = draw_hash c g n" by (auto simp: eq_commute)
    then show False using inj_onD [OF inj, of m n] t(5,6) by simp
  qed
  then have new: "rt_token_hash t \<notin> rt_token_hash ` set (tokens_tab g)" unfolding t(4) using old by (metis imageE)
  have le: "ap_rand_pos g \<le> ap_rand_pos g'" "uuid_pos g \<le> uuid_pos g'" using on by (simp_all add: onward_def)
  show ?thesis
    unfolding sessions_ok_def
  proof (intro conjI ballI impI)
    show "distinct (map rt_token_hash (tokens_tab g'))" using ok new t(1) by (simp add: sessions_ok_def)
  next
    fix s assume "s \<in> set (tokens_tab g')"
    then consider "s \<in> set (tokens_tab g)" | "s = t" using t(1) by auto
    then have "rt_token_hash s \<in> draw_hash c g ` {..<ap_rand_pos g'} \<and> rt_family s \<in> family_name g ` {..<uuid_pos g'}"
      using old [of s] t(2,4,6) le fam by cases (auto intro: order.strict_trans2)
    then show "rt_token_hash s \<in> draw_hash c g' ` {..<ap_rand_pos g'}" "rt_family s \<in> family_name g' ` {..<uuid_pos g'}"
      by (simp_all add: names)
  next
    fix r s assume "r \<in> set (tokens_tab g')" "s \<in> set (tokens_tab g')" "rt_family r = rt_family s" "live r" "live s"
    then show "r = s" using ok free t(1-3) unfolding sessions_ok_def by auto
  qed
qed

section \<open>The handlers\<close>

lemma new_family_name: "new_family g = (family_name g (uuid_pos g), snd (NewUUID g))"
  by (simp add: new_family_def split_def family_name_def)

text \<open>A registration or login leaves the tokens alone or adds one of a new family.\<close>

definition logs_in :: "crypto \<Rightarrow> 'a web \<Rightarrow> 'a web \<Rightarrow> bool" where
  "logs_in c g g' \<longleftrightarrow> calm g g' \<or> (\<exists>m. uuid_pos g \<le> m \<and> m < uuid_pos g' \<and> adds c (family_name g m) g g')"

lemma adds_from: "calm g h \<Longrightarrow> adds c fam h g' \<Longrightarrow> adds c fam g g'"
proof -
  assume q: "calm g h" and a: "adds c fam h g'"
  then obtain t n where "onward h g'" "tokens_tab g' = tokens_tab h @ [t]" "rt_family t = fam" "live t"
      "rt_token_hash t = draw_hash c h n" "ap_rand_pos h \<le> n" "n < ap_rand_pos g'" by (auto simp: adds_def)
  moreover have "onward g h" "tokens_tab h = tokens_tab g" "ap_rand_pos g \<le> ap_rand_pos h" "draw_hash c h = draw_hash c g"
    using q onward_names [of g h c] by (auto simp: calm_def onward_def)
  ultimately show ?thesis unfolding adds_def using onward_trans by (metis le_trans)
qed

lemma logs_in_from: "calm g h \<Longrightarrow> logs_in c h g' \<Longrightarrow> logs_in c g g'"
proof -
  assume q: "calm g h" and "logs_in c h g'"
  then consider "calm h g'" | m where "uuid_pos h \<le> m" "m < uuid_pos g'" "adds c (family_name h m) h g'"
    by (auto simp: logs_in_def)
  then show ?thesis
  proof cases
    case 1
    then show ?thesis using calm_trans [OF q] by (simp add: logs_in_def)
  next
    case 2
    have "family_name h = family_name g" "uuid_pos g \<le> uuid_pos h"
      using q onward_names [of g h c] by (auto simp: calm_def onward_def)
    then show ?thesis using 2 adds_from [OF q] unfolding logs_in_def by (metis le_trans)
  qed
qed

lemma issue_logs_in: "logs_in (lb_crypto (dp_libs deps)) g (snd (issue_tokens deps status user new_family (audit deps a s t i d) g))"
proof -
  let ?c = "lb_crypto (dp_libs deps)"
  obtain resp g' where eq: "issue_tokens deps status user new_family (audit deps a s t i d) g = (resp, g')" by fastforce
  from issue_tokens_shape [where family = new_family and record_it = "audit deps a s t i d" and deps = deps
      and status = status and user = user and g = g, OF calm_new_family calm_audit]
  have "calm g g' \<or> (\<exists>h. calm g h \<and> adds ?c (fst (new_family h)) g g' \<and> uuid_pos (snd (new_family h)) \<le> uuid_pos g')"
    by (auto simp: eq)
  then show ?thesis
  proof
    assume "calm g g'" then show ?thesis by (simp add: logs_in_def eq)
  next
    assume "\<exists>h. calm g h \<and> adds ?c (fst (new_family h)) g g' \<and> uuid_pos (snd (new_family h)) \<le> uuid_pos g'"
    then obtain h where h: "calm g h" "adds ?c (fst (new_family h)) g g'" "uuid_pos (snd (new_family h)) \<le> uuid_pos g'" by blast
    have "family_name h = family_name g" "uuid_pos g \<le> uuid_pos h"
      using h(1) onward_names [of g h ?c] by (auto simp: calm_def onward_def)
    then show ?thesis using h(2,3) unfolding logs_in_def
      by (intro disjI2 exI [of _ "uuid_pos h"]) (auto simp: new_family_name eq)
  qed
qed

lemma logs_in_calm: "calm g g' \<Longrightarrow> logs_in c g g'"
  by (simp add: logs_in_def)

lemma login_logs_in: "logs_in (lb_crypto (dp_libs deps)) g (snd (handleLogin deps r g))"
proof (cases "js_login (dp_http deps) (rq_body r)")
  case None
  then show ?thesis by (simp add: handleLogin_def logs_in_calm)
next
  case (Some req)
  obtain q g1 where q: "U_GetByEmail (lr_email req) g = (q, g1)" by fastforce
  then have "calm g g1" using calm_U_GetByEmail [of g "lr_email req"] by simp
  then show ?thesis using Some q
    by (auto simp: handleLogin_def logs_in_calm split: sum.split option.split
      intro: logs_in_from [OF _ issue_logs_in])
qed

lemma register_logs_in: "logs_in (lb_crypto (dp_libs deps)) g (snd (handleRegister deps r g))"
proof (cases "js_register (dp_http deps) (rq_body r)")
  case None
  then show ?thesis by (simp add: handleRegister_def logs_in_calm)
next
  case (Some req)
  obtain q g1 where q: "U_GetByEmail (rr_email req) g = (q, g1)" by fastforce
  obtain salt g2 where s: "rand_bytes g1 = (salt, g2)" by fastforce
  have q1: "calm g g1" using calm_U_GetByEmail [of g "rr_email req"] q by simp
  have q2: "calm g g2" using calm_trans [OF q1] calm_rand [of g1] s by simp
  have "logs_in (lb_crypto (dp_libs deps)) g (snd (case U_Create (new_user req hash) g2 of
             (Some e, _, g3) \<Rightarrow> (internalError ''failed to create user'', g3)
           | (None, user, g3) \<Rightarrow> issue_tokens deps 201 user new_family
               (audit deps (u_id user) ''auth.register'' ''user'' (Some (u_id user))
                  (Some [(''email'', u_email user), (''username'', u_username user)])) g3))" for hash
  proof -
    obtain e u g3 where u: "U_Create (new_user req hash) g2 = (e, u, g3)" using prod_cases3 by blast
    then have "calm g g3" using calm_trans [OF q2] calm_U_Create [of g2 "new_user req hash"] by simp
    then show ?thesis using u by (auto simp: logs_in_calm split: option.split intro: logs_in_from [OF _ issue_logs_in])
  qed
  then show ?thesis using Some q s q1 q2
    by (auto simp: handleRegister_def logs_in_calm split: sum.split option.split)
qed

lemma T_Revoke_shrinks:
  "onward g (snd (T_Revoke i g)) \<and> shrinks (tokens_tab g) (tokens_tab (snd (T_Revoke i g)))"
  "onward g (snd (T_RevokeFamily f g)) \<and> shrinks (tokens_tab g) (tokens_tab (snd (T_RevokeFamily f g)))"
  "onward g (snd (T_RevokeAllForUser i g)) \<and> shrinks (tokens_tab g) (tokens_tab (snd (T_RevokeAllForUser i g)))"
  unfolding T_Revoke_def T_RevokeFamily_def T_RevokeAllForUser_def by (rule revoke_shrinks)+

text \<open>\<open>fades g g'\<close>: tokens are revoked or gone, and none is added.\<close>

definition fades :: "'a web \<Rightarrow> 'a web \<Rightarrow> bool" where
  "fades g g' \<longleftrightarrow> onward g g' \<and> shrinks (tokens_tab g) (tokens_tab g')"

lemma fades_calm: "calm g h \<Longrightarrow> fades h k \<Longrightarrow> calm k g' \<Longrightarrow> fades g g'"
  unfolding fades_def calm_def using onward_trans by metis

lemma fades_trans_calm: "calm g h \<Longrightarrow> fades h g' \<Longrightarrow> fades g g'"
  using fades_calm [OF _ _ calm_refl] .

lemma calm_fades: "calm g g' \<Longrightarrow> fades g g'"
  by (simp add: fades_def calm_def)

lemma logout_fades: "fades g (snd (handleLogout deps r g))"
proof -
  let ?u = "getUserID r" and ?c = "lb_crypto (dp_libs deps)"
  have all: "fades g (snd (T_RevokeAllForUser ?u g))" using T_Revoke_shrinks(3) by (simp add: fades_def)
  have one: "fades g (case T_GetByHash h g of
      (Inr (Some rt), g') \<Rightarrow> if rt_user_id rt = ?u \<and> rt_revoked_at rt = None then snd (T_RevokeFamily (rt_family rt) g') else g'
    | (_, g') \<Rightarrow> g')" for h
  proof -
    obtain q g1 where q: "T_GetByHash h g = (q, g1)" by fastforce
    then have c: "calm g g1" using calm_T_GetByHash [of g h] by simp
    moreover have "fades g1 (snd (T_RevokeFamily f g1))" for f using T_Revoke_shrinks(2) by (simp add: fades_def)
    ultimately show ?thesis using q fades_trans_calm [OF c] by (auto simp: calm_fades split: sum.split option.split)
  qed
  have "fades g (audit deps ?u ''auth.logout'' ''user'' (Some ?u) None k)" if "fades g k" for k
    using fades_calm [OF calm_refl that calm_audit] .
  then show ?thesis
    unfolding handleLogout_def Let_def prod.sel using all one by (auto split: option.split)
qed

lemma refresh_check_shape:
  "case refresh_check deps r g of
     (Inl resp, g') \<Rightarrow> fades g g' \<and> rs_status resp \<noteq> 200
   | (Inr rt, g') \<Rightarrow> calm g g' \<and> rt \<in> set (tokens_tab g) \<and> live rt
       \<and> (\<exists>token. js_refresh (dp_http deps) (rq_body r) = Some token
            \<and> rt_token_hash rt = HashToken (lb_crypto (dp_libs deps)) token)"
proof (cases "js_refresh (dp_http deps) (rq_body r)")
  case None
  then show ?thesis by (simp add: refresh_check_def writeError_def writeJSON_def calm_fades)
next
  case (Some token)
  let ?h = "HashToken (lb_crypto (dp_libs deps)) token"
  show ?thesis
  proof (cases "token = ''''")
    case True
    then show ?thesis using Some by (simp add: refresh_check_def writeError_def writeJSON_def calm_fades)
  next
    case False
    obtain q g1 where q: "T_GetByHash ?h g = (q, g1)" by fastforce
    then have c: "calm g g1" using calm_T_GetByHash [of g ?h] by simp
    have f: "fades g (snd (T_RevokeFamily f g1))" for f
      using fades_calm [OF c _ calm_refl] T_Revoke_shrinks(2) [of g1 f] by (simp add: fades_def)
    have found: "rt \<in> set (tokens_tab g) \<and> rt_token_hash rt = ?h" if "q = Inr (Some rt)" for rt
      using q that by (auto simp: T_GetByHash_def db_query_def find_Some_iff split: list.splits bool.splits)
    show ?thesis using Some False q c f found
      by (auto simp: refresh_check_def writeError_def writeJSON_def calm_fades live_def split: sum.split option.split)
  qed
qed

lemma refresh_exchange_shape:
  "case refresh_exchange deps rt g of (resp, g') \<Rightarrow>
     fades g g' \<and> rs_status resp \<noteq> 200
   \<or> (\<exists>h. onward g h \<and> tokens_tab h = sql_update (\<lambda>t. rt_id t = rt_id rt) (\<lambda>t. t\<lparr>rt_revoked_at := Some (wall_clock g)\<rparr>) (tokens_tab g)
        \<and> adds (lb_crypto (dp_libs deps)) (rt_family rt) h g')"
proof -
  let ?c = "lb_crypto (dp_libs deps)"
  obtain e g1 where 1: "T_Revoke (rt_id rt) g = (e, g1)" by fastforce
  have f1: "fades g g1" using T_Revoke_shrinks(1) [of g "rt_id rt"] 1 by (simp add: fades_def)
  show ?thesis
  proof (cases e)
    case (Some x)
    then show ?thesis using 1 f1 by (simp add: refresh_exchange_def writeError_def writeJSON_def)
  next
    case None
    have tab: "onward g g1" "tokens_tab g1 = sql_update (\<lambda>t. rt_id t = rt_id rt) (\<lambda>t. t\<lparr>rt_revoked_at := Some (wall_clock g)\<rparr>) (tokens_tab g)"
      using 1 None f1 by (auto simp: fades_def T_Revoke_def db_exec_def split: list.splits bool.splits)
    obtain q g2 where 2: "U_GetByID (rt_user_id rt) g1 = (q, g2)" by fastforce
    then have c2: "calm g1 g2" using calm_U_GetByID [of g1 "rt_user_id rt"] by simp
    have fail: "fades g g'" if "calm g2 g'" for g' using fades_calm [OF calm_refl f1] calm_trans [OF c2 that] by simp
    show ?thesis
    proof (cases "\<exists>user. q = Inr (Some user)")
      case False
      then show ?thesis using 1 2 None fail [OF calm_refl]
        by (auto simp: refresh_exchange_def writeError_def writeJSON_def split: sum.split option.split)
    next
      case True
      then obtain user where user: "q = Inr (Some user)" by blast
      let ?log = "audit deps (u_id user) ''auth.token_refresh'' ''refresh_token'' (Some (rt_id rt)) None"
      obtain resp g' where r: "issue_tokens deps 200 user (\<lambda>g. (rt_family rt, g)) ?log g2 = (resp, g')" by fastforce
      have "calm g2 g' \<and> rs_status resp = 500 \<or> adds ?c (rt_family rt) g2 g'"
        using issue_tokens_shape [where family = "\<lambda>g. (rt_family rt, g)" and record_it = ?log and deps = deps
            and status = 200 and user = user and g = g2] calm_audit by (simp add: r) blast
      then show ?thesis
      proof
        assume "calm g2 g' \<and> rs_status resp = 500"
        then show ?thesis using 1 2 None user r fail by (simp add: refresh_exchange_def)
      next
        assume "adds ?c (rt_family rt) g2 g'"
        then have "adds ?c (rt_family rt) g1 g'" by (rule adds_from [OF c2])
        then show ?thesis using 1 2 None user r tab by (auto simp: refresh_exchange_def)
      qed
    qed
  qed
qed

section \<open>Runs\<close>

inductive session_step :: "Dependencies \<Rightarrow> 'a web \<Rightarrow> 'a web \<Rightarrow> bool" for deps where
  Register: "session_step deps g (snd (handleRegister deps r g))"
| Login: "session_step deps g (snd (handleLogin deps r g))"
| Refresh: "session_step deps g (snd (handleRefresh deps r g))"
| Logout: "session_step deps g (snd (handleLogout deps r g))"
| Expire: "session_step deps g (snd (T_DeleteExpired g))"
| Elsewhere: "calm g g' \<Longrightarrow> session_step deps g g'"

lemma fades_onward: "fades g g' \<Longrightarrow> onward g g'" by (simp add: fades_def)

lemma adds_onward: "adds c f g g' \<Longrightarrow> onward g g'" by (simp add: adds_def)

text \<open>What a refresh does: it fails and only revokes, or exchanges a live token for a new one of its family.\<close>

definition exchanges :: "crypto \<Rightarrow> RefreshToken \<Rightarrow> 'a web \<Rightarrow> 'a web \<Rightarrow> bool" where
  "exchanges c rt g g' \<longleftrightarrow> rt \<in> set (tokens_tab g) \<and> live rt \<and> (\<exists>h now. onward g h \<and> adds c (rt_family rt) h g'
     \<and> tokens_tab h = sql_update (\<lambda>t. rt_id t = rt_id rt) (\<lambda>t. t\<lparr>rt_revoked_at := Some now\<rparr>) (tokens_tab g))"

lemma exchange_exchanges:
  assumes "calm g g1" "rt \<in> set (tokens_tab g)" "live rt" "refresh_exchange deps rt g1 = (resp, g')"
  shows "fades g g' \<and> rs_status resp \<noteq> 200 \<or> exchanges (lb_crypto (dp_libs deps)) rt g g'"
proof -
  from refresh_exchange_shape [where deps = deps and rt = rt and g = g1] consider "fades g1 g'" "rs_status resp \<noteq> 200"
    | h where "onward g1 h" "adds (lb_crypto (dp_libs deps)) (rt_family rt) h g'"
        "tokens_tab h = sql_update (\<lambda>t. rt_id t = rt_id rt) (\<lambda>t. t\<lparr>rt_revoked_at := Some (wall_clock g1)\<rparr>) (tokens_tab g1)"
    by (auto simp: assms(4))
  then show ?thesis
  proof cases
    case 1
    then show ?thesis using fades_trans_calm [OF assms(1)] by simp
  next
    case 2
    have "onward g h" "tokens_tab g1 = tokens_tab g" using assms(1) 2(1) by (auto simp: calm_def intro: onward_trans)
    then show ?thesis using 2 assms(2,3) unfolding exchanges_def by metis
  qed
qed

lemma refresh_shape:
  "case handleRefresh deps r g of (resp, g') \<Rightarrow> fades g g' \<and> rs_status resp \<noteq> 200
   \<or> (\<exists>rt token. exchanges (lb_crypto (dp_libs deps)) rt g g' \<and> js_refresh (dp_http deps) (rq_body r) = Some token
        \<and> rt_token_hash rt = HashToken (lb_crypto (dp_libs deps)) token)"
proof -
  obtain q g1 where 1: "refresh_check deps r g = (q, g1)" by fastforce
  note check = refresh_check_shape [where deps = deps and r = r and g = g, unfolded 1 prod.case]
  show ?thesis
  proof (cases q)
    case (Inl resp)
    then show ?thesis using 1 check by (simp add: handleRefresh_def)
  next
    case (Inr rt)
    obtain resp g' where 2: "refresh_exchange deps rt g1 = (resp, g')" by fastforce
    have "fades g g' \<and> rs_status resp \<noteq> 200 \<or> exchanges (lb_crypto (dp_libs deps)) rt g g'"
      using check Inr by (intro exchange_exchanges [OF _ _ _ 2]) simp_all
    then show ?thesis using 1 2 Inr check by (auto simp: handleRefresh_def)
  qed
qed

lemma step_cases:
  assumes "session_step deps g g'"
  obtains "fades g g'" | "logs_in (lb_crypto (dp_libs deps)) g g'" | rt where "exchanges (lb_crypto (dp_libs deps)) rt g g'"
  using assms
proof cases
  case (Refresh r)
  then show ?thesis using refresh_shape [where deps = deps and r = r and g = g] that by (auto simp: split_def)
next
  case Expire
  then show ?thesis using DeleteExpired_shrinks that by (auto simp: fades_def)
qed (auto simp: logout_fades calm_fades intro: register_logs_in login_logs_in that)

lemma step_onward: "session_step deps g g' \<Longrightarrow> onward g g'"
  by (erule step_cases) (auto simp: logs_in_def exchanges_def intro: fades_onward calm_onward adds_onward onward_trans)

lemma step_sessions:
  assumes "session_step deps g g'" and ok: "sessions_ok (lb_crypto (dp_libs deps)) g"
    and nc: "no_collision (lb_crypto (dp_libs deps)) g'"
  shows "sessions_ok (lb_crypto (dp_libs deps)) g'"
  using assms(1)
proof (cases rule: step_cases)
  case 1
  then show ?thesis using ok by (auto simp: fades_def intro: sessions_shrink)
next
  case 2
  then consider "calm g g'" | m where "uuid_pos g \<le> m" "m < uuid_pos g'" "adds (lb_crypto (dp_libs deps)) (family_name g m) g g'"
    by (auto simp: logs_in_def)
  then show ?thesis
  proof cases
    case 1
    then show ?thesis using ok sessions_calm by blast
  next
    case 2
    have names: "family_name g' = family_name g"
      using onward_names [OF adds_onward [OF 2(3)], of "lb_crypto (dp_libs deps)"] by simp
    have "\<not> live t" if t: "t \<in> set (tokens_tab g)" "rt_family t = family_name g m" for t
    proof -
      have "rt_family t \<in> family_name g ` {..<uuid_pos g}" using ok t(1) by (simp add: sessions_ok_def)
      then obtain k where "k < uuid_pos g" "family_name g k = family_name g m" using t(2) by auto
      moreover have "inj_on (family_name g) {..<uuid_pos g'}" using nc names by (simp add: no_collision_def)
      ultimately show ?thesis using inj_onD [of "family_name g" "{..<uuid_pos g'}" k m] 2 by simp
    qed
    then show ?thesis using 2 by (intro sessions_add [OF ok nc 2(3)]) auto
  qed
next
  case (3 rt)
  then obtain h now where h: "onward g h" "adds (lb_crypto (dp_libs deps)) (rt_family rt) h g'"
      "tokens_tab h = sql_update (\<lambda>t. rt_id t = rt_id rt) (\<lambda>t. t\<lparr>rt_revoked_at := Some now\<rparr>) (tokens_tab g)"
    and rt: "rt \<in> set (tokens_tab g)" "live rt" by (auto simp: exchanges_def)
  have "shrinks (tokens_tab g) (tokens_tab h)" using h(3) by (auto simp: shrinks_def)
  then have okh: "sessions_ok (lb_crypto (dp_libs deps)) h" using sessions_shrink [OF ok h(1)] by simp
  have le: "uuid_pos g \<le> uuid_pos g'" using h(1) adds_onward [OF h(2)] by (simp add: onward_def)
  have "rt_family rt \<in> family_name g ` {..<uuid_pos g}" using ok rt(1) by (simp add: sessions_ok_def)
  then have fam: "rt_family rt \<in> family_name h ` {..<uuid_pos g'}"
    using le onward_names [OF h(1), of "lb_crypto (dp_libs deps)"] by (auto intro: order.strict_trans2)
  have "\<not> live t" if "t \<in> set (tokens_tab h)" "rt_family t = rt_family rt" for t
  proof
    assume l: "live t"
    from that(1) obtain t0 where t0: "t0 \<in> set (tokens_tab g)" "t = (if rt_id t0 = rt_id rt then t0\<lparr>rt_revoked_at := Some now\<rparr> else t0)"
      unfolding h(3) by (auto simp: sql_update_set)
    then have "t = t0" "rt_id t0 \<noteq> rt_id rt" using l by (auto simp: live_def split: if_splits)
    then show False using ok t0(1) rt that(2) l unfolding sessions_ok_def by metis
  qed
  then show ?thesis by (rule sessions_add [OF okh nc h(2) fam])
qed

lemma run_onward: "(session_step deps)\<^sup>*\<^sup>* g g' \<Longrightarrow> onward g g'"
  by (induction rule: rtranclp_induct) (auto intro: step_onward onward_trans)

lemma run_sessions:
  assumes "(session_step deps)\<^sup>*\<^sup>* g g'" and "sessions_ok (lb_crypto (dp_libs deps)) g"
    and "no_collision (lb_crypto (dp_libs deps)) g'"
  shows "sessions_ok (lb_crypto (dp_libs deps)) g'"
  using assms
proof (induction rule: rtranclp_induct)
  case base
  then show ?case by simp
next
  case (step h k)
  then have "sessions_ok (lb_crypto (dp_libs deps)) h" using no_collision_back [OF step_onward] by blast
  then show ?case using step step_sessions by blast
qed

section \<open>A dead token stays dead\<close>

definition dead :: "crypto \<Rightarrow> string \<Rightarrow> 'a web \<Rightarrow> bool" where
  "dead c h g \<longleftrightarrow> (\<forall>t \<in> set (tokens_tab g). rt_token_hash t = h \<longrightarrow> \<not> live t) \<and> h \<in> draw_hash c g ` {..<ap_rand_pos g}"

lemma dead_shrink: "dead c h g \<Longrightarrow> fades g g' \<Longrightarrow> dead c h g'"
proof -
  assume d: "dead c h g" and f: "fades g g'"
  have "\<not> live t'" if "t' \<in> set (tokens_tab g')" "rt_token_hash t' = h" for t'
    using d f that shrinks_rows [of "tokens_tab g" "tokens_tab g'" t'] unfolding dead_def fades_def by metis
  moreover have "h \<in> draw_hash c g' ` {..<ap_rand_pos g'}"
    using d f onward_names [of g g' c] by (auto simp: dead_def fades_def onward_def intro: order.strict_trans2)
  ultimately show ?thesis by (simp add: dead_def)
qed

lemma dead_add:
  assumes d: "dead c h g" and a: "adds c fam g g'" and nc: "no_collision c g'"
  shows "dead c h g'"
proof -
  from a obtain t n where on: "onward g g'" and t: "tokens_tab g' = tokens_tab g @ [t]" "rt_token_hash t = draw_hash c g n"
      "ap_rand_pos g \<le> n" "n < ap_rand_pos g'" by (auto simp: adds_def)
  have inj: "inj_on (draw_hash c g) {..<ap_rand_pos g'}" using nc onward_names [OF on, of c] by (simp add: no_collision_def)
  obtain m where m: "m < ap_rand_pos g" "h = draw_hash c g m" using d by (auto simp: dead_def)
  have "rt_token_hash t \<noteq> h" using inj_onD [OF inj, of n m] t m by auto
  moreover have "h \<in> draw_hash c g' ` {..<ap_rand_pos g'}" using m on onward_names [OF on, of c] by (auto simp: onward_def)
  ultimately show ?thesis using d t(1) by (auto simp: dead_def)
qed

lemma dead_step:
  assumes "session_step deps g g'" and "dead (lb_crypto (dp_libs deps)) h g" and "no_collision (lb_crypto (dp_libs deps)) g'"
  shows "dead (lb_crypto (dp_libs deps)) h g'"
  using assms(1)
proof (cases rule: step_cases)
  case 1
  then show ?thesis using assms dead_shrink by blast
next
  case 2
  then show ?thesis using assms dead_shrink [OF _ calm_fades] dead_add by (auto simp: logs_in_def)
next
  case (3 rt)
  then obtain k now where k: "onward g k" "adds (lb_crypto (dp_libs deps)) (rt_family rt) k g'"
      "tokens_tab k = sql_update (\<lambda>t. rt_id t = rt_id rt) (\<lambda>t. t\<lparr>rt_revoked_at := Some now\<rparr>) (tokens_tab g)"
    by (auto simp: exchanges_def)
  then have "fades g k" by (auto simp: fades_def shrinks_def)
  then show ?thesis using assms k(2) dead_shrink dead_add by blast
qed

lemma dead_run:
  "(session_step deps)\<^sup>*\<^sup>* g g' \<Longrightarrow> dead (lb_crypto (dp_libs deps)) h g \<Longrightarrow>
    no_collision (lb_crypto (dp_libs deps)) g' \<Longrightarrow> dead (lb_crypto (dp_libs deps)) h g'"
proof (induction rule: rtranclp_induct)
  case base
  then show ?case by simp
next
  case (step j k)
  then show ?case using no_collision_back [OF step_onward] dead_step by blast
qed

lemma exchanged_dead:
  assumes x: "exchanges c rt g g'" and ok: "sessions_ok c g" and nc: "no_collision c g'"
  shows "dead c (rt_token_hash rt) g'"
proof -
  from x obtain k now where k: "onward g k" "adds c (rt_family rt) k g'"
      "tokens_tab k = sql_update (\<lambda>t. rt_id t = rt_id rt) (\<lambda>t. t\<lparr>rt_revoked_at := Some now\<rparr>) (tokens_tab g)"
    and rt: "rt \<in> set (tokens_tab g)" by (auto simp: exchanges_def)
  have only: "t = rt" if "t \<in> set (tokens_tab g)" "rt_token_hash t = rt_token_hash rt" for t
    using ok rt that by (auto simp: sessions_ok_def distinct_map dest: inj_onD)
  have "dead c (rt_token_hash rt) k"
    unfolding dead_def
  proof (intro conjI ballI impI)
    fix t assume "t \<in> set (tokens_tab k)" "rt_token_hash t = rt_token_hash rt"
    then obtain t0 where t0: "t0 \<in> set (tokens_tab g)"
        "t = (if rt_id t0 = rt_id rt then t0\<lparr>rt_revoked_at := Some now\<rparr> else t0)" "rt_token_hash t = rt_token_hash rt"
      unfolding k(3) by (auto simp: sql_update_set)
    then have "t0 = rt" using only by (auto split: if_splits)
    then show "\<not> live t" using t0(2) by (simp add: live_def)
  next
    have "rt_token_hash rt \<in> draw_hash c g ` {..<ap_rand_pos g}" using ok rt by (simp add: sessions_ok_def)
    then show "rt_token_hash rt \<in> draw_hash c k ` {..<ap_rand_pos k}"
      using k(1) onward_names [OF k(1), of c] by (auto simp: onward_def intro: order.strict_trans2)
  qed
  then show ?thesis using dead_add k(2) nc by blast
qed

section \<open>Properties\<close>



lemma revoked_ids: "rt_id ` set (sql_update P (\<lambda>t. t\<lparr>rt_revoked_at := Some now\<rparr>) ts) = rt_id ` set ts"
proof -
  have "map rt_id (sql_update P (\<lambda>t. t\<lparr>rt_revoked_at := Some now\<rparr>) ts) = map rt_id ts" by (rule sql_update_key) simp
  then show ?thesis by (metis set_map)
qed

text \<open>A refresh with all database calls answered succeeds, and what it leaves.\<close>

lemma exchange_succeeds:
  assumes "faults g = []" and "find (\<lambda>u. u_id u = rt_user_id rt) (users_tab g) = Some user"
    and "64 \<le> length (ap_rand g (ap_rand_pos g))" and "uuid_seq g (Suc (uuid_pos g)) \<notin> rt_id ` set (tokens_tab g)"
  shows "\<exists>resp t. refresh_exchange deps rt g = (resp, snd (refresh_exchange deps rt g)) \<and> rs_status resp = 200
    \<and> faults (snd (refresh_exchange deps rt g)) = [] \<and> users_tab (snd (refresh_exchange deps rt g)) = users_tab g
    \<and> tokens_tab (snd (refresh_exchange deps rt g))
        = sql_update (\<lambda>t. rt_id t = rt_id rt) (\<lambda>t. t\<lparr>rt_revoked_at := Some (wall_clock g)\<rparr>) (tokens_tab g) @ [t]
    \<and> rt_family t = rt_family rt \<and> live t \<and> rt_id t = uuid_seq g (Suc (uuid_pos g))
    \<and> rt_token_hash t = draw_hash (lb_crypto (dp_libs deps)) g (ap_rand_pos g)
    \<and> ap_rand (snd (refresh_exchange deps rt g)) = ap_rand g
    \<and> ap_rand_pos (snd (refresh_exchange deps rt g)) = Suc (ap_rand_pos g)
    \<and> uuid_seq (snd (refresh_exchange deps rt g)) = uuid_seq g
    \<and> uuid_pos (snd (refresh_exchange deps rt g)) = uuid_pos g + (if dp_audit deps then 3 else 2)"
proof -
  have user: "u_id user = rt_user_id rt" "user \<in> set (users_tab g)" using assms(2) by (auto simp: find_Some_iff)
  then have mem: "rt_user_id rt \<in> u_id ` set (users_tab g)" by (metis image_eqI)
  show ?thesis
    using assms user mem
    by (simp add: refresh_exchange_def T_Revoke_def db_exec_def U_GetByID_def db_query_def issue_tokens_def
        IssueAccessToken_def NewUUID_def IssueRefreshToken_def rand_bytes_def Let_def T_Create_def has_user_def
        new_refresh_token_def audit_def Audit_Log_def writeJSON_def revoked_ids draw_hash_def live_def)
qed

text \<open>
  Showing a refresh token that was revoked is answered 401 and revokes every token
  of its family, and no token of another family.
\<close>

theorem reuse_revokes_family:
  assumes ok: "sessions_ok (lb_crypto (dp_libs deps)) g" and "faults g = []"
    and t: "t \<in> set (tokens_tab g)" "\<not> live t"
    and shown: "js_refresh (dp_http deps) (rq_body r) = Some token" "token \<noteq> ''''"
      "HashToken (lb_crypto (dp_libs deps)) token = rt_token_hash t"
  shows "\<exists>g'. handleRefresh deps r g = (writeError 401 ErrCodeUnauthorized ''invalid or expired refresh token'', g')
    \<and> (\<forall>s \<in> set (tokens_tab g'). rt_family s = rt_family t \<longrightarrow> \<not> live s)
    \<and> filter (\<lambda>s. rt_family s \<noteq> rt_family t) (tokens_tab g') = filter (\<lambda>s. rt_family s \<noteq> rt_family t) (tokens_tab g)"
proof -
  have "find (\<lambda>s. rt_token_hash s = rt_token_hash t) (tokens_tab g) = Some t"
    using ok t(1) by (intro find_key_unique) (simp_all add: sessions_ok_def)
  then have "T_GetByHash (rt_token_hash t) g = (Inr (Some t), g)"
    using assms(2) by (simp add: T_GetByHash_def db_query_def)
  moreover have "filter (\<lambda>s. rt_family s \<noteq> f) (sql_update (\<lambda>s. rt_family s = f \<and> rt_revoked_at s = None)
      (\<lambda>s. s\<lparr>rt_revoked_at := Some now\<rparr>) ts) = filter (\<lambda>s. rt_family s \<noteq> f) ts" for f now ts
    by (induction ts) auto
  ultimately show ?thesis using assms
    by (auto simp: handleRefresh_def refresh_check_def live_def T_RevokeFamily_def db_exec_def sql_update_set)
qed

text \<open>
  C39 (refresh_race): reading the token and revoking it are two calls of the database. Two requests with the
  same live token that both read it before either revokes it are both answered with new tokens, and the family
  then has two live tokens.
\<close>

theorem refresh_race:
  assumes db: "faults g = []" "distinct (map rt_token_hash (tokens_tab g))"
    and t: "t \<in> set (tokens_tab g)" "live t" "wall_clock g \<le> rt_expires_at t"
    and shown: "js_refresh (dp_http deps) (rq_body r) = Some token" "token \<noteq> ''''"
      "HashToken (lb_crypto (dp_libs deps)) token = rt_token_hash t"
    and user: "find (\<lambda>u. u_id u = rt_user_id t) (users_tab g) = Some user"
    and random: "\<forall>n. 64 \<le> length (ap_rand g n)" "distinct (map (uuid_seq g) [uuid_pos g..<uuid_pos g + 5])"
      "\<forall>n \<in> {uuid_pos g..<uuid_pos g + 5}. uuid_seq g n \<notin> rt_id ` set (tokens_tab g)"
  shows "\<exists>g1 g2 resp1 resp2. refresh_check deps r g = (Inr t, g)
    \<and> refresh_exchange deps t g = (resp1, g1) \<and> rs_status resp1 = 200
    \<and> refresh_exchange deps t g1 = (resp2, g2) \<and> rs_status resp2 = 200
    \<and> (\<exists>a \<in> set (tokens_tab g2). \<exists>b \<in> set (tokens_tab g2). rt_id a \<noteq> rt_id b
         \<and> rt_family a = rt_family t \<and> rt_family b = rt_family t \<and> live a \<and> live b)"
proof -
  have "find (\<lambda>s. rt_token_hash s = rt_token_hash t) (tokens_tab g) = Some t"
    using db(2) t(1) by (intro find_key_unique)
  then have check: "refresh_check deps r g = (Inr t, g)"
    using db(1) t shown by (simp add: refresh_check_def T_GetByHash_def db_query_def live_def)
  have idx: "Suc (uuid_pos g) \<in> {uuid_pos g..<uuid_pos g + 5}" by simp
  obtain resp1 a g1 where one: "refresh_exchange deps t g = (resp1, g1)" "rs_status resp1 = 200" "faults g1 = []"
      "users_tab g1 = users_tab g" "rt_family a = rt_family t" "live a" "rt_id a = uuid_seq g (Suc (uuid_pos g))"
      "tokens_tab g1 = sql_update (\<lambda>s. rt_id s = rt_id t) (\<lambda>s. s\<lparr>rt_revoked_at := Some (wall_clock g)\<rparr>) (tokens_tab g) @ [a]"
      "ap_rand g1 = ap_rand g" "uuid_seq g1 = uuid_seq g" "uuid_pos g1 = uuid_pos g + (if dp_audit deps then 3 else 2)"
    using exchange_succeeds [OF db(1) user, of deps] random(1,3) idx by blast
  define k where "k = Suc (uuid_pos g1)"
  have k: "k \<in> {uuid_pos g..<uuid_pos g + 5}" "Suc (uuid_pos g) < k" by (simp_all add: k_def one(11))
  have "uuid_seq g k \<noteq> uuid_seq g (Suc (uuid_pos g))"
    using random(2) k idx by (auto simp: distinct_map dest: inj_onD)
  then have new: "uuid_seq g1 (Suc (uuid_pos g1)) \<notin> rt_id ` set (tokens_tab g1)"
    using random(3) k(1) by (simp add: one(7,8,10) k_def [symmetric] revoked_ids)
  have "find (\<lambda>u. u_id u = rt_user_id t) (users_tab g1) = Some user" "64 \<le> length (ap_rand g1 (ap_rand_pos g1))"
    using user random(1) by (simp_all add: one(4,9))
  from exchange_succeeds [OF one(3) this new, of deps] obtain resp2 b g2 where
      two: "refresh_exchange deps t g1 = (resp2, g2)" "rs_status resp2 = 200"
      "rt_family b = rt_family t" "live b" "rt_id b = uuid_seq g k"
      "tokens_tab g2 = sql_update (\<lambda>s. rt_id s = rt_id t) (\<lambda>s. s\<lparr>rt_revoked_at := Some (wall_clock g1)\<rparr>) (tokens_tab g1) @ [b]"
    by (auto simp: one(10) k_def)
  have "rt_id a \<noteq> rt_id t" using random(3) idx t(1) by (auto simp: one(7))
  then have "a \<in> set (tokens_tab g2)" by (auto simp: two(6) one(8) sql_update_set)
  moreover have "b \<in> set (tokens_tab g2)" by (simp add: two(6))
  moreover have "rt_id a \<noteq> rt_id b" using \<open>uuid_seq g k \<noteq> uuid_seq g (Suc (uuid_pos g))\<close> by (simp add: one(7) two(5))
  ultimately show ?thesis using check one(1,2,5,6) two(1-4) by blast
qed

section \<open>Concrete instances\<close>

text \<open>A source whose draw \<open>n\<close> is 64 bytes \<open>n\<close>, a digest that shows the second digit, and a library that accepts everything.\<close>

definition sample_libs' :: libs where
  "sample_libs' = sample_libs\<lparr>lb_crypto := plain_crypto\<lparr>cr_sha256 := \<lambda>p. [char_of (unat (hd (tl p)))]\<rparr>\<rparr>"

definition sample_claims :: "UserRole \<Rightarrow> Claims" where
  "sample_claims role = \<lparr>cl_subject = ''u'', cl_issued_at = 0, cl_expires_at = Some (200 * hour), cl_id = ''i'',
     cl_role = role, cl_tier = TierFree, cl_org_id = None\<rparr>"

definition sample_token :: string where
  "sample_token = hex_encode (replicate 64 0)"

definition sample_http :: httplib where
  "sample_http = \<lparr>hl_ParseUUID = (\<lambda>s. Some (of_nat (length s))), jw_sign = (\<lambda>s k c. ''t''),
     jw_open = (\<lambda>t. if t = '''' then None else Some \<lparr>jt_kid = Some ''k'', jt_hmac = True,
       jt_claims = sample_claims (if t = ''a'' then RoleAdmin else RoleUser)\<rparr>),
     jw_sig = (\<lambda>t s. True), ar_hash = (\<lambda>salt p. Some p), ar_compare = (\<lambda>p h. Some (p = h)),
     js_register = (\<lambda>_. None), js_login = (\<lambda>_. Some \<lparr>lr_email = ''A@x'', lr_password = ''p''\<rparr>),
     js_refresh = (\<lambda>_. Some sample_token),
     js_submit = (\<lambda>_. Some \<lparr>sj_command = ''c'', sj_skill_id = None, sj_file_ids = [4], sj_credential_ids = []\<rparr>),
     js_skill = (\<lambda>_. None), js_version = (\<lambda>_. None), js_retry = (\<lambda>_. None), js_visibility = (\<lambda>_. None),
     js_grant = (\<lambda>_. None), js_org = (\<lambda>_. None), js_member = (\<lambda>_. None), js_tier = (\<lambda>_. None), js_device = (\<lambda>_. None),
     js_update_device = (\<lambda>_. None), js_pool_size = (\<lambda>_. None), js_enroll = Some, js_skill_id = (\<lambda>_. None),
     js_save_login = (\<lambda>_. Some \<lparr>sl_origin = ''o'', sl_label = ''l''\<rparr>), js_label = (\<lambda>_. None),
     hl_multipart = (\<lambda>_ _. None)\<rparr>"

definition sample_config :: Config where
  "sample_config = \<lparr>HTTPAddr = ''a'', TLSCert = '''', TLSKey = '''', DBURL = ''d'', JWTSecret = replicate 32 (CHR ''s''),
     AccessTTL = 15 * minute, RefreshTTL = 720 * hour, FileStore = ''local:/data'', MaxUploadMB = 100, HeartbeatS = 15,
     AgentsPerUser = 1, QueueTTL = hour, MaxQueuedPerUser = 10, MaxUploadBytes = 1000, HeartbeatInterval = 15 * second,
     HeartbeatMissThreshold = 45 * second, ShutdownTimeout = 30 * second, MetricsAddr = '''', LogLevel = '''',
     LogFormat = '''', Env = ''development'', CORSAllowedOrigins = [''https://a.com''], RateLimitAuthPerMin = 10,
     RateLimitAPIPerSec = 100, RateLimitJobSubmitPerMin = 30, WSMaxSubscriptions = 50, FileRetentionHours = 24,
     JobResultRetentionDays = 90, WebDistDir = '''', PathPrefix = '''', VNCIdleTTLSecs = 300, VNCMaxTTLSecs = 1800,
     VNCMaxSessionsPerUser = 2, VNCSessionBufBytes = 4194304, CredKey = '''', CredKMS = ''''\<rparr>"

definition sample_deps :: Dependencies where
  "sample_deps = \<lparr>dp_Config = sample_config, dp_Settings = sample_settings, dp_libs = sample_libs', dp_http = sample_http,
     dp_audit = True, dp_relay = True, dp_cwd = '''', dp_decoders = sample_decoders, dp_chunks = (\<lambda>_. [])\<rparr>"

definition sample_user :: "uuid \<Rightarrow> User" where
  "sample_user i = \<lparr>u_id = i, u_email = ''a@x'', u_username = ''a'', u_password_hash = ''p'', u_status = UserDisabled,
     u_role = RoleUser, u_tier = TierFree, u_org_id = None, u_created_at = 0, u_updated_at = 0\<rparr>"

definition sample_web :: Web where
  "sample_web = \<lparr>wall_clock = 100 * hour, uuid_seq = of_nat, uuid_pos = 1,
     uuid_str = (\<lambda>u. replicate (unat u) (CHR ''u'')), hb_registry = [], hb_nodeID = ''n'', hb_mu = False, hb_devices = [(7, 0)],
     hb_conn = (\<lambda>_. sample_conn 7), hb_next = 1, hb_pending = [],
     hb_heartbeatMissThreshold = 45 * second, agents_tab = [], jobs_tab = [], devices_tab = [],
     faults = [], pl_wakeups = 0, ap_broker = NewBroker,
     ap_vnc = NewRelay ''n'' 65536 2 (\<lambda>_. \<lparr>wc_in = [], wc_out = [], wc_closed = False\<rparr>),
     vnc_tab = [], creds_tab = [], job_creds_tab = [], files_tab = [], job_files_tab = [], skills_tab = [],
     skill_versions_tab = [], device_skills_tab = [], agent_skills_tab = [], skill_grants_tab = [],
     ap_fs = \<lparr>fs_files = [], fs_dirs = [], io_faults = []\<rparr>, ap_pullBufs = [],
     ap_rand = (\<lambda>n. replicate 64 (of_nat n)), ap_rand_pos = 1, ap_panicked = False,
     users_tab = [sample_user 9], tokens_tab = [], orgs_tab = [], audit_tab = [],
     wb_jwt = \<lparr>jm_keys = [(''k'', ''s'')], jm_activeKID = ''k'', jm_accessTTL = 15 * minute\<rparr>,
     wb_api_tokens = [], wb_auth_tokens = [], wb_job_tokens = [], wb_idempotency = []\<rparr>"

definition sample_request :: request where
  "sample_request = \<lparr>rq_method = ''POST'', rq_path = ''/'', rq_header = (\<lambda>_. ''''), rq_remote = ''r'', rq_host = ''h'',
     rq_tls = True, rq_param = (\<lambda>_. ''aaaaa''), rq_query = (\<lambda>_. ''''), rq_body = '''', rq_claims = None, rq_userID = 9\<rparr>"

definition sample_rt :: RefreshToken where
  "sample_rt = (new_refresh_token 9 [hex_digit 0] '''' (200 * hour))\<lparr>rt_id := 50\<rparr>"

lemma hex_encode_Cons: "hex_encode (b # bs) = hex_digit (unat b div 16) # hex_digit (unat b mod 16) # hex_encode bs"
  by (simp add: hex_encode_def)

lemma hex_encode_replicate: "hex_encode (replicate 64 b)
    = hex_digit (unat b div 16) # hex_digit (unat b mod 16) # hex_encode (replicate 63 b)"
proof -
  have "replicate 64 b = b # replicate 63 b" by (simp add: numeral_eq_Suc)
  then show ?thesis by (simp only: hex_encode_Cons)
qed

lemma sample_hash: "HashToken (lb_crypto (dp_libs sample_deps)) (hex_encode (replicate 64 b)) = [hex_digit (unat b mod 16)]"
proof -
  have "of_char (hex_digit n) < (256 :: nat)" for n by simp
  then have "char_of (unat (of_nat (of_char (hex_digit n)) :: 8 word)) = hex_digit n" for n
    by (simp add: unat_of_nat)
  then show ?thesis
    by (simp add: sample_deps_def sample_libs'_def HashToken_def str_bytes_def hex_encode_replicate)
qed

lemma sample_draw: "ap_rand g = (\<lambda>n. replicate 64 (of_nat n)) \<Longrightarrow>
    draw_hash (lb_crypto (dp_libs sample_deps)) g n = [hex_digit (unat (of_nat n :: 8 word) mod 16)]"
  by (simp add: draw_hash_def sample_hash)

lemmas sample_defs = sample_web_def sample_deps_def sample_libs'_def sample_http_def sample_user_def sample_request_def
  sample_rt_def new_refresh_token_def

definition sample_live :: Web where
  "sample_live = sample_web\<lparr>tokens_tab := [sample_rt]\<rparr>"

lemma sample_live_ok: "sessions_ok (lb_crypto (dp_libs sample_deps)) sample_live"
proof -
  have "draw_hash (lb_crypto (dp_libs sample_deps)) sample_live 0 = [hex_digit 0]"
    by (subst sample_draw) (simp_all add: sample_live_def sample_web_def)
  moreover have "family_name sample_live 0 = ''''" by (simp add: family_name_def sample_live_def sample_web_def)
  moreover have "ap_rand_pos sample_live = 1" "uuid_pos sample_live = 1" "tokens_tab sample_live = [sample_rt]"
    by (simp_all add: sample_live_def sample_web_def)
  moreover have "rt_token_hash sample_rt = [hex_digit 0]" "rt_family sample_rt = ''''"
    by (simp_all add: sample_rt_def new_refresh_token_def)
  ultimately show ?thesis by (simp add: sessions_ok_def lessThan_Suc image_iff del: One_nat_def)
qed

lemma sample_names:
  assumes "uuid_seq g = of_nat" "uuid_str g = (\<lambda>u. replicate (unat u) (CHR ''u''))" "n < 100"
  shows "length (family_name g n) = n"
  using assms by (simp add: family_name_def unat_of_nat)

lemma sample_no_collision:
  assumes "uuid_seq g = of_nat" "uuid_str g = (\<lambda>u. replicate (unat u) (CHR ''u''))" "ap_rand g = (\<lambda>n. replicate 64 (of_nat n))"
    and "uuid_pos g < 100" "ap_rand_pos g \<le> 3"
  shows "no_collision (lb_crypto (dp_libs sample_deps)) g"
proof -
  have "inj_on (family_name g) {..<uuid_pos g}"
  proof (rule inj_onI)
    fix m n assume mn: "m \<in> {..<uuid_pos g}" "n \<in> {..<uuid_pos g}" "family_name g m = family_name g n"
    then have "m < 100" "n < 100" using assms(4) by simp_all
    then have "length (family_name g m) = m" "length (family_name g n) = n" using sample_names [OF assms(1,2)] by blast+
    then show "m = n" using mn(3) by metis
  qed
  moreover have "inj_on (draw_hash (lb_crypto (dp_libs sample_deps)) g) {..<ap_rand_pos g}"
  proof (rule inj_onI)
    fix m n assume mn: "m \<in> {..<ap_rand_pos g}" "n \<in> {..<ap_rand_pos g}"
      "draw_hash (lb_crypto (dp_libs sample_deps)) g m = draw_hash (lb_crypto (dp_libs sample_deps)) g n"
    have d: "hex_digit 0 \<noteq> hex_digit 1" "hex_digit 0 \<noteq> hex_digit 2" "hex_digit 1 \<noteq> hex_digit 2" by code_simp+
    have "k = 0 \<or> k = 1 \<or> k = 2" if "k < ap_rand_pos g" for k using that assms(5) by linarith
    then have "m = 0 \<or> m = 1 \<or> m = 2" "n = 0 \<or> n = 1 \<or> n = 2" using mn by simp_all
    then show "m = n" using mn(3) d d [symmetric] by (elim disjE) (simp_all add: sample_draw [OF assms(3)])
  qed
  ultimately show ?thesis by (simp add: no_collision_def)
qed

lemma sample_js: "js_refresh (dp_http sample_deps) b = Some sample_token"
  by (simp add: sample_deps_def sample_http_def)

lemma sample_rt_hash: "rt_token_hash sample_rt = [hex_digit 0]"
  by (simp add: sample_rt_def new_refresh_token_def)

lemma sample_exchange:
  "refresh_check sample_deps sample_request sample_live = (Inr sample_rt, sample_live)"
  "\<exists>resp t. refresh_exchange sample_deps sample_rt sample_live = (resp, snd (refresh_exchange sample_deps sample_rt sample_live))
    \<and> rs_status resp = 200 \<and> no_collision (lb_crypto (dp_libs sample_deps)) (snd (refresh_exchange sample_deps sample_rt sample_live))
    \<and> tokens_tab (snd (refresh_exchange sample_deps sample_rt sample_live))
        = [sample_rt\<lparr>rt_revoked_at := Some (100 * hour)\<rparr>, t] \<and> faults (snd (refresh_exchange sample_deps sample_rt sample_live)) = []"
proof -
  have h: "HashToken (lb_crypto (dp_libs sample_deps)) sample_token = [hex_digit 0]"
    by (simp add: sample_token_def sample_hash)
  have n: "sample_token \<noteq> ''''" by (simp add: sample_token_def hex_encode_replicate)
  show "refresh_check sample_deps sample_request sample_live = (Inr sample_rt, sample_live)"
    using h n by (simp add: refresh_check_def sample_live_def sample_defs T_GetByHash_def db_query_def hour_def)
  have live: "faults sample_live = []" "find (\<lambda>u. u_id u = rt_user_id sample_rt) (users_tab sample_live) = Some (sample_user 9)"
    "64 \<le> length (ap_rand sample_live (ap_rand_pos sample_live))"
    "uuid_seq sample_live (Suc (uuid_pos sample_live)) \<notin> rt_id ` set (tokens_tab sample_live)"
    by (simp_all add: sample_live_def sample_defs)
  have on: "onward sample_live (snd (refresh_exchange sample_deps sample_rt sample_live))"
    using refresh_exchange_shape [where deps = sample_deps and rt = sample_rt and g = sample_live]
    by (auto simp: split_def intro: fades_onward adds_onward onward_trans)
  show "\<exists>resp t. refresh_exchange sample_deps sample_rt sample_live = (resp, snd (refresh_exchange sample_deps sample_rt sample_live))
    \<and> rs_status resp = 200 \<and> no_collision (lb_crypto (dp_libs sample_deps)) (snd (refresh_exchange sample_deps sample_rt sample_live))
    \<and> tokens_tab (snd (refresh_exchange sample_deps sample_rt sample_live))
        = [sample_rt\<lparr>rt_revoked_at := Some (100 * hour)\<rparr>, t] \<and> faults (snd (refresh_exchange sample_deps sample_rt sample_live)) = []"
  proof -
    from exchange_succeeds [OF live, of sample_deps] obtain resp t where
      x: "refresh_exchange sample_deps sample_rt sample_live = (resp, snd (refresh_exchange sample_deps sample_rt sample_live))"
      "rs_status resp = 200" "faults (snd (refresh_exchange sample_deps sample_rt sample_live)) = []"
      "tokens_tab (snd (refresh_exchange sample_deps sample_rt sample_live))
        = sql_update (\<lambda>t. rt_id t = rt_id sample_rt) (\<lambda>t. t\<lparr>rt_revoked_at := Some (wall_clock sample_live)\<rparr>) (tokens_tab sample_live) @ [t]"
      "ap_rand_pos (snd (refresh_exchange sample_deps sample_rt sample_live)) = Suc (ap_rand_pos sample_live)"
      "uuid_pos (snd (refresh_exchange sample_deps sample_rt sample_live)) = uuid_pos sample_live + (if dp_audit sample_deps then 3 else 2)"
      by blast
    have "wall_clock sample_live = 100 * hour" "tokens_tab sample_live = [sample_rt]" "ap_rand_pos sample_live = 1" "uuid_pos sample_live = 1"
      "uuid_seq sample_live = of_nat" "uuid_str sample_live = (\<lambda>u. replicate (unat u) (CHR ''u''))"
      "ap_rand sample_live = (\<lambda>n. replicate 64 (of_nat n))"
      by (simp_all add: sample_live_def sample_web_def)
    moreover from this have "no_collision (lb_crypto (dp_libs sample_deps)) (snd (refresh_exchange sample_deps sample_rt sample_live))"
      using on x(5,6) by (intro sample_no_collision) (simp_all add: onward_def)
    ultimately show ?thesis using x by auto
  qed
qed

lemma sample_refresh:
  "\<exists>resp t. handleRefresh sample_deps sample_request sample_live = (resp, snd (handleRefresh sample_deps sample_request sample_live))
    \<and> rs_status resp = 200 \<and> no_collision (lb_crypto (dp_libs sample_deps)) (snd (handleRefresh sample_deps sample_request sample_live))
    \<and> tokens_tab (snd (handleRefresh sample_deps sample_request sample_live)) = [sample_rt\<lparr>rt_revoked_at := Some (100 * hour)\<rparr>, t]
    \<and> faults (snd (handleRefresh sample_deps sample_request sample_live)) = []"
  using sample_exchange(2) by (simp add: handleRefresh_def sample_exchange(1))


theorem reuse_revokes_family_witness:
  "\<exists>g'. handleRefresh sample_deps sample_request (snd (handleRefresh sample_deps sample_request sample_live))
     = (writeError 401 ErrCodeUnauthorized ''invalid or expired refresh token'', g')"
proof -
  let ?g = "snd (handleRefresh sample_deps sample_request sample_live)"
  obtain t where r: "no_collision (lb_crypto (dp_libs sample_deps)) ?g" "faults ?g = []"
      "tokens_tab ?g = [sample_rt\<lparr>rt_revoked_at := Some (100 * hour)\<rparr>, t]" using sample_refresh by blast
  have ok: "sessions_ok (lb_crypto (dp_libs sample_deps)) ?g"
    using step_sessions [OF session_step.Refresh sample_live_ok r(1)] .
  have h: "HashToken (lb_crypto (dp_libs sample_deps)) sample_token = [hex_digit 0]"
    by (simp add: sample_token_def sample_hash)
  have "sample_token \<noteq> ''''" by (simp add: sample_token_def hex_encode_replicate)
  then show ?thesis
    using reuse_revokes_family [OF ok r(2), of "sample_rt\<lparr>rt_revoked_at := Some (100 * hour)\<rparr>" sample_request sample_token] h
    by (auto simp: r(3) live_def sample_js sample_rt_hash)
qed

theorem refresh_race_witness:
  "\<exists>g1 g2 resp1 resp2. refresh_check sample_deps sample_request sample_live = (Inr sample_rt, sample_live)
    \<and> refresh_exchange sample_deps sample_rt sample_live = (resp1, g1) \<and> rs_status resp1 = 200
    \<and> refresh_exchange sample_deps sample_rt g1 = (resp2, g2) \<and> rs_status resp2 = 200"
proof -
  have h: "HashToken (lb_crypto (dp_libs sample_deps)) sample_token = rt_token_hash sample_rt"
    by (simp add: sample_token_def sample_hash sample_rt_def new_refresh_token_def)
  have n: "sample_token \<noteq> ''''" by (simp add: sample_token_def hex_encode_replicate)
  have u: "distinct (map (uuid_seq sample_live) [uuid_pos sample_live..<uuid_pos sample_live + 5])"
    "\<forall>n \<in> {uuid_pos sample_live..<uuid_pos sample_live + 5}. uuid_seq sample_live n \<notin> rt_id ` set (tokens_tab sample_live)"
  proof -
    have f: "uuid_seq sample_live = of_nat" "uuid_pos sample_live = 1" "rt_id ` set (tokens_tab sample_live) = {50}"
      by (simp_all add: sample_live_def sample_web_def sample_rt_def)
    have "distinct (map (of_nat :: nat \<Rightarrow> uuid) [1..<6])" "list_all (\<lambda>n. (of_nat n :: uuid) \<noteq> 50) [1..<6]" by code_simp+
    then show "distinct (map (uuid_seq sample_live) [uuid_pos sample_live..<uuid_pos sample_live + 5])"
        "\<forall>n \<in> {uuid_pos sample_live..<uuid_pos sample_live + 5}. uuid_seq sample_live n \<notin> rt_id ` set (tokens_tab sample_live)"
      unfolding f by (simp_all add: list_all_iff)
  qed
  have "js_refresh (dp_http sample_deps) (rq_body sample_request) = Some sample_token"
    by (simp add: sample_deps_def sample_http_def)
  from refresh_race [OF _ _ _ _ _ this n h _ _ u, of "sample_user 9"] show ?thesis
    by (auto simp: sample_live_def sample_defs live_def hour_def)
qed

section \<open>Who may log in\<close>

lemma login_succeeds:
  assumes "faults g = []" and "js_login (dp_http deps) (rq_body r) = Some req" "lr_email req \<noteq> ''''" "lr_password req \<noteq> ''''"
    and user: "find (\<lambda>u. same_email (u_email u) (lr_email req)) (users_tab g) = Some user"
    and "ar_compare (dp_http deps) (lr_password req) (u_password_hash user) = Some True"
    and "64 \<le> length (ap_rand g (ap_rand_pos g))" and "uuid_seq g (uuid_pos g + 2) \<notin> rt_id ` set (tokens_tab g)"
  shows "\<exists>resp g' a t. handleLogin deps r g = (resp, g') \<and> rs_status resp = 200 \<and> rs_body resp = BAuth a \<and> ar_user a = user
    \<and> tokens_tab g' = tokens_tab g @ [t] \<and> live t \<and> rt_user_id t = u_id user
    \<and> rt_family t = family_name g (Suc (uuid_pos g))
    \<and> rt_token_hash t = HashToken (lb_crypto (dp_libs deps)) (ar_refresh_token a)
    \<and> ap_rand_pos g' = Suc (ap_rand_pos g) \<and> uuid_pos g' \<le> uuid_pos g + 4"
proof -
  have "user \<in> set (users_tab g)" using user by (auto simp: find_Some_iff)
  then have "u_id user \<in> u_id ` set (users_tab g)" by simp
  then show ?thesis
    using assms
    by (simp add: handleLogin_def db_exec_def U_GetByEmail_def db_query_def issue_tokens_def
        IssueAccessToken_def NewUUID_def IssueRefreshToken_def rand_bytes_def Let_def T_Create_def has_user_def
        new_refresh_token_def audit_def Audit_Log_def writeJSON_def live_def new_family_def family_name_def)
qed

text \<open>
  A login with the right password succeeds whatever the status of the user,
  also when the user is disabled: it is answered with an access token and with a refresh token that is stored
  live, of a family of its own.
\<close>

theorem disabled_user_logs_in:
  assumes "faults g = []" and "js_login (dp_http deps) (rq_body r) = Some req" "lr_email req \<noteq> ''''" "lr_password req \<noteq> ''''"
    and "find (\<lambda>u. same_email (u_email u) (lr_email req)) (users_tab g) = Some user"
    and "u_status user = UserDisabled"
    and "ar_compare (dp_http deps) (lr_password req) (u_password_hash user) = Some True"
    and "64 \<le> length (ap_rand g (ap_rand_pos g))" and "uuid_seq g (uuid_pos g + 2) \<notin> rt_id ` set (tokens_tab g)"
  shows "\<exists>resp g' a t. handleLogin deps r g = (resp, g') \<and> rs_status resp = 200 \<and> rs_body resp = BAuth a \<and> ar_user a = user
    \<and> tokens_tab g' = tokens_tab g @ [t] \<and> live t \<and> rt_user_id t = u_id user
    \<and> rt_token_hash t = HashToken (lb_crypto (dp_libs deps)) (ar_refresh_token a)"
  using login_succeeds [OF assms(1-5,7-)] by blast

lemma sample_email: "same_email ''a@x'' ''A@x''"
  by code_simp

theorem disabled_user_logs_in_witness:
  "\<exists>resp g' a t. handleLogin sample_deps sample_request sample_web = (resp, g') \<and> rs_status resp = 200
    \<and> rs_body resp = BAuth a \<and> u_status (ar_user a) = UserDisabled"
  using sample_email disabled_user_logs_in [where deps = sample_deps and g = sample_web and r = sample_request
      and req = "\<lparr>lr_email = ''A@x'', lr_password = ''p''\<rparr>" and user = "sample_user 9"]
  by (auto simp: sample_defs)


end
