(* ===== verification/Middleware.thy ===== *)
theory Middleware
  imports Http
begin

text \<open>
  The middlewares of \<open>httpapi/middleware.go\<close> and \<open>idempotency.go\<close>: each takes the next handler to a
  handler. \<open>requestIDMiddleware\<close> and the CORS package only add to the headers and are left out, \<open>loggerMiddleware\<close> is
  in \<open>Observe\<close>; no modelled handler panics, so \<open>recoverMiddleware\<close> appears only where the code
  dereferences the missing claims.
\<close>

section \<open>Text\<close>

definition Index :: "string \<Rightarrow> string \<Rightarrow> nat option" where
  "Index s p = find (\<lambda>n. HasPrefix (drop n s) p) [0..<Suc (length s)]"

definition extractUUIDFromPath :: "string \<Rightarrow> string \<Rightarrow> string" where
  "extractUUIDFromPath path prefix = (case Index path (''/'' @ prefix @ ''/'') of
     None \<Rightarrow> ''''
   | Some idx \<Rightarrow> (let rest = drop (idx + length prefix + 2) path in
       case Index rest ''/'' of Some n \<Rightarrow> if 0 < n then take n rest else rest | None \<Rightarrow> rest))"

section \<open>Headers and origins\<close>

text \<open>The headers are set before the handler runs, whose own values replace them.\<close>

definition security_headers :: "(string \<times> string) list" where
  "security_headers = [(''Strict-Transport-Security'', ''max-age=63072000; includeSubDomains; preload''),
     (''X-Content-Type-Options'', ''nosniff''), (''X-Frame-Options'', ''DENY''),
     (''Referrer-Policy'', ''strict-origin-when-cross-origin''), (''Cross-Origin-Opener-Policy'', ''same-origin''),
     (''Cache-Control'', ''no-store, max-age=0'')]"

definition securityHeadersMiddleware :: "'h handlerfunc \<Rightarrow> 'h handlerfunc" where
  "securityHeadersMiddleware nxt r g = (case nxt r g of (resp, g1) \<Rightarrow>
     (resp\<lparr>rs_header := foldl (\<lambda>h (k, v). AList.update k v h) security_headers (rs_header resp)\<rparr>, g1))"

definition upper :: "char \<Rightarrow> char" where
  "upper c = (let n = of_char c :: nat in if 97 \<le> n \<and> n \<le> 122 then char_of (n - 32) else c)"

definition csrf_allows :: "string list \<Rightarrow> request \<Rightarrow> bool" where
  "csrf_allows allowedOrigins r =
    (let allowed = map (map lower) allowedOrigins; origin = rq_header r ''Origin''; referer = rq_header r ''Referer'' in
     map upper (rq_method r) \<in> {''GET'', ''HEAD'', ''OPTIONS'', ''TRACE''}
     \<or> allowed = [] \<or> ''*'' \<in> set allowed
     \<or> origin = '''' \<and> referer = ''''
     \<or> origin \<noteq> '''' \<and> map lower origin \<in> set allowed
     \<or> referer \<noteq> '''' \<and> list_ex (\<lambda>a. HasPrefix (map lower referer) a) allowed)"

definition csrfMiddleware :: "string list \<Rightarrow> 'h handlerfunc \<Rightarrow> 'h handlerfunc" where
  "csrfMiddleware allowedOrigins nxt r g = (if csrf_allows allowedOrigins r then nxt r g
     else (writeError 403 ErrCodeForbidden ''cross-origin request denied'', g))"

section \<open>Rate limits\<close>

definition rateLimitMiddleware :: "int \<Rightarrow> 'a web handlerfunc \<Rightarrow> 'a web handlerfunc" where
  "rateLimitMiddleware perSec nxt r g =
    (let (ok, tokens) = api_admit perSec (rq_remote r) (wall_clock g) (wb_api_tokens g); g1 = g\<lparr>wb_api_tokens := tokens\<rparr> in
     if ok then nxt r g1 else (writeError 429 ErrCodeLimitExceeded ''rate limit exceeded'', g1))"

definition authRateLimitMiddleware :: "int \<Rightarrow> 'a web handlerfunc \<Rightarrow> 'a web handlerfunc" where
  "authRateLimitMiddleware maxPerMin nxt r g =
    (let (ok, tokens) = auth_admit maxPerMin (rq_remote r) (wall_clock g) (wb_auth_tokens g); g1 = g\<lparr>wb_auth_tokens := tokens\<rparr> in
     if ok then nxt r g1 else (writeError 429 ErrCodeLimitExceeded ''too many auth attempts, try again later'', g1))"

definition jobRateLimitMiddleware :: "int \<Rightarrow> 'a web handlerfunc \<Rightarrow> 'a web handlerfunc" where
  "jobRateLimitMiddleware maxPerMin nxt r g =
    (let (ok, tokens) = job_admit maxPerMin (getUserID r) (wall_clock g) (wb_job_tokens g); g1 = g\<lparr>wb_job_tokens := tokens\<rparr> in
     if ok then nxt r g1 else (writeError 429 ErrCodeLimitExceeded ''too many job submissions, please wait'', g1))"

section \<open>Authentication\<close>

text \<open>\<open>strings.SplitN(s, " ", 2)\<close>, when there are two parts\<close>

definition split_space :: "string \<Rightarrow> (string \<times> string) option" where
  "split_space s = (case Index s '' '' of None \<Rightarrow> None | Some n \<Rightarrow> Some (take n s, drop (Suc n) s))"

definition unauthorized :: "string \<Rightarrow> response" where
  "unauthorized = writeError 401 ErrCodeUnauthorized"

text \<open>The claims and the user a request proves, or the answer that it proves none.\<close>

definition authenticate :: "httplib \<Rightarrow> JWTManager \<Rightarrow> time \<Rightarrow> request \<Rightarrow> response + Claims \<times> uuid" where
  "authenticate hl m now r =
    (let authHeader = rq_header r ''Authorization'' in
     if authHeader = '''' then Inl (unauthorized ''missing authorization header'')
     else case split_space authHeader of
         None \<Rightarrow> Inl (unauthorized ''invalid authorization format'')
       | Some (scheme, token) \<Rightarrow>
           if map lower scheme \<noteq> ''bearer'' then Inl (unauthorized ''invalid authorization format'')
           else (case VerifyToken hl m now token of
               None \<Rightarrow> Inl (unauthorized ''invalid or expired token'')
             | Some claims \<Rightarrow> (case ExtractUserID hl claims of
                   None \<Rightarrow> Inl (unauthorized ''invalid token claims'')
                 | Some userID \<Rightarrow> Inr (claims, userID))))"

definition authMiddleware :: "httplib \<Rightarrow> 'a web handlerfunc \<Rightarrow> 'a web handlerfunc" where
  "authMiddleware hl nxt r g = (case authenticate hl (wb_jwt g) (wall_clock g) r of
     Inl resp \<Rightarrow> (resp, g)
   | Inr (claims, userID) \<Rightarrow> nxt (r\<lparr>rq_claims := Some claims, rq_userID := userID\<rparr>) g)"

text \<open>Without claims the code dereferences a nil pointer; the panic is recovered.\<close>

definition requireAdminMiddleware :: "'h handlerfunc \<Rightarrow> 'h handlerfunc" where
  "requireAdminMiddleware nxt r g = (case getClaims r of
     None \<Rightarrow> (internalError ''internal server error'', g)
   | Some claims \<Rightarrow> if RequireAdmin claims \<noteq> None
       then (writeError 403 ErrCodeForbidden ''admin access required'', g) else nxt r g)"

text \<open>
  One check of \<open>tenantScopeMiddleware\<close>: whether the resource the path names belongs to another user. A
  resource that is not found, or not looked up for an error, passes.
\<close>

definition foreign_in_path :: "httplib \<Rightarrow> string \<Rightarrow> (uuid \<Rightarrow> ('r option, 'h) query) \<Rightarrow> ('r \<Rightarrow> uuid) \<Rightarrow> request \<Rightarrow> 'h \<Rightarrow> bool \<times> 'h" where
  "foreign_in_path hl segment get owner r g =
    (if \<not> Contains (rq_path r) (''/'' @ segment @ ''/'') then (False, g)
     else (let part = extractUUIDFromPath (rq_path r) segment in
       if part = '''' then (False, g)
       else (case hl_ParseUUID hl part of None \<Rightarrow> (False, g)
         | Some i \<Rightarrow> (case get i g of
               (Inr (Some x), g1) \<Rightarrow> (owner x \<noteq> getUserID r, g1)
             | (_, g1) \<Rightarrow> (False, g1)))))"

definition tenantScopeMiddleware :: "httplib \<Rightarrow> 'a web handlerfunc \<Rightarrow> 'a web handlerfunc" where
  "tenantScopeMiddleware hl nxt r g = (case getClaims r of
     None \<Rightarrow> nxt r g
   | Some claims \<Rightarrow> if cl_role claims = RoleAdmin then nxt r g
       else (case foreign_in_path hl ''jobs'' J_GetByID j_user_id r g of
           (True, g1) \<Rightarrow> (accessDenied, g1)
         | (False, g1) \<Rightarrow> (case foreign_in_path hl ''files'' F_GetByID f_user_id r g1 of
               (True, g2) \<Rightarrow> (accessDenied, g2)
             | (False, g2) \<Rightarrow> nxt r g2)))"

section \<open>Idempotency keys\<close>

definition idempotencyTTL :: duration where "idempotencyTTL = 24 * hour"

definition idempotencyKey :: "crypto \<Rightarrow> request \<Rightarrow> string" where
  "idempotencyKey c r = (let key = rq_header r ''Idempotency-Key'' in
     if key = '''' then '''' else cr_sha256 c (str_bytes (rq_path r @ ''|'' @ key)))"

text \<open>What the recorder kept is written again as JSON, whatever its type was.\<close>

definition replayed :: "idempotencyEntry \<Rightarrow> response" where
  "replayed e = writeJSON (ie_status e) (ie_body e)"

text \<open>The entry of a key that is still good, and the storing of an answer, each under the lock.\<close>

definition idem_lookup :: "string \<Rightarrow> 'a web \<Rightarrow> idempotencyEntry option" where
  "idem_lookup ikey g = (case map_of (wb_idempotency g) ikey of
     Some e \<Rightarrow> if wall_clock g < ie_expiresAt e then Some e else None
   | None \<Rightarrow> None)"

definition idem_store :: "string \<Rightarrow> response \<Rightarrow> 'a web \<Rightarrow> 'a web" where
  "idem_store ikey resp g = (if 200 \<le> rs_status resp \<and> rs_status resp < 500
     then g\<lparr>wb_idempotency := AList.update ikey \<lparr>ie_status = rs_status resp, ie_body = rs_body resp,
       ie_expiresAt = wall_clock g + idempotencyTTL\<rparr> (wb_idempotency g)\<rparr>
     else g)"

definition idempotencyMiddleware :: "crypto \<Rightarrow> 'a web handlerfunc \<Rightarrow> 'a web handlerfunc" where
  "idempotencyMiddleware c nxt r g =
    (let ikey = idempotencyKey c r in
     if ikey = '''' then nxt r g
     else case idem_lookup ikey g of
         Some e \<Rightarrow> (replayed e, g)
       | None \<Rightarrow> (case nxt r g of (resp, g1) \<Rightarrow> (resp, idem_store ikey resp g1)))"

text \<open>The goroutine that clears the cache every ten minutes.\<close>

definition idempotency_sweep :: "'a web \<Rightarrow> 'a web" where
  "idempotency_sweep g = g\<lparr>wb_idempotency := filter (\<lambda>(k, e). \<not> ie_expiresAt e < wall_clock g) (wb_idempotency g)\<rparr>"

end
