(* ===== verification/JobsApi.thy ===== *)
theory JobsApi
  imports Http
begin

text \<open>
  The handlers of jobs and their output files (\<open>httpapi/jobs_handler.go\<close>). The body of a zip archive is the
  list of its members. A panic of the broker is recovered by \<open>recoverMiddleware\<close>, which answers 500.
\<close>

section \<open>Submission\<close>

fun link_files :: "uuid list \<Rightarrow> uuid \<Rightarrow> 'a web \<Rightarrow> 'a web" where
  "link_files [] jobID g = g"
| "link_files (i # is) jobID g = link_files is jobID (snd (F_LinkToJob i jobID ''input'' g))"

fun link_credentials :: "uuid list \<Rightarrow> uuid \<Rightarrow> 'a web \<Rightarrow> 'a web" where
  "link_credentials [] jobID g = g"
| "link_credentials (i # is) jobID g = link_credentials is jobID (snd (C_LinkToJob jobID i g))"

text \<open>Whether the skill of the request may be used, as the answer that it may not.\<close>

definition skill_refused :: "uuid option \<Rightarrow> uuid \<Rightarrow> 'a web \<Rightarrow> response option \<times> 'a web" where
  "skill_refused skillID userID g = (case skillID of None \<Rightarrow> (None, g)
   | Some i \<Rightarrow> (case U_GetByID userID g of
       (Inr (Some user), g1) \<Rightarrow> (case S_IsSkillVisibleToUser i userID (u_org_id user) g1 of
           (Inr True, g2) \<Rightarrow> (None, g2)
         | (_, g2) \<Rightarrow> (Some (badRequest ''skill not available''), g2))
     | (_, g1) \<Rightarrow> (Some (internalError ''internal error''), g1)))"

definition new_job :: "uuid \<Rightarrow> SubmitJobRequest \<Rightarrow> Job" where
  "new_job userID req = \<lparr>j_id = 0, j_user_id = userID, j_user_tier = UserTier_of '''', j_agent_id = None,
     j_device_id = None, j_channel = '''', j_command = sj_command req, j_params = None, j_skill_id = sj_skill_id req,
     j_status = JobPending, j_percent = None, j_progress_message = None, j_result = None, j_error_code = None,
     j_error_message = None, j_queued_at = None, j_queue_expires_at = None, j_submitted_at = 0, j_started_at = None,
     j_finished_at = None, j_created_at = 0, j_updated_at = 0, j_queue_position = None,
     j_estimated_wait_seconds = None\<rparr>"

text \<open>A job that waits: its row is marked queued and its place is told.\<close>

definition queue_up :: "Job \<Rightarrow> 'a web \<Rightarrow> response \<times> 'a web" where
  "queue_up job g = (let g1 = snd (J_UpdateStatus (j_id job) JobQueued g);
       (q, g2) = J_GetQueuePosition (j_id job) g1;
       pos = (case q of Inl e \<Rightarrow> 0 | Inr n \<Rightarrow> int n) in
     (writeJSON 202 (BJobResponse \<lparr>jr_job = job\<lparr>j_queue_position := Some pos\<rparr>,
        jr_queue_position = (if 0 < pos then Some pos else None),
        jr_estimated_wait_seconds = (if 0 < pos then Some (pos * 30) else None), jr_agent_id = None\<rparr>), g2))"

definition PushFilesToDevice :: "Dependencies \<Rightarrow> Job \<Rightarrow> uuid \<Rightarrow> 'a web exec" where
  "PushFilesToDevice deps job deviceID g = (if \<not> dp_relay deps then (None, g)
     else PushJobInputs (lb_crypto (dp_libs deps)) (dp_chunks deps) job deviceID g)"

text \<open>What follows the allocation of an agent.\<close>

definition dispatch_submitted :: "Dependencies \<Rightarrow> SubmitJobRequest \<Rightarrow> Job \<Rightarrow> Agent \<Rightarrow> 'a web \<Rightarrow> response \<times> 'a web" where
  "dispatch_submitted deps req job agent g =
    (let g1 = snd (J_SetAgent (j_id job) (a_id agent) (a_device_id agent) g);
         g2 = snd (PushFilesToDevice deps job (a_device_id agent) g1)
     in case send_new (a_device_id agent) FrameJobDispatch
          (PJobDispatch (dispatch_payload job agent (sj_file_ids req) (sj_credential_ids req))) g2 of
        (Some e, g3) \<Rightarrow> queue_up job (snd (J_ClearAgent (j_id job) (snd (Release (a_id agent) g3))))
      | (None, g3) \<Rightarrow>
          (let g4 = snd (PushCredentialsForJob (lb_crypto (dp_libs deps)) (st_vault (dp_Settings deps))
                           (j_id job) (a_id agent) (a_device_id agent) g3);
               topic = JobTopic (uuid_str g4) (j_id job)
           in case PublishScoped (ap_broker g4) topic (j_user_id job)
                     \<lparr>ws_type = ''job.status'', ws_topic = topic, ws_payload = ''''\<rparr> of
                None \<Rightarrow> (internalError ''internal server error'', g4)
              | Some b \<Rightarrow> (writeJSON 201 (BJobResponse \<lparr>jr_job = job, jr_queue_position = None,
                  jr_estimated_wait_seconds = None, jr_agent_id = Some (a_id agent)\<rparr>), g4\<lparr>ap_broker := b\<rparr>)))"

definition submit_created :: "Dependencies \<Rightarrow> SubmitJobRequest \<Rightarrow> Job \<Rightarrow> 'a web \<Rightarrow> response \<times> 'a web" where
  "submit_created deps req job g =
    (let g1 = link_credentials (sj_credential_ids req) (j_id job) (link_files (sj_file_ids req) (j_id job) g)
     in case Allocate (gateway_allocator (dp_libs deps) (dp_Settings deps)) job g1 of
        (Inl EQueueFull, _, g2) \<Rightarrow> (writeError 429 ErrCodeQueueFull ''max queued jobs per user reached'', g2)
      | (Inl _, _, g2) \<Rightarrow> (internalError ''allocation failed'', g2)
      | (Inr None, job1, g2) \<Rightarrow> queue_up job1 g2
      | (Inr (Some agent), job1, g2) \<Rightarrow> dispatch_submitted deps req job1 agent g2)"

definition handleSubmitJob :: "Dependencies \<Rightarrow> 'a web handlerfunc" where
  "handleSubmitJob deps r g = (case js_submit (dp_http deps) (rq_body r) of
     None \<Rightarrow> (badRequest ''invalid request body'', g)
   | Some req \<Rightarrow> if sj_command req = '''' then (badRequest ''command is required'', g)
       else (case skill_refused (sj_skill_id req) (getUserID r) g of
           (Some resp, g1) \<Rightarrow> (resp, g1)
         | (None, g1) \<Rightarrow> (case J_Create (new_job (getUserID r) req) g1 of
               (Some e, _, g2) \<Rightarrow> (internalError ''failed to create job'', g2)
             | (None, job, g2) \<Rightarrow> submit_created deps req job g2)))"

section \<open>Reading and cancelling\<close>

definition handleListJobs :: "Dependencies \<Rightarrow> 'a web handlerfunc" where
  "handleListJobs deps r g = (case J_ListByUser (getUserID r) (parseCursor deps r) (parseLimit r 50) g of
     (Inl e, g1) \<Rightarrow> (internalError ''failed to list jobs'', g1)
   | (Inr p, g1) \<Rightarrow> (writeJSON 200 (BJobPage (page p)), g1))"

definition handleGetJob :: "Dependencies \<Rightarrow> 'a web handlerfunc" where
  "handleGetJob deps r g = (case param_id deps r ''jobID'' of
     None \<Rightarrow> (badRequest ''invalid job_id'', g)
   | Some jobID \<Rightarrow> (case J_GetByID jobID g of
       (Inl e, g1) \<Rightarrow> (internalError ''internal error'', g1)
     | (Inr None, g1) \<Rightarrow> (notFound ''job not found'', g1)
     | (Inr (Some job), g1) \<Rightarrow>
         if j_user_id job \<noteq> getUserID r then (accessDenied, g1)
         else if j_status job = JobQueued then
           (let (q, g2) = J_GetQueuePosition jobID g1; pos = (case q of Inl e \<Rightarrow> 0 | Inr n \<Rightarrow> int n)
            in (writeJSON 200 (BJob (job\<lparr>j_queue_position := Some pos\<rparr>)), g2))
         else (writeJSON 200 (BJob job), g1)))"

text \<open>The beginning the other handlers of a job share: the caller's job, or the answer that there is none.\<close>

definition own_job :: "Dependencies \<Rightarrow> request \<Rightarrow> uuid \<Rightarrow> 'a web \<Rightarrow> (response + Job) \<times> 'a web" where
  "own_job deps r jobID g = (case J_GetByID jobID g of
     (Inr (Some job), g1) \<Rightarrow> (if j_user_id job \<noteq> getUserID r then Inl accessDenied else Inr job, g1)
   | (_, g1) \<Rightarrow> (Inl (notFound ''job not found''), g1))"

definition with_own_job :: "Dependencies \<Rightarrow> request \<Rightarrow> (Job \<Rightarrow> 'a web \<Rightarrow> response \<times> 'a web) \<Rightarrow> 'a web \<Rightarrow> response \<times> 'a web" where
  "with_own_job deps r f g = (case param_id deps r ''jobID'' of
     None \<Rightarrow> (badRequest ''invalid job_id'', g)
   | Some jobID \<Rightarrow> (case own_job deps r jobID g of (Inl resp, g1) \<Rightarrow> (resp, g1) | (Inr job, g1) \<Rightarrow> f job g1))"

text \<open>\<open>encoding/json\<close> writes the keys of a map in order.\<close>

definition cancel_json :: "(uuid \<Rightarrow> string) \<Rightarrow> uuid \<Rightarrow> uuid \<Rightarrow> string" where
  "cancel_json str jobID agentID = ''{\"agent_id\":\"'' @ str agentID @ ''\",\"job_id\":\"'' @ str jobID
     @ ''\",\"reason\":\"user requested\"}''"

definition cancel_job :: "uuid \<Rightarrow> Job \<Rightarrow> 'a web \<Rightarrow> response \<times> 'a web" where
  "cancel_job userID job g =
    (if IsTerminal (j_status job) then (writeError 409 ErrCodeConflict ''job already completed'', g)
     else (case J_Cancel (j_id job) userID g of
         (Some e, g1) \<Rightarrow> (internalError ''failed to cancel job'', g1)
       | (None, g1) \<Rightarrow>
          (let g2 = (case (j_agent_id job, j_device_id job) of
                 (Some agentID, Some deviceID) \<Rightarrow>
                    snd (send_new deviceID FrameJobCancel (PRaw (cancel_json (uuid_str g1) (j_id job) agentID)) g1)
               | _ \<Rightarrow> g1);
               g3 = (case j_agent_id job of Some agentID \<Rightarrow> snd (Release agentID g2) | None \<Rightarrow> g2)
           in (message 200 ''job cancelled'', g3))))"

definition handleCancelJob :: "Dependencies \<Rightarrow> 'a web handlerfunc" where
  "handleCancelJob deps r = with_own_job deps r (cancel_job (getUserID r))"

definition handleGetJobResult :: "Dependencies \<Rightarrow> 'a web handlerfunc" where
  "handleGetJobResult deps r = with_own_job deps r (\<lambda>job g.
     (writeJSON 200 (BJobResult (j_id job) (j_status job) (j_result job)), g))"

section \<open>Output files\<close>

definition output_entry :: "File \<Rightarrow> jobOutputFileEntry" where
  "output_entry f = \<lparr>oe_file_id = f_id f, oe_name = f_name f, oe_size = f_size f, oe_sha256 = f_sha256 f,
     oe_created_at = f_created_at f\<rparr>"

definition list_outputs :: "Job \<Rightarrow> 'a web \<Rightarrow> response \<times> 'a web" where
  "list_outputs job g = (case F_ListByJobAndRole (j_id job) ''output'' g of
     (Inl e, g1) \<Rightarrow> (internalError ''failed to list output files'', g1)
   | (Inr files, g1) \<Rightarrow> (writeJSON 200 (BOutputs (j_id job) (map output_entry files)), g1))"

definition handleListJobOutputs :: "Dependencies \<Rightarrow> 'a web handlerfunc" where
  "handleListJobOutputs deps r = with_own_job deps r list_outputs"

definition TrimLocal :: "string \<Rightarrow> string" where
  "TrimLocal s = (if HasPrefix s ''local:'' then drop 6 s else s)"

definition Abs :: "string \<Rightarrow> string \<Rightarrow> string" where
  "Abs cwd s = (if IsAbs s then path_str (Clean s) else Join cwd s)"

text \<open>The check that the path of a file lies below the file store: one string is a prefix of the other.\<close>

definition below_store :: "Dependencies \<Rightarrow> string \<Rightarrow> bool" where
  "below_store deps storagePath =
    (let base = TrimLocal (FileStore (dp_Config deps));
         configBase = (if IsAbs base then base else Abs (dp_cwd deps) base)
     in HasPrefix (Abs (dp_cwd deps) (TrimLocal storagePath)) (path_str (Clean configBase)))"

definition open_stored :: "string \<Rightarrow> 'a web \<Rightarrow> bytes option \<times> 'a web" where
  "open_stored storagePath g = (case on_fs (Open (Clean storagePath)) g of
     (Some bytes, g1) \<Rightarrow> (Some bytes, g1)
   | (None, g1) \<Rightarrow> on_fs (Open (Clean (TrimLocal storagePath))) g1)"

definition inlineContentType :: "string \<Rightarrow> string" where
  "inlineContentType name = (let ext = map lower (Ext name) in
     if ext \<in> {''.md'', ''.markdown''} then ''text/markdown; charset=utf-8''
     else if ext = ''.json'' then ''application/json; charset=utf-8''
     else if ext \<in> {''.txt'', ''.log''} then ''text/plain; charset=utf-8''
     else if ext \<in> {''.html'', ''.htm''} then ''text/html; charset=utf-8''
     else if ext = ''.csv'' then ''text/csv; charset=utf-8''
     else ''text/plain; charset=utf-8'')"

definition quoted :: "string \<Rightarrow> string" where
  "quoted s = ''\"'' @ s @ ''\"''"

definition file_response :: "request \<Rightarrow> File \<Rightarrow> bytes \<Rightarrow> response" where
  "file_response r file content = \<lparr>rs_status = 200, rs_header =
     (if rq_query r ''inline'' = ''1''
      then [(''Content-Type'', inlineContentType (f_name file)),
            (''Content-Disposition'', ''inline; filename='' @ quoted (f_name file))]
      else [(''Content-Type'', ''application/octet-stream''),
            (''Content-Disposition'', ''attachment; filename='' @ quoted (f_name file))])
     @ [(''ETag'', quoted (f_sha256 file))], rs_body = BContent content\<rparr>"

definition download :: "Dependencies \<Rightarrow> request \<Rightarrow> uuid \<Rightarrow> Job \<Rightarrow> 'a web \<Rightarrow> response \<times> 'a web" where
  "download deps r fileID job g = (case F_GetByID fileID g of
     (Inr (Some file), g1) \<Rightarrow> (case F_ListByJobAndRole (j_id job) ''output'' g1 of
         (Inl e, g2) \<Rightarrow> (internalError ''internal error'', g2)
       | (Inr outputFiles, g2) \<Rightarrow>
           if \<not> list_ex (\<lambda>f. f_id f = fileID) outputFiles then (notFound ''file not found'', g2)
           else if f_storage_uri file = '''' then (notFound ''file not available'', g2)
           else if \<not> below_store deps (f_storage_uri file) then (notFound ''file not found'', g2)
           else (case open_stored (f_storage_uri file) g2 of
               (None, g3) \<Rightarrow> (notFound ''file not found'', g3)
             | (Some content, g3) \<Rightarrow> (file_response r file content, g3)))
   | (_, g1) \<Rightarrow> (notFound ''file not found'', g1))"

definition handleDownloadJobOutput :: "Dependencies \<Rightarrow> 'a web handlerfunc" where
  "handleDownloadJobOutput deps r g = (case param_id deps r ''jobID'' of
     None \<Rightarrow> (badRequest ''invalid job_id'', g)
   | Some jobID \<Rightarrow> (case param_id deps r ''fileID'' of
       None \<Rightarrow> (badRequest ''invalid file_id'', g)
     | Some fileID \<Rightarrow> with_own_job deps r (download deps r fileID) g))"

text \<open>A member whose name ends in a slash is a directory, to which nothing can be written.\<close>

fun zip_outputs :: "File list \<Rightarrow> 'a web \<Rightarrow> (string \<times> bytes) list \<times> 'a web" where
  "zip_outputs [] g = ([], g)"
| "zip_outputs (f # fs) g = (if f_storage_uri f = '''' then zip_outputs fs g
     else (case open_stored (f_storage_uri f) g of
         (None, g1) \<Rightarrow> zip_outputs fs g1
       | (Some content, g1) \<Rightarrow> (let (rest, g2) = zip_outputs fs g1 in
           ((f_name f, if HasSuffix (f_name f) ''/'' then [] else content) # rest, g2))))"

definition download_zip :: "Job \<Rightarrow> 'a web \<Rightarrow> response \<times> 'a web" where
  "download_zip job g = (case F_ListByJobAndRole (j_id job) ''output'' g of
     (Inl e, g1) \<Rightarrow> (internalError ''failed to list output files'', g1)
   | (Inr files, g1) \<Rightarrow> (let (members, g2) = zip_outputs files g1 in
       (\<lparr>rs_status = 200, rs_header = [(''Content-Type'', ''application/zip''),
          (''Content-Disposition'', ''attachment; filename='' @
             quoted (''job-'' @ take 8 (uuid_str g1 (j_id job)) @ ''-outputs.zip''))],
         rs_body = BZip members\<rparr>, g2)))"

definition handleDownloadJobOutputZip :: "Dependencies \<Rightarrow> 'a web handlerfunc" where
  "handleDownloadJobOutputZip deps r = with_own_job deps r download_zip"

end
