(* ===== verification/VncApi.thy ===== *)
theory VncApi
  imports JobsApi
begin

text \<open>
  The handlers of remote-desktop sessions and saved logins (\<open>httpapi/vnc_handler.go\<close>). Opening a session
  waits up to 40 seconds for the device's answer, so the handler has two parts: \<open>open_vnc\<close> up to the
  wait, and \<open>open_vnc_wait\<close>, which has no result while it waits. Upgrading a request to a websocket is the
  library's: the argument \<open>up\<close> is the connection, or the answer the library has sent.
\<close>

section \<open>Opening a session\<close>

definition msToDur :: "int \<Rightarrow> duration" where
  "msToDur secs = int64 (secs * second)"

definition ws_scheme :: "request \<Rightarrow> string" where
  "ws_scheme r = (if rq_header r ''X-Forwarded-Proto'' = ''https'' then ''wss'' else if \<not> rq_tls r then ''ws'' else ''wss'')"

definition vnc_url :: "Dependencies \<Rightarrow> request \<Rightarrow> string \<Rightarrow> string \<Rightarrow> string" where
  "vnc_url deps r route sessionID = ws_scheme r @ ''://'' @ rq_host r @ PathPrefix (dp_Config deps) @ route @ sessionID"

definition generateSessionToken :: "'a web \<Rightarrow> string \<times> 'a web" where
  "generateSessionToken g = (let (b, g1) = rand_bytes g in (hex_encode (take 32 b), g1))"

definition job_has_session :: "uuid \<Rightarrow> Relay \<Rightarrow> bool" where
  "job_has_session jobID r \<longleftrightarrow> list_ex (\<lambda>s. vs_JobID s = jobID \<and> vs_Status s \<noteq> statusClosed) (map snd (rl_sessions r))"

definition create_session :: "Dependencies \<Rightarrow> uuid \<Rightarrow> uuid \<Rightarrow> uuid \<Rightarrow> uuid \<Rightarrow> 'a web \<Rightarrow> (Session \<times> string) \<times> 'a web" where
  "create_session deps jobID userID deviceID agentID g =
    (let (i, g1) = (if job_has_session jobID (ap_vnc g) then (0, g) else NewUUID g);
         (token, g2) = generateSessionToken g1;
         (sess, tok, relay) = CreateSession (HashToken (lb_crypto (dp_libs deps))) jobID userID deviceID agentID
            (msToDur (VNCIdleTTLSecs (dp_Config deps))) (msToDur (VNCMaxTTLSecs (dp_Config deps)))
            (wall_clock g2) i token (ap_vnc g2)
     in ((sess, tok), g2\<lparr>ap_vnc := relay\<rparr>))"

text \<open>What the handler keeps while it waits: the session and the URL for the browser.\<close>

type_synonym vnc_wait = "uuid \<times> string"

definition open_vnc_job :: "Dependencies \<Rightarrow> request \<Rightarrow> Job \<Rightarrow> 'a web \<Rightarrow> (response + vnc_wait) \<times> 'a web" where
  "open_vnc_job deps r job g =
    (if j_status job \<noteq> JobRunning then (Inl (writeError 409 ErrCodeConflict ''job is not running''), g)
     else (case (j_agent_id job, j_device_id job) of
         (Some agentID, Some deviceID) \<Rightarrow>
          (let ((sess, token), g1) = create_session deps (j_id job) (getUserID r) deviceID agentID g;
               i = uuid_str g1 (vs_ID sess);
               wsURL = vnc_url deps r ''/ws/vnc/'' i @ ''?token='' @ token;
               ttl = VNCMaxTTLSecs (dp_Config deps)
           in if vs_Status sess \<noteq> statusPending
              then (Inl (writeJSON 201 (BVNCOpen \<lparr>vor_session_id = vs_ID sess, vor_ws_url = wsURL,
                      vor_rfb_password = '''', vor_ttl_secs = ttl\<rparr>)), g1)
              else (Inr (vs_ID sess, wsURL), snd (send_new deviceID FrameVNCOpen (PVNCOpen
                 \<lparr>vop_session_id = vs_ID sess, vop_agent_id = agentID, vop_job_id = j_id job,
                  vop_relay_url = vnc_url deps r ''/session/'' i, vop_session_token = token,
                  vop_ttl_secs = ttl\<rparr>) g1)))
       | _ \<Rightarrow> (Inl (internalError ''job has no assigned agent''), g)))"

definition open_vnc :: "Dependencies \<Rightarrow> request \<Rightarrow> 'a web \<Rightarrow> (response + vnc_wait) \<times> 'a web" where
  "open_vnc deps r g = (case param_id deps r ''jobID'' of
     None \<Rightarrow> (Inl (badRequest ''invalid job_id''), g)
   | Some jobID \<Rightarrow> (case own_job deps r jobID g of
       (Inl resp, g1) \<Rightarrow> (Inl resp, g1) | (Inr job, g1) \<Rightarrow> open_vnc_job deps r job g1))"

definition open_vnc_wait :: "Dependencies \<Rightarrow> vnc_wait \<Rightarrow> bool \<Rightarrow> 'a web \<Rightarrow> response option" where
  "open_vnc_wait deps w expired g = (case WaitReady (fst w) expired (ap_vnc g) of
     None \<Rightarrow> None
   | Some (Inl e) \<Rightarrow> Some (writeError 504 ErrCodeInternalError ''vnc_open_timeout'')
   | Some (Inr rfbPassword) \<Rightarrow> Some (writeJSON 201 (BVNCOpen \<lparr>vor_session_id = fst w, vor_ws_url = snd w,
       vor_rfb_password = rfbPassword, vor_ttl_secs = VNCMaxTTLSecs (dp_Config deps)\<rparr>)))"

text \<open>The handler when nothing else happens before the time is up.\<close>

definition handleOpenVNC :: "Dependencies \<Rightarrow> 'a web handlerfunc" where
  "handleOpenVNC deps r g = (case open_vnc deps r g of
     (Inl resp, g1) \<Rightarrow> (resp, g1)
   | (Inr w, g1) \<Rightarrow> (case open_vnc_wait deps w True g1 of
       Some resp \<Rightarrow> (resp, g1) | None \<Rightarrow> (internalError ''vnc_open_timeout'', g1)))"

section \<open>Closing a session and saving a login\<close>

definition handleCloseVNC :: "Dependencies \<Rightarrow> 'a web handlerfunc" where
  "handleCloseVNC deps r g = (case param_id deps r ''sessionID'' of
     None \<Rightarrow> (badRequest ''invalid session_id'', g)
   | Some sessionID \<Rightarrow>
      (let g1 = (case GetSession (ap_vnc g) sessionID of None \<Rightarrow> g
             | Some sess \<Rightarrow> snd (send_new (vs_DeviceID sess) FrameVNCClose
                 (PVNCClose \<lparr>vcp_session_id = sessionID, vcp_reason = ''user requested''\<rparr>) g))
       in (message 200 ''session closed'', g1\<lparr>ap_vnc := CloseSession (wall_clock g1) sessionID (ap_vnc g1)\<rparr>)))"

definition handleSaveLogin :: "Dependencies \<Rightarrow> 'a web handlerfunc" where
  "handleSaveLogin deps r g = (case param_id deps r ''sessionID'' of
     None \<Rightarrow> (badRequest ''invalid session_id'', g)
   | Some sessionID \<Rightarrow> (case GetSession (ap_vnc g) sessionID of
       None \<Rightarrow> (notFound ''session not found'', g)
     | Some sess \<Rightarrow> (case js_save_login (dp_http deps) (rq_body r) of
         None \<Rightarrow> (badRequest ''invalid request'', g)
       | Some req \<Rightarrow> if sl_origin req = '''' then (badRequest ''origin is required'', g)
           else (message 202 ''capture initiated'', snd (send_new (vs_DeviceID sess) FrameCredCapture
             (PCredCapture \<lparr>cc_session_id = sessionID, cc_job_id = vs_JobID sess, cc_agent_id = vs_AgentID sess,
                cc_origin = sl_origin req, cc_storage_state = '''', cc_storage_state_encoding = '''',
                cc_sha256 = '''', cc_label = sl_label req\<rparr>) g)))))"

section \<open>Credentials\<close>

definition handleListCredentials :: "Dependencies \<Rightarrow> 'a web handlerfunc" where
  "handleListCredentials deps r g = (case C_ListByUser (getUserID r) g of
     (Inl e, g1) \<Rightarrow> (internalError ''failed to list credentials'', g1)
   | (Inr creds, g1) \<Rightarrow> (writeJSON 200 (BCredentials (map CredentialResponseFrom creds)), g1))"

definition with_own_credential :: "Dependencies \<Rightarrow> request \<Rightarrow> (BrowserCredential \<Rightarrow> 'a web \<Rightarrow> response \<times> 'a web) \<Rightarrow>
    'a web \<Rightarrow> response \<times> 'a web" where
  "with_own_credential deps r f g = (case param_id deps r ''credentialID'' of
     None \<Rightarrow> (badRequest ''invalid credential_id'', g)
   | Some credID \<Rightarrow> (case C_GetByID credID g of
       (Inr (Some cred), g1) \<Rightarrow> if bc_user_id cred \<noteq> getUserID r then (accessDenied, g1) else f cred g1
     | (_, g1) \<Rightarrow> (notFound ''credential not found'', g1)))"

definition handleDeleteCredential :: "Dependencies \<Rightarrow> 'a web handlerfunc" where
  "handleDeleteCredential deps r = with_own_credential deps r (\<lambda>cred g. case C_Delete (bc_id cred) g of
     (Some e, g1) \<Rightarrow> (internalError ''failed to delete credential'', g1)
   | (None, g1) \<Rightarrow> (message 200 ''credential deleted'', g1))"

definition handleGetCredential :: "Dependencies \<Rightarrow> 'a web handlerfunc" where
  "handleGetCredential deps r = with_own_credential deps r (\<lambda>cred g.
     (writeJSON 200 (BCredential (CredentialResponseFrom cred)), g))"

definition handleUpdateCredential :: "Dependencies \<Rightarrow> 'a web handlerfunc" where
  "handleUpdateCredential deps r = with_own_credential deps r (\<lambda>cred g. case js_label (dp_http deps) (rq_body r) of
     None \<Rightarrow> (badRequest ''invalid request body'', g)
   | Some label \<Rightarrow> if label = '''' then (badRequest ''label is required'', g)
       else (let cred1 = cred\<lparr>bc_label := label\<rparr> in case C_Update cred1 g of
           (Some e, g1) \<Rightarrow> (internalError ''failed to update credential'', g1)
         | (None, g1) \<Rightarrow> (writeJSON 200 (BCredential (CredentialResponseFrom cred1)), g1)))"

section \<open>The session of a job\<close>

definition live_status :: "vnc_status \<Rightarrow> VNCSessionStatus" where
  "live_status s = (case s of statusReady \<Rightarrow> VNCSessionReady | statusActive \<Rightarrow> VNCSessionActive | _ \<Rightarrow> VNCSessionPending)"

definition vnc_status_response :: "uuid option \<Rightarrow> VNCSessionStatus \<Rightarrow> string option \<Rightarrow> string option \<Rightarrow> response" where
  "vnc_status_response i status rfb url = writeJSON 200 (BVNCStatus \<lparr>vsr_session_id = i, vsr_status = status,
     vsr_rfb_password = rfb, vsr_ws_url = url, vsr_ttl_secs = None\<rparr>)"

definition job_vnc :: "Dependencies \<Rightarrow> request \<Rightarrow> Job \<Rightarrow> 'a web \<Rightarrow> response \<times> 'a web" where
  "job_vnc deps r job g = (case V_GetByJobID (j_id job) g of
     (Inl e, g1) \<Rightarrow> (internalError ''internal error'', g1)
   | (Inr None, g1) \<Rightarrow> (vnc_status_response None VNCSessionClosed None None, g1)
   | (Inr (Some sess), g1) \<Rightarrow> (case GetSession (ap_vnc g1) (v_id sess) of
       None \<Rightarrow> (vnc_status_response (Some (v_id sess)) (v_status sess) None None, g1)
     | Some live \<Rightarrow> (if vs_RFBPassword live \<noteq> ''''
         then vnc_status_response (Some (v_id sess)) (live_status (vs_Status live)) (Some (vs_RFBPassword live))
           (Some (vnc_url deps r ''/ws/vnc/'' (uuid_str g1 (v_id sess))))
         else vnc_status_response (Some (v_id sess)) (live_status (vs_Status live)) None None, g1)))"

definition handleGetJobVNC :: "Dependencies \<Rightarrow> 'a web handlerfunc" where
  "handleGetJobVNC deps r = with_own_job deps r (job_vnc deps r)"

section \<open>Websockets\<close>

abbreviation upgraded :: response where
  "upgraded \<equiv> \<lparr>rs_status = 101, rs_header = [], rs_body = BNone\<rparr>"

definition close_conn :: "ws_id \<Rightarrow> 'a web \<Rightarrow> 'a web" where
  "close_conn w g = g\<lparr>ap_vnc := close_ws (Some w) (ap_vnc g)\<rparr>"

definition bound :: "ws_id \<Rightarrow> err option \<times> Relay \<Rightarrow> 'a web \<Rightarrow> response \<times> 'a web" where
  "bound w res g = (let g1 = g\<lparr>ap_vnc := snd res\<rparr> in (upgraded, if fst res = None then g1 else close_conn w g1))"

text \<open>The session whose browser socket a token opens: the session's token or an access token of its user.\<close>

definition browser_session :: "Dependencies \<Rightarrow> uuid \<Rightarrow> string \<Rightarrow> 'a web \<Rightarrow> response + Session" where
  "browser_session deps sessionID token g =
    (let sess = GetSession (ap_vnc g) sessionID;
         by_jwt = (case VerifyToken (dp_http deps) (wb_jwt g) (wall_clock g) token of
             None \<Rightarrow> Inl (httpError ''invalid token'' 401)
           | Some claims \<Rightarrow> (case hl_ParseUUID (dp_http deps) (cl_subject claims) of
               None \<Rightarrow> Inl (httpError ''invalid token'' 401)
             | Some userID \<Rightarrow> (case sess of
                 Some s \<Rightarrow> if vs_UserID s = userID then Inr s else Inl (httpError ''access denied'' 403)
               | None \<Rightarrow> Inl (httpError ''access denied'' 403))))
     in case sess of
       Some s \<Rightarrow> if HashToken (lb_crypto (dp_libs deps)) token = vs_TokenHash s then Inr s else by_jwt
     | None \<Rightarrow> by_jwt)"

definition handleVNCBrowserSocket :: "Dependencies \<Rightarrow> response + ws_id \<Rightarrow> 'a web handlerfunc" where
  "handleVNCBrowserSocket deps up r g = (let token = rq_query r ''token'' in
     if token = '''' then (httpError ''token required'' 401, g)
     else (case param_id deps r ''sessionID'' of
         None \<Rightarrow> (httpError ''invalid session_id'' 400, g)
       | Some sessionID \<Rightarrow> (case browser_session deps sessionID token g of
           Inl resp \<Rightarrow> (resp, g)
         | Inr sess \<Rightarrow> (case up of Inl resp \<Rightarrow> (resp, g)
             | Inr w \<Rightarrow> bound w (BindBrowser (wall_clock g) sessionID (vs_UserID sess) w (ap_vnc g)) g))))"

definition session_token :: "request \<Rightarrow> string" where
  "session_token r =
    (let t1 = rq_header r ''X-Session-Token'';
         auth = rq_header r ''Authorization'';
         t2 = (if t1 = '''' \<and> HasPrefix auth ''Bearer '' then drop 7 auth else t1)
     in if t2 = '''' then rq_query r ''token'' else t2)"

definition handleVNCDeviceSocket :: "Dependencies \<Rightarrow> response + ws_id \<Rightarrow> 'a web handlerfunc" where
  "handleVNCDeviceSocket deps up r g = (let token = session_token r in
     if token = '''' then (httpError ''token required'' 401, g)
     else (case param_id deps r ''sessionID'' of
         None \<Rightarrow> (httpError ''invalid session_id'' 400, g)
       | Some sessionID \<Rightarrow> (case up of Inl resp \<Rightarrow> (resp, g)
           | Inr w \<Rightarrow> bound w (BindDevice (HashToken (lb_crypto (dp_libs deps))) (wall_clock g) sessionID token w (ap_vnc g)) g)))"

end
