(* ===== verification/DevicesApi.thy ===== *)
theory DevicesApi
  imports Http
begin

text \<open>
  The handlers of devices (\<open>httpapi/devices_handler.go\<close>) and of the tunnel's websocket
  (\<open>httpapi/tunnel_handler.go\<close>). Rotating a token closes the device's connection and registering one
  takes the hub's mutex, either of which may block forever: \<open>None\<close>.
\<close>

section \<open>Helpers\<close>

text \<open>\<open>model.ParseUUID\<close> of a URL parameter, and the answer of nearly every handler when it fails.\<close>

definition with_id :: "Dependencies \<Rightarrow> request \<Rightarrow> string \<Rightarrow> string \<Rightarrow> (uuid \<Rightarrow> 'a web \<Rightarrow> response \<times> 'a web) \<Rightarrow> 'a web \<Rightarrow> response \<times> 'a web"
  where "with_id deps r name invalid f g = (case param_id deps r name of
     None \<Rightarrow> (badRequest invalid, g) | Some i \<Rightarrow> f i g)"

text \<open>A decoded body, or the answer that it does not decode.\<close>

definition with_body :: "'b option \<Rightarrow> ('b \<Rightarrow> 'a web \<Rightarrow> response \<times> 'a web) \<Rightarrow> 'a web \<Rightarrow> response \<times> 'a web" where
  "with_body decoded f g = (case decoded of None \<Rightarrow> (badRequest ''invalid request body'', g) | Some req \<Rightarrow> f req g)"

text \<open>A call whose error is answered 500, and what follows its success: the audit log and a message.\<close>

definition after_exec :: "err option \<times> 'a web \<Rightarrow> string \<Rightarrow> ('a web \<Rightarrow> response \<times> 'a web) \<Rightarrow> response \<times> 'a web" where
  "after_exec res failed f = (case res of (Some e, g) \<Rightarrow> (internalError failed, g) | (None, g) \<Rightarrow> f g)"

definition audited :: "Dependencies \<Rightarrow> request \<Rightarrow> string \<Rightarrow> string \<Rightarrow> uuid \<Rightarrow> response \<Rightarrow> 'a web \<Rightarrow> response \<times> 'a web" where
  "audited deps r action typ targetID resp g =
     (resp, audit deps (getUserID r) action typ (Some targetID) None g)"

text \<open>A page of rows as the list handlers answer it.\<close>

definition listed :: "('r list \<times> uuid option, 'a web) query \<Rightarrow> ('r PaginatedResponse \<Rightarrow> body) \<Rightarrow> string \<Rightarrow> 'a web \<Rightarrow> response \<times> 'a web" where
  "listed q b failed g = (case q g of (Inl e, g1) \<Rightarrow> (internalError failed, g1)
     | (Inr p, g1) \<Rightarrow> (writeJSON 200 (b (page p)), g1))"

text \<open>A row looked up by id: an error, no row, or the row.\<close>

definition looked_up :: "(err + 'r option) \<times> 'a web \<Rightarrow> string \<Rightarrow> ('r \<Rightarrow> 'a web \<Rightarrow> response \<times> 'a web) \<Rightarrow> response \<times> 'a web" where
  "looked_up res missing f = (case res of (Inl e, g) \<Rightarrow> (internalError ''internal error'', g)
     | (Inr None, g) \<Rightarrow> (notFound missing, g) | (Inr (Some x), g) \<Rightarrow> f x g)"

definition found_or_404 :: "(err + 'r option) \<times> 'a web \<Rightarrow> string \<Rightarrow> ('r \<Rightarrow> 'a web \<Rightarrow> response \<times> 'a web) \<Rightarrow> response \<times> 'a web" where
  "found_or_404 res missing f = (case res of (Inr (Some x), g) \<Rightarrow> f x g | (_, g) \<Rightarrow> (notFound missing, g))"

section \<open>Devices\<close>

definition new_device :: "uuid \<Rightarrow> CreateDeviceRequest \<Rightarrow> string \<Rightarrow> Device" where
  "new_device userID req code = \<lparr>d_id = 0, d_operator_id = userID, d_name = cd_name req,
     d_description = cd_description req, d_platform = '''', d_status = DeviceEnrolled, d_token_hash = code,
     d_token_rotated_at = None, d_last_seen_at = None, d_resources = None, d_created_at = 0, d_updated_at = 0\<rparr>"

definition handleCreateDevice :: "Dependencies \<Rightarrow> 'a web handlerfunc" where
  "handleCreateDevice deps r = with_body (js_device (dp_http deps) (rq_body r)) (\<lambda>req g.
     if cd_name req = '''' then (badRequest ''name is required'', g)
     else (let (u, g1) = NewUUID g; code = uuid_str g1 u in
       case D_Create (new_device (getUserID r) req code) g1 of
         (Some e, _, g2) \<Rightarrow> (internalError ''failed to create device'', g2)
       | (None, device, g2) \<Rightarrow> audited deps r ''device.create'' ''device'' (d_id device)
           (writeJSON 201 (BCreateDevice device code)) g2))"

definition handleUpdateDevice :: "Dependencies \<Rightarrow> 'a web handlerfunc" where
  "handleUpdateDevice deps r = with_id deps r ''deviceID'' ''invalid device_id'' (\<lambda>deviceID g.
     found_or_404 (D_GetByID deviceID g) ''device not found'' (\<lambda>device.
     with_body (js_update_device (dp_http deps) (rq_body r)) (\<lambda>req g1.
       let device1 = device\<lparr>d_name := (case ud_name req of None \<Rightarrow> d_name device | Some n \<Rightarrow> n),
             d_description := (case ud_description req of None \<Rightarrow> d_description device | Some n \<Rightarrow> n)\<rparr>
       in after_exec (D_Update device1 g1) ''failed to update device''
            (audited deps r ''device.update'' ''device'' deviceID (writeJSON 200 (BDevice device1))))))"

text \<open>Two ids joined, and its hash.\<close>

definition new_device_token :: "'a web \<Rightarrow> string \<times> 'a web" where
  "new_device_token g = (let (u, g1) = NewUUID g; (v, g2) = NewUUID g1 in (uuid_str g2 u @ ''-'' @ uuid_str g2 v, g2))"

definition hashTokenForStorage :: "crypto \<Rightarrow> string \<Rightarrow> string" where
  "hashTokenForStorage c token = HashToken c token"

definition handleDeviceEnroll :: "Dependencies \<Rightarrow> 'a web handlerfunc" where
  "handleDeviceEnroll deps r = with_body (js_enroll (dp_http deps) (rq_body r)) (\<lambda>code g.
     if code = '''' then (badRequest ''enrollment_code is required'', g)
     else looked_up (D_GetEnrolledDevice code g) ''invalid enrollment code'' (\<lambda>device g1.
       let (token, g2) = new_device_token g1 in
       after_exec (D_UpdateToken (d_id device) (hashTokenForStorage (lb_crypto (dp_libs deps)) token) g2)
         ''failed to update device token'' (\<lambda>g3. (writeJSON 200 (BEnrollment (d_id device) token),
            audit deps (d_operator_id device) ''device.enroll'' ''device'' (Some (d_id device)) None g3))))"

definition handleListDevices :: "Dependencies \<Rightarrow> 'a web handlerfunc" where
  "handleListDevices deps r =
     listed (D_List (parseCursor deps r) (parseLimit r 50)) BDevicePage ''failed to list devices''"

definition handleGetDevice :: "Dependencies \<Rightarrow> 'a web handlerfunc" where
  "handleGetDevice deps r = with_id deps r ''deviceID'' ''invalid device_id'' (\<lambda>deviceID g.
     looked_up (D_GetByID deviceID g) ''device not found'' (\<lambda>device g1. (writeJSON 200 (BDevice device), g1)))"

definition handleDeleteDevice :: "Dependencies \<Rightarrow> 'a web handlerfunc" where
  "handleDeleteDevice deps r = with_id deps r ''deviceID'' ''invalid device_id'' (\<lambda>deviceID g.
     after_exec (D_Delete deviceID g) ''failed to delete device''
       (audited deps r ''device.delete'' ''device'' deviceID (message 200 ''device deleted'')))"

definition handleSetPoolSize :: "Dependencies \<Rightarrow> 'a web handlerfunc" where
  "handleSetPoolSize deps r = with_id deps r ''deviceID'' ''invalid device_id'' (\<lambda>deviceID.
     with_body (js_pool_size (dp_http deps) (rq_body r)) (\<lambda>size g.
       if size < 1 then (badRequest ''pool size must be at least 1'', g)
       else audited deps r ''device.set_pool_size'' ''device'' deviceID (writeJSON 200 (BPoolSize deviceID size))
         (snd (EnsurePoolSize deviceID (nat size) g))))"

definition handleRotateDeviceToken :: "Dependencies \<Rightarrow> request \<Rightarrow> 'a web \<Rightarrow> (response \<times> 'a web) option" where
  "handleRotateDeviceToken deps r g = (case param_id deps r ''deviceID'' of
     None \<Rightarrow> Some (badRequest ''invalid device_id'', g)
   | Some deviceID \<Rightarrow>
      (let (token, g1) = new_device_token g in
       case D_UpdateToken deviceID (hashTokenForStorage (lb_crypto (dp_libs deps)) token) g1 of
         (Some e, g2) \<Rightarrow> Some (internalError ''failed to rotate token'', g2)
       | (None, g2) \<Rightarrow>
          (case CloseDevice (gateway_config (dp_libs deps) (dp_Settings deps) (dp_decoders deps)) deviceID 4005 g2 of
             None \<Rightarrow> None
           | Some g3 \<Rightarrow> Some (audited deps r ''device.token_rotated'' ''device'' deviceID
               (writeJSON 200 (BEnrollment deviceID token)) g3))))"

section \<open>The tunnel\<close>

definition bearer_token :: "request \<Rightarrow> response + string" where
  "bearer_token r = (let authHeader = rq_header r ''Authorization'' in
     if authHeader = '''' then Inl (httpError ''authorization required'' 401)
     else if \<not> HasPrefix authHeader ''Bearer '' then Inl (httpError ''invalid authorization format'' 401)
     else Inr (drop 7 authHeader))"

definition verify_device_token :: "uuid \<Rightarrow> string \<Rightarrow> 'a web \<Rightarrow> bool \<times> 'a web" where
  "verify_device_token deviceID storedHash g = (case D_GetByID deviceID g of
     (Inr (Some d), g1) \<Rightarrow> (d_token_hash d = storedHash, g1) | (_, g1) \<Rightarrow> (False, g1))"

text \<open>\<open>up\<close> is \<open>None\<close> when the request was upgraded, or the answer the library has sent.\<close>

definition handleTunnel :: "Dependencies \<Rightarrow> response option \<Rightarrow> request \<Rightarrow> 'a web \<Rightarrow> (response \<times> 'a web) option" where
  "handleTunnel deps up r g = (case bearer_token r of
     Inl resp \<Rightarrow> Some (resp, g)
   | Inr token \<Rightarrow> (let tokenHash = HashToken (lb_crypto (dp_libs deps)) token in
      case D_GetByTokenHash tokenHash g of
        (Inl e, g1) \<Rightarrow> Some (if e = ErrNotFound then httpError ''invalid device token'' 401
                          else httpError ''internal error'' 500, g1)
      | (Inr device, g1) \<Rightarrow>
         (let subproto = rq_header r ''Sec-WebSocket-Protocol'' in
          if subproto \<noteq> '''' \<and> subproto \<noteq> ''iagent.tunnel.v1''
          then Some (httpError ''unsupported subprotocol'' 400, g1)
          else (case up of Some resp \<Rightarrow> Some (resp, g1)
            | None \<Rightarrow>
               (let (c, g2) = NewDeviceConn (d_id device) True g1;
                    g3 = SetTokenHash c tokenHash g2
                in case hub_Register (gateway_config (dp_libs deps) (dp_Settings deps) (dp_decoders deps)) c g3 of
                     None \<Rightarrow> None
                   | Some g4 \<Rightarrow> Some (\<lparr>rs_status = 101, rs_header = [], rs_body = BNone\<rparr>, g4))))))"

end
