(* ===== verification/AgentsApi.thy ===== *)
theory AgentsApi
  imports DevicesApi
begin

text \<open>The handlers of agents (\<open>httpapi/agents_handler.go\<close>) and of uploaded files (\<open>httpapi/files_handler.go\<close>).\<close>

section \<open>Agents of a user\<close>

definition handleListMyAgents :: "Dependencies \<Rightarrow> 'a web handlerfunc" where
  "handleListMyAgents deps r g = (case A_ListByUser (getUserID r) g of
     (Inl e, g1) \<Rightarrow> (internalError ''failed to list agents'', g1)
   | (Inr agents, g1) \<Rightarrow> (writeJSON 200 (BAgents agents), g1))"

definition with_agent_access :: "Dependencies \<Rightarrow> request \<Rightarrow> (Agent \<Rightarrow> 'a web \<Rightarrow> response \<times> 'a web) \<Rightarrow> Agent \<Rightarrow> 'a web \<Rightarrow>
    response \<times> 'a web" where
  "with_agent_access deps r f agent g = (if checkAgentAccess (dp_http deps) (getClaims r) agent \<noteq> None
     then (accessDenied, g) else f agent g)"

definition handleGetAgent :: "Dependencies \<Rightarrow> 'a web handlerfunc" where
  "handleGetAgent deps r = with_id deps r ''agentID'' ''invalid agent_id'' (\<lambda>agentID g.
     looked_up (A_GetByID agentID g) ''agent not found''
       (with_agent_access deps r (\<lambda>agent g1. (writeJSON 200 (BAgent agent), g1))))"

definition enable_skill :: "request \<Rightarrow> uuid \<Rightarrow> Agent \<Rightarrow> 'a web \<Rightarrow> response \<times> 'a web" where
  "enable_skill r skillID agent g = (case U_GetByID (getUserID r) g of
     (Inr (Some user), g1) \<Rightarrow> (case S_IsSkillVisibleToUser skillID (getUserID r) (u_org_id user) g1 of
         (Inr True, g2) \<Rightarrow> (case S_IsSkillInstalledOnDevice (a_device_id agent) skillID g2 of
             (Inr True, g3) \<Rightarrow> (case S_GetLatestVersion skillID g3 of
                 (Inr (Some ver), g4) \<Rightarrow>
                    after_exec (S_SetAgentSkill \<lparr>ask_agent_id = a_id agent, ask_skill_id = skillID,
                       ask_status = AgentSkillEnabled, ask_selected_by = None, ask_updated_at = 0\<rparr> g4)
                     ''failed to enable skill'' (\<lambda>g5. (message 200 ''skill enabled'',
                        snd (SendSkillAction (a_device_id agent) SkillScopeAgent SkillActionEnable skillID
                          (sv_version ver) (Some (a_id agent)) g5)))
               | (_, g4) \<Rightarrow> (internalError ''internal error'', g4))
           | (_, g3) \<Rightarrow> (badRequest ''skill not installed on device'', g3))
       | (_, g2) \<Rightarrow> (writeError 403 ErrCodeForbidden ''skill not visible to you'', g2))
   | (_, g1) \<Rightarrow> (internalError ''internal error'', g1))"

definition handleEnableAgentSkill :: "Dependencies \<Rightarrow> 'a web handlerfunc" where
  "handleEnableAgentSkill deps r = with_id deps r ''agentID'' ''invalid agent_id'' (\<lambda>agentID.
     with_body (js_skill_id (dp_http deps) (rq_body r)) (\<lambda>skillID g.
       found_or_404 (A_GetByID agentID g) ''agent not found''
         (with_agent_access deps r (enable_skill r skillID))))"

definition handleDisableAgentSkill :: "Dependencies \<Rightarrow> 'a web handlerfunc" where
  "handleDisableAgentSkill deps r = with_id deps r ''agentID'' ''invalid agent_id'' (\<lambda>agentID.
     with_id deps r ''skillID'' ''invalid skill_id'' (\<lambda>skillID g.
       found_or_404 (A_GetByID agentID g) ''agent not found'' (with_agent_access deps r (\<lambda>agent g1.
         after_exec (S_DeleteAgentSkill agentID skillID g1) ''failed to disable skill''
           (\<lambda>g2. (message 200 ''skill disabled'', g2))))))"

section \<open>Agents of the fleet\<close>

definition handleAdminListAgents :: "Dependencies \<Rightarrow> 'a web handlerfunc" where
  "handleAdminListAgents deps r =
     listed (A_ListAll (parseCursor deps r) (parseLimit r 50)) BAgentPage ''failed to list agents''"

definition handleDrainAgent :: "Dependencies \<Rightarrow> 'a web handlerfunc" where
  "handleDrainAgent deps r = with_id deps r ''agentID'' ''invalid agent_id'' (\<lambda>agentID g.
     after_exec (DrainAgent agentID g) ''failed to drain agent''
       (audited deps r ''agent.drain'' ''agent'' agentID (message 200 ''agent draining'')))"

definition handleForceReleaseAgent :: "Dependencies \<Rightarrow> 'a web handlerfunc" where
  "handleForceReleaseAgent deps r = with_id deps r ''agentID'' ''invalid agent_id'' (\<lambda>agentID g.
     after_exec (ForceRelease agentID g) ''failed to release agent''
       (audited deps r ''agent.force_release'' ''agent'' agentID (message 200 ''agent released'')))"

definition handleAdminGetAgent :: "Dependencies \<Rightarrow> 'a web handlerfunc" where
  "handleAdminGetAgent deps r = with_id deps r ''agentID'' ''invalid agent_id'' (\<lambda>agentID g.
     looked_up (A_GetByID agentID g) ''agent not found'' (\<lambda>agent g1. (writeJSON 200 (BAgent agent), g1)))"

definition handleAdminDeleteAgent :: "Dependencies \<Rightarrow> 'a web handlerfunc" where
  "handleAdminDeleteAgent deps r = with_id deps r ''agentID'' ''invalid agent_id'' (\<lambda>agentID g.
     after_exec (A_Delete agentID g) ''failed to delete agent''
       (audited deps r ''agent.delete'' ''agent'' agentID (message 200 ''agent removed from pool'')))"

section \<open>Files\<close>

text \<open>Without a relay the code dereferences a nil pointer; the panic is recovered.\<close>

definition handleUploadFile :: "Dependencies \<Rightarrow> 'a web handlerfunc" where
  "handleUploadFile deps r g = (case hl_multipart (dp_http deps) (MaxUploadBytes (dp_Config deps)) r of
     None \<Rightarrow> (badRequest ''file too large or invalid multipart form'', g)
   | Some form \<Rightarrow> (case mf_file form ''file'' of
       None \<Rightarrow> (badRequest ''file field is required'', g)
     | Some up \<Rightarrow>
         let mimeType = (if up_content_type up = '''' then ''application/octet-stream'' else up_content_type up) in
         if \<not> dp_relay deps then (internalError ''internal server error'', g)
         else (case StageFile (lb_crypto (dp_libs deps)) (gateway_relay (dp_Settings deps)) (getUserID r)
                  (up_filename up) (up_data up) mimeType g of
             (Inl e, g1) \<Rightarrow> (internalError ''failed to stage file'', g1)
           | (Inr file, g1) \<Rightarrow> (writeJSON 201 (BFile file), g1))))"

definition handleListFiles :: "Dependencies \<Rightarrow> 'a web handlerfunc" where
  "handleListFiles deps r =
     listed (F_ListByUser (getUserID r) (parseCursor deps r) (parseLimit r 50)) BFilePage ''failed to list files''"

definition with_own_file :: "Dependencies \<Rightarrow> request \<Rightarrow> (File \<Rightarrow> 'a web \<Rightarrow> response \<times> 'a web) \<Rightarrow> 'a web \<Rightarrow> response \<times> 'a web" where
  "with_own_file deps r f = with_id deps r ''fileID'' ''invalid file_id'' (\<lambda>fileID g.
     found_or_404 (F_GetByID fileID g) ''file not found'' (\<lambda>x g1.
       if f_user_id x \<noteq> getUserID r then (accessDenied, g1) else f x g1))"

definition handleGetFile :: "Dependencies \<Rightarrow> 'a web handlerfunc" where
  "handleGetFile deps r = with_own_file deps r (\<lambda>x g. (writeJSON 200 (BFile x), g))"

definition handleDeleteFile :: "Dependencies \<Rightarrow> 'a web handlerfunc" where
  "handleDeleteFile deps r = with_own_file deps r (\<lambda>x g.
     after_exec (F_MarkPurged (f_id x) g) ''failed to delete file'' (\<lambda>g1. (message 200 ''file deleted'', g1)))"

end
