(* ===== verification/OrgsApi.thy ===== *)
theory OrgsApi
  imports DevicesApi
begin

text \<open>The administration of organisations and of users' tiers (\<open>httpapi/admin_handler.go\<close>).\<close>

definition new_org :: "uuid \<Rightarrow> CreateOrgRequest \<Rightarrow> Organization" where
  "new_org userID req = \<lparr>o_id = 0, o_name = co_name req, o_description = co_description req, o_created_by = userID,
     o_created_at = 0, o_updated_at = 0\<rparr>"

definition handleCreateOrg :: "Dependencies \<Rightarrow> 'a web handlerfunc" where
  "handleCreateOrg deps r = with_body (js_org (dp_http deps) (rq_body r)) (\<lambda>req g.
     if co_name req = '''' then (badRequest ''name is required'', g)
     else (case O_Create (new_org (getUserID r) req) g of
         (Some e, _, g1) \<Rightarrow> (internalError ''failed to create organization'', g1)
       | (None, org, g1) \<Rightarrow> audited deps r ''org.create'' ''organization'' (o_id org) (writeJSON 201 (BOrg org)) g1))"

definition handleListOrgs :: "Dependencies \<Rightarrow> 'a web handlerfunc" where
  "handleListOrgs deps r =
     listed (O_List (parseCursor deps r) (parseLimit r 50)) BOrgPage ''failed to list organizations''"

definition handleGetOrg :: "Dependencies \<Rightarrow> 'a web handlerfunc" where
  "handleGetOrg deps r = with_id deps r ''orgID'' ''invalid org_id'' (\<lambda>orgID g.
     found_or_404 (O_GetByID orgID g) ''organization not found'' (\<lambda>org g1. (writeJSON 200 (BOrg org), g1)))"

text \<open>The description of the request is not used.\<close>

definition handleUpdateOrg :: "Dependencies \<Rightarrow> 'a web handlerfunc" where
  "handleUpdateOrg deps r = with_id deps r ''orgID'' ''invalid org_id'' (\<lambda>orgID g.
     found_or_404 (O_GetByID orgID g) ''organization not found'' (\<lambda>org.
     with_body (js_org (dp_http deps) (rq_body r)) (\<lambda>req g1.
       let org1 = (if co_name req \<noteq> '''' then org\<lparr>o_name := co_name req\<rparr> else org)
       in after_exec (O_Update org1 g1) ''failed to update organization''
            (audited deps r ''org.update'' ''organization'' orgID (writeJSON 200 (BOrg org1))))))"

definition handleDeleteOrg :: "Dependencies \<Rightarrow> 'a web handlerfunc" where
  "handleDeleteOrg deps r = with_id deps r ''orgID'' ''invalid org_id'' (\<lambda>orgID g.
     after_exec (O_Delete orgID g) ''failed to delete organization''
       (audited deps r ''org.delete'' ''organization'' orgID (message 200 ''organization deleted'')))"

definition handleAddOrgMember :: "Dependencies \<Rightarrow> 'a web handlerfunc" where
  "handleAddOrgMember deps r = with_id deps r ''orgID'' ''invalid org_id'' (\<lambda>orgID.
     with_body (js_member (dp_http deps) (rq_body r)) (\<lambda>userID g.
       after_exec (O_AddMember orgID userID g) ''failed to add member''
         (audited deps r ''org.add_member'' ''organization'' orgID (message 200 ''member added''))))"

text \<open>The organisation of the path only goes to the audit log.\<close>

definition handleRemoveOrgMember :: "Dependencies \<Rightarrow> 'a web handlerfunc" where
  "handleRemoveOrgMember deps r = with_id deps r ''orgID'' ''invalid org_id'' (\<lambda>orgID.
     with_id deps r ''userID'' ''invalid user_id'' (\<lambda>userID g.
       after_exec (O_RemoveMember userID g) ''failed to remove member''
         (audited deps r ''org.remove_member'' ''organization'' orgID (message 200 ''member removed''))))"

definition handleListOrgMembers :: "Dependencies \<Rightarrow> 'a web handlerfunc" where
  "handleListOrgMembers deps r = with_id deps r ''orgID'' ''invalid org_id'' (\<lambda>orgID g.
     case O_ListMembers orgID g of
       (Inl e, g1) \<Rightarrow> (internalError ''failed to list members'', g1)
     | (Inr members, g1) \<Rightarrow> (writeJSON 200 (BUsers members), g1))"

definition handleListUsers :: "Dependencies \<Rightarrow> 'a web handlerfunc" where
  "handleListUsers deps r =
     listed (U_List (parseCursor deps r) (parseLimit r 50)) BUserPage ''failed to list users''"

definition handleUpdateUserTier :: "Dependencies \<Rightarrow> 'a web handlerfunc" where
  "handleUpdateUserTier deps r = with_id deps r ''userID'' ''invalid user_id'' (\<lambda>userID.
     with_body (js_tier (dp_http deps) (rq_body r)) (\<lambda>tier g.
       if tier \<noteq> TierFree \<and> tier \<noteq> TierPro \<and> tier \<noteq> TierEnterprise then (badRequest ''invalid tier'', g)
       else after_exec (U_UpdateTier userID tier g) ''failed to update tier''
         (audited deps r ''user.update_tier'' ''user'' userID (message 200 ''tier updated''))))"

end
