(* ===== verification/SkillsApi.thy ===== *)
theory SkillsApi
  imports DevicesApi
begin

text \<open>The handlers of skills, their versions, their rollout and their grants (\<open>httpapi/skills_handler.go\<close>).\<close>

section \<open>Skills of a user\<close>

definition with_user :: "request \<Rightarrow> (User \<Rightarrow> 'a web \<Rightarrow> response \<times> 'a web) \<Rightarrow> 'a web \<Rightarrow> response \<times> 'a web" where
  "with_user r f g = (case U_GetByID (getUserID r) g of
     (Inr (Some user), g1) \<Rightarrow> f user g1 | (_, g1) \<Rightarrow> (internalError ''internal error'', g1))"

definition handleListVisibleSkills :: "Dependencies \<Rightarrow> 'a web handlerfunc" where
  "handleListVisibleSkills deps r = with_user r (\<lambda>user g.
     case S_ListVisibleSkills (getUserID r) (u_org_id user) g of
       (Inl e, g1) \<Rightarrow> (internalError ''failed to list skills'', g1)
     | (Inr skills, g1) \<Rightarrow> (writeJSON 200 (BSkills skills), g1))"

definition handleGetSkill :: "Dependencies \<Rightarrow> 'a web handlerfunc" where
  "handleGetSkill deps r = with_id deps r ''skillID'' ''invalid skill_id'' (\<lambda>skillID. with_user r (\<lambda>user g.
     case S_IsSkillVisibleToUser skillID (getUserID r) (u_org_id user) g of
       (Inr True, g1) \<Rightarrow> found_or_404 (GetSkillWithLatestVersion skillID g1) ''skill not found''
          (\<lambda>s g2. (writeJSON 200 (BSkillVersioned s), g2))
     | (_, g1) \<Rightarrow> (notFound ''skill not found'', g1)))"

section \<open>The catalogue\<close>

definition handleAdminListSkills :: "Dependencies \<Rightarrow> 'a web handlerfunc" where
  "handleAdminListSkills deps r =
     listed (S_ListSkills (parseCursor deps r) (parseLimit r 50)) BSkillPage ''failed to list skills''"

definition handleCreateSkill :: "Dependencies \<Rightarrow> 'a web handlerfunc" where
  "handleCreateSkill deps r = with_body (js_skill (dp_http deps) (rq_body r)) (\<lambda>req g.
     if cs_name req = '''' then (badRequest ''name is required'', g)
     else (let visibility = (if cs_visibility req \<noteq> VisibilityPublic \<and> cs_visibility req \<noteq> VisibilityRestricted
                then VisibilityRestricted else cs_visibility req) in
       case SV_CreateSkill (cs_key req) (cs_name req) (cs_description req) visibility g of
         (Inl e, g1) \<Rightarrow> (internalError ''failed to create skill'', g1)
       | (Inr skill, g1) \<Rightarrow> audited deps r ''skill.create'' ''skill'' (sk_id skill) (writeJSON 201 (BSkill skill)) g1))"

definition SkillCatalogStatus_of :: "string \<Rightarrow> SkillCatalogStatus" where
  "SkillCatalogStatus_of s = (if s = ''active'' then SkillActive else if s = ''deprecated'' then SkillDeprecated
     else SkillCatalogStatusOther s)"

definition changed_skill :: "CreateSkillRequest \<Rightarrow> Skill \<Rightarrow> Skill" where
  "changed_skill req s = s\<lparr>sk_name := (if cs_name req \<noteq> '''' then cs_name req else sk_name s),
     sk_description := (if cs_description req \<noteq> '''' then cs_description req else sk_description s),
     sk_key := (if cs_key req \<noteq> '''' then cs_key req else sk_key s),
     sk_visibility := (if cs_visibility req \<noteq> SkillVisibilityOther '''' then cs_visibility req else sk_visibility s),
     sk_status := (if cs_status req \<noteq> '''' then SkillCatalogStatus_of (cs_status req) else sk_status s)\<rparr>"

definition handleUpdateSkill :: "Dependencies \<Rightarrow> 'a web handlerfunc" where
  "handleUpdateSkill deps r = with_id deps r ''skillID'' ''invalid skill_id'' (\<lambda>skillID g.
     found_or_404 (S_GetSkill skillID g) ''skill not found'' (\<lambda>skill.
     with_body (js_skill (dp_http deps) (rq_body r)) (\<lambda>req g1.
       after_exec (S_UpdateSkill (changed_skill req skill) g1) ''failed to update skill''
         (audited deps r ''skill.update'' ''skill'' skillID (writeJSON 200 (BSkill (changed_skill req skill)))))))"

definition handleDeleteSkill :: "Dependencies \<Rightarrow> 'a web handlerfunc" where
  "handleDeleteSkill deps r = with_id deps r ''skillID'' ''invalid skill_id'' (\<lambda>skillID g.
     after_exec (S_DeleteSkill skillID g) ''failed to delete skill''
       (audited deps r ''skill.delete'' ''skill'' skillID (message 200 ''skill deleted'')))"

definition publish :: "Dependencies \<Rightarrow> request \<Rightarrow> uuid \<Rightarrow> multipart \<Rightarrow> 'a web \<Rightarrow> response \<times> 'a web" where
  "publish deps r skillID form g =
    (let version = mf_value form ''version''; manifest = mf_value form ''manifest'' in
     if version = '''' \<or> manifest = '''' then (badRequest ''version and manifest are required'', g)
     else (case mf_file form ''artifact'' of
         None \<Rightarrow> (badRequest ''artifact file is required'', g)
       | Some up \<Rightarrow>
           (case PublishVersion (lb_crypto (dp_libs deps)) (skills_dir (dp_Settings deps)) skillID version manifest
                  (up_data up) g of
              (Inl e, g1) \<Rightarrow> (internalError ''failed to publish version'', g1)
            | (Inr ver, g1) \<Rightarrow> audited deps r ''skill.publish_version'' ''skill'' skillID
                (writeJSON 201 (BVersion ver)) g1)))"

definition handlePublishSkillVersion :: "Dependencies \<Rightarrow> 'a web handlerfunc" where
  "handlePublishSkillVersion deps r = with_id deps r ''skillID'' ''invalid skill_id'' (\<lambda>skillID g.
     case hl_multipart (dp_http deps) (MaxUploadBytes (dp_Config deps)) r of
       None \<Rightarrow> (badRequest ''file too large'', g)
     | Some form \<Rightarrow> publish deps r skillID form g)"

section \<open>The fleet\<close>

definition install_fleet :: "Dependencies \<Rightarrow> request \<Rightarrow> string \<Rightarrow> string \<Rightarrow> 'a web \<Rightarrow> response \<times> 'a web" where
  "install_fleet deps r action done_msg = with_id deps r ''skillID'' ''invalid skill_id'' (\<lambda>skillID.
     with_body (js_version (dp_http deps) (rq_body r)) (\<lambda>version g.
       found_or_404 (S_GetVersionByTag skillID version g) ''version not found'' (\<lambda>ver g1.
         audited deps r action ''skill'' skillID (message 202 done_msg)
           (snd (DispatchToAllDevices (Some D_ListAll) (lb_crypto (dp_libs deps)) (dp_chunks deps)
              skillID (sv_id ver) g1)))))"

definition handleInstallSkillFleet :: "Dependencies \<Rightarrow> 'a web handlerfunc" where
  "handleInstallSkillFleet deps r = install_fleet deps r ''skill.fleet_install'' ''skill installation initiated''"

definition handleUpdateSkillFleet :: "Dependencies \<Rightarrow> 'a web handlerfunc" where
  "handleUpdateSkillFleet deps r = install_fleet deps r ''skill.fleet_update'' ''skill update initiated''"

fun action_all :: "SkillAction \<Rightarrow> uuid \<Rightarrow> Device list \<Rightarrow> 'a web \<Rightarrow> 'a web" where
  "action_all action skillID [] g = g"
| "action_all action skillID (d # ds) g = action_all action skillID ds
     (snd (SendSkillAction (d_id d) SkillScopeDevice action skillID '''' None g))"

definition act_on_fleet :: "Dependencies \<Rightarrow> request \<Rightarrow> SkillAction \<Rightarrow> string \<Rightarrow> string \<Rightarrow> 'a web \<Rightarrow> response \<times> 'a web" where
  "act_on_fleet deps r action name done_msg = with_id deps r ''skillID'' ''invalid skill_id'' (\<lambda>skillID g.
     let (q, g1) = D_ListAll g; devices = (case q of Inl e \<Rightarrow> [] | Inr ds \<Rightarrow> ds)
     in audited deps r name ''skill'' skillID (message 202 done_msg) (action_all action skillID devices g1))"

definition handleDisableSkillFleet :: "Dependencies \<Rightarrow> 'a web handlerfunc" where
  "handleDisableSkillFleet deps r =
     act_on_fleet deps r SkillActionDisable ''skill.fleet_disable'' ''skill disable initiated''"

definition handleEnableSkillFleet :: "Dependencies \<Rightarrow> 'a web handlerfunc" where
  "handleEnableSkillFleet deps r =
     act_on_fleet deps r SkillActionEnable ''skill.fleet_enable'' ''skill enable initiated''"

definition handleDeleteSkillFleet :: "Dependencies \<Rightarrow> 'a web handlerfunc" where
  "handleDeleteSkillFleet deps r =
     act_on_fleet deps r SkillActionDelete ''skill.fleet_delete'' ''skill deletion initiated''"

definition handleRetrySkillFleet :: "Dependencies \<Rightarrow> 'a web handlerfunc" where
  "handleRetrySkillFleet deps r = with_id deps r ''skillID'' ''invalid skill_id'' (\<lambda>skillID.
     with_body (js_retry (dp_http deps) (rq_body r)) (\<lambda>req g.
       after_exec (RetryFailedAgents (srr_device_id req) skillID (srr_agent_ids req) None g)
         ''failed to retry skill install''
         (audited deps r ''skill.retry'' ''skill'' skillID (message 202 ''retry initiated''))))"

definition rollout_entry :: "SkillRolloutAgentEntry list \<Rightarrow> DeviceSkill \<Rightarrow> string \<Rightarrow> SkillRolloutEntry" where
  "rollout_entry agentSkills ds name = \<lparr>re_device_id = ds_device_id ds, re_device_name = name,
     re_version = ds_version ds, re_status = ds_status ds, re_error = ds_error_message ds,
     re_updated_at = ds_updated_at ds,
     re_agents = filter (\<lambda>a. ra_device_id a = ds_device_id ds) agentSkills\<rparr>"

fun rollout_entries :: "SkillRolloutAgentEntry list \<Rightarrow> DeviceSkill list \<Rightarrow> 'a web \<Rightarrow> SkillRolloutEntry list \<times> 'a web" where
  "rollout_entries agentSkills [] g = ([], g)"
| "rollout_entries agentSkills (ds # rest) g = (let (q, g1) = D_GetByID (ds_device_id ds) g;
       name = (case q of Inr (Some d) \<Rightarrow> d_name d | _ \<Rightarrow> '''');
       (es, g2) = rollout_entries agentSkills rest g1
     in (rollout_entry agentSkills ds name # es, g2))"

definition handleGetSkillRollout :: "Dependencies \<Rightarrow> 'a web handlerfunc" where
  "handleGetSkillRollout deps r = with_id deps r ''skillID'' ''invalid skill_id'' (\<lambda>skillID g.
     case S_GetDeviceSkillsForSkill skillID g of
       (Inl e, g1) \<Rightarrow> (internalError ''failed to get rollout status'', g1)
     | (Inr deviceSkills, g1) \<Rightarrow> (case S_GetAgentSkillsForSkill skillID g1 of
         (Inl e, g2) \<Rightarrow> (internalError ''failed to get agent status'', g2)
       | (Inr agentSkills, g2) \<Rightarrow> (let (entries, g3) = rollout_entries agentSkills deviceSkills g2
           in (writeJSON 200 (BRollout entries), g3))))"

section \<open>Visibility and grants\<close>

definition handleUpdateSkillVisibility :: "Dependencies \<Rightarrow> 'a web handlerfunc" where
  "handleUpdateSkillVisibility deps r = with_id deps r ''skillID'' ''invalid skill_id'' (\<lambda>skillID.
     with_body (js_visibility (dp_http deps) (rq_body r)) (\<lambda>vis g.
       after_exec (S_UpdateVisibility skillID vis g) ''failed to update visibility''
         (audited deps r ''skill.update_visibility'' ''skill'' skillID (message 200 ''visibility updated''))))"

definition handleCreateSkillGrant :: "Dependencies \<Rightarrow> 'a web handlerfunc" where
  "handleCreateSkillGrant deps r = with_id deps r ''skillID'' ''invalid skill_id'' (\<lambda>skillID.
     with_body (js_grant (dp_http deps) (rq_body r)) (\<lambda>req g.
       after_exec (GrantVisibility skillID (sgr_principal_type req) (sgr_principal_id req) (getUserID r) g)
         ''failed to create grant''
         (audited deps r ''skill.create_grant'' ''skill'' skillID (message 201 ''grant created''))))"

definition remove_grant :: "Dependencies \<Rightarrow> request \<Rightarrow> uuid \<Rightarrow> PrincipalType \<Rightarrow> uuid \<Rightarrow> 'a web \<Rightarrow> response \<times> 'a web" where
  "remove_grant deps r skillID principalType principalID g =
     after_exec (RevokeVisibility skillID principalType principalID g) ''failed to delete grant''
       (audited deps r ''skill.delete_grant'' ''skill'' skillID (message 200 ''grant removed''))"

definition handleDeleteSkillGrant :: "Dependencies \<Rightarrow> 'a web handlerfunc" where
  "handleDeleteSkillGrant deps r = with_id deps r ''skillID'' ''invalid skill_id'' (\<lambda>skillID.
     with_body (js_grant (dp_http deps) (rq_body r)) (\<lambda>req.
       remove_grant deps r skillID (sgr_principal_type req) (sgr_principal_id req)))"

definition PrincipalType_of :: "string \<Rightarrow> PrincipalType" where
  "PrincipalType_of s = (if s = ''user'' then PrincipalUser else if s = ''org'' then PrincipalOrg else PrincipalTypeOther s)"

definition handleDeleteSkillGrantPath :: "Dependencies \<Rightarrow> 'a web handlerfunc" where
  "handleDeleteSkillGrantPath deps r = with_id deps r ''skillID'' ''invalid skill_id'' (\<lambda>skillID g.
     let principalType = PrincipalType_of (rq_param r ''principal_type'') in
     if principalType \<noteq> PrincipalUser \<and> principalType \<noteq> PrincipalOrg
     then (badRequest ''principal_type must be user or org'', g)
     else with_id deps r ''principal_id'' ''invalid principal_id'' (remove_grant deps r skillID principalType) g)"

definition handleListSkillGrants :: "Dependencies \<Rightarrow> 'a web handlerfunc" where
  "handleListSkillGrants deps r = with_id deps r ''skillID'' ''invalid skill_id'' (\<lambda>skillID g.
     case S_ListGrants skillID g of
       (Inl e, g1) \<Rightarrow> (internalError ''failed to list grants'', g1)
     | (Inr grants, g1) \<Rightarrow> (writeJSON 200 (BGrants grants), g1))"

definition handleAdminGetSkill :: "Dependencies \<Rightarrow> 'a web handlerfunc" where
  "handleAdminGetSkill deps r = with_id deps r ''skillID'' ''invalid skill_id'' (\<lambda>skillID g.
     found_or_404 (GetSkillWithLatestVersion skillID g) ''skill not found'' (\<lambda>s g1.
       let (q, g2) = S_ListGrants skillID g1; grants = (case q of Inl e \<Rightarrow> [] | Inr gs \<Rightarrow> gs)
       in (writeJSON 200 (BSkillAdmin s grants), g2)))"

end
