(* ===== verification/Routes.thy ===== *)
theory Routes
  imports Middleware VncApi AgentsApi OrgsApi SkillsApi AuthApi
begin

text \<open>
  \<open>NewRouter\<close> of \<open>httpapi/router.go\<close>: which handler serves a method and a pattern, behind which
  middlewares, in their order. Matching a request with a pattern is the router's, a third-party package. Left out of
  the table are the handlers that are not a function to a response (the websockets and the rotation of a device's
  token, which may never answer), the metrics and the files of the web client.
\<close>

definition public_chain :: "Dependencies \<Rightarrow> 'a web handlerfunc \<Rightarrow> 'a web handlerfunc" where
  "public_chain deps = authRateLimitMiddleware (RateLimitAuthPerMin (dp_Config deps))"

definition user_chain :: "Dependencies \<Rightarrow> 'a web handlerfunc \<Rightarrow> 'a web handlerfunc" where
  "user_chain deps nxt = authMiddleware (dp_http deps) (tenantScopeMiddleware (dp_http deps)
     (idempotencyMiddleware (lb_crypto (dp_libs deps)) nxt))"

definition admin_chain :: "Dependencies \<Rightarrow> 'a web handlerfunc \<Rightarrow> 'a web handlerfunc" where
  "admin_chain deps nxt = user_chain deps (requireAdminMiddleware nxt)"

definition global_chain :: "Dependencies \<Rightarrow> 'a web handlerfunc \<Rightarrow> 'a web handlerfunc" where
  "global_chain deps nxt = securityHeadersMiddleware (csrfMiddleware (CORSAllowedOrigins (dp_Config deps))
     (rateLimitMiddleware (RateLimitAPIPerSec (dp_Config deps)) nxt))"

type_synonym 'h route = "string \<times> string \<times> 'h handlerfunc"

definition public_routes :: "Dependencies \<Rightarrow> 'a web route list" where
  "public_routes deps =
    [(''POST'', ''/api/v1/auth/register'', public_chain deps (handleRegister deps)),
     (''POST'', ''/api/v1/auth/login'', public_chain deps (handleLogin deps)),
     (''POST'', ''/api/v1/auth/refresh'', public_chain deps (handleRefresh deps)),
     (''POST'', ''/api/v1/devices/enroll'', handleDeviceEnroll deps),
     (''GET'', ''/healthz'', handleHealthz), (''GET'', ''/readyz'', handleReadyz)]"

definition user_routes :: "Dependencies \<Rightarrow> 'a web route list" where
  "user_routes deps =
    [(''POST'', ''/api/v1/auth/logout'', handleLogout deps),
     (''GET'', ''/api/v1/auth/me'', handleMe deps),
     (''GET'', ''/api/v1/agents'', handleListMyAgents deps),
     (''GET'', ''/api/v1/agents/{agentID}'', handleGetAgent deps),
     (''POST'', ''/api/v1/agents/{agentID}/skills'', handleEnableAgentSkill deps),
     (''DELETE'', ''/api/v1/agents/{agentID}/skills/{skillID}'', handleDisableAgentSkill deps),
     (''POST'', ''/api/v1/jobs'', jobRateLimitMiddleware (RateLimitJobSubmitPerMin (dp_Config deps)) (handleSubmitJob deps)),
     (''GET'', ''/api/v1/jobs'', handleListJobs deps),
     (''GET'', ''/api/v1/jobs/{jobID}'', handleGetJob deps),
     (''POST'', ''/api/v1/jobs/{jobID}/cancel'', handleCancelJob deps),
     (''GET'', ''/api/v1/jobs/{jobID}/result'', handleGetJobResult deps),
     (''GET'', ''/api/v1/jobs/{jobID}/output'', handleListJobOutputs deps),
     (''GET'', ''/api/v1/jobs/{jobID}/output/zip'', handleDownloadJobOutputZip deps),
     (''GET'', ''/api/v1/jobs/{jobID}/output/{fileID}'', handleDownloadJobOutput deps),
     (''POST'', ''/api/v1/jobs/{jobID}/vnc'', handleOpenVNC deps),
     (''GET'', ''/api/v1/jobs/{jobID}/vnc'', handleGetJobVNC deps),
     (''POST'', ''/api/v1/vnc/{sessionID}/save-login'', handleSaveLogin deps),
     (''DELETE'', ''/api/v1/vnc/{sessionID}'', handleCloseVNC deps),
     (''GET'', ''/api/v1/credentials'', handleListCredentials deps),
     (''GET'', ''/api/v1/credentials/{credentialID}'', handleGetCredential deps),
     (''PATCH'', ''/api/v1/credentials/{credentialID}'', handleUpdateCredential deps),
     (''DELETE'', ''/api/v1/credentials/{credentialID}'', handleDeleteCredential deps),
     (''POST'', ''/api/v1/files'', handleUploadFile deps),
     (''GET'', ''/api/v1/files'', handleListFiles deps),
     (''GET'', ''/api/v1/files/{fileID}'', handleGetFile deps),
     (''DELETE'', ''/api/v1/files/{fileID}'', handleDeleteFile deps),
     (''GET'', ''/api/v1/skills'', handleListVisibleSkills deps),
     (''GET'', ''/api/v1/skills/{skillID}'', handleGetSkill deps)]"

definition admin_routes :: "Dependencies \<Rightarrow> 'a web route list" where
  "admin_routes deps =
    [(''POST'', ''/api/v1/devices'', handleCreateDevice deps),
     (''GET'', ''/api/v1/devices'', handleListDevices deps),
     (''GET'', ''/api/v1/devices/{deviceID}'', handleGetDevice deps),
     (''PATCH'', ''/api/v1/devices/{deviceID}'', handleUpdateDevice deps),
     (''DELETE'', ''/api/v1/devices/{deviceID}'', handleDeleteDevice deps),
     (''POST'', ''/api/v1/admin/devices/{deviceID}/pool'', handleSetPoolSize deps),
     (''GET'', ''/api/v1/admin/agents'', handleAdminListAgents deps),
     (''GET'', ''/api/v1/admin/agents/{agentID}'', handleAdminGetAgent deps),
     (''DELETE'', ''/api/v1/admin/agents/{agentID}'', handleAdminDeleteAgent deps),
     (''POST'', ''/api/v1/admin/agents/{agentID}/drain'', handleDrainAgent deps),
     (''POST'', ''/api/v1/admin/agents/{agentID}/release'', handleForceReleaseAgent deps),
     (''GET'', ''/api/v1/admin/skills'', handleAdminListSkills deps),
     (''POST'', ''/api/v1/admin/skills'', handleCreateSkill deps),
     (''GET'', ''/api/v1/admin/skills/{skillID}'', handleAdminGetSkill deps),
     (''PATCH'', ''/api/v1/admin/skills/{skillID}'', handleUpdateSkill deps),
     (''DELETE'', ''/api/v1/admin/skills/{skillID}'', handleDeleteSkill deps),
     (''POST'', ''/api/v1/admin/skills/{skillID}/versions'', handlePublishSkillVersion deps),
     (''POST'', ''/api/v1/admin/skills/{skillID}/install'', handleInstallSkillFleet deps),
     (''DELETE'', ''/api/v1/admin/skills/{skillID}/install'', handleDeleteSkillFleet deps),
     (''POST'', ''/api/v1/admin/skills/{skillID}/disable'', handleDisableSkillFleet deps),
     (''POST'', ''/api/v1/admin/skills/{skillID}/enable'', handleEnableSkillFleet deps),
     (''POST'', ''/api/v1/admin/skills/{skillID}/update'', handleUpdateSkillFleet deps),
     (''POST'', ''/api/v1/admin/skills/{skillID}/retry'', handleRetrySkillFleet deps),
     (''GET'', ''/api/v1/admin/skills/{skillID}/rollout'', handleGetSkillRollout deps),
     (''PATCH'', ''/api/v1/admin/skills/{skillID}/visibility'', handleUpdateSkillVisibility deps),
     (''GET'', ''/api/v1/admin/skills/{skillID}/grants'', handleListSkillGrants deps),
     (''POST'', ''/api/v1/admin/skills/{skillID}/grants'', handleCreateSkillGrant deps),
     (''DELETE'', ''/api/v1/admin/skills/{skillID}/grants'', handleDeleteSkillGrant deps),
     (''DELETE'', ''/api/v1/admin/skills/{skillID}/grants/{principal_type}/{principal_id}'', handleDeleteSkillGrantPath deps),
     (''POST'', ''/api/v1/admin/orgs'', handleCreateOrg deps),
     (''GET'', ''/api/v1/admin/orgs'', handleListOrgs deps),
     (''GET'', ''/api/v1/admin/orgs/{orgID}'', handleGetOrg deps),
     (''GET'', ''/api/v1/admin/orgs/{orgID}/members'', handleListOrgMembers deps),
     (''PATCH'', ''/api/v1/admin/orgs/{orgID}'', handleUpdateOrg deps),
     (''DELETE'', ''/api/v1/admin/orgs/{orgID}'', handleDeleteOrg deps),
     (''POST'', ''/api/v1/admin/orgs/{orgID}/members'', handleAddOrgMember deps),
     (''DELETE'', ''/api/v1/admin/orgs/{orgID}/members/{userID}'', handleRemoveOrgMember deps),
     (''GET'', ''/api/v1/admin/users'', handleListUsers deps),
     (''PATCH'', ''/api/v1/admin/users/{userID}/tier'', handleUpdateUserTier deps)]"

definition behind :: "('h handlerfunc \<Rightarrow> 'h handlerfunc) \<Rightarrow> 'h route list \<Rightarrow> 'h route list" where
  "behind chain rs = map (\<lambda>(m, p, h). (m, p, chain h)) rs"

definition NewRouter_routes :: "Dependencies \<Rightarrow> 'a web route list" where
  "NewRouter_routes deps = behind (global_chain deps) (public_routes deps @ behind (user_chain deps) (user_routes deps)
     @ behind (admin_chain deps) (admin_routes deps))"

text \<open>The chain a request to a method and pattern goes through.\<close>

definition serve :: "Dependencies \<Rightarrow> string \<Rightarrow> string \<Rightarrow> 'a web handlerfunc option" where
  "serve deps mth pat = map_of (map (\<lambda>(m, p, h). ((m, p), h)) (NewRouter_routes deps)) (mth, pat)"

section \<open>Refusals\<close>

lemma behind_iff: "(m, p, h) \<in> set (behind chain rs) \<longleftrightarrow> (\<exists>h0. h = chain h0 \<and> (m, p, h0) \<in> set rs)"
  by (force simp: behind_def)

lemma serve_route: "serve deps m p = Some h \<Longrightarrow> (m, p, h) \<in> set (NewRouter_routes deps)"
  unfolding serve_def by (drule map_of_SomeD) auto

text \<open>A refusal: the status says so, and nothing but the limiters' tables and the script of faults has changed.\<close>

definition refused :: "int set \<Rightarrow> 'a web \<Rightarrow> response \<times> 'a web \<Rightarrow> bool" where
  "refused codes g res \<longleftrightarrow> rs_status (fst res) \<in> codes \<and>
     (\<exists>ts us fs. snd res = g\<lparr>wb_api_tokens := ts, wb_auth_tokens := us, faults := fs\<rparr>)"

lemma refused_same [simp]: "refused codes g (resp, g) \<longleftrightarrow> rs_status resp \<in> codes"
proof -
  have "g = g\<lparr>wb_api_tokens := wb_api_tokens g, wb_auth_tokens := wb_auth_tokens g, faults := faults g\<rparr>" by simp
  then have "\<exists>ts us fs. g = g\<lparr>wb_api_tokens := ts, wb_auth_tokens := us, faults := fs\<rparr>" by (intro exI)
  then show ?thesis by (simp only: refused_def fst_conv snd_conv simp_thms)
qed

lemma refused_trans: "refused codes (g\<lparr>wb_api_tokens := ts\<rparr>) res \<Longrightarrow> refused codes g res"
  by (auto simp: refused_def)

lemma refused_mono: "refused codes g res \<Longrightarrow> codes \<subseteq> codes' \<Longrightarrow> refused codes' g res"
  by (auto simp: refused_def)

lemma global_refuses:
  assumes "\<And>ts. refused codes (g\<lparr>wb_api_tokens := ts\<rparr>) (nxt r (g\<lparr>wb_api_tokens := ts\<rparr>))"
  shows "refused (codes \<union> {403, 429}) g (global_chain deps nxt r g)"
proof -
  have rate: "refused (codes \<union> {403, 429}) g (rateLimitMiddleware n nxt r g)" for n
  proof (cases "api_admit n (rq_remote r) (wall_clock g) (wb_api_tokens g)")
    case (Pair ok ts)
    have w: "refused (codes \<union> {403, 429}) (g\<lparr>wb_api_tokens := ts\<rparr>)
        (writeError 429 ErrCodeLimitExceeded ''rate limit exceeded'', g\<lparr>wb_api_tokens := ts\<rparr>)"
      by (simp add: writeError_def writeJSON_def)
    have n: "refused (codes \<union> {403, 429}) (g\<lparr>wb_api_tokens := ts\<rparr>) (nxt r (g\<lparr>wb_api_tokens := ts\<rparr>))"
      by (rule refused_mono [OF assms]) auto
    show ?thesis
      by (simp only: rateLimitMiddleware_def Pair Let_def prod.case refused_trans [OF w] refused_trans [OF n] if_split simp_thms)
  qed
  let ?c = "csrfMiddleware (CORSAllowedOrigins (dp_Config deps))
     (rateLimitMiddleware (RateLimitAPIPerSec (dp_Config deps)) nxt)"
  have "refused (codes \<union> {403, 429}) g (?c r g)"
    using rate by (simp add: csrfMiddleware_def writeError_def writeJSON_def)
  then show ?thesis
    by (cases "?c r g") (simp add: global_chain_def securityHeadersMiddleware_def refused_def)
qed

end
