(* ===== verification/RouteProps.thy ===== *)
theory RouteProps
  imports Routes AuthProps
begin

text \<open>
  What the middlewares promise together: which requests a route refuses, what a replayed answer is, and how long
  an access token is good.
\<close>

section \<open>Refusals of the routes\<close>

lemma authenticate_401: "authenticate hl m now r = Inl resp \<Longrightarrow> rs_status resp = 401"
  by (auto simp: authenticate_def unauthorized_def writeError_def writeJSON_def Let_def split: if_splits option.splits prod.splits)

lemma user_chain_refuses:
  assumes "authenticate (dp_http deps) (wb_jwt g) (wall_clock g) r = Inl resp"
  shows "refused {401} g (user_chain deps nxt r g)"
  using assms authenticate_401 [OF assms] by (simp add: user_chain_def authMiddleware_def)

lemma query_faults: "db_query q g = (x, g') \<Longrightarrow> \<exists>fs. g' = g\<lparr>faults := fs\<rparr>"
  by (cases "faults g") (auto simp: db_query_def split: if_splits bool.splits intro: exI [of _ "faults g"])

lemma foreign_keeps:
  assumes "\<And>i k. \<exists>x fs. get i k = (x, k\<lparr>faults := fs\<rparr>)"
  shows "\<exists>b fs. foreign_in_path hl seg get owner r g = (b, g\<lparr>faults := fs\<rparr>)"
proof -
  have same: "\<exists>fs. g = g\<lparr>faults := fs\<rparr>" by (intro exI [of _ "faults g"]) simp
  show ?thesis
    using same assms [of "the (hl_ParseUUID hl (extractUUIDFromPath (rq_path r) seg))" g]
    by (auto simp: foreign_in_path_def Let_def split: option.splits prod.splits sum.splits)
qed

lemma get_faults: "\<exists>x fs. J_GetByID i k = (x, k\<lparr>faults := fs\<rparr>)" "\<exists>x fs. F_GetByID i l = (x, l\<lparr>faults := fs\<rparr>)"
  using query_faults by (metis J_GetByID_def surj_pair) (metis F_GetByID_def query_faults surj_pair)

text \<open>An authenticated user who is no admin, without an idempotency key, at a route for admins.\<close>

lemma admin_chain_refuses:
  assumes "authenticate (dp_http deps) (wb_jwt g) (wall_clock g) r = Inr (claims, userID)" "cl_role claims \<noteq> RoleAdmin"
    and "rq_header r ''Idempotency-Key'' = ''''"
  shows "refused {403} g (admin_chain deps nxt r g)"
proof -
  let ?r = "r\<lparr>rq_claims := Some claims, rq_userID := userID\<rparr>"
  let ?adm = "idempotencyMiddleware (lb_crypto (dp_libs deps)) (requireAdminMiddleware nxt) ?r"
  have adm: "?adm k = (writeError 403 ErrCodeForbidden ''admin access required'', k)" for k
    using assms by (simp add: idempotencyMiddleware_def idempotencyKey_def requireAdminMiddleware_def getClaims_def
        RequireAdmin_def IsAdmin_def)
  obtain b fs where j: "foreign_in_path (dp_http deps) ''jobs'' J_GetByID j_user_id ?r g = (b, g\<lparr>faults := fs\<rparr>)"
    using foreign_keeps [where get = J_GetByID, OF get_faults(1)] by blast
  obtain b' fs' where f: "foreign_in_path (dp_http deps) ''files'' F_GetByID f_user_id ?r (g\<lparr>faults := fs\<rparr>) = (b', g\<lparr>faults := fs'\<rparr>)"
    using foreign_keeps [where get = F_GetByID, OF get_faults(2), of "dp_http deps" "''files''" f_user_id ?r "g\<lparr>faults := fs\<rparr>"] by auto
  have r: "refused {403} g (writeError 403 ErrCodeForbidden m, g\<lparr>faults := fs\<rparr>)" for m fs
  proof -
    have "g\<lparr>faults := fs\<rparr> = g\<lparr>wb_api_tokens := wb_api_tokens g, wb_auth_tokens := wb_auth_tokens g, faults := fs\<rparr>" by simp
    then have "\<exists>ts us fs'. g\<lparr>faults := fs\<rparr> = g\<lparr>wb_api_tokens := ts, wb_auth_tokens := us, faults := fs'\<rparr>" by (intro exI)
    then show ?thesis by (simp add: refused_def writeError_def writeJSON_def)
  qed
  show ?thesis
    using assms j f r adm by (simp add: admin_chain_def user_chain_def authMiddleware_def tenantScopeMiddleware_def
        getClaims_def split: bool.split)
qed

lemma user_route_pattern: "(m, p, h) \<in> set (user_routes deps) \<Longrightarrow>
    \<not> HasPrefix p ''/api/v1/admin/'' \<and> \<not> HasPrefix p ''/api/v1/devices''"
  by (auto simp: user_routes_def HasPrefix_def)



section \<open>Replayed answers\<close>

text \<open>
  What may happen to the cache between two requests with one key: other requests, whose handlers leave the cache
  alone, and its sweeping. Time does not run backwards.
\<close>

inductive cache_step :: "crypto \<Rightarrow> 'a web \<Rightarrow> 'a web \<Rightarrow> bool" for c where
  Request: "nxt r g = (resp, k) \<Longrightarrow> wb_idempotency k = wb_idempotency g \<Longrightarrow> wall_clock g \<le> wall_clock k \<Longrightarrow>
    cache_step c g (snd (idempotencyMiddleware c nxt r g))"
| Expire: "cache_step c g (idempotency_sweep g)"
| Other: "wb_idempotency k = wb_idempotency g \<Longrightarrow> wall_clock g \<le> wall_clock k \<Longrightarrow> cache_step c g k"

definition kept :: "string \<Rightarrow> idempotencyEntry \<Rightarrow> 'a web \<Rightarrow> bool" where
  "kept key e g \<longleftrightarrow> gomap_wf (wb_idempotency g) \<and> (wall_clock g < ie_expiresAt e \<longrightarrow> map_of (wb_idempotency g) key = Some e)"

lemma kept_lookup: "kept key e g \<Longrightarrow> wall_clock g < ie_expiresAt e \<Longrightarrow> idem_lookup key g = Some e"
  by (simp add: kept_def idem_lookup_def)

lemma middleware_cases:
  assumes "nxt r g = (resp, k)"
  shows "idempotencyMiddleware c nxt r g =
    (if idempotencyKey c r = '''' then (resp, k)
     else case idem_lookup (idempotencyKey c r) g of Some e \<Rightarrow> (replayed e, g)
       | None \<Rightarrow> (resp, idem_store (idempotencyKey c r) resp k))"
  using assms by (simp add: idempotencyMiddleware_def Let_def split: option.split)

lemma store_clock [simp]: "wall_clock (idem_store key resp g) = wall_clock g"
  by (simp add: idem_store_def)

lemma store_kept: "kept key e g \<Longrightarrow> key' \<noteq> key \<or> ie_expiresAt e \<le> wall_clock g \<Longrightarrow> kept key e (idem_store key' resp g)"
  by (auto simp: kept_def idem_store_def gomap_simps)

lemma sweep_lookup: "gomap_wf m \<Longrightarrow> gomap_wf (filter P m) \<and> (map_of m k = Some v \<longrightarrow> P (k, v) \<longrightarrow> map_of (filter P m) k = Some v)"
proof
  assume wf: "gomap_wf m"
  show f: "gomap_wf (filter P m)" using wf by (induction m) (auto simp: gomap_wf_def)
  show "map_of m k = Some v \<longrightarrow> P (k, v) \<longrightarrow> map_of (filter P m) k = Some v"
    using wf f by (auto simp: gomap_in_set [symmetric] gomap_wf_def)
qed

lemma cache_step_kept:
  assumes "cache_step c g g'" "kept key e g"
  shows "kept key e g' \<and> wall_clock g \<le> wall_clock g'"
  using assms
proof (cases rule: cache_step.cases)
  case (Request nxt r resp k)
  have k: "kept key e k" using assms(2) Request(3,4) by (auto simp: kept_def)
  have "kept key e (idem_store (idempotencyKey c r) resp k)" if "idem_lookup (idempotencyKey c r) g = None"
  proof (rule store_kept [OF k])
    show "idempotencyKey c r \<noteq> key \<or> ie_expiresAt e \<le> wall_clock k"
      using that kept_lookup [OF assms(2)] Request(4) by force
  qed
  then show ?thesis
    using Request(1,4) k assms(2) by (auto simp: middleware_cases [where nxt = nxt and r = r and g = g, OF Request(2)] split: option.splits)
next
  case Expire
  then show ?thesis using assms(2) sweep_lookup [of "wb_idempotency g"] by (auto simp: kept_def idempotency_sweep_def)
next
  case Other
  then show ?thesis using assms(2) by (auto simp: kept_def)
qed

lemma cache_run_kept: "(cache_step c)\<^sup>*\<^sup>* g g' \<Longrightarrow> kept key e g \<Longrightarrow> kept key e g'"
  by (induction rule: rtranclp_induct) (use cache_step_kept in blast)+

lemma replayed_for_a_day':
  assumes "nxt r g = (resp, k)" and "wb_idempotency k = wb_idempotency g" and "gomap_wf (wb_idempotency g)"
    and "idempotencyKey c r \<noteq> ''''" and "idem_lookup (idempotencyKey c r) g = None"
    and "200 \<le> rs_status resp" and "rs_status resp < 500"
    and "(cache_step c)\<^sup>*\<^sup>* (snd (idempotencyMiddleware c nxt r g)) g'" and "wall_clock g' < wall_clock k + 24 * hour"
    and "idempotencyKey c r' = idempotencyKey c r"
  shows "idempotencyMiddleware c nxt' r' g' = (writeJSON (rs_status resp) (rs_body resp), g')"
proof -
  define e where "e = \<lparr>ie_status = rs_status resp, ie_body = rs_body resp, ie_expiresAt = wall_clock k + idempotencyTTL\<rparr>"
  have first: "idempotencyMiddleware c nxt r g = (resp, idem_store (idempotencyKey c r) resp k)"
    using assms(4,5) by (simp add: middleware_cases [where nxt = nxt and r = r and g = g, OF assms(1)])
  have "kept (idempotencyKey c r) e (idem_store (idempotencyKey c r) resp k)"
    using assms(2,3,6,7) by (simp add: kept_def idem_store_def e_def gomap_simps)
  then have "kept (idempotencyKey c r) e g'" using cache_run_kept assms(8) first by simp
  then have "idem_lookup (idempotencyKey c r) g' = Some e"
    using assms(9) by (intro kept_lookup) (simp_all add: e_def idempotencyTTL_def)
  then show ?thesis
    using first assms(4,10) by (simp add: idempotencyMiddleware_def Let_def replayed_def e_def)
qed


text \<open>Requests of an admin and of a user with one idempotency key.\<close>

definition keyed :: "string \<Rightarrow> request" where
  "keyed auth = sample_request\<lparr>rq_path := ''/api/v1/devices'', rq_header := (\<lambda>n. if n = ''Authorization'' then auth
     else if n = ''Idempotency-Key'' then ''k'' else '''')\<rparr>"

lemma sample_listing: "handleListDevices sample_deps (keyed a\<lparr>rq_claims := cl, rq_userID := u\<rparr>) sample_web
    = (writeJSON 200 (BDevicePage \<lparr>pg_items = [], pg_next_cursor = None, pg_has_more = False\<rparr>), sample_web)"
    "handleListDevices sample_deps (keyed a) sample_web
    = (writeJSON 200 (BDevicePage \<lparr>pg_items = [], pg_next_cursor = None, pg_has_more = False\<rparr>), sample_web)"
proof -
  have "faults sample_web = []" "devices_tab sample_web = []" by (simp_all add: sample_web_def)
  moreover have "parseLimit (keyed a\<lparr>rq_claims := cl, rq_userID := u\<rparr>) 50 = 50" "parseLimit (keyed a) 50 = 50"
    "parseCursor sample_deps (keyed a\<lparr>rq_claims := cl, rq_userID := u\<rparr>) = None" "parseCursor sample_deps (keyed a) = None"
    by (simp_all add: parseLimit_def parseCursor_def keyed_def sample_request_def)
  ultimately show "handleListDevices sample_deps (keyed a\<lparr>rq_claims := cl, rq_userID := u\<rparr>) sample_web
      = (writeJSON 200 (BDevicePage \<lparr>pg_items = [], pg_next_cursor = None, pg_has_more = False\<rparr>), sample_web)"
    "handleListDevices sample_deps (keyed a) sample_web
      = (writeJSON 200 (BDevicePage \<lparr>pg_items = [], pg_next_cursor = None, pg_has_more = False\<rparr>), sample_web)"
    by (simp_all add: handleListDevices_def D_List_def db_query_def listed_def page_of_def Let_def page_def sort_key_def)
qed

lemma sample_key: "idempotencyKey (lb_crypto sample_libs') (keyed a) \<noteq> ''''"
    "idempotencyKey (lb_crypto sample_libs') (keyed a) = idempotencyKey (lb_crypto sample_libs') (keyed b)"
    "idem_lookup key sample_web = None" "lb_crypto (dp_libs sample_deps) = lb_crypto sample_libs'"
    "gomap_wf (wb_idempotency sample_web)"
  by (simp_all add: idempotencyKey_def keyed_def sample_request_def sample_libs'_def str_bytes_def idem_lookup_def sample_web_def
      sample_deps_def gomap_wf_def)

lemma sample_authenticated: "authenticate (dp_http sample_deps) (wb_jwt sample_web) (wall_clock sample_web) (keyed ''Bearer a'')
     = Inr (sample_claims RoleAdmin, 1)"
    "authenticate (dp_http sample_deps) (wb_jwt sample_web) (wall_clock sample_web) (keyed ''Bearer u'')
     = Inr (sample_claims RoleUser, 1)"
proof -
  have s: "split_space ''Bearer a'' = Some (''Bearer'', ''a'')" "split_space ''Bearer u'' = Some (''Bearer'', ''u'')"
    "lower (CHR ''B'') = CHR ''b''" "lower (CHR ''e'') = CHR ''e''" "lower (CHR ''a'') = CHR ''a''" "lower (CHR ''r'') = CHR ''r''"
    by code_simp+
  show "authenticate (dp_http sample_deps) (wb_jwt sample_web) (wall_clock sample_web) (keyed ''Bearer a'')
     = Inr (sample_claims RoleAdmin, 1)"
    "authenticate (dp_http sample_deps) (wb_jwt sample_web) (wall_clock sample_web) (keyed ''Bearer u'')
     = Inr (sample_claims RoleUser, 1)"
    by (simp_all add: authenticate_def keyed_def s sample_request_def VerifyToken_def ExtractUserID_def sample_deps_def
        sample_http_def verify_key_def sample_web_def sample_claims_def hour_def minute_def second_def)
qed


lemma key_unscoped: "idempotencyKey c (r\<lparr>rq_claims := cl, rq_userID := u\<rparr>) = idempotencyKey c r"
  by (simp add: idempotencyKey_def Let_def)

text \<open>
  C33 (replay_bypasses_admin): the idempotency cache is asked before the admin check and its key is the path and the
  header only. After an admin's request was answered, any authenticated user who sends the same path and header within
  24 hours is given the admin's answer, an enrollment code or a device's token with it.
\<close>

theorem replay_bypasses_admin:
  assumes "authenticate (dp_http deps) (wb_jwt g) (wall_clock g) r = Inr (admin, adminID)" "cl_role admin = RoleAdmin"
    and "h (r\<lparr>rq_claims := Some admin, rq_userID := adminID\<rparr>) g = (resp, k)" "wb_idempotency k = wb_idempotency g"
    and "gomap_wf (wb_idempotency g)" "idempotencyKey c r \<noteq> ''''" "idem_lookup (idempotencyKey c r) g = None"
    and "200 \<le> rs_status resp" "rs_status resp < 500" and "c = lb_crypto (dp_libs deps)"
    and "(cache_step c)\<^sup>*\<^sup>* (snd (admin_chain deps h r g)) g'" "wall_clock g' < wall_clock k + 24 * hour"
    and "authenticate (dp_http deps) (wb_jwt g') (wall_clock g') r' = Inr (claims, userID)" "cl_role claims \<noteq> RoleAdmin"
    and "rq_path r' = rq_path r" "rq_header r' ''Idempotency-Key'' = rq_header r ''Idempotency-Key''"
    and "\<not> Contains (rq_path r) ''/jobs/''" "\<not> Contains (rq_path r) ''/files/''"
  shows "admin_chain deps h' r' g' = (writeJSON (rs_status resp) (rs_body resp), g')"
proof -
  let ?r = "r\<lparr>rq_claims := Some admin, rq_userID := adminID\<rparr>"
  let ?r' = "r'\<lparr>rq_claims := Some claims, rq_userID := userID\<rparr>"
  have adm: "requireAdminMiddleware h ?r g = (resp, k)"
    using assms(2,3) by (simp add: requireAdminMiddleware_def getClaims_def RequireAdmin_def IsAdmin_def)
  have key: "idempotencyKey c ?r = idempotencyKey c r" by (rule key_unscoped)
  have key': "idempotencyKey c ?r' = idempotencyKey c ?r"
    unfolding key_unscoped using assms(15,16) by (simp add: idempotencyKey_def Let_def)
  have "admin_chain deps h r g = idempotencyMiddleware c (requireAdminMiddleware h) ?r g"
    using assms(1,2,10) by (simp add: admin_chain_def user_chain_def authMiddleware_def tenantScopeMiddleware_def getClaims_def)
  then have run: "(cache_step c)\<^sup>*\<^sup>* (snd (idempotencyMiddleware c (requireAdminMiddleware h) ?r g)) g'"
    using assms(11) by simp
  have none: "idempotencyKey c ?r \<noteq> ''''" "idem_lookup (idempotencyKey c ?r) g = None"
    using assms(6,7) key by simp_all
  have "idempotencyMiddleware c (requireAdminMiddleware h') ?r' g' = (writeJSON (rs_status resp) (rs_body resp), g')"
    by (rule replayed_for_a_day' [OF adm assms(4,5) none assms(8,9) run assms(12) key'])
  then show ?thesis
    using assms(10,13-15,17,18)
    by (simp add: admin_chain_def user_chain_def authMiddleware_def tenantScopeMiddleware_def getClaims_def foreign_in_path_def)
qed

theorem replay_bypasses_admin_witness:
  "admin_chain sample_deps (handleAdminListAgents sample_deps) (keyed ''Bearer u'')
       (snd (admin_chain sample_deps (handleListDevices sample_deps) (keyed ''Bearer a'') sample_web))
     = (writeJSON 200 (BDevicePage \<lparr>pg_items = [], pg_next_cursor = None, pg_has_more = False\<rparr>),
        snd (admin_chain sample_deps (handleListDevices sample_deps) (keyed ''Bearer a'') sample_web))"
proof -
  let ?c = "lb_crypto sample_libs'" and ?h = "handleListDevices sample_deps" and ?key = "idempotencyKey (lb_crypto sample_libs') (keyed ''Bearer a'')"
  let ?resp = "writeJSON 200 (BDevicePage \<lparr>pg_items = [], pg_next_cursor = None, pg_has_more = False\<rparr>)"
  let ?r = "keyed ''Bearer a''\<lparr>rq_claims := Some (sample_claims RoleAdmin), rq_userID := 1\<rparr>"
  have adm: "requireAdminMiddleware ?h ?r sample_web = (?resp, sample_web)"
    by (simp add: requireAdminMiddleware_def getClaims_def RequireAdmin_def IsAdmin_def sample_claims_def sample_listing)
  have "admin_chain sample_deps ?h (keyed ''Bearer a'') sample_web
      = idempotencyMiddleware ?c (requireAdminMiddleware ?h) ?r sample_web"
    by (simp add: admin_chain_def user_chain_def authMiddleware_def sample_authenticated tenantScopeMiddleware_def getClaims_def
        sample_key(4)) (simp add: sample_claims_def)
  also have "\<dots> = (?resp, idem_store ?key ?resp sample_web)"
    by (simp add: middleware_cases [where nxt = "requireAdminMiddleware ?h" and r = ?r and g = sample_web, OF adm] key_unscoped sample_key)
  finally have k: "snd (admin_chain sample_deps ?h (keyed ''Bearer a'') sample_web) = idem_store ?key ?resp sample_web" by simp
  have g': "authenticate (dp_http sample_deps) (wb_jwt (idem_store ?key ?resp sample_web)) (wall_clock sample_web)
      (keyed ''Bearer u'') = Inr (sample_claims RoleUser, 1)"
    by (simp add: idem_store_def sample_authenticated)
  have role: "cl_role (sample_claims x) = x" "rs_status (writeJSON n b) = n" for x n b
    by (simp_all add: sample_claims_def writeJSON_def)
  have r: "rq_path (keyed a) = ''/api/v1/devices''" "rq_header (keyed a) ''Idempotency-Key'' = ''k''" for a
    by (simp_all add: keyed_def)
  have seg: "\<not> Contains ''/api/v1/devices'' ''/jobs/''" "\<not> Contains ''/api/v1/devices'' ''/files/''" by code_simp+
  have "admin_chain sample_deps (handleAdminListAgents sample_deps) (keyed ''Bearer u'') (snd (admin_chain sample_deps ?h (keyed ''Bearer a'') sample_web))
      = (writeJSON (rs_status ?resp) (rs_body ?resp), snd (admin_chain sample_deps ?h (keyed ''Bearer a'') sample_web))"
    by (rule replay_bypasses_admin [where c = ?c and resp = ?resp and k = sample_web and admin = "sample_claims RoleAdmin"
          and adminID = 1 and claims = "sample_claims RoleUser" and userID = 1 and r = "keyed ''Bearer a''" and h = ?h and g = sample_web and deps = sample_deps,
          OF sample_authenticated(1) _ sample_listing(1) refl sample_key(5,1,3)])
      (simp_all only: role sample_key k g' r seg store_clock, simp_all add:
        hour_def minute_def second_def)
  then show ?thesis by (simp add: writeJSON_def)
qed

end
