(* ===== verification/PageProps.thy ===== *)
theory PageProps
  imports VncApi AuthProps
begin

text \<open>
  The lists the API answers in pages: a page is a part of the rows, newest first, and following the cursors of the
  pages gives all of them.
\<close>

section \<open>One page\<close>

definition page_size :: "int \<Rightarrow> nat" where
  "page_size limit = nat (if limit \<le> 0 then 50 else limit)"

lemma page_size_pos: "0 < page_size limit"
  by (simp add: page_size_def)

text \<open>The rows in the order of the pages, and the cursor behind the first \<open>n\<close> of them.\<close>

definition newest :: "('r \<Rightarrow> time) \<Rightarrow> 'r list \<Rightarrow> 'r list" where
  "newest created rows = rev (sort_key created rows)"

definition cursor_at :: "('r \<Rightarrow> uuid) \<Rightarrow> 'r list \<Rightarrow> nat \<Rightarrow> uuid option" where
  "cursor_at key rs n = (if n = 0 then None else Some (key (rs ! (n - 1))))"

lemma newest_set [simp]: "set (newest created rows) = set rows"
  by (simp add: newest_def)

lemma newest_length [simp]: "length (newest created rows) = length rows"
  by (simp add: newest_def)

lemma newest_filter: "newest created (filter P rows) = filter P (newest created rows)"
  by (simp only: newest_def rev_filter [symmetric] filter_sort)

lemma newest_decreasing:
  assumes "distinct (map created rows)" "i < j" "j < length rows"
  shows "created (newest created rows ! j) < created (newest created rows ! i)"
proof -
  let ?s = "sort_key created rows"
  have d: "distinct (map created ?s)"
    using assms(1) by (simp add: distinct_map)
  have "map created ?s ! (length rows - Suc j) < map created ?s ! (length rows - Suc i)"
    using assms d by (intro strict_sorted_iff [THEN iffD2, THEN sorted_wrt_nth_less]) auto
  then show ?thesis using assms(2,3) by (simp add: newest_def rev_nth)
qed

lemma filter_older:
  assumes "distinct (map created rows)" "0 < n" "n \<le> length rows"
  shows "newest created (filter (\<lambda>r. created r < created (newest created rows ! (n - 1))) rows) = drop n (newest created rows)"
proof -
  let ?S = "newest created rows" and ?P = "\<lambda>r. created r < created (newest created rows ! (n - 1))"
  have "\<not> ?P r" if "r \<in> set (take n ?S)" for r
  proof -
    obtain i where "i < length (take n ?S)" "take n ?S ! i = r" using \<open>r \<in> set (take n ?S)\<close> by (auto simp only: in_set_conv_nth)
    then have "i < n" "i < length rows" "r = ?S ! i" by simp_all
    moreover have "i < n - 1 \<or> i = n - 1" using calculation(1) by auto
    ultimately show ?thesis using newest_decreasing [OF assms(1), of i "n - 1"] assms(2,3) by fastforce
  qed
  moreover have "?P r" if "r \<in> set (drop n ?S)" for r
  proof -
    obtain i where "i < length (drop n ?S)" "drop n ?S ! i = r" using \<open>r \<in> set (drop n ?S)\<close> by (auto simp only: in_set_conv_nth)
    then have "n + i < length rows" "r = ?S ! (n + i)" using assms(3) by simp_all
    then show ?thesis using newest_decreasing [OF assms(1), of "n - 1" "n + i"] assms(2) by auto
  qed
  ultimately have "filter ?P (take n ?S @ drop n ?S) = drop n ?S" by (simp only: filter_append) (simp add: filter_id_conv)
  then have "filter ?P ?S = drop n ?S" by simp
  then show ?thesis by (simp only: newest_filter)
qed

lemma page_of_step:
  assumes "distinct (map created rows)" "set rows \<subseteq> set tab" "distinct (map key tab)" "n \<le> length rows"
  shows "page_of key created tab rows (cursor_at key (newest created rows) n) limit =
    (take (page_size limit) (drop n (newest created rows)),
     if n + page_size limit < length rows then cursor_at key (newest created rows) (n + page_size limit) else None)"
proof -
  let ?S = "newest created rows" and ?L = "page_size limit"
  define older where "older = (case cursor_at key ?S n of None \<Rightarrow> rows
      | Some c \<Rightarrow> (case find (\<lambda>r. key r = c) tab of None \<Rightarrow> [] | Some k \<Rightarrow> filter (\<lambda>r. created r < created k) rows))"
  have "newest created older = drop n ?S"
  proof (cases "n = 0")
    case False
    then have r: "?S ! (n - 1) \<in> set tab" using assms(2,4) nth_mem [of "n - 1" ?S] by auto
    then have "find (\<lambda>r. key r = key (?S ! (n - 1))) tab = Some (?S ! (n - 1))"
      by (rule find_key_unique [OF assms(3)])
    then show ?thesis using False filter_older [OF assms(1) _ assms(4)] by (simp add: older_def cursor_at_def)
  qed (simp add: older_def cursor_at_def)
  then have "page_of key created tab rows (cursor_at key ?S n) limit =
    (if ?L < length (take (?L + 1) (drop n ?S)) then (take ?L (take (?L + 1) (drop n ?S)), Some (key (take (?L + 1) (drop n ?S) ! (?L - 1))))
     else (take (?L + 1) (drop n ?S), None))"
    unfolding page_of_def Let_def older_def [symmetric] page_size_def [symmetric] by (simp add: newest_def)
  then show ?thesis
    using page_size_pos [of limit] assms(4) by (auto simp: cursor_at_def min_def)
qed

lemma page_of_bound: "page_of key created tab rows cursor limit = (items, nxt) \<Longrightarrow>
    length items \<le> page_size limit \<and> set items \<subseteq> set rows"
  unfolding page_of_def Let_def page_size_def [symmetric]
  by (auto split: if_splits option.splits dest!: in_set_takeD)

section \<open>All pages\<close>

text \<open>
  A client that asks for its jobs, then for the page behind each page's cursor until there is none; it gives up
  after \<open>fuel\<close> requests or at an answer that is no page.
\<close>

fun read_pages :: "Dependencies \<Rightarrow> nat \<Rightarrow> request \<Rightarrow> 'a web \<Rightarrow> Job list option" where
  "read_pages deps 0 r g = None"
| "read_pages deps (Suc fuel) r g = (case handleListJobs deps r g of (resp, g1) \<Rightarrow> (case rs_body resp of
     BJobPage p \<Rightarrow> (case pg_next_cursor p of None \<Rightarrow> Some (pg_items p)
       | Some c \<Rightarrow> map_option ((@) (pg_items p))
           (read_pages deps fuel (r\<lparr>rq_query := (rq_query r)(''cursor'' := uuid_str g c)\<rparr>) g1))
   | _ \<Rightarrow> None))"

abbreviation own_jobs :: "request \<Rightarrow> 'a web \<Rightarrow> Job list" where
  "own_jobs r g \<equiv> filter (\<lambda>j. j_user_id j = getUserID r) (jobs_tab g)"

lemma list_jobs_page:
  assumes "faults g = []" "distinct (map j_id (jobs_tab g))" "distinct (map j_created_at (own_jobs r g))"
    and "n \<le> length (own_jobs r g)" "parseCursor deps r = cursor_at j_id (newest j_created_at (own_jobs r g)) n"
  shows "handleListJobs deps r g = (writeJSON 200 (BJobPage (page
    (take (page_size (parseLimit r 50)) (drop n (newest j_created_at (own_jobs r g))),
     if n + page_size (parseLimit r 50) < length (own_jobs r g)
     then cursor_at j_id (newest j_created_at (own_jobs r g)) (n + page_size (parseLimit r 50)) else None))), g)"
  using page_of_step [OF assms(3) _ assms(2,4), of "parseLimit r 50"] assms(1,5)
  by (auto simp: handleListJobs_def J_ListByUser_def db_query_def)

lemma read_pages_from:
  assumes "faults g = []" "distinct (map j_id (jobs_tab g))" "distinct (map j_created_at (own_jobs r g))"
    and uuids: "\<forall>j \<in> set (jobs_tab g). hl_ParseUUID (dp_http deps) (uuid_str g (j_id j)) = Some (j_id j) \<and> uuid_str g (j_id j) \<noteq> ''''"
    and "n \<le> length (own_jobs r g)" "parseCursor deps r = cursor_at j_id (newest j_created_at (own_jobs r g)) n"
    and "length (own_jobs r g) - n < fuel"
  shows "read_pages deps fuel r g = Some (drop n (newest j_created_at (own_jobs r g)))"
  using assms(3,5-7)
proof (induction fuel arbitrary: n r)
  case (Suc fuel)
  let ?S = "newest j_created_at (own_jobs r g)" and ?L = "page_size (parseLimit r 50)"
  note here = list_jobs_page [OF assms(1,2) Suc.prems(1-3)]
  show ?case
  proof (cases "n + ?L < length (own_jobs r g)")
    case True
    let ?r = "r\<lparr>rq_query := (rq_query r)(''cursor'' := uuid_str g (j_id (?S ! (n + ?L - 1))))\<rparr>"
    have r: "own_jobs ?r g = own_jobs r g" by (simp add: getUserID_def)
    have c: "cursor_at j_id ?S (n + ?L) = Some (j_id (?S ! (n + ?L - 1)))"
      using page_size_pos [of "parseLimit r 50"] by (simp add: cursor_at_def)
    then have cur: "parseCursor deps ?r = cursor_at j_id ?S (n + ?L)"
      using uuids [rule_format, of "?S ! (n + ?L - 1)"] nth_mem [of "n + ?L - 1" ?S] True by (simp add: parseCursor_def)
    have "length (own_jobs r g) - (n + ?L) < fuel" using Suc.prems(4) True page_size_pos [of "parseLimit r 50"] by linarith
    from Suc.IH [where r = ?r, unfolded r, OF Suc.prems(1) less_imp_le [OF True] cur this]
    have "read_pages deps fuel ?r g = Some (drop (n + ?L) ?S)" .
    moreover have "take ?L (drop n ?S) @ drop (n + ?L) ?S = drop n ?S" using append_take_drop_id [of ?L "drop n ?S"] by (simp add: add.commute)
    ultimately show ?thesis using True c by (simp add: here page_def writeJSON_def)
  qed (simp add: here page_def writeJSON_def)
qed simp



text \<open>
  Whatever limit and cursor a request carries and whatever the database holds, a page of
  jobs has at most a hundred, all of them the caller's.
\<close>

theorem pages_bounded:
  "case rs_body (fst (handleListJobs deps r g)) of
     BJobPage p \<Rightarrow> length (pg_items p) \<le> 100 \<and> (\<forall>j \<in> set (pg_items p). j \<in> set (jobs_tab g) \<and> j_user_id j = getUserID r)
   | b \<Rightarrow> b = BError ErrCodeInternalError ''failed to list jobs''"
proof -
  have "parseLimit r 50 \<le> 100" by (simp add: parseLimit_def Let_def split: option.split)
  then have L: "page_size (parseLimit r 50) \<le> 100" by (auto simp: page_size_def)
  obtain items nxt where p: "page_of j_id j_created_at (jobs_tab g) (own_jobs r g) (parseCursor deps r) (parseLimit r 50) = (items, nxt)"
    by fastforce
  show ?thesis
    using page_of_bound [OF p] L p
    by (auto simp: handleListJobs_def J_ListByUser_def db_query_def writeError_def writeJSON_def page_def split: list.splits bool.splits)
qed

end
