(* ===== verification/JobProps.thy ===== *)
theory JobProps
  imports VncApi AgentsApi AuthProps PoolProps
begin

text \<open>
  What the handlers of jobs and remote-desktop sessions promise: nobody reaches another user's job, what submitting a
  job leaves behind when it waits or is refused, and who may open or close a session.
\<close>

section \<open>Other users' jobs\<close>

text \<open>An error answer that changes nothing but the script of faults.\<close>

definition turned_away :: "'a web \<Rightarrow> response \<times> 'a web \<Rightarrow> bool" where
  "turned_away g res \<longleftrightarrow> (\<exists>n code m fs. res = (writeError n code m, g\<lparr>faults := fs\<rparr>) \<and> n \<in> {400, 403, 404, 500})"

lemma turned_awayI [intro]:
  "n \<in> {400, 403, 404, 500} \<Longrightarrow> turned_away g (writeError n code m, g\<lparr>faults := fs\<rparr>)"
  by (auto simp: turned_away_def)

lemma turned_away_same [intro]: "n \<in> {400, 403, 404, 500} \<Longrightarrow> turned_away g (writeError n code m, g)"
  using turned_awayI [of n g code m "faults g"] by simp

definition others_job :: "request \<Rightarrow> uuid \<Rightarrow> 'a web \<Rightarrow> bool" where
  "others_job r jobID g \<longleftrightarrow> (\<forall>j \<in> set (jobs_tab g). j_id j = jobID \<longrightarrow> j_user_id j \<noteq> getUserID r)"

lemma query_cases: "(\<exists>fs. db_query q g = (Inl EDb, g\<lparr>faults := fs\<rparr>)) \<or> (\<exists>fs. db_query q g = (Inr (q g), g\<lparr>faults := fs\<rparr>))"
  by (cases "faults g") (auto simp: db_query_def split: bool.splits intro: exI [of _ "faults g"])

lemma others_get:
  assumes "others_job r jobID g"
  shows "\<exists>x fs. J_GetByID jobID g = (x, g\<lparr>faults := fs\<rparr>) \<and> (\<forall>j. x = Inr (Some j) \<longrightarrow> j_user_id j \<noteq> getUserID r)"
  using query_cases [of "\<lambda>g. find (\<lambda>j. j_id j = jobID) (jobs_tab g)" g] assms
  by (auto simp: J_GetByID_def others_job_def dest!: find_key_Some)

lemma own_job_refuses:
  assumes "others_job r jobID g"
  shows "\<exists>n code m fs. own_job deps r jobID g = (Inl (writeError n code m), g\<lparr>faults := fs\<rparr>) \<and> n \<in> {403, 404}"
proof -
  obtain x fs where x: "J_GetByID jobID g = (x, g\<lparr>faults := fs\<rparr>)" "\<forall>j. x = Inr (Some j) \<longrightarrow> j_user_id j \<noteq> getUserID r"
    using others_get [OF assms] by blast
  show ?thesis
  proof (cases "\<exists>j. x = Inr (Some j)")
    case True
    then have "own_job deps r jobID g = (Inl accessDenied, g\<lparr>faults := fs\<rparr>)"
      using x(2) by (auto simp: own_job_def x(1))
    then show ?thesis by blast
  next
    case False
    then have "own_job deps r jobID g = (Inl (notFound ''job not found''), g\<lparr>faults := fs\<rparr>)"
      by (auto simp: own_job_def x(1) split: sum.split option.split)
    then show ?thesis by blast
  qed
qed

lemma with_own_job_refuses:
  "param_id deps r ''jobID'' = Some jobID \<Longrightarrow> others_job r jobID g \<Longrightarrow> turned_away g (with_own_job deps r f g)"
  using own_job_refuses [of r jobID g deps] by (auto simp: with_own_job_def)

text \<open>The handlers of one job.\<close>

definition job_handlers :: "Dependencies \<Rightarrow> 'a web handlerfunc list" where
  "job_handlers deps = [handleGetJob deps, handleCancelJob deps, handleGetJobResult deps, handleListJobOutputs deps,
     handleDownloadJobOutput deps, handleDownloadJobOutputZip deps, handleGetJobVNC deps, handleOpenVNC deps]"

text \<open>
  C3 (foreign_job_refused): every handler of a job answers a request for a job that does not exist or belongs to
  somebody else, be the caller an admin, with an error, and changes no table, sends no frame, opens no session and
  reads no file, whichever calls of the database fail.
\<close>

theorem foreign_job_refused:
  assumes "param_id deps r ''jobID'' = Some jobID" "others_job r jobID g" "h \<in> set (job_handlers deps)"
  shows "turned_away g (h r g)"
proof -
  have get: "turned_away g (handleGetJob deps r g)"
  proof -
    obtain x fs where x: "J_GetByID jobID g = (x, g\<lparr>faults := fs\<rparr>)" "\<forall>j. x = Inr (Some j) \<longrightarrow> j_user_id j \<noteq> getUserID r"
      using others_get [OF assms(2)] by blast
    show ?thesis
      using x(2) assms(1) by (cases x) (auto simp: handleGetJob_def x(1) split: option.split)
  qed
  have opn: "turned_away g (handleOpenVNC deps r g)"
    using own_job_refuses [OF assms(2), of deps] assms(1) by (auto simp: handleOpenVNC_def open_vnc_def)
  have dwn: "turned_away g (handleDownloadJobOutput deps r g)"
    using with_own_job_refuses [OF assms(1,2)] assms(1) by (auto simp: handleDownloadJobOutput_def split: option.split)
  from assms(3) show ?thesis
    using get opn dwn with_own_job_refuses [OF assms(1,2)]
    by (auto simp: job_handlers_def handleCancelJob_def handleGetJobResult_def handleListJobOutputs_def
        handleDownloadJobOutputZip_def handleGetJobVNC_def)
qed

theorem foreign_job_refused_witness:
  "turned_away (sample_web\<lparr>jobs_tab := [(sample_job 5 JobRunning)\<lparr>j_user_id := 8\<rparr>]\<rparr>)
     (handleCancelJob sample_deps sample_request (sample_web\<lparr>jobs_tab := [(sample_job 5 JobRunning)\<lparr>j_user_id := 8\<rparr>]\<rparr>))"
  by (rule foreign_job_refused [where jobID = 5 and deps = sample_deps])
    (simp_all add: job_handlers_def param_id_def sample_deps_def sample_http_def sample_request_def others_job_def getUserID_def)

section \<open>Submitting\<close>

definition link_row :: "uuid \<Rightarrow> uuid \<Rightarrow> string \<Rightarrow> (uuid \<times> uuid \<times> string) list \<Rightarrow> (uuid \<times> uuid \<times> string) list" where
  "link_row j i role rows = (if \<exists>l \<in> set rows. fst l = j \<and> fst (snd l) = i
     then sql_update (\<lambda>l. fst l = j \<and> fst (snd l) = i) (\<lambda>(j, f, _). (j, f, role)) rows else rows @ [(j, i, role)])"

lemma link_row_in: "(j, i, role) \<in> set (link_row j i role rows)"
  unfolding link_row_def sql_update_def by force

lemma link_row_keeps: "{l \<in> set rows. snd (snd l) = role} \<subseteq> set (link_row j i role rows)"
proof
  fix l assume "l \<in> {l \<in> set rows. snd (snd l) = role}"
  then show "l \<in> set (link_row j i role rows)"
    by (cases l) (auto simp: link_row_def sql_update_set intro!: bexI [of _ l])
qed

lemma F_LinkToJob_ok: "faults g = [] \<Longrightarrow> has_job j g \<Longrightarrow> F_LinkToJob i j role g =
    (if i \<in> f_id ` set (files_tab g) then (None, g\<lparr>job_files_tab := link_row j i role (job_files_tab g)\<rparr>) else (Some EForeignKey, g))"
  by (simp add: F_LinkToJob_def db_ok link_row_def)

lemma link_files_effect:
  assumes "faults g = []" "has_job j g"
  shows "\<exists>t. link_files is j g = g\<lparr>job_files_tab := t\<rparr>
    \<and> (\<forall>i \<in> set is. i \<in> f_id ` set (files_tab g) \<longrightarrow> (j, i, ''input'') \<in> set t)
    \<and> {l \<in> set (job_files_tab g). snd (snd l) = ''input''} \<subseteq> set t"
  using assms
proof (induction "is" arbitrary: g)
  case Nil
  have "g = g\<lparr>job_files_tab := job_files_tab g\<rparr>" by simp
  then show ?case by (intro exI [of _ "job_files_tab g"]) auto
next
  case (Cons i "is")
  define t where "t = (if i \<in> f_id ` set (files_tab g) then link_row j i ''input'' (job_files_tab g) else job_files_tab g)"
  have t: "snd (F_LinkToJob i j ''input'' g) = g\<lparr>job_files_tab := t\<rparr>"
    "i \<in> f_id ` set (files_tab g) \<longrightarrow> (j, i, ''input'') \<in> set t" "{l \<in> set (job_files_tab g). snd (snd l) = ''input''} \<subseteq> set t"
    using Cons.prems link_row_in [of j i "''input''" "job_files_tab g"] link_row_keeps [of "job_files_tab g" "''input''" j i]
    by (simp_all add: F_LinkToJob_ok t_def)
  obtain ta where ta: "link_files is j (g\<lparr>job_files_tab := t\<rparr>) = g\<lparr>job_files_tab := ta\<rparr>"
    "\<forall>i \<in> set is. i \<in> f_id ` set (files_tab g) \<longrightarrow> (j, i, ''input'') \<in> set ta" "{l \<in> set t. snd (snd l) = ''input''} \<subseteq> set ta"
    using Cons.IH [of "g\<lparr>job_files_tab := t\<rparr>"] Cons.prems by (auto simp: has_job_def)
  show ?case
    using t ta by (intro exI [of _ ta]) auto
qed

lemma C_LinkToJob_effect: "faults g = [] \<Longrightarrow> \<exists>t. snd (C_LinkToJob j i g) = g\<lparr>job_creds_tab := t\<rparr>"
  unfolding C_LinkToJob_def
  by (subst db_exec_ok, assumption, split if_split)
    (intro conjI impI exI [of _ "job_creds_tab g @ [(j, i)]"] exI [of _ "job_creds_tab g"], simp_all)

lemma link_credentials_effect:
  "faults g = [] \<Longrightarrow> \<exists>t. link_credentials is j g = g\<lparr>job_creds_tab := t\<rparr>"
proof (induction "is" arbitrary: g)
  case Nil
  have "g = g\<lparr>job_creds_tab := job_creds_tab g\<rparr>" by simp
  then show ?case by (intro exI [of _ "job_creds_tab g"]) simp
next
  case (Cons i "is")
  obtain t where "snd (C_LinkToJob j i g) = g\<lparr>job_creds_tab := t\<rparr>" using C_LinkToJob_effect [OF Cons.prems] by blast
  then show ?case using Cons.IH [of "g\<lparr>job_creds_tab := t\<rparr>"] Cons.prems by auto
qed

text \<open>The row of a submitted job, and the state in which an agent is sought for it.\<close>

definition submitted_row :: "request \<Rightarrow> SubmitJobRequest \<Rightarrow> 'a web \<Rightarrow> Job" where
  "submitted_row r req g = (new_job (getUserID r) req)\<lparr>j_id := fst (NewUUID g), j_created_at := wall_clock g,
     j_updated_at := wall_clock g, j_submitted_at := wall_clock g, j_percent := Some 0\<rparr>"

definition allocated :: "Dependencies \<Rightarrow> SubmitJobRequest \<Rightarrow> (err + Agent option) \<times> Job \<times> 'a web \<Rightarrow> response \<times> 'a web" where
  "allocated deps req p = (case p of
        (Inl EQueueFull, _, g) \<Rightarrow> (writeError 429 ErrCodeQueueFull ''max queued jobs per user reached'', g)
      | (Inl _, _, g) \<Rightarrow> (internalError ''allocation failed'', g)
      | (Inr None, job, g) \<Rightarrow> queue_up job g
      | (Inr (Some agent), job, g) \<Rightarrow> dispatch_submitted deps req job agent g)"

lemma submit_start:
  assumes "faults g = []" "js_submit (dp_http deps) (rq_body r) = Some req" "sj_command req \<noteq> ''''" "sj_skill_id req = None"
    and "\<not> has_job (fst (NewUUID g)) g"
  obtains g2 t c where "handleSubmitJob deps r g = allocated deps req
        (Allocate (gateway_allocator (dp_libs deps) (dp_Settings deps)) (submitted_row r req g\<lparr>j_percent := None\<rparr>) g2)"
    and "g2 = (snd (NewUUID g))\<lparr>jobs_tab := jobs_tab g @ [submitted_row r req g], job_files_tab := t, job_creds_tab := c\<rparr>"
    and "\<forall>i \<in> set (sj_file_ids req). i \<in> f_id ` set (files_tab g) \<longrightarrow> (fst (NewUUID g), i, ''input'') \<in> set t"
proof -
  let ?u = "fst (NewUUID g)" and ?job = "submitted_row r req g\<lparr>j_percent := None\<rparr>"
  let ?g1 = "(snd (NewUUID g))\<lparr>jobs_tab := jobs_tab g @ [submitted_row r req g]\<rparr>"
  have id: "j_id ?job = ?u" by (simp add: submitted_row_def)
  have "J_Create (new_job (getUserID r) req) g = (None, ?job, ?g1)"
    using assms(1,5) by (simp add: J_Create_def Let_def split_def db_ok NewUUID_def has_job_def submitted_row_def new_job_def)
  then have h: "handleSubmitJob deps r g = submit_created deps req ?job ?g1"
    using assms(2-4) by (simp add: handleSubmitJob_def skill_refused_def)
  have hj: "has_job ?u ?g1" by (simp add: has_job_def submitted_row_def)
  have f1: "faults ?g1 = []" using assms(1) by (simp add: NewUUID_def)
  obtain t where t: "link_files (sj_file_ids req) ?u ?g1 = ?g1\<lparr>job_files_tab := t\<rparr>"
      "\<forall>i \<in> set (sj_file_ids req). i \<in> f_id ` set (files_tab g) \<longrightarrow> (?u, i, ''input'') \<in> set t"
    using link_files_effect [OF f1 hj, of "sj_file_ids req"] by (auto simp: NewUUID_def)
  obtain c where c: "link_credentials (sj_credential_ids req) ?u (?g1\<lparr>job_files_tab := t\<rparr>) = ?g1\<lparr>job_files_tab := t, job_creds_tab := c\<rparr>"
    using link_credentials_effect [of "?g1\<lparr>job_files_tab := t\<rparr>" "sj_credential_ids req" ?u] f1 by auto
  have "handleSubmitJob deps r g = allocated deps req (Allocate (gateway_allocator (dp_libs deps) (dp_Settings deps))
      ?job (?g1\<lparr>job_files_tab := t, job_creds_tab := c\<rparr>))"
    by (simp only: h submit_created_def Let_def id t(1) c allocated_def)
  then show ?thesis by (rule that [OF _ refl t(2)])
qed

lemma gateway_cap: "al_maxQueue (gateway_allocator lb st) = st_maxQueuedPerUser st" "al_queueTTL (gateway_allocator lb st) = st_queueTTL st"
  by (simp_all add: gateway_allocator_def SetDispatchDeps_def NewAllocator_def)

definition over_cap :: "Dependencies \<Rightarrow> request \<Rightarrow> 'a web \<Rightarrow> bool" where
  "over_cap deps r g \<longleftrightarrow> 0 < st_maxQueuedPerUser (dp_Settings deps)
     \<and> st_maxQueuedPerUser (dp_Settings deps) \<le> int (queued_of (getUserID r) g)"

lemma over_cap_capped:
  assumes "g2 = (snd (NewUUID g))\<lparr>jobs_tab := jobs_tab g @ [submitted_row r req g], job_files_tab := t, job_creds_tab := c\<rparr>"
  shows "capped (gateway_allocator lb (dp_Settings deps)) (getUserID r) g2 = over_cap deps r g"
  by (simp add: capped_def over_cap_def gateway_cap assms queued_of_def submitted_row_def new_job_def sql_count_def)

lemma submitted_user: "j_user_id (submitted_row r req g\<lparr>j_percent := p\<rparr>) = getUserID r"
  by (simp add: submitted_row_def new_job_def)

text \<open>
  A job refused with 429 because its owner has too many waiting is nevertheless stored, as
  pending; the queue never takes it, for it looks for queued jobs only.
\<close>

theorem submit_refused_stays:
  assumes "faults g = []" "js_submit (dp_http deps) (rq_body r) = Some req" "sj_command req \<noteq> ''''" "sj_skill_id req = None"
    and "\<not> has_job (fst (NewUUID g)) g" "over_cap deps r g"
  shows "fst (handleSubmitJob deps r g) = writeError 429 ErrCodeQueueFull ''max queued jobs per user reached''
    \<and> jobs_tab (snd (handleSubmitJob deps r g)) = jobs_tab g @ [submitted_row r req g]
    \<and> j_status (submitted_row r req g) = JobPending \<and> submitted_row r req g \<notin> set (dequeuable (snd (handleSubmitJob deps r g)))"
proof -
  obtain g2 t c where h: "handleSubmitJob deps r g = allocated deps req
        (Allocate (gateway_allocator (dp_libs deps) (dp_Settings deps)) (submitted_row r req g\<lparr>j_percent := None\<rparr>) g2)"
    and g2: "g2 = (snd (NewUUID g))\<lparr>jobs_tab := jobs_tab g @ [submitted_row r req g], job_files_tab := t, job_creds_tab := c\<rparr>"
    by (rule submit_start [OF assms(1-5)])
  have "faults g2 = []" using assms(1) by (simp add: g2 NewUUID_def)
  then have "handleSubmitJob deps r g = (writeError 429 ErrCodeQueueFull ''max queued jobs per user reached'', g2)"
    using assms(6) over_cap_capped [OF g2] by (simp add: h Allocate_capped submitted_user allocated_def)
  then show ?thesis by (simp add: g2) (simp add: submitted_row_def new_job_def dequeuable_def)
qed

lemma Allocate_queued:
  assumes "faults g = []" "\<not> capped al (j_user_id job) g" "idle_agents g = []" "J_GetQueuePosition (j_id job) g = (Inr n, g)"
  shows "Allocate al job g = (Inr None, job\<lparr>j_queued_at := Some (wall_clock g), j_queue_expires_at := Some (wall_clock g + al_queueTTL al),
    j_status := JobQueued, j_queue_position := Some (int n)\<rparr>, g)"
  using assms by (auto simp: Allocate_def Count_ok capped_def FindIdle_ok Let_def)

lemma queue_up_effect:
  assumes "faults g = []" "jobs_tab g = rows @ [row]" "j_id row = j_id job" "j_id job \<notin> j_id ` set rows"
    and "j_created_at row = wall_clock g"
  defines "pos \<equiv> 1 + int (sql_count (\<lambda>j. j_status j = JobQueued \<and> j_created_at j \<le> wall_clock g) rows)"
  shows "queue_up job g = (writeJSON 202 (BJobResponse \<lparr>jr_job = job\<lparr>j_queue_position := Some pos\<rparr>,
        jr_queue_position = Some pos, jr_estimated_wait_seconds = Some (pos * 30), jr_agent_id = None\<rparr>),
      g\<lparr>jobs_tab := rows @ [row\<lparr>j_status := JobQueued, j_queue_expires_at := Some (wall_clock g + hour), j_updated_at := wall_clock g\<rparr>]\<rparr>)"
proof -
  let ?row = "row\<lparr>j_status := JobQueued, j_queue_expires_at := Some (wall_clock g + hour), j_updated_at := wall_clock g\<rparr>"
  have "sql_update (\<lambda>j. j_id j = j_id job) f rows = rows" for f
    using assms(4) unfolding sql_update_def by (intro map_idI) (auto simp: image_iff)
  then have u: "snd (J_UpdateStatus (j_id job) JobQueued g) = g\<lparr>jobs_tab := rows @ [?row]\<rparr>"
    using assms(1-3) by (simp add: J_UpdateStatus_def db_ok Let_def sql_update_def IsTerminal_def)
  have "find (\<lambda>j. j_id j = j_id job) rows = None" using assms(4) by (metis (mono_tags) find_None_iff imageI)
  then have "find (\<lambda>j. j_id j = j_id job) (rows @ [?row]) = Some ?row"
    using assms(3) by (induction rows) auto
  then have "J_GetQueuePosition (j_id job) (g\<lparr>jobs_tab := rows @ [?row]\<rparr>)
      = (Inr (Suc (sql_count (\<lambda>j. j_status j = JobQueued \<and> j_created_at j \<le> wall_clock g) rows)), g\<lparr>jobs_tab := rows @ [?row]\<rparr>)"
    using assms(1,5) by (simp add: J_GetQueuePosition_def db_ok sql_count_def)
  then show ?thesis by (simp add: queue_up_def Let_def u pos_def)
qed

lemma submit_queued:
  assumes "faults g = []" "js_submit (dp_http deps) (rq_body r) = Some req" "sj_command req \<noteq> ''''" "sj_skill_id req = None"
    and "\<not> has_job (fst (NewUUID g)) g" "\<not> over_cap deps r g" "idle_agents g = []"
  obtains resp t c where "handleSubmitJob deps r g = (writeJSON 202 (BJobResponse resp), (snd (NewUUID g))\<lparr>jobs_tab := jobs_tab g @
       [(submitted_row r req g)\<lparr>j_status := JobQueued, j_queue_expires_at := Some (wall_clock g + hour)\<rparr>],
       job_files_tab := t, job_creds_tab := c\<rparr>)"
    and "jr_queue_position resp = Some (1 + int (sql_count (\<lambda>j. j_status j = JobQueued \<and> j_created_at j \<le> wall_clock g) (jobs_tab g)))"
    and "j_queue_expires_at (jr_job resp) = Some (wall_clock g + st_queueTTL (dp_Settings deps))"
    and "\<forall>i \<in> set (sj_file_ids req). i \<in> f_id ` set (files_tab g) \<longrightarrow> (fst (NewUUID g), i, ''input'') \<in> set t"
proof -
  obtain g2 t c where h: "handleSubmitJob deps r g = allocated deps req
        (Allocate (gateway_allocator (dp_libs deps) (dp_Settings deps)) (submitted_row r req g\<lparr>j_percent := None\<rparr>) g2)"
    and g2: "g2 = (snd (NewUUID g))\<lparr>jobs_tab := jobs_tab g @ [submitted_row r req g], job_files_tab := t, job_creds_tab := c\<rparr>"
    and t: "\<forall>i \<in> set (sj_file_ids req). i \<in> f_id ` set (files_tab g) \<longrightarrow> (fst (NewUUID g), i, ''input'') \<in> set t"
    by (rule submit_start [OF assms(1-5)])
  have f: "faults g2 = []" "wall_clock g2 = wall_clock g" "idle_agents g2 = []" "jobs_tab g2 = jobs_tab g @ [submitted_row r req g]"
    "agents_tab g2 = agents_tab g" "job_files_tab g2 = t"
    using assms(1,7) by (simp_all add: g2 NewUUID_def idle_agents_def)
  let ?job = "submitted_row r req g\<lparr>j_percent := None\<rparr>" and ?al = "gateway_allocator (dp_libs deps) (dp_Settings deps)"
  have nc: "\<not> capped ?al (j_user_id ?job) g2" using assms(6) over_cap_capped [OF g2] by (simp add: submitted_user)
  obtain n where "J_GetQueuePosition (j_id ?job) g2 = (Inr n, g2)" using Position_ok [OF f(1)] by blast
  then have "Allocate ?al ?job g2 = (Inr None, ?job\<lparr>j_queued_at := Some (wall_clock g2), j_queue_expires_at := Some (wall_clock g2 + al_queueTTL ?al),
      j_status := JobQueued, j_queue_position := Some (int n)\<rparr>, g2)"
    using Allocate_queued [OF f(1) nc f(3)] by (simp add: gateway_cap)
  then obtain job where job: "Allocate ?al ?job g2 = (Inr None, job, g2)" "j_id job = fst (NewUUID g)"
      "j_queue_expires_at job = Some (wall_clock g + st_queueTTL (dp_Settings deps))"
    by (simp add: gateway_cap f(2) submitted_row_def)
  have r: "j_id (submitted_row r req g) = j_id job" "j_id job \<notin> j_id ` set (jobs_tab g)" "j_created_at (submitted_row r req g) = wall_clock g2"
    using assms(5) job(2) f(2) by (auto simp: submitted_row_def has_job_def)
  have row: "(submitted_row r req g)\<lparr>j_status := JobQueued, j_queue_expires_at := Some (wall_clock g + hour), j_updated_at := wall_clock g\<rparr>
      = (submitted_row r req g)\<lparr>j_status := JobQueued, j_queue_expires_at := Some (wall_clock g + hour)\<rparr>"
    by (simp add: submitted_row_def)
  let ?pos = "1 + int (sql_count (\<lambda>j. j_status j = JobQueued \<and> j_created_at j \<le> wall_clock g) (jobs_tab g))"
  let ?resp = "\<lparr>jr_job = job\<lparr>j_queue_position := Some ?pos\<rparr>, jr_queue_position = Some ?pos,
    jr_estimated_wait_seconds = Some (?pos * 30), jr_agent_id = None\<rparr>"
  have "handleSubmitJob deps r g = queue_up job g2" by (simp add: h job(1) allocated_def)
  also have "\<dots> = (writeJSON 202 (BJobResponse ?resp), g2\<lparr>jobs_tab := jobs_tab g @ [(submitted_row r req g)\<lparr>j_status := JobQueued,
         j_queue_expires_at := Some (wall_clock g + hour)\<rparr>]\<rparr>)"
    using queue_up_effect [OF f(1,4) r(1-3)] unfolding f(2) row .
  finally have e: "handleSubmitJob deps r g = (writeJSON 202 (BJobResponse ?resp), g2\<lparr>jobs_tab := jobs_tab g @
      [(submitted_row r req g)\<lparr>j_status := JobQueued, j_queue_expires_at := Some (wall_clock g + hour)\<rparr>]\<rparr>)" .
  show ?thesis
    by (rule that [where resp = ?resp and t = t and c = c]) (use t in \<open>simp_all add: e g2 job(3)\<close>)
qed

text \<open>
  C18 (submit_queues): without an idle agent a submitted job is answered 202 with its place, one more than the
  queued jobs not younger, and its row is added queued. The answer says it expires after the configured time; the row
  expires after an hour, whatever is configured. The agents are not touched, and every existing file the request names is linked.
\<close>

theorem submit_queues:
  assumes "faults g = []" "js_submit (dp_http deps) (rq_body r) = Some req" "sj_command req \<noteq> ''''" "sj_skill_id req = None"
    and "\<not> has_job (fst (NewUUID g)) g" "\<not> over_cap deps r g" "idle_agents g = []"
  shows "\<exists>resp. handleSubmitJob deps r g = (writeJSON 202 (BJobResponse resp), snd (handleSubmitJob deps r g))
    \<and> jr_queue_position resp = Some (1 + int (sql_count (\<lambda>j. j_status j = JobQueued \<and> j_created_at j \<le> wall_clock g) (jobs_tab g)))
    \<and> j_queue_expires_at (jr_job resp) = Some (wall_clock g + st_queueTTL (dp_Settings deps))
    \<and> jobs_tab (snd (handleSubmitJob deps r g)) = jobs_tab g @ [(submitted_row r req g)\<lparr>j_status := JobQueued,
         j_queue_expires_at := Some (wall_clock g + hour)\<rparr>]
    \<and> agents_tab (snd (handleSubmitJob deps r g)) = agents_tab g
    \<and> (\<forall>i \<in> set (sj_file_ids req). i \<in> f_id ` set (files_tab g) \<longrightarrow>
         (fst (NewUUID g), i, ''input'') \<in> set (job_files_tab (snd (handleSubmitJob deps r g))))"
proof -
  obtain resp t c where h: "handleSubmitJob deps r g = (writeJSON 202 (BJobResponse resp), (snd (NewUUID g))\<lparr>jobs_tab := jobs_tab g @
       [(submitted_row r req g)\<lparr>j_status := JobQueued, j_queue_expires_at := Some (wall_clock g + hour)\<rparr>],
       job_files_tab := t, job_creds_tab := c\<rparr>)" and resp: "jr_queue_position resp = Some (1 + int (sql_count
         (\<lambda>j. j_status j = JobQueued \<and> j_created_at j \<le> wall_clock g) (jobs_tab g)))"
         "j_queue_expires_at (jr_job resp) = Some (wall_clock g + st_queueTTL (dp_Settings deps))"
         "\<forall>i \<in> set (sj_file_ids req). i \<in> f_id ` set (files_tab g) \<longrightarrow> (fst (NewUUID g), i, ''input'') \<in> set t"
    by (rule submit_queued [OF assms])
  show ?thesis
    by (rule exI [of _ resp]) (use resp in \<open>simp add: h NewUUID_def\<close>)
qed

text \<open>
  C34 (foreign_file_linked): the files of a request are not checked for their owner. A user who knows the id of
  another user's file and submits a job with it has the file among the inputs of the job, those that are pushed to
  the device that runs it, although reading the file through the API is refused.
\<close>

theorem foreign_file_linked:
  assumes "faults g = []" "js_submit (dp_http deps) (rq_body r) = Some req" "sj_command req \<noteq> ''''" "sj_skill_id req = None"
    and "\<not> has_job (fst (NewUUID g)) g" "\<not> over_cap deps r g" "idle_agents g = []"
    and "f \<in> set (files_tab g)" "f_id f \<in> set (sj_file_ids req)" "f_user_id f \<noteq> getUserID r"
    and "distinct (map f_id (files_tab g))" "param_id deps r' ''fileID'' = Some (f_id f)" "getUserID r' = getUserID r"
  shows "(\<exists>files. F_ListByJob (fst (NewUUID g)) (snd (handleSubmitJob deps r g)) = (Inr files, snd (handleSubmitJob deps r g))
       \<and> f \<in> set files)
    \<and> handleGetFile deps r' g = (accessDenied, g)"
proof -
  obtain resp t c where h: "handleSubmitJob deps r g = (writeJSON 202 (BJobResponse resp), (snd (NewUUID g))\<lparr>jobs_tab := jobs_tab g @
       [(submitted_row r req g)\<lparr>j_status := JobQueued, j_queue_expires_at := Some (wall_clock g + hour)\<rparr>],
       job_files_tab := t, job_creds_tab := c\<rparr>)"
      and t: "\<forall>i \<in> set (sj_file_ids req). i \<in> f_id ` set (files_tab g) \<longrightarrow> (fst (NewUUID g), i, ''input'') \<in> set t"
    by (rule submit_queued [OF assms(1-7)])
  let ?g = "snd (handleSubmitJob deps r g)"
  have g: "faults ?g = []" "files_tab ?g = files_tab g" "job_files_tab ?g = t" using assms(1) by (simp_all add: h NewUUID_def)
  have "(fst (NewUUID g), f_id f, ''input'') \<in> set t" using t assms(8,9) by blast
  then have "F_ListByJob (fst (NewUUID g)) ?g = (Inr (filter (\<lambda>f. \<exists>l \<in> set t. fst l = fst (NewUUID g) \<and> fst (snd l) = f_id f) (files_tab g)), ?g)"
    "\<exists>l \<in> set t. fst l = fst (NewUUID g) \<and> fst (snd l) = f_id f"
    by (simp_all add: F_ListByJob_def db_ok g del: NewUUID_simps) force
  then show ?thesis
    using assms(1,8,10-13) find_key_unique [OF assms(11,8)]
    by (auto simp: handleGetFile_def with_own_file_def with_id_def found_or_404_def F_GetByID_def db_ok)
qed

definition sample_others_file :: File where
  "sample_others_file = \<lparr>f_id = 4, f_user_id = 8, f_name = ''n'', f_size = 1, f_mime = ''m'', f_sha256 = ''h'',
     f_storage_uri = ''u'', f_status = FileStagedCloud, f_created_at = 0, f_purged_at = None\<rparr>"

lemma sample_submit:
  "faults sample_web = []" "getUserID sample_request = 9" "uuid_seq sample_web (uuid_pos sample_web) = 1"
  "js_submit (dp_http sample_deps) b = Some \<lparr>sj_command = ''c'', sj_skill_id = None, sj_file_ids = [4], sj_credential_ids = []\<rparr>"
  "st_maxQueuedPerUser (dp_Settings sample_deps) = 5" "st_queueTTL (dp_Settings sample_deps) = hour"
  "idle_agents sample_web = []" "wall_clock sample_web = 100 * hour"
  by (simp_all add: sample_defs sample_settings_def getUserID_def idle_agents_def)

theorem submit_refused_stays_witness:
  "\<exists>g' job. handleSubmitJob sample_deps sample_request (sample_web\<lparr>jobs_tab := map (\<lambda>i. sample_job i JobQueued) [11, 12, 13, 14, 15]\<rparr>)
       = (writeError 429 ErrCodeQueueFull ''max queued jobs per user reached'', g')
     \<and> job \<in> set (jobs_tab g') \<and> j_id job = 1 \<and> j_status job = JobPending \<and> job \<notin> set (dequeuable g')"
proof -
  let ?g = "sample_web\<lparr>jobs_tab := map (\<lambda>i. sample_job i JobQueued) [11, 12, 13, 14, 15]\<rparr>"
  let ?req = "\<lparr>sj_command = ''c'', sj_skill_id = None, sj_file_ids = [4], sj_credential_ids = []\<rparr>"
  let ?row = "submitted_row sample_request ?req ?g"
  have "over_cap sample_deps sample_request ?g"
    by (simp add: over_cap_def sample_submit queued_of_def sql_count_def sample_job_def)
  then have "fst (handleSubmitJob sample_deps sample_request ?g) = writeError 429 ErrCodeQueueFull ''max queued jobs per user reached''
      \<and> jobs_tab (snd (handleSubmitJob sample_deps sample_request ?g)) = jobs_tab ?g @ [?row]
      \<and> j_status ?row = JobPending \<and> ?row \<notin> set (dequeuable (snd (handleSubmitJob sample_deps sample_request ?g)))"
    by (intro submit_refused_stays) (simp_all add: sample_submit has_job_def sample_job_def)
  moreover have "j_id ?row = 1" by (simp add: submitted_row_def sample_submit)
  ultimately show ?thesis
    by (intro exI [of _ "snd (handleSubmitJob sample_deps sample_request ?g)"] exI [of _ ?row]) (auto simp: prod_eq_iff)
qed

theorem submit_queues_witness:
  "\<exists>resp. handleSubmitJob sample_deps sample_request (sample_web\<lparr>jobs_tab := [sample_job 11 JobQueued]\<rparr>)
       = (writeJSON 202 (BJobResponse resp), snd (handleSubmitJob sample_deps sample_request (sample_web\<lparr>jobs_tab := [sample_job 11 JobQueued]\<rparr>)))
     \<and> jr_queue_position resp = Some 2"
proof -
  let ?g = "sample_web\<lparr>jobs_tab := [sample_job 11 JobQueued]\<rparr>" and ?row = "sample_job 11 JobQueued"
  let ?req = "\<lparr>sj_command = ''c'', sj_skill_id = None, sj_file_ids = [4], sj_credential_ids = []\<rparr>"
  have 1: "idle_agents ?g = []" using sample_submit(7) by (simp add: idle_agents_def)
  have 2: "\<not> over_cap sample_deps sample_request ?g" "\<not> has_job (fst (NewUUID ?g)) ?g"
    by (simp_all add: over_cap_def queued_of_def sql_count_def sample_submit has_job_def sample_job_def)
  have 3: "sql_count (\<lambda>j. j_status j = JobQueued \<and> j_created_at j \<le> wall_clock ?g) (jobs_tab ?g) = 1"
    by (simp add: sql_count_def sample_submit sample_job_def hour_def minute_def second_def)
  have "\<exists>resp. handleSubmitJob sample_deps sample_request ?g = (writeJSON 202 (BJobResponse resp), snd (handleSubmitJob sample_deps sample_request ?g))
    \<and> jr_queue_position resp = Some (1 + int (sql_count (\<lambda>j. j_status j = JobQueued \<and> j_created_at j \<le> wall_clock ?g) (jobs_tab ?g)))"
    using submit_queues [of ?g sample_deps sample_request ?req, OF _ sample_submit(4) _ _ 2(2,1) 1] sample_submit(1) by auto
  then show ?thesis unfolding 3 by simp
qed

theorem foreign_file_linked_witness:
  "(\<exists>files. F_ListByJob 1 (snd (handleSubmitJob sample_deps sample_request (sample_web\<lparr>files_tab := [sample_others_file]\<rparr>)))
        = (Inr files, snd (handleSubmitJob sample_deps sample_request (sample_web\<lparr>files_tab := [sample_others_file]\<rparr>)))
      \<and> sample_others_file \<in> set files)
    \<and> handleGetFile sample_deps (sample_request\<lparr>rq_param := \<lambda>_. ''aaaa''\<rparr>) (sample_web\<lparr>files_tab := [sample_others_file]\<rparr>)
      = (accessDenied, sample_web\<lparr>files_tab := [sample_others_file]\<rparr>)"
proof -
  let ?g = "sample_web\<lparr>files_tab := [sample_others_file]\<rparr>" and ?r' = "sample_request\<lparr>rq_param := \<lambda>_. ''aaaa''\<rparr>"
  have 1: "fst (NewUUID ?g) = 1" "idle_agents ?g = []" "\<not> has_job 1 ?g" "\<not> over_cap sample_deps sample_request ?g"
    "param_id sample_deps ?r' ''fileID'' = Some 4" "getUserID ?r' = getUserID sample_request"
    by (simp_all add: sample_submit idle_agents_def has_job_def over_cap_def queued_of_def sql_count_def sample_defs param_id_def getUserID_def)
  then show ?thesis
    using foreign_file_linked [of ?g sample_deps sample_request
        "\<lparr>sj_command = ''c'', sj_skill_id = None, sj_file_ids = [4], sj_credential_ids = []\<rparr>" sample_others_file ?r']
    by (simp add: sample_submit sample_others_file_def del: NewUUID_simps)
qed

end
