(* ===== verification/VncProps.thy ===== *)
theory VncProps
  imports VncApi AuthProps
begin

text \<open>
  Who may reach a remote-desktop session: what the handlers of its two websockets ask for, and what the handlers
  that close a session and save its login do not.
\<close>

lemma send_new_vnc [simp]: "ap_vnc (snd (send_new d t p g)) = ap_vnc g"
  by (auto simp: send_new_def NewFrame_def SendFrame_def Let_def NewUUID_def split: option.splits)

lemma send_new_clock [simp]: "wall_clock (snd (send_new d t p g)) = wall_clock g"
  by (auto simp: send_new_def NewFrame_def SendFrame_def Let_def NewUUID_def split: option.splits)

section \<open>The websockets\<close>

lemma put_session_other: "vs_ID s \<noteq> i \<Longrightarrow> GetSession (put_session s r) i = GetSession r i"
  by (simp add: GetSession_def put_session_def update_conv)

lemma close_ws_session [simp]: "GetSession (close_ws w r) i = GetSession r i"
  by (simp add: GetSession_def close_ws_def split: option.split)

lemma maybeActivate_id [simp]: "vs_ID (maybeActivate now s) = vs_ID s"
  by (simp add: maybeActivate_def touch_def split: option.split)

text \<open>What a token proves for a session: it is the session's own, or an access token of its user.\<close>

definition proves :: "Dependencies \<Rightarrow> string \<Rightarrow> Session \<Rightarrow> 'a web \<Rightarrow> bool" where
  "proves deps token s g \<longleftrightarrow> HashToken (lb_crypto (dp_libs deps)) token = vs_TokenHash s
     \<or> (\<exists>claims. VerifyToken (dp_http deps) (wb_jwt g) (wall_clock g) token = Some claims
          \<and> ExtractUserID (dp_http deps) claims = Some (vs_UserID s))"

lemma browser_session_proves:
  "browser_session deps i token g = Inr s \<Longrightarrow> GetSession (ap_vnc g) i = Some s \<and> proves deps token s g"
  by (auto simp: browser_session_def proves_def ExtractUserID_def Let_def split: option.splits if_splits)

lemma browser_session_refuses:
  "browser_session deps i token g = Inl resp \<Longrightarrow> rs_status resp \<in> {401, 403}"
  by (auto simp: browser_session_def httpError_def Let_def split: option.splits if_splits)

text \<open>Nothing of the relay but the session and the socket that came is changed.\<close>

definition only_session :: "uuid \<Rightarrow> ws_id \<Rightarrow> Relay \<Rightarrow> Relay \<Rightarrow> bool" where
  "only_session i w r r' \<longleftrightarrow> (\<forall>k. k \<noteq> i \<longrightarrow> GetSession r' k = GetSession r k) \<and> (\<forall>v. v \<noteq> w \<longrightarrow> rl_ws r' v = rl_ws r v)"

lemma bound_effect:
  assumes "bound w res g = (resp, g')" "fst res \<noteq> None \<Longrightarrow> snd res = ap_vnc g"
  shows "rs_status resp = 101 \<and> g' = g\<lparr>ap_vnc := ap_vnc g'\<rparr> \<and>
    (if fst res = None then ap_vnc g' = snd res else ap_vnc g' = close_ws (Some w) (ap_vnc g))"
  using assms by (auto simp: bound_def Let_def close_conn_def split: if_splits)

text \<open>
  C22 (vnc_socket_auth): a browser's websocket is accepted only with the token of the session or an access token of
  the session's user, and otherwise nothing changes; a device's websocket is accepted before its token is looked
  at, but reaches the session only with the session's token and is closed otherwise. No other session is touched.
\<close>

theorem vnc_socket_auth:
  assumes "\<forall>(i, s) \<in> set (rl_sessions (ap_vnc g)). vs_ID s = i"
    and "handleVNCBrowserSocket deps (Inr w) r g = (resp, g')" "handleVNCDeviceSocket deps (Inr w) r g = (resp', g'')"
  shows "(rs_status resp \<in> {400, 401, 403} \<and> g' = g
      \<or> (\<exists>i s. param_id deps r ''sessionID'' = Some i \<and> GetSession (ap_vnc g) i = Some s \<and> proves deps (rq_query r ''token'') s g
          \<and> rs_status resp = 101 \<and> only_session i w (ap_vnc g) (ap_vnc g')))
    \<and> (rs_status resp' \<in> {400, 401} \<and> g'' = g
      \<or> rs_status resp' = 101 \<and> ap_vnc g'' = close_ws (Some w) (ap_vnc g)
      \<or> (\<exists>i s. param_id deps r ''sessionID'' = Some i \<and> GetSession (ap_vnc g) i = Some s
          \<and> HashToken (lb_crypto (dp_libs deps)) (session_token r) = vs_TokenHash s \<and> vs_device s = None
          \<and> rs_status resp' = 101 \<and> only_session i w (ap_vnc g) (ap_vnc g'')))"
proof
  have ids: "vs_ID s = i" if "GetSession (ap_vnc g) i = Some s" for i s
    using that assms(1) by (auto simp: GetSession_def dest: map_of_SomeD)
  show "rs_status resp \<in> {400, 401, 403} \<and> g' = g
      \<or> (\<exists>i s. param_id deps r ''sessionID'' = Some i \<and> GetSession (ap_vnc g) i = Some s \<and> proves deps (rq_query r ''token'') s g
          \<and> rs_status resp = 101 \<and> only_session i w (ap_vnc g) (ap_vnc g'))"
  proof (cases "\<exists>i s. rq_query r ''token'' \<noteq> '''' \<and> param_id deps r ''sessionID'' = Some i
      \<and> browser_session deps i (rq_query r ''token'') g = Inr s")
    case True
    then obtain i s where s: "rq_query r ''token'' \<noteq> ''''" "param_id deps r ''sessionID'' = Some i"
        "browser_session deps i (rq_query r ''token'') g = Inr s" by blast
    note p = browser_session_proves [OF s(3)]
    let ?res = "BindBrowser (wall_clock g) i (vs_UserID s) w (ap_vnc g)"
    have b: "bound w ?res g = (resp, g')" using assms(2) s by (simp add: handleVNCBrowserSocket_def)
    have e: "fst ?res \<noteq> None \<Longrightarrow> snd ?res = ap_vnc g" by (auto simp: BindBrowser_def split: option.splits if_splits)
    have "only_session i w (ap_vnc g) (snd ?res)"
      using ids p by (auto simp: BindBrowser_def only_session_def put_session_other) (simp add: put_session_def)
    then show ?thesis using bound_effect [OF b e] p s(2) by (auto simp: only_session_def close_ws_def split: if_splits)
  next
    case False
    then show ?thesis
      using assms(2) by (auto simp: handleVNCBrowserSocket_def httpError_def Let_def split: if_splits option.splits sum.splits
          dest!: browser_session_refuses)
  qed
  show "rs_status resp' \<in> {400, 401} \<and> g'' = g
      \<or> rs_status resp' = 101 \<and> ap_vnc g'' = close_ws (Some w) (ap_vnc g)
      \<or> (\<exists>i s. param_id deps r ''sessionID'' = Some i \<and> GetSession (ap_vnc g) i = Some s
          \<and> HashToken (lb_crypto (dp_libs deps)) (session_token r) = vs_TokenHash s \<and> vs_device s = None
          \<and> rs_status resp' = 101 \<and> only_session i w (ap_vnc g) (ap_vnc g''))"
  proof (cases "session_token r \<noteq> '''' \<and> param_id deps r ''sessionID'' \<noteq> None")
    case True
    then obtain i where i: "param_id deps r ''sessionID'' = Some i" by blast
    let ?res = "BindDevice (HashToken (lb_crypto (dp_libs deps))) (wall_clock g) i (session_token r) w (ap_vnc g)"
    have b: "bound w ?res g = (resp', g'')" using assms(3) True i by (simp add: handleVNCDeviceSocket_def)
    have e: "fst ?res \<noteq> None \<Longrightarrow> snd ?res = ap_vnc g" by (auto simp: BindDevice_def split: option.splits if_splits)
    have "fst ?res = None \<Longrightarrow> \<exists>s. GetSession (ap_vnc g) i = Some s \<and> vs_device s = None
        \<and> HashToken (lb_crypto (dp_libs deps)) (session_token r) = vs_TokenHash s \<and> only_session i w (ap_vnc g) (snd ?res)"
      using ids by (auto simp: BindDevice_def only_session_def put_session_other split: option.splits if_splits) (simp add: put_session_def)
    then show ?thesis using bound_effect [OF b e] i by (auto split: if_splits)
  next
    case False
    then show ?thesis using assms(3) by (auto simp: handleVNCDeviceSocket_def httpError_def Let_def split: if_splits option.splits)
  qed
qed

definition sample_vnc :: Session where
  "sample_vnc = new_session 5 6 8 7 3 [CHR ''x''] hour hour 65536 (100 * hour)"

definition sample_vnc_web :: Web where
  "sample_vnc_web = sample_web\<lparr>ap_vnc := (ap_vnc sample_web)\<lparr>rl_sessions := [(5, sample_vnc)]\<rparr>\<rparr>"

theorem vnc_socket_auth_witness:
  "rs_status (fst (handleVNCBrowserSocket sample_deps (Inr 0) (sample_request\<lparr>rq_query := \<lambda>_. ''tx''\<rparr>) sample_vnc_web)) = 101
     \<and> proves sample_deps ''tx'' sample_vnc sample_vnc_web"
proof -
  let ?r = "sample_request\<lparr>rq_query := \<lambda>_. ''tx''\<rparr>"
  have x: "char_of (120 :: nat) = CHR ''x''" by code_simp
  have h: "HashToken (lb_crypto (dp_libs sample_deps)) ''tx'' = [CHR ''x'']"
    by (simp add: HashToken_def sample_deps_def sample_libs'_def str_bytes_def x)
  have p: "param_id sample_deps ?r ''sessionID'' = Some 5"
    by (simp add: param_id_def sample_deps_def sample_http_def sample_request_def)
  have v: "GetSession (ap_vnc sample_vnc_web) 5 = Some sample_vnc" "\<forall>(i, s) \<in> set (rl_sessions (ap_vnc sample_vnc_web)). vs_ID s = i"
    by (simp_all add: sample_vnc_web_def GetSession_def sample_vnc_def new_session_def)
  have "browser_session sample_deps 5 ''tx'' sample_vnc_web = Inr sample_vnc"
    by (simp add: browser_session_def v h Let_def) (simp add: sample_vnc_def new_session_def)
  then have "rs_status (fst (handleVNCBrowserSocket sample_deps (Inr 0) ?r sample_vnc_web)) = 101"
    by (simp add: handleVNCBrowserSocket_def p bound_def Let_def)
  then show ?thesis
    using vnc_socket_auth [where deps = sample_deps and w = 0 and r = ?r and g = sample_vnc_web
        and resp = "fst (handleVNCBrowserSocket sample_deps (Inr 0) ?r sample_vnc_web)"
        and g' = "snd (handleVNCBrowserSocket sample_deps (Inr 0) ?r sample_vnc_web)"
        and resp' = "fst (handleVNCDeviceSocket sample_deps (Inr 0) ?r sample_vnc_web)"
        and g'' = "snd (handleVNCDeviceSocket sample_deps (Inr 0) ?r sample_vnc_web)"] v p
    by auto
qed

section \<open>Closing and saving\<close>

text \<open>
  Closing a session and saving its login do not ask whose session it is. Any authenticated user
  closes another user's session, and starts the capture of the login in another user's browser.
\<close>

theorem vnc_unowned:
  assumes "param_id deps r ''sessionID'' = Some i" "GetSession (ap_vnc g) i = Some s" "vs_ID s = i"
    and "vs_UserID s \<noteq> getUserID r" "js_save_login (dp_http deps) (rq_body r) = Some req" "sl_origin req \<noteq> ''''"
  shows "fst (handleCloseVNC deps r g) = message 200 ''session closed''
    \<and> (\<exists>s'. GetSession (ap_vnc (snd (handleCloseVNC deps r g))) i = Some s' \<and> vs_Status s' = statusClosed)
    \<and> handleSaveLogin deps r g = (message 202 ''capture initiated'', snd (send_new (vs_DeviceID s) FrameCredCapture
        (PCredCapture \<lparr>cc_session_id = i, cc_job_id = vs_JobID s, cc_agent_id = vs_AgentID s, cc_origin = sl_origin req,
          cc_storage_state = '''', cc_storage_state_encoding = '''', cc_sha256 = '''', cc_label = sl_label req\<rparr>) g))"
proof -
  have "\<exists>s'. GetSession (CloseSession now i (ap_vnc g)) i = Some s' \<and> vs_Status s' = statusClosed" for now
    using assms(2,3) by (auto simp: CloseSession_def)
  then show ?thesis
    using assms by (simp add: handleCloseVNC_def handleSaveLogin_def Let_def)
qed

theorem vnc_unowned_witness:
  "getUserID sample_request = 9 \<and> vs_UserID sample_vnc = 8
   \<and> (\<exists>s'. GetSession (ap_vnc (snd (handleCloseVNC sample_deps sample_request sample_vnc_web))) 5 = Some s' \<and> vs_Status s' = statusClosed)"
proof -
  have "param_id sample_deps sample_request ''sessionID'' = Some 5" "GetSession (ap_vnc sample_vnc_web) 5 = Some sample_vnc"
    "vs_ID sample_vnc = 5" "vs_UserID sample_vnc = 8" "getUserID sample_request = 9"
    "js_save_login (dp_http sample_deps) (rq_body sample_request) = Some \<lparr>sl_origin = ''o'', sl_label = ''l''\<rparr>"
    by (simp_all add: param_id_def sample_deps_def sample_http_def sample_request_def sample_vnc_web_def GetSession_def
        sample_vnc_def new_session_def getUserID_def)
  then show ?thesis
    using vnc_unowned [of sample_deps sample_request 5 sample_vnc_web sample_vnc "\<lparr>sl_origin = ''o'', sl_label = ''l''\<rparr>"] by simp
qed

end
