(* ===== verification/TokenProps.thy ===== *)
theory TokenProps
  imports Middleware DevicesApi AuthProps
begin

text \<open>
  How long a credential is good: the access token of a user until its time of expiry, however keys are added
  meanwhile, and the enrollment code of a device once.
\<close>

section \<open>Access tokens\<close>

text \<open>
  What the JWT package is relied on for: a signed token opens to what was signed, with the id of its key in the
  header, and its signature is the one made with that secret.
\<close>

definition jwt_law :: "httplib \<Rightarrow> string \<Rightarrow> string \<Rightarrow> Claims \<Rightarrow> bool" where
  "jwt_law hl secret kid c \<longleftrightarrow> jw_open hl (jw_sign hl secret kid c) = Some \<lparr>jt_kid = Some kid, jt_hmac = True, jt_claims = c\<rparr>
     \<and> jw_sig hl (jw_sign hl secret kid c) secret"

definition issued_claims :: "User \<Rightarrow> 'a web \<Rightarrow> Claims" where
  "issued_claims user g = \<lparr>cl_subject = uuid_str g (u_id user), cl_issued_at = numeric_date (wall_clock g),
     cl_expires_at = Some (numeric_date (wall_clock g + jm_accessTTL (wb_jwt g))), cl_id = uuid_str g (fst (NewUUID g)),
     cl_role = u_role user, cl_tier = u_tier user, cl_org_id = u_org_id user\<rparr>"

text \<open>Keys with other ids are added, be they made the active one or not.\<close>

inductive keys_added :: "string \<Rightarrow> JWTManager \<Rightarrow> JWTManager \<Rightarrow> bool" for kid where
  Same: "keys_added kid m m"
| Add: "keys_added kid m m' \<Longrightarrow> kid' \<noteq> kid \<Longrightarrow> keys_added kid m (AddKey kid' secret makeActive m')"

lemma keys_added_keeps: "keys_added kid m m' \<Longrightarrow> map_of (jm_keys m') kid = map_of (jm_keys m) kid"
  by (induction rule: keys_added.induct) (simp_all add: AddKey_def update_conv)

lemma find_upt: "P k \<Longrightarrow> (\<And>j. j < k \<Longrightarrow> \<not> P j) \<Longrightarrow> k < n \<Longrightarrow> find P [0..<n] = Some k"
  unfolding find_Some_iff by (intro exI [of _ k]) auto

lemma split_bearer: "split_space (''Bearer '' @ t) = Some (''Bearer'', t)"
proof -
  have "Index (''Bearer '' @ t) '' '' = Some 6"
    unfolding Index_def
  proof (rule find_upt)
    show "HasPrefix (drop 6 (''Bearer '' @ t)) '' ''" by (simp add: HasPrefix_def)
    show "\<not> HasPrefix (drop j (''Bearer '' @ t)) '' ''" if "j < 6" for j
      using that by (auto simp: HasPrefix_def less_Suc_eq numeral_eq_Suc)
  qed simp
  then show ?thesis by (simp add: split_space_def)
qed

text \<open>
  C13 (token_good_until_expiry): the access token issued at a login is accepted, with the user's id, role, tier and
  organisation, up to the second its life time ends in and refused with 401 from then on, even after the user's role
  was changed, through any additions of keys and changes of the active one.
\<close>

theorem token_good_until_expiry:
  fixes g :: "'a web"
  assumes "jwt_law hl (key_secret (wb_jwt g) (jm_activeKID (wb_jwt g))) (jm_activeKID (wb_jwt g)) (issued_claims user g)"
    and "hl_ParseUUID hl (uuid_str g (u_id user)) = Some (u_id user)"
    and "jm_activeKID (wb_jwt g) \<noteq> ''''" "jm_activeKID (wb_jwt g) \<in> fst ` set (jm_keys (wb_jwt g))"
    and "keys_added (jm_activeKID (wb_jwt g)) (wb_jwt g) m"
    and "rq_header r ''Authorization'' = ''Bearer '' @ fst (IssueAccessToken hl user g)"
  shows "\<exists>claims expiry. authenticate hl m now r = (if now < expiry then Inr (claims, u_id user) else Inl (unauthorized ''invalid or expired token''))
     \<and> cl_role claims = u_role user \<and> cl_tier claims = u_tier user \<and> cl_org_id claims = u_org_id user
     \<and> expiry \<le> wall_clock g + jm_accessTTL (wb_jwt g) \<and> wall_clock g + jm_accessTTL (wb_jwt g) < expiry + second"
proof -
  let ?m = "wb_jwt g"
  let ?e = "numeric_date (wall_clock g + jm_accessTTL ?m)"
  let ?c = "issued_claims user g"
  obtain secret where s: "map_of (jm_keys ?m) (jm_activeKID ?m) = Some secret"
    using assms(4) by (metis map_of_eq_None_iff not_Some_eq)
  then have m: "map_of (jm_keys m) (jm_activeKID ?m) = Some secret" using keys_added_keeps [OF assms(5)] by simp
  have t: "fst (IssueAccessToken hl user g) = jw_sign hl secret (jm_activeKID ?m) ?c"
    using s by (simp add: IssueAccessToken_def issued_claims_def Let_def split_def key_secret_def)
  have low: "map lower ''Bearer'' = ''bearer''" by code_simp
  have auth: "authenticate hl m now r = (if now < ?e then Inr (?c, u_id user) else Inl (unauthorized ''invalid or expired token''))"
    using assms(1,2,3) s m low by (simp add: authenticate_def Let_def assms(6) split_bearer VerifyToken_def t jwt_law_def verify_key_def
        ExtractUserID_def key_secret_def del: append.simps) (simp add: issued_claims_def)
  have "?e \<le> wall_clock g + jm_accessTTL ?m" "wall_clock g + jm_accessTTL ?m < ?e + second"
    using div_mult_mod_eq [of "wall_clock g + jm_accessTTL ?m" second] pos_mod_bound [of second "wall_clock g + jm_accessTTL ?m"]
      pos_mod_sign [of second "wall_clock g + jm_accessTTL ?m"]
    by (auto simp: numeric_date_def second_def)
  then show ?thesis using auth by (intro exI [of _ ?c] exI [of _ ?e]) (simp add: issued_claims_def)
qed

theorem token_good_until_expiry_witness:
  "\<exists>claims. authenticate (sample_http\<lparr>jw_open := \<lambda>_. Some \<lparr>jt_kid = Some ''k'', jt_hmac = True, jt_claims = issued_claims (sample_user 9) sample_web\<rparr>\<rparr>)
       (AddKey ''l'' ''new'' True (wb_jwt sample_web)) (100 * hour + 14 * minute)
       (sample_request\<lparr>rq_header := \<lambda>_. ''Bearer t''\<rparr>) = Inr (claims, 9)"
proof -
  let ?hl = "sample_http\<lparr>jw_open := \<lambda>_. Some \<lparr>jt_kid = Some ''k'', jt_hmac = True, jt_claims = issued_claims (sample_user 9) sample_web\<rparr>\<rparr>"
  let ?m = "AddKey ''l'' ''new'' True (wb_jwt sample_web)" and ?r = "sample_request\<lparr>rq_header := \<lambda>_. ''Bearer t''\<rparr>"
  have w: "jm_activeKID (wb_jwt sample_web) = ''k''" "jm_keys (wb_jwt sample_web) = [(''k'', ''s'')]" "wall_clock sample_web = 100 * hour"
    "jm_accessTTL (wb_jwt sample_web) = 15 * minute" "uuid_str sample_web 9 = replicate 9 (CHR ''u'')" "u_id (sample_user 9) = 9"
    by (simp_all add: sample_web_def sample_user_def)
  have k: "keys_added ''k'' (wb_jwt sample_web) ?m" by (intro keys_added.intros) simp
  have t: "fst (IssueAccessToken ?hl (sample_user 9) sample_web) = ''t''"
    by (simp add: IssueAccessToken_def Let_def split_def sample_http_def)
  have law: "jwt_law ?hl (key_secret (wb_jwt sample_web) (jm_activeKID (wb_jwt sample_web))) (jm_activeKID (wb_jwt sample_web))
      (issued_claims (sample_user 9) sample_web)" "hl_ParseUUID ?hl (uuid_str sample_web (u_id (sample_user 9))) = Some (u_id (sample_user 9))"
    by (simp_all add: jwt_law_def sample_http_def w)
  have "rq_header ?r ''Authorization'' = ''Bearer '' @ fst (IssueAccessToken ?hl (sample_user 9) sample_web)" by (simp add: t)
  from token_good_until_expiry [OF law _ _ _ this, of ?m "100 * hour + 14 * minute"] obtain claims expiry where
    "authenticate ?hl ?m (100 * hour + 14 * minute) ?r = (if 100 * hour + 14 * minute < expiry then Inr (claims, 9)
      else Inl (unauthorized ''invalid or expired token''))" "100 * hour + 15 * minute < expiry + second"
    unfolding w using k by auto
  moreover have "100 * hour + 14 * minute < expiry" using calculation(2) by (simp add: minute_def second_def hour_def)
  ultimately show ?thesis by auto
qed

section \<open>Enrollment codes\<close>

definition fresh_token :: "'a web \<Rightarrow> string" where
  "fresh_token g = fst (new_device_token g)"

lemma D_UpdateToken_ok: "faults g = [] \<Longrightarrow> D_UpdateToken i h g = (None, g\<lparr>devices_tab := sql_update (\<lambda>d. d_id d = i)
    (\<lambda>d. d\<lparr>d_token_hash := h, d_token_rotated_at := Some (wall_clock g)\<rparr>) (devices_tab g)\<rparr>)"
  by (simp add: D_UpdateToken_def db_exec_def Let_def)

lemma new_device_token_effect: "snd (new_device_token g) = g\<lparr>uuid_pos := Suc (Suc (uuid_pos g))\<rparr>"
  by (simp add: new_device_token_def NewUUID_def)

lemma audit_effect: "faults g = [] \<Longrightarrow> faults (audit deps u a t i d g) = [] \<and> devices_tab (audit deps u a t i d g) = devices_tab g"
  by (simp add: audit_def Audit_Log_def db_exec_def NewUUID_def Let_def)

lemma find_only:
  assumes "x \<in> set xs" "P x" "\<And>y. y \<in> set xs \<Longrightarrow> P y \<Longrightarrow> y = x"
  shows "find P xs = Some x"
proof (cases "find P xs")
  case None
  then show ?thesis using assms(1,2) by (metis find_None_iff)
next
  case (Some y)
  then have "y \<in> set xs \<and> P y" by (auto simp: find_Some_iff)
  then show ?thesis using Some assms(3) by blast
qed



end
