(* ===== verification/MockStore.thy ===== *)
theory MockStore
  imports Http
begin

text \<open>
  The interfaces of the stores (\<open>store/interfaces.go\<close>), as records of operations on a state, their
  implementation over the tables, and the stores in memory the handler tests use (\<open>store/mock.go\<close>). Each
  method of a mock holds its mutex from beginning to end and is one step. Go visits a map in an order of its own; the
  order of the list stands for it. The number of rows \<open>ExpireQueued\<close> and \<open>ExpireDispatched\<close> return is not used by
  the gateway and is left out.
\<close>

section \<open>The interfaces\<close>

type_synonym ('r, 'h) creation = "'r \<Rightarrow> 'h \<Rightarrow> err option \<times> 'r \<times> 'h"

type_synonym ('r, 'h) paging = "uuid option \<Rightarrow> int \<Rightarrow> ('r list \<times> uuid option, 'h) query"

record 'h UserStoreInterface =
  US_Create :: "(User, 'h) creation"
  US_GetByID :: "uuid \<Rightarrow> (User option, 'h) query"
  US_GetByEmail :: "string \<Rightarrow> (User option, 'h) query"
  US_Update :: "User \<Rightarrow> 'h exec"
  US_UpdateTier :: "uuid \<Rightarrow> UserTier \<Rightarrow> 'h exec"
  US_List :: "(User, 'h) paging"

record 'h DeviceStoreInterface =
  DS_Create :: "(Device, 'h) creation"
  DS_GetByID :: "uuid \<Rightarrow> (Device option, 'h) query"
  DS_GetByTokenHash :: "string \<Rightarrow> (Device, 'h) query"
  DS_Update :: "Device \<Rightarrow> 'h exec"
  DS_UpdateToken :: "uuid \<Rightarrow> string \<Rightarrow> 'h exec"
  DS_UpdateStatus :: "uuid \<Rightarrow> DeviceStatus \<Rightarrow> 'h exec"
  DS_List :: "(Device, 'h) paging"
  DS_ListAll :: "(Device list, 'h) query"
  DS_Delete :: "uuid \<Rightarrow> 'h exec"
  DS_GetEnrolledDevice :: "string \<Rightarrow> (Device option, 'h) query"

record 'h AgentStoreInterface =
  AS_Create :: "(Agent, 'h) creation"
  AS_GetByID :: "uuid \<Rightarrow> (Agent option, 'h) query"
  AS_FindIdle :: "(Agent option, 'h) query"
  AS_Allocate :: "uuid \<Rightarrow> uuid \<Rightarrow> uuid \<Rightarrow> 'h exec"
  AS_Release :: "uuid \<Rightarrow> 'h exec"
  AS_UpdateStatus :: "uuid \<Rightarrow> AgentStatus \<Rightarrow> 'h exec"
  AS_ListByDevice :: "uuid \<Rightarrow> (Agent list, 'h) query"
  AS_ListAll :: "(Agent, 'h) paging"
  AS_ListByUser :: "uuid \<Rightarrow> (Agent list, 'h) query"
  AS_IdleCount :: "(nat, 'h) query"
  AS_CountByDevice :: "uuid \<Rightarrow> (nat, 'h) query"
  AS_Delete :: "uuid \<Rightarrow> 'h exec"

record 'h JobStoreInterface =
  JS_Create :: "(Job, 'h) creation"
  JS_GetByID :: "uuid \<Rightarrow> (Job option, 'h) query"
  JS_UpdateStatus :: "uuid \<Rightarrow> JobStatus \<Rightarrow> 'h exec"
  JS_UpdateProgress :: "uuid \<Rightarrow> int \<Rightarrow> string \<Rightarrow> JobStatus \<Rightarrow> 'h exec"
  JS_UpdateResult :: "uuid \<Rightarrow> JobStatus \<Rightarrow> string option \<Rightarrow> 'h exec"
  JS_SetAgent :: "uuid \<Rightarrow> uuid \<Rightarrow> uuid \<Rightarrow> 'h exec"
  JS_ClearAgent :: "uuid \<Rightarrow> 'h exec"
  JS_Cancel :: "uuid \<Rightarrow> uuid \<Rightarrow> 'h exec"
  JS_DequeueNext :: "(Job option, 'h) query"
  JS_ExpireQueued :: "'h exec"
  JS_ExpireDispatched :: "duration \<Rightarrow> 'h exec"
  JS_CountQueuedByUser :: "uuid \<Rightarrow> (nat, 'h) query"
  JS_GetQueuePosition :: "uuid \<Rightarrow> (nat, 'h) query"
  JS_ListByUser :: "uuid \<Rightarrow> (Job, 'h) paging"
  JS_ListByAgent :: "uuid \<Rightarrow> (Job list, 'h) query"

record 'h FileStoreInterface =
  FS_Create :: "(File, 'h) creation"
  FS_GetByID :: "uuid \<Rightarrow> (File option, 'h) query"
  FS_UpdateStatus :: "uuid \<Rightarrow> FileStatus \<Rightarrow> 'h exec"
  FS_MarkPurged :: "uuid \<Rightarrow> 'h exec"
  FS_UpdateSHA256 :: "uuid \<Rightarrow> string \<Rightarrow> 'h exec"
  FS_ListByUser :: "uuid \<Rightarrow> (File, 'h) paging"
  FS_ListStagedCloud :: "time \<Rightarrow> (File list, 'h) query"
  FS_LinkToJob :: "uuid \<Rightarrow> uuid \<Rightarrow> string \<Rightarrow> 'h exec"
  FS_ListByJob :: "uuid \<Rightarrow> (File list, 'h) query"
  FS_ListByJobAndRole :: "uuid \<Rightarrow> string \<Rightarrow> (File list, 'h) query"

record 'h SkillStoreInterface =
  SS_CreateSkill :: "(Skill, 'h) creation"
  SS_GetSkill :: "uuid \<Rightarrow> (Skill option, 'h) query"
  SS_ListSkills :: "(Skill, 'h) paging"
  SS_UpdateSkill :: "Skill \<Rightarrow> 'h exec"
  SS_SetLatestVersion :: "uuid \<Rightarrow> string \<Rightarrow> 'h exec"
  SS_UpdateVisibility :: "uuid \<Rightarrow> SkillVisibility \<Rightarrow> 'h exec"
  SS_DeleteSkill :: "uuid \<Rightarrow> 'h exec"
  SS_CreateVersion :: "(SkillVersion, 'h) creation"
  SS_GetVersion :: "uuid \<Rightarrow> (SkillVersion option, 'h) query"
  SS_GetLatestVersion :: "uuid \<Rightarrow> (SkillVersion option, 'h) query"
  SS_GetVersionByTag :: "uuid \<Rightarrow> string \<Rightarrow> (SkillVersion option, 'h) query"
  SS_SetDeviceSkill :: "DeviceSkill \<Rightarrow> 'h exec"
  SS_UpdateDeviceSkillStatus :: "uuid \<Rightarrow> uuid \<Rightarrow> SkillInstallStatus \<Rightarrow> 'h exec"
  SS_GetDeviceSkills :: "uuid \<Rightarrow> (DeviceSkill list, 'h) query"
  SS_DeleteDeviceSkill :: "uuid \<Rightarrow> uuid \<Rightarrow> 'h exec"
  SS_IsSkillInstalledOnDevice :: "uuid \<Rightarrow> uuid \<Rightarrow> (bool, 'h) query"
  SS_SetAgentSkill :: "AgentSkill \<Rightarrow> 'h exec"
  SS_GetAgentSkills :: "uuid \<Rightarrow> (AgentSkill list, 'h) query"
  SS_DeleteAgentSkill :: "uuid \<Rightarrow> uuid \<Rightarrow> 'h exec"
  SS_CreateGrant :: "SkillGrant \<Rightarrow> 'h exec"
  SS_DeleteGrant :: "uuid \<Rightarrow> PrincipalType \<Rightarrow> uuid \<Rightarrow> 'h exec"
  SS_ListGrants :: "uuid \<Rightarrow> (SkillGrant list, 'h) query"
  SS_IsSkillVisibleToUser :: "uuid \<Rightarrow> uuid \<Rightarrow> uuid option \<Rightarrow> (bool, 'h) query"
  SS_ListVisibleSkills :: "uuid \<Rightarrow> uuid option \<Rightarrow> (Skill list, 'h) query"
  SS_GetDeviceSkillsForSkill :: "uuid \<Rightarrow> (DeviceSkill list, 'h) query"
  SS_GetAgentSkillsForSkill :: "uuid \<Rightarrow> (SkillRolloutAgentEntry list, 'h) query"

record 'h OrgStoreInterface =
  OS_Create :: "(Organization, 'h) creation"
  OS_GetByID :: "uuid \<Rightarrow> (Organization option, 'h) query"
  OS_List :: "(Organization, 'h) paging"
  OS_Update :: "Organization \<Rightarrow> 'h exec"
  OS_Delete :: "uuid \<Rightarrow> 'h exec"
  OS_AddMember :: "uuid \<Rightarrow> uuid \<Rightarrow> 'h exec"
  OS_RemoveMember :: "uuid \<Rightarrow> 'h exec"
  OS_ListMembers :: "uuid \<Rightarrow> (User list, 'h) query"

record 'h TokenStoreInterface =
  TS_Create :: "(RefreshToken, 'h) creation"
  TS_GetByHash :: "string \<Rightarrow> (RefreshToken option, 'h) query"
  TS_Revoke :: "uuid \<Rightarrow> 'h exec"
  TS_RevokeFamily :: "string \<Rightarrow> 'h exec"
  TS_RevokeAllForUser :: "uuid \<Rightarrow> 'h exec"
  TS_DeleteExpired :: "(nat, 'h) query"

section \<open>The stores over the database\<close>

definition UserStore_db :: "'a web UserStoreInterface" where
  "UserStore_db = \<lparr>US_Create = U_Create, US_GetByID = U_GetByID, US_GetByEmail = U_GetByEmail, US_Update = U_Update,
     US_UpdateTier = U_UpdateTier, US_List = U_List\<rparr>"

definition DeviceStore_db :: "'a web DeviceStoreInterface" where
  "DeviceStore_db = \<lparr>DS_Create = D_Create, DS_GetByID = D_GetByID, DS_GetByTokenHash = D_GetByTokenHash, DS_Update = D_Update,
     DS_UpdateToken = D_UpdateToken, DS_UpdateStatus = D_UpdateStatus, DS_List = D_List, DS_ListAll = D_ListAll,
     DS_Delete = D_Delete, DS_GetEnrolledDevice = D_GetEnrolledDevice\<rparr>"

definition AgentStore_db :: "'a web AgentStoreInterface" where
  "AgentStore_db = \<lparr>AS_Create = A_Create, AS_GetByID = A_GetByID, AS_FindIdle = A_FindIdle, AS_Allocate = A_Allocate,
     AS_Release = A_Release, AS_UpdateStatus = A_UpdateStatus, AS_ListByDevice = A_ListByDevice, AS_ListAll = A_ListAll,
     AS_ListByUser = A_ListByUser, AS_IdleCount = A_IdleCount, AS_CountByDevice = A_CountByDevice, AS_Delete = A_Delete\<rparr>"

definition JobStore_db :: "'a web JobStoreInterface" where
  "JobStore_db = \<lparr>JS_Create = J_Create, JS_GetByID = J_GetByID, JS_UpdateStatus = J_UpdateStatus,
     JS_UpdateProgress = J_UpdateProgress, JS_UpdateResult = J_UpdateResult, JS_SetAgent = J_SetAgent,
     JS_ClearAgent = J_ClearAgent, JS_Cancel = J_Cancel, JS_DequeueNext = J_DequeueNext, JS_ExpireQueued = J_ExpireQueued,
     JS_ExpireDispatched = J_ExpireDispatched, JS_CountQueuedByUser = J_CountQueuedByUser,
     JS_GetQueuePosition = J_GetQueuePosition, JS_ListByUser = J_ListByUser, JS_ListByAgent = J_ListByAgent\<rparr>"

definition FileStore_db :: "'a web FileStoreInterface" where
  "FileStore_db = \<lparr>FS_Create = F_Create, FS_GetByID = F_GetByID, FS_UpdateStatus = F_UpdateStatus, FS_MarkPurged = F_MarkPurged,
     FS_UpdateSHA256 = F_UpdateSHA256, FS_ListByUser = F_ListByUser, FS_ListStagedCloud = F_ListStagedCloud,
     FS_LinkToJob = F_LinkToJob, FS_ListByJob = F_ListByJob, FS_ListByJobAndRole = F_ListByJobAndRole\<rparr>"

definition SkillStore_db :: "'a web SkillStoreInterface" where
  "SkillStore_db = \<lparr>SS_CreateSkill = S_CreateSkill, SS_GetSkill = S_GetSkill, SS_ListSkills = S_ListSkills,
     SS_UpdateSkill = S_UpdateSkill, SS_SetLatestVersion = S_SetLatestVersion, SS_UpdateVisibility = S_UpdateVisibility,
     SS_DeleteSkill = S_DeleteSkill, SS_CreateVersion = S_CreateVersion, SS_GetVersion = S_GetVersion,
     SS_GetLatestVersion = S_GetLatestVersion, SS_GetVersionByTag = S_GetVersionByTag, SS_SetDeviceSkill = S_SetDeviceSkill,
     SS_UpdateDeviceSkillStatus = S_UpdateDeviceSkillStatus, SS_GetDeviceSkills = S_GetDeviceSkills,
     SS_DeleteDeviceSkill = S_DeleteDeviceSkill, SS_IsSkillInstalledOnDevice = S_IsSkillInstalledOnDevice,
     SS_SetAgentSkill = S_SetAgentSkill, SS_GetAgentSkills = S_GetAgentSkills, SS_DeleteAgentSkill = S_DeleteAgentSkill,
     SS_CreateGrant = S_CreateGrant, SS_DeleteGrant = S_DeleteGrant, SS_ListGrants = S_ListGrants,
     SS_IsSkillVisibleToUser = S_IsSkillVisibleToUser, SS_ListVisibleSkills = S_ListVisibleSkills,
     SS_GetDeviceSkillsForSkill = S_GetDeviceSkillsForSkill, SS_GetAgentSkillsForSkill = S_GetAgentSkillsForSkill\<rparr>"

definition OrgStore_db :: "'a web OrgStoreInterface" where
  "OrgStore_db = \<lparr>OS_Create = O_Create, OS_GetByID = O_GetByID, OS_List = O_List, OS_Update = O_Update, OS_Delete = O_Delete,
     OS_AddMember = O_AddMember, OS_RemoveMember = O_RemoveMember, OS_ListMembers = O_ListMembers\<rparr>"

definition TokenStore_db :: "'a web TokenStoreInterface" where
  "TokenStore_db = \<lparr>TS_Create = T_Create, TS_GetByHash = T_GetByHash, TS_Revoke = T_Revoke, TS_RevokeFamily = T_RevokeFamily,
     TS_RevokeAllForUser = T_RevokeAllForUser, TS_DeleteExpired = T_DeleteExpired\<rparr>"

section \<open>The stores in memory\<close>

record Mocks = env +
  mk_users :: "(uuid, User) gomap"
  mk_jobs :: "(uuid, Job) gomap"
  mk_agents :: "(uuid, Agent) gomap"
  mk_files :: "(uuid, File) gomap"

text \<open>A change to the record a pointer of the map leads to, if there is one.\<close>

definition change :: "'k \<Rightarrow> ('v \<Rightarrow> 'v) \<Rightarrow> ('k, 'v) gomap \<Rightarrow> ('k, 'v) gomap" where
  "change i f m = (case map_of m i of None \<Rightarrow> m | Some v \<Rightarrow> AList.update i (f v) m)"

abbreviation nothing :: "'h exec" where "nothing h \<equiv> (None, h)"

abbreviation answer :: "'r \<Rightarrow> ('r, 'h) query" where "answer x h \<equiv> (Inr x, h)"

definition MU_Create :: "(User, 'a Mocks_scheme) creation" where
  "MU_Create u0 m0 = (let (i, m) = NewUUID m0; now = wall_clock m;
      u = u0\<lparr>u_id := i, u_created_at := now, u_updated_at := now,
        u_status := (if u_status u0 = UserStatusOther '''' then UserActive else u_status u0)\<rparr>
    in (None, u, m\<lparr>mk_users := AList.update i u (mk_users m)\<rparr>))"

definition MU_Update :: "User \<Rightarrow> 'a Mocks_scheme exec" where
  "MU_Update u m = (None, m\<lparr>mk_users := AList.update (u_id u) (u\<lparr>u_updated_at := wall_clock m\<rparr>) (mk_users m)\<rparr>)"

definition MU_UpdateTier :: "uuid \<Rightarrow> UserTier \<Rightarrow> 'a Mocks_scheme exec" where
  "MU_UpdateTier i tier m =
     (None, m\<lparr>mk_users := change i (\<lambda>u. u\<lparr>u_tier := tier, u_updated_at := wall_clock m\<rparr>) (mk_users m)\<rparr>)"

definition MU_GetByEmail :: "string \<Rightarrow> (User option, 'a Mocks_scheme) query" where
  "MU_GetByEmail email m = (Inr (find (\<lambda>u. u_email u = email) (map snd (mk_users m))), m)"

definition MockUserStore :: "'a Mocks_scheme UserStoreInterface" where
  "MockUserStore = \<lparr>US_Create = MU_Create, US_GetByID = (\<lambda>i m. (Inr (map_of (mk_users m) i), m)), US_GetByEmail = MU_GetByEmail,
     US_Update = MU_Update, US_UpdateTier = MU_UpdateTier, US_List = (\<lambda>_ _ m. (Inr (map snd (mk_users m), None), m))\<rparr>"

definition change_job :: "uuid \<Rightarrow> (Job \<Rightarrow> Job) \<Rightarrow> 'a Mocks_scheme exec" where
  "change_job i f m = (None, m\<lparr>mk_jobs := change i f (mk_jobs m)\<rparr>)"

definition MJ_Create :: "(Job, 'a Mocks_scheme) creation" where
  "MJ_Create j0 m0 = (let (i, m) = NewUUID m0; now = wall_clock m;
      j = j0\<lparr>j_id := i, j_created_at := now, j_updated_at := now, j_submitted_at := now\<rparr>
    in (None, j, m\<lparr>mk_jobs := AList.update i j (mk_jobs m)\<rparr>))"

definition MJ_GetByID :: "uuid \<Rightarrow> (Job option, 'a Mocks_scheme) query" where
  "MJ_GetByID i m = (Inr (map_of (mk_jobs m) i), m)"

definition MJ_UpdateStatus :: "uuid \<Rightarrow> JobStatus \<Rightarrow> 'a Mocks_scheme exec" where
  "MJ_UpdateStatus i status m = change_job i (\<lambda>j. j\<lparr>j_status := status, j_updated_at := wall_clock m\<rparr>) m"

definition MJ_UpdateProgress :: "uuid \<Rightarrow> int \<Rightarrow> string \<Rightarrow> JobStatus \<Rightarrow> 'a Mocks_scheme exec" where
  "MJ_UpdateProgress i percent msg status m =
     change_job i (\<lambda>j. j\<lparr>j_percent := Some percent, j_progress_message := Some msg, j_updated_at := wall_clock m\<rparr>) m"

definition MJ_UpdateResult :: "uuid \<Rightarrow> JobStatus \<Rightarrow> string option \<Rightarrow> 'a Mocks_scheme exec" where
  "MJ_UpdateResult i status result m = change_job i (\<lambda>j. j\<lparr>j_status := status, j_result := result,
     j_finished_at := Some (wall_clock m), j_updated_at := wall_clock m\<rparr>) m"

definition MJ_SetAgent :: "uuid \<Rightarrow> uuid \<Rightarrow> uuid \<Rightarrow> 'a Mocks_scheme exec" where
  "MJ_SetAgent i agentID deviceID m = change_job i (\<lambda>j. j\<lparr>j_agent_id := Some agentID, j_device_id := Some deviceID,
     j_status := JobDispatched, j_updated_at := wall_clock m\<rparr>) m"

definition MJ_ClearAgent :: "uuid \<Rightarrow> 'a Mocks_scheme exec" where
  "MJ_ClearAgent i = change_job i (\<lambda>j. j\<lparr>j_agent_id := None, j_device_id := None\<rparr>)"

definition MJ_Cancel :: "uuid \<Rightarrow> uuid \<Rightarrow> 'a Mocks_scheme exec" where
  "MJ_Cancel i userID m = change_job i (\<lambda>j. if j_user_id j \<noteq> userID \<or> IsTerminal (j_status j) then j
     else j\<lparr>j_status := JobCancelled, j_finished_at := Some (wall_clock m), j_updated_at := wall_clock m\<rparr>) m"

definition MJ_ListByUser :: "uuid \<Rightarrow> (Job, 'a Mocks_scheme) paging" where
  "MJ_ListByUser userID cursor limit m = (Inr (filter (\<lambda>j. j_user_id j = userID) (map snd (mk_jobs m)), None), m)"

definition MJ_ListByAgent :: "uuid \<Rightarrow> (Job list, 'a Mocks_scheme) query" where
  "MJ_ListByAgent agentID m = (Inr (filter (\<lambda>j. j_agent_id j = Some agentID) (map snd (mk_jobs m))), m)"

definition MockJobStore :: "'a Mocks_scheme JobStoreInterface" where
  "MockJobStore = \<lparr>JS_Create = MJ_Create, JS_GetByID = MJ_GetByID, JS_UpdateStatus = MJ_UpdateStatus,
     JS_UpdateProgress = MJ_UpdateProgress, JS_UpdateResult = MJ_UpdateResult, JS_SetAgent = MJ_SetAgent,
     JS_ClearAgent = MJ_ClearAgent, JS_Cancel = MJ_Cancel, JS_DequeueNext = answer None, JS_ExpireQueued = nothing,
     JS_ExpireDispatched = (\<lambda>_. nothing), JS_CountQueuedByUser = (\<lambda>_. answer 0), JS_GetQueuePosition = (\<lambda>_. answer 1),
     JS_ListByUser = MJ_ListByUser, JS_ListByAgent = MJ_ListByAgent\<rparr>"

definition MA_Create :: "(Agent, 'a Mocks_scheme) creation" where
  "MA_Create a0 m0 = (let (i, m) = NewUUID m0; now = wall_clock m;
      a = a0\<lparr>a_id := i, a_created_at := now, a_updated_at := now,
        a_limits := (case a_limits a0 of None \<Rightarrow> Some \<lparr>lim_cpu = 2, lim_mem_mb = 4096, lim_disk_mb = 10240\<rparr> | l \<Rightarrow> l)\<rparr>
    in (None, a, m\<lparr>mk_agents := AList.update i a (mk_agents m)\<rparr>))"

definition change_agent :: "uuid \<Rightarrow> (Agent \<Rightarrow> Agent) \<Rightarrow> 'a Mocks_scheme exec" where
  "change_agent i f m = (None, m\<lparr>mk_agents := change i f (mk_agents m)\<rparr>)"

definition MA_GetByID :: "uuid \<Rightarrow> (Agent option, 'a Mocks_scheme) query" where
  "MA_GetByID i m = (Inr (map_of (mk_agents m) i), m)"

definition MA_FindIdle :: "(Agent option, 'a Mocks_scheme) query" where
  "MA_FindIdle m = (Inr (find (\<lambda>a. a_status a = AgentIdle \<and> a_user_id a = None) (map snd (mk_agents m))), m)"

definition MA_Allocate :: "uuid \<Rightarrow> uuid \<Rightarrow> uuid \<Rightarrow> 'a Mocks_scheme exec" where
  "MA_Allocate i userID jobID m = change_agent i (\<lambda>a. a\<lparr>a_status := AgentBusy, a_user_id := Some userID,
     a_job_id := Some jobID, a_allocated_at := Some (wall_clock m), a_updated_at := wall_clock m\<rparr>) m"

definition MA_Release :: "uuid \<Rightarrow> 'a Mocks_scheme exec" where
  "MA_Release i m = change_agent i (\<lambda>a. a\<lparr>a_status := AgentIdle, a_user_id := None, a_job_id := None,
     a_allocated_at := None, a_updated_at := wall_clock m\<rparr>) m"

definition MA_UpdateStatus :: "uuid \<Rightarrow> AgentStatus \<Rightarrow> 'a Mocks_scheme exec" where
  "MA_UpdateStatus i status m = change_agent i (\<lambda>a. a\<lparr>a_status := status, a_updated_at := wall_clock m\<rparr>) m"

definition MA_ListByUser :: "uuid \<Rightarrow> (Agent list, 'a Mocks_scheme) query" where
  "MA_ListByUser userID m = (Inr (filter (\<lambda>a. a_user_id a = Some userID) (map snd (mk_agents m))), m)"

definition MA_IdleCount :: "(nat, 'a Mocks_scheme) query" where
  "MA_IdleCount m = (Inr (length (filter (\<lambda>a. a_status a = AgentIdle) (map snd (mk_agents m)))), m)"

definition MA_Delete :: "uuid \<Rightarrow> 'a Mocks_scheme exec" where
  "MA_Delete i m = (None, m\<lparr>mk_agents := AList.delete i (mk_agents m)\<rparr>)"

definition MockAgentStore :: "'a Mocks_scheme AgentStoreInterface" where
  "MockAgentStore = \<lparr>AS_Create = MA_Create, AS_GetByID = MA_GetByID, AS_FindIdle = MA_FindIdle, AS_Allocate = MA_Allocate,
     AS_Release = MA_Release, AS_UpdateStatus = MA_UpdateStatus, AS_ListByDevice = (\<lambda>_. answer []),
     AS_ListAll = (\<lambda>_ _ m. (Inr (map snd (mk_agents m), None), m)), AS_ListByUser = MA_ListByUser,
     AS_IdleCount = MA_IdleCount, AS_CountByDevice = (\<lambda>_. answer 0), AS_Delete = MA_Delete\<rparr>"

definition MF_Create :: "(File, 'a Mocks_scheme) creation" where
  "MF_Create f0 m0 = (let (i, m) = NewUUID m0; f = f0\<lparr>f_id := i, f_created_at := wall_clock m\<rparr>
    in (None, f, m\<lparr>mk_files := AList.update i f (mk_files m)\<rparr>))"

definition MockFileStore :: "'a Mocks_scheme FileStoreInterface" where
  "MockFileStore = \<lparr>FS_Create = MF_Create, FS_GetByID = (\<lambda>i m. (Inr (map_of (mk_files m) i), m)),
     FS_UpdateStatus = (\<lambda>_ _. nothing), FS_MarkPurged = (\<lambda>_. nothing), FS_UpdateSHA256 = (\<lambda>_ _. nothing),
     FS_ListByUser = (\<lambda>_ _ _. answer ([], None)), FS_ListStagedCloud = (\<lambda>_. answer []), FS_LinkToJob = (\<lambda>_ _ _. nothing),
     FS_ListByJob = (\<lambda>_. answer []), FS_ListByJobAndRole = (\<lambda>_ _. answer [])\<rparr>"

text \<open>The remaining stores keep nothing: a creation leaves the row of the caller as it is.\<close>

definition MockSkillStore :: "'h SkillStoreInterface" where
  "MockSkillStore = \<lparr>SS_CreateSkill = (\<lambda>sk h. (None, sk, h)), SS_GetSkill = (\<lambda>_. answer None),
     SS_ListSkills = (\<lambda>_ _. answer ([], None)), SS_UpdateSkill = (\<lambda>_. nothing), SS_SetLatestVersion = (\<lambda>_ _. nothing),
     SS_UpdateVisibility = (\<lambda>_ _. nothing), SS_DeleteSkill = (\<lambda>_. nothing), SS_CreateVersion = (\<lambda>v h. (None, v, h)),
     SS_GetVersion = (\<lambda>_. answer None), SS_GetLatestVersion = (\<lambda>_. answer None),
     SS_GetVersionByTag = (\<lambda>_ _. answer None), SS_SetDeviceSkill = (\<lambda>_. nothing),
     SS_UpdateDeviceSkillStatus = (\<lambda>_ _ _. nothing), SS_GetDeviceSkills = (\<lambda>_. answer []),
     SS_DeleteDeviceSkill = (\<lambda>_ _. nothing), SS_IsSkillInstalledOnDevice = (\<lambda>_ _. answer True),
     SS_SetAgentSkill = (\<lambda>_. nothing), SS_GetAgentSkills = (\<lambda>_. answer []), SS_DeleteAgentSkill = (\<lambda>_ _. nothing),
     SS_CreateGrant = (\<lambda>_. nothing), SS_DeleteGrant = (\<lambda>_ _ _. nothing), SS_ListGrants = (\<lambda>_. answer []),
     SS_IsSkillVisibleToUser = (\<lambda>_ _ _. answer True), SS_ListVisibleSkills = (\<lambda>_ _. answer []),
     SS_GetDeviceSkillsForSkill = (\<lambda>_. answer []), SS_GetAgentSkillsForSkill = (\<lambda>_. answer [])\<rparr>"

definition MockTokenStore :: "'h TokenStoreInterface" where
  "MockTokenStore = \<lparr>TS_Create = (\<lambda>t h. (None, t, h)), TS_GetByHash = (\<lambda>_. answer None), TS_Revoke = (\<lambda>_. nothing),
     TS_RevokeFamily = (\<lambda>_. nothing), TS_RevokeAllForUser = (\<lambda>_. nothing), TS_DeleteExpired = answer 0\<rparr>"

definition MockOrgStore :: "'h OrgStoreInterface" where
  "MockOrgStore = \<lparr>OS_Create = (\<lambda>org h. (None, org, h)), OS_GetByID = (\<lambda>_. answer None), OS_List = (\<lambda>_ _. answer ([], None)),
     OS_Update = (\<lambda>_. nothing), OS_Delete = (\<lambda>_. nothing), OS_AddMember = (\<lambda>_ _. nothing), OS_RemoveMember = (\<lambda>_. nothing),
     OS_ListMembers = (\<lambda>_. answer [])\<rparr>"

definition MockDeviceStore :: "'h DeviceStoreInterface" where
  "MockDeviceStore = \<lparr>DS_Create = (\<lambda>d h. (None, d, h)), DS_GetByID = (\<lambda>_. answer None),
     DS_GetByTokenHash = (\<lambda>_ h. (Inl ErrNotFound, h)), DS_Update = (\<lambda>_. nothing), DS_UpdateToken = (\<lambda>_ _. nothing),
     DS_UpdateStatus = (\<lambda>_ _. nothing), DS_List = (\<lambda>_ _. answer ([], None)), DS_ListAll = answer [],
     DS_Delete = (\<lambda>_. nothing), DS_GetEnrolledDevice = (\<lambda>_. answer None)\<rparr>"

end
