(* ===== verification/MockProps.thy ===== *)
theory MockProps
  imports MockStore AuthProps
begin

text \<open>
  What the handler tests may conclude from the stores in memory. \<open>job_spec\<close> is what the two job stores have in common:
  a map from ids to the columns the gateway decides on. The locale \<open>job_store\<close> states that a store implements it; the
  tables and the mock both do, so a run of the same operations answers the same reads.
\<close>

record JobCore =
  jc_user :: uuid
  jc_agent :: "uuid option"
  jc_device :: "uuid option"
  jc_status :: JobStatus
  jc_result :: "string option"
  jc_command :: string

definition job_core :: "Job \<Rightarrow> JobCore" where
  "job_core j = \<lparr>jc_user = j_user_id j, jc_agent = j_agent_id j, jc_device = j_device_id j, jc_status = j_status j,
     jc_result = j_result j, jc_command = j_command j\<rparr>"

type_synonym job_map = "uuid \<Rightarrow> JobCore option"

datatype job_op = OpCreate Job | OpStatus uuid JobStatus | OpResult uuid JobStatus "string option"
  | OpSetAgent uuid uuid uuid | OpClearAgent uuid | OpCancel uuid uuid

definition modify :: "uuid \<Rightarrow> (JobCore \<Rightarrow> JobCore) \<Rightarrow> job_map \<Rightarrow> job_map" where
  "modify i f v = v(i := map_option f (v i))"

text \<open>The specification: \<open>n\<close> is the id the next creation draws.\<close>

fun job_spec :: "uuid \<Rightarrow> job_op \<Rightarrow> job_map \<Rightarrow> job_map" where
  "job_spec n (OpCreate j) v = v(n \<mapsto> job_core j)"
| "job_spec n (OpStatus i s) v = modify i (\<lambda>c. c\<lparr>jc_status := s\<rparr>) v"
| "job_spec n (OpResult i s r) v = modify i (\<lambda>c. c\<lparr>jc_status := s, jc_result := r\<rparr>) v"
| "job_spec n (OpSetAgent i a d) v =
     modify i (\<lambda>c. c\<lparr>jc_agent := Some a, jc_device := Some d, jc_status := JobDispatched\<rparr>) v"
| "job_spec n (OpClearAgent i) v = modify i (\<lambda>c. c\<lparr>jc_agent := None, jc_device := None\<rparr>) v"
| "job_spec n (OpCancel i u) v =
     modify i (\<lambda>c. if jc_user c = u \<and> \<not> IsTerminal (jc_status c) then c\<lparr>jc_status := JobCancelled\<rparr> else c) v"

fun run_op :: "'h JobStoreInterface \<Rightarrow> job_op \<Rightarrow> 'h \<Rightarrow> 'h" where
  "run_op S (OpCreate j) h = snd (snd (JS_Create S j h))"
| "run_op S (OpStatus i s) h = snd (JS_UpdateStatus S i s h)"
| "run_op S (OpResult i s r) h = snd (JS_UpdateResult S i s r h)"
| "run_op S (OpSetAgent i a d) h = snd (JS_SetAgent S i a d h)"
| "run_op S (OpClearAgent i) h = snd (JS_ClearAgent S i h)"
| "run_op S (OpCancel i u) h = snd (JS_Cancel S i u h)"

fun draws :: "job_op \<Rightarrow> bool" where
  "draws (OpCreate j) = True"
| "draws _ = False"

fun run_ops :: "'h JobStoreInterface \<Rightarrow> job_op list \<Rightarrow> 'h \<Rightarrow> 'h" where
  "run_ops S [] h = h"
| "run_ops S (op # ops) h = run_ops S ops (run_op S op h)"

fun spec_ops :: "(nat \<Rightarrow> uuid) \<Rightarrow> nat \<Rightarrow> job_op list \<Rightarrow> job_map \<Rightarrow> job_map" where
  "spec_ops draw n [] v = v"
| "spec_ops draw n (op # ops) v = spec_ops draw (if draws op then Suc n else n) ops (job_spec (draw n) op v)"

fun all_legal :: "('h \<Rightarrow> job_op \<Rightarrow> bool) \<Rightarrow> 'h JobStoreInterface \<Rightarrow> job_op list \<Rightarrow> 'h \<Rightarrow> bool" where
  "all_legal legal S [] h = True"
| "all_legal legal S (op # ops) h = (legal h op \<and> all_legal legal S ops (run_op S op h))"

section \<open>The contract\<close>

locale job_store =
  fixes S :: "'a env_scheme JobStoreInterface"
    and view :: "'a env_scheme \<Rightarrow> job_map"
    and legal :: "'a env_scheme \<Rightarrow> job_op \<Rightarrow> bool"
    and sane :: "'a env_scheme \<Rightarrow> bool"
  assumes step: "sane h \<Longrightarrow> legal h op \<Longrightarrow> view (run_op S op h) = job_spec (uuid_seq h (uuid_pos h)) op (view h)"
    and sane: "sane h \<Longrightarrow> legal h op \<Longrightarrow> sane (run_op S op h)"
    and drawn: "sane h \<Longrightarrow> legal h op \<Longrightarrow> uuid_seq (run_op S op h) = uuid_seq h \<and>
      uuid_pos (run_op S op h) = (if draws op then Suc (uuid_pos h) else uuid_pos h)"
    and get: "sane h \<Longrightarrow> \<exists>r h'. JS_GetByID S i h = (Inr r, h') \<and> map_option job_core r = view h i"
begin

lemma run_sane: "sane h \<Longrightarrow> all_legal legal S ops h \<Longrightarrow> sane (run_ops S ops h)"
  by (induction ops arbitrary: h) (auto intro: sane)

lemma run_spec:
  "sane h \<Longrightarrow> all_legal legal S ops h \<Longrightarrow>
   view (run_ops S ops h) = spec_ops (uuid_seq h) (uuid_pos h) ops (view h)"
  by (induction ops arbitrary: h) (simp_all add: step sane drawn)

lemma run_reads:
  "sane h \<Longrightarrow> all_legal legal S ops h \<Longrightarrow>
   \<exists>r h'. JS_GetByID S i (run_ops S ops h) = (Inr r, h') \<and>
     map_option job_core r = spec_ops (uuid_seq h) (uuid_pos h) ops (view h) i"
  using get [OF run_sane] run_spec by fastforce

end

section \<open>The tables\<close>

definition table_view :: "'a web \<Rightarrow> job_map" where
  "table_view g i = map_option job_core (find (\<lambda>j. j_id j = i) (jobs_tab g))"

lemma table_view_abs: "table_view g = (\<lambda>i. map_option job_core (find (\<lambda>j. j_id j = i) (jobs_tab g)))"
  by (rule ext) (rule table_view_def)

text \<open>What PostgreSQL needs to carry out an operation: a fresh id and rows for its references. No result comes
  with a new job.\<close>

fun table_legal :: "'a web \<Rightarrow> job_op \<Rightarrow> bool" where
  "table_legal g (OpCreate j) = (j_result j = None \<and> \<not> has_job (uuid_seq g (uuid_pos g)) g \<and>
     (\<forall>a. j_agent_id j = Some a \<longrightarrow> has_agent a g) \<and> (\<forall>d. j_device_id j = Some d \<longrightarrow> has_device d g))"
| "table_legal g (OpSetAgent i a d) = (has_agent a g \<and> has_device d g)"
| "table_legal g _ = True"

definition healthy :: "'a web \<Rightarrow> bool" where
  "healthy g \<longleftrightarrow> faults g = []"

lemma find_append: "find P (xs @ ys) = (case find P xs of None \<Rightarrow> find P ys | x \<Rightarrow> x)"
  by (induction xs) auto

lemma table_update:
  assumes "\<And>j. j_id (f j) = j_id j" "\<And>j. job_core (f j) = c (job_core j)"
  shows "table_view (g\<lparr>jobs_tab := sql_update (\<lambda>j. j_id j = i) f (jobs_tab g)\<rparr>) = modify i c (table_view g)"
proof
  fix k show "table_view (g\<lparr>jobs_tab := sql_update (\<lambda>j. j_id j = i) f (jobs_tab g)\<rparr>) k = modify i c (table_view g) k"
    using assms by (cases "find (\<lambda>j. j_id j = k) (jobs_tab g)") (auto simp: table_view_def find_key_update modify_def dest: find_key_Some)
qed

lemma table_cancel:
  "map_option job_core (find (\<lambda>j. j_id j = k) (sql_update (\<lambda>j. j_id j = i \<and> j_user_id j = u \<and> \<not> IsTerminal (j_status j))
       (\<lambda>j. j\<lparr>j_status := JobCancelled, j_finished_at := f, j_updated_at := t\<rparr>) rows)) =
   job_spec n (OpCancel i u) (\<lambda>k. map_option job_core (find (\<lambda>j. j_id j = k) rows)) k"
  by (cases "find (\<lambda>j. j_id j = k) rows") (auto simp: find_key_update modify_def job_core_def dest: find_key_Some)

lemma table_step:
  assumes "healthy g" "table_legal g op"
  shows "table_view (run_op JobStore_db op g) = job_spec (uuid_seq g (uuid_pos g)) op (table_view g)"
proof (cases op)
  case (OpCreate j)
  moreover have "find (\<lambda>r. j_id r = uuid_seq g (uuid_pos g)) (jobs_tab g) = None"
    using assms OpCreate by (auto simp: has_job_def find_None_iff) (metis image_eqI)
  ultimately show ?thesis using assms
    by (auto simp: fun_eq_iff table_view_def JobStore_db_def J_Create_def NewUUID_def db_exec_def healthy_def has_job_def
      find_append job_core_def has_agent_def has_device_def Let_def split: option.splits)
next
  case (OpCancel i u)
  then show ?thesis using assms
    by (simp add: table_view_abs JobStore_db_def J_Cancel_def db_exec_def healthy_def Let_def
      table_cancel [where n = "uuid_seq g (uuid_pos g)"] del: job_spec.simps)
qed (use assms in \<open>auto simp: JobStore_db_def db_exec_def healthy_def job_core_def Let_def
  J_UpdateStatus_def J_UpdateResult_def J_SetAgent_def J_ClearAgent_def intro!: table_update\<close>)

lemma table_sane:
  assumes "healthy g" "table_legal g op"
  shows "healthy (run_op JobStore_db op g) \<and> uuid_seq (run_op JobStore_db op g) = uuid_seq g \<and>
    uuid_pos (run_op JobStore_db op g) = (if draws op then Suc (uuid_pos g) else uuid_pos g)"
  using assms
  by (cases op) (auto simp: healthy_def JobStore_db_def db_exec_def Let_def NewUUID_def J_Create_def
    J_UpdateStatus_def J_UpdateResult_def J_SetAgent_def J_ClearAgent_def J_Cancel_def)

interpretation tables_jobs: job_store JobStore_db table_view table_legal healthy
proof
  show "\<exists>r h'. JS_GetByID JobStore_db i h = (Inr r, h') \<and> map_option job_core r = table_view h i"
    if "healthy h" for h :: "'a web" and i
    using that by (simp add: healthy_def JobStore_db_def J_GetByID_def db_query_def table_view_def)
qed (use table_step table_sane in blast)+

section \<open>The mock\<close>

definition mock_view :: "'a Mocks_scheme \<Rightarrow> job_map" where
  "mock_view m i = map_option job_core (map_of (mk_jobs m) i)"

fun mock_legal :: "'a Mocks_scheme \<Rightarrow> job_op \<Rightarrow> bool" where
  "mock_legal m (OpCreate j) = (j_result j = None)"
| "mock_legal m _ = True"

lemma map_of_change: "map_of (change i f m) k = (if k = i then map_option f (map_of m i) else map_of m k)"
  by (auto simp: change_def update_conv' split: option.splits)

lemma mock_change:
  assumes "\<And>j. job_core (f j) = c (job_core j)"
  shows "mock_view (m\<lparr>mk_jobs := change i f (mk_jobs m)\<rparr>) = modify i c (mock_view m)"
  using assms by (auto simp: fun_eq_iff mock_view_def map_of_change modify_def option.map_comp comp_def)

lemma mock_step: "mock_view (run_op MockJobStore op m) = job_spec (uuid_seq m (uuid_pos m)) op (mock_view m)"
  by (cases op) (auto simp: MockJobStore_def MJ_UpdateStatus_def MJ_UpdateResult_def MJ_SetAgent_def MJ_ClearAgent_def
    MJ_Cancel_def change_job_def job_core_def intro!: mock_change,
    auto simp: fun_eq_iff MJ_Create_def NewUUID_def Let_def mock_view_def update_conv' job_core_def)

lemma mock_drawn:
  "uuid_seq (run_op MockJobStore op m) = uuid_seq m \<and>
   uuid_pos (run_op MockJobStore op m) = (if draws op then Suc (uuid_pos m) else uuid_pos m)"
  by (cases op) (simp_all add: MockJobStore_def MJ_Create_def MJ_UpdateStatus_def MJ_UpdateResult_def MJ_SetAgent_def
    MJ_ClearAgent_def MJ_Cancel_def change_job_def NewUUID_def Let_def)

interpretation mock_jobs: job_store MockJobStore mock_view mock_legal "\<lambda>_. True"
proof
  show "\<exists>r h'. JS_GetByID MockJobStore i h = (Inr r, h') \<and> map_option job_core r = mock_view h i"
    for h :: "'a Mocks_scheme" and i
    by (simp add: MockJobStore_def MJ_GetByID_def mock_view_def)
qed (simp_all add: mock_step mock_drawn)

lemma table_legal_mock: "all_legal table_legal JobStore_db ops g \<Longrightarrow> all_legal mock_legal MockJobStore ops m"
proof (induction ops arbitrary: g m)
  case (Cons op ops)
  then show ?case by (cases op) auto
qed simp

section \<open>What the two stores answer\<close>


text \<open>
  \<open>UpdateProgress\<close> is where the stores part. The database writes the status of a progress
  report unless it is terminal; the mock keeps the status the job has.
\<close>

theorem mock_hides_progress:
  fixes g :: "'a web" and m :: "'b Mocks_scheme"
  assumes "faults g = []" "mock_view m = table_view g"
  shows "mock_view (snd (JS_UpdateProgress MockJobStore i p msg s m)) = table_view g \<and>
    table_view (snd (JS_UpdateProgress JobStore_db i p msg s g)) =
      modify i (\<lambda>c. if IsTerminal s then c else c\<lparr>jc_status := s\<rparr>) (table_view g)"
proof
  have "mock_view (snd (JS_UpdateProgress MockJobStore i p msg s m)) = modify i (\<lambda>c. c) (mock_view m)"
    by (auto simp: MockJobStore_def MJ_UpdateProgress_def change_job_def job_core_def intro!: mock_change)
  then show "mock_view (snd (JS_UpdateProgress MockJobStore i p msg s m)) = table_view g"
    using assms by (simp add: modify_def option.map_ident)
  show "table_view (snd (JS_UpdateProgress JobStore_db i p msg s g)) =
      modify i (\<lambda>c. if IsTerminal s then c else c\<lparr>jc_status := s\<rparr>) (table_view g)"
    using assms
    by (auto simp: JobStore_db_def db_exec_def J_UpdateProgress_def job_core_def Let_def intro!: table_update)
qed

text \<open>The store of a test that created one job through the handler, beside the database in the same state.\<close>

definition sample_mocks :: Mocks where
  "sample_mocks = \<lparr>wall_clock = 100 * hour, uuid_seq = of_nat, uuid_pos = 1,
     uuid_str = (\<lambda>u. replicate (unat u) (CHR ''u'')), mk_users = [], mk_jobs = [], mk_agents = [], mk_files = []\<rparr>"


theorem mock_hides_progress_witness:
  "mock_view (snd (JS_UpdateProgress MockJobStore 1 5 ''half'' JobRunning sample_mocks)) = table_view sample_web \<and>
   table_view (snd (JS_UpdateProgress JobStore_db 1 5 ''half'' JobRunning sample_web)) =
     modify 1 (\<lambda>c. if IsTerminal JobRunning then c else c\<lparr>jc_status := JobRunning\<rparr>) (table_view sample_web)"
  by (rule mock_hides_progress)
    (simp_all add: fun_eq_iff mock_view_def table_view_def sample_mocks_def sample_web_def)

end
