(* ===== verification/MockDevice.thy ===== *)
theory MockDevice
  imports Tunnel
begin

text \<open>
  The device of the end-to-end tests (\<open>mockdevice/mockdevice.go\<close>), the other end of the tunnel. A goroutine loop is
  one round, as in \<open>Tunnel\<close>. A behaviour is a function on the device, \<open>None\<close> meaning that it never returns; the map of
  behaviours is an argument, since \<open>On\<close> is the only operation on it. The channel \<open>trackPending\<close> makes for a message
  holds one element: the map keeps how many it holds, and a send to a full one blocks. Of the socket the model keeps
  whether it is there, the frames written and a script of write outcomes.
\<close>

section \<open>State\<close>

record DeviceConfig =
  mc_DeviceID :: uuid
  mc_DeviceToken :: string
  mc_GatewayURL :: string
  mc_AgentVersion :: string
  mc_Platform :: string
  mc_Resources :: HelloResources
  mc_Agents :: "HelloAgent list option"
  mc_Subprotocol :: string
  mc_VerboseLogging :: bool

record MockDevice = env +
  md_cfg :: DeviceConfig
  md_conn :: bool
  md_closed :: bool
  md_receivedFrames :: "Frame list"
  md_pendingAcks :: "(string, nat) gomap"
  md_done :: bool
  md_out :: "Frame list"
  md_wfail :: "bool list"
  md_panicked :: bool
  md_helloAckCh :: nat

type_synonym BehaviorFunc = "MockDevice \<Rightarrow> Frame \<Rightarrow> (Frame option \<times> MockDevice) option"

type_synonym behaviors = "(FrameType, BehaviorFunc) gomap"

definition or_default :: "string \<Rightarrow> string \<Rightarrow> string" where
  "or_default s d = (if s = '''' then d else s)"

definition md_New :: "DeviceConfig \<Rightarrow> MockDevice \<Rightarrow> MockDevice" where
  "md_New cfg d = d\<lparr>md_cfg := cfg\<lparr>mc_Subprotocol := or_default (mc_Subprotocol cfg) ''iagent.tunnel.v1'',
       mc_AgentVersion := or_default (mc_AgentVersion cfg) ''1.0.0'', mc_Platform := or_default (mc_Platform cfg) ''linux''\<rparr>,
     md_conn := False, md_closed := False, md_receivedFrames := [], md_pendingAcks := [], md_done := False,
     md_out := [], md_wfail := [], md_panicked := False, md_helloAckCh := 0\<rparr>"

definition md_On :: "FrameType \<Rightarrow> BehaviorFunc \<Rightarrow> behaviors \<Rightarrow> behaviors" where
  "md_On frameType fn = AList.update frameType fn"

definition md_Recv :: "MockDevice \<Rightarrow> Frame list" where
  "md_Recv d = md_receivedFrames d"

definition md_RecvByType :: "FrameType \<Rightarrow> MockDevice \<Rightarrow> Frame list" where
  "md_RecvByType ft d = filter (\<lambda>f. fr_type f = ft) (md_receivedFrames d)"

text \<open>The loop from the last index down.\<close>

fun latest_of :: "FrameType \<Rightarrow> Frame list \<Rightarrow> nat \<Rightarrow> Frame option" where
  "latest_of ft fs 0 = None"
| "latest_of ft fs (Suc i) = (if fr_type (fs ! i) = ft then Some (fs ! i) else latest_of ft fs i)"

definition md_RecvLatestOf :: "FrameType \<Rightarrow> MockDevice \<Rightarrow> Frame option" where
  "md_RecvLatestOf ft d = latest_of ft (md_receivedFrames d) (length (md_receivedFrames d))"

section \<open>Sending\<close>

text \<open>A write to a connection that is not there is a nil dereference.\<close>

definition md_write :: "Frame \<Rightarrow> MockDevice \<Rightarrow> err option \<times> MockDevice" where
  "md_write f d = (if md_closed d then (Some (EHandler ''mockdevice: closed''), d)
     else if \<not> md_conn d then (None, d\<lparr>md_panicked := True\<rparr>)
     else case md_wfail d of
       True # w \<Rightarrow> (Some (EHandler ''write failed''), d\<lparr>md_wfail := w\<rparr>)
     | False # w \<Rightarrow> (None, d\<lparr>md_wfail := w, md_out := md_out d @ [f]\<rparr>)
     | [] \<Rightarrow> (None, d\<lparr>md_out := md_out d @ [f]\<rparr>))"

definition trackPending :: "string \<Rightarrow> MockDevice \<Rightarrow> MockDevice" where
  "trackPending msgID d = d\<lparr>md_pendingAcks := AList.update msgID 0 (md_pendingAcks d)\<rparr>"

definition ackReceived :: "string \<Rightarrow> MockDevice \<Rightarrow> MockDevice option" where
  "ackReceived msgID d = (case map_of (md_pendingAcks d) msgID of
     None \<Rightarrow> Some d
   | Some n \<Rightarrow> if 1 \<le> n then None else Some (d\<lparr>md_pendingAcks := AList.delete msgID (md_pendingAcks d)\<rparr>))"

text \<open>A frame with a payload; \<open>marshalled\<close> is its text, \<open>None\<close> a value \<open>json.Marshal\<close> refuses.\<close>

definition md_frame :: "FrameType \<Rightarrow> string option \<Rightarrow> payload \<Rightarrow> MockDevice \<Rightarrow> Frame" where
  "md_frame t ackID p d = \<lparr>fr_version = FrameVersion, fr_type = t, fr_msg_id = uuid_str d (fst (NewUUID d)),
     fr_ack_id = ackID, fr_ts = unix_milli (wall_clock d), fr_payload = p\<rparr>"

definition sendFrame :: "FrameType \<Rightarrow> string option \<Rightarrow> MockDevice \<Rightarrow> err option \<times> MockDevice" where
  "sendFrame t marshalled d = (case marshalled of
     None \<Rightarrow> (Some EMarshal, d)
   | Some text \<Rightarrow>
       let f = md_frame t None (PRaw text) d in md_write f (trackPending (fr_msg_id f) (snd (NewUUID d))))"

abbreviation json_nil :: "string option" where "json_nil \<equiv> Some ''null''"

definition md_sendACK :: "string \<Rightarrow> MockDevice \<Rightarrow> err option \<times> MockDevice" where
  "md_sendACK msgID d = md_write (md_frame FrameAck (Some msgID) PNone d) (snd (NewUUID d))"

definition md_writeFrame :: "Frame \<Rightarrow> MockDevice \<Rightarrow> err option \<times> MockDevice" where
  "md_writeFrame f d = (if fr_payload f = PUnsupported then (Some EMarshal, d) else md_write f d)"

definition md_Send :: "FrameType \<Rightarrow> string option \<Rightarrow> MockDevice \<Rightarrow> err option \<times> MockDevice" where
  "md_Send = sendFrame"

text \<open>The helper of the behaviours: an error of \<open>json.Marshal\<close> leaves the payload empty.\<close>

definition md_NewFrame :: "FrameType \<Rightarrow> string option \<Rightarrow> MockDevice \<Rightarrow> Frame \<times> MockDevice" where
  "md_NewFrame t marshalled d =
     (md_frame t None (case marshalled of None \<Rightarrow> PNone | Some text \<Rightarrow> PRaw text) d, snd (NewUUID d))"

definition sendHello :: "(HelloPayload \<Rightarrow> string) \<Rightarrow> MockDevice \<Rightarrow> err option \<times> MockDevice" where
  "sendHello mHello d = (let c = md_cfg d; agents = (case mc_Agents c of None \<Rightarrow> [] | Some as \<Rightarrow> as) in
     sendFrame FrameHello (Some (mHello \<lparr>hello_device_id = mc_DeviceID c, hello_agent_version = mc_AgentVersion c,
       hello_platform = mc_Platform c, hello_agent_count = int (length agents), hello_agents = agents,
       hello_capabilities = [], hello_resources = mc_Resources c\<rparr>)) d)"

definition md_Close :: "MockDevice \<Rightarrow> MockDevice" where
  "md_Close d = (if md_closed d then d else d\<lparr>md_closed := True, md_done := True\<rparr>)"

section \<open>Receiving\<close>

definition dispatch :: "behaviors \<Rightarrow> Frame \<Rightarrow> MockDevice \<Rightarrow> MockDevice option" where
  "dispatch H f d = (case map_of H (fr_type f) of
     None \<Rightarrow> Some d
   | Some fn \<Rightarrow> (case fn d f of
       None \<Rightarrow> None
     | Some (None, d1) \<Rightarrow> Some d1
     | Some (Some resp, d1) \<Rightarrow> Some (snd (md_writeFrame resp d1))))"

definition md_handleFrame :: "behaviors \<Rightarrow> Frame \<Rightarrow> MockDevice \<Rightarrow> MockDevice option" where
  "md_handleFrame H f d =
    (let d1 = (if fr_type f \<noteq> FrameAck then snd (md_sendACK (fr_msg_id f) d) else d) in
     case fr_type f of
       FrameAck \<Rightarrow> (case fr_ack_id f of Some i \<Rightarrow> ackReceived i d1 | None \<Rightarrow> Some d1)
     | FramePing \<Rightarrow> Some (snd (sendFrame FramePong json_nil d1))
     | FramePong \<Rightarrow> Some d1
     | _ \<Rightarrow> dispatch H f d1)"

text \<open>One round of \<open>readPump\<close>, as \<open>read_step\<close> of the gateway's end: the flag says whether it goes round again.\<close>

definition md_read_step :: "(string \<Rightarrow> Frame option) \<Rightarrow> behaviors \<Rightarrow> bool \<Rightarrow> read_event \<Rightarrow> MockDevice \<Rightarrow>
    (bool \<times> MockDevice) option" where
  "md_read_step decode H cancelled ev d =
    (if md_done d \<or> cancelled then Some (False, md_Close d)
     else case ev of
       ReadError \<Rightarrow> Some (False, md_Close d)
     | Message txt \<Rightarrow> (case decode txt of
         None \<Rightarrow> Some (True, d)
       | Some f \<Rightarrow> map_option (Pair True)
           (md_handleFrame H f (d\<lparr>md_receivedFrames := md_receivedFrames d @ [f]\<rparr>))))"

text \<open>One tick of \<open>heartbeatLoop\<close>.\<close>

definition heartbeat_tick :: "MockDevice \<Rightarrow> MockDevice" where
  "heartbeat_tick d = (if md_done d then d else snd (sendFrame FramePing json_nil d))"

section \<open>Connecting\<close>

text \<open>The behaviour \<open>Connect\<close> registers sends to a channel of one element, which \<open>Connect\<close> receives from once.\<close>

definition hello_ack_behavior :: BehaviorFunc where
  "hello_ack_behavior d f = (if 1 \<le> md_helloAckCh d then None else Some (None, d\<lparr>md_helloAckCh := 1\<rparr>))"

text \<open>\<open>Connect\<close> up to the wait; \<open>url_err\<close> and \<open>dial_err\<close> are the outcomes of \<open>url.Parse\<close> and of the dialer.\<close>

definition connect_start :: "err option \<Rightarrow> err option \<Rightarrow> (HelloPayload \<Rightarrow> string) \<Rightarrow> behaviors \<Rightarrow> MockDevice \<Rightarrow>
    err option \<times> behaviors \<times> MockDevice" where
  "connect_start url_err dial_err mHello H d = (case url_err of
     Some e \<Rightarrow> (Some e, H, d)
   | None \<Rightarrow> (case dial_err of
       Some e \<Rightarrow> (Some e, H, d\<lparr>md_conn := False\<rparr>)
     | None \<Rightarrow>
         let H1 = md_On FrameHelloAck hello_ack_behavior H;
             (e, d1) = sendHello mHello (d\<lparr>md_conn := True, md_helloAckCh := 0\<rparr>)
         in (e, H1, d1)))"

text \<open>The wait: the acknowledgement is there, or the timer or the context ends it.\<close>

datatype hello_wait = AckArrives | AckTimeout | CtxDone err

definition connect_wait :: "hello_wait \<Rightarrow> MockDevice \<Rightarrow> (err option \<times> MockDevice) option" where
  "connect_wait w d = (case w of
     AckArrives \<Rightarrow> if md_helloAckCh d = 0 then None else Some (None, d\<lparr>md_helloAckCh := md_helloAckCh d - 1\<rparr>)
   | AckTimeout \<Rightarrow> Some (Some (EHandler ''HELLO_ACK timeout''), d)
   | CtxDone e \<Rightarrow> Some (Some e, d))"

end
