(* ===== verification/MockDeviceProps.thy ===== *)
theory MockDeviceProps
  imports MockDevice GatewayProps
begin

text \<open>
  The two ends of the tunnel put together: a frame the gateway tracks and the device receives is acknowledged once and for
  all, so is a frame the device sends, and the handshake ends.
\<close>

section \<open>The device\<close>

definition linked :: "MockDevice \<Rightarrow> bool" where
  "linked d \<longleftrightarrow> md_conn d \<and> \<not> md_closed d \<and> md_wfail d = []"

text \<open>Every channel of the map is empty: \<open>ackReceived\<close> never blocks.\<close>

definition pending_ok :: "MockDevice \<Rightarrow> bool" where
  "pending_ok d \<longleftrightarrow> (\<forall>k n. map_of (md_pendingAcks d) k = Some n \<longrightarrow> n = 0)"

lemma linked_write: "linked d \<Longrightarrow> md_write f d = (None, d\<lparr>md_out := md_out d @ [f]\<rparr>)"
  by (simp add: linked_def md_write_def)

lemma linked_cong [simp]:
  "linked (d\<lparr>md_out := o'\<rparr>) = linked d" "linked (d\<lparr>md_pendingAcks := p\<rparr>) = linked d"
  "linked (d\<lparr>md_receivedFrames := r\<rparr>) = linked d" "linked (d\<lparr>uuid_pos := n\<rparr>) = linked d"
  "linked (d\<lparr>md_helloAckCh := k\<rparr>) = linked d"
  by (simp_all add: linked_def)

lemma NewUUID_device: "snd (NewUUID d) = d\<lparr>uuid_pos := Suc (uuid_pos d)\<rparr>" "fst (NewUUID d) = uuid_seq d (uuid_pos d)"
  by (simp_all add: NewUUID_def)

lemma pending_track: "pending_ok d \<Longrightarrow> pending_ok (trackPending m d)"
  by (simp add: pending_ok_def trackPending_def gomap_simps)

lemma ackReceived_ok:
  assumes "pending_ok d"
  shows "ackReceived i d = Some (d\<lparr>md_pendingAcks := AList.delete i (md_pendingAcks d)\<rparr>)"
proof (cases "map_of (md_pendingAcks d) i")
  case None
  then have "AList.delete i (md_pendingAcks d) = md_pendingAcks d" by (simp add: map_of_eq_None_iff delete_id)
  with None show ?thesis by (simp add: ackReceived_def)
next
  case (Some n)
  with assms show ?thesis by (auto simp: ackReceived_def pending_ok_def)
qed

text \<open>A behaviour that returns and takes nothing back it has sent.\<close>

definition polite :: "behaviors \<Rightarrow> bool" where
  "polite H \<longleftrightarrow> (\<forall>t fn d f. map_of H t = Some fn \<longrightarrow>
     (\<exists>r d' os. fn d f = Some (r, d') \<and> md_out d' = md_out d @ os))"

lemma write_out: "\<exists>os. md_out (snd (md_write f d)) = md_out d @ os"
  by (auto simp: md_write_def split: list.splits bool.splits)

lemma dispatch_out:
  assumes "polite H" shows "\<exists>d' os. dispatch H f d = Some d' \<and> md_out d' = md_out d @ os"
proof (cases "map_of H (fr_type f)")
  case (Some fn)
  with assms obtain r d1 os where fn: "fn d f = Some (r, d1)" "md_out d1 = md_out d @ os"
    unfolding polite_def by blast
  show ?thesis
  proof (cases r)
    case (Some resp)
    with fn \<open>map_of H (fr_type f) = Some fn\<close> write_out [of resp d1] show ?thesis
      by (auto simp: dispatch_def md_writeFrame_def)
  qed (use fn Some in \<open>auto simp: dispatch_def\<close>)
qed (simp add: dispatch_def)

lemma sendFrame_linked:
  assumes "linked d"
  shows "sendFrame t (Some txt) d = (None, d\<lparr>uuid_pos := Suc (uuid_pos d),
    md_pendingAcks := AList.update (fr_msg_id (md_frame t None (PRaw txt) d)) 0 (md_pendingAcks d),
    md_out := md_out d @ [md_frame t None (PRaw txt) d]\<rparr>)"
  using assms by (simp add: sendFrame_def linked_write trackPending_def NewUUID_device Let_def)

abbreviation acknowledges :: "Frame \<Rightarrow> MockDevice \<Rightarrow> Frame" where
  "acknowledges f d \<equiv> md_frame FrameAck (Some (fr_msg_id f)) PNone d"

lemma device_acks:
  assumes "linked d" "polite H" "fr_type f \<noteq> FrameAck"
  shows "\<exists>d' os. md_handleFrame H f d = Some d' \<and> md_out d' = md_out d @ acknowledges f d # os"
proof -
  let ?d = "d\<lparr>uuid_pos := Suc (uuid_pos d), md_out := md_out d @ [acknowledges f d]\<rparr>"
  have "snd (md_sendACK (fr_msg_id f) d) = ?d"
    using assms(1) by (simp add: md_sendACK_def linked_write NewUUID_device)
  moreover have "\<exists>d' os. dispatch H f ?d = Some d' \<and> md_out d' = md_out d @ acknowledges f d # os"
    using dispatch_out [OF assms(2), of f ?d] by auto
  moreover have "md_out (snd (sendFrame FramePong json_nil ?d)) =
      md_out d @ acknowledges f d # [md_frame FramePong None (PRaw ''null'') ?d]"
    using assms(1) by (simp add: sendFrame_linked)
  ultimately show ?thesis
    using assms(3) by (auto simp: md_handleFrame_def Let_def split: FrameType.splits)
qed

section \<open>The gateway's end\<close>

definition open_conn :: "'a Hub_scheme \<Rightarrow> conn_id \<Rightarrow> bool" where
  "open_conn h c \<longleftrightarrow> dc_ws (hb_conn h c) \<and> \<not> dc_closed (hb_conn h c) \<and> dc_wfail (hb_conn h c) = []"

lemma open_write:
  "open_conn h c \<Longrightarrow> ws_write c f h = (True, upd_conn c (\<lambda>x. x\<lparr>dc_wire := dc_wire x @ [f]\<rparr>) h)"
  by (simp add: open_conn_def ws_write_def Let_def)

lemma read_frame:
  assumes "int (length txt) \<le> FrameMaxSize" "d_Frame D txt = Some x" "fr_version x = FrameVersion" "fr_type x \<noteq> FrameHello"
  shows "read_step D cfg c (Message txt) h = Some (True, snd (handleFrame D cfg c x (conn_touch c h)))"
  using assms by (simp add: read_step_def Let_def)

lemma handle_ack:
  assumes "fr_type x = FrameAck" "fr_ack_id x = Some i"
  shows "snd (handleFrame D cfg c x h) =
    (let h1 = upd_conn c (\<lambda>y. y\<lparr>dc_acks := AT_Remove (dc_acks y) i\<rparr>) h
     in if dc_hub (hb_conn h c) then RemovePending i h1 else h1)"
  using assms by (simp add: handleFrame_def frame_switch_def is_control_def Let_def)

lemma SendFrame_tracked:
  assumes "map_of (hb_devices h) dev = Some c" "\<not> dc_closed (hb_conn h c)" "fr_type f \<noteq> FrameAck"
    "length (dc_outbound (hb_conn h c)) < outbound_cap"
  shows "SendFrame dev f h = (None, upd_conn c (\<lambda>x. x\<lparr>dc_acks := AT_Track (wall_clock h) (dc_acks x) f,
     dc_outbound := dc_outbound x @ [f]\<rparr>) h)"
  using assms by (simp add: SendFrame_def Let_def try_send_def)

lemma write_takes:
  assumes "open_conn h c" "dc_outbound (hb_conn h c) = f # q" "fr_payload f \<noteq> PUnsupported"
  shows "write_step cfg c TakeFrame h = Some (True, upd_conn c (\<lambda>x. x\<lparr>dc_outbound := q,
     dc_wire := dc_wire x @ [f], dc_pingFailures := 0\<rparr>) h)"
proof -
  have "open_conn (upd_conn c (\<lambda>x. x\<lparr>dc_outbound := q\<rparr>) h) c" using assms(1) by (simp add: open_conn_def)
  from open_write [OF this, of f] assms(2,3) show ?thesis by (simp add: write_step_def Let_def)
qed

section \<open>Deliveries\<close>

text \<open>
  C23 (delivery_acknowledged): from the gateway to the device and back. \<open>SendFrame\<close> tracks a frame and queues it, the
  write pump puts it on the wire, the device answers with an acknowledgement before anything else it may send, and the
  read pump of the gateway, given that acknowledgement, forgets the frame, so that no retransmission is left, and
  writes nothing back: acknowledgements are not acknowledged.
\<close>

theorem delivery_acknowledged:
  fixes h :: "'a Hub_scheme"
  assumes conn: "map_of (hb_devices h) dev = Some c" "open_conn h c" "dc_outbound (hb_conn h c) = []"
    and frame: "fr_type f \<noteq> FrameAck" "fr_payload f \<noteq> PUnsupported"
    and device: "linked d" "polite H"
    and codec: "d_Frame D txt = Some (acknowledges f d)" "int (length txt) \<le> FrameMaxSize"
  shows "\<exists>h1 h2 d' os h3. SendFrame dev f h = (None, h1) \<and> write_step cfg c TakeFrame h1 = Some (True, h2) \<and>
    dc_wire (hb_conn h2 c) = dc_wire (hb_conn h c) @ [f] \<and> map_of (dc_acks (hb_conn h2 c)) (fr_msg_id f) \<noteq> None \<and>
    md_handleFrame H f d = Some d' \<and> md_out d' = md_out d @ acknowledges f d # os \<and>
    read_step D cfg c (Message txt) h2 = Some (True, h3) \<and>
    dc_acks (hb_conn h3 c) = AList.delete (fr_msg_id f) (dc_acks (hb_conn h2 c)) \<and>
    map_of (dc_acks (hb_conn h3 c)) (fr_msg_id f) = None \<and> dc_wire (hb_conn h3 c) = dc_wire (hb_conn h2 c) \<and>
    dc_outbound (hb_conn h3 c) = []"
proof -
  define h1 where "h1 = upd_conn c (\<lambda>x. x\<lparr>dc_acks := AT_Track (wall_clock h) (dc_acks x) f,
     dc_outbound := dc_outbound x @ [f]\<rparr>) h"
  define h2 where "h2 = upd_conn c (\<lambda>x. x\<lparr>dc_outbound := [], dc_wire := dc_wire x @ [f], dc_pingFailures := 0\<rparr>) h1"
  have 1: "SendFrame dev f h = (None, h1)"
    unfolding h1_def using conn frame(1) by (intro SendFrame_tracked) (auto simp: open_conn_def outbound_cap_def)
  have 2: "write_step cfg c TakeFrame h1 = Some (True, h2)"
    unfolding h2_def using conn frame(2) by (intro write_takes) (auto simp: h1_def open_conn_def)
  obtain d' os where 3: "md_handleFrame H f d = Some d'" "md_out d' = md_out d @ acknowledges f d # os"
    using device_acks [OF device frame(1)] by blast
  have 4: "read_step D cfg c (Message txt) h2 = Some (True, snd (handleFrame D cfg c (acknowledges f d) (conn_touch c h2)))"
    using codec by (intro read_frame) (simp_all add: md_frame_def)
  have 5: "snd (handleFrame D cfg c (acknowledges f d) (conn_touch c h2)) =
    (let g = upd_conn c (\<lambda>y. y\<lparr>dc_acks := AT_Remove (dc_acks y) (fr_msg_id f)\<rparr>) (conn_touch c h2)
     in if dc_hub (hb_conn (conn_touch c h2) c) then RemovePending (fr_msg_id f) g else g)"
    by (rule handle_ack) (simp_all add: md_frame_def)
  define h3 where "h3 = snd (handleFrame D cfg c (acknowledges f d) (conn_touch c h2))"
  have "dc_wire (hb_conn h2 c) = dc_wire (hb_conn h c) @ [f]" "map_of (dc_acks (hb_conn h2 c)) (fr_msg_id f) \<noteq> None"
    by (simp_all add: h1_def h2_def AT_Track_def gomap_simps)
  moreover have "dc_acks (hb_conn h3 c) = AList.delete (fr_msg_id f) (dc_acks (hb_conn h2 c))"
      "dc_wire (hb_conn h3 c) = dc_wire (hb_conn h2 c)" "dc_outbound (hb_conn h3 c) = []"
    unfolding h3_def 5 by (simp_all add: h2_def Let_def conn_touch_def RemovePending_def AT_Remove_def)
  moreover from this(1) have "map_of (dc_acks (hb_conn h3 c)) (fr_msg_id f) = None" by (simp add: gomap_simps)
  ultimately show ?thesis using 1 2 3 4 [folded h3_def] by blast
qed

section \<open>Reports\<close>

text \<open>No handler main installs closes a connection.\<close>

definition stays_open :: "'a Hub_scheme \<Rightarrow> 'a Hub_scheme \<Rightarrow> bool" where
  "stays_open h g \<longleftrightarrow> (\<forall>c. open_conn h c \<longrightarrow> open_conn g c)"

lemma stays_open_refl [simp]: "stays_open h h"
  by (simp add: stays_open_def)

lemma same_hub_open: "stays_open h g \<Longrightarrow> same_hub g' g \<Longrightarrow> stays_open h g'"
  by (simp add: stays_open_def same_hub_def open_conn_def)

lemma SendFrame_open: "stays_open h g \<Longrightarrow> stays_open h (snd (SendFrame d f g))"
  by (auto simp: stays_open_def SendFrame_def open_conn_def Let_def split: option.splits)

lemma ack_open: "stays_open h (sendAck c m h)" "stays_open h (snd (sendPong c h))" "stays_open h (conn_touch c h)"
  by (auto simp: stays_open_def sendAck_def sendPong_def conn_touch_def ws_write_def open_conn_def split_def NewUUID_def
    Let_def split: list.splits bool.splits)

interpretation open_side: beside_tables "stays_open h" for h :: "'a pool"
  by unfold_locales (erule SendFrame_open same_hub_open, (rule same_hub_uuid | simp add: same_hub_def)?)+

interpretation open_main: free_creds "stays_open h" for h :: "'a app"
  by unfold_locales (erule same_hub_open, (rule same_hub_publish | simp add: same_hub_def)?)+

interpretation gw_open: callbacks "gateway_config lb st D" stays_open
proof
  show "cfg_keeps stays_open (gateway_config lb st D)"
    by (rule keeps_from_start [OF open_main.gateway_keeps stays_open_refl])
qed (auto simp: ack_open RemovePending_def, auto simp: stays_open_def open_conn_def)

lemma sendAck_open:
  "open_conn h c \<Longrightarrow> dc_wire (hb_conn (sendAck c m h) c) = dc_wire (hb_conn h c) @ [ack_frame m (fst (NewUUID h)) h]"
  using open_write [of "snd (NewUUID h)" c] by (simp add: sendAck_def open_conn_def split_def Let_def)

lemma device_ack_in:
  assumes "fr_type a = FrameAck" "fr_ack_id a = Some m" "pending_ok d"
  shows "md_handleFrame H a d = Some (d\<lparr>md_pendingAcks := AList.delete m (md_pendingAcks d)\<rparr>)"
  using assms by (simp add: md_handleFrame_def ackReceived_ok)

text \<open>
  C24 (report_acknowledged): from the device to the gateway and back. \<open>Send\<close> records a frame as pending; the gateway, with the
  handlers main installs and whatever they answer, ends the treatment of the frame by writing an acknowledgement of it, also
  when it saw the frame before; the device, given that acknowledgement, forgets the frame and answers nothing.
\<close>

theorem report_acknowledged:
  fixes h :: "'a app" and lb st D
  defines "cfg \<equiv> gateway_config lb st D"
  assumes device: "linked d" "pending_ok d" and conn: "open_conn h c"
    and frame: "\<not> is_control t" "t \<noteq> FrameHello"
  shows "\<exists>f d1 h1 ws a d2. md_Send t (Some txt) d = (None, d1) \<and> md_out d1 = md_out d @ [f] \<and> fr_type f = t \<and>
    map_of (md_pendingAcks d1) (fr_msg_id f) = Some 0 \<and>
    h1 = snd (handleFrame D cfg c f h) \<and> dc_wire (hb_conn h1 c) = ws @ [a] \<and>
    md_handleFrame H a d1 = Some d2 \<and> md_out d2 = md_out d1 \<and>
    md_pendingAcks d2 = AList.delete (fr_msg_id f) (md_pendingAcks d1)"
proof -
  define f where "f = md_frame t None (PRaw txt) d"
  define d1 where "d1 = d\<lparr>uuid_pos := Suc (uuid_pos d), md_pendingAcks := AList.update (fr_msg_id f) 0 (md_pendingAcks d),
    md_out := md_out d @ [f]\<rparr>"
  have t: "fr_type f = t" by (simp add: f_def md_frame_def)
  have sent: "md_Send t (Some txt) d = (None, d1)"
    using device(1) by (simp add: md_Send_def sendFrame_linked d1_def f_def)
  have "\<exists>g. open_conn g c \<and> snd (handleFrame D cfg c f h) = sendAck c (fr_msg_id f) g"
  proof (cases "map_of (dc_processed (hb_conn h c)) (fr_msg_id f)")
    case None
    define g where "g = upd_conn c (\<lambda>x. x\<lparr>dc_processed := AList.update (fr_msg_id f) (unix (wall_clock h)) (dc_processed x)\<rparr>) h"
    have "open_conn g c" using conn by (simp add: g_def open_conn_def)
    moreover have "stays_open g (snd (frame_switch D cfg c f g))"
      unfolding cfg_def by (rule gw_open.frame_switch_keeps)
    ultimately have "open_conn (snd (frame_switch D cfg c f g)) c" by (simp add: stays_open_def)
    then show ?thesis using None frame t by (auto simp: handleFrame_def Let_def split_def g_def)
  qed (use conn frame t in \<open>auto simp: handleFrame_def Let_def\<close>)
  then obtain g where g: "open_conn g c" "snd (handleFrame D cfg c f h) = sendAck c (fr_msg_id f) g" by blast
  let ?a = "ack_frame (fr_msg_id f) (fst (NewUUID g)) g"
  have "pending_ok d1" using device(2) by (simp add: d1_def pending_ok_def gomap_simps)
  then have "md_handleFrame H ?a d1 = Some (d1\<lparr>md_pendingAcks := AList.delete (fr_msg_id f) (md_pendingAcks d1)\<rparr>)"
    by (intro device_ack_in) (simp_all add: ack_frame_def)
  moreover have "dc_wire (hb_conn (snd (handleFrame D cfg c f h)) c) = dc_wire (hb_conn g c) @ [?a]"
    by (simp add: g sendAck_open)
  moreover have "md_out d1 = md_out d @ [f]" "map_of (md_pendingAcks d1) (fr_msg_id f) = Some 0"
    by (simp_all add: d1_def gomap_simps)
  ultimately show ?thesis using sent t by fastforce
qed

lemma length_update_new: "map_of m k = None \<Longrightarrow> length (AList.update k v m) = Suc (length m)"
  by (induction m) (auto split: if_splits)

text \<open>
  The pings the device sends every fifteen seconds are recorded as pending like the frames
  that need an acknowledgement, but the gateway answers a ping by a pong that names no message and acknowledges
  neither. After the exchange, pong and its acknowledgement included, the ping is still pending: one entry more of
  the map for every heartbeat.
\<close>

theorem heartbeat_never_acknowledged:
  assumes device: "linked d" "\<not> md_done d" and conn: "open_conn h c"
    and fresh: "map_of (md_pendingAcks d) (uuid_str d (fst (NewUUID d))) = None"
  shows "\<exists>ping pong a d1 h1 d2 h2. d1 = heartbeat_tick d \<and> md_out d1 = md_out d @ [ping] \<and>
    h1 = snd (handleFrame D cfg c ping h) \<and> dc_wire (hb_conn h1 c) = dc_wire (hb_conn h c) @ [pong] \<and>
    md_handleFrame H pong d1 = Some d2 \<and> md_out d2 = md_out d1 @ [a] \<and>
    h2 = snd (handleFrame D cfg c a h1) \<and> dc_wire (hb_conn h2 c) = dc_wire (hb_conn h1 c) \<and>
    map_of (md_pendingAcks d2) (fr_msg_id ping) = Some 0 \<and>
    length (md_pendingAcks d2) = Suc (length (md_pendingAcks d))"
proof -
  define ping where "ping = md_frame FramePing None (PRaw ''null'') d"
  define d1 where "d1 = d\<lparr>uuid_pos := Suc (uuid_pos d), md_pendingAcks := AList.update (fr_msg_id ping) 0 (md_pendingAcks d),
    md_out := md_out d @ [ping]\<rparr>"
  have 1: "heartbeat_tick d = d1"
    using device by (simp add: heartbeat_tick_def sendFrame_linked d1_def ping_def)
  obtain pong where pong: "dc_wire (hb_conn (snd (handleFrame D cfg c ping h)) c) = dc_wire (hb_conn h c) @ [pong]"
      "fr_type pong = FramePong"
  proof
    let ?h = "snd (NewUUID h)"
    let ?pong = "\<lparr>fr_version = FrameVersion, fr_type = FramePong, fr_msg_id = uuid_str h (fst (NewUUID h)),
      fr_ack_id = None, fr_ts = unix_milli (wall_clock h), fr_payload = PNone\<rparr>"
    have "open_conn ?h c" using conn by (simp add: open_conn_def)
    from open_write [OF this] conn
    show "dc_wire (hb_conn (snd (handleFrame D cfg c ping h)) c) = dc_wire (hb_conn h c) @ [?pong]" "fr_type ?pong = FramePong"
      by (simp_all add: ping_def md_frame_def handleFrame_def frame_switch_def is_control_def sendPong_def open_conn_def
        split_def Let_def)
  qed
  let ?h1 = "snd (handleFrame D cfg c ping h)"
  have "linked d1" using device(1) by (simp add: d1_def)
  then have 2: "md_handleFrame H pong d1 = Some (d1\<lparr>uuid_pos := Suc (uuid_pos d1), md_out := md_out d1 @ [acknowledges pong d1]\<rparr>)"
    using pong(2) by (simp add: md_handleFrame_def md_sendACK_def linked_write NewUUID_device)
  have 3: "dc_wire (hb_conn (snd (handleFrame D cfg c (acknowledges pong d1) ?h1)) c) = dc_wire (hb_conn ?h1 c)"
    by (subst handle_ack) (auto simp: md_frame_def Let_def RemovePending_def)
  have "length (AList.update (fr_msg_id ping) 0 (md_pendingAcks d)) = Suc (length (md_pendingAcks d))"
    using fresh by (intro length_update_new) (simp add: ping_def md_frame_def)
  then show ?thesis using 1 2 3 pong(1) by (intro exI conjI) (assumption | rule refl | simp add: d1_def gomap_simps)+
qed

section \<open>The handshake\<close>

definition hello_of :: "DeviceConfig \<Rightarrow> HelloPayload" where
  "hello_of c = (let agents = (case mc_Agents c of None \<Rightarrow> [] | Some as \<Rightarrow> as) in
     \<lparr>hello_device_id = mc_DeviceID c, hello_agent_version = mc_AgentVersion c, hello_platform = mc_Platform c,
       hello_agent_count = int (length agents), hello_agents = agents, hello_capabilities = [],
       hello_resources = mc_Resources c\<rparr>)"

abbreviation hello_frame :: "(HelloPayload \<Rightarrow> string) \<Rightarrow> MockDevice \<Rightarrow> Frame" where
  "hello_frame mHello d \<equiv> md_frame FrameHello None (PRaw (mHello (hello_of (md_cfg d)))) d"

lemma sendHello_linked:
  "linked d \<Longrightarrow> sendHello mHello d = (None, d\<lparr>uuid_pos := Suc (uuid_pos d),
    md_pendingAcks := AList.update (fr_msg_id (hello_frame mHello d)) 0 (md_pendingAcks d),
    md_out := md_out d @ [hello_frame mHello d]\<rparr>)"
  by (simp add: sendHello_def sendFrame_linked Let_def hello_of_def)

lemma handleHello_some:
  assumes "unmarshal (d_Hello D) (fr_payload x) = Some p"
  shows "\<exists>k. handleHello D cfg c x h = upd_conn c (\<lambda>x. x\<lparr>dc_outbound := send_or_drop (dc_outbound x) k\<rparr>)
    (snd (NewUUID (snd (NewUUID (snd (with_hub c (call_handler (OnHello cfg))
      (dc_deviceID (hb_conn (upd_conn c (\<lambda>x. x\<lparr>dc_helloReceived := True\<rparr>) h) c)) p
      (upd_conn c (\<lambda>x. x\<lparr>dc_helloReceived := True\<rparr>) h))))))) \<and>
    fr_type k = FrameHelloAck \<and> fr_payload k \<noteq> PUnsupported"
  unfolding handleHello_def assms option.case Let_def split_def
  by (intro exI conjI, rule refl) simp_all

text \<open>The gateway's end: the HELLO is acknowledged on the wire and answered in the queue.\<close>

lemma gateway_hello:
  assumes conn: "open_conn h c" "dc_outbound (hb_conn h c) = []" "\<not> dc_helloReceived (hb_conn h c)"
    and x: "fr_type x = FrameHello" "fr_version x = FrameVersion" "fr_payload x = PRaw s" "d_Hello D s = Some p"
    and codec: "d_Frame D txt = Some x" "int (length txt) \<le> FrameMaxSize"
    and quiet: "\<And>g. hb_conn (snd (with_hub c (call_handler (OnHello cfg)) (dc_deviceID (hb_conn g c)) p g)) c = hb_conn g c"
  shows "\<exists>g ack hack. read_step D cfg c (Message txt) h = Some (True, g) \<and> open_conn g c \<and>
    dc_wire (hb_conn g c) = dc_wire (hb_conn h c) @ [ack] \<and> fr_type ack = FrameAck \<and> fr_ack_id ack = Some (fr_msg_id x) \<and>
    dc_outbound (hb_conn g c) = [hack] \<and> fr_type hack = FrameHelloAck \<and> fr_payload hack \<noteq> PUnsupported"
proof -
  define h1 where "h1 = upd_conn c (\<lambda>x. x\<lparr>dc_helloReceived := True\<rparr>) (conn_touch c h)"
  define h2 where "h2 = snd (with_hub c (call_handler (OnHello cfg)) (dc_deviceID (hb_conn h1 c)) p h1)"
  define g where "g = handleHello D cfg c x h1"
  have h2: "hb_conn h2 c = hb_conn h1 c" unfolding h2_def by (rule quiet)
  have "unmarshal (d_Hello D) (fr_payload x) = Some p" using x(3,4) by (simp add: unmarshal_def)
  from handleHello_some [OF this, of cfg c h1]
  have "\<exists>k. g = upd_conn c (\<lambda>x. x\<lparr>dc_outbound := send_or_drop (dc_outbound x) k\<rparr>)
      (snd (NewUUID (snd (NewUUID h2)))) \<and> fr_type k = FrameHelloAck \<and> fr_payload k \<noteq> PUnsupported"
    by (simp add: g_def h2_def h1_def)
  then obtain k where k: "hb_conn g c = (hb_conn h1 c)\<lparr>dc_outbound := [k]\<rparr>" "fr_type k = FrameHelloAck"
      "fr_payload k \<noteq> PUnsupported"
    using h2 conn(2) by (auto simp: h1_def conn_touch_def send_or_drop_def try_send_def outbound_cap_def)
  have open_g: "open_conn g c" using conn(1) by (simp add: open_conn_def k(1) h1_def conn_touch_def)
  have "\<exists>g'. open_conn g' c \<and> dc_outbound (hb_conn g' c) = [k] \<and> dc_wire (hb_conn g' c) = dc_wire (hb_conn h c) \<and>
    snd (handleFrame D cfg c x g) = sendAck c (fr_msg_id x) g'"
    using open_g k(1) x(1)
    by (intro exI [of _ "if map_of (dc_processed (hb_conn g c)) (fr_msg_id x) \<noteq> None then g else
        upd_conn c (\<lambda>y. y\<lparr>dc_processed := AList.update (fr_msg_id x) (unix (wall_clock g)) (dc_processed y)\<rparr>) g"])
      (simp add: handleFrame_def frame_switch_def is_control_def Let_def open_conn_def h1_def conn_touch_def)
  then obtain g' where g': "open_conn g' c" "dc_outbound (hb_conn g' c) = [k]"
      "dc_wire (hb_conn g' c) = dc_wire (hb_conn h c)" "snd (handleFrame D cfg c x g) = sendAck c (fr_msg_id x) g'"
    by blast
  have "read_step D cfg c (Message txt) h = Some (True, sendAck c (fr_msg_id x) g')"
    using codec x(1,2) conn(3) g'(4) by (simp add: read_step_def Let_def g_def h1_def conn_touch_def)
  moreover have "open_conn (sendAck c (fr_msg_id x) g') c"
    using ack_open(1) [of g' c "fr_msg_id x"] g'(1) by (simp add: stays_open_def)
  moreover have "dc_outbound (hb_conn (sendAck c (fr_msg_id x) g') c) = [k]" using g'(2) by simp
  ultimately show ?thesis
    using sendAck_open [OF g'(1)] g'(3) k(2,3) by (fastforce simp: ack_frame_def)
qed

lemma device_hello_ack:
  assumes "linked d" "fr_type k = FrameHelloAck" "md_helloAckCh d = 0"
  shows "md_handleFrame (md_On FrameHelloAck hello_ack_behavior H) k d =
    Some (d\<lparr>uuid_pos := Suc (uuid_pos d), md_out := md_out d @ [acknowledges k d], md_helloAckCh := 1\<rparr>)"
  using assms by (simp add: md_handleFrame_def md_sendACK_def linked_write NewUUID_device dispatch_def md_On_def
    hello_ack_behavior_def gomap_simps)


section \<open>Concrete runs\<close>

definition sample_mock :: MockDevice where
  "sample_mock = \<lparr>wall_clock = 0, uuid_seq = of_nat, uuid_pos = 0, uuid_str = bit_text,
     md_cfg = \<lparr>mc_DeviceID = 7, mc_DeviceToken = ''t'', mc_GatewayURL = ''ws://g'', mc_AgentVersion = ''1.0.0'',
       mc_Platform = ''linux'', mc_Resources = \<lparr>hr_cpu_count = 4, hr_memory_mb = 8192, hr_disk_mb = 10000\<rparr>,
       mc_Agents = None, mc_Subprotocol = ''iagent.tunnel.v1'', mc_VerboseLogging = False\<rparr>,
     md_conn = True, md_closed = False, md_receivedFrames = [], md_pendingAcks = [], md_done = False, md_out = [],
     md_wfail = [], md_panicked = False, md_helloAckCh = 0\<rparr>"

lemma sample_mock_ok: "linked sample_mock" "pending_ok sample_mock" "\<not> md_done sample_mock" "\<not> md_closed sample_mock"
    "md_wfail sample_mock = []" "md_pendingAcks sample_mock = []"
  by (simp_all add: linked_def pending_ok_def sample_mock_def)

lemma sample_hub_open: "open_conn sample_hub 0" "dc_outbound (hb_conn sample_hub 0) = []"
    "\<not> dc_helloReceived (hb_conn sample_hub 0)" "map_of (hb_devices sample_hub) 7 = Some 0"
  by (simp_all add: open_conn_def sample_hub_def sample_conn_def)

definition decodes :: "Frame \<Rightarrow> HelloPayload option \<Rightarrow> decoders" where
  "decodes f p = sample_decoders\<lparr>d_Frame := (\<lambda>_. Some f), d_Hello := (\<lambda>_. p)\<rparr>"

theorem delivery_acknowledged_witness:
  "\<exists>h1 h2 d' os h3. SendFrame 7 (sample_frame ''m'') sample_hub = (None, h1) \<and>
    write_step no_handlers 0 TakeFrame h1 = Some (True, h2) \<and>
    dc_wire (hb_conn h2 0) = dc_wire (hb_conn sample_hub 0) @ [sample_frame ''m''] \<and>
    map_of (dc_acks (hb_conn h2 0)) (fr_msg_id (sample_frame ''m'')) \<noteq> None \<and>
    md_handleFrame [] (sample_frame ''m'') sample_mock = Some d' \<and>
    md_out d' = md_out sample_mock @ acknowledges (sample_frame ''m'') sample_mock # os \<and>
    read_step (decodes (acknowledges (sample_frame ''m'') sample_mock) None) no_handlers 0 (Message ''{}'') h2 = Some (True, h3) \<and>
    dc_acks (hb_conn h3 0) = AList.delete (fr_msg_id (sample_frame ''m'')) (dc_acks (hb_conn h2 0)) \<and>
    map_of (dc_acks (hb_conn h3 0)) (fr_msg_id (sample_frame ''m'')) = None \<and>
    dc_wire (hb_conn h3 0) = dc_wire (hb_conn h2 0) \<and> dc_outbound (hb_conn h3 0) = []"
  by (rule delivery_acknowledged)
    (simp_all add: sample_hub_open sample_mock_ok polite_def sample_frame_def decodes_def FrameMaxSize_def)

theorem report_acknowledged_witness:
  "\<exists>f d1 h1 ws a d2. md_Send FrameJobResult (Some ''{}'') sample_mock = (None, d1) \<and>
    md_out d1 = md_out sample_mock @ [f] \<and> fr_type f = FrameJobResult \<and>
    map_of (md_pendingAcks d1) (fr_msg_id f) = Some 0 \<and>
    h1 = snd (handleFrame sample_decoders (gateway_config sample_libs sample_settings sample_decoders) 0 f sample_gateway) \<and>
    dc_wire (hb_conn h1 0) = ws @ [a] \<and> md_handleFrame [] a d1 = Some d2 \<and> md_out d2 = md_out d1 \<and>
    md_pendingAcks d2 = AList.delete (fr_msg_id f) (md_pendingAcks d1)"
  by (rule report_acknowledged)
    (simp_all add: sample_mock_ok is_control_def open_conn_def sample_gateway_def sample_app_def sample_conn_def)

theorem heartbeat_never_acknowledged_witness:
  "\<exists>ping pong a d1 h1 d2 h2. d1 = heartbeat_tick sample_mock \<and> md_out d1 = md_out sample_mock @ [ping] \<and>
    h1 = snd (handleFrame sample_decoders no_handlers 0 ping sample_hub) \<and>
    dc_wire (hb_conn h1 0) = dc_wire (hb_conn sample_hub 0) @ [pong] \<and>
    md_handleFrame [] pong d1 = Some d2 \<and> md_out d2 = md_out d1 @ [a] \<and>
    h2 = snd (handleFrame sample_decoders no_handlers 0 a h1) \<and> dc_wire (hb_conn h2 0) = dc_wire (hb_conn h1 0) \<and>
    map_of (md_pendingAcks d2) (fr_msg_id ping) = Some 0 \<and>
    length (md_pendingAcks d2) = Suc (length (md_pendingAcks sample_mock))"
  by (rule heartbeat_never_acknowledged) (simp_all add: sample_mock_ok sample_hub_open)


end
