(* ===== verification/WebInv.thy ===== *)
theory WebInv
  imports Routes AuthProps GatewayProps
begin

text \<open>
  What holds through every request. The locale \<open>web_keeps\<close> extends \<open>app_keeps\<close> by the part of the state the HTTP
  API adds; in it every handler of the router's table, behind the middlewares the router puts before it, keeps the
  property. It is interpreted on the parts of \<open>gateway_ok\<close>, which gives \<open>web_invariant\<close>.
\<close>

section \<open>What a handler relies on\<close>

text \<open>A session made for a job keeps the relay's invariant, whatever its id.\<close>

lemma CreateSession_inv:
  assumes "relay_inv r" shows "relay_inv (snd (snd (CreateSession H j u d a idle mx now i tok r)))"
proof (cases "find (\<lambda>s. vs_JobID s = j \<and> vs_Status s \<noteq> statusClosed) (map snd (rl_sessions r))")
  case None
  then show ?thesis using assms by (auto simp: CreateSession_def Let_def new_session_def intro!: relay_inv_put)
next
  case (Some s)
  from find_session [OF assms Some] inv_session [OF assms, of "vs_ID s" s] show ?thesis
    using Some assms by (auto simp: CreateSession_def Let_def intro!: relay_inv_put)
qed

definition serves :: "('h \<Rightarrow> bool) \<Rightarrow> 'h handlerfunc \<Rightarrow> bool" where
  "serves P h \<longleftrightarrow> (\<forall>r g. P g \<longrightarrow> P (snd (h r g)))"

lemma servesI: "(\<And>r g. P g \<Longrightarrow> P (snd (h r g))) \<Longrightarrow> serves P h"
  by (simp add: serves_def)

lemma servesD: "serves P h \<Longrightarrow> P g \<Longrightarrow> P (snd (h r g))"
  by (simp add: serves_def)

locale web_keeps = app_keeps P for P :: "'a web \<Rightarrow> bool" +
  assumes keeps_users: "P g \<Longrightarrow> P (g\<lparr>users_tab := us\<rparr>)"
    and keeps_tokens: "P g \<Longrightarrow> P (g\<lparr>tokens_tab := ts\<rparr>)"
    and keeps_orgs: "P g \<Longrightarrow> P (g\<lparr>orgs_tab := os\<rparr>)"
    and keeps_audit: "P g \<Longrightarrow> P (g\<lparr>audit_tab := as\<rparr>)"
    and keeps_api_tokens: "P g \<Longrightarrow> P (g\<lparr>wb_api_tokens := apt\<rparr>)"
    and keeps_auth_tokens: "P g \<Longrightarrow> P (g\<lparr>wb_auth_tokens := aut\<rparr>)"
    and keeps_job_tokens: "P g \<Longrightarrow> P (g\<lparr>wb_job_tokens := jt\<rparr>)"
    and keeps_idempotency: "P g \<Longrightarrow> P (g\<lparr>wb_idempotency := im\<rparr>)"
    and keeps_broker: "PublishScoped (ap_broker g) t u e = Some b \<Longrightarrow> P g \<Longrightarrow> P (g\<lparr>ap_broker := b\<rparr>)"
    and keeps_relay: "(relay_inv (ap_vnc g) \<Longrightarrow> relay_inv r) \<Longrightarrow> P g \<Longrightarrow> P (g\<lparr>ap_vnc := r\<rparr>)"
    and keeps_D_UpdateToken: "P g \<Longrightarrow> P (snd (D_UpdateToken i tok g))"
    and keeps_D_Update: "P g \<Longrightarrow> P (snd (D_Update dv g))"
begin

lemmas keeps_web_fields = keeps_users keeps_tokens keeps_orgs keeps_audit keeps_api_tokens keeps_auth_tokens
  keeps_job_tokens keeps_idempotency

lemma keeps_if: "(b \<Longrightarrow> P g) \<Longrightarrow> (\<not> b \<Longrightarrow> P h) \<Longrightarrow> P (if b then g else h)"
  by simp

lemma keeps_web_stores:
  "P g \<Longrightarrow> P (snd (snd (U_Create u g)))" "P g \<Longrightarrow> P (snd (U_GetByID i g))" "P g \<Longrightarrow> P (snd (U_GetByEmail s g))"
  "P g \<Longrightarrow> P (snd (U_Update u g))" "P g \<Longrightarrow> P (snd (U_UpdateTier i tier g))" "P g \<Longrightarrow> P (snd (U_List cu n g))"
  "P g \<Longrightarrow> P (snd (snd (T_Create t g)))" "P g \<Longrightarrow> P (snd (T_GetByHash s g))" "P g \<Longrightarrow> P (snd (T_Revoke i g))"
  "P g \<Longrightarrow> P (snd (T_RevokeFamily s g))" "P g \<Longrightarrow> P (snd (T_RevokeAllForUser i g))" "P g \<Longrightarrow> P (snd (T_DeleteExpired g))"
  "P g \<Longrightarrow> P (snd (snd (O_Create x g)))" "P g \<Longrightarrow> P (snd (O_GetByID i g))" "P g \<Longrightarrow> P (snd (O_List cu n g))"
  "P g \<Longrightarrow> P (snd (O_Update x g))" "P g \<Longrightarrow> P (snd (O_Delete i g))" "P g \<Longrightarrow> P (snd (O_AddMember i j g))"
  "P g \<Longrightarrow> P (snd (O_RemoveMember i g))" "P g \<Longrightarrow> P (snd (O_ListMembers i g))"
  "P g \<Longrightarrow> P (snd (Audit_Log i s s' oi de g))"
  unfolding U_Create_def U_GetByID_def U_GetByEmail_def U_Update_def U_UpdateTier_def U_List_def T_Create_def
    T_GetByHash_def T_Revoke_def T_RevokeFamily_def T_RevokeAllForUser_def T_DeleteExpired_def O_Create_def
    O_GetByID_def O_List_def O_Update_def O_Delete_def O_AddMember_def O_RemoveMember_def O_ListMembers_def
    Audit_Log_def Let_def split_def snd_conv
  by (rule keeps_exec keeps_query keeps_uuid | assumption | simp add: keeps_web_fields)+

lemma keeps_audit_log: "P g \<Longrightarrow> P (audit deps i s s' oi de g)"
  by (simp add: audit_def keeps_web_stores)

lemma keeps_more_queries:
  "P g \<Longrightarrow> P (snd (J_ListByUser i cu n g))" "P g \<Longrightarrow> P (snd (D_List cu n g))" "P g \<Longrightarrow> P (snd (D_ListAll g))"
  "P g \<Longrightarrow> P (snd (D_GetByID i g))" "P g \<Longrightarrow> P (snd (D_GetEnrolledDevice s g))" "P g \<Longrightarrow> P (snd (A_ListByUser i g))"
  "P g \<Longrightarrow> P (snd (A_ListAll cu n g))" "P g \<Longrightarrow> P (snd (F_ListByUser i cu n g))" "P g \<Longrightarrow> P (snd (C_ListByUser i g))"
  "P g \<Longrightarrow> P (snd (C_GetByID i g))" "P g \<Longrightarrow> P (snd (V_GetByJobID i g))" "P g \<Longrightarrow> P (snd (S_GetSkill i g))"
  "P g \<Longrightarrow> P (snd (S_ListSkills cu n g))" "P g \<Longrightarrow> P (snd (S_GetLatestVersion i g))"
  "P g \<Longrightarrow> P (snd (S_GetVersionByTag i s g))" "P g \<Longrightarrow> P (snd (S_IsSkillInstalledOnDevice i j g))"
  "P g \<Longrightarrow> P (snd (S_GetDeviceSkillsForSkill i g))" "P g \<Longrightarrow> P (snd (S_GetAgentSkillsForSkill i g))"
  "P g \<Longrightarrow> P (snd (S_ListGrants i g))" "P g \<Longrightarrow> P (snd (S_IsSkillVisibleToUser i j oi g))"
  "P g \<Longrightarrow> P (snd (S_ListVisibleSkills i oi g))"
  unfolding J_ListByUser_def D_List_def D_ListAll_def D_GetByID_def D_GetEnrolledDevice_def A_ListByUser_def A_ListAll_def
    F_ListByUser_def C_ListByUser_def C_GetByID_def V_GetByJobID_def S_GetSkill_def S_ListSkills_def S_GetLatestVersion_def
    S_GetVersionByTag_def S_IsSkillInstalledOnDevice_def S_GetDeviceSkillsForSkill_def S_GetAgentSkillsForSkill_def
    S_ListGrants_def S_IsSkillVisibleToUser_def S_ListVisibleSkills_def Let_def
  by (rule keeps_query, assumption)+

lemma keeps_skill_ops:
  "P g \<Longrightarrow> P (snd (S_UpdateSkill sk g))" "P g \<Longrightarrow> P (snd (S_UpdateVisibility i vis g))" "P g \<Longrightarrow> P (snd (S_DeleteSkill i g))"
  "P g \<Longrightarrow> P (snd (S_DeleteAgentSkill i j g))" "P g \<Longrightarrow> P (snd (S_DeleteDeviceSkill i j g))"
  unfolding S_UpdateSkill_def S_UpdateVisibility_def S_DeleteSkill_def S_DeleteAgentSkill_def S_DeleteDeviceSkill_def Let_def
  by (rule keeps_exec | assumption | simp add: keeps_fields)+

text \<open>The beginnings and ends handlers share.\<close>

lemma keeps_with_id: "P g \<Longrightarrow> (\<And>i g. P g \<Longrightarrow> P (snd (f i g))) \<Longrightarrow> P (snd (with_id deps r s m f g))"
  by (simp add: with_id_def split: option.splits)

lemma keeps_with_body: "P g \<Longrightarrow> (\<And>i g. P g \<Longrightarrow> P (snd (f i g))) \<Longrightarrow> P (snd (with_body d f g))"
  by (simp add: with_body_def split: option.splits)

lemma keeps_after_exec: "P (snd res) \<Longrightarrow> (\<And>g. P g \<Longrightarrow> P (snd (f g))) \<Longrightarrow> P (snd (after_exec res m f))"
  by (auto simp: after_exec_def split: prod.splits option.splits)

lemma keeps_audited: "P g \<Longrightarrow> P (snd (audited deps r s t i resp g))"
  by (simp add: audited_def keeps_audit_log)

lemma keeps_listed: "P (snd (q g)) \<Longrightarrow> P (snd (listed q b m g))"
  by (auto simp: listed_def split: prod.splits sum.splits)

lemma keeps_looked_up: "P (snd res) \<Longrightarrow> (\<And>x g. P g \<Longrightarrow> P (snd (f x g))) \<Longrightarrow> P (snd (looked_up res m f))"
  by (auto simp: looked_up_def split: prod.splits sum.splits option.splits)

lemma keeps_found: "P (snd res) \<Longrightarrow> (\<And>x g. P g \<Longrightarrow> P (snd (f x g))) \<Longrightarrow> P (snd (found_or_404 res m f))"
  by (auto simp: found_or_404_def split: prod.splits sum.splits option.splits)

lemma keeps_agent_access: "P g \<Longrightarrow> (\<And>x g. P g \<Longrightarrow> P (snd (f x g))) \<Longrightarrow> P (snd (with_agent_access deps r f a g))"
  by (simp add: with_agent_access_def)

lemma keeps_with_user: "P g \<Longrightarrow> (\<And>x g. P g \<Longrightarrow> P (snd (f x g))) \<Longrightarrow> P (snd (with_user r f g))"
  unfolding with_user_def using keeps_web_stores(2) [of g "getUserID r"]
  by (auto split: prod.splits sum.splits option.splits)

lemma keeps_own_job: "P g \<Longrightarrow> P (snd (own_job deps r i g))"
  unfolding own_job_def by (auto intro!: keep_cases keeps_queries split: sum.splits option.splits)

lemma keeps_with_own_job: "P g \<Longrightarrow> (\<And>x g. P g \<Longrightarrow> P (snd (f x g))) \<Longrightarrow> P (snd (with_own_job deps r f g))"
  unfolding with_own_job_def by (auto intro!: keep_cases keeps_own_job split: sum.splits option.splits)

lemma keeps_own_credential: "P g \<Longrightarrow> (\<And>x g. P g \<Longrightarrow> P (snd (f x g))) \<Longrightarrow> P (snd (with_own_credential deps r f g))"
  unfolding with_own_credential_def by (auto intro!: keep_cases keeps_more_queries split: sum.splits option.splits)

lemma keeps_own_file: "P g \<Longrightarrow> (\<And>x g. P g \<Longrightarrow> P (snd (f x g))) \<Longrightarrow> P (snd (with_own_file deps r f g))"
  unfolding with_own_file_def by (auto intro!: keeps_with_id keeps_found keeps_tables)

lemmas keeps_frames = keeps_with_id keeps_with_body keeps_after_exec keeps_audited keeps_listed keeps_looked_up keeps_found
  keeps_agent_access keeps_with_user keeps_with_own_job keeps_own_credential keeps_own_file

lemmas keeps_calls = keeps_web_stores keeps_more_queries keeps_skill_ops keeps_tables keeps_queries keeps
  keeps_D_UpdateToken keeps_D_Update keeps_audit_log keeps_C_Update keeps_C_Delete keeps_send_new keeps_release
  al.DrainAgent_inv al.EnsurePoolSize_inv

lemmas keeps_steps = servesI keeps_frames keep_cases keep_triple keeps_calls

section \<open>The handlers\<close>

lemma org_handlers:
  "serves P (handleCreateOrg deps)" "serves P (handleListOrgs deps)" "serves P (handleGetOrg deps)"
  "serves P (handleUpdateOrg deps)" "serves P (handleDeleteOrg deps)" "serves P (handleAddOrgMember deps)"
  "serves P (handleRemoveOrgMember deps)" "serves P (handleListOrgMembers deps)" "serves P (handleListUsers deps)"
  "serves P (handleUpdateUserTier deps)"
  unfolding handleCreateOrg_def handleListOrgs_def handleGetOrg_def handleUpdateOrg_def handleDeleteOrg_def
    handleAddOrgMember_def handleRemoveOrgMember_def handleListOrgMembers_def handleListUsers_def handleUpdateUserTier_def
    Let_def
  by (auto intro!: keeps_steps split: sum.splits option.splits)

lemma device_handlers:
  "serves P (handleCreateDevice deps)" "serves P (handleUpdateDevice deps)" "serves P (handleDeviceEnroll deps)"
  "serves P (handleListDevices deps)" "serves P (handleGetDevice deps)" "serves P (handleDeleteDevice deps)"
  "serves P (handleSetPoolSize deps)"
  unfolding handleCreateDevice_def handleUpdateDevice_def handleDeviceEnroll_def handleListDevices_def handleGetDevice_def
    handleDeleteDevice_def handleSetPoolSize_def new_device_token_def Let_def
  by (auto intro!: keeps_steps split: sum.splits option.splits)

lemma keeps_SendSkillAction: "P g \<Longrightarrow> P (snd (SendSkillAction d sc ac sid v ai g))"
  unfolding SendSkillAction_def by (auto intro!: keeps_steps)

lemma agent_handlers:
  "serves P (handleListMyAgents deps)" "serves P (handleGetAgent deps)" "serves P (handleEnableAgentSkill deps)"
  "serves P (handleDisableAgentSkill deps)" "serves P (handleAdminListAgents deps)" "serves P (handleDrainAgent deps)"
  "serves P (handleForceReleaseAgent deps)" "serves P (handleAdminGetAgent deps)" "serves P (handleAdminDeleteAgent deps)"
  "serves P (handleUploadFile deps)" "serves P (handleListFiles deps)" "serves P (handleGetFile deps)"
  "serves P (handleDeleteFile deps)"
  unfolding handleListMyAgents_def handleGetAgent_def handleEnableAgentSkill_def handleDisableAgentSkill_def
    handleAdminListAgents_def handleDrainAgent_def handleForceReleaseAgent_def handleAdminGetAgent_def
    handleAdminDeleteAgent_def handleUploadFile_def handleListFiles_def handleGetFile_def handleDeleteFile_def
    enable_skill_def ForceRelease_def Let_def
  by (auto intro!: keeps_steps keeps_SendSkillAction keeps_StageFile split: sum.splits option.splits bool.splits)

text \<open>Tokens and passwords.\<close>

lemma keeps_rand_bytes: "P g \<Longrightarrow> P (snd (rand_bytes g))"
  by (simp add: rand_bytes_def keeps_rand)

lemma keeps_IssueRefreshToken: "P g \<Longrightarrow> P (snd (IssueRefreshToken c g))"
  unfolding IssueRefreshToken_def Let_def by (auto intro!: keep_cases keeps_rand_bytes)

lemma keeps_IssueAccessToken: "P g \<Longrightarrow> P (snd (IssueAccessToken hl u g))"
  by (simp add: IssueAccessToken_def split_def Let_def keeps_uuid)

lemma keeps_new_family: "P g \<Longrightarrow> P (snd (new_family g))"
  by (simp add: new_family_def split_def Let_def keeps_uuid)

lemma keeps_issue_tokens:
  assumes "P g" "\<And>g. P g \<Longrightarrow> P (snd (fam g))" "\<And>g. P g \<Longrightarrow> P (rec g)"
  shows "P (snd (issue_tokens deps st u fam rec g))"
  unfolding issue_tokens_def Let_def
  by (auto intro!: keep_cases keep_triple keeps_IssueAccessToken keeps_IssueRefreshToken keeps_web_stores assms
    split: sum.splits option.splits)

lemma keeps_refresh_check: "P g \<Longrightarrow> P (snd (refresh_check deps r g))"
  unfolding refresh_check_def by (auto intro!: keep_cases keeps_web_stores split: sum.splits option.splits)

lemma keeps_refresh_exchange: "P g \<Longrightarrow> P (snd (refresh_exchange deps rt g))"
  unfolding refresh_exchange_def
  by (auto intro!: keep_cases keeps_web_stores keeps_issue_tokens keeps_audit_log split: sum.splits option.splits)

lemma auth_handlers:
  "serves P (handleRegister deps)" "serves P (handleLogin deps)" "serves P (handleRefresh deps)"
  "serves P (handleLogout deps)" "serves P (handleMe deps)" "serves P handleHealthz" "serves P handleReadyz"
proof -
  show "serves P (handleRegister deps)"
    unfolding handleRegister_def Let_def
    by (auto intro!: keeps_steps keeps_rand_bytes keeps_issue_tokens keeps_new_family split: sum.splits option.splits)
  show "serves P (handleLogin deps)"
    unfolding handleLogin_def
    by (auto intro!: keeps_steps keeps_issue_tokens keeps_new_family split: sum.splits option.splits)
  show "serves P (handleRefresh deps)"
    unfolding handleRefresh_def by (auto intro!: keeps_steps keeps_refresh_check keeps_refresh_exchange split: sum.splits)
  show "serves P (handleLogout deps)"
    unfolding handleLogout_def Let_def by (auto intro!: keeps_steps keep_case_state split: sum.splits option.splits)
  show "serves P (handleMe deps)" "serves P handleHealthz" "serves P handleReadyz"
    unfolding handleMe_def handleHealthz_def handleReadyz_def
    by (auto intro!: keeps_steps keeps_exec split: sum.splits option.splits)
qed

text \<open>Skills.\<close>

lemma keeps_skill_vault:
  "P g \<Longrightarrow> P (snd (SV_CreateSkill k n de vis g))" "P g \<Longrightarrow> P (snd (GetSkillWithLatestVersion i g))"
  "P g \<Longrightarrow> P (snd (GrantVisibility i pt j u g))" "P g \<Longrightarrow> P (snd (RevokeVisibility i pt j g))"
  "P g \<Longrightarrow> P (snd (RetryFailedAgents d i ags v g))" "P g \<Longrightarrow> P (snd (DispatchToAllDevices (Some D_ListAll) c sched i j g))"
  unfolding SV_CreateSkill_def GetSkillWithLatestVersion_def GrantVisibility_def RevokeVisibility_def RetryFailedAgents_def
    DispatchToAllDevices_def
  by (auto intro!: keeps_steps keeps_dispatch_all split: sum.splits option.splits)

lemma keeps_action_all: "P g \<Longrightarrow> P (action_all ac i ds g)"
  by (induction ds arbitrary: g) (simp_all add: keeps_SendSkillAction)

lemma keeps_rollout: "P g \<Longrightarrow> P (snd (rollout_entries as ds g))"
proof (induction ds arbitrary: g)
  case (Cons d ds)
  show ?case unfolding rollout_entries.simps Let_def
    by (intro keep_case keeps_more_queries Cons; simp)
qed simp

lemma keeps_fleet:
  "P g \<Longrightarrow> P (snd (install_fleet deps r ac m g))" "P g \<Longrightarrow> P (snd (act_on_fleet deps r act ac m g))"
  "P g \<Longrightarrow> P (snd (remove_grant deps r i pt j g))" "P g \<Longrightarrow> P (snd (publish deps r i form g))"
  unfolding install_fleet_def act_on_fleet_def remove_grant_def publish_def Let_def
  by (auto intro!: keeps_steps keeps_skill_vault keeps_action_all keeps_PublishVersion split: sum.splits option.splits)

lemma skill_handlers:
  "serves P (handleListVisibleSkills deps)" "serves P (handleGetSkill deps)" "serves P (handleAdminListSkills deps)"
  "serves P (handleCreateSkill deps)" "serves P (handleUpdateSkill deps)" "serves P (handleDeleteSkill deps)"
  "serves P (handlePublishSkillVersion deps)" "serves P (handleInstallSkillFleet deps)"
  "serves P (handleUpdateSkillFleet deps)" "serves P (handleDisableSkillFleet deps)" "serves P (handleEnableSkillFleet deps)"
  "serves P (handleDeleteSkillFleet deps)" "serves P (handleRetrySkillFleet deps)" "serves P (handleGetSkillRollout deps)"
  "serves P (handleUpdateSkillVisibility deps)" "serves P (handleCreateSkillGrant deps)"
  "serves P (handleDeleteSkillGrant deps)" "serves P (handleDeleteSkillGrantPath deps)"
  "serves P (handleListSkillGrants deps)" "serves P (handleAdminGetSkill deps)"
  unfolding handleListVisibleSkills_def handleGetSkill_def handleAdminListSkills_def handleCreateSkill_def
    handleUpdateSkill_def handleDeleteSkill_def handlePublishSkillVersion_def handleInstallSkillFleet_def
    handleUpdateSkillFleet_def handleDisableSkillFleet_def handleEnableSkillFleet_def handleDeleteSkillFleet_def
    handleRetrySkillFleet_def handleGetSkillRollout_def handleUpdateSkillVisibility_def handleCreateSkillGrant_def
    handleDeleteSkillGrant_def handleDeleteSkillGrantPath_def handleListSkillGrants_def handleAdminGetSkill_def Let_def
  by (auto intro!: keeps_steps keeps_skill_vault keeps_fleet keeps_rollout split: sum.splits option.splits bool.splits)

text \<open>Jobs.\<close>

lemma keeps_links: "P g \<Longrightarrow> P (link_files is i g)" "P g \<Longrightarrow> P (link_credentials is i g)"
  by (induction "is" arbitrary: g) (simp_all add: keeps_tables keeps_C_LinkToJob)

lemma keeps_queue_up: "P g \<Longrightarrow> P (snd (queue_up j g))"
  unfolding queue_up_def Let_def by (auto intro!: keep_cases keeps keeps_queries)

lemma keeps_skill_refused: "P g \<Longrightarrow> P (snd (skill_refused i u g))"
  unfolding skill_refused_def
  by (auto intro!: keep_cases keeps_web_stores keeps_more_queries split: sum.splits option.splits bool.splits)

lemma keeps_PushFiles: "P g \<Longrightarrow> P (snd (PushFilesToDevice deps j d g))"
  by (simp add: PushFilesToDevice_def keeps_PushJobInputs)

lemma keeps_dispatch_submitted: "P g \<Longrightarrow> P (snd (dispatch_submitted deps req j a g))"
  unfolding dispatch_submitted_def Let_def
  by (auto intro!: keep_cases keeps_send_new keeps keeps_PushFiles keeps_release keeps_queue_up keeps_PushCredentials
    keeps_broker split: option.splits)

lemma keeps_submit_created: "P g \<Longrightarrow> P (snd (submit_created deps req j g))"
  unfolding submit_created_def Let_def
  by (auto intro!: keep_triple al.Allocate_inv keeps_links keeps_queue_up keeps_dispatch_submitted
    split: sum.splits option.splits err.splits)

lemma keeps_cancel_job: "P g \<Longrightarrow> P (snd (cancel_job u j g))"
  unfolding cancel_job_def Let_def
  by (auto intro!: keep_cases keeps keeps_send_new keeps_release split: option.splits)

lemma keeps_open_stored: "P g \<Longrightarrow> P (snd (open_stored s g))"
  unfolding open_stored_def by (auto intro!: keep_cases keeps_on_fs split: option.splits)

lemma keeps_zip_outputs: "P g \<Longrightarrow> P (snd (zip_outputs fs g))"
proof (induction fs arbitrary: g)
  case (Cons f fs)
  show ?case unfolding zip_outputs.simps Let_def
    by (auto intro!: keep_case keeps_open_stored Cons split: option.splits)
qed simp

lemma keeps_outputs:
  "P g \<Longrightarrow> P (snd (list_outputs j g))" "P g \<Longrightarrow> P (snd (download deps r i j g))" "P g \<Longrightarrow> P (snd (download_zip j g))"
  unfolding list_outputs_def download_def download_zip_def Let_def
  by (auto intro!: keep_cases keeps_tables keeps_open_stored keeps_zip_outputs split: sum.splits option.splits)

lemma job_handlers:
  "serves P (handleSubmitJob deps)" "serves P (handleListJobs deps)" "serves P (handleGetJob deps)"
  "serves P (handleCancelJob deps)" "serves P (handleGetJobResult deps)" "serves P (handleListJobOutputs deps)"
  "serves P (handleDownloadJobOutput deps)" "serves P (handleDownloadJobOutputZip deps)"
  unfolding handleSubmitJob_def handleListJobs_def handleGetJob_def handleCancelJob_def handleGetJobResult_def
    handleListJobOutputs_def handleDownloadJobOutput_def handleDownloadJobOutputZip_def Let_def
  by (auto intro!: keeps_steps keeps_skill_refused keeps_submit_created keeps_cancel_job keeps_outputs
    split: sum.splits option.splits)

text \<open>Remote desktops and saved logins.\<close>

lemma keeps_create_session: "P g \<Longrightarrow> P (snd (create_session deps j u d a g))"
  unfolding create_session_def Let_def generateSessionToken_def split_def
  by (auto intro!: keeps_rand_bytes keeps_uuid keeps_relay CreateSession_inv)

lemma keeps_open_vnc: "P g \<Longrightarrow> P (snd (open_vnc deps r g))"
  unfolding open_vnc_def open_vnc_job_def Let_def
  by (auto intro!: keep_cases keeps_own_job keeps_create_session keeps_send_new split: sum.splits option.splits)

lemma keeps_job_vnc: "P g \<Longrightarrow> P (snd (job_vnc deps r j g))"
  unfolding job_vnc_def by (auto intro!: keep_cases keeps_more_queries split: sum.splits option.splits)

lemma vnc_handlers:
  "serves P (handleOpenVNC deps)" "serves P (handleGetJobVNC deps)" "serves P (handleCloseVNC deps)"
  "serves P (handleSaveLogin deps)" "serves P (handleListCredentials deps)" "serves P (handleDeleteCredential deps)"
  "serves P (handleGetCredential deps)" "serves P (handleUpdateCredential deps)"
  unfolding handleOpenVNC_def handleGetJobVNC_def handleCloseVNC_def handleSaveLogin_def handleListCredentials_def
    handleDeleteCredential_def handleGetCredential_def handleUpdateCredential_def Let_def
  by (auto intro!: keeps_steps keeps_open_vnc keeps_job_vnc keeps_CloseSession split: sum.splits option.splits)

lemma keeps_bound: "P g \<Longrightarrow> (relay_inv (ap_vnc g) \<Longrightarrow> relay_inv (snd res)) \<Longrightarrow> P (snd (bound w res g))"
  by (simp add: bound_def Let_def close_conn_def keeps_relay)

lemma socket_handlers:
  "serves P (handleVNCBrowserSocket deps up)" "serves P (handleVNCDeviceSocket deps up)"
  unfolding handleVNCBrowserSocket_def handleVNCDeviceSocket_def Let_def
  by (auto intro!: servesI keeps_bound simp: BindBrowser_ok BindDevice_ok split: sum.splits option.splits)

section \<open>The middlewares\<close>

lemma serves_global:
  assumes "serves P h" shows "serves P (global_chain deps h)"
  unfolding global_chain_def securityHeadersMiddleware_def csrfMiddleware_def rateLimitMiddleware_def Let_def
  by (auto intro!: servesI keep_case servesD [OF assms] keeps_api_tokens split: prod.splits)

lemma serves_public:
  assumes "serves P h" shows "serves P (public_chain deps h)"
  unfolding public_chain_def authRateLimitMiddleware_def Let_def
  by (auto intro!: servesI servesD [OF assms] keeps_auth_tokens split: prod.splits)

lemma serves_job_limit:
  assumes "serves P h" shows "serves P (jobRateLimitMiddleware n h)"
  unfolding jobRateLimitMiddleware_def Let_def
  by (auto intro!: servesI servesD [OF assms] keeps_job_tokens split: prod.splits)

lemma keeps_foreign_in_path:
  assumes "P g" "\<And>i g. P g \<Longrightarrow> P (snd (get i g))"
  shows "P (snd (foreign_in_path hl seg get own r g))"
  unfolding foreign_in_path_def Let_def using assms(1)
  by (auto intro!: keep_case assms(2) split: sum.splits option.splits)

lemma serves_tenant:
  assumes "serves P h" shows "serves P (tenantScopeMiddleware hl h)"
  unfolding tenantScopeMiddleware_def
  by (auto intro!: servesI servesD [OF assms] keep_case keeps_foreign_in_path keeps_queries keeps_tables
    split: option.splits bool.splits)

lemma serves_idempotency:
  assumes "serves P h" shows "serves P (idempotencyMiddleware c h)"
  unfolding idempotencyMiddleware_def idem_store_def Let_def
  by (auto intro!: servesI servesD [OF assms] keep_case keeps_idempotency split: option.splits)

lemma serves_user:
  assumes "serves P h" shows "serves P (user_chain deps h)"
  unfolding user_chain_def authMiddleware_def
  by (auto intro!: servesI servesD [OF serves_tenant [OF serves_idempotency [OF assms]]] split: sum.splits)

lemma serves_admin:
  assumes "serves P h" shows "serves P (admin_chain deps h)"
proof -
  have "serves P (requireAdminMiddleware h)"
    by (auto simp: requireAdminMiddleware_def intro!: servesI servesD [OF assms] split: option.splits)
  then show ?thesis unfolding admin_chain_def [abs_def] by (rule serves_user)
qed

section \<open>Every route\<close>

lemmas all_handlers = auth_handlers device_handlers agent_handlers org_handlers skill_handlers job_handlers vnc_handlers

lemma inner_serve:
  "(m, p, h) \<in> set (public_routes deps @ behind (user_chain deps) (user_routes deps) @ behind (admin_chain deps) (admin_routes deps))
    \<Longrightarrow> serves P h"
proof -
  have pub: "(m, p, h) \<in> set (public_routes deps) \<Longrightarrow> serves P h" for m p h
    by (auto simp: public_routes_def intro: serves_public all_handlers)
  have usr: "(m, p, h) \<in> set (user_routes deps) \<Longrightarrow> serves P h" for m p h
    by (auto simp: user_routes_def intro: serves_job_limit all_handlers)
  have adm: "(m, p, h) \<in> set (admin_routes deps) \<Longrightarrow> serves P h" for m p h
    by (auto simp: admin_routes_def intro: all_handlers)
  show "(m, p, h) \<in> set (public_routes deps @ behind (user_chain deps) (user_routes deps) @ behind (admin_chain deps) (admin_routes deps))
      \<Longrightarrow> serves P h"
    by (auto simp: behind_iff intro!: serves_user serves_admin dest: pub usr adm)
qed

lemma routes_serve: "(m, p, h) \<in> set (NewRouter_routes deps) \<Longrightarrow> serves P h"
  unfolding NewRouter_routes_def by (subst (asm) behind_iff) (auto simp del: set_append intro!: serves_global dest: inner_serve)

end

section \<open>The invariants of the gateway are such properties\<close>

interpretation hub_web: web_keeps "hub_inv :: 'a web \<Rightarrow> bool"
proof (unfold_locales; (erule same_hub_inv; simp add: same_hub_def; fail)?)
  show "hub_inv (snd (D_UpdateToken i tok g))" "hub_inv (snd (D_Update dv g))" if "hub_inv g" for i tok dv and g :: "'a web"
    unfolding D_UpdateToken_def D_Update_def Let_def using that
    by (auto intro!: hub_side.beside_exec hub_side.beside)
qed

interpretation tables_web: web_keeps "db_inv :: 'a web \<Rightarrow> bool"
  by (unfold_locales; (rule D_exec_inv D_Update_inv; assumption)?;
    (erule db_inv_same_tables [THEN iffD2, rotated 3]; simp)?)

interpretation parts_web: web_keeps "parts_ok :: 'a web \<Rightarrow> bool"
proof (unfold_locales; (erule same_parts; simp; fail)?)
  show "parts_ok (g\<lparr>ap_broker := b\<rparr>)" if "PublishScoped (ap_broker g) t u e = Some b" "parts_ok g"
    for g :: "'a web" and t u e b
    using that PublishScoped_ok [of "ap_broker g" t u e] by (auto simp: parts_ok_def)
  show "parts_ok (g\<lparr>ap_vnc := r\<rparr>)" if "relay_inv (ap_vnc g) \<Longrightarrow> relay_inv r" "parts_ok g" for g :: "'a web" and r
    using that by (simp add: parts_ok_def)
  show "parts_ok (snd (D_UpdateToken i tok g))" "parts_ok (snd (D_Update dv g))" if "parts_ok g"
    for i tok dv and g :: "'a web"
    unfolding D_UpdateToken_def D_Update_def Let_def using that
    by (auto intro!: parts_side.beside_exec parts_side.beside)
qed

interpretation creds_web: web_keeps "creds_ok :: 'a web \<Rightarrow> bool"
proof (unfold_locales; (erule creds_same; simp; fail)?)
  show "creds_ok (snd (D_UpdateToken i tok g))" "creds_ok (snd (D_Update dv g))" if "creds_ok g" for i tok dv and g :: "'a web"
    unfolding D_UpdateToken_def D_Update_def Let_def using that by (auto intro!: creds_exec)
qed

section \<open>The program as a step system\<close>

text \<open>
  Everything that happens to the state: the gateway's own steps, a request to any route of the router's table, the
  handlers that may never answer, the websockets, the two parts of a refresh and of the opening of a remote
  desktop, between which other steps happen, and the sweeps.
\<close>

inductive web_step :: "Dependencies \<Rightarrow> (string \<Rightarrow> string) \<Rightarrow> 'a web \<Rightarrow> 'a web \<Rightarrow> bool" for deps H where
  inside: "gateway_step (dp_libs deps) (dp_Settings deps) (dp_decoders deps) H g g' \<Longrightarrow> web_step deps H g g'"
| request: "(m, p, h) \<in> set (NewRouter_routes deps) \<Longrightarrow> web_step deps H g (snd (h r g))"
| rotate: "handleRotateDeviceToken deps r g = Some (resp, g') \<Longrightarrow> web_step deps H g g'"
| tunnel_socket: "handleTunnel deps up r g = Some (resp, g') \<Longrightarrow> web_step deps H g g'"
| browser_socket: "web_step deps H g (snd (handleVNCBrowserSocket deps up' r g))"
| device_socket: "web_step deps H g (snd (handleVNCDeviceSocket deps up' r g))"
| check: "web_step deps H g (snd (refresh_check deps r g))"
| exchange: "web_step deps H g (snd (refresh_exchange deps rt g))"
| open_vnc: "web_step deps H g (snd (open_vnc deps r g))"
| idem_sweep: "web_step deps H g (idempotency_sweep g)"
| token_sweep: "web_step deps H g (snd (T_DeleteExpired g))"

context web_keeps
begin

lemma keeps_request: "(m, p, h) \<in> set (NewRouter_routes deps) \<Longrightarrow> P g \<Longrightarrow> P (snd (h r g))"
  using routes_serve by (blast dest: servesD)

text \<open>The two handlers that work on the hub are made of steps of the gateway and of calls a property keeps.\<close>

lemma keeps_rotate:
  assumes close: "\<And>i c k k'. CloseDevice (gateway_config (dp_libs deps) (dp_Settings deps) (dp_decoders deps)) i c k = Some k' \<Longrightarrow>
      P k \<Longrightarrow> P k'"
    and h: "handleRotateDeviceToken deps r g = Some (resp, g')" and g: "P g"
  shows "P g'"
proof (cases "param_id deps r ''deviceID''")
  case None
  with h g show ?thesis by (simp add: handleRotateDeviceToken_def)
next
  case (Some i)
  obtain token g1 where 1: "new_device_token g = (token, g1)" by (cases "new_device_token g")
  then have "P g1" using g keeps_uuid by (auto simp: new_device_token_def Let_def split_def)
  obtain e g2 where 2: "D_UpdateToken i (hashTokenForStorage (lb_crypto (dp_libs deps)) token) g1 = (e, g2)"
    by (cases "D_UpdateToken i (hashTokenForStorage (lb_crypto (dp_libs deps)) token) g1")
  with keeps_D_UpdateToken [OF \<open>P g1\<close>, of i "hashTokenForStorage (lb_crypto (dp_libs deps)) token"] have "P g2" by simp
  with h Some 1 2 close show ?thesis
    by (auto simp: handleRotateDeviceToken_def audited_def intro!: keeps_audit_log split: option.splits)
qed

lemma keeps_tunnel_socket:
  assumes inside: "\<And>k k'. traffic (dp_decoders deps) (gateway_config (dp_libs deps) (dp_Settings deps) (dp_decoders deps)) k k' \<Longrightarrow>
      P k \<Longrightarrow> P k'"
    and new: "\<And>d ws k. P k \<Longrightarrow> P (snd (NewDeviceConn d ws k))"
    and h: "handleTunnel deps up r g = Some (resp, g')" and g: "P g"
  shows "P g'"
proof (cases "bearer_token r")
  case (Inl x)
  with h g show ?thesis by (simp add: handleTunnel_def)
next
  case (Inr token)
  let ?hash = "HashToken (lb_crypto (dp_libs deps)) token"
  obtain q g1 where 1: "D_GetByTokenHash ?hash g = (q, g1)" by (cases "D_GetByTokenHash ?hash g")
  have "P (snd (D_GetByTokenHash ?hash g))"
    unfolding D_GetByTokenHash_def using g by (auto intro!: keep_cases keeps_query split: sum.splits option.splits)
  with 1 have g1: "P g1" by simp
  show ?thesis
  proof (cases "\<exists>e. q = Inl e \<or> up \<noteq> None")
    case True
    with h g1 1 Inr show ?thesis
      by (auto simp: handleTunnel_def Let_def split: sum.splits option.splits if_splits)
  next
    case False
    then obtain device where q: "q = Inr device" "up = None" by (cases q) auto
    obtain c g2 where 2: "NewDeviceConn (d_id device) True g1 = (c, g2)" by (cases "NewDeviceConn (d_id device) True g1")
    have "P g2" using new [OF g1, of "d_id device" True] 2 by simp
    then have g3: "P (SetTokenHash c ?hash g2)" by (rule inside [OF traffic.set_token])
    have "c < hb_next (SetTokenHash c ?hash g2)" using 2 by (auto simp: NewDeviceConn_def SetTokenHash_def)
    from inside [OF traffic.register [OF this] g3] h g1 1 2 q Inr show ?thesis
      by (auto simp: handleTunnel_def Let_def split: option.splits if_splits)
  qed
qed

lemma keeps_web_step:
  assumes "web_step deps H g g'" "P g"
    and inside: "\<And>g g'. gateway_step (dp_libs deps) (dp_Settings deps) (dp_decoders deps) H g g' \<Longrightarrow> P g \<Longrightarrow> P g'"
  shows "P g'"
  using assms(1)
proof cases
  case (rotate r resp)
  show ?thesis
    by (rule keeps_rotate [OF _ rotate assms(2)]) (blast intro: inside gateway_step.tunnel traffic.close_device)
next
  case (tunnel_socket up r resp)
  show ?thesis
    by (rule keeps_tunnel_socket [OF _ _ tunnel_socket assms(2)]) (blast intro: inside gateway_step.tunnel gateway_step.connect)+
next
  case idem_sweep
  then show ?thesis using assms(2) by (simp add: idempotency_sweep_def keeps_idempotency)
qed (use assms(2) in \<open>auto intro: inside keeps_request servesD [OF socket_handlers(1)] servesD [OF socket_handlers(2)]
    keeps_refresh_check keeps_refresh_exchange keeps_open_vnc keeps_web_stores\<close>)

end

lemma web_run_ok:
  fixes g g' :: "'a web"
  assumes "(web_step deps H)\<^sup>*\<^sup>* g g'" "hub_inv g \<and> db_inv g \<and> parts_ok g \<and> creds_ok g"
  shows "hub_inv g' \<and> db_inv g' \<and> parts_ok g' \<and> creds_ok g'"
  using assms
proof (induction rule: rtranclp_induct)
  case (step k k')
  then have k: "hub_inv k" "db_inv k" "parts_ok k" "creds_ok k" by auto
  have "hub_inv k'" by (rule hub_web.keeps_web_step [OF step.hyps(2) k(1)]) (rule gateway_step_ok(1))
  moreover have "db_inv k'" by (rule tables_web.keeps_web_step [OF step.hyps(2) k(2)]) (rule gateway_step_ok(2))
  moreover have "parts_ok k'" by (rule parts_web.keeps_web_step [OF step.hyps(2) k(3)]) (rule gateway_step_ok(3))
  moreover have "creds_ok k'" by (rule creds_web.keeps_web_step [OF step.hyps(2) k(4)]) (rule gateway_step_ok(4))
  ultimately show ?case by blast
qed

lemma gateway_ok_parts: "gateway_ok g \<longleftrightarrow> hub_inv g \<and> db_inv g \<and> parts_ok g \<and> creds_ok g"
  by (auto simp: gateway_ok_def parts_ok_def)

text \<open>
  In every run of the whole program, whatever requests, websockets and tunnel frames arrive in whatever
  order, and whichever database calls, disk operations and socket writes fail, the invariants of the hub, of the
  tables' keys, of the broker, of the VNC sessions and of the ownership of linked credentials hold: no handler
  of the router's table, behind its middlewares, breaks one.
\<close>

theorem web_invariant:
  fixes g g' :: "'a web"
  assumes "(web_step deps H)\<^sup>*\<^sup>* g g'" "gateway_ok g"
  shows "gateway_ok g'"
  using web_run_ok [OF assms(1)] assms(2) by (simp add: gateway_ok_parts)

lemma sample_web_ok: "gateway_ok sample_web"
  using NewBroker_inv NewRelay_inv [of "''n''" 65536 2 "\<lambda>_. \<lparr>wc_in = [], wc_out = [], wc_closed = False\<rparr>"]
  by (simp add: gateway_ok_def sample_web_def hub_inv_def conn_wf_def sample_conn_def gomap_wf_def tracker_wf_def
    outbound_cap_def db_inv_def creds_ok_def owned_def)

theorem web_invariant_witness:
  "gateway_ok (snd (global_chain sample_deps (user_chain sample_deps (handleOpenVNC sample_deps)) sample_request sample_web))"
proof -
  have "(''POST'', ''/api/v1/jobs/{jobID}/vnc'', global_chain sample_deps (user_chain sample_deps (handleOpenVNC sample_deps)))
      \<in> set (NewRouter_routes sample_deps)"
    unfolding NewRouter_routes_def by (auto simp: behind_iff user_routes_def intro!: exI)
  then have "web_step sample_deps H sample_web
      (snd (global_chain sample_deps (user_chain sample_deps (handleOpenVNC sample_deps)) sample_request sample_web))" for H
    by (rule web_step.request)
  then show ?thesis by (blast intro: web_invariant [OF r_into_rtranclp sample_web_ok])
qed


definition sample_owner :: Web where
  "sample_owner = sample_web\<lparr>jobs_tab := [sample_job 5 JobRunning], creds_tab := [sample_cred]\<rparr>"


end
