(* ===== verification/Startup.thy ===== *)
theory Startup
  imports WebInv VncProps TokenProps
begin

text \<open>
  The start of the process (\<open>cmd/gateway/main.go\<close>, from the configuration to the router) and a life of the
  deployment over restarts. The memory of a process is what main makes of it; the tables, the disk, the clock and the random sources
  are those the process finds. A process may die between any two steps. One that dies in the middle of a handler leaves
  tables and disk as the handler does when every later call fails, which the scripts of faults contain.
\<close>

section \<open>Main\<close>

text \<open>\<open>SetHandlers\<close> of the hub: the callbacks are copied field by field.\<close>

definition SetHandlers :: "'h HubConfig \<Rightarrow> 'h HubConfig \<Rightarrow> 'h HubConfig" where
  "SetHandlers cfg h = h\<lparr>OnHello := OnHello cfg, OnJobProgress := OnJobProgress cfg, OnJobResult := OnJobResult cfg,
     OnJobAccepted := OnJobAccepted cfg, OnJobRejected := OnJobRejected cfg, OnAgentStatus := OnAgentStatus cfg,
     OnStateSync := OnStateSync cfg, OnSkillState := OnSkillState cfg, OnFileAck := OnFileAck cfg,
     OnVNCOpened := OnVNCOpened cfg, OnVNCClose := OnVNCClose cfg, OnCredCapture := OnCredCapture cfg,
     OnCredPushAck := OnCredPushAck cfg, OnCredCaptureAck := OnCredCaptureAck cfg,
     OnSkillDispatchAck := OnSkillDispatchAck cfg, OnFilePurged := OnFilePurged cfg,
     OnFilePullBegin := OnFilePullBegin cfg, OnFilePullChunk := OnFilePullChunk cfg, OnFilePullEnd := OnFilePullEnd cfg,
     OnJobLoginRequired := OnJobLoginRequired cfg, OnDisconnect := OnDisconnect cfg\<rparr>"

lemma SetHandlers_all: "SetHandlers cfg h = cfg"
  by (simp add: SetHandlers_def)

definition settings_of :: "Config \<Rightarrow> Vault \<Rightarrow> Settings" where
  "settings_of c v = \<lparr>st_queueTTL = QueueTTL c, st_maxQueuedPerUser = MaxQueuedPerUser c, st_fileStore = FileStore c,
     st_maxUploadBytes = MaxUploadBytes c, st_fileRetentionHours = FileRetentionHours c, st_vault = v\<rparr>"

text \<open>The variables of a new process before main makes its parts: empty maps, no connection, no goroutine.\<close>

definition blank_conn :: DeviceConn where
  "blank_conn = \<lparr>dc_deviceID = 0, dc_ws = False, dc_hub = False, dc_outbound = [], dc_acks = NewAckTracker, dc_lastSeen = 0,
     dc_closed = True, dc_helloReceived = False, dc_processed = [], dc_frameCount = 0, dc_frameLastTS = 0, dc_tokenHash = '''',
     dc_pingFailures = 0, dc_wire = [], dc_closeCode = None, dc_wfail = []\<rparr>"

definition blank_process :: "'a web \<Rightarrow> 'a web" where
  "blank_process g = g\<lparr>hb_conn := (\<lambda>_. blank_conn), hb_next := 0, pl_wakeups := 0, ap_pullBufs := [], ap_panicked := False,
     wb_api_tokens := [], wb_auth_tokens := [], wb_job_tokens := [], wb_idempotency := []\<rparr>"

text \<open>
  What main is given beside the configuration: the libraries, the outcome of opening the database, the working
  directory and the schedule of acknowledgements. Of the parameters \<open>parsed\<close> is what the environment gave.
\<close>

record surroundings =
  sr_libs :: libs
  sr_http :: httplib
  sr_decoders :: decoders
  sr_chunks :: "uuid \<Rightarrow> chunk_event list"
  sr_cwd :: string
  sr_db :: "err option"

definition main_state :: "Config \<Rightarrow> 'a web \<Rightarrow> 'a web" where
  "main_state c g0 =
    (let g1 = NewJWTManager (JWTSecret c) (AccessTTL c) (blank_process g0);
         g2 = NewHub '''' (HeartbeatMissThreshold c) (g1\<lparr>ap_broker := NewBroker\<rparr>)
     in g2\<lparr>ap_vnc := NewRelay (hb_nodeID g2) (VNCSessionBufBytes c) (VNCMaxSessionsPerUser c) (rl_ws (ap_vnc g2))\<rparr>)"

definition main_deps :: "surroundings \<Rightarrow> Config \<Rightarrow> Vault \<Rightarrow> Dependencies" where
  "main_deps s c v = \<lparr>dp_Config = c, dp_Settings = settings_of c v, dp_libs = sr_libs s, dp_http = sr_http s, dp_audit = True,
     dp_relay = True, dp_cwd = sr_cwd s, dp_decoders = sr_decoders s, dp_chunks = sr_chunks s\<rparr>"

text \<open>Main up to the router: the message it exits with, or the dependencies of the handlers and the state.\<close>

definition startup :: "surroundings \<Rightarrow> (string + Config) \<Rightarrow> 'a web \<Rightarrow> string + Dependencies \<times> 'a web" where
  "startup s parsed g = (case Load parsed of
     Inl e \<Rightarrow> Inl (''failed to load config: '' @ e)
   | Inr c \<Rightarrow> (case sr_db s of
       Some e \<Rightarrow> Inl ''failed to connect to database''
     | None \<Rightarrow> (case NewVault (lb_crypto (sr_libs s)) (CredKey c) (CredKMS c) of
         Inl e \<Rightarrow> Inl ''failed to initialize credential vault''
       | Inr v \<Rightarrow> Inr (main_deps s c v, main_state c g))))"

text \<open>The HTTP server main starts, and how it listens.\<close>

record Server =
  srv_Addr :: string
  srv_ReadTimeout :: duration
  srv_WriteTimeout :: duration
  srv_IdleTimeout :: duration

datatype listening = ListenAndServe Server | ListenAndServeTLS Server string string

definition main_server :: "Config \<Rightarrow> Server" where
  "main_server c = \<lparr>srv_Addr = HTTPAddr c, srv_ReadTimeout = 15 * second, srv_WriteTimeout = 30 * second,
     srv_IdleTimeout = 60 * second\<rparr>"

definition main_listens :: "Config \<Rightarrow> listening" where
  "main_listens c = (if TLSCert c \<noteq> '''' \<and> TLSKey c \<noteq> '''' then ListenAndServeTLS (main_server c) (TLSCert c) (TLSKey c)
     else ListenAndServe (main_server c))"

text \<open>The end of main: the tunnels are closed, then the server.\<close>

definition shutdown :: "Dependencies \<Rightarrow> 'a web \<Rightarrow> 'a web option" where
  "shutdown deps = CloseAll (gateway_config (dp_libs deps) (dp_Settings deps) (dp_decoders deps))"

section \<open>A start after a crash\<close>

lemma startup_Inr: "startup s parsed g = Inr (deps, g') \<Longrightarrow>
    \<exists>c v. Load parsed = Inr c \<and> deps = main_deps s c v \<and> g' = main_state c g"
  by (auto simp: startup_def split: sum.splits option.splits)

lemma main_state_tables [simp]:
  "jobs_tab (main_state c g) = jobs_tab g" "agents_tab (main_state c g) = agents_tab g"
  "devices_tab (main_state c g) = devices_tab g" "creds_tab (main_state c g) = creds_tab g"
  "job_creds_tab (main_state c g) = job_creds_tab g" "users_tab (main_state c g) = users_tab g"
  "tokens_tab (main_state c g) = tokens_tab g" "faults (main_state c g) = faults g"
  "wall_clock (main_state c g) = wall_clock g" "uuid_str (main_state c g) = uuid_str g"
  by (simp_all add: main_state_def NewJWTManager_def new_kid_def NewHub_def blank_process_def NewUUID_def Let_def split_def)

lemma main_state_memory [simp]:
  "hb_devices (main_state c g) = []" "hb_registry (main_state c g) = []" "hb_conn (main_state c g) = (\<lambda>_. blank_conn)"
  "hb_mu (main_state c g) = False" "ap_broker (main_state c g) = NewBroker" "rl_sessions (ap_vnc (main_state c g)) = []"
  "ap_pullBufs (main_state c g) = []" "wb_idempotency (main_state c g) = []" "wb_auth_tokens (main_state c g) = []"
  by (simp_all add: main_state_def NewJWTManager_def new_kid_def NewHub_def blank_process_def NewUUID_def Let_def split_def
    NewRelay_def NewInMemoryRegistry_def)

lemma main_state_vnc: "\<exists>n b u ws. ap_vnc (main_state c g) = NewRelay n b u ws"
  by (auto simp: main_state_def Let_def)

lemma main_state_jwt: "\<exists>kid. wb_jwt (main_state c g) = \<lparr>jm_keys = [(kid, JWTSecret c)], jm_activeKID = kid, jm_accessTTL = AccessTTL c\<rparr>"
  by (simp add: main_state_def NewJWTManager_def new_kid_def NewHub_def NewUUID_def Let_def split_def)

lemma main_state_ok: "db_inv g \<Longrightarrow> creds_ok g \<Longrightarrow> gateway_ok (main_state c g)"
  using main_state_vnc [of c g]
  by (auto simp: gateway_ok_def hub_inv_def db_inv_def creds_ok_def NewBroker_inv NewRelay_inv conn_wf_def blank_conn_def
    NewAckTracker_def tracker_wf_def outbound_cap_def gomap_wf_def has_agent_def has_job_def has_device_def
    owned_def)

section \<open>A life over restarts\<close>

text \<open>
  A deployment: the process at work, the process dying and a new one starting on the same tables and disk, with whatever
  configuration it is given then. A start that fails exits without a change; the next one is another attempt.
\<close>

inductive life :: "(string \<Rightarrow> string) \<Rightarrow> Dependencies \<times> 'a web \<Rightarrow> Dependencies \<times> 'a web \<Rightarrow> bool" for H where
  work: "web_step deps H g g' \<Longrightarrow> life H (deps, g) (deps, g')"
| restart: "startup s parsed g = Inr (deps', g') \<Longrightarrow> life H (deps, g) (deps', g')"

inductive_cases lifeE: "life H (deps, g) st"

lemma life_ok:
  assumes "(life H)\<^sup>*\<^sup>* (deps, g) (deps', g')" "gateway_ok g"
  shows "gateway_ok g'"
  using assms
proof (induction rule: rtranclp_induct2)
  case (step deps1 g1 deps2 g2)
  from step.hyps(2) show ?case
  proof (cases rule: life.cases)
    case work
    then show ?thesis using web_run_ok [OF r_into_rtranclp] step by (auto simp: gateway_ok_parts)
  next
    case (restart s parsed)
    then show ?thesis using step main_state_ok by (auto dest!: startup_Inr simp: gateway_ok_def)
  qed
qed simp

text \<open>
  C1 (life_invariant): over any life of the deployment, in which processes die at any moment and start again with any
  configuration on what they find, and in between any requests, websockets and tunnel frames arrive in any
  order while database calls, disk operations and socket writes fail, the invariants of the hub, of the tables' keys, of the broker, of the VNC
  sessions and of the ownership of linked credentials hold: no handler of the router's table, behind its
  middlewares, breaks one, and a start needs nothing but the tables' keys and ownership to establish the rest.
\<close>

theorem life_invariant:
  assumes "startup s parsed g = Inr (deps, g0)" "db_inv g" "creds_ok g" "(life H)\<^sup>*\<^sup>* (deps, g0) (deps', g')"
  shows "gateway_ok g'"
proof -
  have "gateway_ok g0" using startup_Inr [OF assms(1)] main_state_ok [OF assms(2,3)] by auto
  with assms(4) show ?thesis by (rule life_ok)
qed

section \<open>Sessions over a restart\<close>

text \<open>Nothing in the program changes the keys of the JWT manager: no route and no goroutine rotates them.\<close>

definition keys_are :: "JWTManager \<Rightarrow> 'a web \<Rightarrow> bool" where
  "keys_are m g \<longleftrightarrow> wb_jwt g = m"

lemma keys_same: "keys_are m g \<Longrightarrow> wb_jwt g' = wb_jwt g \<Longrightarrow> keys_are m g'"
  by (simp add: keys_are_def)

lemma more_jwt: "Hub.more g' = Hub.more (g :: 'a web) \<Longrightarrow> wb_jwt g' = wb_jwt g"
  by (cases g; cases g'; simp)

interpretation keys_side: beside_tables "keys_are m :: 'a web \<Rightarrow> bool" for m
  by unfold_locales (erule keys_same; simp add: more_jwt [OF more_SendFrame] NewUUID_def)+

interpretation keys_app: free_creds "keys_are m :: 'a web \<Rightarrow> bool" for m
  by unfold_locales (erule keys_same; simp add: publish_event_def split: option.splits)+

interpretation keys_web: web_keeps "keys_are m :: 'a web \<Rightarrow> bool" for m
proof (unfold_locales; (erule keys_same; simp; fail)?)
  show "keys_are m (snd (D_UpdateToken i tok g))" "keys_are m (snd (D_Update dv g))" if "keys_are m g" for i tok dv and g :: "'a web"
    unfolding D_UpdateToken_def D_Update_def Let_def using that
    by (auto intro!: keys_side.beside_exec keys_side.beside)
qed

lemma keys_step: "web_step deps H g g' \<Longrightarrow> keys_are m g \<Longrightarrow> keys_are m g'"
proof (rule keys_web.keeps_web_step; assumption?)
  show "keys_are m k'" if "gateway_step (dp_libs deps) (dp_Settings deps) (dp_decoders deps) H k k'" "keys_are m k" for k k' :: "'a web"
    by (rule keys_app.keeps_outside [OF that]) (auto intro: keys_same more_jwt)
qed

lemma keys_run: "(web_step deps H)\<^sup>*\<^sup>* g g' \<Longrightarrow> wb_jwt g' = wb_jwt g"
  by (induction rule: rtranclp_induct) (auto dest!: keys_step [where m = "wb_jwt g"] simp: keys_are_def)

text \<open>
  C14 (sessions_survive_restart): an access token issued at any time of the first process' life is accepted by the process started after
  it, although its new JWT manager has keys under another random id, exactly when the secret in the configuration is still the same,
  and until the token expires: the id in the token's header is unknown there and the verification falls back to the
  active key. What the first process remembered of idempotency keys and of its VNC sessions is gone.
\<close>

theorem sessions_survive_restart:
  fixes g1 :: "'a web"
  assumes first: "startup s (Inr c0) g0 = Inr (deps, g1)" "(web_step deps H)\<^sup>*\<^sup>* g1 g2"
    and token: "IssueAccessToken hl user g2 = (tok, g3)" "\<And>kid. jwt_law hl (JWTSecret c0) kid (issued_claims user g2)"
    and hmac: "jw_sig hl tok (JWTSecret c1) \<longleftrightarrow> JWTSecret c1 = JWTSecret c0"
    and second: "startup s' (Inr c1) g4 = Inr (deps', g5)"
  shows "VerifyToken hl (wb_jwt g5) now tok =
      (if JWTSecret c1 = JWTSecret c0 \<and> now < numeric_date (wall_clock g2 + AccessTTL c0) then Some (issued_claims user g2) else None)
    \<and> wb_idempotency g5 = [] \<and> GetSession (ap_vnc g5) = (\<lambda>_. None)"
proof -
  have load: "Load (Inr c) = Inr c' \<Longrightarrow> JWTSecret c' = JWTSecret c \<and> AccessTTL c' = AccessTTL c" for c c'
    by (auto simp: Load_def Let_def split: if_splits)
  obtain c v where c: "Load (Inr c0) = Inr c" "g1 = main_state c g0" using startup_Inr [OF first(1)] by auto
  obtain c' v' where c': "Load (Inr c1) = Inr c'" "g5 = main_state c' g4" using startup_Inr [OF second] by auto
  obtain kid where m: "wb_jwt g2 = \<lparr>jm_keys = [(kid, JWTSecret c0)], jm_activeKID = kid, jm_accessTTL = AccessTTL c0\<rparr>"
    using main_state_jwt [of c g0] keys_run [OF first(2)] load [OF c(1)] c(2) by auto
  obtain kid' where m': "wb_jwt g5 = \<lparr>jm_keys = [(kid', JWTSecret c1)], jm_activeKID = kid', jm_accessTTL = AccessTTL c1\<rparr>"
    using main_state_jwt [of c' g4] load [OF c'(1)] c'(2) by auto
  have t: "tok = jw_sign hl (JWTSecret c0) kid (issued_claims user g2)"
    using token(1) by (auto simp: IssueAccessToken_def issued_claims_def Let_def split_def key_secret_def m)
  have key: "verify_key (wb_jwt g5) (Some kid) = Some (JWTSecret c1)" by (simp add: verify_key_def m')
  have expiry: "cl_expires_at (issued_claims user g2) = Some (numeric_date (wall_clock g2 + AccessTTL c0))"
    by (simp add: issued_claims_def m)
  show ?thesis
    using token(2) [of kid] hmac key expiry c'(2) by (simp add: VerifyToken_def t jwt_law_def GetSession_def fun_eq_iff)
qed

text \<open>
  A device the dead process had marked online is online in the tables after the start, though no connection of it
  exists; nothing at the start corrects the status, and a round of the liveness checker, which looks at the registry of the new
  process only, changes nothing either. Unless the device connects again it is listed as online for ever.
\<close>

theorem restart_keeps_devices_online:
  fixes g' :: "'a web"
  assumes "startup s parsed g = Inr (deps, g')" "d \<in> set (devices_tab g)" "d_status d = DeviceOnline"
  shows "d \<in> set (devices_tab g') \<and> map_of (hb_devices g') (d_id d) = None \<and> \<not> IM_IsOnline (hb_registry g') (d_id d)
    \<and> checkLiveness cfg g' = Some g'"
  using assms by (auto dest!: startup_Inr simp: checkLiveness_def IM_GetStale_def IM_IsOnline_def Let_def)

section \<open>Samples\<close>

definition sample_surroundings :: "httplib \<Rightarrow> surroundings" where
  "sample_surroundings hl = \<lparr>sr_libs = sample_libs', sr_http = hl, sr_decoders = sample_decoders, sr_chunks = (\<lambda>_. []),
     sr_cwd = '''', sr_db = None\<rparr>"

lemma sample_start:
  assumes "length secret = 32"
  shows "\<exists>deps g'. startup (sample_surroundings hl) (Inr (sample_config\<lparr>JWTSecret := secret\<rparr>)) g = Inr (deps, g')"
proof -
  have "secret \<noteq> ''''" using assms by auto
  then have "\<exists>c. Load (Inr (sample_config\<lparr>JWTSecret := secret\<rparr>)) = Inr c \<and> CredKey c = ''''"
    using assms by (simp add: Load_def Let_def config_errors_def sample_config_def second_def hour_def minute_def)
  then show ?thesis by (auto simp: startup_def sample_surroundings_def NewVault_def Let_def)
qed

text \<open>A process that purges the expired tokens, dies, and a second one.\<close>

theorem life_invariant_witness:
  "\<exists>deps g0 deps' g1. startup (sample_surroundings sample_http) (Inr sample_config) sample_web = Inr (deps, g0) \<and>
     startup (sample_surroundings sample_http) (Inr sample_config) (snd (T_DeleteExpired g0)) = Inr (deps', g1) \<and> gateway_ok g1"
proof -
  have conf: "sample_config\<lparr>JWTSecret := replicate 32 (CHR ''s'')\<rparr> = sample_config" by (simp add: sample_config_def)
  obtain deps g0 where 0: "startup (sample_surroundings sample_http) (Inr sample_config) sample_web = Inr (deps, g0)"
    using sample_start [of "replicate 32 (CHR ''s'')" sample_http sample_web] conf by auto
  obtain deps' g1 where 1: "startup (sample_surroundings sample_http) (Inr sample_config) (snd (T_DeleteExpired g0)) = Inr (deps', g1)"
    using sample_start [of "replicate 32 (CHR ''s'')" sample_http "snd (T_DeleteExpired g0)"] conf by auto
  have "life H (deps, g0) (deps, snd (T_DeleteExpired g0))" for H
    by (intro life.work web_step.token_sweep)
  moreover have "life H (deps, snd (T_DeleteExpired g0)) (deps', g1)" for H
    using 1 by (rule life.restart)
  ultimately have "(life H)\<^sup>*\<^sup>* (deps, g0) (deps', g1)" for H by (meson converse_rtranclp_into_rtranclp r_into_rtranclp)
  moreover have "db_inv sample_web" "creds_ok sample_web" using sample_web_ok by (simp_all add: gateway_ok_def)
  ultimately have "gateway_ok g1" using life_invariant [OF 0] by blast
  with 0 1 show ?thesis by blast
qed

text \<open>A library whose tokens are the secret, of 32 characters, followed by the id of the key.\<close>

definition plain_http :: "Claims \<Rightarrow> httplib" where
  "plain_http c = sample_http\<lparr>jw_sign := (\<lambda>s k c. s @ k), jw_sig := (\<lambda>t s. take 32 t = s),
     jw_open := (\<lambda>t. Some \<lparr>jt_kid = Some (drop 32 t), jt_hmac = True, jt_claims = c\<rparr>)\<rparr>"

lemma plain_http_laws:
  assumes "length secret = 32"
  shows "jwt_law (plain_http c) secret kid c" "IssueAccessToken (plain_http c) user g = (tok, g') \<Longrightarrow>
      length (key_secret (wb_jwt g) (jm_activeKID (wb_jwt g))) = 32 \<Longrightarrow>
      jw_sig (plain_http c) tok secret = (secret = key_secret (wb_jwt g) (jm_activeKID (wb_jwt g)))"
  using assms by (auto simp: jwt_law_def plain_http_def IssueAccessToken_def Let_def split_def)

theorem sessions_survive_restart_witness:
  "\<exists>deps g1 hl tok g3 deps' g5. startup (sample_surroundings hl) (Inr sample_config) sample_web = Inr (deps, g1) \<and>
     IssueAccessToken hl (sample_user 9) g1 = (tok, g3) \<and>
     startup (sample_surroundings hl) (Inr sample_config) g3 = Inr (deps', g5) \<and>
     VerifyToken hl (wb_jwt g5) (100 * hour + 14 * minute) tok \<noteq> None"
proof -
  let ?s = "replicate 32 (CHR ''s'')"
  have conf: "sample_config\<lparr>JWTSecret := ?s\<rparr> = sample_config" "JWTSecret sample_config = ?s" "AccessTTL sample_config = 15 * minute"
    by (simp_all add: sample_config_def)
  have same: "startup (sample_surroundings hl) p g = Inr (deps, g') \<Longrightarrow> \<exists>deps. startup (sample_surroundings hl') p g = Inr (deps, g')"
    for hl hl' p g deps g' by (auto simp: startup_def sample_surroundings_def split: sum.splits option.splits)
  obtain deps0 g1 where 0: "startup (sample_surroundings sample_http) (Inr sample_config) sample_web = Inr (deps0, g1)"
    using sample_start [of ?s sample_http sample_web] conf by auto
  define hl where "hl = plain_http (issued_claims (sample_user 9) g1)"
  obtain deps where 1: "startup (sample_surroundings hl) (Inr sample_config) sample_web = Inr (deps, g1)"
    using same [OF 0] by blast
  obtain tok g3 where t: "IssueAccessToken hl (sample_user 9) g1 = (tok, g3)" by fastforce
  obtain deps' g5 where 2: "startup (sample_surroundings hl) (Inr sample_config) g3 = Inr (deps', g5)"
    using sample_start [of ?s hl g3] conf by auto
  obtain c where "g1 = main_state c sample_web" "JWTSecret c = ?s"
    using startup_Inr [OF 1] conf by (auto simp: Load_def Let_def split: if_splits)
  then have k: "key_secret (wb_jwt g1) (jm_activeKID (wb_jwt g1)) = ?s" "wall_clock g1 = 100 * hour"
    using main_state_jwt [of c sample_web] by (auto simp: key_secret_def sample_web_def)
  have law: "jwt_law hl (JWTSecret sample_config) kid (issued_claims (sample_user 9) g1)" for kid
    unfolding hl_def by (rule plain_http_laws) (simp add: conf)
  have sig: "jw_sig hl tok (JWTSecret sample_config) \<longleftrightarrow> JWTSecret sample_config = JWTSecret sample_config"
    using plain_http_laws(2) [of ?s _ "sample_user 9" g1 tok g3] t k conf(2) by (simp add: hl_def)
  have "100 * hour + 14 * minute < numeric_date (wall_clock g1 + AccessTTL sample_config)"
    by (simp add: k conf numeric_date_def hour_def minute_def second_def)
  with sessions_survive_restart [where H = "\<lambda>x. x", OF 1 rtranclp.rtrancl_refl t law sig 2, of "100 * hour + 14 * minute"]
  have "VerifyToken hl (wb_jwt g5) (100 * hour + 14 * minute) tok \<noteq> None" by simp
  with 1 2 t show ?thesis by blast
qed

theorem restart_keeps_devices_online_witness:
  "\<exists>deps g'. startup (sample_surroundings sample_http) (Inr sample_config)
       (sample_web\<lparr>devices_tab := [sample_device 7\<lparr>d_status := DeviceOnline\<rparr>]\<rparr>) = Inr (deps, g')
     \<and> sample_device 7\<lparr>d_status := DeviceOnline\<rparr> \<in> set (devices_tab g') \<and> \<not> IM_IsOnline (hb_registry g') 7"
proof -
  let ?g = "sample_web\<lparr>devices_tab := [sample_device 7\<lparr>d_status := DeviceOnline\<rparr>]\<rparr>"
  have conf: "sample_config\<lparr>JWTSecret := replicate 32 (CHR ''s'')\<rparr> = sample_config" by (simp add: sample_config_def)
  obtain deps g' where s: "startup (sample_surroundings sample_http) (Inr sample_config) ?g = Inr (deps, g')"
    using sample_start [of "replicate 32 (CHR ''s'')" sample_http ?g] conf by auto
  from restart_keeps_devices_online [OF s, of "sample_device 7\<lparr>d_status := DeviceOnline\<rparr>"] s show ?thesis
    by (auto simp: sample_device_def)
qed

text \<open>A shutdown with a device connected never comes to its end: \<open>CloseAll\<close> waits for the mutex it holds.\<close>

lemma shutdown_hangs:
  fixes g :: "'a web"
  assumes "gateway_ok g" "map_of (hb_devices g) d = Some c" "\<not> dc_closed (hb_conn g c)"
  shows "shutdown deps g = None"
  using assms close_blocked [of g d c] by (simp add: shutdown_def gateway_ok_def)

end
