(* ===== verification/Observe.thy ===== *)
theory Observe
  imports Startup
begin

text \<open>
  Logging, metrics and tracing (\<open>obs/obs.go\<close>), the middleware that feeds the metrics
  (\<open>loggerMiddleware\<close> of \<open>httpapi/middleware.go\<close>), the adapters of chat channels (\<open>channel/adapter.go\<close>) and the static files
  of the web client (\<open>spaFileServer\<close> of \<open>httpapi/router.go\<close>). The Prometheus client is a parameter with its documented
  behaviour; what is written to the log is not part of the state.
\<close>

section \<open>Logging\<close>

datatype Level = LevelDebug | LevelInfo | LevelWarn | LevelError

definition logLevels :: "(string, Level) gomap" where
  "logLevels = [(''debug'', LevelDebug), (''info'', LevelInfo), (''warn'', LevelWarn), (''error'', LevelError)]"

definition logLevelFromString :: "string \<Rightarrow> Level" where
  "logLevelFromString s = (case map_of logLevels (map lower s) of Some lvl \<Rightarrow> lvl | None \<Rightarrow> LevelInfo)"

datatype log_format = TextHandler | JSONHandler

record logger =
  lg_Level :: Level
  lg_AddSource :: bool
  lg_handler :: log_format

definition InitLogger :: "string \<Rightarrow> string \<Rightarrow> logger" where
  "InitLogger level fmt = \<lparr>lg_Level = logLevelFromString level, lg_AddSource = (map lower level = ''debug''),
     lg_handler = (if map lower fmt = ''text'' then TextHandler else JSONHandler)\<rparr>"

section \<open>Metrics\<close>

datatype metric_kind = Gauge | Counter | Histogram

record metric =
  mt_Name :: string
  mt_kind :: metric_kind
  mt_labels :: "string list"

definition TunnelConnections :: metric where
  "TunnelConnections = \<lparr>mt_Name = ''iagent_tunnel_connections'', mt_kind = Gauge, mt_labels = []\<rparr>"

definition TunnelFramesIn :: metric where
  "TunnelFramesIn = \<lparr>mt_Name = ''iagent_tunnel_frames_in_total'', mt_kind = Counter, mt_labels = []\<rparr>"

definition TunnelFramesOut :: metric where
  "TunnelFramesOut = \<lparr>mt_Name = ''iagent_tunnel_frames_out_total'', mt_kind = Counter, mt_labels = []\<rparr>"

definition TunnelAckRetransmits :: metric where
  "TunnelAckRetransmits = \<lparr>mt_Name = ''iagent_tunnel_ack_retransmits_total'', mt_kind = Counter, mt_labels = []\<rparr>"

definition JobsCreated :: metric where
  "JobsCreated = \<lparr>mt_Name = ''iagent_jobs_created_total'', mt_kind = Counter, mt_labels = [''channel'']\<rparr>"

definition JobsCompleted :: metric where
  "JobsCompleted = \<lparr>mt_Name = ''iagent_jobs_completed_total'', mt_kind = Counter, mt_labels = [''status'']\<rparr>"

definition JobsQueued :: metric where
  "JobsQueued = \<lparr>mt_Name = ''iagent_jobs_queued'', mt_kind = Gauge, mt_labels = []\<rparr>"

definition JobDuration :: metric where
  "JobDuration = \<lparr>mt_Name = ''iagent_job_duration_seconds'', mt_kind = Histogram, mt_labels = []\<rparr>"

definition AgentPoolIdle :: metric where
  "AgentPoolIdle = \<lparr>mt_Name = ''iagent_agent_pool_idle'', mt_kind = Gauge, mt_labels = []\<rparr>"

definition AgentPoolBusy :: metric where
  "AgentPoolBusy = \<lparr>mt_Name = ''iagent_agent_pool_busy'', mt_kind = Gauge, mt_labels = []\<rparr>"

definition APIRequests :: metric where
  "APIRequests = \<lparr>mt_Name = ''iagent_api_requests_total'', mt_kind = Counter, mt_labels = [''method'', ''path'', ''status'']\<rparr>"

definition APILatency :: metric where
  "APILatency = \<lparr>mt_Name = ''iagent_api_latency_seconds'', mt_kind = Histogram, mt_labels = [''method'', ''path'']\<rparr>"

definition registered_metrics :: "metric list" where
  "registered_metrics = [TunnelConnections, TunnelFramesIn, TunnelFramesOut, TunnelAckRetransmits, JobsCreated, JobsCompleted,
     JobsQueued, JobDuration, AgentPoolIdle, AgentPoolBusy, APIRequests, APILatency]"

text \<open>
  \<open>initMetrics\<close>: the first scrape registers. \<open>register\<close> is the client's \<open>MustRegister\<close>, \<open>None\<close> its panic.
\<close>

definition initMetrics :: "(metric list \<Rightarrow> 'r \<Rightarrow> 'r option) \<Rightarrow> bool \<times> 'r \<Rightarrow> (bool \<times> 'r) option" where
  "initMetrics register st = (case st of (done_once, reg) \<Rightarrow>
     if done_once then Some st else map_option (Pair True) (register registered_metrics reg))"

text \<open>
  The Prometheus client over a store of samples: a series is a metric with values for its labels; the first use of the values
  makes the series, \<open>Inc\<close> adds one to its count and \<open>Observe\<close> one to the count of its observations.
\<close>

record 'm prometheus =
  pm_inc :: "metric \<Rightarrow> string list \<Rightarrow> 'm \<Rightarrow> 'm"
  pm_observe :: "metric \<Rightarrow> string list \<Rightarrow> duration \<Rightarrow> 'm \<Rightarrow> 'm"
  pm_count :: "'m \<Rightarrow> metric \<Rightarrow> string list \<Rightarrow> nat option"

definition prometheus_laws :: "'m prometheus \<Rightarrow> bool" where
  "prometheus_laws p \<longleftrightarrow> (\<forall>x ls m y ls' d. pm_count p (pm_inc p x ls m) y ls' = pm_count p (pm_observe p x ls d m) y ls'
     \<and> pm_count p (pm_inc p x ls m) y ls' =
       (if y = x \<and> ls' = ls then Some (case pm_count p m x ls of None \<Rightarrow> 1 | Some n \<Rightarrow> Suc n) else pm_count p m y ls'))"

definition series :: "'m prometheus \<Rightarrow> 'm \<Rightarrow> (metric \<times> string list) set" where
  "series p m = {(x, ls). pm_count p m x ls \<noteq> None}"

section \<open>The middleware\<close>

record 'm Observed = Web +
  ob_metrics :: 'm

text \<open>\<open>took\<close> is the time the handler needed, \<open>itoa\<close> is \<open>strconv.Itoa\<close>.\<close>

definition loggerMiddleware :: "'m prometheus \<Rightarrow> (int \<Rightarrow> string) \<Rightarrow> duration \<Rightarrow> ('m, 'b) Observed_scheme handlerfunc \<Rightarrow>
    ('m, 'b) Observed_scheme handlerfunc" where
  "loggerMiddleware p itoa took nxt r g = (case nxt r g of (resp, g1) \<Rightarrow>
     (resp, g1\<lparr>ob_metrics := pm_observe p APILatency [rq_method r, rq_path r] took
       (pm_inc p APIRequests [rq_method r, rq_path r, itoa (rs_status resp)] (ob_metrics g1))\<rparr>))"

section \<open>Tracing and channels\<close>

text \<open>The shutdown function of the tracing, which does nothing; no error is possible.\<close>

definition InitTracing :: "string \<Rightarrow> string \<Rightarrow> 'h exec" where
  "InitTracing serviceName endpoint = (if endpoint = '''' then (\<lambda>h. (None, h)) else (\<lambda>h. (None, h)))"

record Command =
  cm_UserID :: uuid
  cm_AgentID :: "uuid option"
  cm_Text :: string
  cm_SkillID :: "uuid option"
  cm_FileIDs :: "uuid list"
  cm_Channel :: string

record 'ev Adapter =
  ad_Name :: string
  ad_ParseInbound :: "bytes \<Rightarrow> err + Command"
  ad_SendOutbound :: "uuid \<Rightarrow> 'ev \<Rightarrow> err option"
  ad_Authenticate :: "bytes \<Rightarrow> err + User"
  ad_IsEnabled :: bool

definition ErrNotImplemented :: err where
  "ErrNotImplemented = EHandler ''channel not implemented''"

definition NewStubAdapter :: "string \<Rightarrow> 'ev Adapter" where
  "NewStubAdapter name = \<lparr>ad_Name = name, ad_ParseInbound = (\<lambda>_. Inl ErrNotImplemented),
     ad_SendOutbound = (\<lambda>_ _. Some ErrNotImplemented), ad_Authenticate = (\<lambda>_. Inl ErrNotImplemented), ad_IsEnabled = False\<rparr>"

section \<open>What the metrics show\<close>

text \<open>The names differ, so that registering them in an empty registry does not panic, and a second scrape does nothing.\<close>

lemma registered_names: "distinct (map mt_Name registered_metrics)"
  by (simp add: registered_metrics_def TunnelConnections_def TunnelFramesIn_def TunnelFramesOut_def
    TunnelAckRetransmits_def JobsCreated_def JobsCompleted_def JobsQueued_def JobDuration_def AgentPoolIdle_def AgentPoolBusy_def
    APIRequests_def APILatency_def)

lemma initMetrics_once: "initMetrics register st = Some st1 \<Longrightarrow> initMetrics register st1 = Some st1"
  by (auto simp: initMetrics_def split: prod.splits if_splits)

lemma metric_names [simp]: "APIRequests \<noteq> APILatency" "APILatency \<noteq> APIRequests"
  by (simp_all add: APIRequests_def APILatency_def)

text \<open>A property of the samples alone; nothing in the program but the middleware looks at them.\<close>

definition metrics_hold :: "('m \<Rightarrow> bool) \<Rightarrow> ('m, 'b) Observed_scheme \<Rightarrow> bool" where
  "metrics_hold Q g \<longleftrightarrow> Q (ob_metrics g)"

lemma metrics_same: "metrics_hold Q g \<Longrightarrow> ob_metrics g' = ob_metrics g \<Longrightarrow> metrics_hold Q g'"
  by (simp add: metrics_hold_def)

lemma more_metrics: "Hub.more g' = Hub.more (g :: ('m, 'b) Observed_scheme) \<Longrightarrow> ob_metrics g' = ob_metrics g"
  by (cases g; cases g'; simp)

interpretation metrics_side: beside_tables "metrics_hold Q :: ('m, 'b) Observed_scheme \<Rightarrow> bool" for Q
  by unfold_locales (erule metrics_same; simp add: more_metrics [OF more_SendFrame] NewUUID_def)+

interpretation metrics_app: free_creds "metrics_hold Q :: ('m, 'b) Observed_scheme \<Rightarrow> bool" for Q
  by unfold_locales (erule metrics_same; simp add: publish_event_def split: option.splits)+

interpretation metrics_web: web_keeps "metrics_hold Q :: ('m, 'b) Observed_scheme \<Rightarrow> bool" for Q
proof (unfold_locales; (erule metrics_same; simp; fail)?)
  show "metrics_hold Q (snd (D_UpdateToken i tok g))" "metrics_hold Q (snd (D_Update dv g))" if "metrics_hold Q g"
    for i tok dv and g :: "('m, 'b) Observed_scheme"
    unfolding D_UpdateToken_def D_Update_def Let_def using that
    by (auto intro!: metrics_side.beside_exec metrics_side.beside)
qed

lemma metrics_web_step:
  fixes g g' :: "('m, 'b) Observed_scheme"
  shows "web_step deps H g g' \<Longrightarrow> metrics_hold Q g \<Longrightarrow> metrics_hold Q g'"
proof (rule metrics_web.keeps_web_step; assumption?)
  show "metrics_hold Q k'" if "gateway_step (dp_libs deps) (dp_Settings deps) (dp_decoders deps) H k k'" "metrics_hold Q k"
    for k k' :: "('m, 'b) Observed_scheme"
    by (rule metrics_app.keeps_outside [OF that]) (auto intro: metrics_same more_metrics)
qed

lemma logger_serves:
  fixes h :: "('m, 'b) Observed_scheme handlerfunc"
  assumes "serves (metrics_hold Q) h" "\<And>m ls ls' d. Q m \<Longrightarrow> Q (pm_observe p APILatency ls d (pm_inc p APIRequests ls' m))"
  shows "serves (metrics_hold Q) (loggerMiddleware p itoa took h)"
proof (rule servesI)
  fix r and g :: "('m, 'b) Observed_scheme"
  assume "metrics_hold Q g"
  then have "Q (ob_metrics (snd (h r g)))" using servesD [OF assms(1)] by (simp add: metrics_hold_def)
  then show "metrics_hold Q (snd (loggerMiddleware p itoa took h r g))"
    using assms(2) by (simp add: loggerMiddleware_def metrics_hold_def split_def)
qed

text \<open>
  The program with its metrics: the steps of \<open>web_step\<close>, and requests to a route, or to none, that pass the logging
  middleware inside the global ones.
\<close>

inductive observed_step :: "'m prometheus \<Rightarrow> (int \<Rightarrow> string) \<Rightarrow> Dependencies \<Rightarrow> (string \<Rightarrow> string) \<Rightarrow>
    ('m, 'b) Observed_scheme \<Rightarrow> ('m, 'b) Observed_scheme \<Rightarrow> bool" for p itoa deps H where
  inside: "web_step deps H g g' \<Longrightarrow> observed_step p itoa deps H g g'"
| request: "(mth, pat, h) \<in> set (public_routes deps @ behind (user_chain deps) (user_routes deps)
      @ behind (admin_chain deps) (admin_routes deps)) \<Longrightarrow>
    observed_step p itoa deps H g (snd (global_chain deps (loggerMiddleware p itoa took h) r g))"
| unmatched: "observed_step p itoa deps H g (snd (global_chain deps (loggerMiddleware p itoa took (\<lambda>r g. (resp, g))) r g))"

lemma observed_holds:
  assumes "observed_step p itoa deps H g g'" "metrics_hold Q g"
    and "\<And>m ls ls' d. Q m \<Longrightarrow> Q (pm_observe p APILatency ls d (pm_inc p APIRequests ls' m))"
  shows "metrics_hold Q g'"
  using assms(1)
proof cases
  case inside
  then show ?thesis using assms(2) by (rule metrics_web_step)
next
  case (request mth pat h took r)
  have "serves (metrics_hold Q) (global_chain deps (loggerMiddleware p itoa took h))"
    by (intro metrics_web.serves_global logger_serves metrics_web.inner_serve [OF request(2)] assms(3))
  from servesD [OF this assms(2)] show ?thesis by (simp add: request(1))
next
  case (unmatched took resp r)
  have "serves (metrics_hold Q) (global_chain deps (loggerMiddleware p itoa took (\<lambda>r g. (resp, g))))"
    by (intro metrics_web.serves_global logger_serves servesI assms(3)) simp_all
  from servesD [OF this assms(2)] show ?thesis by (simp add: unmatched)
qed


text \<open>
  The path is a label of the request metrics as it stands in the URL, not the route it matched. \<open>n\<close> requests
  with different paths, even to no route at all, leave at least \<open>n\<close> series in the memory of the process for ever, and a series is
  never dropped.
\<close>

theorem metrics_grow:
  assumes "prometheus_laws p" "distinct (map rq_path rs)" "finite (series p (ob_metrics g))"
    and "g' = foldl (\<lambda>g r. snd (loggerMiddleware p itoa took (\<lambda>r g. (resp, g)) r g)) g rs"
  shows "length rs \<le> card (series p (ob_metrics g')) \<and> series p (ob_metrics g) \<subseteq> series p (ob_metrics g')"
proof -
  have one: "series p (ob_metrics (snd (loggerMiddleware p itoa took (\<lambda>r g. (resp, g)) r g))) =
      series p (ob_metrics g) \<union> {(APILatency, [rq_method r, rq_path r]), (APIRequests, [rq_method r, rq_path r, itoa (rs_status resp)])}"
    for r g using assms(1) by (auto simp: loggerMiddleware_def series_def prometheus_laws_def split: if_splits)
  have all: "series p (ob_metrics g') = series p (ob_metrics g) \<union> (\<lambda>r. (APILatency, [rq_method r, rq_path r])) ` set rs
      \<union> (\<lambda>r. (APIRequests, [rq_method r, rq_path r, itoa (rs_status resp)])) ` set rs"
    unfolding assms(4) by (induction rs arbitrary: g) (auto simp: one)
  have "inj_on (\<lambda>r. (APILatency, [rq_method r, rq_path r])) (set rs)"
    using assms(2) by (auto simp: inj_on_def distinct_map)
  then have "card ((\<lambda>r. (APILatency, [rq_method r, rq_path r])) ` set rs) = length rs"
    using assms(2) by (simp add: card_image distinct_card distinct_map)
  moreover have "finite (series p (ob_metrics g'))" using assms(3) by (simp add: all)
  ultimately show ?thesis using card_mono [of "series p (ob_metrics g')" "(\<lambda>r. (APILatency, [rq_method r, rq_path r])) ` set rs"]
    by (auto simp: all)
qed

text \<open>A client that keeps a count for every series.\<close>

definition bump :: "metric \<Rightarrow> string list \<Rightarrow> (metric \<times> string list \<Rightarrow> nat option) \<Rightarrow> metric \<times> string list \<Rightarrow> nat option" where
  "bump x ls m = m((x, ls) \<mapsto> (case m (x, ls) of None \<Rightarrow> 1 | Some n \<Rightarrow> Suc n))"

definition counting :: "(metric \<times> string list \<Rightarrow> nat option) prometheus" where
  "counting = \<lparr>pm_inc = bump, pm_observe = (\<lambda>x ls d. bump x ls), pm_count = (\<lambda>m x ls. m (x, ls))\<rparr>"

lemma counting_laws: "prometheus_laws counting"
  by (simp add: prometheus_laws_def counting_def bump_def)

definition sample_observed :: "(metric \<times> string list \<Rightarrow> nat option) Observed" where
  "sample_observed = Web.extend sample_web (Observed.fields (\<lambda>_. None))"

lemma sample_observed_metrics: "ob_metrics sample_observed = (\<lambda>_. None)"
  by (simp add: sample_observed_def Web.defs Observed.defs)

definition decimal :: "int \<Rightarrow> string" where
  "decimal n = (if n = 404 then ''404'' else ''200'')"

definition not_found :: response where
  "not_found = writeError 404 ErrCodeNotFound ''404 page not found''"


theorem metrics_grow_witness:
  "2 \<le> card (series counting (ob_metrics (foldl (\<lambda>g r. snd (loggerMiddleware counting decimal 0 (\<lambda>r g. (not_found, g)) r g)) sample_observed
     [sample_request\<lparr>rq_path := ''/a''\<rparr>, sample_request\<lparr>rq_path := ''/b''\<rparr>])))"
proof -
  have f: "finite (series counting (ob_metrics sample_observed))"
    by (simp add: series_def sample_observed_metrics counting_def)
  have "distinct (map rq_path [sample_request\<lparr>rq_path := ''/a''\<rparr>, sample_request\<lparr>rq_path := ''/b''\<rparr>])" by simp
  from metrics_grow [OF counting_laws this f refl, of decimal 0 not_found] show ?thesis by simp
qed

section \<open>The files of the web client\<close>

text \<open>
  The path the handler asks \<open>os.Stat\<close> for, and the URL path it hands to the file server: the root of the application when the
  answer is that nothing is there, which it is not when a part of the path is a file. The file server itself is \<open>net/http\<close>'s.
\<close>

definition spa_path :: "string \<Rightarrow> string \<Rightarrow> string" where
  "spa_path distDir urlPath = Join distDir (path_str (Clean urlPath))"

definition spaFileServer :: "string \<Rightarrow> string \<Rightarrow> fsys \<Rightarrow> string \<times> fsys" where
  "spaFileServer distDir urlPath f0 = (let (bad, f) = io_fault f0; p = Clean (spa_path distDir urlPath);
       below_file = list_ex (\<lambda>n. map_of (fs_files f) (fst p, take n (snd p)) \<noteq> None) [1..<length (snd p)] in
     (if \<not> bad \<and> \<not> below_file \<and> map_of (fs_files f) p = None \<and> \<not> dir_exists p f then ''/'' else urlPath, f))"

text \<open>The path of a request begins with a slash; what is looked at then lies in the directory of the application.\<close>

lemma spa_below:
  assumes "IsAbs urlPath" "distDir \<noteq> ''''"
  shows "\<exists>cs. (\<forall>c \<in> set cs. proper c) \<and> Clean (spa_path distDir urlPath) = (fst (Clean distDir), snd (Clean distDir) @ cs)"
proof -
  let ?cs = "snd (Clean urlPath)"
  have r: "fst (Clean urlPath) = True" using assms(1) by (simp add: Clean_def)
  have cs: "\<forall>c \<in> set ?cs. proper c"
    using Clean_form [of urlPath] by (auto simp: clean_form_def r)
  have sep: "\<And>c. c \<in> set ?cs \<Longrightarrow> CHR ''/'' \<notin> set c" using cs by (auto simp: proper_def)
  have str: "path_str (Clean urlPath) = CHR ''/'' # join_with ''/'' ?cs" using r by (simp add: path_str_def)
  have split: "split_on (CHR ''/'') (distDir @ CHR ''/'' # CHR ''/'' # join_with ''/'' ?cs) =
      split_on (CHR ''/'') distDir @ [''''] @ split_on (CHR ''/'') (join_with ''/'' ?cs)"
    by (simp add: split_on_append)
  have rest: "foldl (clean_step r) st (split_on (CHR ''/'') (join_with ''/'' ?cs)) = st @ ?cs" for r st
  proof (cases "?cs = []")
    case False
    then show ?thesis using join_split [OF sep False] cs by (simp add: clean_proper)
  qed (simp add: clean_step_def)
  have abs: "IsAbs (distDir @ s) = IsAbs distDir" for s using assms(2) by (cases distDir) (simp_all add: IsAbs_def HasPrefix_def)
  have "Clean (spa_path distDir urlPath) = Clean (distDir @ ''/'' @ path_str (Clean urlPath))"
    unfolding spa_path_def by (rule Clean_Join) (simp_all add: assms)
  also have "\<dots> = (fst (Clean distDir), snd (Clean distDir) @ ?cs)"
    by (simp add: Clean_def [of "distDir @ _"] Clean_def [of distDir] str split rest abs clean_step_def)
  finally show ?thesis using cs by blast
qed

section \<open>Loading or panicking\<close>

definition MustLoad :: "(string + Config) \<Rightarrow> Config option" where
  "MustLoad parsed = (case Load parsed of Inl e \<Rightarrow> None | Inr c \<Rightarrow> Some c)"

end
