(* ===== verification/WebSocket.thy ===== *)
theory WebSocket
  imports WebInv
begin

text \<open>
  The websocket of a browser (\<open>httpapi/ws_handler.go\<close>): who may open it, the goroutines that fan the channels of its
  subscriptions into one queue, the pump that writes the queue to the socket and the loop that reads commands, over the
  subscriptions of \<open>PubSub\<close>. A read, a forward of one event and a write of one event are steps of their own.
\<close>

section \<open>The connection\<close>

datatype ws_out = Connected uuid | Event WSEvent | PongMessage

definition dispatch_cap :: nat where
  "dispatch_cap = 256"

record ws_client =
  wk_session :: ws_session
  wk_dispatch :: "WSEvent list"
  wk_readers :: "chan_id list"
    \<comment> \<open>the goroutines that read the channel of a subscription\<close>
  wk_writer :: bool
    \<comment> \<open>the write pump is running\<close>
  wk_out :: "ws_out list"
  wk_wfail :: "bool list"

text \<open>\<open>conn.WriteMessage\<close>; the script says which writes fail.\<close>

definition ws_write :: "ws_out \<Rightarrow> ws_client \<Rightarrow> bool \<times> ws_client" where
  "ws_write m k = (case wk_wfail k of
     True # w \<Rightarrow> (False, k\<lparr>wk_wfail := w\<rparr>)
   | False # w \<Rightarrow> (True, k\<lparr>wk_wfail := w, wk_out := wk_out k @ [m]\<rparr>)
   | [] \<Rightarrow> (True, k\<lparr>wk_out := wk_out k @ [m]\<rparr>))"

section \<open>Opening\<close>

text \<open>The token: the query, the header of the bearer, the name of the subprotocol.\<close>

definition ws_token :: "request \<Rightarrow> string" where
  "ws_token r =
    (let q = rq_query r ''token''; h = rq_header r ''Authorization'';
         t = (if q = '''' \<and> HasPrefix h ''Bearer '' then drop 7 h else q)
     in if t = '''' then rq_header r ''Sec-WebSocket-Protocol'' else t)"

definition ws_user :: "Dependencies \<Rightarrow> request \<Rightarrow> 'a web \<Rightarrow> string + uuid" where
  "ws_user deps r g =
    (if ws_token r = '''' then Inl ''unauthorized''
     else case VerifyToken (dp_http deps) (wb_jwt g) (wall_clock g) (ws_token r) of
       None \<Rightarrow> Inl ''invalid token''
     | Some claims \<Rightarrow> (case ExtractUserID (dp_http deps) claims of
         None \<Rightarrow> Inl ''invalid token claims''
       | Some userID \<Rightarrow> Inr userID))"

text \<open>
  \<open>up\<close> is \<open>None\<close> when the library upgraded the request, or the answer it sent; \<open>wfail\<close> says which writes to the
  socket will fail.
\<close>

definition handleWebSocket :: "Dependencies \<Rightarrow> response option \<Rightarrow> bool list \<Rightarrow> request \<Rightarrow> 'a web \<Rightarrow>
    (response \<times> ws_client option) \<times> 'a web" where
  "handleWebSocket deps up wfail r g = (case ws_user deps r g of
     Inl msg \<Rightarrow> ((httpError msg 401, None), g)
   | Inr userID \<Rightarrow> (case up of
       Some resp \<Rightarrow> ((resp, None), g)
     | None \<Rightarrow>
        let (fresh, g1) = NewUUID g;
            (s, b) = ws_open (uuid_str g1) userID fresh (WSMaxSubscriptions (dp_Config deps)) (ap_broker g1);
            k = \<lparr>wk_session = s, wk_dispatch = [], wk_readers = map snd (wss_active s), wk_writer = True, wk_out = [],
                 wk_wfail = wfail\<rparr>
        in ((\<lparr>rs_status = 101, rs_header = [], rs_body = BNone\<rparr>, Some (snd (ws_write (Connected userID) k))),
            g1\<lparr>ap_broker := b\<rparr>)))"

section \<open>Its goroutines\<close>

text \<open>
  One message of the client: nothing when it is no JSON object. A subscription starts a reader of the channel it is given,
  and the channels are numbered as they are made, so that the new readers are those from the old counter to the new.
\<close>

definition ws_read :: "ws_msg option \<Rightarrow> ws_client \<Rightarrow> 'a web \<Rightarrow> (ws_client \<times> 'a web) option" where
  "ws_read msg k g = (case msg of
     None \<Rightarrow> Some (k, g)
   | Some m \<Rightarrow> (case ws_handle m (wk_session k) (ap_broker g) of
       None \<Rightarrow> None
     | Some (s, b) \<Rightarrow>
         let k1 = k\<lparr>wk_session := s, wk_readers := wk_readers k @ [br_next (ap_broker g)..<br_next b]\<rparr>
         in Some (if wm_type m = ''ping'' then snd (ws_write PongMessage k1) else k1, g\<lparr>ap_broker := b\<rparr>)))"

text \<open>One round of the reader of a channel; \<open>None\<close> when it waits. A full queue drops the event.\<close>

definition ws_forward :: "chan_id \<Rightarrow> ws_client \<Rightarrow> 'a web \<Rightarrow> (ws_client \<times> 'a web) option" where
  "ws_forward c k g = (if c \<notin> set (wk_readers k) then None else
     (case receive c (ap_broker g) of
        None \<Rightarrow> None
      | Some (None, b) \<Rightarrow> Some (k\<lparr>wk_readers := removeAll c (wk_readers k)\<rparr>, g\<lparr>ap_broker := b\<rparr>)
      | Some (Some e, b) \<Rightarrow> Some (if length (wk_dispatch k) < dispatch_cap then k\<lparr>wk_dispatch := wk_dispatch k @ [e]\<rparr> else k,
            g\<lparr>ap_broker := b\<rparr>)))"

text \<open>One round of the write pump; \<open>marshals\<close> says which events \<open>json.Marshal\<close> accepts.\<close>

definition ws_pump :: "(WSEvent \<Rightarrow> bool) \<Rightarrow> ws_client \<Rightarrow> ws_client option" where
  "ws_pump marshals k = (if \<not> wk_writer k then None else
     (case wk_dispatch k of
        [] \<Rightarrow> None
      | e # es \<Rightarrow>
          let k1 = k\<lparr>wk_dispatch := es\<rparr> in
          if \<not> marshals e then Some k1
          else (case ws_write (Event e) k1 of
              (True, k2) \<Rightarrow> Some k2 | (False, k2) \<Rightarrow> Some (k2\<lparr>wk_writer := False\<rparr>))))"

text \<open>The end of the handler: the subscriptions of this subscriber are dropped. The queue is never closed.\<close>

definition ws_end :: "ws_client \<Rightarrow> 'a web \<Rightarrow> 'a web option" where
  "ws_end k g = map_option (\<lambda>b. g\<lparr>ap_broker := b\<rparr>) (ws_close (wk_session k) (ap_broker g))"

section \<open>Who hears what\<close>

lemma ws_open_sub:
  assumes "ws_open str u fresh n b = (s, b')"
  shows "wss_userID s = u" "wss_count s = 1" "wss_max s = n" "broker_inv b \<Longrightarrow> broker_inv b'"
  using assms Subscribe_inv by (auto simp: ws_open_def Let_def split_def)

text \<open>
  C4 (ws_strangers_listen): any user who is logged in hears the events of any job. A socket is opened for the user of a
  token that verifies and for nobody else; but the topics the client then names are not looked at. When the user of the socket
  subscribes to the topic of a job, whoever owns it, and the device reports that the job waits at a login page, the event with the
  page's origin and label is queued for the socket and the next rounds of reader and pump write it there.
\<close>

theorem ws_strangers_listen:
  fixes g :: "'a web"
  assumes open_ws: "handleWebSocket deps up wfail r g = ((resp, Some k), g1)"
    and g: "broker_inv (ap_broker g)" and room: "1 < WSMaxSubscriptions (dp_Config deps)" and writes: "wfail = []"
    and sub: "ws_read (Some \<lparr>wm_type = ''subscribe'', wm_topics = None, wm_topic = Some (JobTopic (uuid_str g) (jlr_job_id p))\<rparr>) k g1
      = Some (k2, g2)"
    and report: "gw_OnJobLoginRequired lb dev p g2 = (None, g3)" and json: "\<And>e. marshals e"
  shows "\<exists>claims u c k3 g4 k4 e. VerifyToken (dp_http deps) (wb_jwt g) (wall_clock g) (ws_token r) = Some claims \<and>
    ExtractUserID (dp_http deps) claims = Some u \<and>
    ws_forward c k2 g3 = Some (k3, g4) \<and> ws_pump marshals k3 = Some k4 \<and> wk_out k4 = [Connected u, Event e] \<and>
    ws_type e = ''job.login_required'' \<and> ws_payload e = lb_login_json lb \<lparr>wl_job_id = uuid_str g (jlr_job_id p),
      wl_origin = jlr_origin p, wl_label = jlr_label p, wl_login_kind = jlr_login_kind p, wl_at = lb_rfc3339 lb (wall_clock g)\<rparr>"
proof -
  let ?t = "JobTopic (uuid_str g) (jlr_job_id p)"
  obtain u where u: "ws_user deps r g = Inr u"
    using open_ws by (cases "ws_user deps r g") (auto simp: handleWebSocket_def)
  have up: "up = None" using open_ws u by (auto simp: handleWebSocket_def split: option.splits)
  obtain fresh g0 where f: "NewUUID g = (fresh, g0)" by fastforce
  then have g0: "ap_broker g0 = ap_broker g" "uuid_str g0 = uuid_str g" "wall_clock g0 = wall_clock g"
    by (auto simp: NewUUID_def)
  obtain s b where o: "ws_open (uuid_str g) u fresh (WSMaxSubscriptions (dp_Config deps)) (ap_broker g) = (s, b)" by fastforce
  have k: "wk_session k = s" "wk_dispatch k = []" "wk_writer k" "wk_out k = [Connected u]" "wk_wfail k = []"
    and g1: "g1 = g0\<lparr>ap_broker := b\<rparr>"
    using open_ws by (auto simp: handleWebSocket_def u up f g0 o writes ws_write_def)
  note s = ws_open_sub [OF o]
  have t: "?t \<noteq> []" by (simp add: JobTopic_def)
  obtain x b1 where x: "Subscribe b ?t (wss_subscriberID s) (wss_userID s) = (x, b1)" by fastforce
  have c: "sb_Ch x = br_next b" "br_next b1 = Suc (br_next b)" "ch_buf (br_chan b1 (br_next b)) = []"
    using x by (auto simp: Subscribe_def Let_def)
  have b1: "broker_inv b1" "sub_at b1 ?t (wss_subscriberID s) = Some x"
    using Subscribe_inv [OF s(4) [OF g], of ?t "wss_subscriberID s" "wss_userID s"] sub_at_Subscribe [of b ?t "wss_subscriberID s" "wss_userID s" ?t "wss_subscriberID s"] x
    by auto
  have k2: "wk_readers k2 = wk_readers k @ [br_next b]" "wk_dispatch k2 = []" "wk_writer k2" "wk_out k2 = [Connected u]"
      "wk_wfail k2 = []" and g2: "g2 = g0\<lparr>ap_broker := b1\<rparr>"
    using sub room s(2,3) c t by (auto simp: ws_read_def ws_handle_def ws_add_def k g1 x Let_def)
  define e where "e = \<lparr>ws_type = ''job.login_required'', ws_topic = ?t, ws_payload = lb_login_json lb
    \<lparr>wl_job_id = uuid_str g (jlr_job_id p), wl_origin = jlr_origin p, wl_label = jlr_label p, wl_login_kind = jlr_login_kind p,
     wl_at = lb_rfc3339 lb (wall_clock g)\<rparr>\<rparr>"
  obtain b2 where p: "Publish b1 ?t e = Some b2" using broker.publish_total [OF b1(1)] by blast
  obtain b3 where q: "PublishScoped b1 ?t u e = Some b3" using scoped.publish_total [OF b1(1)] by blast
  have "ch_buf (br_chan b2 (br_next b)) = [e]"
    using publish_delivers [OF b1(1) p q] b1(2) c by (fastforce simp: offered_def sub_chan_cap_def)
  moreover have g3: "g3 = g0\<lparr>ap_broker := b2\<rparr>"
    using report p by (simp add: gw_OnJobLoginRequired_def publish_event_def g2 g0 e_def)
  ultimately have fwd: "\<exists>g4. ws_forward (br_next b) k2 g3 = Some (k2\<lparr>wk_dispatch := [e]\<rparr>, g4)"
    by (simp add: ws_forward_def k2 receive_def dispatch_cap_def)
  have pump: "\<exists>k4. ws_pump marshals (k2\<lparr>wk_dispatch := [e]\<rparr>) = Some k4 \<and> wk_out k4 = [Connected u, Event e]"
    by (simp add: ws_pump_def k2 json ws_write_def Let_def)
  obtain claims where "VerifyToken (dp_http deps) (wb_jwt g) (wall_clock g) (ws_token r) = Some claims"
      "ExtractUserID (dp_http deps) claims = Some u"
    using u by (auto simp: ws_user_def split: if_splits option.splits)
  with fwd pump show ?thesis by (force simp: e_def)
qed

definition sample_listener :: request where
  "sample_listener = sample_request\<lparr>rq_query := \<lambda>_. ''t''\<rparr>"

definition sample_login :: JobLoginRequiredPayload where
  "sample_login = \<lparr>jlr_job_id = 5, jlr_event_seq = 0, jlr_origin = ''bank'', jlr_label = ''l'', jlr_login_kind = ''k''\<rparr>"

text \<open>User 1 listens to job 5 of user 9.\<close>

theorem ws_strangers_listen_witness:
  "\<exists>k g1 k2 g2 g3 c k3 g4 k4 e u. handleWebSocket sample_deps None [] sample_listener sample_web
       = ((\<lparr>rs_status = 101, rs_header = [], rs_body = BNone\<rparr>, Some k), g1) \<and>
     ws_read (Some \<lparr>wm_type = ''subscribe'', wm_topics = None, wm_topic = Some (JobTopic (uuid_str sample_web) 5)\<rparr>) k g1
       = Some (k2, g2) \<and> gw_OnJobLoginRequired (dp_libs sample_deps) 7 sample_login g2 = (None, g3) \<and>
     ws_forward c k2 g3 = Some (k3, g4) \<and> ws_pump (\<lambda>_. True) k3 = Some k4 \<and> wk_out k4 = [Connected u, Event e] \<and>
     ws_type e = ''job.login_required''"
proof -
  have v: "ws_user sample_deps sample_listener sample_web = Inr 1"
    by (simp add: ws_user_def ws_token_def sample_listener_def sample_deps_def sample_http_def sample_web_def VerifyToken_def
      verify_key_def sample_claims_def ExtractUserID_def hour_def minute_def second_def Let_def)
  then obtain k g1 where o: "handleWebSocket sample_deps None [] sample_listener sample_web
      = ((\<lparr>rs_status = 101, rs_header = [], rs_body = BNone\<rparr>, Some k), g1)"
    by (auto simp: handleWebSocket_def Let_def split_def)
  have room: "1 < WSMaxSubscriptions (dp_Config sample_deps)" by (simp add: sample_deps_def sample_config_def)
  have b: "broker_inv (ap_broker sample_web)" using sample_web_ok by (simp add: gateway_ok_def)
  let ?m = "\<lparr>wm_type = ''subscribe'', wm_topics = None, wm_topic = Some (JobTopic (uuid_str sample_web) (jlr_job_id sample_login))\<rparr>"
  obtain k2 g2 where r: "ws_read (Some ?m) k g1 = Some (k2, g2)"
    by (simp add: ws_read_def ws_handle_def Let_def split_def split: if_splits)
  obtain g3 where p: "gw_OnJobLoginRequired (dp_libs sample_deps) 7 sample_login g2 = (None, g3)"
    by (simp add: gw_OnJobLoginRequired_def)
  from ws_strangers_listen [OF o b room refl r p, of "\<lambda>_. True"] o r p show ?thesis
    by (auto simp: sample_login_def) blast
qed

end
