(* ===== verification/AllocRace.thy ===== *)
theory AllocRace
  imports PoolProps
begin

text \<open>
  \<open>Allocate\<close> of \<open>pool/allocator.go\<close> call by call: the allocator has no mutex, and looking for an idle agent and marking it
  busy are two calls of the database, each a transaction of its own. The lock \<open>FOR UPDATE SKIP LOCKED\<close> takes ends with the query.
\<close>

text \<open>The first part, up to the agent that was found, or the end of the call.\<close>

definition Allocate_find :: "'a pool Allocator \<Rightarrow> Job \<Rightarrow> 'a pool \<Rightarrow> ((err + Agent option) \<times> Job + Agent) \<times> 'a pool" where
  "Allocate_find al job g =
    (let (cap, g1) = (if 0 < al_maxQueue al then
        (case J_CountQueuedByUser (j_user_id job) g of
           (Inl e, g') \<Rightarrow> (Some e, g')
         | (Inr count, g') \<Rightarrow> (if al_maxQueue al \<le> int count then Some EQueueFull else None, g'))
        else (None, g)) in
     case cap of Some e \<Rightarrow> (Inl (Inl e, job), g1) | None \<Rightarrow>
     case A_FindIdle g1 of
       (Inl e, g2) \<Rightarrow> (Inl (Inl e, job), g2)
     | (Inr None, g2) \<Rightarrow>
         let now = wall_clock g2;
             job1 = job\<lparr>j_queued_at := Some now, j_queue_expires_at := Some (now + al_queueTTL al), j_status := JobQueued\<rparr>
         in (case J_GetQueuePosition (j_id job) g2 of
               (Inl e, g3) \<Rightarrow> (Inl (Inr None, job1), g3)
             | (Inr pos, g3) \<Rightarrow> (Inl (Inr None, job1\<lparr>j_queue_position := Some (int pos)\<rparr>), g3))
     | (Inr (Some agent), g2) \<Rightarrow> (Inr agent, g2))"

text \<open>The second part.\<close>

definition Allocate_take :: "Job \<Rightarrow> Agent \<Rightarrow> 'a pool \<Rightarrow> (err + Agent option) \<times> Job \<times> 'a pool" where
  "Allocate_take job agent g =
    (case A_Allocate (a_id agent) (j_user_id job) (j_id job) g of
       (Some e, g1) \<Rightarrow> (Inl e, job, g1)
     | (None, g1) \<Rightarrow>
         (Inr (Some (agent\<lparr>a_status := AgentBusy, a_user_id := Some (j_user_id job), a_job_id := Some (j_id job)\<rparr>)),
          job\<lparr>j_agent_id := Some (a_id agent), j_device_id := Some (a_device_id agent), j_status := JobDispatched\<rparr>, g1))"

lemma Allocate_split:
  "Allocate al job g = (case Allocate_find al job g of
     (Inl (r, job1), g1) \<Rightarrow> (r, job1, g1) | (Inr agent, g1) \<Rightarrow> Allocate_take job agent g1)"
  by (simp add: Allocate_def Allocate_find_def Allocate_take_def Let_def split: prod.splits sum.splits option.splits)

lemma find_agent:
  assumes "faults g = []" "\<not> capped al (j_user_id job) g" "next_agent g = Some a"
  shows "Allocate_find al job g = (Inr a, g)"
  using assms by (auto simp: Allocate_find_def Count_ok capped_def FindIdle_ok)

lemma take_agent:
  assumes "faults g = []" "has_job (j_id job) g"
  shows "Allocate_take job a g =
    (Inr (Some (a\<lparr>a_status := AgentBusy, a_user_id := Some (j_user_id job), a_job_id := Some (j_id job)\<rparr>)),
     job\<lparr>j_agent_id := Some (a_id a), j_device_id := Some (a_device_id a), j_status := JobDispatched\<rparr>,
     g\<lparr>agents_tab := sql_update (\<lambda>b. a_id b = a_id a) (taken (j_user_id job) (j_id job) (wall_clock g)) (agents_tab g)\<rparr>)"
  using assms by (simp add: Allocate_take_def A_Allocate_ok)

text \<open>
  C38 (allocation_race): one agent, two jobs. When two submissions interleave, the second looking for an agent before the first has
  marked the one it found, both calls succeed with the same agent and both jobs are dispatched to it; its row names the second job only,
  so the result of either job sets the agent idle, to be given away again, while the other job still runs there. When the calls come one after the
  other, the first takes the agent out of the reach of the second.
\<close>

theorem allocation_race:
  fixes g :: "'a pool"
  assumes "faults g = []" "\<not> capped al (j_user_id j1) g" "\<not> capped al (j_user_id j2) g"
    and "has_job (j_id j1) g" "has_job (j_id j2) g" "next_agent g = Some a"
  shows "\<exists>b1 k1 g1 b2 k2 g2. Allocate_find al j1 g = (Inr a, g) \<and> Allocate_find al j2 g = (Inr a, g) \<and>
    Allocate_take j1 a g = (Inr (Some b1), k1, g1) \<and> Allocate_take j2 a g1 = (Inr (Some b2), k2, g2) \<and>
    j_status k1 = JobDispatched \<and> j_agent_id k1 = Some (a_id a) \<and>
    j_status k2 = JobDispatched \<and> j_agent_id k2 = Some (a_id a) \<and>
    (\<forall>b \<in> set (agents_tab g2). a_id b = a_id a \<longrightarrow> a_job_id b = Some (j_id j2)) \<and>
    (\<forall>b \<in> set (agents_tab (snd (Release (a_id a) g2))). a_id b = a_id a \<longrightarrow> a_status b = AgentIdle \<and> a_user_id b = None) \<and>
    Allocate al j1 g = (Inr (Some b1), k1, g1) \<and> (\<forall>b \<in> set (idle_agents g1). a_id b \<noteq> a_id a)"
proof -
  define g1 where "g1 = g\<lparr>agents_tab := sql_update (\<lambda>b. a_id b = a_id a) (taken (j_user_id j1) (j_id j1) (wall_clock g)) (agents_tab g)\<rparr>"
  define g2 where "g2 = g1\<lparr>agents_tab := sql_update (\<lambda>b. a_id b = a_id a) (taken (j_user_id j2) (j_id j2) (wall_clock g1)) (agents_tab g1)\<rparr>"
  note find = find_agent [OF assms(1,2,6)] find_agent [OF assms(1,3,6)]
  note t1 = take_agent [OF assms(1,4), of a, folded g1_def]
  have "faults g1 = []" "has_job (j_id j2) g1" using assms(1,5) by (simp_all add: g1_def has_job_def)
  note t2 = take_agent [OF this, of a, folded g2_def]
  have row: "a_job_id b = Some (j_id j2)" if "b \<in> set (agents_tab g2)" "a_id b = a_id a" for b
    using that by (auto simp: g2_def sql_update_def taken_def split: if_splits)
  have "faults g2 = []" using assms(1) by (simp add: g1_def g2_def)
  then have free: "a_status b = AgentIdle \<and> a_user_id b = None"
    if "b \<in> set (agents_tab (snd (Release (a_id a) g2)))" "a_id b = a_id a" for b
    using that by (auto simp: Release_def A_Release_def db_ok Let_def sql_update_def split: if_splits)
  have away: "a_id b \<noteq> a_id a" if "b \<in> set (idle_agents g1)" for b
    using that by (auto simp: idle_agents_def g1_def sql_update_def taken_def split: if_splits)
  have whole: "Allocate al j1 g = Allocate_take j1 a g" by (simp add: Allocate_split find)
  show ?thesis using find t1 t2 row free away unfolding whole by (intro exI conjI) (assumption | simp)+
qed

text \<open>The one agent of a pool with two pending jobs.\<close>

definition race_pool :: PoolState where
  "race_pool = offline_pool\<lparr>jobs_tab := [sample_job 5 JobPending, sample_job 6 JobPending]\<rparr>"

theorem allocation_race_witness:
  "\<exists>b1 k1 g1 b2 k2 g2. Allocate_take (sample_job 5 JobPending) (sample_agent 3 7) race_pool = (Inr (Some b1), k1, g1) \<and>
     Allocate_take (sample_job 6 JobPending) (sample_agent 3 7) g1 = (Inr (Some b2), k2, g2) \<and>
     j_agent_id k1 = Some 3 \<and> j_agent_id k2 = Some 3"
proof -
  have d: "faults race_pool = []" "\<not> capped (NewAllocator hour 5) 9 race_pool" "has_job 5 race_pool" "has_job 6 race_pool"
    "next_agent race_pool = Some (sample_agent 3 7)"
    by (simp_all add: race_pool_def samples capped_def queued_of_def sql_count_def NewAllocator_def has_job_def idle_agents_def)

  have j: "j_user_id (sample_job i st) = 9" "j_id (sample_job i st) = i" "a_id (sample_agent 3 7) = 3" for i st
    by (simp_all add: sample_job_def sample_agent_def)
  from allocation_race [of race_pool "NewAllocator hour 5" "sample_job 5 JobPending" "sample_job 6 JobPending", unfolded j, OF d(1,2,2,3,4,5)]
  show ?thesis by (auto simp: j)
qed

end
